(* ===== verification/PyBase.thy ===== *)
theory PyBase
  imports Main "HOL-Library.Char_ord" "HOL-Library.List_Lexorder" "HOL-Library.Sublist"
begin

text \<open>
  Shared prelude: the Python and JSON values the control plane passes around, dictionaries in
  insertion order, the string methods and character classes its guards use, exceptions as values,
  and the interfaces (dictionary, codec, durable store) that the components rely on.

  Strings are lists of characters read as code points below 256. A float is represented by what
  the programs can observe of it, its \<open>repr\<close> and its truncation (none for nan and the
  infinities).
\<close>

section \<open>Values\<close>

datatype json =
    JNull
  | JBool bool
  | JInt int
  | JFloat string "int option"
  | JStr string
  | JArr "json list"
  | JObj "(string \<times> json) list"

type_synonym dict = "(string \<times> json) list"

text \<open>What a Python function can raise: the program's own errors, and the built-in ones.\<close>

datatype exn =
    RouterError string
  | RegistryError string
  | RuntimeError string
  | CompletionError string "int option"
  | SyncError string
  | DbError string
  | PyError string

type_synonym 'a res = "exn + 'a"

named_theorems dict_simps \<open>lookups in updated dictionaries\<close>
named_theorems codec_simps \<open>decoding what was encoded\<close>

section \<open>Dictionaries\<close>

text \<open>
  A Python dict keeps insertion order; assigning to a present key keeps the key's place.
\<close>

fun dget :: "('k \<times> 'v) list \<Rightarrow> 'k \<Rightarrow> 'v option" where
  "dget [] k = None"
| "dget ((a, v) # d) k = (if a = k then Some v else dget d k)"

fun dset :: "'k \<Rightarrow> 'v \<Rightarrow> ('k \<times> 'v) list \<Rightarrow> ('k \<times> 'v) list" where
  "dset k v [] = [(k, v)]"
| "dset k v ((a, w) # d) = (if a = k then (a, v) # d else (a, w) # dset k v d)"

definition ddel :: "'k \<Rightarrow> ('k \<times> 'v) list \<Rightarrow> ('k \<times> 'v) list" where
  "ddel k d = filter (\<lambda>p. fst p \<noteq> k) d"

definition dhas :: "('k \<times> 'v) list \<Rightarrow> 'k \<Rightarrow> bool" where
  "dhas d k \<longleftrightarrow> dget d k \<noteq> None"

definition keys_of :: "('k \<times> 'v) list \<Rightarrow> 'k list" where
  "keys_of d = map fst d"

text \<open>\<open>d.get(k, default)\<close>, and \<open>d.get(k)\<close> whose default is \<open>None\<close>.\<close>

definition dget_or :: "dict \<Rightarrow> string \<Rightarrow> json \<Rightarrow> json" where
  "dget_or d k x = (case dget d k of None \<Rightarrow> x | Some v \<Rightarrow> v)"

definition dget_py :: "dict \<Rightarrow> string \<Rightarrow> json" where
  "dget_py d k = dget_or d k JNull"

lemma keys_of_simps [simp]: "keys_of [] = []" "keys_of (p # d) = fst p # keys_of d"
  by (simp_all add: keys_of_def)

lemma dget_dset [simp, dict_simps]: "dget (dset k v d) k' = (if k' = k then Some v else dget d k')"
  by (induction d) auto

lemma dget_ddel [simp, dict_simps]: "dget (ddel k d) k' = (if k' = k then None else dget d k')"
  by (induction d) (auto simp: ddel_def)

lemma dget_append: "dget (d @ e) k = (case dget d k of None \<Rightarrow> dget e k | Some v \<Rightarrow> Some v)"
  by (induction d) auto

lemma set_keys_dset [simp]: "set (keys_of (dset k v d)) = insert k (set (keys_of d))"
proof (induction d)
  case (Cons p d)
  then show ?case by (cases p) (simp add: insert_commute)
qed simp

lemma distinct_keys_dset: "distinct (keys_of d) \<Longrightarrow> distinct (keys_of (dset k v d))"
proof (induction d)
  case (Cons p d)
  then show ?case by (cases p) (auto split: if_splits)
qed simp

lemma set_keys_ddel [simp]: "set (keys_of (ddel k d)) = set (keys_of d) - {k}"
  by (auto simp: keys_of_def ddel_def)

lemma distinct_keys_ddel: "distinct (keys_of d) \<Longrightarrow> distinct (keys_of (ddel k d))"
  by (simp add: keys_of_def ddel_def distinct_map_filter)

lemma dget_None_iff: "dget d k = None \<longleftrightarrow> k \<notin> set (keys_of d)"
  by (induction d) (auto split: if_splits)

lemma key_of_pair: "(k, v) \<in> set d \<Longrightarrow> k \<in> set (keys_of d)"
  by (force simp: keys_of_def)

lemma dget_Some_iff:
  "distinct (keys_of d) \<Longrightarrow> dget d k = Some v \<longleftrightarrow> (k, v) \<in> set d"
  by (induction d) (auto dest: key_of_pair split: if_splits)

lemma dget_Some_mem: "dget d k = Some v \<Longrightarrow> (k, v) \<in> set d"
  by (induction d) (auto split: if_splits)

lemma dset_new: "k \<notin> set (keys_of d) \<Longrightarrow> dset k v d = d @ [(k, v)]"
  by (induction d) auto

lemma dset_same: "dget d k = Some v \<Longrightarrow> dset k v d = d"
  by (induction d) (auto split: if_splits)

lemma set_ddel: "set (ddel k d) = {p \<in> set d. fst p \<noteq> k}"
  by (simp add: ddel_def)

lemma length_ddel: "length (ddel k d) \<le> length d"
  by (simp add: ddel_def)

lemma length_ddel_less: "k \<in> set (keys_of d) \<Longrightarrow> length (ddel k d) < length d"
  by (force simp: keys_of_def ddel_def intro: length_filter_less)

lemma length_dset: "length (dset k v d) = (if k \<in> set (keys_of d) then length d else Suc (length d))"
  by (induction d) auto

section \<open>Truth, equality and conversion of values\<close>

definition truthy :: "json \<Rightarrow> bool" where
  "truthy v = (case v of
      JNull \<Rightarrow> False
    | JBool b \<Rightarrow> b
    | JInt i \<Rightarrow> i \<noteq> 0
    | JFloat r t \<Rightarrow> r \<noteq> ''0.0'' \<and> r \<noteq> ''-0.0''
    | JStr s \<Rightarrow> s \<noteq> []
    | JArr xs \<Rightarrow> xs \<noteq> []
    | JObj d \<Rightarrow> d \<noteq> [])"

text \<open>\<open>a or b\<close> on values.\<close>

definition py_or :: "json \<Rightarrow> json \<Rightarrow> json" where
  "py_or a b = (if truthy a then a else b)"

fun digit_value :: "char \<Rightarrow> int" where
  "digit_value c = int (of_char c) - 48"

section \<open>Characters and strings\<close>

definition code :: "char \<Rightarrow> nat" where
  "code c = of_char c"

definition is_lower :: "char \<Rightarrow> bool" where
  "is_lower c \<longleftrightarrow> 97 \<le> code c \<and> code c \<le> 122"

definition is_upper :: "char \<Rightarrow> bool" where
  "is_upper c \<longleftrightarrow> 65 \<le> code c \<and> code c \<le> 90"

definition is_digit :: "char \<Rightarrow> bool" where
  "is_digit c \<longleftrightarrow> 48 \<le> code c \<and> code c \<le> 57"

definition is_alnum :: "char \<Rightarrow> bool" where
  "is_alnum c \<longleftrightarrow> is_lower c \<or> is_upper c \<or> is_digit c"

text \<open>What \<open>str.strip\<close> removes: the code points below 256 that Python counts as space.\<close>

definition is_space :: "char \<Rightarrow> bool" where
  "is_space c \<longleftrightarrow> (let n = code c in
     (9 \<le> n \<and> n \<le> 13) \<or> (28 \<le> n \<and> n \<le> 32) \<or> n = 133 \<or> n = 160)"

definition py_lstrip :: "string \<Rightarrow> string" where
  "py_lstrip s = dropWhile is_space s"

definition py_rstrip :: "string \<Rightarrow> string" where
  "py_rstrip s = rev (dropWhile is_space (rev s))"

definition py_strip :: "string \<Rightarrow> string" where
  "py_strip s = py_rstrip (py_lstrip s)"

text \<open>
  \<open>str.casefold\<close>: ASCII and Latin-1 capitals are lowered and the sharp s becomes
  \<open>ss\<close>. The micro sign, whose folding leaves the range of \<open>char\<close>, is kept; it
  equals only itself either way.
\<close>

definition fold_char :: "char \<Rightarrow> string" where
  "fold_char c = (let n = code c in
     if (65 \<le> n \<and> n \<le> 90) \<or> (192 \<le> n \<and> n \<le> 222 \<and> n \<noteq> 215) then [char_of (n + 32)]
     else if n = 223 then ''ss'' else [c])"

definition casefold :: "string \<Rightarrow> string" where
  "casefold s = concat (map fold_char s)"

definition is_ascii :: "string \<Rightarrow> bool" where
  "is_ascii s \<longleftrightarrow> list_all (\<lambda>c. code c < 128) s"

text \<open>\<open>str.isdigit\<close>: the superscripts count as digits too.\<close>

definition py_isdigit :: "string \<Rightarrow> bool" where
  "py_isdigit s \<longleftrightarrow> s \<noteq> [] \<and>
     list_all (\<lambda>c. is_digit c \<or> code c = 178 \<or> code c = 179 \<or> code c = 185) s"

definition digits_value :: "string \<Rightarrow> int" where
  "digits_value s = foldl (\<lambda>n c. 10 * n + digit_value c) 0 s"

definition starts_with :: "string \<Rightarrow> string \<Rightarrow> bool" where
  "starts_with s p \<longleftrightarrow> take (length p) s = p"

text \<open>\<open>needle in haystack\<close> for strings.\<close>

fun contains :: "string \<Rightarrow> string \<Rightarrow> bool" where
  "contains p [] = (p = [])"
| "contains p (c # s) = (starts_with (c # s) p \<or> contains p s)"

text \<open>\<open>s.partition(sep)\<close> for a one-character separator: what precedes it, and what follows.\<close>

definition before_char :: "char \<Rightarrow> string \<Rightarrow> string" where
  "before_char c s = takeWhile (\<lambda>x. x \<noteq> c) s"

definition after_char :: "char \<Rightarrow> string \<Rightarrow> string" where
  "after_char c s = tl (dropWhile (\<lambda>x. x \<noteq> c) s)"

fun nat_digits :: "nat \<Rightarrow> string" where
  "nat_digits n = (if n < 10 then [char_of (48 + n)]
     else nat_digits (n div 10) @ [char_of (48 + n mod 10)])"

declare nat_digits.simps [simp del]

definition int_str :: "int \<Rightarrow> string" where
  "int_str i = (if i < 0 then ''-'' @ nat_digits (nat (- i)) else nat_digits (nat i))"

text \<open>\<open>repr\<close> of a string: the quote that avoids escaping, and escapes for what is not printable.\<close>

definition hex_digit :: "nat \<Rightarrow> char" where
  "hex_digit n = (if n < 10 then char_of (48 + n) else char_of (87 + n))"

definition repr_char :: "char \<Rightarrow> char \<Rightarrow> string" where
  "repr_char q c = (let n = code c in
     if c = q \<or> n = 92 then [char_of (92::nat), c]
     else if n = 10 then [char_of (92::nat), CHR ''n'']
     else if n = 13 then [char_of (92::nat), CHR ''r'']
     else if n = 9 then [char_of (92::nat), CHR ''t'']
     else if n < 32 \<or> (127 \<le> n \<and> n \<le> 160) \<or> n = 173
       then [char_of (92::nat), CHR ''x'', hex_digit (n div 16), hex_digit (n mod 16)]
     else [c])"

definition py_repr_str :: "string \<Rightarrow> string" where
  "py_repr_str s = (let single = char_of (39::nat); double = char_of (34::nat);
       q = (if single \<in> set s \<and> double \<notin> set s then double else single)
     in q # concat (map (repr_char q) s) @ [q])"

text \<open>The number of items an iteration over a value visits; other values are not iterable.\<close>

definition py_iter_len :: "json \<Rightarrow> nat res" where
  "py_iter_len v = (case v of JArr xs \<Rightarrow> Inr (length xs) | JObj d \<Rightarrow> Inr (length d)
     | JStr s \<Rightarrow> Inr (length s) | _ \<Rightarrow> Inl (PyError ''TypeError''))"

text \<open>Lists and dicts cannot be looked up in a set literal.\<close>

definition unhashable :: "json \<Rightarrow> bool" where
  "unhashable v = (case v of JArr _ \<Rightarrow> True | JObj _ \<Rightarrow> True | _ \<Rightarrow> False)"

text \<open>\<open>int(x)\<close>: strings may carry surrounding space, a sign and single underscores.\<close>

fun int_digits :: "bool \<Rightarrow> string \<Rightarrow> string option" where
  "int_digits after_digit [] = (if after_digit then Some [] else None)"
| "int_digits after_digit (c # s) =
     (if is_digit c then map_option (\<lambda>r. c # r) (int_digits True s)
      else if c = CHR ''_'' \<and> after_digit then int_digits False s
      else None)"

definition parse_int :: "string \<Rightarrow> int option" where
  "parse_int raw = (let s = py_strip raw;
       negative = (case s of c # _ \<Rightarrow> c = CHR ''-'' | [] \<Rightarrow> False);
       body = (case s of c # r \<Rightarrow> if c = CHR ''-'' \<or> c = CHR ''+'' then r else s | [] \<Rightarrow> [])
     in case int_digits False body of
          None \<Rightarrow> None
        | Some ds \<Rightarrow> if length ds > 4300 then None
            else Some (if negative then - digits_value ds else digits_value ds))"

definition py_int :: "json \<Rightarrow> int res" where
  "py_int v = (case v of
      JInt i \<Rightarrow> Inr i
    | JBool b \<Rightarrow> Inr (if b then 1 else 0)
    | JFloat r t \<Rightarrow> (case t of Some i \<Rightarrow> Inr i
        | None \<Rightarrow> Inl (PyError (if r = ''nan'' then ''ValueError'' else ''OverflowError'')))
    | JStr s \<Rightarrow> (case parse_int s of Some i \<Rightarrow> Inr i | None \<Rightarrow> Inl (PyError ''ValueError''))
    | _ \<Rightarrow> Inl (PyError ''TypeError''))"

text \<open>\<open>repr\<close> and \<open>str\<close> of a value.\<close>

fun join_with :: "string \<Rightarrow> string list \<Rightarrow> string" where
  "join_with sep [] = []"
| "join_with sep [s] = s"
| "join_with sep (s # ss) = s @ sep @ join_with sep ss"

fun py_repr :: "json \<Rightarrow> string" where
  "py_repr JNull = ''None''"
| "py_repr (JBool b) = (if b then ''True'' else ''False'')"
| "py_repr (JInt i) = int_str i"
| "py_repr (JFloat r t) = r"
| "py_repr (JStr s) = py_repr_str s"
| "py_repr (JArr xs) = ''['' @ join_with '', '' (map py_repr xs) @ '']''"
| "py_repr (JObj ps) = ''{'' @ join_with '', '' (map (\<lambda>p. py_repr_str (fst p) @ '': '' @ py_repr (snd p)) ps) @ ''}''"

definition py_str :: "json \<Rightarrow> string" where
  "py_str v = (case v of JStr s \<Rightarrow> s | _ \<Rightarrow> py_repr v)"

text \<open>The items an iteration over a value visits.\<close>

definition py_iter :: "json \<Rightarrow> json list res" where
  "py_iter v = (case v of
      JArr xs \<Rightarrow> Inr xs
    | JObj d \<Rightarrow> Inr (map (\<lambda>p. JStr (fst p)) d)
    | JStr s \<Rightarrow> Inr (map (\<lambda>c. JStr [c]) s)
    | _ \<Rightarrow> Inl (PyError ''TypeError''))"

text \<open>\<open>xs[-n:]\<close> for a positive \<open>n\<close>.\<close>

definition last_n :: "int \<Rightarrow> 'a list \<Rightarrow> 'a list" where
  "last_n n xs = drop (length xs - nat n) xs"

definition fixed_length :: "nat \<Rightarrow> nat \<Rightarrow> string \<Rightarrow> bool" where
  "fixed_length lo hi s \<longleftrightarrow> lo \<le> length s \<and> length s \<le> hi"

lemma py_strip_id:
  assumes "list_all (\<lambda>c. \<not> is_space c) s"
  shows "py_strip s = s"
proof -
  have "dropWhile is_space xs = xs" if "list_all (\<lambda>c. \<not> is_space c) xs" for xs
    using that by (cases xs) auto
  moreover from assms have "list_all (\<lambda>c. \<not> is_space c) (rev s)" by simp
  ultimately show ?thesis using assms by (simp add: py_strip_def py_lstrip_def py_rstrip_def)
qed

lemma alnum_not_space: "is_alnum c \<Longrightarrow> \<not> is_space c"
  by (auto simp: is_alnum_def is_lower_def is_upper_def is_digit_def is_space_def Let_def)

lemma last_n_id: "int (length xs) \<le> n \<Longrightarrow> last_n n xs = xs"
  by (simp add: last_n_def)

lemma length_last_n: "0 \<le> n \<Longrightarrow> int (length (last_n n xs)) \<le> n"
  by (simp add: last_n_def)

lemma set_last_n: "set (last_n n xs) \<subseteq> set xs"
  by (simp add: last_n_def set_drop_subset)

lemma last_n_append1: "0 < n \<Longrightarrow> x \<in> set (last_n n (xs @ [x]))"
proof -
  assume "0 < n"
  then have "length xs + 1 - nat n \<le> length xs" by linarith
  then show ?thesis by (simp add: last_n_def)
qed

lemma distinct_map_last_n: "distinct (map f xs) \<Longrightarrow> distinct (map f (last_n n xs))"
  by (simp add: last_n_def drop_map [symmetric])

section \<open>Sorting with a key\<close>

lemma sort_key_sorted: "sorted (map f xs) \<Longrightarrow> sort_key f xs = xs"
proof (induction xs)
  case (Cons x xs)
  then have "sort_key f xs = xs" and "\<forall>y \<in> set xs. f x \<le> f y" by auto
  then show ?case by (cases xs) (simp_all add: sort_key_def)
qed simp

lemma sort_key_idem: "sort_key f (sort_key f xs) = sort_key f xs"
  by (rule sort_key_sorted) simp

section \<open>Interfaces\<close>

subsection \<open>Dictionary\<close>

text \<open>The operations of a dictionary and the laws its clients use.\<close>

locale dictionary =
  fixes lookup :: "'d \<Rightarrow> 'k \<Rightarrow> 'v option"
    and insert_at :: "'k \<Rightarrow> 'v \<Rightarrow> 'd \<Rightarrow> 'd"
    and remove_at :: "'k \<Rightarrow> 'd \<Rightarrow> 'd"
    and dict_keys :: "'d \<Rightarrow> 'k set"
  assumes lookup_insert: "lookup (insert_at k v d) = (lookup d)(k \<mapsto> v)"
    and lookup_remove: "lookup (remove_at k d) = (lookup d)(k := None)"
    and dom_lookup: "dom (lookup d) = dict_keys d"
begin

lemma lookup_insert_other: "k' \<noteq> k \<Longrightarrow> lookup (insert_at k v d) k' = lookup d k'"
  by (simp add: lookup_insert)

lemma remove_insert_lookup: "lookup (remove_at k (insert_at k v d)) = lookup (remove_at k d)"
  by (simp add: lookup_insert lookup_remove)

lemma insert_insert_lookup: "lookup (insert_at k v (insert_at k w d)) = lookup (insert_at k v d)"
  by (simp add: lookup_insert)

lemma lookup_key: "k \<in> dict_keys d \<longleftrightarrow> (\<exists>v. lookup d k = Some v)"
  using dom_lookup [of d] by auto

lemma keys_remove: "dict_keys (remove_at k d) = dict_keys d - {k}"
  using dom_lookup [of d] dom_lookup [of "remove_at k d"] by (simp add: lookup_remove)

end

interpretation pydict: dictionary dget dset ddel "\<lambda>d. set (keys_of d)"
proof unfold_locales
  show "dget (dset k v d) = (dget d)(k \<mapsto> v)" for k v and d :: "('a \<times> 'b) list"
    by (rule ext) simp
  show "dget (ddel k d) = (dget d)(k := None)" for k and d :: "('a \<times> 'b) list"
    by (rule ext) simp
  show "dom (dget d) = set (keys_of d)" for d :: "('a \<times> 'b) list"
    using dget_None_iff [of d] by (auto simp: dom_def)
qed

subsection \<open>Codec\<close>

text \<open>
  Values written to a file are read back by a validating decoder. The law is that the decoder
  accepts every good value and gives its canonical form; the client lemmas lift it to lists,
  where the decoder drops what it does not accept.
\<close>

locale codec =
  fixes enc :: "'a \<Rightarrow> json"
    and dec :: "json \<Rightarrow> 'a option"
    and canon :: "'a \<Rightarrow> 'a"
    and good :: "'a \<Rightarrow> bool"
  assumes dec_enc: "good x \<Longrightarrow> dec (enc x) = Some (canon x)"
    and canon_idem: "canon (canon x) = canon x"
    and good_canon: "good x \<Longrightarrow> good (canon x)"
begin

lemma decode_list: "list_all good xs \<Longrightarrow> List.map_filter dec (map enc xs) = map canon xs"
  by (induction xs) (simp_all add: dec_enc List.map_filter_def)

text \<open>Writing what was read and reading it again changes nothing.\<close>

lemma decode_stable: "good x \<Longrightarrow> dec (enc x) = Some y \<Longrightarrow> dec (enc y) = Some y"
  using dec_enc [of x] dec_enc [OF good_canon, of x] canon_idem [of x] by auto

lemma enc_inj: "good x \<Longrightarrow> good y \<Longrightarrow> enc x = enc y \<Longrightarrow> canon x = canon y"
  by (metis dec_enc option.inject)

end

subsection \<open>Durable store\<close>

text \<open>
  A state file: what was saved is what the next load returns, on any earlier content.
\<close>

locale durable_store =
  fixes load :: "'f \<Rightarrow> 'e + 'v"
    and save :: "'v \<Rightarrow> 'f"
    and storable :: "'v \<Rightarrow> bool"
  assumes load_save: "storable v \<Longrightarrow> load (save v) = Inr v"
    and load_storable: "load f = Inr v \<Longrightarrow> storable v"
begin

lemma save_inj: "storable v \<Longrightarrow> storable w \<Longrightarrow> save v = save w \<Longrightarrow> v = w"
  by (metis load_save sum.inject(2))

text \<open>A read-modify-write step sees the value the step before it wrote.\<close>

definition update_file :: "('v \<Rightarrow> 'v) \<Rightarrow> 'f \<Rightarrow> 'e + 'f" where
  "update_file g f = (case load f of Inl e \<Rightarrow> Inl e | Inr v \<Rightarrow> Inr (save (g v)))"

lemma update_twice:
  assumes keeps: "\<And>v. storable v \<Longrightarrow> storable (g v)" and first: "update_file g f = Inr f'"
  shows "update_file h f' = update_file (h \<circ> g) f"
  using first by (auto simp: update_file_def load_save keeps load_storable split: sum.splits)

end

section \<open>JSON text\<close>

text \<open>
  \<open>json.loads(raw, object_pairs_hook=_reject_duplicate_pairs)\<close>: the well-formed text is
  given by its syntax tree, in which an object still has all its pairs; the hook runs on every
  object, innermost first, and refuses a repeated key.
\<close>

fun reject_duplicate_pairs :: "(string \<times> json) list \<Rightarrow> dict \<Rightarrow> dict option" where
  "reject_duplicate_pairs [] value = Some value"
| "reject_duplicate_pairs ((key, item) # pairs) value =
     (if dhas value key then None else reject_duplicate_pairs pairs (dset key item value))"

fun json_loads :: "json \<Rightarrow> json option" where
  "json_loads (JArr xs) =
     (if list_all (\<lambda>x. json_loads x \<noteq> None) xs
      then Some (JArr (map (\<lambda>x. the (json_loads x)) xs)) else None)"
| "json_loads (JObj ps) =
     (if list_all (\<lambda>p. json_loads (snd p) \<noteq> None) ps
      then map_option JObj (reject_duplicate_pairs (map (\<lambda>p. (fst p, the (json_loads (snd p)))) ps) [])
      else None)"
| "json_loads v = Some v"

text \<open>A tree with no repeated key anywhere is accepted unchanged.\<close>

fun json_wf :: "json \<Rightarrow> bool" where
  "json_wf (JArr xs) = list_all json_wf xs"
| "json_wf (JObj ps) = (distinct (map fst ps) \<and> list_all (\<lambda>p. json_wf (snd p)) ps)"
| "json_wf v = True"

lemma reject_duplicate_pairs_distinct:
  "distinct (map fst (value @ ps)) \<Longrightarrow> reject_duplicate_pairs ps value = Some (value @ ps)"
proof (induction ps arbitrary: "value")
  case (Cons p ps)
  obtain k v where p: "p = (k, v)" by fastforce
  with Cons.prems have k: "k \<notin> set (keys_of value)" by (auto simp: keys_of_def)
  then have "\<not> dhas value k" by (simp add: dhas_def dget_None_iff)
  moreover have "dset k v value = value @ [p]" using k p by (simp add: dset_new)
  ultimately show ?case using p Cons.IH [of "value @ [p]"] Cons.prems by simp
qed simp

lemma reject_duplicate_pairs_dups:
  "reject_duplicate_pairs ps value = Some d \<Longrightarrow>
   distinct (map fst ps) \<and> set (map fst ps) \<inter> set (map fst value) = {}"
proof (induction ps arbitrary: "value")
  case (Cons p ps)
  obtain k v where p: "p = (k, v)" by fastforce
  with Cons.prems have k: "k \<notin> set (keys_of value)"
    and r: "reject_duplicate_pairs ps (dset k v value) = Some d"
    by (auto simp: dhas_def dget_None_iff split: if_splits)
  from Cons.IH [OF r] set_keys_dset [of k v "value"] k p show ?case
    by (auto simp: keys_of_def)
qed simp

lemma json_loads_wf: "json_wf v \<Longrightarrow> json_loads v = Some v"
proof (induction v rule: json_wf.induct)
  case (1 xs)
  then have a: "\<forall>x \<in> set xs. json_loads x = Some x" by (auto simp: list_all_iff)
  then have "map (\<lambda>x. the (json_loads x)) xs = xs" by (simp add: map_idI)
  with a show ?case by (simp add: list_all_iff)
next
  case (2 ps)
  then have a: "\<forall>p \<in> set ps. json_loads (snd p) = Some (snd p)" by (auto simp: list_all_iff)
  then have m: "map (\<lambda>p. (fst p, the (json_loads (snd p)))) ps = ps" by (simp add: map_idI)
  from 2 have "reject_duplicate_pairs ps [] = Some ps"
    by (simp add: reject_duplicate_pairs_distinct)
  with a m show ?case by (simp add: list_all_iff)
qed simp_all

lemma reject_duplicate_pairs_keys:
  "reject_duplicate_pairs ps value = Some d \<Longrightarrow> d = value @ ps"
proof (induction ps arbitrary: "value")
  case (Cons p ps)
  obtain k v where p: "p = (k, v)" by fastforce
  with Cons.prems have "k \<notin> set (keys_of value)" and "reject_duplicate_pairs ps (dset k v value) = Some d"
    by (auto simp: dhas_def dget_None_iff split: if_splits)
  with Cons.IH [of "dset k v value"] p show ?case by (simp add: dset_new)
qed simp

lemma json_loads_result_wf: "json_loads v = Some w \<Longrightarrow> json_wf w"
proof (induction v arbitrary: w rule: json_loads.induct)
  case (1 xs)
  then show ?case by (auto simp: list_all_iff split: if_splits)
next
  case (2 ps)
  let ?qs = "map (\<lambda>p. (fst p, the (json_loads (snd p)))) ps"
  from "2.prems" obtain d where w: "w = JObj d" and d: "reject_duplicate_pairs ?qs [] = Some d"
    and all: "\<forall>p \<in> set ps. json_loads (snd p) \<noteq> None"
    by (auto simp: list_all_iff split: if_splits)
  from reject_duplicate_pairs_keys [OF d] have "d = ?qs" by simp
  moreover from reject_duplicate_pairs_dups [OF d] have "distinct (map fst ?qs)" by simp
  moreover have "json_wf (the (json_loads (snd p)))" if "p \<in> set ps" for p
    using "2.IH"(1) [OF that] all that by auto
  ultimately show ?case using w by (auto simp: list_all_iff)
qed simp_all

lemma json_wf_dget: "json_wf (JObj d) \<Longrightarrow> dget d k = Some v \<Longrightarrow> json_wf v"
  by (auto simp: list_all_iff dest!: dget_Some_mem)

lemma json_wf_dset: "json_wf (JObj d) \<Longrightarrow> json_wf v \<Longrightarrow> json_wf (JObj (dset k v d))"
proof (induction d)
  case (Cons p d)
  obtain a w where p: "p = (a, w)" by fastforce
  have "set (map fst (dset k v d)) = insert k (set (map fst d))"
    using set_keys_dset [of k v d] by (simp add: keys_of_def)
  with Cons p show ?case by auto
qed simp

lemma json_loads_distinct: "json_loads (JObj ps) = Some v \<Longrightarrow> distinct (map fst ps)"
  by (auto split: if_splits dest!: reject_duplicate_pairs_dups simp: comp_def)

text \<open>\<open>json.loads\<close> without a hook: the last of several equal keys wins.\<close>

fun json_plain :: "json \<Rightarrow> json" where
  "json_plain (JArr xs) = JArr (map json_plain xs)"
| "json_plain (JObj ps) = JObj (foldl (\<lambda>d (k, v). dset k v d) [] (map (\<lambda>p. (fst p, json_plain (snd p))) ps))"
| "json_plain v = v"

lemma foldl_dset_distinct:
  "distinct (map fst (d @ ps)) \<Longrightarrow> foldl (\<lambda>d (k, v). dset k v d) d ps = d @ ps"
proof (induction ps arbitrary: d)
  case (Cons p ps)
  obtain k v where p: "p = (k, v)" by fastforce
  with Cons.prems have "dset k v d = d @ [p]" by (simp add: p dset_new keys_of_def)
  with Cons p show ?case by simp
qed simp

lemma json_plain_wf: "json_wf v \<Longrightarrow> json_plain v = v"
proof (induction v rule: json_wf.induct)
  case (1 xs)
  then show ?case by (simp add: list_all_iff map_idI)
next
  case (2 ps)
  then have "map (\<lambda>p. (fst p, json_plain (snd p))) ps = ps" by (simp add: list_all_iff map_idI)
  with 2 foldl_dset_distinct [of "[]" ps] show ?case by simp
qed simp_all

lemma foldl_dset_wf:
  "json_wf (JObj d) \<Longrightarrow> \<forall>p \<in> set ps. json_wf (snd p) \<Longrightarrow> json_wf (JObj (foldl (\<lambda>d (k, v). dset k v d) d ps))"
proof (induction ps arbitrary: d)
  case (Cons p ps)
  obtain k v where "p = (k, v)" by fastforce
  with Cons json_wf_dset [of d v k] show ?case by (simp del: json_wf.simps)
qed simp

lemma json_plain_result_wf: "json_wf (json_plain v)"
proof (induction v rule: json_plain.induct)
  case (2 ps)
  have "json_wf (JObj (foldl (\<lambda>d (k, v). dset k v d) [] (map (\<lambda>p. (fst p, json_plain (snd p))) ps)))"
    by (rule foldl_dset_wf) (use 2 in auto)
  then show ?case by (simp del: json_wf.simps)
qed (simp_all add: list_all_iff)

section \<open>Shapes of values, and lower case\<close>

text \<open>\<open>str.lower\<close> on the characters below 256.\<close>

definition lower_char :: "char \<Rightarrow> char" where
  "lower_char c = (let n = code c in
     if (65 \<le> n \<and> n \<le> 90) \<or> (192 \<le> n \<and> n \<le> 222 \<and> n \<noteq> 215) then char_of (n + 32) else c)"

definition py_lower :: "string \<Rightarrow> string" where
  "py_lower s = map lower_char s"

fun is_obj :: "json \<Rightarrow> bool" where
  "is_obj (JObj d) = True"
| "is_obj _ = False"

fun obj_of :: "json \<Rightarrow> dict" where
  "obj_of (JObj d) = d"
| "obj_of _ = []"

fun json_str :: "json \<Rightarrow> string option" where
  "json_str (JStr s) = Some s"
| "json_str _ = None"

section \<open>Strings\<close>

lemma casefold_append: "casefold (s @ t) = casefold s @ casefold t"
  by (simp add: casefold_def)

lemma starts_with_append [simp]: "starts_with (p @ s) p"
  by (simp add: starts_with_def)

lemma py_strip_ends:
  assumes "s \<noteq> []" and "\<not> is_space (hd s)" and "\<not> is_space (last s)"
  shows "py_strip s = s"
proof -
  have "dropWhile is_space s = s" using assms by (cases s) auto
  moreover have "dropWhile is_space (rev s) = rev s" using assms by (cases s rule: rev_cases) auto
  ultimately show ?thesis by (simp add: py_strip_def py_lstrip_def py_rstrip_def)
qed

lemma starts_with_Cons: "starts_with (x # s) (y # p) \<longleftrightarrow> x = y \<and> starts_with s p"
  by (simp add: starts_with_def)

lemma starts_with_Nil [simp]: "starts_with s []"
  by (simp add: starts_with_def)

lemma starts_with_short [simp]: "starts_with [] (y # p) = False"
  by (simp add: starts_with_def)

lemma contains_mem: "contains (x # p) s \<Longrightarrow> x \<in> set s"
  by (induction s) (auto simp: starts_with_Cons)

text \<open>Code equations that stop at the first difference.\<close>

lemma starts_with_code [code]: "starts_with s [] = True" "starts_with [] (y # p) = False"
  "starts_with (x # s) (y # p) = (if x = y then starts_with s p else False)"
  by (simp_all add: starts_with_Cons)

lemma contains_code [code]: "contains p [] = (p = [])"
  "contains p (c # s) = (if starts_with (c # s) p then True else contains p s)"
  by simp_all

lemma starts_with_prefix: "starts_with s p \<longleftrightarrow> (\<exists>t. s = p @ t)"
  unfolding starts_with_def by (metis append_eq_conv_conj append_take_drop_id)

lemma starts_with_take: "length p \<le> length s \<Longrightarrow> starts_with (s @ t) p = starts_with s p"
  by (simp add: starts_with_def)

lemma rstrip_prefix: "\<exists>t. s = py_rstrip s @ t"
proof -
  have "s = rev (takeWhile is_space (rev s) @ dropWhile is_space (rev s))" by simp
  then show ?thesis unfolding py_rstrip_def by (metis rev_append)
qed

lemma py_rstrip_append: "p \<noteq> [] \<Longrightarrow> \<not> is_space (last p) \<Longrightarrow> py_rstrip (p @ s) = p @ py_rstrip s"
proof -
  assume p: "p \<noteq> []" "\<not> is_space (last p)"
  then obtain q x where q: "p = q @ [x]" "\<not> is_space x" by (metis append_butlast_last_id)
  show ?thesis
    by (cases "\<forall>c \<in> set s. is_space c") (auto simp: py_rstrip_def q dropWhile_append)
qed

lemma py_strip_idem: "py_strip (py_strip s) = py_strip s"
proof (cases "py_strip s = []")
  case False
  define l where "l = py_lstrip s"
  have r: "py_strip s = py_rstrip l" by (simp add: py_strip_def l_def)
  obtain t where t: "l = py_rstrip l @ t" using rstrip_prefix by blast
  have "l \<noteq> []" using False r t by auto
  then have "\<not> is_space (hd l)" unfolding l_def py_lstrip_def by (simp add: hd_dropWhile)
  then have "\<not> is_space (hd (py_strip s))" using False r t by (metis hd_append2)
  moreover have "\<not> is_space (last (py_strip s))"
    using False hd_dropWhile [of is_space "rev l"] by (simp add: r py_rstrip_def last_rev)
  ultimately show ?thesis using py_strip_ends False by blast
next
  case True
  then show ?thesis by (simp only: True) (simp add: py_strip_def py_lstrip_def py_rstrip_def)
qed

section \<open>Numbers\<close>

lemma digit_char: "n < 10 \<Longrightarrow> is_digit (char_of (48 + n :: nat)) \<and> digit_value (char_of (48 + n :: nat)) = int n"
  by (simp add: is_digit_def code_def)

lemma nat_digits_digits: "list_all is_digit (nat_digits n) \<and> nat_digits n \<noteq> [] \<and> digits_value (nat_digits n) = int n"
proof (induction n rule: nat_digits.induct)
  case (1 n)
  show ?case
  proof (cases "n < 10")
    case True
    then show ?thesis using digit_char [of n] by (subst (1 2 3) nat_digits.simps) (simp add: digits_value_def)
  next
    case False
    with 1 have "list_all is_digit (nat_digits (n div 10))" "digits_value (nat_digits (n div 10)) = int (n div 10)" by auto
    moreover have "int n = 10 * int (n div 10) + int (n mod 10)" by presburger
    ultimately show ?thesis using False digit_char [of "n mod 10"]
      by (subst (1 2 3) nat_digits.simps) (simp add: digits_value_def)
  qed
qed

lemma int_digits_all: "list_all is_digit s \<Longrightarrow> s \<noteq> [] \<or> b \<Longrightarrow> int_digits b s = Some s"
  by (induction s arbitrary: b) auto

lemma digit_not_space: "is_digit c \<Longrightarrow> \<not> is_space c"
  by (simp add: alnum_not_space is_alnum_def)

text \<open>A decimal that is not too long is read back.\<close>

lemma parse_int_nat_digits: "length (nat_digits n) \<le> 4300 \<Longrightarrow> parse_int (nat_digits n) = Some (int n)"
proof -
  assume len: "length (nat_digits n) \<le> 4300"
  have d: "list_all is_digit (nat_digits n)" "nat_digits n \<noteq> []" "digits_value (nat_digits n) = int n"
    using nat_digits_digits by auto
  have "py_strip (nat_digits n) = nat_digits n"
    by (rule py_strip_id) (use d(1) digit_not_space in \<open>auto simp: list_all_iff\<close>)
  moreover obtain c s where c: "nat_digits n = c # s" using d(2) by (cases "nat_digits n") auto
  moreover have "c \<noteq> CHR ''-''" "c \<noteq> CHR ''+''" using d(1) c by (auto simp: is_digit_def code_def)
  moreover have "int_digits False (nat_digits n) = Some (nat_digits n)" using d int_digits_all by blast
  ultimately show ?thesis using d(3) len by (simp add: parse_int_def Let_def)
qed

end
