(* ===== verification/RouterState.thy ===== *)
theory RouterState
  imports PyBase
begin

text \<open>
  The persistent state of the GitHub router (automation/n8n/github-router/router.py): its
  configuration, its JSON state file, the identifiers it accepts, and the scope records kept in
  the queue, the in-flight claims and the pending list.
\<close>

section \<open>Configuration\<close>

record router_cfg =
  SCOPE_TTL_SECONDS :: int
  SCOPE_CLAIM_LEASE_SECONDS :: int
  SCOPE_MAX_ATTEMPTS :: int
  SCOPE_MAX_PENDING :: int
  DELIVERY_TTL_SECONDS :: int
  DELIVERY_MAX_ENTRIES :: int
  GITHUB_OWNER :: string
  GITHUB_OWNER_TYPE :: string
  GITHUB_INSTALLATION_ID :: "int option"

definition SCOPE_RETRY_BACKOFF_SECONDS :: "int list" where
  "SCOPE_RETRY_BACKOFF_SECONDS = [1, 5]"

definition MAX_SCOPE_REPOSITORIES :: nat where
  "MAX_SCOPE_REPOSITORIES = 100"

text \<open>
  What the deployment has to configure for the retry bookkeeping to make sense: lifetimes long
  enough for the longest retry delay, at least one attempt, a pending list that holds something.
\<close>

definition cfg_ok :: "router_cfg \<Rightarrow> bool" where
  "cfg_ok c \<longleftrightarrow> 5 \<le> SCOPE_TTL_SECONDS c \<and> 0 < SCOPE_CLAIM_LEASE_SECONDS c \<and>
     1 \<le> SCOPE_MAX_ATTEMPTS c \<and> 1 \<le> SCOPE_MAX_PENDING c \<and>
     0 < DELIVERY_TTL_SECONDS c \<and> 1 \<le> DELIVERY_MAX_ENTRIES c"

text \<open>A configuration with the limits the module falls back to.\<close>

definition sample_cfg :: router_cfg where
  "sample_cfg = \<lparr>SCOPE_TTL_SECONDS = 300, SCOPE_CLAIM_LEASE_SECONDS = 1200, SCOPE_MAX_ATTEMPTS = 3,
     SCOPE_MAX_PENDING = 4096, DELIVERY_TTL_SECONDS = 3600, DELIVERY_MAX_ENTRIES = 4096,
     GITHUB_OWNER = ''octo'', GITHUB_OWNER_TYPE = ''personal'', GITHUB_INSTALLATION_ID = Some 7\<rparr>"

lemma sample_cfg_ok: "cfg_ok sample_cfg"
  by (simp add: cfg_ok_def sample_cfg_def)

section \<open>Accepted identifiers\<close>

text \<open>The regular expressions of the module, as the predicates of a full match.\<close>

definition repository_re :: "string \<Rightarrow> bool" where
  "repository_re s =
     (let owner = before_char CHR ''/'' s; name = after_char CHR ''/'' s in
      CHR ''/'' \<in> set s \<and>
      (case owner of [] \<Rightarrow> False
       | c # rest \<Rightarrow> is_alnum c \<and> length rest \<le> 38 \<and>
           list_all (\<lambda>x. is_alnum x \<or> x = CHR ''-'') rest) \<and>
      (case name of [] \<Rightarrow> False
       | c # rest \<Rightarrow> is_alnum c \<and> length rest \<le> 99 \<and>
           list_all (\<lambda>x. is_alnum x \<or> x \<in> {CHR ''.'', CHR ''_'', CHR ''-''}) rest))"

definition delivery_char :: "char \<Rightarrow> bool" where
  "delivery_char c \<longleftrightarrow> is_alnum c \<or> c \<in> {CHR ''.'', CHR ''_'', CHR '':'', CHR ''-''}"

definition delivery_id_re :: "string \<Rightarrow> bool" where
  "delivery_id_re s \<longleftrightarrow> fixed_length 1 128 s \<and> list_all delivery_char s"

definition scope_id_re :: "string \<Rightarrow> bool" where
  "scope_id_re = delivery_id_re"

definition claim_token_re :: "string \<Rightarrow> bool" where
  "claim_token_re s \<longleftrightarrow> length s = 32 \<and>
     list_all (\<lambda>c. is_digit c \<or> (97 \<le> code c \<and> code c \<le> 102)) s"

definition scope_reason_re :: "string \<Rightarrow> bool" where
  "scope_reason_re s \<longleftrightarrow> (case s of [] \<Rightarrow> False
     | c # rest \<Rightarrow> is_lower c \<and> fixed_length 1 63 rest \<and>
         list_all (\<lambda>x. is_lower x \<or> is_digit x \<or> x = CHR ''_'') rest)"

definition action_re :: "string \<Rightarrow> bool" where
  "action_re s \<longleftrightarrow> fixed_length 1 64 s \<and>
     list_all (\<lambda>x. is_alnum x \<or> x = CHR ''_'' \<or> x = CHR ''-'') s"

definition safe_scope_reason :: "json \<Rightarrow> string" where
  "safe_scope_reason v = (case v of
      JStr s \<Rightarrow> if scope_reason_re s then s else ''scope_retryable''
    | _ \<Rightarrow> ''scope_retryable'')"

text \<open>
  \<open>_parse_installation_id\<close>: a positive integer, or its ASCII digits (leading zeros
  allowed) without surrounding space; \<open>int\<close> refuses more than 4300 digits.
\<close>

definition parse_installation_id :: "json \<Rightarrow> int option" where
  "parse_installation_id v = (case v of
      JInt i \<Rightarrow> if i > 0 then Some i else None
    | JStr s \<Rightarrow>
        if s = [] \<or> s \<noteq> py_strip s \<or> \<not> is_ascii s \<or> \<not> py_isdigit s \<or> length s > 4300 then None
        else let parsed = digits_value s in if parsed > 0 then Some parsed else None
    | _ \<Rightarrow> None)"

section \<open>The state file\<close>

text \<open>
  The file is missing, cannot be used (unreadable, too large, not UTF-8, not JSON), or holds
  JSON given by its syntax tree. Replacing the file is atomic, so a write leaves a well-formed
  tree. What is written is taken to stay below the 8 MiB that the loader accepts.
\<close>

datatype load_fault = Unreadable string | TooLarge | NotUtf8 | InvalidJson

datatype state_file = FMissing | FFault load_fault | FTree json

fun load_state :: "state_file \<Rightarrow> dict res" where
  "load_state FMissing = Inr []"
| "load_state (FFault (Unreadable m)) = Inl (RouterError (''cannot read router state: '' @ m))"
| "load_state (FFault TooLarge) = Inl (RouterError ''router state is too large'')"
| "load_state (FFault NotUtf8) = Inl (RouterError ''router state is not UTF-8'')"
| "load_state (FFault InvalidJson) = Inl (RouterError ''router state is invalid JSON'')"
| "load_state (FTree t) = (case json_loads t of
      None \<Rightarrow> Inl (RouterError ''router state is invalid JSON'')
    | Some (JObj d) \<Rightarrow> Inr d
    | Some _ \<Rightarrow> Inl (RouterError ''router state must be an object''))"

definition write_state :: "dict \<Rightarrow> state_file" where
  "write_state d = FTree (JObj d)"

lemma load_state_wf: "load_state f = Inr d \<Longrightarrow> json_wf (JObj d)"
proof (cases f)
  case (FFault x)
  then show "load_state f = Inr d \<Longrightarrow> json_wf (JObj d)" by (cases x) auto
next
  case (FTree t)
  then show "load_state f = Inr d \<Longrightarrow> json_wf (JObj d)"
    by (auto split: option.splits json.splits dest!: json_loads_result_wf)
qed auto

lemma load_write: "json_wf (JObj d) \<Longrightarrow> load_state (write_state d) = Inr d"
  using json_loads_wf [of "JObj d"] by (simp add: write_state_def)

lemma load_state_error:
  "load_state f = Inl e \<Longrightarrow> \<exists>m. e = RouterError m"
proof (cases f)
  case (FFault x)
  then show "load_state f = Inl e \<Longrightarrow> \<exists>m. e = RouterError m" by (cases x) auto
qed (auto split: option.splits json.splits)

interpretation state_store: durable_store load_state write_state "\<lambda>d. json_wf (JObj d)"
  by unfold_locales (rule load_write, simp, rule load_state_wf)

section \<open>Scopes\<close>

record scope =
  s_id :: string
  s_mode :: string
  s_repositories :: "string list"
  s_created_at :: int
  s_expires_at :: int
  s_attempts :: int
  s_not_before :: int
  s_delivery :: "string option"

definition scope_dict :: "scope \<Rightarrow> dict" where
  "scope_dict s =
    [(''id'', JStr (s_id s)), (''mode'', JStr (s_mode s)),
     (''repositories'', JArr (map JStr (s_repositories s))),
     (''created_at'', JInt (s_created_at s)), (''expires_at'', JInt (s_expires_at s)),
     (''attempts'', JInt (s_attempts s)), (''not_before'', JInt (s_not_before s))] @
    (case s_delivery s of None \<Rightarrow> [] | Some d \<Rightarrow> [(''delivery'', JStr d)])"

text \<open>The loop over \<open>raw_repositories\<close> in \<open>_normalise_scope_item\<close>.\<close>

fun scan_repositories :: "json list \<Rightarrow> string list \<Rightarrow> string list \<Rightarrow> string list option" where
  "scan_repositories [] seen acc = Some acc"
| "scan_repositories (JStr raw # rest) seen acc =
     (let repository = py_strip raw in
      if repository \<noteq> raw \<or> length repository > 256 \<or> \<not> repository_re repository \<or>
         casefold repository \<in> set seen then None
      else scan_repositories rest (casefold repository # seen) (acc @ [repository]))"
| "scan_repositories (_ # rest) seen acc = None"

definition normalise_scope_item :: "router_cfg \<Rightarrow> json \<Rightarrow> int \<Rightarrow> bool \<Rightarrow> scope option" where
  "normalise_scope_item c raw now allow_expired = (case raw of
     JObj d \<Rightarrow> (case dget_py d ''id'' of
       JStr scope_id \<Rightarrow>
         if py_strip scope_id \<noteq> scope_id \<or> \<not> scope_id_re scope_id then None else
         (case (dget_py d ''created_at'', dget_py d ''expires_at'',
                dget_py d ''attempts'', dget_py d ''not_before'') of
            (JInt created_at, JInt expires_at, JInt attempts, JInt not_before) \<Rightarrow>
              if created_at \<le> 0 \<or> expires_at \<le> created_at \<or> attempts < 0 \<or>
                 attempts > SCOPE_MAX_ATTEMPTS c \<or> not_before < 0 \<or> not_before > expires_at
              then None
              else if \<not> allow_expired \<and> expires_at \<le> now then None
              else (case dget_py d ''mode'' of
                JStr mode \<Rightarrow>
                  if mode \<notin> {''event'', ''full''} then None else
                  (case dget_or d ''repositories'' (JArr []) of
                    JArr raw_repositories \<Rightarrow>
                      (case scan_repositories raw_repositories [] [] of
                         None \<Rightarrow> None
                       | Some repositories \<Rightarrow>
                           if length repositories > MAX_SCOPE_REPOSITORIES then None
                           else let repositories = sort_key casefold repositories in
                             if mode = ''event'' \<and> repositories = [] then None
                             else if mode = ''full'' \<and> repositories \<noteq> [] then None
                             else (case dget_py d ''delivery'' of
                                 JNull \<Rightarrow> Some \<lparr>s_id = scope_id, s_mode = mode,
                                   s_repositories = repositories, s_created_at = created_at,
                                   s_expires_at = expires_at, s_attempts = attempts,
                                   s_not_before = not_before, s_delivery = None\<rparr>
                               | JStr raw_delivery \<Rightarrow>
                                   if raw_delivery \<noteq> py_strip raw_delivery \<or>
                                      \<not> delivery_id_re raw_delivery then None
                                   else Some \<lparr>s_id = scope_id, s_mode = mode,
                                     s_repositories = repositories, s_created_at = created_at,
                                     s_expires_at = expires_at, s_attempts = attempts,
                                     s_not_before = not_before, s_delivery = Some raw_delivery\<rparr>
                               | _ \<Rightarrow> None))
                  | _ \<Rightarrow> None)
              | _ \<Rightarrow> None)
          | _ \<Rightarrow> None)
     | _ \<Rightarrow> None)
   | _ \<Rightarrow> None)"

text \<open>
  A scope the normaliser accepts (expired or not), and the canonical form it gives: the
  repositories sorted ignoring case.
\<close>

definition good_scope :: "router_cfg \<Rightarrow> scope \<Rightarrow> bool" where
  "good_scope c s \<longleftrightarrow> scope_id_re (s_id s) \<and>
     0 < s_created_at s \<and> s_created_at s < s_expires_at s \<and>
     0 \<le> s_attempts s \<and> s_attempts s \<le> SCOPE_MAX_ATTEMPTS c \<and>
     0 \<le> s_not_before s \<and> s_not_before s \<le> s_expires_at s \<and>
     (s_mode s = ''event'' \<and> s_repositories s \<noteq> [] \<or> s_mode s = ''full'' \<and> s_repositories s = []) \<and>
     length (s_repositories s) \<le> MAX_SCOPE_REPOSITORIES \<and>
     list_all (\<lambda>r. repository_re r \<and> length r \<le> 256) (s_repositories s) \<and>
     distinct (map casefold (s_repositories s)) \<and>
     (case s_delivery s of None \<Rightarrow> True | Some d \<Rightarrow> delivery_id_re d)"

definition canon_scope :: "scope \<Rightarrow> scope" where
  "canon_scope s = s\<lparr>s_repositories := sort_key casefold (s_repositories s)\<rparr>"

lemma delivery_char_not_space: "delivery_char c \<Longrightarrow> \<not> is_space c"
  using alnum_not_space [of c] by (auto simp: delivery_char_def is_space_def code_def Let_def)

lemma delivery_id_strip: "delivery_id_re s \<Longrightarrow> py_strip s = s"
  by (rule py_strip_id) (auto simp: delivery_id_re_def list_all_iff delivery_char_not_space)

lemma repository_re_chars: "repository_re s \<Longrightarrow> x \<in> set s \<Longrightarrow> delivery_char x \<or> x = CHR ''/''"
proof -
  assume r: "repository_re s" and x: "x \<in> set s"
  let ?p = "\<lambda>x. x \<noteq> CHR ''/''"
  have s: "s = takeWhile ?p s @ dropWhile ?p s" by simp
  from r have "dropWhile ?p s \<noteq> []" by (auto simp: repository_re_def Let_def)
  then have "set (dropWhile ?p s) \<subseteq> insert (CHR ''/'') (set (tl (dropWhile ?p s)))"
    using hd_dropWhile [of ?p s] by (cases "dropWhile ?p s") auto
  with s x have "x \<in> set (takeWhile ?p s) \<or> x = CHR ''/'' \<or> x \<in> set (tl (dropWhile ?p s))"
    by (metis (no_types, lifting) UnE insertE set_append subsetD)
  with r show ?thesis
    by (auto simp: repository_re_def Let_def before_char_def after_char_def delivery_char_def
        list_all_iff split: list.splits)
qed

lemma repository_strip: "repository_re s \<Longrightarrow> py_strip s = s"
proof (rule py_strip_id)
  assume "repository_re s"
  then have "delivery_char x \<or> x = CHR ''/''" if "x \<in> set s" for x
    using that by (rule repository_re_chars)
  moreover have "\<not> is_space (CHR ''/'')" by (simp add: is_space_def code_def Let_def)
  ultimately show "list_all (\<lambda>c. \<not> is_space c) s"
    using delivery_char_not_space by (fastforce simp: list_all_iff)
qed

lemma scan_repositories_accepts:
  assumes "list_all (\<lambda>r. repository_re r \<and> length r \<le> 256) rs" and "distinct (map casefold rs)"
    and "set (map casefold rs) \<inter> set seen = {}"
  shows "scan_repositories (map JStr rs) seen acc = Some (acc @ rs)"
  using assms by (induction rs arbitrary: seen acc) (auto simp: repository_strip)

text \<open>Decoding an encoded good scope, whatever further keys the record carries.\<close>

lemma normalise_scope_dict:
  assumes good: "good_scope c s" and extra: "dget e ''delivery'' = None"
    and live: "allow_expired \<or> now < s_expires_at s"
  shows "normalise_scope_item c (JObj (scope_dict s @ e)) now allow_expired = Some (canon_scope s)"
proof -
  from good have scan: "scan_repositories (map JStr (s_repositories s)) [] [] = Some (s_repositories s)"
    using scan_repositories_accepts [of "s_repositories s" "[]" "[]"] by (simp add: good_scope_def)
  from good have strips: "py_strip (s_id s) = s_id s"
    "s_delivery s = Some d \<Longrightarrow> py_strip d = d" for d
    by (auto simp: good_scope_def scope_id_re_def delivery_id_strip)
  have sort_Nil: "sort_key casefold rs = [] \<longleftrightarrow> rs = []" for rs
    by (metis length_sort length_0_conv)
  have "s_mode s \<in> {''event'', ''full''}" using good by (auto simp: good_scope_def)
  with good live extra strips scan show ?thesis
    by (cases "s_delivery s")
      (auto simp: normalise_scope_item_def scope_dict_def dget_py_def dget_or_def good_scope_def
        canon_scope_def sort_Nil Let_def)
qed

lemma canon_scope_fields [simp]:
  "s_id (canon_scope s) = s_id s" "s_mode (canon_scope s) = s_mode s"
  "s_created_at (canon_scope s) = s_created_at s" "s_expires_at (canon_scope s) = s_expires_at s"
  "s_attempts (canon_scope s) = s_attempts s" "s_not_before (canon_scope s) = s_not_before s"
  "s_delivery (canon_scope s) = s_delivery s"
  by (simp_all add: canon_scope_def)

lemma set_canon_repositories [simp]: "set (s_repositories (canon_scope s)) = set (s_repositories s)"
  by (simp add: canon_scope_def)

lemma canon_scope_idem [simp]: "canon_scope (canon_scope s) = canon_scope s"
  by (simp add: canon_scope_def sort_key_idem)

lemma good_canon_scope: "good_scope c s \<Longrightarrow> good_scope c (canon_scope s)"
proof -
  assume g: "good_scope c s"
  have "distinct (map casefold (sort_key casefold (s_repositories s)))"
    using g by (simp add: good_scope_def distinct_map)
  moreover have "sort_key casefold (s_repositories s) = [] \<longleftrightarrow> s_repositories s = []"
    by (metis length_sort length_0_conv)
  ultimately show ?thesis using g by (simp add: good_scope_def canon_scope_def list_all_iff)
qed

interpretation scope_codec:
  codec "\<lambda>s. JObj (scope_dict s)" "\<lambda>v. normalise_scope_item c v now True" canon_scope "good_scope c"
  for c now
proof unfold_locales
  show "normalise_scope_item c (JObj (scope_dict s)) now True = Some (canon_scope s)"
    if "good_scope c s" for s
    using normalise_scope_dict [OF that, of "[]"] by simp
qed (simp_all add: good_canon_scope)

end
