(* ===== verification/RouterScope.thy ===== *)
theory RouterScope
  imports RouterState
begin

text \<open>
  The durable work queue of the GitHub router: scopes wait in \<open>scope_queue\<close>, are leased to one
  worker in \<open>scope_claims\<close>, and end acknowledged, retried, or kept in \<open>pending_scopes\<close> when
  their attempts are used up. Every operation first recovers what expired.

  \<open>qstate\<close> is the loaded state after recovery: the three collections decoded, the rest of the
  object as it was. The clock and the identifiers drawn by \<open>uuid4\<close> are arguments.
\<close>

section \<open>Claims and pending entries\<close>

record claim =
  c_scope :: scope
  c_expires_at :: int
  c_token :: string

record pending =
  p_scope :: scope
  p_at :: int
  p_reason :: string

definition claim_dict :: "claim \<Rightarrow> dict" where
  "claim_dict cl = scope_dict (c_scope cl) @
     [(''claim_expires_at'', JInt (c_expires_at cl)), (''claim_token'', JStr (c_token cl))]"

definition pending_dict :: "pending \<Rightarrow> dict" where
  "pending_dict p = scope_dict (p_scope p) @
     [(''pending_at'', JInt (p_at p)), (''reason'', JStr (p_reason p))]"

record qstate =
  q_queue :: "scope list"
  q_claims :: "(string \<times> claim) list"
  q_pending :: "pending list"
  q_rest :: dict

definition encode_state :: "qstate \<Rightarrow> dict" where
  "encode_state q =
     dset ''scope_queue'' (JArr (map (\<lambda>s. JObj (scope_dict s)) (q_queue q)))
       (dset ''scope_claims'' (JObj (map (\<lambda>(k, cl). (k, JObj (claim_dict cl))) (q_claims q)))
         (dset ''pending_scopes'' (JArr (map (\<lambda>p. JObj (pending_dict p)) (q_pending q)))
           (q_rest q)))"

definition save :: "qstate \<Rightarrow> state_file" where
  "save q = write_state (encode_state q)"

section \<open>The pending list\<close>

definition parse_pending :: "router_cfg \<Rightarrow> int \<Rightarrow> json \<Rightarrow> pending option" where
  "parse_pending c now raw = (case raw of
     JObj d \<Rightarrow> (case (normalise_scope_item c raw now True, dget_py d ''pending_at'') of
         (Some item, JInt pending_at) \<Rightarrow>
           if pending_at \<le> 0 then None
           else Some \<lparr>p_scope = item, p_at = pending_at,
                  p_reason = safe_scope_reason (dget_py d ''reason'')\<rparr>
       | _ \<Rightarrow> None)
   | _ \<Rightarrow> None)"

definition prune_pending_scopes :: "router_cfg \<Rightarrow> json \<Rightarrow> int \<Rightarrow> pending list" where
  "prune_pending_scopes c raw_pending now = (case raw_pending of
     JArr raws \<Rightarrow> last_n (SCOPE_MAX_PENDING c) (List.map_filter (parse_pending c now) raws)
   | _ \<Rightarrow> [])"

definition append_pending_scope ::
  "router_cfg \<Rightarrow> pending list \<Rightarrow> scope \<Rightarrow> int \<Rightarrow> string \<Rightarrow> pending list" where
  "append_pending_scope c state_pending item now reason =
     (let pending = prune_pending_scopes c (JArr (map (\<lambda>p. JObj (pending_dict p)) state_pending)) now;
          pending = filter (\<lambda>existing. s_id (p_scope existing) \<noteq> s_id item) pending;
          pending = pending @ [\<lparr>p_scope = item, p_at = now,
                                 p_reason = safe_scope_reason (JStr reason)\<rparr>]
      in last_n (SCOPE_MAX_PENDING c) pending)"

section \<open>Recovery\<close>

definition retry_scope :: "router_cfg \<Rightarrow> scope \<Rightarrow> int \<Rightarrow> int \<Rightarrow> int \<Rightarrow> scope" where
  "retry_scope c item next_attempt now not_before =
     item\<lparr>s_attempts := next_attempt, s_expires_at := now + SCOPE_TTL_SECONDS c,
          s_not_before := not_before\<rparr>"

fun recover_queued_loop ::
  "router_cfg \<Rightarrow> int \<Rightarrow> json list \<Rightarrow> string list \<Rightarrow> scope list \<Rightarrow> pending list \<Rightarrow>
   scope list \<times> pending list" where
  "recover_queued_loop c now [] seen queue pend = (queue, pend)"
| "recover_queued_loop c now (raw # raws) seen queue pend =
     (case normalise_scope_item c raw now True of
        None \<Rightarrow> recover_queued_loop c now raws seen queue pend
      | Some item \<Rightarrow>
          if s_id item \<in> set seen then recover_queued_loop c now raws seen queue pend
          else if s_expires_at item > now then
            recover_queued_loop c now raws (s_id item # seen) (queue @ [item]) pend
          else let next_attempt = s_attempts item + 1 in
            if next_attempt \<ge> SCOPE_MAX_ATTEMPTS c then
              recover_queued_loop c now raws (s_id item # seen) queue
                (append_pending_scope c pend (item\<lparr>s_attempts := next_attempt\<rparr>) now ''scope_expired'')
            else
              recover_queued_loop c now raws (s_id item # seen)
                (queue @ [retry_scope c item next_attempt now now]) pend)"

definition recover_queued_scopes ::
  "router_cfg \<Rightarrow> int \<Rightarrow> json \<Rightarrow> pending list \<Rightarrow> scope list \<times> pending list" where
  "recover_queued_scopes c now raw_queue pend = (case raw_queue of
     JArr raws \<Rightarrow> recover_queued_loop c now raws [] [] pend
   | _ \<Rightarrow> ([], pend))"

text \<open>
  \<open>tok\<close> gives the token drawn for a claim that has no usable one.
\<close>

fun recover_claims_loop ::
  "router_cfg \<Rightarrow> int \<Rightarrow> (string \<Rightarrow> string) \<Rightarrow> dict \<Rightarrow> (string \<times> claim) list \<Rightarrow> scope list \<Rightarrow>
   pending list \<Rightarrow> (string \<times> claim) list \<times> scope list \<times> pending list" where
  "recover_claims_loop c now tok [] claims queue pend = (claims, queue, pend)"
| "recover_claims_loop c now tok ((scope_id, raw_claim) # rest) claims queue pend =
     (if \<not> scope_id_re scope_id then recover_claims_loop c now tok rest claims queue pend else
      case raw_claim of
        JObj d \<Rightarrow>
          (if dget_py d ''id'' \<noteq> JStr scope_id
           then recover_claims_loop c now tok rest claims queue pend else
           case dget_py d ''claim_expires_at'' of
             JInt claim_expires_at \<Rightarrow>
               (if claim_expires_at \<le> 0
                then recover_claims_loop c now tok rest claims queue pend else
                case normalise_scope_item c raw_claim now True of
                  None \<Rightarrow> recover_claims_loop c now tok rest claims queue pend
                | Some item \<Rightarrow>
                    let claim_token = (case dget_py d ''claim_token'' of
                          JStr t \<Rightarrow> if claim_token_re t then t else tok scope_id
                        | _ \<Rightarrow> tok scope_id);
                        queue = filter (\<lambda>queued. s_id queued \<noteq> scope_id) queue
                    in if claim_expires_at > now then
                         recover_claims_loop c now tok rest
                           (dset scope_id \<lparr>c_scope = item, c_expires_at = claim_expires_at,
                                            c_token = claim_token\<rparr> claims) queue pend
                       else let next_attempt = s_attempts item + 1 in
                         if next_attempt \<ge> SCOPE_MAX_ATTEMPTS c then
                           recover_claims_loop c now tok rest claims queue
                             (append_pending_scope c pend (item\<lparr>s_attempts := next_attempt\<rparr>) now
                               ''claim_lease_expired'')
                         else
                           recover_claims_loop c now tok rest claims
                             (queue @ [retry_scope c item next_attempt now now]) pend)
           | _ \<Rightarrow> recover_claims_loop c now tok rest claims queue pend)
      | _ \<Rightarrow> recover_claims_loop c now tok rest claims queue pend)"

definition recover_scope_claims ::
  "router_cfg \<Rightarrow> int \<Rightarrow> (string \<Rightarrow> string) \<Rightarrow> dict \<Rightarrow> qstate" where
  "recover_scope_claims c now tok state =
     (let pend = prune_pending_scopes c (dget_py state ''pending_scopes'') now;
          (queue, pend) = recover_queued_scopes c now (dget_py state ''scope_queue'') pend
      in case dget_py state ''scope_claims'' of
           JObj raw_claims \<Rightarrow>
             (let (claims, queue, pend) = recover_claims_loop c now tok raw_claims [] queue pend
              in \<lparr>q_queue = queue, q_claims = claims, q_pending = pend, q_rest = state\<rparr>)
         | _ \<Rightarrow> \<lparr>q_queue = queue, q_claims = [], q_pending = pend, q_rest = state\<rparr>)"

text \<open>
  \<open>_prune_queue\<close>, which drops expired scopes instead of retrying them. No code calls it;
  it is modelled for comparison with the recovery.
\<close>

definition prune_queue :: "router_cfg \<Rightarrow> json \<Rightarrow> int \<Rightarrow> scope list" where
  "prune_queue c raw_queue now = (case raw_queue of
     JArr raws \<Rightarrow> List.map_filter (\<lambda>raw. normalise_scope_item c raw now False) raws
   | _ \<Rightarrow> [])"

section \<open>Operations\<close>

text \<open>An operation reads the state file and gives its result and the file it leaves.\<close>

type_synonym 'a op_result = "'a res \<times> state_file"

fun scoped_repositories :: "string list \<Rightarrow> string list \<Rightarrow> string list \<Rightarrow> string list res" where
  "scoped_repositories [] seen acc = Inr acc"
| "scoped_repositories (raw # raws) seen acc =
     (let candidate = py_strip raw in
      if candidate \<noteq> raw \<or> length candidate > 256 \<or> \<not> repository_re candidate
      then Inl (RouterError (''invalid repository identity: '' @ py_repr_str candidate))
      else let key = casefold candidate in
        if key \<in> set seen then scoped_repositories raws seen acc
        else scoped_repositories raws (key # seen) (acc @ [candidate]))"

definition enqueue_repositories ::
  "bool \<Rightarrow> string option \<Rightarrow> string list option \<Rightarrow> string list res" where
  "enqueue_repositories full repository repositories =
     (if full then Inr []
      else let raw_repositories = (case repositories of Some rs \<Rightarrow> rs
             | None \<Rightarrow> (case repository of Some r \<Rightarrow> [r] | None \<Rightarrow> []))
        in case scoped_repositories raw_repositories [] [] of
             Inl e \<Rightarrow> Inl e
           | Inr rs \<Rightarrow> if rs = [] \<or> length rs > MAX_SCOPE_REPOSITORIES
               then Inl (RouterError ''invalid repository scope'') else Inr rs)"

definition new_scope ::
  "router_cfg \<Rightarrow> int \<Rightarrow> string \<Rightarrow> bool \<Rightarrow> string list \<Rightarrow> string option \<Rightarrow> scope" where
  "new_scope c now uid full rs delivery_id =
     \<lparr>s_id = uid, s_mode = (if full then ''full'' else ''event''), s_repositories = rs,
      s_created_at = now, s_expires_at = now + SCOPE_TTL_SECONDS c, s_attempts = 0,
      s_not_before = now, s_delivery = delivery_id\<rparr>"

definition enqueue_scope ::
  "router_cfg \<Rightarrow> int \<Rightarrow> (string \<Rightarrow> string) \<Rightarrow> string \<Rightarrow> bool \<Rightarrow> string option \<Rightarrow> string list option \<Rightarrow>
   string option \<Rightarrow> state_file \<Rightarrow> dict op_result" where
  "enqueue_scope c now tok uid full repository repositories delivery_id f =
     (case enqueue_repositories full repository repositories of Inl e \<Rightarrow> (Inl e, f) | Inr rs \<Rightarrow>
      if (case delivery_id of None \<Rightarrow> False
          | Some d \<Rightarrow> d \<noteq> py_strip d \<or> \<not> delivery_id_re d)
      then (Inl (RouterError ''invalid delivery id''), f) else
      let item = new_scope c now uid full rs delivery_id in
      case load_state f of Inl e \<Rightarrow> (Inl e, f) | Inr state \<Rightarrow>
      let q = recover_scope_claims c now tok state;
          enqueued = (Inr (scope_dict item), save (q\<lparr>q_queue := q_queue q @ [item]\<rparr>))
      in case delivery_id of None \<Rightarrow> enqueued | Some d \<Rightarrow>
        (case find (\<lambda>s. s_delivery s = Some d) (q_queue q) of
           Some existing \<Rightarrow>
             (Inr (dset ''existing'' (JBool True) (scope_dict existing)), save q)
         | None \<Rightarrow>
        (case find (\<lambda>p. s_delivery (p_scope p) = Some d) (q_pending q) of
           Some existing \<Rightarrow>
             (Inr (dset ''pending'' (JBool True)
                (dset ''existing'' (JBool True) (pending_dict existing))), save q)
         | None \<Rightarrow>
        (case find (\<lambda>kc. s_delivery (c_scope (snd kc)) = Some d) (q_claims q) of
           Some existing \<Rightarrow>
             (Inr (dset ''in_flight'' (JBool True) (dset ''existing'' (JBool True)
                (ddel ''claim_token'' (claim_dict (snd existing))))), save q)
         | None \<Rightarrow> enqueued))))"

fun pop_ready :: "int \<Rightarrow> scope list \<Rightarrow> (scope \<times> scope list) option" where
  "pop_ready now [] = None"
| "pop_ready now (s # queue) =
     (if s_not_before s \<le> now then Some (s, queue)
      else map_option (\<lambda>(item, rest). (item, s # rest)) (pop_ready now queue))"

definition no_scope :: "int \<Rightarrow> dict" where
  "no_scope now = [(''id'', JStr ''''), (''mode'', JStr ''none''), (''repositories'', JArr []),
     (''created_at'', JInt now), (''expires_at'', JInt 0), (''attempts'', JInt 0),
     (''not_before'', JInt 0)]"

definition claimed_dict :: "scope \<Rightarrow> string \<Rightarrow> dict" where
  "claimed_dict item claim_token = dset ''claim_token'' (JStr claim_token) (scope_dict item)"

definition claim_scope ::
  "router_cfg \<Rightarrow> int \<Rightarrow> (string \<Rightarrow> string) \<Rightarrow> string \<Rightarrow> state_file \<Rightarrow> dict op_result" where
  "claim_scope c now tok claim_token f =
     (case load_state f of Inl e \<Rightarrow> (Inl e, f) | Inr state \<Rightarrow>
      let q = recover_scope_claims c now tok state in
      case pop_ready now (q_queue q) of
        Some (item, queue) \<Rightarrow>
          (Inr (claimed_dict item claim_token),
           save (q\<lparr>q_queue := queue,
                   q_claims := dset (s_id item) \<lparr>c_scope = item,
                     c_expires_at = now + SCOPE_CLAIM_LEASE_SECONDS c,
                     c_token = claim_token\<rparr> (q_claims q),
                   q_rest := dset ''last_claimed_scope''
                     (JObj (claimed_dict item claim_token)) (q_rest q)\<rparr>))
      | None \<Rightarrow> (Inr (no_scope now), save q))"

definition claim_token_matches :: "json \<Rightarrow> string \<Rightarrow> bool" where
  "claim_token_matches claim claim_token = (case claim of
     JObj d \<Rightarrow> (case dget_py d ''claim_token'' of
         JStr stored \<Rightarrow> claim_token_re stored \<and> claim_token_re claim_token \<and> stored = claim_token
       | _ \<Rightarrow> False)
   | _ \<Rightarrow> False)"

definition scope_ack_reply :: "string \<Rightarrow> string \<Rightarrow> dict" where
  "scope_ack_reply scope_id status =
     [(''ok'', JBool True), (''id'', JStr scope_id), (''status'', JStr status)]"

definition token_mismatch :: exn where
  "token_mismatch = RouterError ''scope claim token mismatch''"

definition ack_scope ::
  "router_cfg \<Rightarrow> int \<Rightarrow> (string \<Rightarrow> string) \<Rightarrow> string \<Rightarrow> string \<Rightarrow> state_file \<Rightarrow> dict op_result" where
  "ack_scope c now tok scope_id claim_token f =
     (if \<not> claim_token_re claim_token
      then (Inl (RouterError ''invalid scope claim token''), f)
      else if py_strip scope_id \<noteq> scope_id \<or> \<not> scope_id_re scope_id
      then (Inl (RouterError ''invalid scope id''), f)
      else case load_state f of Inl e \<Rightarrow> (Inl e, f) | Inr state \<Rightarrow>
      let q = recover_scope_claims c now tok state in
      case dget (q_claims q) scope_id of
        None \<Rightarrow>
          (case dget_py (q_rest q) ''last_scope_transition'' of
             JObj prior \<Rightarrow>
               if dget_py prior ''id'' \<noteq> JStr scope_id then (Inl token_mismatch, f)
               else let status = dget_py prior ''status'' in
                 if status = JStr ''acknowledged'' \<and> claim_token_matches (JObj prior) claim_token
                 then (Inr (scope_ack_reply scope_id ''already_acknowledged''), save q)
                 else if unhashable status then (Inl (PyError ''TypeError''), f)
                 else if (status = JStr ''requeued'' \<or> status = JStr ''pending'') \<and>
                         claim_token_matches (JObj prior) claim_token
                 then (Inr (scope_ack_reply scope_id ''already_requeued''), save q)
                 else (Inl token_mismatch, f)
           | _ \<Rightarrow> (Inl token_mismatch, f))
      | Some claim \<Rightarrow>
          if \<not> claim_token_matches (JObj (claim_dict claim)) claim_token
          then (Inl token_mismatch, f)
          else (Inr (scope_ack_reply scope_id ''acknowledged''),
                save (q\<lparr>q_claims := ddel scope_id (q_claims q),
                        q_rest := dset ''last_scope_transition''
                          (JObj [(''id'', JStr scope_id), (''status'', JStr ''acknowledged''),
                                 (''at'', JInt now), (''claim_token'', JStr claim_token)])
                          (q_rest q)\<rparr>)))"

definition scope_requeue_reply :: "string \<Rightarrow> string \<Rightarrow> json \<Rightarrow> dict" where
  "scope_requeue_reply scope_id status attempts =
     scope_ack_reply scope_id status @ [(''attempts'', attempts)]"

definition requeue_claimed ::
  "router_cfg \<Rightarrow> int \<Rightarrow> scope \<Rightarrow> string \<Rightarrow> qstate \<Rightarrow> string \<times> qstate" where
  "requeue_claimed c now item safe_reason q =
     (let next_attempt = s_attempts item + 1 in
      if next_attempt \<ge> SCOPE_MAX_ATTEMPTS c then
        (''pending'', q\<lparr>q_pending := append_pending_scope c (q_pending q)
           (item\<lparr>s_attempts := next_attempt\<rparr>) now safe_reason\<rparr>)
      else let backoff_index = min (next_attempt - 1) (int (length SCOPE_RETRY_BACKOFF_SECONDS) - 1) in
        (''requeued'', q\<lparr>q_queue := q_queue q @ [retry_scope c item next_attempt now
           (now + SCOPE_RETRY_BACKOFF_SECONDS ! nat backoff_index)]\<rparr>))"

definition requeue_scope ::
  "router_cfg \<Rightarrow> int \<Rightarrow> (string \<Rightarrow> string) \<Rightarrow> string \<Rightarrow> string \<Rightarrow> string \<Rightarrow> state_file \<Rightarrow> dict op_result" where
  "requeue_scope c now tok scope_id reason claim_token f =
     (let safe_reason = safe_scope_reason (JStr reason) in
      if \<not> claim_token_re claim_token
      then (Inl (RouterError ''invalid scope claim token''), f)
      else if py_strip scope_id \<noteq> scope_id \<or> \<not> scope_id_re scope_id
      then (Inl (RouterError ''invalid scope id''), f)
      else case load_state f of Inl e \<Rightarrow> (Inl e, f) | Inr state \<Rightarrow>
      let q = recover_scope_claims c now tok state in
      case dget (q_claims q) scope_id of
        None \<Rightarrow>
          (case dget_py (q_rest q) ''last_scope_transition'' of
             JObj prior \<Rightarrow>
               if dget_py prior ''id'' = JStr scope_id \<and> claim_token_matches (JObj prior) claim_token
               then (if dget_py prior ''status'' = JStr ''requeued'' then
                       (Inr (scope_requeue_reply scope_id ''already_requeued''
                         (dget_or prior ''attempts'' (JInt 0))), save q)
                     else if dget_py prior ''status'' = JStr ''pending'' then
                       (Inr (scope_requeue_reply scope_id ''pending''
                         (dget_or prior ''attempts'' (JInt 0))), save q)
                     else (Inl token_mismatch, f))
               else (Inl token_mismatch, f)
           | _ \<Rightarrow> (Inl token_mismatch, f))
      | Some claim \<Rightarrow>
          if \<not> claim_token_matches (JObj (claim_dict claim)) claim_token
          then (Inl token_mismatch, f)
          else case normalise_scope_item c (JObj (claim_dict claim)) now True of
            None \<Rightarrow> (Inl (RouterError ''scope claim is invalid''), f)
          | Some item \<Rightarrow>
              let next_attempt = s_attempts item + 1;
                  (status, q') = requeue_claimed c now item safe_reason
                     (q\<lparr>q_claims := ddel scope_id (q_claims q)\<rparr>)
              in (Inr (scope_requeue_reply scope_id status (JInt next_attempt)),
                  save (q'\<lparr>q_rest := dset ''last_scope_transition''
                    (JObj [(''id'', JStr scope_id), (''status'', JStr status), (''at'', JInt now),
                           (''attempts'', JInt next_attempt), (''reason'', JStr safe_reason),
                           (''claim_token'', JStr claim_token)]) (q_rest q')\<rparr>)))"

definition queue_status ::
  "router_cfg \<Rightarrow> int \<Rightarrow> (string \<Rightarrow> string) \<Rightarrow> state_file \<Rightarrow> dict op_result" where
  "queue_status c now tok f =
     (case load_state f of Inl e \<Rightarrow> (Inl e, f) | Inr state \<Rightarrow>
      let q = recover_scope_claims c now tok state in
      case py_iter_len (dget_or (q_rest q) ''managed_repositories'' (JArr [])) of
        Inl e \<Rightarrow> (Inl e, f)
      | Inr managed \<Rightarrow>
          (Inr [(''queued_scopes'', JInt (int (length (q_queue q)))),
                (''in_flight_scopes'', JInt (int (length (q_claims q)))),
                (''pending_scopes'', JInt (int (length (q_pending q)))),
                (''managed_count'', JInt (int managed))], save q))"

end
