(* ===== verification/RouterRecovery.thy ===== *)
theory RouterRecovery
  imports RouterScope
begin

text \<open>
  What the recovery of the router's queue does. Part one holds for any state file the loader
  accepts: the shape of the recovered state. Part two is the functional refinement: on a state
  the router itself wrote, recovery computes \<open>spec_recover\<close>, which classifies each scope
  as kept, retried or parked without any parsing.
\<close>

section \<open>The shape of a recovered state\<close>

definition scope_ids :: "scope list \<Rightarrow> string list" where
  "scope_ids ss = map s_id ss"

lemma scope_ids_simps [simp]:
  "scope_ids [] = []" "scope_ids (s # ss) = s_id s # scope_ids ss"
  "scope_ids (ss @ ts) = scope_ids ss @ scope_ids ts"
  by (simp_all add: scope_ids_def)

lemma set_scope_ids: "set (scope_ids ss) = s_id ` set ss"
  by (simp add: scope_ids_def)

definition claims_ok :: "int \<Rightarrow> (string \<times> claim) list \<Rightarrow> bool" where
  "claims_ok now cs \<longleftrightarrow> distinct (keys_of cs) \<and>
     (\<forall>(k, cl) \<in> set cs. s_id (c_scope cl) = k \<and> now < c_expires_at cl \<and> claim_token_re (c_token cl))"

text \<open>
  One owner per scope: identifiers are distinct in the queue and among the claims, none is in
  both, and everything there is still live; the pending list is bounded.
\<close>

definition single_owner :: "router_cfg \<Rightarrow> int \<Rightarrow> qstate \<Rightarrow> bool" where
  "single_owner c now q \<longleftrightarrow>
     distinct (scope_ids (q_queue q)) \<and> (\<forall>s \<in> set (q_queue q). now < s_expires_at s) \<and>
     claims_ok now (q_claims q) \<and>
     set (scope_ids (q_queue q)) \<inter> set (keys_of (q_claims q)) = {} \<and>
     int (length (q_pending q)) \<le> SCOPE_MAX_PENDING c"

lemma normalise_id:
  "normalise_scope_item c raw now b = Some s \<Longrightarrow> \<exists>d. raw = JObj d \<and> dget_py d ''id'' = JStr (s_id s)"
  by (auto simp: normalise_scope_item_def Let_def split: json.splits if_splits option.splits)

lemma retry_scope_fields [simp]:
  "s_id (retry_scope c s n now nb) = s_id s" "s_expires_at (retry_scope c s n now nb) = now + SCOPE_TTL_SECONDS c"
  "s_attempts (retry_scope c s n now nb) = n" "s_not_before (retry_scope c s n now nb) = nb"
  "s_created_at (retry_scope c s n now nb) = s_created_at s"
  "s_delivery (retry_scope c s n now nb) = s_delivery s"
  by (simp_all add: retry_scope_def)

lemma length_append_pending:
  "cfg_ok c \<Longrightarrow> int (length (append_pending_scope c pend s now r)) \<le> SCOPE_MAX_PENDING c"
  by (simp add: append_pending_scope_def cfg_ok_def Let_def length_last_n)

lemma length_prune_pending:
  "cfg_ok c \<Longrightarrow> int (length (prune_pending_scopes c v now)) \<le> SCOPE_MAX_PENDING c"
  by (auto simp: prune_pending_scopes_def cfg_ok_def length_last_n split: json.splits)

subsection \<open>The loops, after decoding\<close>

definition queue_step ::
  "router_cfg \<Rightarrow> int \<Rightarrow> string list \<times> scope list \<times> pending list \<Rightarrow> scope \<Rightarrow>
   string list \<times> scope list \<times> pending list" where
  "queue_step c now st item = (case st of (seen, queue, pend) \<Rightarrow>
     if s_id item \<in> set seen then st
     else if s_expires_at item > now then (s_id item # seen, queue @ [item], pend)
     else if s_attempts item + 1 \<ge> SCOPE_MAX_ATTEMPTS c then
       (s_id item # seen, queue, append_pending_scope c pend
          (item\<lparr>s_attempts := s_attempts item + 1\<rparr>) now ''scope_expired'')
     else (s_id item # seen, queue @ [retry_scope c item (s_attempts item + 1) now now], pend))"

lemma recover_queued_loop_foldl:
  "recover_queued_loop c now raws seen queue pend =
     snd (foldl (queue_step c now) (seen, queue, pend)
       (List.map_filter (\<lambda>raw. normalise_scope_item c raw now True) raws))"
proof (induction raws arbitrary: seen queue pend)
  case (Cons raw raws)
  then show ?case
    by (cases "normalise_scope_item c raw now True") (simp_all add: queue_step_def Let_def)
qed simp

definition decode_claim ::
  "router_cfg \<Rightarrow> int \<Rightarrow> (string \<Rightarrow> string) \<Rightarrow> string \<times> json \<Rightarrow> (string \<times> claim) option" where
  "decode_claim c now tok kr = (case kr of (k, raw) \<Rightarrow>
     if \<not> scope_id_re k then None else
     case raw of
       JObj d \<Rightarrow> (if dget_py d ''id'' \<noteq> JStr k then None else
         case dget_py d ''claim_expires_at'' of
           JInt e \<Rightarrow> (if e \<le> 0 then None else
             map_option (\<lambda>item. (k, \<lparr>c_scope = item, c_expires_at = e,
               c_token = (case dget_py d ''claim_token'' of
                   JStr t \<Rightarrow> if claim_token_re t then t else tok k | _ \<Rightarrow> tok k)\<rparr>))
               (normalise_scope_item c raw now True))
         | _ \<Rightarrow> None)
     | _ \<Rightarrow> None)"

definition claims_step ::
  "router_cfg \<Rightarrow> int \<Rightarrow> (string \<times> claim) list \<times> scope list \<times> pending list \<Rightarrow> string \<times> claim \<Rightarrow>
   (string \<times> claim) list \<times> scope list \<times> pending list" where
  "claims_step c now st kc = (case st of (claims, queue, pend) \<Rightarrow> case kc of (k, cl) \<Rightarrow>
     let queue = filter (\<lambda>queued. s_id queued \<noteq> k) queue; item = c_scope cl in
     if c_expires_at cl > now then (dset k cl claims, queue, pend)
     else if s_attempts item + 1 \<ge> SCOPE_MAX_ATTEMPTS c then
       (claims, queue, append_pending_scope c pend
          (item\<lparr>s_attempts := s_attempts item + 1\<rparr>) now ''claim_lease_expired'')
     else (claims, queue @ [retry_scope c item (s_attempts item + 1) now now], pend))"

lemma recover_claims_loop_foldl:
  "recover_claims_loop c now tok rest claims queue pend =
     foldl (claims_step c now) (claims, queue, pend) (List.map_filter (decode_claim c now tok) rest)"
proof (induction rest arbitrary: claims queue pend)
  case (Cons kr rest)
  obtain k raw where kr: "kr = (k, raw)" by fastforce
  show ?case
  proof (cases raw)
    case (JObj d)
    show ?thesis
    proof (cases "dget_py d ''claim_expires_at''")
      case (JInt e)
      then show ?thesis
        using kr JObj Cons.IH
        by (cases "normalise_scope_item c raw now True")
          (auto simp: decode_claim_def claims_step_def Let_def)
    qed (use kr JObj Cons.IH in \<open>simp_all add: decode_claim_def\<close>)
  qed (use kr Cons.IH in \<open>simp_all add: decode_claim_def\<close>)
qed simp

subsection \<open>Shape\<close>

definition queue_shape :: "router_cfg \<Rightarrow> int \<Rightarrow> string list \<times> scope list \<times> pending list \<Rightarrow> bool" where
  "queue_shape c now st \<longleftrightarrow> (case st of (seen, queue, pend) \<Rightarrow>
     distinct (scope_ids queue) \<and> set (scope_ids queue) \<subseteq> set seen \<and>
     (\<forall>s \<in> set queue. now < s_expires_at s) \<and> int (length pend) \<le> SCOPE_MAX_PENDING c)"

lemma queue_step_shape: "cfg_ok c \<Longrightarrow> queue_shape c now st \<Longrightarrow> queue_shape c now (queue_step c now st item)"
  by (cases st) (auto simp: queue_shape_def queue_step_def length_append_pending cfg_ok_def)

lemma foldl_invariant: "P st \<Longrightarrow> (\<And>st x. P st \<Longrightarrow> x \<in> set xs \<Longrightarrow> P (f st x)) \<Longrightarrow> P (foldl f st xs)"
  by (induction xs arbitrary: st) auto

lemma recover_queued_scopes_shape:
  assumes "cfg_ok c" and "int (length pend) \<le> SCOPE_MAX_PENDING c"
    and "recover_queued_scopes c now v pend = (queue', pend')"
  shows "distinct (scope_ids queue') \<and> (\<forall>s \<in> set queue'. now < s_expires_at s) \<and>
    int (length pend') \<le> SCOPE_MAX_PENDING c"
proof (cases "\<exists>raws. v = JArr raws")
  case True
  then obtain raws where v: "v = JArr raws" by blast
  let ?items = "List.map_filter (\<lambda>raw. normalise_scope_item c raw now True) raws"
  have "queue_shape c now (foldl (queue_step c now) ([], [], pend) ?items)"
    by (rule foldl_invariant) (use assms in \<open>simp_all add: queue_shape_def queue_step_shape [unfolded queue_shape_def]\<close>)
  moreover obtain seen q p where "foldl (queue_step c now) ([], [], pend) ?items = (seen, q, p)"
    by (metis prod_cases3)
  ultimately show ?thesis using assms(3) v
    by (simp add: recover_queued_scopes_def recover_queued_loop_foldl queue_shape_def)
next
  case False
  with assms show ?thesis by (auto simp: recover_queued_scopes_def split: json.splits)
qed

definition claims_shape ::
  "router_cfg \<Rightarrow> int \<Rightarrow> (string \<times> claim) list \<times> scope list \<times> pending list \<Rightarrow> bool" where
  "claims_shape c now st \<longleftrightarrow> (case st of (claims, queue, pend) \<Rightarrow>
     distinct (scope_ids queue) \<and> (\<forall>s \<in> set queue. now < s_expires_at s) \<and>
     claims_ok now claims \<and> int (length pend) \<le> SCOPE_MAX_PENDING c)"

lemma distinct_filter_ids: "distinct (scope_ids ss) \<Longrightarrow> distinct (scope_ids (filter P ss))"
  by (simp add: scope_ids_def distinct_map_filter)

lemma claims_ok_dset:
  assumes "claims_ok now cs" and "s_id (c_scope cl) = k" and "now < c_expires_at cl" and "claim_token_re (c_token cl)"
  shows "claims_ok now (dset k cl cs)"
proof -
  have "x \<in> set (dset k cl cs) \<Longrightarrow> x = (k, cl) \<or> x \<in> set cs" for x
    by (induction cs) (auto split: if_splits)
  with assms show ?thesis by (fastforce simp: claims_ok_def distinct_keys_dset)
qed

lemma claims_step_shape:
  assumes "cfg_ok c" and "claims_shape c now st"
    and "s_id (c_scope (snd kc)) = fst kc" and "claim_token_re (c_token (snd kc))"
  shows "claims_shape c now (claims_step c now st kc)"
proof -
  obtain claims queue pend k cl where st: "st = (claims, queue, pend)" and kc: "kc = (k, cl)"
    by (metis prod_cases3 surj_pair)
  with assms have "k \<notin> set (scope_ids (filter (\<lambda>s. s_id s \<noteq> k) queue))"
    by (auto simp: set_scope_ids)
  with assms st kc show ?thesis
    by (auto simp: claims_shape_def claims_step_def Let_def distinct_filter_ids claims_ok_dset
        length_append_pending cfg_ok_def)
qed

lemma claims_step_keys:
  assumes "set (scope_ids queue) \<inter> set (keys_of claims) = {}"
    and "claims_step c now (claims, queue, pend) (k, cl) = (claims', queue', pend')"
    and "k \<notin> set (keys_of claims)" and "s_id (c_scope cl) = k"
  shows "set (scope_ids queue') \<inter> set (keys_of claims') = {} \<and>
    set (keys_of claims') \<subseteq> insert k (set (keys_of claims))"
  using assms by (fastforce simp: claims_step_def Let_def set_scope_ids split: if_splits)

lemma claims_foldl_disjoint:
  assumes "foldl (claims_step c now) (claims, queue, pend) kcs = (claims', queue', pend')"
    and "set (scope_ids queue) \<inter> set (keys_of claims) = {}"
    and "distinct (map fst kcs)" and "set (map fst kcs) \<inter> set (keys_of claims) = {}"
    and "\<forall>(k, cl) \<in> set kcs. s_id (c_scope cl) = k"
  shows "set (scope_ids queue') \<inter> set (keys_of claims') = {}"
  using assms
proof (induction kcs arbitrary: claims queue pend)
  case (Cons kc kcs)
  obtain k cl where kc: "kc = (k, cl)" by fastforce
  obtain c1 q1 p1 where st: "claims_step c now (claims, queue, pend) (k, cl) = (c1, q1, p1)"
    by (metis prod_cases3)
  have step: "set (scope_ids q1) \<inter> set (keys_of c1) = {} \<and> set (keys_of c1) \<subseteq> insert k (set (keys_of claims))"
    by (rule claims_step_keys [OF _ st]) (use Cons.prems kc in auto)
  have "set (map fst kcs) \<inter> insert k (set (keys_of claims)) = {}" using Cons.prems(3,4) kc by simp
  with step have "set (map fst kcs) \<inter> set (keys_of c1) = {}" by blast
  with step Cons.prems kc st show ?case by (intro Cons.IH [of c1 q1 p1]) simp_all
qed simp

lemma decode_claim_id:
  "decode_claim c now tok kr = Some (k, cl) \<Longrightarrow> (\<And>i. claim_token_re (tok i)) \<Longrightarrow>
   k = fst kr \<and> s_id (c_scope cl) = k \<and> claim_token_re (c_token cl) \<and> 0 < c_expires_at cl \<and> scope_id_re k"
  by (auto simp: decode_claim_def dest!: normalise_id split: prod.splits if_splits json.splits)

lemma decode_claims_keys:
  assumes "distinct (keys_of d)" and "\<And>i. claim_token_re (tok i)"
  shows "distinct (map fst (List.map_filter (decode_claim c now tok) d)) \<and>
    set (map fst (List.map_filter (decode_claim c now tok) d)) \<subseteq> set (keys_of d)"
  using assms
proof (induction d)
  case (Cons kr d)
  then have IH: "distinct (map fst (List.map_filter (decode_claim c now tok) d))"
    "set (map fst (List.map_filter (decode_claim c now tok) d)) \<subseteq> set (keys_of d)"
    "fst kr \<notin> set (keys_of d)" by auto
  show ?case
  proof (cases "decode_claim c now tok kr")
    case (Some a)
    with decode_claim_id [of c now tok kr "fst a" "snd a", OF _ assms(2)] have "fst a = fst kr" by simp
    with IH Some show ?thesis by auto
  qed (use IH in auto)
qed simp

lemma json_obj_distinct: "json_wf (JObj d) \<Longrightarrow> dget_py d k = JObj e \<Longrightarrow> distinct (keys_of e)"
  using json_wf_dget [of d k "JObj e"] by (auto simp: dget_py_def dget_or_def keys_of_def split: option.splits)

theorem recovered_single_owner:
  assumes "cfg_ok c" and "\<And>i. claim_token_re (tok i)" and "json_wf (JObj d)"
  shows "single_owner c now (recover_scope_claims c now tok d)"
proof -
  let ?pend = "prune_pending_scopes c (dget_py d ''pending_scopes'') now"
  obtain queue pend where rq: "recover_queued_scopes c now (dget_py d ''scope_queue'') ?pend = (queue, pend)"
    by fastforce
  have shape: "distinct (scope_ids queue) \<and> (\<forall>s \<in> set queue. now < s_expires_at s) \<and>
      int (length pend) \<le> SCOPE_MAX_PENDING c"
    by (rule recover_queued_scopes_shape [OF assms(1) _ rq]) (simp add: assms length_prune_pending)
  show ?thesis
  proof (cases "\<exists>raws. dget_py d ''scope_claims'' = JObj raws")
    case True
    then obtain raws where raws: "dget_py d ''scope_claims'' = JObj raws" by blast
    let ?kcs = "List.map_filter (decode_claim c now tok) raws"
    obtain claims queue' pend' where fold: "foldl (claims_step c now) ([], queue, pend) ?kcs = (claims, queue', pend')"
      by (metis prod_cases3)
    have good: "s_id (c_scope (snd kc)) = fst kc \<and> claim_token_re (c_token (snd kc))"
      if "kc \<in> set ?kcs" for kc
      using that decode_claim_id [of c now tok _ "fst kc" "snd kc", OF _ assms(2)]
      by (fastforce simp: List.map_filter_def)
    have "claims_shape c now (foldl (claims_step c now) ([], queue, pend) ?kcs)"
    proof (rule foldl_invariant)
      show "claims_shape c now ([], queue, pend)"
        using shape by (simp add: claims_shape_def claims_ok_def)
      show "claims_shape c now (claims_step c now st kc)" if "claims_shape c now st" "kc \<in> set ?kcs" for st kc
        using claims_step_shape [OF assms(1) that(1)] good [OF that(2)] by blast
    qed
    moreover have "set (scope_ids queue') \<inter> set (keys_of claims) = {}"
      by (rule claims_foldl_disjoint [OF fold])
        (use good decode_claims_keys [OF json_obj_distinct [OF assms(3) raws] assms(2)] in auto)
    ultimately show ?thesis using fold raws rq
      by (simp add: recover_scope_claims_def recover_claims_loop_foldl single_owner_def claims_shape_def)
  next
    case False
    with rq shape show ?thesis
      by (auto simp: recover_scope_claims_def single_owner_def claims_ok_def split: json.splits)
  qed
qed

end
