(* ===== verification/RouterInvariant.thy ===== *)
theory RouterInvariant
  imports RouterRecovery
begin

text \<open>
  The router's own states: \<open>wf_state\<close> is what every operation leaves in the file. On such a
  state the recovery is the classification \<open>spec_recover\<close>, which never loses a scope while
  the pending list has room.
\<close>

section \<open>Well-formed states\<close>

definition canon_claim :: "claim \<Rightarrow> claim" where
  "canon_claim cl = cl\<lparr>c_scope := canon_scope (c_scope cl)\<rparr>"

definition canon_pending :: "pending \<Rightarrow> pending" where
  "canon_pending p = p\<lparr>p_scope := canon_scope (p_scope p)\<rparr>"

definition good_pending :: "router_cfg \<Rightarrow> pending \<Rightarrow> bool" where
  "good_pending c p \<longleftrightarrow> good_scope c (p_scope p) \<and> 0 < p_at p \<and> scope_reason_re (p_reason p)"

text \<open>A scope still in circulation: valid, not from the future, with an attempt left.\<close>

definition wf_scope :: "router_cfg \<Rightarrow> int \<Rightarrow> scope \<Rightarrow> bool" where
  "wf_scope c now s \<longleftrightarrow> good_scope c s \<and> s_created_at s \<le> now \<and> s_attempts s < SCOPE_MAX_ATTEMPTS c"

definition wf_claim :: "router_cfg \<Rightarrow> int \<Rightarrow> string \<times> claim \<Rightarrow> bool" where
  "wf_claim c now kc \<longleftrightarrow> s_id (c_scope (snd kc)) = fst kc \<and> wf_scope c now (c_scope (snd kc)) \<and>
     0 < c_expires_at (snd kc) \<and> claim_token_re (c_token (snd kc))"

definition wf_state :: "router_cfg \<Rightarrow> int \<Rightarrow> qstate \<Rightarrow> bool" where
  "wf_state c now q \<longleftrightarrow>
     list_all (wf_scope c now) (q_queue q) \<and> distinct (scope_ids (q_queue q)) \<and>
     list_all (wf_claim c now) (q_claims q) \<and> distinct (keys_of (q_claims q)) \<and>
     set (scope_ids (q_queue q)) \<inter> set (keys_of (q_claims q)) = {} \<and>
     list_all (good_pending c) (q_pending q) \<and>
     int (length (q_pending q)) \<le> SCOPE_MAX_PENDING c \<and> json_wf (JObj (q_rest q))"

lemma wf_scope_later: "wf_scope c now s \<Longrightarrow> now \<le> now' \<Longrightarrow> wf_scope c now' s"
  by (simp add: wf_scope_def)

lemma wf_state_later: "wf_state c now q \<Longrightarrow> now \<le> now' \<Longrightarrow> wf_state c now' q"
  by (auto simp: wf_state_def wf_claim_def list_all_iff wf_scope_later)

lemma wf_scope_canon: "wf_scope c now s \<Longrightarrow> wf_scope c now (canon_scope s)"
  by (simp add: wf_scope_def good_canon_scope)

lemma scope_id_canon [simp]: "scope_ids (map canon_scope ss) = scope_ids ss"
  by (simp add: scope_ids_def)

section \<open>Decoding what was saved\<close>

lemma dget_claim_extra: "dget [(''claim_expires_at'', a), (''claim_token'', b)] ''delivery'' = None"
  by simp

lemma dget_pending_extra: "dget [(''pending_at'', a), (''reason'', b)] ''delivery'' = None"
  by simp

lemma normalise_claim_dict:
  "good_scope c (c_scope cl) \<Longrightarrow>
   normalise_scope_item c (JObj (claim_dict cl)) now True = Some (canon_scope (c_scope cl))"
  unfolding claim_dict_def by (rule normalise_scope_dict [OF _ dget_claim_extra]) simp_all

lemma dget_scope_dict_other:
  "k \<notin> {''id'', ''mode'', ''repositories'', ''created_at'', ''expires_at'', ''attempts'',
     ''not_before'', ''delivery''} \<Longrightarrow> dget (scope_dict s @ e) k = dget e k"
  by (auto simp: scope_dict_def dget_append split: option.splits)

lemma dget_scope_dict_id: "dget (scope_dict s @ e) ''id'' = Some (JStr (s_id s))"
  by (simp add: scope_dict_def)

lemma claim_dict_fields:
  "dget_py (claim_dict cl) ''id'' = JStr (s_id (c_scope cl))"
  "dget_py (claim_dict cl) ''claim_expires_at'' = JInt (c_expires_at cl)"
  "dget_py (claim_dict cl) ''claim_token'' = JStr (c_token cl)"
  by (simp_all add: dget_py_def dget_or_def claim_dict_def dget_scope_dict_id dget_scope_dict_other)

lemma pending_dict_fields:
  "dget_py (pending_dict p) ''pending_at'' = JInt (p_at p)"
  "dget_py (pending_dict p) ''reason'' = JStr (p_reason p)"
  by (simp_all add: dget_py_def dget_or_def pending_dict_def dget_scope_dict_other)

lemma claim_token_matches_claim:
  "claim_token_matches (JObj (claim_dict cl)) t \<longleftrightarrow>
   claim_token_re (c_token cl) \<and> claim_token_re t \<and> c_token cl = t"
  by (simp add: claim_token_matches_def claim_dict_fields)

lemma decode_claim_enc:
  assumes "wf_claim c t (k, cl)"
  shows "decode_claim c now tok (k, JObj (claim_dict cl)) = Some (k, canon_claim cl)"
proof -
  from assms have g: "good_scope c (c_scope cl)" by (simp add: wf_claim_def wf_scope_def)
  then have "scope_id_re (s_id (c_scope cl))" by (simp add: good_scope_def)
  with assms normalise_claim_dict [OF g] show ?thesis
    by (auto simp: decode_claim_def claim_dict_fields wf_claim_def canon_claim_def)
qed

lemma safe_reason_id: "scope_reason_re r \<Longrightarrow> safe_scope_reason (JStr r) = r"
  by (simp add: safe_scope_reason_def)

interpretation pending_codec:
  codec "\<lambda>p. JObj (pending_dict p)" "parse_pending c now" canon_pending "good_pending c"
  for c now
proof unfold_locales
  fix p assume g: "good_pending c p"
  then have "normalise_scope_item c (JObj (pending_dict p)) now True = Some (canon_scope (p_scope p))"
    unfolding pending_dict_def by (intro normalise_scope_dict [OF _ dget_pending_extra]) (simp_all add: good_pending_def)
  with g show "parse_pending c now (JObj (pending_dict p)) = Some (canon_pending p)"
    by (simp add: parse_pending_def pending_dict_fields safe_reason_id good_pending_def canon_pending_def)
qed (simp_all add: canon_pending_def good_pending_def good_canon_scope)

lemma prune_saved_pending:
  assumes "list_all (good_pending c) ps" and "int (length ps) \<le> SCOPE_MAX_PENDING c"
  shows "prune_pending_scopes c (JArr (map (\<lambda>p. JObj (pending_dict p)) ps)) now = map canon_pending ps"
  using assms pending_codec.decode_list [of c ps now] by (simp add: prune_pending_scopes_def last_n_id)

lemma encode_state_fields:
  "dget_py (encode_state q) ''scope_queue'' = JArr (map (\<lambda>s. JObj (scope_dict s)) (q_queue q))"
  "dget_py (encode_state q) ''scope_claims'' = JObj (map (\<lambda>(k, cl). (k, JObj (claim_dict cl))) (q_claims q))"
  "dget_py (encode_state q) ''pending_scopes'' = JArr (map (\<lambda>p. JObj (pending_dict p)) (q_pending q))"
  "k \<notin> {''scope_queue'', ''scope_claims'', ''pending_scopes''} \<Longrightarrow>
     dget (encode_state q) k = dget (q_rest q) k"
  by (simp_all add: encode_state_def dget_py_def dget_or_def)

lemma json_wf_scope_dict: "json_wf (JObj (scope_dict s))"
  by (simp add: scope_dict_def list_all_iff split: option.splits)

lemma json_wf_claim_dict: "json_wf (JObj (claim_dict cl))"
  by (simp add: claim_dict_def scope_dict_def list_all_iff split: option.splits)

lemma json_wf_pending_dict: "json_wf (JObj (pending_dict p))"
  by (simp add: pending_dict_def scope_dict_def list_all_iff split: option.splits)

lemma json_wf_encode_state:
  assumes "wf_state c now q"
  shows "json_wf (JObj (encode_state q))"
proof -
  have "map fst (map (\<lambda>(k, cl). (k, JObj (claim_dict cl))) (q_claims q)) = keys_of (q_claims q)"
    by (auto simp: keys_of_def)
  then have "json_wf (JObj (map (\<lambda>(k, cl). (k, JObj (claim_dict cl))) (q_claims q)))"
    using assms by (auto simp: wf_state_def list_all_iff json_wf_claim_dict simp del: json_wf.simps(2) map_map
        intro!: json_wf.simps(2) [THEN iffD2])
  moreover have "json_wf (JArr (map (\<lambda>s. JObj (scope_dict s)) ss))" for ss
    using json_wf_scope_dict by (simp add: list_all_iff del: json_wf.simps(2))
  moreover have "json_wf (JArr (map (\<lambda>p. JObj (pending_dict p)) ps))" for ps
    using json_wf_pending_dict by (simp add: list_all_iff del: json_wf.simps(2))
  ultimately show ?thesis
    using assms unfolding encode_state_def wf_state_def by (intro json_wf_dset) blast+
qed

lemma load_save: "wf_state c now q \<Longrightarrow> load_state (save q) = Inr (encode_state q)"
  unfolding save_def by (rule state_store.load_save) (rule json_wf_encode_state)

section \<open>The recovery as a classification\<close>

definition spent :: "router_cfg \<Rightarrow> scope \<Rightarrow> bool" where
  "spent c s \<longleftrightarrow> SCOPE_MAX_ATTEMPTS c \<le> s_attempts s + 1"

definition retried :: "router_cfg \<Rightarrow> int \<Rightarrow> scope \<Rightarrow> scope" where
  "retried c now s = retry_scope c s (s_attempts s + 1) now now"

definition age_queue :: "router_cfg \<Rightarrow> int \<Rightarrow> scope list \<Rightarrow> scope list" where
  "age_queue c now ss = map (\<lambda>s. if now < s_expires_at s then s else retried c now s)
     (filter (\<lambda>s. now < s_expires_at s \<or> \<not> spent c s) ss)"

definition park :: "router_cfg \<Rightarrow> int \<Rightarrow> string \<Rightarrow> pending list \<Rightarrow> scope \<Rightarrow> pending list" where
  "park c now reason pend s =
     append_pending_scope c pend (s\<lparr>s_attempts := s_attempts s + 1\<rparr>) now reason"

definition lost_scopes :: "int \<Rightarrow> (string \<times> claim) list \<Rightarrow> scope list" where
  "lost_scopes now cs = map (c_scope \<circ> snd) (filter (\<lambda>kc. c_expires_at (snd kc) \<le> now) cs)"

definition spec_recover :: "router_cfg \<Rightarrow> int \<Rightarrow> qstate \<Rightarrow> qstate" where
  "spec_recover c now q =
     (let ss = map canon_scope (q_queue q);
          cs = map (\<lambda>(k, cl). (k, canon_claim cl)) (q_claims q);
          lost = lost_scopes now cs
      in \<lparr>q_queue = age_queue c now ss @ map (retried c now) (filter (\<lambda>s. \<not> spent c s) lost),
          q_claims = filter (\<lambda>kc. now < c_expires_at (snd kc)) cs,
          q_pending = foldl (park c now ''claim_lease_expired'')
            (foldl (park c now ''scope_expired'') (map canon_pending (q_pending q))
              (filter (\<lambda>s. s_expires_at s \<le> now \<and> spent c s) ss))
            (filter (spent c) lost),
          q_rest = encode_state q\<rparr>)"

lemma queue_steps:
  assumes "distinct (scope_ids ss)" and "set (scope_ids ss) \<inter> set seen = {}"
  shows "snd (foldl (queue_step c now) (seen, queue, pend) ss) =
    (queue @ age_queue c now ss,
     foldl (park c now ''scope_expired'') pend (filter (\<lambda>s. s_expires_at s \<le> now \<and> spent c s) ss))"
  using assms
proof (induction ss arbitrary: seen queue pend)
  case (Cons s ss)
  then have "distinct (scope_ids ss)" and "set (scope_ids ss) \<inter> set (s_id s # seen) = {}"
    and "s_id s \<notin> set seen" by auto
  with Cons.IH [of "s_id s # seen"] show ?case
    by (simp add: queue_step_def age_queue_def spent_def retried_def park_def)
qed (simp add: age_queue_def)

lemma claims_steps:
  assumes "distinct (keys_of cs)" and "set (keys_of cs) \<inter> set (keys_of claims) = {}"
    and "set (keys_of cs) \<inter> set (scope_ids queue) = {}"
    and "\<forall>kc \<in> set cs. s_id (c_scope (snd kc)) = fst kc"
  shows "foldl (claims_step c now) (claims, queue, pend) cs =
    (claims @ filter (\<lambda>kc. now < c_expires_at (snd kc)) cs,
     queue @ map (retried c now) (filter (\<lambda>s. \<not> spent c s) (lost_scopes now cs)),
     foldl (park c now ''claim_lease_expired'') pend (filter (spent c) (lost_scopes now cs)))"
  using assms
proof (induction cs arbitrary: claims queue pend)
  case (Cons kc cs)
  obtain k cl where kc: "kc = (k, cl)" by fastforce
  have same: "filter (\<lambda>queued. s_id queued \<noteq> k) queue = queue"
    using Cons.prems(3) kc by (intro filter_True) (auto simp: set_scope_ids)
  have new: "dset k cl claims = claims @ [(k, cl)]"
    using Cons.prems(2) kc by (intro dset_new) auto
  have tl: "distinct (keys_of cs)" "\<forall>kc \<in> set cs. s_id (c_scope (snd kc)) = fst kc"
    "k \<notin> set (keys_of cs)" "s_id (c_scope cl) = k"
    "set (keys_of cs) \<inter> set (keys_of claims) = {}" "set (keys_of cs) \<inter> set (scope_ids queue) = {}"
    using Cons.prems kc by auto
  show ?case
  proof (cases "now < c_expires_at cl")
    case True
    then show ?thesis
      using Cons.IH [of "claims @ [(k, cl)]" queue pend] tl same new kc
      by (simp add: claims_step_def Let_def lost_scopes_def keys_of_def)
  next
    case False
    then show ?thesis
      using Cons.IH [of claims queue] Cons.IH [of claims "queue @ [retried c now (c_scope cl)]" pend] tl same kc
      by (simp add: claims_step_def Let_def lost_scopes_def spent_def park_def retried_def)
  qed
qed (simp add: lost_scopes_def)

lemma scope_ids_age_queue: "set (scope_ids (age_queue c now ss)) \<subseteq> set (scope_ids ss)"
  by (auto simp: age_queue_def set_scope_ids retried_def)

theorem recover_encoded:
  assumes "wf_state c t q"
  shows "recover_scope_claims c now tok (encode_state q) = spec_recover c now q"
proof -
  let ?ss = "map canon_scope (q_queue q)" and ?cs = "map (\<lambda>(k, cl). (k, canon_claim cl)) (q_claims q)"
  have good: "list_all (good_scope c) (q_queue q)"
    using assms by (auto simp: wf_state_def wf_scope_def list_all_iff)
  have items: "List.map_filter (\<lambda>raw. normalise_scope_item c raw now True)
      (map (\<lambda>s. JObj (scope_dict s)) (q_queue q)) = ?ss"
    using scope_codec.decode_list [OF good] .
  have "List.map_filter (decode_claim c now tok) (map (\<lambda>(k, cl). (k, JObj (claim_dict cl))) cs) =
      map (\<lambda>(k, cl). (k, canon_claim cl)) cs" if "list_all (wf_claim c t) cs" for cs
    using that by (induction cs) (auto simp: decode_claim_enc)
  then have claims: "List.map_filter (decode_claim c now tok)
      (map (\<lambda>(k, cl). (k, JObj (claim_dict cl))) (q_claims q)) = ?cs"
    using assms by (simp add: wf_state_def)
  have keys: "keys_of ?cs = keys_of (q_claims q)" by (auto simp: keys_of_def)
  have own: "\<forall>kc \<in> set ?cs. s_id (c_scope (snd kc)) = fst kc"
    using assms by (auto simp: wf_state_def wf_claim_def canon_claim_def list_all_iff)
  have "set (keys_of ?cs) \<inter> set (scope_ids (age_queue c now ?ss)) = {}"
    using assms keys scope_ids_age_queue [of c now ?ss] by (auto simp: wf_state_def)
  with assms keys own show ?thesis
    by (simp add: recover_scope_claims_def encode_state_fields recover_queued_scopes_def
        recover_queued_loop_foldl recover_claims_loop_foldl items claims queue_steps claims_steps
        prune_saved_pending spec_recover_def Let_def wf_state_def)
qed

end
