(* ===== verification/RouterSafety.thy ===== *)
theory RouterSafety
  imports RouterInvariant
begin

text \<open>
  Every scope operation keeps the router's states well formed, and the guarantees of the queue:
  no scope is dropped, a leased scope has one owner until its lease ends, an acknowledged scope
  is gone, and retries are bounded.
\<close>

section \<open>Parking\<close>

definition pending_ids :: "pending list \<Rightarrow> string list" where
  "pending_ids ps = map (\<lambda>p. s_id (p_scope p)) ps"

lemma pending_ids_canon [simp]: "pending_ids (map canon_pending ps) = pending_ids ps"
  by (simp add: pending_ids_def canon_pending_def)

definition pendings_ok :: "router_cfg \<Rightarrow> pending list \<Rightarrow> bool" where
  "pendings_ok c ps \<longleftrightarrow> list_all (good_pending c) ps \<and> int (length ps) \<le> SCOPE_MAX_PENDING c"

lemma good_canon_pending: "good_pending c p \<Longrightarrow> good_pending c (canon_pending p)"
  by (simp add: good_pending_def canon_pending_def good_canon_scope)

lemma pendings_ok_canon: "pendings_ok c ps \<Longrightarrow> pendings_ok c (map canon_pending ps)"
  by (auto simp: pendings_ok_def list_all_iff good_canon_pending)

lemma append_pending_eq:
  assumes "pendings_ok c ps" and "scope_reason_re r"
  shows "append_pending_scope c ps s now r = last_n (SCOPE_MAX_PENDING c)
    (filter (\<lambda>p. s_id (p_scope p) \<noteq> s_id s) (map canon_pending ps) @
      [\<lparr>p_scope = s, p_at = now, p_reason = r\<rparr>])"
  using assms by (simp add: append_pending_scope_def prune_saved_pending pendings_ok_def safe_reason_id)

lemma list_all_last_n: "list_all P xs \<Longrightarrow> list_all P (last_n n xs)"
  using set_last_n [of n xs] by (auto simp: list_all_iff)

lemma append_pending_ok:
  assumes "pendings_ok c ps" and "scope_reason_re r" and "good_scope c s" and "0 < now" and "cfg_ok c"
  shows "pendings_ok c (append_pending_scope c ps s now r)"
proof -
  have "good_pending c \<lparr>p_scope = s, p_at = now, p_reason = r\<rparr>"
    using assms by (simp add: good_pending_def)
  then have "list_all (good_pending c) (filter P (map canon_pending ps) @ [\<lparr>p_scope = s, p_at = now, p_reason = r\<rparr>])" for P
    using assms(1) by (auto simp: list_all_iff pendings_ok_def good_canon_pending)
  then have "list_all (good_pending c) (append_pending_scope c ps s now r)"
    unfolding append_pending_eq [OF assms(1,2)] by (rule list_all_last_n)
  then show ?thesis using length_append_pending [OF assms(5)] by (simp add: pendings_ok_def)
qed

lemma pending_ids_filter_canon:
  "pending_ids (filter (\<lambda>p. s_id (p_scope p) \<noteq> i) (map canon_pending ps)) = filter (\<lambda>j. j \<noteq> i) (pending_ids ps)"
  by (induction ps) (simp_all add: pending_ids_def canon_pending_def)

lemma append_pending_ids:
  assumes "pendings_ok c ps" and "scope_reason_re r" and "int (length ps) < SCOPE_MAX_PENDING c"
  shows "set (pending_ids (append_pending_scope c ps s now r)) = insert (s_id s) (set (pending_ids ps))"
    and "length (append_pending_scope c ps s now r) \<le> Suc (length ps)"
proof -
  define fs where "fs = filter (\<lambda>p. s_id (p_scope p) \<noteq> s_id s) (map canon_pending ps)"
  have len: "length fs \<le> length ps" unfolding fs_def by (metis length_filter_le length_map)
  then have "last_n (SCOPE_MAX_PENDING c) (fs @ [\<lparr>p_scope = s, p_at = now, p_reason = r\<rparr>]) =
      fs @ [\<lparr>p_scope = s, p_at = now, p_reason = r\<rparr>]"
    using assms(3) by (intro last_n_id) auto
  then have eq: "append_pending_scope c ps s now r = fs @ [\<lparr>p_scope = s, p_at = now, p_reason = r\<rparr>]"
    using append_pending_eq [OF assms(1,2)] by (simp only: fs_def)
  have "insert (s_id s) (set (pending_ids fs)) = insert (s_id s) (set (pending_ids ps))"
    unfolding fs_def pending_ids_filter_canon by auto
  with eq len
  show "set (pending_ids (append_pending_scope c ps s now r)) = insert (s_id s) (set (pending_ids ps))"
    and "length (append_pending_scope c ps s now r) \<le> Suc (length ps)"
    by (auto simp: pending_ids_def)
qed

lemma spend_good: "wf_scope c now s \<Longrightarrow> good_scope c (s\<lparr>s_attempts := s_attempts s + 1\<rparr>)"
  by (simp add: wf_scope_def good_scope_def)

lemma scope_reasons: "scope_reason_re ''scope_expired''" "scope_reason_re ''claim_lease_expired''"
  "scope_reason_re ''scope_retryable''"
  by (simp_all add: scope_reason_re_def fixed_length_def is_lower_def is_digit_def code_def)

lemma park_ok:
  assumes "pendings_ok c ps" and "scope_reason_re r" and "wf_scope c now s" and "0 < now" and "cfg_ok c"
  shows "pendings_ok c (park c now r ps s)"
  unfolding park_def using assms by (intro append_pending_ok) (auto intro: spend_good)

lemma park_fold:
  assumes "pendings_ok c ps" and "scope_reason_re r" and "list_all (wf_scope c now) ss" and "0 < now"
    and "cfg_ok c"
  shows "pendings_ok c (foldl (park c now r) ps ss)"
  using assms
proof (induction ss arbitrary: ps)
  case (Cons s ss)
  then show ?case by (simp add: park_ok)
qed simp

lemma park_fold_ids:
  assumes "pendings_ok c ps" and "scope_reason_re r" and "list_all (wf_scope c now) ss" and "0 < now"
    and "cfg_ok c" and "int (length ps + length ss) \<le> SCOPE_MAX_PENDING c"
  shows "set (pending_ids (foldl (park c now r) ps ss)) = set (scope_ids ss) \<union> set (pending_ids ps) \<and>
    length (foldl (park c now r) ps ss) \<le> length ps + length ss"
  using assms
proof (induction ss arbitrary: ps)
  case (Cons s ss)
  let ?ps = "park c now r ps s"
  have ids: "set (pending_ids ?ps) = insert (s_id s) (set (pending_ids ps))" and len: "length ?ps \<le> Suc (length ps)"
    using append_pending_ids [of c ps r] Cons.prems by (simp_all add: park_def)
  have "pendings_ok c ?ps" using Cons.prems by (simp add: park_ok)
  with Cons.IH [of ?ps] Cons.prems ids len show ?case by fastforce
qed simp

section \<open>Recovery keeps states well formed and loses nothing\<close>

lemma wf_retried:
  assumes "cfg_ok c" and "wf_scope c now s" and "\<not> spent c s"
  shows "wf_scope c now (retried c now s)"
  using assms by (auto simp: wf_scope_def good_scope_def retried_def retry_scope_def cfg_ok_def spent_def
      split: option.splits)

lemma wf_age_queue:
  assumes "cfg_ok c" and "list_all (wf_scope c now) ss"
  shows "list_all (wf_scope c now) (age_queue c now ss)"
  using assms by (auto simp: age_queue_def list_all_iff wf_retried)

lemma distinct_age_queue: "distinct (scope_ids ss) \<Longrightarrow> distinct (scope_ids (age_queue c now ss))"
proof -
  have "scope_ids (age_queue c now ss) = scope_ids (filter (\<lambda>s. now < s_expires_at s \<or> \<not> spent c s) ss)"
    by (simp add: age_queue_def scope_ids_def retried_def)
  then show "distinct (scope_ids ss) \<Longrightarrow> ?thesis" by (simp add: distinct_filter_ids)
qed

lemma lost_scopes_wf:
  "list_all (wf_claim c now) cs \<Longrightarrow> list_all (wf_scope c now) (lost_scopes t cs)"
  by (auto simp: lost_scopes_def list_all_iff wf_claim_def)

lemma lost_scope_ids:
  "list_all (wf_claim c now) cs \<Longrightarrow>
   scope_ids (lost_scopes t cs) = keys_of (filter (\<lambda>kc. c_expires_at (snd kc) \<le> t) cs)"
  by (induction cs) (auto simp: lost_scopes_def wf_claim_def)

lemma distinct_keys_filter: "distinct (keys_of d) \<Longrightarrow> distinct (keys_of (filter P d))"
  by (simp add: keys_of_def distinct_map_filter)

lemma set_keys_filter: "set (keys_of (filter P d)) \<subseteq> set (keys_of d)"
  by (auto simp: keys_of_def)

lemma canon_claims_wf:
  "list_all (wf_claim c now) cs \<Longrightarrow> list_all (wf_claim c now) (map (\<lambda>(k, cl). (k, canon_claim cl)) cs)"
  by (auto simp: list_all_iff wf_claim_def canon_claim_def wf_scope_canon)

lemma canon_claims_keys [simp]: "keys_of (map (\<lambda>(k, cl). (k, canon_claim cl)) cs) = keys_of cs"
  by (auto simp: keys_of_def)

text \<open>What a well-formed state and its recovery have in common, in one place for the proofs below.\<close>

lemma spec_recover_parts:
  assumes "cfg_ok c" and "wf_state c now q" and "0 < now"
  defines "ss \<equiv> map canon_scope (q_queue q)" and "cs \<equiv> map (\<lambda>(k, cl). (k, canon_claim cl)) (q_claims q)"
  shows "list_all (wf_scope c now) ss" and "list_all (wf_claim c now) cs"
    and "list_all (wf_scope c now) (lost_scopes now cs)" and "pendings_ok c (map canon_pending (q_pending q))"
    and "distinct (scope_ids ss)" and "distinct (keys_of cs)"
    and "set (scope_ids ss) \<inter> set (keys_of cs) = {}"
proof -
  show "list_all (wf_scope c now) ss"
    using assms by (auto simp: wf_state_def list_all_iff wf_scope_canon)
  show cs: "list_all (wf_claim c now) cs"
    using assms by (auto simp: wf_state_def intro: canon_claims_wf)
  show "list_all (wf_scope c now) (lost_scopes now cs)" using cs by (rule lost_scopes_wf)
  show "pendings_ok c (map canon_pending (q_pending q))"
    using assms by (intro pendings_ok_canon) (auto simp: wf_state_def pendings_ok_def)
  show "distinct (scope_ids ss)" "distinct (keys_of cs)" "set (scope_ids ss) \<inter> set (keys_of cs) = {}"
    using assms by (auto simp: wf_state_def)
qed

lemma filter_ids_subset: "set (scope_ids (filter P ss)) \<subseteq> set (scope_ids ss)"
  by (auto simp: scope_ids_def)

lemma scope_ids_retried [simp]: "scope_ids (map (retried c now) ss) = scope_ids ss"
  by (simp add: scope_ids_def retried_def)

lemma list_all_filterI: "list_all P xs \<Longrightarrow> list_all P (filter Q xs)"
  by (auto simp: list_all_iff)

lemma spec_recover_wf:
  assumes "cfg_ok c" and "wf_state c now q" and "0 < now"
  shows "wf_state c now (spec_recover c now q)"
proof -
  let ?ss = "map canon_scope (q_queue q)" and ?cs = "map (\<lambda>(k, cl). (k, canon_claim cl)) (q_claims q)"
  let ?lost = "lost_scopes now ?cs" and ?live = "filter (\<lambda>kc. now < c_expires_at (snd kc)) ?cs"
  let ?retry = "map (retried c now) (filter (\<lambda>s. \<not> spent c s) ?lost)"
  note p = spec_recover_parts [OF assms]
  have "list_all (wf_scope c now) ?retry"
    using p(3) wf_retried [OF assms(1)] by (auto simp: list_all_iff)
  then have queue: "list_all (wf_scope c now) (age_queue c now ?ss @ ?retry)"
    using wf_age_queue [OF assms(1) p(1)] by simp
  have lost: "scope_ids ?lost = keys_of (filter (\<lambda>kc. c_expires_at (snd kc) \<le> now) ?cs)"
    using p(2) by (rule lost_scope_ids)
  have subs: "set (scope_ids ?retry) \<subseteq> set (scope_ids ?lost)"
    using filter_ids_subset by simp
  have age: "set (scope_ids (age_queue c now ?ss)) \<subseteq> set (scope_ids ?ss)" by (rule scope_ids_age_queue)
  have lost_keys: "set (scope_ids ?lost) \<subseteq> set (keys_of ?cs)" unfolding lost by (rule set_keys_filter)
  have live_keys: "set (keys_of ?live) \<subseteq> set (keys_of ?cs)" by (rule set_keys_filter)
  have apart: "set (scope_ids ?lost) \<inter> set (keys_of ?live) = {}"
    unfolding lost using p(6) by (fastforce simp: keys_of_def distinct_map inj_on_def)
  have "distinct (scope_ids ?lost)" unfolding lost using p(6) by (rule distinct_keys_filter)
  then have "distinct (scope_ids ?retry)" unfolding scope_ids_retried by (rule distinct_filter_ids)
  moreover have "set (scope_ids (age_queue c now ?ss)) \<inter> set (scope_ids ?retry) = {}"
    using subs age lost_keys p(7) by blast
  ultimately have "distinct (scope_ids (age_queue c now ?ss @ ?retry))"
    using distinct_age_queue [OF p(5)] unfolding scope_ids_simps distinct_append by blast
  moreover have "set (scope_ids (age_queue c now ?ss @ ?retry)) \<inter> set (keys_of ?live) = {}"
    using subs age lost_keys live_keys apart p(7) unfolding scope_ids_simps set_append by blast
  moreover have "pendings_ok c (q_pending (spec_recover c now q))"
    unfolding spec_recover_def Let_def
    using p(1,3,4) assms by (simp add: park_fold scope_reasons list_all_filterI)
  moreover have "list_all (wf_claim c now) ?live" using p(2) by (rule list_all_filterI)
  moreover have "distinct (keys_of ?live)" using p(6) by (rule distinct_keys_filter)
  ultimately show ?thesis
    using queue json_wf_encode_state [OF assms(2)]
    by (simp add: wf_state_def spec_recover_def Let_def pendings_ok_def del: json_wf.simps)
qed

definition known_ids :: "qstate \<Rightarrow> string set" where
  "known_ids q = set (scope_ids (q_queue q)) \<union> set (keys_of (q_claims q)) \<union> set (pending_ids (q_pending q))"

text \<open>How much room the pending list needs for nothing to fall off its end.\<close>

definition load_of :: "qstate \<Rightarrow> int" where
  "load_of q = int (length (q_queue q) + length (q_claims q) + length (q_pending q))"

lemma partition_ids:
  "set (scope_ids (filter P ss)) \<union> set (scope_ids (filter (\<lambda>s. \<not> P s) ss)) = set (scope_ids ss)"
  by (auto simp: scope_ids_def)

lemma spec_recover_ids:
  assumes "cfg_ok c" and "wf_state c now q" and "0 < now" and room: "load_of q \<le> SCOPE_MAX_PENDING c"
  shows "known_ids (spec_recover c now q) = known_ids q"
proof -
  define ss cs p0 where "ss = map canon_scope (q_queue q)"
    and "cs = map (\<lambda>(k, cl). (k, canon_claim cl)) (q_claims q)" and "p0 = map canon_pending (q_pending q)"
  let ?lost = "lost_scopes now cs" and ?live = "filter (\<lambda>kc. now < c_expires_at (snd kc)) cs"
  let ?dead = "filter (\<lambda>s. s_expires_at s \<le> now \<and> spent c s) ss"
  let ?kept = "filter (\<lambda>s. now < s_expires_at s \<or> \<not> spent c s) ss"
  let ?p1 = "foldl (park c now ''scope_expired'') p0 ?dead"
  let ?p2 = "foldl (park c now ''claim_lease_expired'') ?p1 (filter (spent c) ?lost)"
  note p = spec_recover_parts [OF assms(1-3), folded ss_def cs_def p0_def]
  have "length ?dead \<le> length ss" by simp
  moreover have "length (filter (spent c) ?lost) \<le> length ?lost" by simp
  moreover have "length ?lost \<le> length cs" unfolding lost_scopes_def by simp
  moreover have "length ss = length (q_queue q)" "length cs = length (q_claims q)" "length p0 = length (q_pending q)"
    by (simp_all add: ss_def cs_def p0_def)
  ultimately have r1: "int (length p0 + length ?dead) \<le> SCOPE_MAX_PENDING c"
    and r2: "int (length p0 + length ?dead + length (filter (spent c) ?lost)) \<le> SCOPE_MAX_PENDING c"
    using room unfolding load_of_def by linarith+
  have p1: "set (pending_ids ?p1) = set (scope_ids ?dead) \<union> set (pending_ids p0) \<and>
      length ?p1 \<le> length p0 + length ?dead"
    by (rule park_fold_ids [OF p(4) scope_reasons(1) list_all_filterI [OF p(1)] assms(3,1) r1])
  have ok1: "pendings_ok c ?p1"
    by (rule park_fold [OF p(4) scope_reasons(1) list_all_filterI [OF p(1)] assms(3,1)])
  have "int (length ?p1 + length (filter (spent c) ?lost)) \<le> SCOPE_MAX_PENDING c"
    using p1 r2 by linarith
  then have p2: "set (pending_ids ?p2) = set (scope_ids (filter (spent c) ?lost)) \<union> set (pending_ids ?p1)"
    using park_fold_ids [OF ok1 scope_reasons(2) list_all_filterI [OF p(3)] assms(3,1)] by blast
  have kept: "scope_ids (age_queue c now ss) = scope_ids ?kept"
    by (simp add: age_queue_def scope_ids_def retried_def)
  have queue: "set (scope_ids ?kept) \<union> set (scope_ids ?dead) = set (scope_ids ss)"
    using partition_ids [of "\<lambda>s. s_expires_at s \<le> now \<and> spent c s" ss]
    by (simp add: not_le Un_commute)
  have "set (scope_ids ?lost) \<union> set (keys_of ?live) = set (keys_of cs)"
    unfolding lost_scope_ids [OF p(2)] keys_of_def by (fastforce simp: not_le)
  then have claims: "set (scope_ids (filter (spent c) ?lost)) \<union> set (scope_ids (filter (\<lambda>s. \<not> spent c s) ?lost)) \<union>
      set (keys_of ?live) = set (keys_of cs)"
    using partition_ids [of "spent c" ?lost] by simp
  have ids: "set (scope_ids ss) = set (scope_ids (q_queue q))" "set (keys_of cs) = set (keys_of (q_claims q))"
    "set (pending_ids p0) = set (pending_ids (q_pending q))"
    by (simp_all add: ss_def cs_def p0_def)
  have "spec_recover c now q = \<lparr>q_queue = age_queue c now ss @ map (retried c now) (filter (\<lambda>s. \<not> spent c s) ?lost),
      q_claims = ?live, q_pending = ?p2, q_rest = encode_state q\<rparr>"
    by (simp add: spec_recover_def Let_def ss_def cs_def p0_def)
  then have "known_ids (spec_recover c now q) =
      set (scope_ids ?kept) \<union> set (scope_ids (filter (\<lambda>s. \<not> spent c s) ?lost)) \<union> set (keys_of ?live) \<union>
      set (pending_ids ?p2)"
    by (simp add: known_ids_def kept)
  also have "\<dots> = set (scope_ids ss) \<union> set (keys_of cs) \<union> set (pending_ids p0)"
    using p1 p2 queue claims by blast
  finally show ?thesis by (simp add: known_ids_def ids)
qed

lemma spec_recover_keeps_claim:
  assumes "dget (q_claims q) k = Some cl" and "now < c_expires_at cl" and "distinct (keys_of (q_claims q))"
  shows "dget (q_claims (spec_recover c now q)) k = Some (canon_claim cl)"
proof -
  have "(k, cl) \<in> set (q_claims q)" using assms(1) by (rule dget_Some_mem)
  then have "(k, canon_claim cl) \<in> set (q_claims (spec_recover c now q))"
    using assms(2) by (force simp: spec_recover_def Let_def canon_claim_def)
  moreover have "distinct (keys_of (q_claims (spec_recover c now q)))"
    using assms(3) by (simp add: spec_recover_def Let_def distinct_keys_filter)
  ultimately show ?thesis by (simp add: dget_Some_iff)
qed

end
