(* ===== verification/RouterOps.thy ===== *)
theory RouterOps
  imports RouterSafety
begin

text \<open>
  The router's scope operations as steps of one machine over the state file, in any order and
  with a clock that does not run backwards; what the operations do to the state they find, and
  that every reachable file holds a well-formed state.
\<close>

section \<open>The machine\<close>

datatype router_op =
    Enqueue string bool "string option" "string list option" "string option"
  | Claim string
  | Ack string string
  | Requeue string string string
  | Status

fun run_op :: "router_cfg \<Rightarrow> int \<Rightarrow> (string \<Rightarrow> string) \<Rightarrow> router_op \<Rightarrow> state_file \<Rightarrow> dict op_result" where
  "run_op c now tok (Enqueue uid full repository repositories delivery) f =
     enqueue_scope c now tok uid full repository repositories delivery f"
| "run_op c now tok (Claim claim_token) f = claim_scope c now tok claim_token f"
| "run_op c now tok (Ack scope_id claim_token) f = ack_scope c now tok scope_id claim_token f"
| "run_op c now tok (Requeue scope_id reason claim_token) f =
     requeue_scope c now tok scope_id reason claim_token f"
| "run_op c now tok Status f = queue_status c now tok f"

text \<open>
  What \<open>uuid4\<close> gives: tokens of 32 hexadecimal digits, and scope identifiers that are not
  in use.
\<close>

definition fresh_id :: "router_cfg \<Rightarrow> int \<Rightarrow> state_file \<Rightarrow> string \<Rightarrow> bool" where
  "fresh_id c now f uid \<longleftrightarrow> scope_id_re uid \<and> (case load_state f of Inl _ \<Rightarrow> True
     | Inr d \<Rightarrow> uid \<notin> known_ids (recover_scope_claims c now (\<lambda>_. []) d))"

fun op_ok :: "router_cfg \<Rightarrow> int \<Rightarrow> state_file \<Rightarrow> router_op \<Rightarrow> bool" where
  "op_ok c now f (Enqueue uid full repository repositories delivery) = fresh_id c now f uid"
| "op_ok c now f (Claim claim_token) = claim_token_re claim_token"
| "op_ok c now f _ = True"

inductive router_step ::
  "router_cfg \<Rightarrow> int \<times> state_file \<Rightarrow> router_op \<Rightarrow> dict res \<Rightarrow> int \<times> state_file \<Rightarrow> bool" where
  router_step: "t \<le> now \<Longrightarrow> op_ok c now f op \<Longrightarrow> run_op c now tok op f = (r, f') \<Longrightarrow>
     router_step c (t, f) op r (now, f')"

inductive_cases router_stepE: "router_step c (t, f) op r (t', f')"

text \<open>
  The keys of the state file that the scope operations own. Between them other parts of the router
  (delivery bookkeeping, the list of managed repositories) write the keys that are left.
\<close>

definition scope_keys :: "string set" where
  "scope_keys = {''scope_queue'', ''scope_claims'', ''pending_scopes''}"

definition reserved_keys :: "string set" where
  "reserved_keys = insert ''last_claimed_scope'' (insert ''last_scope_transition'' scope_keys)"

inductive router_steps ::
  "router_cfg \<Rightarrow> int \<times> state_file \<Rightarrow> router_op list \<Rightarrow> int \<times> state_file \<Rightarrow> bool" where
  steps_none: "router_steps c tf [] tf"
| steps_more: "router_step c tf op r tf' \<Longrightarrow> router_steps c tf' ops tf'' \<Longrightarrow>
     router_steps c tf (op # ops) tf''"
| steps_other: "t \<le> now \<Longrightarrow> load_state f = Inr d \<Longrightarrow> k \<notin> reserved_keys \<Longrightarrow> json_wf v \<Longrightarrow>
     router_steps c (now, write_state (dset k v d)) ops tf'' \<Longrightarrow> router_steps c (t, f) ops tf''"

lemma router_steps_append:
  "router_steps c tf ops tf' \<Longrightarrow> router_steps c tf' ops' tf'' \<Longrightarrow> router_steps c tf (ops @ ops') tf''"
  by (induction rule: router_steps.induct) (auto intro: router_steps.intros)

text \<open>The files a router leaves that starts, at a positive time, without one.\<close>

definition router_file :: "router_cfg \<Rightarrow> int \<Rightarrow> state_file \<Rightarrow> bool" where
  "router_file c t f \<longleftrightarrow> (\<exists>t0 ops. 0 < t0 \<and> router_steps c (t0, FMissing) ops (t, f))"

section \<open>What a file holds\<close>

definition empty_qstate :: qstate where
  "empty_qstate = \<lparr>q_queue = [], q_claims = [], q_pending = [], q_rest = []\<rparr>"

text \<open>A file that no scope operation has written yet.\<close>

definition blank :: "state_file \<Rightarrow> qstate \<Rightarrow> bool" where
  "blank f q \<longleftrightarrow> (\<exists>d. load_state f = Inr d \<and> q = empty_qstate\<lparr>q_rest := d\<rparr> \<and>
     (\<forall>k \<in> scope_keys. dget d k = None))"

definition holds :: "router_cfg \<Rightarrow> int \<Rightarrow> state_file \<Rightarrow> qstate \<Rightarrow> bool" where
  "holds c t f q \<longleftrightarrow> wf_state c t q \<and> (f = save q \<or> blank f q)"

definition opened :: "router_cfg \<Rightarrow> int \<Rightarrow> qstate \<Rightarrow> dict \<Rightarrow> qstate" where
  "opened c now q d = (spec_recover c now q)\<lparr>q_rest := d\<rparr>"

lemma opened_fields [simp]:
  "q_queue (opened c now q d) = q_queue (spec_recover c now q)"
  "q_claims (opened c now q d) = q_claims (spec_recover c now q)"
  "q_pending (opened c now q d) = q_pending (spec_recover c now q)"
  "q_rest (opened c now q d) = d"
  by (simp_all add: opened_def)

lemma opened_empty: "opened c now (empty_qstate\<lparr>q_rest := d\<rparr>) d = empty_qstate\<lparr>q_rest := d\<rparr>"
  by (simp add: opened_def spec_recover_def empty_qstate_def age_queue_def lost_scopes_def)

lemma recover_blank:
  "\<forall>k \<in> scope_keys. dget d k = None \<Longrightarrow> recover_scope_claims c now tok d = empty_qstate\<lparr>q_rest := d\<rparr>"
  by (simp add: recover_scope_claims_def dget_py_def dget_or_def recover_queued_scopes_def
      prune_pending_scopes_def empty_qstate_def scope_keys_def)

lemma known_ids_opened [simp]: "known_ids (opened c now q d) = known_ids (spec_recover c now q)"
  by (simp add: known_ids_def)

lemma wf_with_rest: "wf_state c now q \<Longrightarrow> json_wf (JObj d) \<Longrightarrow> wf_state c now (q\<lparr>q_rest := d\<rparr>)"
  by (simp add: wf_state_def)

lemma holds_wf_empty: "cfg_ok c \<Longrightarrow> holds c t FMissing empty_qstate"
  by (simp add: holds_def wf_state_def empty_qstate_def cfg_ok_def blank_def)

text \<open>Loading and recovering, as every operation starts.\<close>

lemma holds_open:
  assumes "cfg_ok c" and "holds c t f q" and "t \<le> now" and "0 < now"
  obtains d where "load_state f = Inr d" and "\<And>tok. recover_scope_claims c now tok d = opened c now q d"
    and "wf_state c now (opened c now q d)"
    and "\<And>k. k \<notin> scope_keys \<Longrightarrow> dget d k = dget (q_rest q) k"
proof -
  have wf: "wf_state c now q" using assms by (auto simp: holds_def intro: wf_state_later)
  consider (saved) "f = save q" | (missing) "blank f q"
    using assms(2) by (auto simp: holds_def)
  then show thesis
  proof cases
    case saved
    have rest: "q_rest (spec_recover c now q) = encode_state q" by (simp add: spec_recover_def Let_def)
    show thesis
    proof (rule that)
      show "load_state f = Inr (encode_state q)" using load_save [OF wf] saved by simp
      show "recover_scope_claims c now tok (encode_state q) = opened c now q (encode_state q)" for tok
        using recover_encoded [OF wf] rest by (simp add: opened_def)
      show "wf_state c now (opened c now q (encode_state q))"
        unfolding opened_def
        by (rule wf_with_rest [OF spec_recover_wf [OF assms(1) wf assms(4)] json_wf_encode_state [OF wf]])
    qed (simp add: encode_state_fields scope_keys_def)
  next
    case missing
    then obtain d where d: "load_state f = Inr d" "q = empty_qstate\<lparr>q_rest := d\<rparr>"
      "\<forall>k \<in> scope_keys. dget d k = None" by (auto simp: blank_def)
    show thesis
    proof (rule that)
      show "load_state f = Inr d" by (rule d(1))
      show "recover_scope_claims c now tok d = opened c now q d" for tok
        using recover_blank [OF d(3)] d(2) opened_empty by simp
      show "wf_state c now (opened c now q d)"
        unfolding opened_def
        by (rule wf_with_rest [OF spec_recover_wf [OF assms(1) wf assms(4)] load_state_wf [OF d(1)]])
    qed (simp add: d)
  qed
qed

lemma holds_saved: "wf_state c t q \<Longrightarrow> holds c t (save q) q"
  by (simp add: holds_def)

text \<open>Writing another key leaves the scopes as they are.\<close>

lemma encode_state_other:
  assumes "k \<notin> scope_keys"
  shows "encode_state (q\<lparr>q_rest := dset k v (encode_state q)\<rparr>) = dset k v (encode_state q)"
proof -
  have "dget (dset k v (encode_state q)) ''scope_queue'' = Some (JArr (map (\<lambda>s. JObj (scope_dict s)) (q_queue q)))"
    "dget (dset k v (encode_state q)) ''scope_claims'' = Some (JObj (map (\<lambda>(k, cl). (k, JObj (claim_dict cl))) (q_claims q)))"
    "dget (dset k v (encode_state q)) ''pending_scopes'' = Some (JArr (map (\<lambda>p. JObj (pending_dict p)) (q_pending q)))"
    using assms by (auto simp: encode_state_def scope_keys_def)
  then show ?thesis unfolding encode_state_def [of "q\<lparr>q_rest := _\<rparr>"] by (simp add: dset_same)
qed

lemma holds_other:
  assumes "holds c t f q" and "t \<le> now" and "load_state f = Inr d" and "k \<notin> scope_keys" and "json_wf v"
  shows "\<exists>q'. holds c now (write_state (dset k v d)) q' \<and> q_queue q' = q_queue q \<and> q_claims q' = q_claims q \<and>
    q_pending q' = q_pending q \<and> (\<forall>k'. k' \<notin> scope_keys \<longrightarrow> dget (q_rest q') k' = (if k' = k then Some v else dget (q_rest q) k'))"
proof -
  have wf: "wf_state c now q" using assms by (auto simp: holds_def intro: wf_state_later)
  have json: "json_wf (JObj (dset k v d))" by (rule json_wf_dset [OF load_state_wf [OF assms(3)] assms(5)])
  consider (saved) "f = save q" | (missing) "blank f q" using assms(1) by (auto simp: holds_def)
  then show ?thesis
  proof cases
    case saved
    with assms(3) load_save [OF wf] have d: "d = encode_state q" by simp
    let ?q = "q\<lparr>q_rest := dset k v d\<rparr>"
    have "save ?q = write_state (dset k v d)" unfolding save_def d encode_state_other [OF assms(4)] ..
    then have "holds c now (write_state (dset k v d)) ?q"
      using wf_with_rest [OF wf json] by (simp add: holds_def)
    then show ?thesis by (rule exI [where x = ?q, OF conjI]) (simp add: d encode_state_fields scope_keys_def)
  next
    case missing
    with assms(3,4) have "blank (write_state (dset k v d)) (q\<lparr>q_rest := dset k v d\<rparr>)" and d: "q_rest q = d"
      using load_write [OF json] by (auto simp: blank_def)
    then have "holds c now (write_state (dset k v d)) (q\<lparr>q_rest := dset k v d\<rparr>)"
      using wf_with_rest [OF wf json] by (simp add: holds_def)
    then show ?thesis by (rule exI [where x = "q\<lparr>q_rest := dset k v d\<rparr>", OF conjI]) (simp add: d)
  qed
qed

section \<open>The operations keep states well formed\<close>

lemma wf_set_rest:
  "wf_state c now q \<Longrightarrow> json_wf v \<Longrightarrow> wf_state c now (q\<lparr>q_rest := dset k v (q_rest q)\<rparr>)"
  by (rule wf_with_rest) (auto simp: wf_state_def intro: json_wf_dset simp del: json_wf.simps)

lemma scoped_repositories_ok:
  assumes "scoped_repositories raws seen acc = Inr rs"
    and "list_all (\<lambda>r. repository_re r \<and> length r \<le> 256) acc" and "distinct (map casefold acc)"
    and "set (map casefold acc) \<subseteq> set seen"
  shows "list_all (\<lambda>r. repository_re r \<and> length r \<le> 256) rs \<and> distinct (map casefold rs)"
  using assms
proof (induction raws arbitrary: seen acc)
  case (Cons raw raws)
  from Cons.prems(1) have raw: "py_strip raw = raw" "repository_re raw" "length raw \<le> 256"
    by (auto simp: Let_def split: if_splits)
  show ?case
  proof (cases "casefold raw \<in> set seen")
    case True
    with Cons raw show ?thesis by (simp add: Let_def)
  next
    case False
    with Cons.prems raw have "scoped_repositories raws (casefold raw # seen) (acc @ [raw]) = Inr rs"
      by (simp add: Let_def)
    then show ?thesis by (rule Cons.IH) (use Cons.prems raw False in auto)
  qed
qed auto

lemma enqueue_repositories_ok:
  assumes "enqueue_repositories full repository repositories = Inr rs"
  shows "(if full then rs = [] else rs \<noteq> []) \<and> length rs \<le> MAX_SCOPE_REPOSITORIES \<and>
    list_all (\<lambda>r. repository_re r \<and> length r \<le> 256) rs \<and> distinct (map casefold rs)"
proof (cases full)
  case True
  with assms show ?thesis by (simp add: enqueue_repositories_def)
next
  case False
  then obtain raws where "scoped_repositories raws [] [] = Inr rs" and "rs \<noteq> []" and "length rs \<le> MAX_SCOPE_REPOSITORIES"
    using assms by (auto simp: enqueue_repositories_def Let_def split: sum.splits if_splits)
  with False scoped_repositories_ok [of raws "[]" "[]" rs] show ?thesis by simp
qed

lemma wf_new_scope:
  assumes "cfg_ok c" and "enqueue_repositories full repository repositories = Inr rs" and "0 < now"
    and "scope_id_re uid" and "\<And>d. delivery = Some d \<Longrightarrow> delivery_id_re d"
  shows "wf_scope c now (new_scope c now uid full rs delivery)"
  using assms enqueue_repositories_ok [OF assms(2)]
  by (auto simp: wf_scope_def good_scope_def new_scope_def cfg_ok_def split: if_splits option.splits)

lemma wf_enqueue:
  assumes "wf_state c now q" and "wf_scope c now s" and "s_id s \<notin> known_ids q"
  shows "wf_state c now (q\<lparr>q_queue := q_queue q @ [s]\<rparr>)"
  using assms by (auto simp: wf_state_def known_ids_def)

lemma pop_ready_split:
  "pop_ready now ss = Some (item, rest) \<Longrightarrow>
   \<exists>a b. ss = a @ item # b \<and> rest = a @ b \<and> s_not_before item \<le> now \<and> (\<forall>s \<in> set a. now < s_not_before s)"
proof (induction ss arbitrary: rest)
  case (Cons s ss)
  show ?case
  proof (cases "s_not_before s \<le> now")
    case True
    with Cons.prems have "s # ss = [] @ item # rest" and "s_not_before item \<le> now" by auto
    then show ?thesis by (metis append_Nil empty_iff empty_set)
  next
    case False
    with Cons.prems obtain r where "pop_ready now ss = Some (item, r)" and rest: "rest = s # r" by auto
    with Cons.IH obtain a b where "ss = a @ item # b" "r = a @ b" "s_not_before item \<le> now"
      "\<forall>s \<in> set a. now < s_not_before s" by blast
    with False rest have "s # ss = (s # a) @ item # b \<and> rest = (s # a) @ b \<and> s_not_before item \<le> now \<and>
        (\<forall>s \<in> set (s # a). now < s_not_before s)" by simp
    then show ?thesis by blast
  qed
qed simp

lemma pop_ready_None: "pop_ready now ss = None \<longleftrightarrow> (\<forall>s \<in> set ss. now < s_not_before s)"
  by (induction ss) auto

definition leased_state ::
  "router_cfg \<Rightarrow> int \<Rightarrow> string \<Rightarrow> scope \<Rightarrow> scope list \<Rightarrow> qstate \<Rightarrow> qstate" where
  "leased_state c now claim_token item queue q =
     q\<lparr>q_queue := queue,
       q_claims := dset (s_id item) \<lparr>c_scope = item, c_expires_at = now + SCOPE_CLAIM_LEASE_SECONDS c,
         c_token = claim_token\<rparr> (q_claims q),
       q_rest := dset ''last_claimed_scope'' (JObj (claimed_dict item claim_token)) (q_rest q)\<rparr>"

lemma json_wf_claimed: "json_wf (JObj (claimed_dict item claim_token))"
  unfolding claimed_dict_def by (rule json_wf_dset) (simp_all add: json_wf_scope_dict del: json_wf.simps(2))

lemma wf_leased_state:
  assumes "cfg_ok c" and "wf_state c now q" and "pop_ready now (q_queue q) = Some (item, queue)"
    and "claim_token_re claim_token" and "0 < now"
  shows "wf_state c now (leased_state c now claim_token item queue q)"
proof -
  obtain a b where s: "q_queue q = a @ item # b" "queue = a @ b"
    using pop_ready_split [OF assms(3)] by blast
  let ?cl = "\<lparr>c_scope = item, c_expires_at = now + SCOPE_CLAIM_LEASE_SECONDS c, c_token = claim_token\<rparr>"
  have item: "wf_scope c now item" "s_id item \<notin> set (keys_of (q_claims q))"
    "s_id item \<notin> set (scope_ids queue)"
    using assms(2) s by (auto simp: wf_state_def)
  have claims: "dset (s_id item) ?cl (q_claims q) = q_claims q @ [(s_id item, ?cl)]"
    using item by (simp add: dset_new)
  have "wf_claim c now (s_id item, ?cl)"
    using item assms by (simp add: wf_claim_def cfg_ok_def)
  moreover have "json_wf (JObj (dset ''last_claimed_scope'' (JObj (claimed_dict item claim_token)) (q_rest q)))"
    using assms(2) by (intro json_wf_dset json_wf_claimed) (simp add: wf_state_def)
  ultimately show ?thesis
    using assms(2) item s unfolding wf_state_def leased_state_def claims
    by (auto simp: keys_of_def simp del: json_wf.simps)
qed

lemma wf_unclaim:
  assumes "wf_state c now q"
  shows "wf_state c now (q\<lparr>q_claims := ddel k (q_claims q)\<rparr>)"
  using assms by (auto simp: wf_state_def list_all_iff set_ddel distinct_keys_ddel)

lemma safe_reason_re: "scope_reason_re (safe_scope_reason v)"
  by (auto simp: safe_scope_reason_def scope_reasons split: json.splits)

lemma backoff_at: "1 \<le> n \<Longrightarrow>
    SCOPE_RETRY_BACKOFF_SECONDS ! nat (min (n - 1) (int (length SCOPE_RETRY_BACKOFF_SECONDS) - 1)) \<in> {1, 5}"
  by (auto simp: SCOPE_RETRY_BACKOFF_SECONDS_def min_def nth_Cons split: nat.splits)

lemma wf_requeue_claimed:
  assumes "cfg_ok c" and "wf_state c now q" and "wf_scope c now item" and "0 < now"
    and "s_id item \<notin> set (scope_ids (q_queue q)) \<union> set (keys_of (q_claims q))"
    and "scope_reason_re reason" and "requeue_claimed c now item reason q = (status, q')"
  shows "wf_state c now q'"
proof (cases "s_attempts item + 1 \<ge> SCOPE_MAX_ATTEMPTS c")
  case True
  have "pendings_ok c (append_pending_scope c (q_pending q) (item\<lparr>s_attempts := s_attempts item + 1\<rparr>) now reason)"
    using assms by (intro append_pending_ok spend_good) (auto simp: wf_state_def pendings_ok_def)
  with True assms show ?thesis
    by (auto simp: requeue_claimed_def wf_state_def pendings_ok_def Let_def)
next
  case False
  let ?b = "SCOPE_RETRY_BACKOFF_SECONDS ! nat (min (s_attempts item + 1 - 1) (int (length SCOPE_RETRY_BACKOFF_SECONDS) - 1))"
  have "0 \<le> s_attempts item" using assms(3) by (simp add: wf_scope_def good_scope_def)
  then have "?b \<in> {1, 5}" by (intro backoff_at) simp
  with False assms(1,3,4) have "wf_scope c now (retry_scope c item (s_attempts item + 1) now (now + ?b))"
    by (auto simp: wf_scope_def good_scope_def retry_scope_def cfg_ok_def split: option.splits)
  with False assms show ?thesis
    by (auto simp: requeue_claimed_def wf_state_def Let_def)
qed

end
