(* ===== verification/RouterProtocol.thy ===== *)
theory RouterProtocol
  imports RouterOps
begin

text \<open>
  The abstract protocol of the work queue, \<open>effect\<close>: what each operation may do to the three
  collections and what it answers, with no file, no JSON and no validation. The concrete
  operations refine it, and the protocol's guarantees follow from it.
\<close>

section \<open>The abstract protocol\<close>

definition acked_state :: "int \<Rightarrow> string \<Rightarrow> string \<Rightarrow> qstate \<Rightarrow> qstate" where
  "acked_state now scope_id claim_token q =
     q\<lparr>q_claims := ddel scope_id (q_claims q),
       q_rest := dset ''last_scope_transition''
         (JObj [(''id'', JStr scope_id), (''status'', JStr ''acknowledged''),
                (''at'', JInt now), (''claim_token'', JStr claim_token)]) (q_rest q)\<rparr>"

definition requeued_state ::
  "router_cfg \<Rightarrow> int \<Rightarrow> string \<Rightarrow> string \<Rightarrow> string \<Rightarrow> scope \<Rightarrow> qstate \<Rightarrow> string \<times> qstate" where
  "requeued_state c now scope_id reason claim_token item q =
     (let (status, q') = requeue_claimed c now item reason (q\<lparr>q_claims := ddel scope_id (q_claims q)\<rparr>)
      in (status, q'\<lparr>q_rest := dset ''last_scope_transition''
           (JObj [(''id'', JStr scope_id), (''status'', JStr status), (''at'', JInt now),
                  (''attempts'', JInt (s_attempts item + 1)), (''reason'', JStr reason),
                  (''claim_token'', JStr claim_token)]) (q_rest q')\<rparr>))"

definition with_delivery :: "string \<Rightarrow> qstate \<Rightarrow> bool" where
  "with_delivery d q \<longleftrightarrow> (\<exists>s \<in> set (q_queue q). s_delivery s = Some d) \<or>
     (\<exists>p \<in> set (q_pending q). s_delivery (p_scope p) = Some d) \<or>
     (\<exists>kc \<in> set (q_claims q). s_delivery (c_scope (snd kc)) = Some d)"

inductive effect :: "router_cfg \<Rightarrow> int \<Rightarrow> router_op \<Rightarrow> qstate \<Rightarrow> dict \<Rightarrow> qstate \<Rightarrow> bool" where
  eff_new: "enqueue_repositories full repository repositories = Inr rs \<Longrightarrow>
     (\<And>d. delivery = Some d \<Longrightarrow> delivery_id_re d \<and> \<not> with_delivery d q) \<Longrightarrow>
     effect c now (Enqueue uid full repository repositories delivery) q
       (scope_dict (new_scope c now uid full rs delivery))
       (q\<lparr>q_queue := q_queue q @ [new_scope c now uid full rs delivery]\<rparr>)"
| eff_known: "with_delivery d q \<Longrightarrow> dget r ''existing'' = Some (JBool True) \<Longrightarrow>
     effect c now (Enqueue uid full repository repositories (Some d)) q r q"
| eff_claim: "pop_ready now (q_queue q) = Some (item, queue) \<Longrightarrow>
     effect c now (Claim claim_token) q (claimed_dict item claim_token)
       (leased_state c now claim_token item queue q)"
| eff_idle: "pop_ready now (q_queue q) = None \<Longrightarrow> effect c now (Claim claim_token) q (no_scope now) q"
| eff_ack: "dget (q_claims q) scope_id = Some cl \<Longrightarrow> c_token cl = claim_token \<Longrightarrow>
     effect c now (Ack scope_id claim_token) q (scope_ack_reply scope_id ''acknowledged'')
       (acked_state now scope_id claim_token q)"
| eff_ack_again: "dget (q_claims q) scope_id = None \<Longrightarrow>
     r \<in> {scope_ack_reply scope_id ''already_acknowledged'', scope_ack_reply scope_id ''already_requeued''} \<Longrightarrow>
     effect c now (Ack scope_id claim_token) q r q"
| eff_requeue: "dget (q_claims q) scope_id = Some cl \<Longrightarrow> c_token cl = claim_token \<Longrightarrow>
     requeued_state c now scope_id (safe_scope_reason (JStr reason)) claim_token
       (canon_scope (c_scope cl)) q = (status, q') \<Longrightarrow>
     effect c now (Requeue scope_id reason claim_token) q
       (scope_requeue_reply scope_id status (JInt (s_attempts (c_scope cl) + 1))) q'"
| eff_requeue_again: "dget (q_claims q) scope_id = None \<Longrightarrow>
     r = scope_requeue_reply scope_id status v \<Longrightarrow> status \<in> {''already_requeued'', ''pending''} \<Longrightarrow>
     effect c now (Requeue scope_id reason claim_token) q r q"
| eff_status: "dget r ''queued_scopes'' = Some (JInt (int (length (q_queue q)))) \<Longrightarrow>
     effect c now Status q r q"

section \<open>An operation that fails changes nothing\<close>

lemma requeue_claimed_rest [simp]: "requeue_claimed c now item r q = (s, q') \<Longrightarrow> q_rest q' = q_rest q"
  by (auto simp: requeue_claimed_def Let_def split: if_splits)

lemma op_error_no_change:
  assumes "run_op c now tok op f = (Inl e, f')"
  shows "f' = f"
proof (cases op)
  case (Enqueue uid full repository repositories delivery)
  with assms show ?thesis
    by (auto simp: enqueue_scope_def Let_def split: sum.splits if_splits option.splits)
next
  case (Claim t)
  with assms show ?thesis
    by (auto simp: claim_scope_def Let_def split: sum.splits option.splits)
next
  case (Ack i t)
  with assms show ?thesis
    by (auto simp: ack_scope_def Let_def split: sum.splits if_splits option.splits json.splits)
next
  case (Requeue i r t)
  with assms show ?thesis
    by (auto simp: requeue_scope_def Let_def split: sum.splits if_splits option.splits json.splits prod.splits)
next
  case Status
  with assms show ?thesis
    by (auto simp: queue_status_def Let_def split: sum.splits)
qed

section \<open>Refinement\<close>

lemma find_known:
  "find (\<lambda>s. s_delivery s = Some d) (q_queue q) = None \<Longrightarrow>
   find (\<lambda>p. s_delivery (p_scope p) = Some d) (q_pending q) = None \<Longrightarrow>
   find (\<lambda>kc. s_delivery (c_scope (snd kc)) = Some d) (q_claims q) = None \<Longrightarrow> \<not> with_delivery d q"
  by (auto simp: with_delivery_def find_None_iff)

lemma enqueue_refines:
  assumes "load_state f = Inr d" and "recover_scope_claims c now tok d = q"
    and "enqueue_scope c now tok uid full repository repositories delivery f = (Inr r, f')"
  shows "\<exists>q'. f' = save q' \<and> effect c now (Enqueue uid full repository repositories delivery) q r q'"
proof -
  obtain rs where rs: "enqueue_repositories full repository repositories = Inr rs"
    and re: "\<And>d. delivery = Some d \<Longrightarrow> delivery_id_re d"
    using assms(3) by (auto simp: enqueue_scope_def split: sum.splits if_splits option.splits)
  show ?thesis
  proof (cases delivery)
    case None
    with assms rs show ?thesis by (auto simp: enqueue_scope_def Let_def intro!: eff_new)
  next
    case (Some dv)
    with re have dv: "delivery_id_re dv" "py_strip dv = dv" by (simp_all add: delivery_id_strip)
    show ?thesis
    proof (cases "with_delivery dv q")
      case True
      with assms rs Some dv find_known [of dv q] show ?thesis
        by (auto simp: enqueue_scope_def Let_def split: option.splits intro!: eff_known)
    next
      case False
      then have "find (\<lambda>s. s_delivery s = Some dv) (q_queue q) = None"
        "find (\<lambda>p. s_delivery (p_scope p) = Some dv) (q_pending q) = None"
        "find (\<lambda>kc. s_delivery (c_scope (snd kc)) = Some dv) (q_claims q) = None"
        by (auto simp: with_delivery_def find_None_iff)
      with False assms rs Some dv show ?thesis
        by (auto simp: enqueue_scope_def Let_def intro!: eff_new)
    qed
  qed
qed

lemma claim_refines:
  assumes "load_state f = Inr d" and "recover_scope_claims c now tok d = q"
    and "claim_scope c now tok claim_token f = (Inr r, f')"
  shows "\<exists>q'. f' = save q' \<and> effect c now (Claim claim_token) q r q'"
  using assms
  by (auto simp: claim_scope_def Let_def leased_state_def [symmetric] split: option.splits intro: eff_claim eff_idle)

lemma ack_refines:
  assumes "load_state f = Inr d" and "recover_scope_claims c now tok d = q"
    and "ack_scope c now tok scope_id claim_token f = (Inr r, f')"
  shows "\<exists>q'. f' = save q' \<and> effect c now (Ack scope_id claim_token) q r q'"
proof (cases "dget (q_claims q) scope_id")
  case None
  with assms show ?thesis
    by (auto simp: ack_scope_def Let_def split: if_splits json.splits intro: eff_ack_again)
next
  case (Some cl)
  with assms show ?thesis
    by (auto simp: ack_scope_def Let_def claim_token_matches_claim acked_state_def [symmetric]
        split: if_splits intro: eff_ack)
qed

lemma requeue_refines:
  assumes "load_state f = Inr d" and "recover_scope_claims c now tok d = q"
    and "list_all (wf_claim c now) (q_claims q)"
    and "requeue_scope c now tok scope_id reason claim_token f = (Inr r, f')"
  shows "\<exists>q'. f' = save q' \<and> effect c now (Requeue scope_id reason claim_token) q r q'"
proof (cases "dget (q_claims q) scope_id")
  case None
  with assms show ?thesis
    by (auto simp: requeue_scope_def Let_def split: if_splits json.splits intro: eff_requeue_again)
next
  case (Some cl)
  then have "wf_claim c now (scope_id, cl)"
    using assms(3) by (auto simp: list_all_iff dest: dget_Some_mem)
  then have n: "normalise_scope_item c (JObj (claim_dict cl)) now True = Some (canon_scope (c_scope cl))"
    by (intro normalise_claim_dict) (simp add: wf_claim_def wf_scope_def)
  let ?reason = "safe_scope_reason (JStr reason)"
  obtain status q0 where rq: "requeue_claimed c now (canon_scope (c_scope cl)) ?reason
      (q\<lparr>q_claims := ddel scope_id (q_claims q)\<rparr>) = (status, q0)" by fastforce
  obtain q' where q': "requeued_state c now scope_id ?reason claim_token (canon_scope (c_scope cl)) q = (status, q')"
    using rq by (simp add: requeued_state_def)
  with Some assms n rq have "c_token cl = claim_token" and "f' = save q'"
    and "r = scope_requeue_reply scope_id status (JInt (s_attempts (c_scope cl) + 1))"
    by (auto simp: requeue_scope_def Let_def claim_token_matches_claim requeued_state_def
        split: if_splits)
  with Some q' show ?thesis by (auto intro: eff_requeue)
qed

lemma status_refines:
  assumes "load_state f = Inr d" and "recover_scope_claims c now tok d = q"
    and "queue_status c now tok f = (Inr r, f')"
  shows "\<exists>q'. f' = save q' \<and> effect c now Status q r q'"
  using assms by (auto simp: queue_status_def Let_def split: sum.splits intro!: eff_status)

lemma effect_wf:
  assumes "effect c now op q r q'" and "cfg_ok c" and "wf_state c now q" and "0 < now"
    and "op_ok c now f op" and fresh: "\<And>uid a b e g. op = Enqueue uid a b e g \<Longrightarrow> scope_id_re uid \<and> uid \<notin> known_ids q"
  shows "wf_state c now q'"
  using assms
proof (cases rule: effect.cases)
  case (eff_new full repository repositories rs delivery uid)
  note fr = fresh [OF eff_new(1)]
  have s: "wf_scope c now (new_scope c now uid full rs delivery)"
    using eff_new fr assms by (intro wf_new_scope) auto
  show ?thesis unfolding eff_new(3)
    by (rule wf_enqueue [OF assms(3) s]) (use fr in \<open>simp add: new_scope_def\<close>)
next
  case (eff_claim item queue claim_token)
  then show ?thesis using assms by (auto intro!: wf_leased_state)
next
  case (eff_ack scope_id cl claim_token)
  have "wf_state c now (q\<lparr>q_claims := ddel scope_id (q_claims q)\<rparr>)" by (rule wf_unclaim) (rule assms)
  then show ?thesis
    using eff_ack wf_set_rest [of c now "q\<lparr>q_claims := ddel scope_id (q_claims q)\<rparr>"]
    by (simp add: acked_state_def)
next
  case (eff_requeue scope_id cl claim_token reason status)
  let ?reason = "safe_scope_reason (JStr reason)" and ?q = "q\<lparr>q_claims := ddel scope_id (q_claims q)\<rparr>"
  have mem: "(scope_id, cl) \<in> set (q_claims q)" using eff_requeue by (simp add: dget_Some_mem)
  then have cl: "wf_claim c now (scope_id, cl)"
    using assms(3) by (auto simp: wf_state_def list_all_iff)
  obtain q0 where rq: "requeue_claimed c now (canon_scope (c_scope cl)) ?reason ?q = (status, q0)"
    and q': "q' = q0\<lparr>q_rest := dset ''last_scope_transition''
           (JObj [(''id'', JStr scope_id), (''status'', JStr status), (''at'', JInt now),
                  (''attempts'', JInt (s_attempts (c_scope cl) + 1)), (''reason'', JStr ?reason),
                  (''claim_token'', JStr claim_token)]) (q_rest q0)\<rparr>"
    using eff_requeue by (auto simp: requeued_state_def split: prod.splits)
  have "scope_id \<in> set (keys_of (q_claims q))" using mem by (rule key_of_pair)
  then have "s_id (canon_scope (c_scope cl)) \<notin> set (scope_ids (q_queue ?q)) \<union> set (keys_of (q_claims ?q))"
    using cl assms(3) by (auto simp: wf_claim_def wf_state_def)
  then have "wf_state c now q0"
    using cl wf_requeue_claimed [OF assms(2) wf_unclaim [OF assms(3)] _ assms(4) _ safe_reason_re rq]
    by (simp add: wf_claim_def wf_scope_canon)
  then show ?thesis unfolding q' by (rule wf_set_rest) simp
qed simp_all

text \<open>
  Every successful step of the concrete router is recovery followed by a step of the protocol,
  and leaves a well-formed file.
\<close>

lemma step_refines:
  assumes "cfg_ok c" and "holds c t f q" and "0 < t" and "router_step c (t, f) op (Inr r) (now, f')"
  obtains d q' where "effect c now op (opened c now q d) r q'" and "holds c now f' q'" and "f' = save q'"
    and "wf_state c now (opened c now q d)" and "t \<le> now"
    and "\<And>k. k \<notin> scope_keys \<Longrightarrow> dget d k = dget (q_rest q) k"
proof -
  from assms(4) obtain tok where step: "t \<le> now" "op_ok c now f op" "run_op c now tok op f = (Inr r, f')"
    by (auto elim: router_stepE)
  with assms(3) have now: "0 < now" by simp
  obtain d where d: "load_state f = Inr d" "\<And>tok. recover_scope_claims c now tok d = opened c now q d"
    and wf: "wf_state c now (opened c now q d)"
    and other: "\<And>k. k \<notin> scope_keys \<Longrightarrow> dget d k = dget (q_rest q) k"
    by (rule holds_open [OF assms(1,2) step(1) now]) blast
  from step(3) have "\<exists>q'. f' = save q' \<and> effect c now op (opened c now q d) r q'"
    by (cases op) (use d wf enqueue_refines claim_refines ack_refines requeue_refines status_refines in
      \<open>auto simp: wf_state_def\<close>)
  then obtain q' where q': "f' = save q'" "effect c now op (opened c now q d) r q'" by blast
  have "wf_state c now q'"
  proof (rule effect_wf [OF q'(2) assms(1) wf now step(2)])
    fix uid a b e g assume "op = Enqueue uid a b e g"
    with step(2) d show "scope_id_re uid \<and> uid \<notin> known_ids (opened c now q d)"
      by (simp add: fresh_id_def)
  qed
  with q' wf step(1) other show thesis by (intro that [of d q']) (auto simp: holds_def)
qed

lemma step_holds:
  assumes "cfg_ok c" and "holds c t f q" and "0 < t" and "router_step c (t, f) op r (now, f')"
  shows "\<exists>q'. holds c now f' q' \<and> 0 < now"
proof (cases r)
  case (Inl e)
  with assms(4) have "t \<le> now" and "f' = f" by (auto elim!: router_stepE dest: op_error_no_change)
  with assms show ?thesis by (auto simp: holds_def intro: wf_state_later)
next
  case (Inr d)
  have "t \<le> now" using assms(4) by (auto elim: router_stepE)
  moreover obtain q' where "holds c now f' q'"
    by (rule step_refines [OF assms(1-3) assms(4) [unfolded Inr]]) blast
  ultimately show ?thesis using assms(3) by auto
qed

lemma steps_hold:
  assumes "router_steps c tf ops tf'" and "cfg_ok c"
  shows "holds c (fst tf) (snd tf) q \<Longrightarrow> 0 < fst tf \<Longrightarrow> \<exists>q'. holds c (fst tf') (snd tf') q' \<and> 0 < fst tf'"
  using assms
proof (induction arbitrary: q rule: router_steps.induct)
  case (steps_more c tf op r tf' ops tf'')
  obtain q1 where "holds c (fst tf') (snd tf') q1 \<and> 0 < fst tf'"
    using step_holds [of c "fst tf" "snd tf" q op r "fst tf'" "snd tf'"] steps_more by auto
  with steps_more show ?case by blast
next
  case (steps_other t now f d k v c ops tf'')
  have "k \<notin> scope_keys" using steps_other(3) by (simp add: reserved_keys_def)
  from holds_other [OF _ steps_other(1,2) this steps_other(4), of c q] steps_other
  show ?case by (metis fst_conv le_less_trans less_le_trans snd_conv)
qed auto

lemma router_file_holds:
  assumes "cfg_ok c" and "router_file c t f"
  shows "\<exists>q. holds c t f q \<and> 0 < t"
  using assms steps_hold [OF _ assms(1), of _ _ "(t, f)" empty_qstate] holds_wf_empty [OF assms(1)]
  by (force simp: router_file_def)

end
