(* ===== verification/RouterGuarantees.thy ===== *)
theory RouterGuarantees
  imports RouterProtocol
begin

text \<open>
  The guarantees of the router's work queue, over any run of its operations that starts without a
  state file: exclusive leases, final acknowledgements, bounded and delayed retries, deliveries
  queued once, nothing dropped, and a file that always loads.
\<close>

section \<open>Claims over a run\<close>

fun settles :: "string \<Rightarrow> string \<Rightarrow> router_op \<Rightarrow> bool" where
  "settles i k (Ack i' k') = (i' = i \<and> k' = k)"
| "settles i k (Requeue i' _ k') = (i' = i \<and> k' = k)"
| "settles i k _ = False"

fun introduces :: "string \<Rightarrow> router_op \<Rightarrow> bool" where
  "introduces i (Enqueue uid _ _ _ _) = (uid = i)"
| "introduces i _ = False"

definition leased :: "router_cfg \<Rightarrow> int \<times> state_file \<Rightarrow> string \<Rightarrow> string \<Rightarrow> int \<Rightarrow> bool" where
  "leased c tf i k e \<longleftrightarrow> 0 < fst tf \<and> (\<exists>q cl. holds c (fst tf) (snd tf) q \<and>
     dget (q_claims q) i = Some cl \<and> c_expires_at cl = e \<and> c_token cl = k)"

definition gone :: "router_cfg \<Rightarrow> int \<times> state_file \<Rightarrow> string \<Rightarrow> bool" where
  "gone c tf i \<longleftrightarrow> 0 < fst tf \<and> (\<exists>q. holds c (fst tf) (snd tf) q \<and>
     i \<notin> set (scope_ids (q_queue q)) \<union> set (keys_of (q_claims q)))"

lemma holds_later: "holds c t f q \<Longrightarrow> t \<le> now \<Longrightarrow> holds c now f q"
  by (auto simp: holds_def intro: wf_state_later)

lemma step_time: "router_step c (t, f) op r (now, f') \<Longrightarrow> t \<le> now"
  by (auto elim: router_stepE)

lemma step_error: "router_step c (t, f) op (Inl e) (now, f') \<Longrightarrow> f' = f"
  by (auto elim!: router_stepE dest: op_error_no_change)

lemma steps_time: "router_steps c tf ops tf' \<Longrightarrow> fst tf \<le> fst tf'"
proof (induction rule: router_steps.induct)
  case (steps_more c tf op r tf' ops tf'')
  then show ?case using step_time [of c "fst tf" "snd tf" op r "fst tf'" "snd tf'"] by simp
qed simp_all

lemma other_holds:
  assumes "holds c t f q" and "t \<le> now" and "load_state f = Inr d" and "k \<notin> reserved_keys" and "json_wf v"
  obtains q' where "holds c now (write_state (dset k v d)) q'" and "q_queue q' = q_queue q"
    and "q_claims q' = q_claims q"
proof -
  have "k \<notin> scope_keys" using assms(4) by (simp add: reserved_keys_def)
  from holds_other [OF assms(1-3) this assms(5)] that show thesis by blast
qed

lemma leased_other:
  assumes "leased c (t, f) i key e" and "t \<le> now" and "load_state f = Inr d" and "k \<notin> reserved_keys" and "json_wf v"
  shows "leased c (now, write_state (dset k v d)) i key e"
proof -
  from assms(1) obtain q cl where q: "holds c t f q" "dget (q_claims q) i = Some cl" "c_expires_at cl = e"
    "c_token cl = key" "0 < t" by (auto simp: leased_def)
  obtain q' where "holds c now (write_state (dset k v d)) q'" "q_claims q' = q_claims q"
    by (rule other_holds [OF q(1) assms(2-5)]) blast
  with q assms(2) show ?thesis by (auto simp: leased_def)
qed

lemma gone_other:
  assumes "gone c (t, f) i" and "t \<le> now" and "load_state f = Inr d" and "k \<notin> reserved_keys" and "json_wf v"
  shows "gone c (now, write_state (dset k v d)) i"
proof -
  from assms(1) obtain q where q: "holds c t f q" "0 < t"
    "i \<notin> set (scope_ids (q_queue q)) \<union> set (keys_of (q_claims q))" by (auto simp: gone_def)
  obtain q' where "holds c now (write_state (dset k v d)) q'" "q_queue q' = q_queue q" "q_claims q' = q_claims q"
    by (rule other_holds [OF q(1) assms(2-5)]) blast
  with q assms(2) show ?thesis by (auto simp: gone_def)
qed

lemma claimed_dict_id: "dget (claimed_dict item k) ''id'' = Some (JStr (s_id item))"
  using dget_scope_dict_id [of item "[]"] by (simp add: claimed_dict_def)

lemma requeue_claimed_claims [simp]:
  "requeue_claimed c now item r q = (s, q') \<Longrightarrow> q_claims q' = q_claims q"
  by (auto simp: requeue_claimed_def Let_def split: if_splits)

lemma requeue_claimed_queue:
  "requeue_claimed c now item r q = (s, q') \<Longrightarrow>
   set (scope_ids (q_queue q')) \<subseteq> insert (s_id item) (set (scope_ids (q_queue q)))"
  by (auto simp: requeue_claimed_def Let_def split: if_splits)

lemma requeued_state_parts:
  assumes "requeued_state c now i r k item q = (s, q')"
  shows "q_claims q' = ddel i (q_claims q)"
    and "set (scope_ids (q_queue q')) \<subseteq> insert (s_id item) (set (scope_ids (q_queue q)))"
  using assms requeue_claimed_queue [of c now item r "q\<lparr>q_claims := ddel i (q_claims q)\<rparr>"]
  by (auto simp: requeued_state_def split: prod.splits)

lemma ready_in_queue: "pop_ready now ss = Some (item, rest) \<Longrightarrow>
    s_id item \<in> set (scope_ids ss) \<and> set (scope_ids rest) \<subseteq> set (scope_ids ss)"
  using pop_ready_split [of now ss item rest] by auto

text \<open>No protocol step but settling it takes a live claim away, and it is not handed out again.\<close>

lemma effect_keeps_claim:
  assumes "effect c now op q r q'" and "dget (q_claims q) i = Some cl" and "\<not> settles i (c_token cl) op"
    and "i \<notin> set (scope_ids (q_queue q))"
  shows "dget (q_claims q') i = Some cl"
  using assms
proof (cases rule: effect.cases)
  case (eff_claim item queue k)
  then have "s_id item \<noteq> i" using assms(4) ready_in_queue [of now "q_queue q" item queue] by auto
  with eff_claim assms(2) show ?thesis by (simp add: leased_state_def)
next
  case (eff_ack i' cl' k)
  with assms(2,3) show ?thesis by (auto simp: acked_state_def)
next
  case (eff_requeue i' cl' k reason status)
  with assms(2,3) show ?thesis by (auto simp: requeued_state_parts)
qed auto

lemma effect_claim_id:
  assumes "effect c now (Claim k) q r q'" and "i \<notin> set (scope_ids (q_queue q))" and "i \<noteq> []"
  shows "dget r ''id'' \<noteq> Some (JStr i)"
  using assms
proof (cases rule: effect.cases)
  case (eff_claim item queue)
  then show ?thesis
    using assms(2) ready_in_queue [of now "q_queue q" item queue] by (auto simp: claimed_dict_id)
qed (simp_all add: no_scope_def)

lemma effect_stays_gone:
  assumes "effect c now op q r q'" and "i \<notin> set (scope_ids (q_queue q)) \<union> set (keys_of (q_claims q))"
    and "\<not> introduces i op" and "\<forall>kc \<in> set (q_claims q). s_id (c_scope (snd kc)) = fst kc"
  shows "i \<notin> set (scope_ids (q_queue q')) \<union> set (keys_of (q_claims q'))"
  using assms
proof (cases rule: effect.cases)
  case (eff_new full repository repositories rs delivery uid)
  then show ?thesis using assms(2,3) by (auto simp: new_scope_def)
next
  case (eff_claim item queue k)
  then show ?thesis
    using assms(2) ready_in_queue [of now "q_queue q" item queue] by (auto simp: leased_state_def)
next
  case (eff_ack i' cl k)
  then show ?thesis using assms(2) by (auto simp: acked_state_def)
next
  case (eff_requeue i' cl k reason status)
  have mem: "(i', cl) \<in> set (q_claims q)" using eff_requeue by (simp add: dget_Some_mem)
  then have "s_id (canon_scope (c_scope cl)) = i'" "i' \<in> set (keys_of (q_claims q))"
    using assms(4) key_of_pair [OF mem] by force+
  with assms(2) requeued_state_parts [OF eff_requeue(5)] show ?thesis by auto
qed auto

lemma spec_recover_known_subset:
  assumes "cfg_ok c" and "wf_state c now q" and "0 < now"
  shows "set (scope_ids (q_queue (spec_recover c now q))) \<union> set (keys_of (q_claims (spec_recover c now q)))
    \<subseteq> set (scope_ids (q_queue q)) \<union> set (keys_of (q_claims q))"
proof -
  define ss cs where "ss = map canon_scope (q_queue q)" and "cs = map (\<lambda>(k, cl). (k, canon_claim cl)) (q_claims q)"
  note p = spec_recover_parts [OF assms, folded ss_def cs_def]
  have "set (scope_ids (filter P (lost_scopes now cs))) \<subseteq> set (keys_of cs)" for P
    using filter_ids_subset lost_scope_ids [OF p(2), of now] set_keys_filter by fastforce
  moreover have "set (keys_of cs) = set (keys_of (q_claims q))" "set (scope_ids ss) = set (scope_ids (q_queue q))"
    by (simp_all add: ss_def cs_def)
  moreover have "set (scope_ids (age_queue c now ss)) \<subseteq> set (scope_ids ss)" by (rule scope_ids_age_queue)
  moreover have "set (keys_of (filter P cs)) \<subseteq> set (keys_of cs)" for P by (rule set_keys_filter)
  ultimately show ?thesis
    unfolding spec_recover_def Let_def ss_def [symmetric] cs_def [symmetric]
    by simp blast
qed

lemma claims_own_ids: "wf_state c now q \<Longrightarrow> \<forall>kc \<in> set (q_claims q). s_id (c_scope (snd kc)) = fst kc"
  by (auto simp: wf_state_def list_all_iff wf_claim_def)

lemma opened_keeps_claim:
  assumes "holds c t f q" and "dget (q_claims q) i = Some cl" and "now < c_expires_at cl"
  shows "dget (q_claims (opened c now q d)) i = Some (canon_claim cl)"
  using assms by (simp add: spec_recover_keeps_claim holds_def wf_state_def)

lemma claimed_not_queued:
  "wf_state c now q \<Longrightarrow> dget (q_claims q) i = Some cl \<Longrightarrow> i \<notin> set (scope_ids (q_queue q))"
  by (auto simp: wf_state_def dest!: dget_Some_mem key_of_pair)

lemma leased_step:
  assumes "cfg_ok c" and "leased c (t, f) i k e" and "router_step c (t, f) op r (now, f')"
    and "\<not> settles i k op" and "now < e"
  shows "leased c (now, f') i k e \<and> (\<forall>k' r'. op = Claim k' \<longrightarrow> r = Inr r' \<longrightarrow> i \<noteq> [] \<longrightarrow> dget r' ''id'' \<noteq> Some (JStr i))"
proof -
  from assms(2) obtain q cl where q: "holds c t f q" "dget (q_claims q) i = Some cl" "c_expires_at cl = e"
    "c_token cl = k" "0 < t" by (auto simp: leased_def)
  note time = step_time [OF assms(3)]
  show ?thesis
  proof (cases r)
    case (Inl x)
    with assms(3) have "f' = f" by (auto dest: step_error)
    with q time Inl show ?thesis by (auto simp: leased_def dest: holds_later)
  next
    case (Inr r')
    obtain d q' where st: "effect c now op (opened c now q d) r' q'" "holds c now f' q'"
      "wf_state c now (opened c now q d)"
      by (rule step_refines [OF assms(1) q(1,5) assms(3) [unfolded Inr]]) blast
    have cl: "dget (q_claims (opened c now q d)) i = Some (canon_claim cl)"
      using q assms(5) by (intro opened_keeps_claim) auto
    have free: "i \<notin> set (scope_ids (q_queue (opened c now q d)))"
      using st(3) cl by (rule claimed_not_queued)
    have "dget (q_claims q') i = Some (canon_claim cl)"
      using q(4) assms(4) by (intro effect_keeps_claim [OF st(1) cl _ free]) (simp add: canon_claim_def)
    then have "leased c (now, f') i k e"
      using st(2) q time by (force simp: leased_def canon_claim_def)
    moreover have "dget r' ''id'' \<noteq> Some (JStr i)" if "op = Claim k'" "i \<noteq> []" for k'
      using effect_claim_id [OF st(1) [unfolded that(1)] free that(2)] .
    ultimately show ?thesis using Inr by auto
  qed
qed

lemma leased_steps:
  assumes "router_steps c tf ops tf'" and "cfg_ok c"
  shows "leased c tf i k e \<Longrightarrow> \<forall>op \<in> set ops. \<not> settles i k op \<Longrightarrow> fst tf' < e \<Longrightarrow> leased c tf' i k e"
  using assms
proof (induction rule: router_steps.induct)
  case (steps_more c tf op r tf' ops tf'')
  have "fst tf' < e" using steps_time [OF steps_more(2)] steps_more.prems by linarith
  then have "leased c tf' i k e"
    using leased_step [of c "fst tf" "snd tf" i k e op r "fst tf'" "snd tf'"] steps_more by simp
  with steps_more show ?case by simp
qed (auto intro: leased_other)

lemma gone_step:
  assumes "cfg_ok c" and "gone c (t, f) i" and "router_step c (t, f) op r (now, f')" and "\<not> introduces i op"
  shows "gone c (now, f') i \<and> (\<forall>k' r'. op = Claim k' \<longrightarrow> r = Inr r' \<longrightarrow> i \<noteq> [] \<longrightarrow> dget r' ''id'' \<noteq> Some (JStr i))"
proof -
  from assms(2) obtain q where q: "holds c t f q" "0 < t"
    "i \<notin> set (scope_ids (q_queue q)) \<union> set (keys_of (q_claims q))" by (auto simp: gone_def)
  note time = step_time [OF assms(3)]
  show ?thesis
  proof (cases r)
    case (Inl x)
    with assms(3) have "f' = f" by (auto dest: step_error)
    with q time Inl show ?thesis by (auto simp: gone_def dest: holds_later)
  next
    case (Inr r')
    obtain d q' where st: "effect c now op (opened c now q d) r' q'" "holds c now f' q'"
      "wf_state c now (opened c now q d)"
      by (rule step_refines [OF assms(1) q(1,2) assms(3) [unfolded Inr]]) blast
    have "wf_state c now q" using q(1) time by (auto simp: holds_def intro: wf_state_later)
    then have free: "i \<notin> set (scope_ids (q_queue (opened c now q d))) \<union> set (keys_of (q_claims (opened c now q d)))"
      using spec_recover_known_subset [OF assms(1), of now q] q(2,3) time by auto
    have "i \<notin> set (scope_ids (q_queue q')) \<union> set (keys_of (q_claims q'))"
      by (rule effect_stays_gone [OF st(1) free assms(4) claims_own_ids [OF st(3)]])
    then have "gone c (now, f') i" using st(2) q time by (auto simp: gone_def)
    moreover have "dget r' ''id'' \<noteq> Some (JStr i)" if "op = Claim k'" "i \<noteq> []" for k'
      using effect_claim_id [OF st(1) [unfolded that(1)] _ that(2)] free by blast
    ultimately show ?thesis using Inr by auto
  qed
qed

lemma gone_steps:
  assumes "router_steps c tf ops tf'" and "cfg_ok c"
  shows "gone c tf i \<Longrightarrow> \<forall>op \<in> set ops. \<not> introduces i op \<Longrightarrow> gone c tf' i"
  using assms
proof (induction rule: router_steps.induct)
  case (steps_more c tf op r tf' ops tf'')
  then have "gone c tf' i"
    using gone_step [of c "fst tf" "snd tf" i op r "fst tf'" "snd tf'"] by simp
  with steps_more show ?case by simp
qed (auto intro: gone_other)

lemma claim_leases:
  assumes "cfg_ok c" and "holds c t f q" and "0 < t" and "router_step c (t, f) (Claim k) (Inr r) (t1, f1)"
    and "dget r ''id'' = Some (JStr i)" and "i \<noteq> []"
  shows "leased c (t1, f1) i k (t1 + SCOPE_CLAIM_LEASE_SECONDS c)"
proof -
  obtain d q' where st: "effect c t1 (Claim k) (opened c t1 q d) r q'" "holds c t1 f1 q'" "t \<le> t1"
    by (rule step_refines [OF assms(1-4)]) blast
  from st(1) show ?thesis
  proof (cases rule: effect.cases)
    case (eff_claim item queue)
    with st assms(3,5) show ?thesis
      by (auto simp: leased_def leased_state_def claimed_dict_id)
  next
    case eff_idle
    with assms(5,6) show ?thesis by (simp add: no_scope_def)
  qed
qed

lemma ack_removes:
  assumes "cfg_ok c" and "holds c t f q" and "0 < t" and "router_step c (t, f) (Ack i k) (Inr r) (t1, f1)"
    and "dget r ''status'' = Some (JStr ''acknowledged'')"
  shows "gone c (t1, f1) i"
proof -
  obtain d q' where st: "effect c t1 (Ack i k) (opened c t1 q d) r q'" "holds c t1 f1 q'" "t \<le> t1"
    "wf_state c t1 (opened c t1 q d)"
    by (rule step_refines [OF assms(1-4)]) blast
  from st(1) show ?thesis
  proof (cases rule: effect.cases)
    case (eff_ack cl)
    have "i \<notin> set (scope_ids (q_queue (opened c t1 q d)))" using st(4) eff_ack(3) by (rule claimed_not_queued)
    with eff_ack st assms(3) show ?thesis by (auto simp: gone_def acked_state_def)
  next
    case eff_ack_again
    with assms(5) show ?thesis by (auto simp: scope_ack_reply_def)
  qed
qed

section \<open>Further facts about one step\<close>

lemma router_file_holdsE:
  assumes "cfg_ok c" and "router_file c t f"
  obtains q where "holds c t f q" and "0 < t"
  using router_file_holds [OF assms] by blast

lemma kept_in_queue:
  assumes "cfg_ok c" and "wf_state c now q" and "0 < now" and "s \<in> set (q_queue q)" and "now < s_expires_at s"
  shows "canon_scope s \<in> set (q_queue (spec_recover c now q))"
  using assms(4,5) by (force simp: spec_recover_def Let_def age_queue_def)

lemma same_id_same_scope:
  "distinct (scope_ids ss) \<Longrightarrow> s \<in> set ss \<Longrightarrow> s' \<in> set ss \<Longrightarrow> s_id s = s_id s' \<Longrightarrow> s = s'"
  by (auto simp: scope_ids_def distinct_map inj_on_def)

lemma requeue_backoff:
  "0 \<le> a \<Longrightarrow> SCOPE_RETRY_BACKOFF_SECONDS ! nat (min (a + 1 - 1) (int (length SCOPE_RETRY_BACKOFF_SECONDS) - 1)) =
     (if a = 0 then 1 else 5)"
  by (auto simp: SCOPE_RETRY_BACKOFF_SECONDS_def min_def nth_Cons split: nat.splits)

lemma requeue_claimed_retry:
  assumes "0 \<le> s_attempts item" and "s_attempts item + 1 < SCOPE_MAX_ATTEMPTS c"
  shows "requeue_claimed c now item r q = (''requeued'', q\<lparr>q_queue := q_queue q @
    [retry_scope c item (s_attempts item + 1) now (now + (if s_attempts item = 0 then 1 else 5))]\<rparr>)"
  unfolding requeue_claimed_def Let_def requeue_backoff [OF assms(1)] using assms(2) by simp

lemma requeue_claimed_park:
  "\<not> s_attempts item + 1 < SCOPE_MAX_ATTEMPTS c \<Longrightarrow> fst (requeue_claimed c now item r q) = ''pending''"
  by (simp add: requeue_claimed_def)

lemma requeued_state_retry:
  assumes "requeued_state c now i r k item q = (''requeued'', q')" and "0 \<le> s_attempts item"
  shows "s_attempts item + 1 < SCOPE_MAX_ATTEMPTS c \<and> q_queue q' = q_queue q @
    [retry_scope c item (s_attempts item + 1) now (now + (if s_attempts item = 0 then 1 else 5))]"
proof (cases "s_attempts item + 1 < SCOPE_MAX_ATTEMPTS c")
  case True
  with assms show ?thesis by (auto simp: requeued_state_def requeue_claimed_retry)
next
  case False
  from requeue_claimed_park [OF False, of now r "q\<lparr>q_claims := ddel i (q_claims q)\<rparr>"] assms show ?thesis
    by (auto simp: requeued_state_def split: prod.splits)
qed

text \<open>The identifiers a state file lists, read off its JSON.\<close>

definition listed_id :: "json \<Rightarrow> string list" where
  "listed_id v = (case v of JObj d \<Rightarrow> (case dget d ''id'' of Some (JStr i) \<Rightarrow> [i] | _ \<Rightarrow> []) | _ \<Rightarrow> [])"

definition stored_ids :: "dict \<Rightarrow> string list" where
  "stored_ids d =
     (case dget_py d ''scope_queue'' of JArr xs \<Rightarrow> concat (map listed_id xs) | _ \<Rightarrow> []) @
     (case dget_py d ''scope_claims'' of JObj cs \<Rightarrow> map fst cs | _ \<Rightarrow> []) @
     (case dget_py d ''pending_scopes'' of JArr xs \<Rightarrow> concat (map listed_id xs) | _ \<Rightarrow> [])"

lemma stored_ids_encoded:
  "stored_ids (encode_state q) = scope_ids (q_queue q) @ keys_of (q_claims q) @ pending_ids (q_pending q)"
proof -
  have "concat (map listed_id (map (\<lambda>s. JObj (scope_dict s)) ss)) = scope_ids ss" for ss
    using dget_scope_dict_id [of _ "[]"] by (induction ss) (simp_all add: listed_id_def)
  moreover have "concat (map listed_id (map (\<lambda>p. JObj (pending_dict p)) ps)) = pending_ids ps" for ps
    using dget_scope_dict_id by (induction ps) (simp_all add: listed_id_def pending_dict_def pending_ids_def)
  moreover have "map fst (map (\<lambda>(k, cl). (k, JObj (claim_dict cl))) cs) = keys_of cs" for cs :: "(string \<times> claim) list"
    by (auto simp: keys_of_def)
  ultimately show ?thesis
    unfolding stored_ids_def encode_state_fields json.simps by (simp only:)
qed

section \<open>A sample deployment and run\<close>

definition sample_token :: string where
  "sample_token = replicate 32 (CHR ''a'')"

definition other_token :: string where
  "other_token = replicate 32 (CHR ''b'')"

definition sample_tok :: "string \<Rightarrow> string" where
  "sample_tok i = sample_token"

definition sample_enqueue :: router_op where
  "sample_enqueue = Enqueue ''s1'' False None (Some [''octo/repo'']) (Some ''d1'')"

definition sample_run :: "int \<Rightarrow> router_op \<Rightarrow> state_file \<Rightarrow> dict op_result" where
  "sample_run now op f = run_op sample_cfg now sample_tok op f"

definition sample_queued :: state_file where
  "sample_queued = snd (sample_run 10 sample_enqueue FMissing)"

definition sample_claimed :: state_file where
  "sample_claimed = snd (sample_run 11 (Claim sample_token) sample_queued)"

definition sample_acked :: state_file where
  "sample_acked = snd (sample_run 12 (Ack ''s1'' sample_token) sample_claimed)"

definition sample_requeued :: state_file where
  "sample_requeued = snd (sample_run 12 (Requeue ''s1'' ''late'' sample_token) sample_claimed)"

lemma sample_step:
  assumes "t \<le> now" and "op_ok sample_cfg now f op" and "fst (sample_run now op f) = r"
  shows "router_step sample_cfg (t, f) op r (now, snd (sample_run now op f))"
  using assms by (intro router_step [where tok = sample_tok]) (auto simp: sample_run_def)

lemma router_file_step:
  assumes "router_file c t f" and "router_step c (t, f) op r (now, f')"
  shows "router_file c now f'"
proof -
  have app: "router_steps c tf ops tf' \<Longrightarrow> router_step c tf' op r tf'' \<Longrightarrow> router_steps c tf (ops @ [op]) tf''"
    for tf ops tf' op r tf''
    by (induction rule: router_steps.induct) (auto intro: router_steps.intros)
  from assms show ?thesis unfolding router_file_def by (blast intro: app)
qed

lemma router_file_start: "0 < t \<Longrightarrow> router_file c t FMissing"
  unfolding router_file_def by (blast intro: steps_none)

lemma sample_enqueue_step:
  "router_step sample_cfg (10, FMissing) sample_enqueue (fst (sample_run 10 sample_enqueue FMissing)) (10, sample_queued)"
  unfolding sample_queued_def by (rule sample_step [OF order_refl _ refl]) code_simp

lemma sample_queued_file: "router_file sample_cfg 10 sample_queued"
  by (rule router_file_step [OF router_file_start sample_enqueue_step]) simp

lemma sample_claim_reply:
  "fst (sample_run 11 (Claim sample_token) sample_queued) =
   Inr (claimed_dict (new_scope sample_cfg 10 ''s1'' False [''octo/repo''] (Some ''d1'')) sample_token)"
  by code_simp

lemma sample_claim_step:
  "router_step sample_cfg (10, sample_queued) (Claim sample_token)
     (Inr (claimed_dict (new_scope sample_cfg 10 ''s1'' False [''octo/repo''] (Some ''d1'')) sample_token))
     (11, sample_claimed)"
  unfolding sample_claimed_def by (rule sample_step [OF _ _ sample_claim_reply]) (simp, code_simp)

lemma sample_claimed_file: "router_file sample_cfg 11 sample_claimed"
  by (rule router_file_step [OF sample_queued_file sample_claim_step])

lemma sample_ack_step:
  "router_step sample_cfg (11, sample_claimed) (Ack ''s1'' sample_token)
     (Inr (scope_ack_reply ''s1'' ''acknowledged'')) (12, sample_acked)"
  unfolding sample_acked_def by (rule sample_step) (simp, code_simp, code_simp)

lemma sample_requeue_step:
  "router_step sample_cfg (11, sample_claimed) (Requeue ''s1'' ''late'' sample_token)
     (Inr (scope_requeue_reply ''s1'' ''requeued'' (JInt 1))) (12, sample_requeued)"
  unfolding sample_requeued_def by (rule sample_step) (simp, code_simp, code_simp)

section \<open>Guarantees\<close>

text \<open>C1: a leased scope has one owner. After a worker claimed the scope \<open>i\<close> with token
  \<open>k\<close>, no later claim hands \<open>i\<close> out while the lease runs, whatever operations happen in
  between, unless \<open>i\<close> was acknowledged or requeued with that very token.\<close>

theorem lease_exclusive:
  assumes "cfg_ok c" and "router_file c t f" and "i \<noteq> []"
    and claim: "router_step c (t, f) (Claim k) (Inr r) (t1, f1)" "dget r ''id'' = Some (JStr i)"
    and run: "router_steps c (t1, f1) ops (t2, f2)" "\<forall>op \<in> set ops. \<not> settles i k op"
    and again: "router_step c (t2, f2) (Claim k') (Inr r') (t3, f3)" "t3 < t1 + SCOPE_CLAIM_LEASE_SECONDS c"
  shows "dget r' ''id'' \<noteq> Some (JStr i)"
proof -
  obtain q where q: "holds c t f q" "0 < t" by (rule router_file_holdsE [OF assms(1,2)])
  have "leased c (t1, f1) i k (t1 + SCOPE_CLAIM_LEASE_SECONDS c)"
    by (rule claim_leases [OF assms(1) q claim assms(3)])
  moreover have "t2 < t1 + SCOPE_CLAIM_LEASE_SECONDS c" using step_time [OF again(1)] again(2) by simp
  ultimately have "leased c (t2, f2) i k (t1 + SCOPE_CLAIM_LEASE_SECONDS c)"
    using leased_steps [OF run(1) assms(1)] run(2) by simp
  from leased_step [OF assms(1) this again(1) _ again(2)] assms(3) show ?thesis by simp
qed

theorem lease_exclusive_witness:
  "dget (no_scope 12) ''id'' \<noteq> Some (JStr ''s1'')"
proof (rule lease_exclusive [OF sample_cfg_ok sample_queued_file _ sample_claim_step])
  show "router_steps sample_cfg (11, sample_claimed) [] (11, sample_claimed)" by (rule steps_none)
  have "fst (sample_run 12 (Claim other_token) sample_claimed) = Inr (no_scope 12)" by code_simp
  then show "router_step sample_cfg (11, sample_claimed) (Claim other_token) (Inr (no_scope 12))
      (12, snd (sample_run 12 (Claim other_token) sample_claimed))"
    by (intro sample_step) (simp, code_simp, simp)
  show "dget (claimed_dict (new_scope sample_cfg 10 ''s1'' False [''octo/repo''] (Some ''d1'')) sample_token)
      ''id'' = Some (JStr ''s1'')" by code_simp
qed (simp_all add: sample_cfg_def)

text \<open>C14: an acknowledgement is final. A scope that was acknowledged is never handed out again,
  unless an enqueue draws its identifier anew.\<close>

theorem ack_final:
  assumes "cfg_ok c" and "router_file c t f" and "i \<noteq> []"
    and ack: "router_step c (t, f) (Ack i k) (Inr r) (t1, f1)" "dget r ''status'' = Some (JStr ''acknowledged'')"
    and run: "router_steps c (t1, f1) ops (t2, f2)" "\<forall>op \<in> set ops. \<not> introduces i op"
    and again: "router_step c (t2, f2) (Claim k') (Inr r') (t3, f3)"
  shows "dget r' ''id'' \<noteq> Some (JStr i)"
proof -
  obtain q where q: "holds c t f q" "0 < t" by (rule router_file_holdsE [OF assms(1,2)])
  have "gone c (t1, f1) i" by (rule ack_removes [OF assms(1) q ack])
  with run have "gone c (t2, f2) i" by (intro gone_steps [OF run(1) assms(1)])
  from gone_step [OF assms(1) this again] assms(3) show ?thesis by simp
qed

theorem ack_final_witness:
  "dget (no_scope 5000) ''id'' \<noteq> Some (JStr ''s1'')"
proof (rule ack_final [OF sample_cfg_ok sample_claimed_file _ sample_ack_step])
  show "router_steps sample_cfg (12, sample_acked) [] (12, sample_acked)" by (rule steps_none)
  have "fst (sample_run 5000 (Claim other_token) sample_acked) = Inr (no_scope 5000)" by code_simp
  then show "router_step sample_cfg (12, sample_acked) (Claim other_token) (Inr (no_scope 5000))
      (5000, snd (sample_run 5000 (Claim other_token) sample_acked))"
    by (intro sample_step) (simp, code_simp, simp)
qed (simp_all add: scope_ack_reply_def)

text \<open>Repeated with the same token at any later time, an
  acknowledgement is answered \<open>already_acknowledged\<close>.\<close>

theorem ack_idempotent:
  assumes "cfg_ok c" and "router_file c t f"
    and ack: "router_step c (t, f) (Ack i k) (Inr r) (t1, f1)" "dget r ''status'' = Some (JStr ''acknowledged'')"
    and "t1 \<le> t2"
  shows "fst (ack_scope c t2 tok i k f1) = Inr (scope_ack_reply i ''already_acknowledged'')"
proof -
  obtain q where q: "holds c t f q" "0 < t" by (rule router_file_holdsE [OF assms(1,2)])
  obtain d q' where st: "effect c t1 (Ack i k) (opened c t1 q d) r q'" "holds c t1 f1 q'" "t \<le> t1"
    "wf_state c t1 (opened c t1 q d)"
    by (rule step_refines [OF assms(1) q ack(1)]) blast
  from st(1) ack(2) have q': "q' = acked_state t1 i k (opened c t1 q d)"
    by (cases rule: effect.cases) (auto simp: scope_ack_reply_def)
  have re: "claim_token_re k" "py_strip i = i" "scope_id_re i"
    using ack(1) by (auto elim!: router_stepE simp: ack_scope_def split: if_splits)
  have "0 < t2" using q(2) st(3) assms(5) by simp
  obtain d2 where d2: "load_state f1 = Inr d2" "recover_scope_claims c t2 tok d2 = opened c t2 q' d2"
    "dget d2 ''last_scope_transition'' = dget (q_rest q') ''last_scope_transition''"
    by (rule holds_open [OF assms(1) st(2) assms(5) \<open>0 < t2\<close>]) (simp add: scope_keys_def)
  have "i \<notin> set (keys_of (q_claims q'))" by (simp add: q' acked_state_def)
  moreover have "set (keys_of (q_claims (spec_recover c t2 q'))) \<subseteq> set (keys_of (q_claims q'))"
    using set_keys_filter [of _ "map (\<lambda>(k, cl). (k, canon_claim cl)) (q_claims q')"]
    by (simp add: spec_recover_def Let_def)
  ultimately have "dget (q_claims (opened c t2 q' d2)) i = None"
    by (auto simp: dget_None_iff)
  with d2 re show ?thesis
    by (simp add: ack_scope_def Let_def dget_py_def dget_or_def q' acked_state_def claim_token_matches_def)
qed

theorem ack_idempotent_witness:
  "fst (ack_scope sample_cfg 9999 sample_tok ''s1'' sample_token sample_acked) =
   Inr (scope_ack_reply ''s1'' ''already_acknowledged'')"
  by (rule ack_idempotent [OF sample_cfg_ok sample_claimed_file sample_ack_step])
    (simp_all add: scope_ack_reply_def)



text \<open>A delivery is queued once. After an enqueue for a delivery added a scope, enqueuing the
  same delivery again during the scope's lifetime answers with the existing scope and adds none.\<close>

theorem delivery_enqueued_once:
  assumes "cfg_ok c" and "router_file c t f"
    and enq: "router_step c (t, f) (Enqueue uid full repo repos (Some dl)) (Inr r) (t1, f1)" "dget r ''existing'' = None"
    and again: "router_step c (t1, f1) (Enqueue uid' full' repo' repos' (Some dl)) (Inr r') (t2, f2)"
      "t2 < t1 + SCOPE_TTL_SECONDS c"
  shows "dget r' ''existing'' = Some (JBool True) \<and>
    (\<exists>d. load_state f2 = Inr d \<and> uid' \<notin> set (stored_ids d))"
proof -
  obtain q where q: "holds c t f q" "0 < t" by (rule router_file_holdsE [OF assms(1,2)])
  obtain d q' where st: "effect c t1 (Enqueue uid full repo repos (Some dl)) (opened c t1 q d) r q'"
    "holds c t1 f1 q'" "t \<le> t1"
    by (rule step_refines [OF assms(1) q enq(1)]) blast
  define s where "s = new_scope c t1 uid full (case enqueue_repositories full repo repos of Inr rs \<Rightarrow> rs | Inl _ \<Rightarrow> []) (Some dl)"
  from st(1) enq(2) have "s \<in> set (q_queue q')"
    by (cases rule: effect.cases) (auto simp: s_def)
  have "0 < t1" using q(2) st(3) by simp
  obtain d2 q2 where st2: "effect c t2 (Enqueue uid' full' repo' repos' (Some dl)) (opened c t2 q' d2) r' q2"
    "holds c t2 f2 q2" "f2 = save q2" "wf_state c t2 (opened c t2 q' d2)" "t1 \<le> t2"
    by (rule step_refines [OF assms(1) st(2) \<open>0 < t1\<close> again(1)]) blast
  have "wf_state c t2 q'" using st(2) st2(5) by (auto simp: holds_def intro: wf_state_later)
  then have "canon_scope s \<in> set (q_queue (opened c t2 q' d2))"
    using kept_in_queue [OF assms(1) _ _ \<open>s \<in> set (q_queue q')\<close>] \<open>0 < t1\<close> st2(5) again(2)
    by (simp add: s_def new_scope_def)
  then have known: "with_delivery dl (opened c t2 q' d2)"
    unfolding with_delivery_def by (intro disjI1 bexI [of _ "canon_scope s"]) (simp_all add: s_def new_scope_def)
  from st2(1) known have r': "dget r' ''existing'' = Some (JBool True)" "q2 = opened c t2 q' d2"
    by (cases rule: effect.cases; simp)+
  obtain tok where "op_ok c t2 f1 (Enqueue uid' full' repo' repos' (Some dl))"
    using again(1) by (auto elim: router_stepE)
  moreover obtain d3 where "load_state f1 = Inr d3" "recover_scope_claims c t2 (\<lambda>_. []) d3 = opened c t2 q' d3"
    by (rule holds_open [OF assms(1) st(2) st2(5), of]) (use \<open>0 < t1\<close> st2(5) in auto)
  ultimately have "uid' \<notin> known_ids (opened c t2 q' d2)" by (simp add: fresh_id_def)
  moreover have "load_state f2 = Inr (encode_state q2)"
    using load_save st2(3,4) r'(2) by simp
  ultimately show ?thesis
    using r' by (simp add: stored_ids_encoded known_ids_def)
qed

definition sample_redelivery :: router_op where
  "sample_redelivery = Enqueue ''s2'' False None (Some [''octo/repo'']) (Some ''d1'')"

theorem delivery_enqueued_once_witness:
  "\<exists>r'. fst (sample_run 20 sample_redelivery sample_queued) = Inr r' \<and>
     dget r' ''existing'' = Some (JBool True)"
proof -
  let ?r = "fst (sample_run 10 sample_enqueue FMissing)" and ?r' = "fst (sample_run 20 sample_redelivery sample_queued)"
  have "case ?r of Inr r \<Rightarrow> dget r ''existing'' = None | Inl _ \<Rightarrow> False" by code_simp
  then obtain r where r: "?r = Inr r" "dget r ''existing'' = None" by (auto split: sum.splits)
  have "case ?r' of Inr r \<Rightarrow> True | Inl _ \<Rightarrow> False" by code_simp
  then obtain r' where r': "?r' = Inr r'" by (auto split: sum.splits)
  have "router_step sample_cfg (10, sample_queued) sample_redelivery (Inr r')
      (20, snd (sample_run 20 sample_redelivery sample_queued))"
    by (rule sample_step [OF _ _ r']) (simp, code_simp)
  note second = this [unfolded sample_redelivery_def]
  note first = sample_enqueue_step [unfolded r(1), unfolded sample_enqueue_def]
  have "20 < 10 + SCOPE_TTL_SECONDS sample_cfg" by (simp add: sample_cfg_def)
  from delivery_enqueued_once [OF sample_cfg_ok router_file_start first r(2) second this] r'
  show ?thesis by simp
qed

text \<open>C2: nothing is dropped. Loading a router file and recovering what expired keeps every scope
  the file lists, queued, leased or pending, as long as all of them fit into the pending list.\<close>

theorem recovery_loses_nothing:
  assumes "cfg_ok c" and "router_file c t f" and "t \<le> now" and "load_state f = Inr d"
    and "int (length (stored_ids d)) \<le> SCOPE_MAX_PENDING c"
  shows "known_ids (recover_scope_claims c now tok d) = set (stored_ids d)"
proof -
  obtain q where q: "holds c t f q" "0 < t" by (rule router_file_holdsE [OF assms(1,2)])
  consider (saved) "f = save q" | (missing) "blank f q" using q(1) by (auto simp: holds_def)
  then show ?thesis
  proof cases
    case saved
    have wf: "wf_state c now q" using q(1) assms(3) by (auto simp: holds_def intro: wf_state_later)
    with saved assms(4) have d: "d = encode_state q" using load_save by simp
    have "load_of q \<le> SCOPE_MAX_PENDING c"
      using assms(5) unfolding d stored_ids_encoded
      by (simp add: load_of_def scope_ids_def keys_of_def pending_ids_def)
    then have "known_ids (spec_recover c now q) = known_ids q"
      using spec_recover_ids [OF assms(1) wf] q(2) assms(3) by simp
    then show ?thesis
      unfolding d recover_encoded [OF wf] stored_ids_encoded by (simp add: known_ids_def Un_assoc)
  next
    case missing
    with assms(4) have d: "\<forall>k \<in> scope_keys. dget d k = None" by (auto simp: blank_def)
    then have "stored_ids d = []" by (simp add: stored_ids_def dget_py_def dget_or_def scope_keys_def)
    then show ?thesis unfolding recover_blank [OF d]
      by (simp add: known_ids_def empty_qstate_def pending_ids_def)
  qed
qed

theorem recovery_loses_nothing_witness:
  "\<exists>d. load_state sample_claimed = Inr d \<and>
     known_ids (recover_scope_claims sample_cfg 9000 sample_tok d) = set (stored_ids d) \<and> set (stored_ids d) = {''s1''}"
proof -
  have "case load_state sample_claimed of Inr d \<Rightarrow> stored_ids d = [''s1''] | Inl _ \<Rightarrow> False" by code_simp
  then obtain d where d: "load_state sample_claimed = Inr d" "stored_ids d = [''s1'']" by (auto split: sum.splits)
  from recovery_loses_nothing [OF sample_cfg_ok sample_claimed_file _ d(1), of 9000 sample_tok] d
  show ?thesis by (simp add: sample_cfg_def)
qed

text \<open>only the holder settles a lease. While a lease runs, an acknowledgement or a requeue with
  any other token is refused as a token mismatch and leaves the file as it was.\<close>

theorem only_holder_settles:
  assumes "cfg_ok c" and "router_file c t f" and "i \<noteq> []"
    and claim: "router_step c (t, f) (Claim k) (Inr r) (t1, f1)" "dget r ''id'' = Some (JStr i)"
    and "t1 \<le> t2" and "t2 < t1 + SCOPE_CLAIM_LEASE_SECONDS c" and "k' \<noteq> k" and "claim_token_re k'"
  shows "ack_scope c t2 tok i k' f1 = (Inl token_mismatch, f1) \<and>
    requeue_scope c t2 tok i reason k' f1 = (Inl token_mismatch, f1)"
proof -
  obtain q where q: "holds c t f q" "0 < t" by (rule router_file_holdsE [OF assms(1,2)])
  have "leased c (t1, f1) i k (t1 + SCOPE_CLAIM_LEASE_SECONDS c)"
    by (rule claim_leases [OF assms(1) q claim assms(3)])
  then obtain q1 cl where q1: "holds c t1 f1 q1" "dget (q_claims q1) i = Some cl" "c_token cl = k"
    "c_expires_at cl = t1 + SCOPE_CLAIM_LEASE_SECONDS c" and pos: "0 < t1" by (auto simp: leased_def)
  have "0 < t2" using pos assms(6) by simp
  obtain d where d: "load_state f1 = Inr d" "\<And>tok. recover_scope_claims c t2 tok d = opened c t2 q1 d"
    by (rule holds_open [OF assms(1) q1(1) assms(6) \<open>0 < t2\<close>]) blast
  have cl: "dget (q_claims (opened c t2 q1 d)) i = Some (canon_claim cl)"
    using q1 assms(7) by (intro opened_keeps_claim) auto
  have "s_id (c_scope cl) = i" "scope_id_re (s_id (c_scope cl))"
    using q1(1,2) by (auto simp: holds_def wf_state_def list_all_iff wf_claim_def wf_scope_def good_scope_def
        dest!: dget_Some_mem)
  then have re: "scope_id_re i" "py_strip i = i" by (auto simp: scope_id_re_def delivery_id_strip)
  have "\<not> claim_token_matches (JObj (claim_dict (canon_claim cl))) k'"
    using q1(3) assms(8) by (simp add: claim_token_matches_claim canon_claim_def)
  with d cl re assms(9) show ?thesis by (simp add: ack_scope_def requeue_scope_def Let_def)
qed

theorem only_holder_settles_witness:
  "ack_scope sample_cfg 12 sample_tok ''s1'' other_token sample_claimed = (Inl token_mismatch, sample_claimed) \<and>
   requeue_scope sample_cfg 12 sample_tok ''s1'' ''late'' other_token sample_claimed = (Inl token_mismatch, sample_claimed)"
proof (rule only_holder_settles [OF sample_cfg_ok sample_queued_file _ sample_claim_step])
  show "dget (claimed_dict (new_scope sample_cfg 10 ''s1'' False [''octo/repo''] (Some ''d1'')) sample_token)
      ''id'' = Some (JStr ''s1'')" by code_simp
  show "claim_token_re other_token" by code_simp
  show "other_token \<noteq> sample_token" by code_simp
qed (simp_all add: sample_cfg_def)

text \<open>one owner per scope, from any file. Whatever JSON object the state file holds, the
  recovered state has distinct identifiers in the queue, at most one claim per identifier, no scope
  both queued and leased, nothing expired, and a bounded pending list.\<close>

theorem recovery_single_owner:
  assumes "cfg_ok c" and "\<And>i. claim_token_re (tok i)" and "load_state f = Inr d"
  shows "single_owner c now (recover_scope_claims c now tok d)"
  using assms(1,2) load_state_wf [OF assms(3)] by (rule recovered_single_owner)

theorem recovery_single_owner_witness:
  "\<exists>d. load_state (FTree (JObj [(''scope_queue'', JInt 3), (''scope_claims'', JArr [JNull])])) = Inr d \<and>
     single_owner sample_cfg 5 (recover_scope_claims sample_cfg 5 sample_tok d)"
proof -
  have t: "claim_token_re (sample_tok i)" for i unfolding sample_tok_def by code_simp
  have l: "load_state (FTree (JObj [(''scope_queue'', JInt 3), (''scope_claims'', JArr [JNull])])) =
      Inr [(''scope_queue'', JInt 3), (''scope_claims'', JArr [JNull])]" by code_simp
  show ?thesis using recovery_single_owner [where tok = sample_tok, OF sample_cfg_ok t l] l by blast
qed

text \<open>first come, first served. A claim hands out the first queued scope whose back-off has
  passed, and answers that there is none only when every queued scope is still waiting.\<close>

theorem claim_takes_first_ready:
  assumes "load_state f = Inr d" and "recover_scope_claims c now tok d = q"
  shows "(\<exists>a item b. q_queue q = a @ item # b \<and> s_not_before item \<le> now \<and> (\<forall>s \<in> set a. now < s_not_before s) \<and>
      claim_scope c now tok k f = (Inr (claimed_dict item k), save (leased_state c now k item (a @ b) q))) \<or>
    (\<forall>s \<in> set (q_queue q). now < s_not_before s) \<and> claim_scope c now tok k f = (Inr (no_scope now), save q)"
proof (cases "pop_ready now (q_queue q)")
  case None
  then have "\<forall>s \<in> set (q_queue q). now < s_not_before s" by (simp only: pop_ready_None)
  moreover have "claim_scope c now tok k f = (Inr (no_scope now), save q)"
    using None assms by (simp add: claim_scope_def)
  ultimately show ?thesis by blast
next
  case (Some p)
  obtain item rest where p: "p = (item, rest)" by fastforce
  with Some obtain a b where "q_queue q = a @ item # b" "rest = a @ b" "s_not_before item \<le> now"
    "\<forall>s \<in> set a. now < s_not_before s" using pop_ready_split by blast
  moreover from this have "claim_scope c now tok k f = (Inr (claimed_dict item k), save (leased_state c now k item (a @ b) q))"
    using Some p assms by (simp add: claim_scope_def leased_state_def)
  ultimately show ?thesis by blast
qed

theorem claim_takes_first_ready_witness:
  "\<exists>d. load_state FMissing = Inr d \<and> claim_scope sample_cfg 5 sample_tok sample_token FMissing =
     (Inr (no_scope 5), save (recover_scope_claims sample_cfg 5 sample_tok d))"
proof -
  have "recover_scope_claims sample_cfg 5 sample_tok [] = empty_qstate" by code_simp
  with claim_takes_first_ready [of FMissing "[]" sample_cfg 5 sample_tok empty_qstate sample_token] show ?thesis
    by (simp add: empty_qstate_def)
qed

text \<open>a refused operation changes nothing. When an operation of the queue raises, the state
  file is left as it was, for every operation and every file.\<close>

theorem failed_operation_keeps_file:
  assumes "run_op c now tok op f = (Inl e, f')"
  shows "f' = f"
  using assms by (rule op_error_no_change)

theorem failed_operation_keeps_file_witness:
  "snd (run_op sample_cfg 5 sample_tok (Ack ''s1'' sample_token) FMissing) = FMissing"
proof -
  have "fst (run_op sample_cfg 5 sample_tok (Ack ''s1'' sample_token) FMissing) = Inl token_mismatch" by code_simp
  then show ?thesis using failed_operation_keeps_file by (metis prod.collapse)
qed

text \<open>C11: the router refines its protocol. Every successful operation on a file the router left is
  recovery followed by one step of the abstract protocol, and what it writes is well formed.\<close>

theorem router_refines_protocol:
  assumes "cfg_ok c" and "router_file c t f" and "router_step c (t, f) op (Inr r) (now, f')"
  shows "\<exists>d q'. load_state f = Inr d \<and> effect c now op (recover_scope_claims c now (\<lambda>_. []) d) r q' \<and>
    f' = save q' \<and> wf_state c now q'"
proof -
  obtain q where q: "holds c t f q" "0 < t" by (rule router_file_holdsE [OF assms(1,2)])
  note time = step_time [OF assms(3)]
  then have now: "0 < now" using q(2) by simp
  from assms(3) obtain tok where step: "op_ok c now f op" "run_op c now tok op f = (Inr r, f')"
    by (auto elim: router_stepE)
  obtain d where d: "load_state f = Inr d" "\<And>tok. recover_scope_claims c now tok d = opened c now q d"
    and wf: "wf_state c now (opened c now q d)"
    by (rule holds_open [OF assms(1) q(1) time now]) blast
  from step(2) have "\<exists>q'. f' = save q' \<and> effect c now op (opened c now q d) r q'"
    by (cases op) (use d wf enqueue_refines claim_refines ack_refines requeue_refines status_refines in
      \<open>auto simp: wf_state_def\<close>)
  then obtain q' where q': "f' = save q'" "effect c now op (opened c now q d) r q'" by blast
  have "wf_state c now q'"
    by (rule effect_wf [OF q'(2) assms(1) wf now step(1)]) (use step(1) d in \<open>auto simp: fresh_id_def\<close>)
  with d q' show ?thesis by auto
qed

theorem router_refines_protocol_witness:
  "\<exists>d q'. load_state sample_claimed = Inr d \<and>
     effect sample_cfg 12 (Ack ''s1'' sample_token) (recover_scope_claims sample_cfg 12 (\<lambda>_. []) d)
       (scope_ack_reply ''s1'' ''acknowledged'') q' \<and> sample_acked = save q' \<and> wf_state sample_cfg 12 q'"
  by (rule router_refines_protocol [OF sample_cfg_ok sample_claimed_file sample_ack_step])

text \<open>Recovery is a classification. On a state the router wrote, the JSON-level recovery
  computes exactly the typed specification: live scopes stay, expired ones with an attempt left are
  retried, the others are parked.\<close>

theorem recovery_refines_classification:
  assumes "wf_state c t q"
  shows "load_state (save q) = Inr (encode_state q) \<and>
    recover_scope_claims c now tok (encode_state q) = spec_recover c now q"
  using load_save [OF assms] recover_encoded [OF assms] by simp

theorem recovery_refines_classification_witness:
  "load_state (save empty_qstate) = Inr (encode_state empty_qstate) \<and>
    recover_scope_claims sample_cfg 7 sample_tok (encode_state empty_qstate) = spec_recover sample_cfg 7 empty_qstate"
  by (rule recovery_refines_classification [of sample_cfg 1])
    (use holds_wf_empty [OF sample_cfg_ok] in \<open>simp add: holds_def\<close>)

text \<open>scopes survive the file. A valid scope, with whatever further keys a claim or a pending
  entry adds, is read back by the validating normaliser as itself with its repositories sorted.\<close>

theorem scope_roundtrip:
  assumes "good_scope c s" and "dget e ''delivery'' = None"
  shows "normalise_scope_item c (JObj (scope_dict s @ e)) now True = Some (canon_scope s)"
  using assms by (rule normalise_scope_dict) simp

theorem scope_roundtrip_witness:
  "normalise_scope_item sample_cfg
     (JObj (scope_dict (new_scope sample_cfg 10 ''s1'' False [''octo/b'', ''octo/a''] (Some ''d1'')) @ [])) 50 True =
   Some (new_scope sample_cfg 10 ''s1'' False [''octo/a'', ''octo/b''] (Some ''d1''))"
proof -
  let ?s = "new_scope sample_cfg 10 ''s1'' False [''octo/b'', ''octo/a''] (Some ''d1'')"
  have g: "good_scope sample_cfg ?s" by code_simp
  have "canon_scope ?s = new_scope sample_cfg 10 ''s1'' False [''octo/a'', ''octo/b''] (Some ''d1'')" by code_simp
  with scope_roundtrip [OF g, of "[]" 50] show ?thesis by simp
qed

end
