(* ===== verification/RouterDelivery.thy ===== *)
theory RouterDelivery
  imports RouterProtocol
begin

text \<open>
  The router's memory of GitHub deliveries, which turns a replayed webhook into a no-op: a bounded
  map from delivery identifiers to the times they were accepted and expire, kept in the state file
  under \<open>delivery_dedupe\<close>.
\<close>

section \<open>Operations\<close>

record delivery_entry =
  d_created_at :: int
  d_expires_at :: int

type_synonym deliveries = "(string \<times> delivery_entry) list"

definition delivery_dict :: "deliveries \<Rightarrow> json" where
  "delivery_dict m = JObj (map (\<lambda>(k, e). (k, JObj [(''created_at'', JInt (d_created_at e)),
     (''expires_at'', JInt (d_expires_at e))])) m)"

text \<open>An unusable time skips the entry; an infinite one is not caught.\<close>

datatype time_field = Time int | SkipEntry | Uncaught exn

definition time_field :: "dict \<Rightarrow> string \<Rightarrow> time_field" where
  "time_field d k = (case py_int (py_or (dget_py d k) (JInt 0)) of
      Inr i \<Rightarrow> Time i
    | Inl e \<Rightarrow> if e = PyError ''TypeError'' \<or> e = PyError ''ValueError'' then SkipEntry else Uncaught e)"

fun prune_deliveries_loop :: "int \<Rightarrow> dict \<Rightarrow> deliveries \<Rightarrow> deliveries res" where
  "prune_deliveries_loop now [] kept = Inr kept"
| "prune_deliveries_loop now ((raw_id, raw_entry) # rest) kept =
     (let delivery_id = py_strip raw_id in
      if \<not> delivery_id_re delivery_id then prune_deliveries_loop now rest kept else
      case raw_entry of
        JObj d \<Rightarrow> (case time_field d ''expires_at'' of
            SkipEntry \<Rightarrow> prune_deliveries_loop now rest kept
          | Uncaught e \<Rightarrow> Inl e
          | Time expires_at \<Rightarrow>
              if expires_at \<le> now then prune_deliveries_loop now rest kept else
              (case time_field d ''created_at'' of
                 SkipEntry \<Rightarrow> prune_deliveries_loop now rest kept
               | Uncaught e \<Rightarrow> Inl e
               | Time created_at \<Rightarrow> prune_deliveries_loop now rest
                   (dset delivery_id \<lparr>d_created_at = created_at, d_expires_at = expires_at\<rparr> kept)))
      | _ \<Rightarrow> prune_deliveries_loop now rest kept)"

definition prune_deliveries :: "json \<Rightarrow> int \<Rightarrow> deliveries res" where
  "prune_deliveries raw_map now = (case raw_map of
     JObj d \<Rightarrow> prune_deliveries_loop now d [] | _ \<Rightarrow> Inr [])"

definition cap_deliveries :: "router_cfg \<Rightarrow> deliveries \<Rightarrow> deliveries" where
  "cap_deliveries c kept =
     (if int (length kept) \<le> DELIVERY_MAX_ENTRIES c then kept
      else let oldest_first = sort_key (\<lambda>item. d_created_at (snd item)) kept;
               overflow = int (length kept) - DELIVERY_MAX_ENTRIES c;
               evicted = map fst (take (nat overflow) oldest_first)
           in filter (\<lambda>item. fst item \<notin> set evicted) kept)"

definition bounded_deliveries :: "router_cfg \<Rightarrow> json \<Rightarrow> int \<Rightarrow> deliveries res" where
  "bounded_deliveries c raw_map now = map_sum id (cap_deliveries c) (prune_deliveries raw_map now)"

definition claim_delivery :: "router_cfg \<Rightarrow> int \<Rightarrow> string \<Rightarrow> state_file \<Rightarrow> (string \<times> bool) op_result" where
  "claim_delivery c now delivery_id f =
     (case load_state f of Inl e \<Rightarrow> (Inl e, f) | Inr state \<Rightarrow>
      case bounded_deliveries c (dget_py state ''delivery_dedupe'') now of Inl e \<Rightarrow> (Inl e, f) | Inr kept \<Rightarrow>
      if dhas kept delivery_id then
        (Inr (''duplicate'', True), write_state (dset ''delivery_dedupe'' (delivery_dict kept) state))
      else let kept = dset delivery_id \<lparr>d_created_at = now, d_expires_at = now + DELIVERY_TTL_SECONDS c\<rparr> kept;
               kept = cap_deliveries c kept
           in (Inr (''fresh'', False), write_state (dset ''delivery_dedupe'' (delivery_dict kept) state)))"

definition release_delivery :: "router_cfg \<Rightarrow> int \<Rightarrow> string \<Rightarrow> state_file \<Rightarrow> unit op_result" where
  "release_delivery c now delivery_id f =
     (case load_state f of Inl e \<Rightarrow> (Inl e, f) | Inr state \<Rightarrow>
      case bounded_deliveries c (dget_py state ''delivery_dedupe'') now of Inl e \<Rightarrow> (Inl e, f) | Inr kept \<Rightarrow>
      (Inr (), write_state (dset ''delivery_dedupe'' (delivery_dict (ddel delivery_id kept)) state)))"

section \<open>What the map holds\<close>

text \<open>
  A map the router wrote: identifiers in order of arrival, none twice, times within range and
  no larger than the bound.
\<close>

definition deliveries_ok :: "router_cfg \<Rightarrow> int \<Rightarrow> deliveries \<Rightarrow> bool" where
  "deliveries_ok c now m \<longleftrightarrow> distinct (keys_of m) \<and> list_all delivery_id_re (keys_of m) \<and>
     sorted (map (\<lambda>p. d_created_at (snd p)) m) \<and> (\<forall>p \<in> set m. d_created_at (snd p) \<le> now) \<and>
     int (length m) \<le> DELIVERY_MAX_ENTRIES c"

definition recorded :: "router_cfg \<Rightarrow> int \<Rightarrow> state_file \<Rightarrow> deliveries \<Rightarrow> bool" where
  "recorded c now f m \<longleftrightarrow> deliveries_ok c now m \<and>
     (\<exists>d. load_state f = Inr d \<and>
        (dget d ''delivery_dedupe'' = Some (delivery_dict m) \<or> dget d ''delivery_dedupe'' = None \<and> m = []))"

definition live_deliveries :: "int \<Rightarrow> deliveries \<Rightarrow> deliveries" where
  "live_deliveries now m = filter (\<lambda>p. now < d_expires_at (snd p)) m"

lemma time_field_int: "dget d k = Some (JInt i) \<Longrightarrow> time_field d k = Time i"
  by (simp add: time_field_def dget_py_def dget_or_def py_or_def truthy_def py_int_def)

lemma prune_encoded:
  assumes "list_all delivery_id_re (keys_of m)" and "distinct (keys_of m)"
    and "set (keys_of m) \<inter> set (keys_of kept) = {}"
  shows "prune_deliveries_loop now (map (\<lambda>(k, e). (k, JObj [(''created_at'', JInt (d_created_at e)),
     (''expires_at'', JInt (d_expires_at e))])) m) kept = Inr (kept @ live_deliveries now m)"
  using assms
proof (induction m arbitrary: kept)
  case (Cons p m)
  obtain k e where p: "p = (k, e)" by fastforce
  have k: "py_strip k = k" "delivery_id_re k" using Cons.prems p by (auto simp: delivery_id_strip)
  have f: "time_field [(''created_at'', JInt a), (''expires_at'', JInt b)] ''created_at'' = Time a"
    "time_field [(''created_at'', JInt a), (''expires_at'', JInt b)] ''expires_at'' = Time b" for a b
    by (simp_all add: time_field_int)
  obtain a b where e: "e = \<lparr>d_created_at = a, d_expires_at = b\<rparr>" by (cases e)
  have new: "dset k e kept = kept @ [(k, e)]" using Cons.prems p by (intro dset_new) auto
  show ?case
  proof (cases "b \<le> now")
    case True
    with Cons.IH [of kept] Cons.prems p k f e show ?thesis
      by (simp add: Let_def live_deliveries_def)
  next
    case False
    with Cons.IH [of "kept @ [(k, e)]"] Cons.prems p k f e new show ?thesis
      by (simp add: Let_def live_deliveries_def keys_of_def)
  qed
qed (simp add: live_deliveries_def)

text \<open>Dropping entries keeps a map in order.\<close>

lemma deliveries_ok_filter:
  assumes "deliveries_ok c t m" and "t \<le> now"
  shows "deliveries_ok c now (filter P m)"
proof -
  have "distinct (keys_of (filter P m))" "sorted (map (\<lambda>p. d_created_at (snd p)) (filter P m))"
    using assms by (simp_all add: deliveries_ok_def keys_of_def distinct_map_filter sorted_filter)
  moreover have "list_all delivery_id_re (keys_of (filter P m))"
    using assms by (simp add: deliveries_ok_def keys_of_def list_all_iff)
  moreover have "\<forall>p \<in> set (filter P m). d_created_at (snd p) \<le> now"
    using assms by (auto simp: deliveries_ok_def)
  moreover have "int (length (filter P m)) \<le> DELIVERY_MAX_ENTRIES c"
    using assms length_filter_le [of P m] unfolding deliveries_ok_def by linarith
  ultimately show ?thesis by (simp add: deliveries_ok_def)
qed

lemma live_ok: "deliveries_ok c t m \<Longrightarrow> t \<le> now \<Longrightarrow> deliveries_ok c now (live_deliveries now m)"
  unfolding live_deliveries_def by (rule deliveries_ok_filter)

lemma bounded_recorded:
  assumes "recorded c t f m" and "t \<le> now"
  obtains d where "load_state f = Inr d"
    and "bounded_deliveries c (dget_py d ''delivery_dedupe'') now = Inr (live_deliveries now m)"
proof -
  from assms(1) obtain d where d: "load_state f = Inr d" and ok: "deliveries_ok c t m"
    and cases: "dget d ''delivery_dedupe'' = Some (delivery_dict m) \<or> dget d ''delivery_dedupe'' = None \<and> m = []"
    by (auto simp: recorded_def)
  have "prune_deliveries (delivery_dict m) now = Inr (live_deliveries now m)"
    using prune_encoded [of m "[]" now] ok
    by (simp add: prune_deliveries_def delivery_dict_def deliveries_ok_def)
  with cases have "prune_deliveries (dget_py d ''delivery_dedupe'') now = Inr (live_deliveries now m)"
    by (auto simp: dget_py_def dget_or_def prune_deliveries_def live_deliveries_def)
  moreover have "cap_deliveries c (live_deliveries now m) = live_deliveries now m"
    using live_ok [OF ok assms(2)] by (simp add: cap_deliveries_def deliveries_ok_def)
  ultimately show thesis using d by (intro that) (auto simp: bounded_deliveries_def)
qed

text \<open>On maps in order of arrival, evicting the oldest keeps the newest entries.\<close>

lemma cap_sorted:
  assumes "sorted (map (\<lambda>p. d_created_at (snd p)) m)" and "distinct (keys_of m)"
    and "0 \<le> DELIVERY_MAX_ENTRIES c"
  shows "cap_deliveries c m = last_n (DELIVERY_MAX_ENTRIES c) m"
proof (cases "int (length m) \<le> DELIVERY_MAX_ENTRIES c")
  case True
  then show ?thesis by (simp add: cap_deliveries_def last_n_id)
next
  case False
  let ?n = "length m - nat (DELIVERY_MAX_ENTRIES c)"
  have n: "nat (int (length m) - DELIVERY_MAX_ENTRIES c) = ?n" using assms(3) by linarith
  have sort: "sort_key (\<lambda>item. d_created_at (snd item)) m = m" using assms(1) by (rule sort_key_sorted)
  have dist: "distinct (map fst (take ?n m @ drop ?n m))" using assms(2) by (simp add: keys_of_def)
  then have "filter (\<lambda>item. fst item \<notin> set (map fst (take ?n m))) (take ?n m @ drop ?n m) = drop ?n m"
    unfolding filter_append by (auto simp: filter_empty_conv filter_id_conv simp del: append_take_drop_id)
  then show ?thesis using False sort n by (simp add: cap_deliveries_def Let_def last_n_def)
qed

definition add_delivery :: "router_cfg \<Rightarrow> int \<Rightarrow> string \<Rightarrow> deliveries \<Rightarrow> deliveries" where
  "add_delivery c now i m = last_n (DELIVERY_MAX_ENTRIES c)
     (live_deliveries now m @ [(i, \<lparr>d_created_at = now, d_expires_at = now + DELIVERY_TTL_SECONDS c\<rparr>)])"

lemma sorted_last_n: "sorted xs \<Longrightarrow> sorted (last_n n xs)"
  by (simp add: last_n_def sorted_wrt_drop)

lemma last_n_map: "map f (last_n n xs) = last_n n (map f xs)"
  by (simp add: last_n_def drop_map)

lemma add_delivery_ok:
  assumes "deliveries_ok c t m" and "t \<le> now" and "cfg_ok c" and "delivery_id_re i"
    and "i \<notin> set (keys_of (live_deliveries now m))"
  shows "deliveries_ok c now (add_delivery c now i m)"
    and "cap_deliveries c (dset i \<lparr>d_created_at = now, d_expires_at = now + DELIVERY_TTL_SECONDS c\<rparr> (live_deliveries now m)) =
      add_delivery c now i m"
proof -
  let ?e = "\<lparr>d_created_at = now, d_expires_at = now + DELIVERY_TTL_SECONDS c\<rparr>"
  let ?m = "live_deliveries now m @ [(i, ?e)]"
  note live = live_ok [OF assms(1,2)]
  have s: "sorted (map (\<lambda>p. d_created_at (snd p)) ?m)" and d: "distinct (keys_of ?m)"
    using live assms(5) by (auto simp: deliveries_ok_def keys_of_def sorted_append)
  have max: "0 \<le> DELIVERY_MAX_ENTRIES c" using assms(3) by (simp add: cfg_ok_def)
  show "cap_deliveries c (dset i ?e (live_deliveries now m)) = add_delivery c now i m"
    unfolding dset_new [OF assms(5)] add_delivery_def by (rule cap_sorted [OF s d max])
  have "set (last_n (DELIVERY_MAX_ENTRIES c) ?m) \<subseteq> set ?m" by (rule set_last_n)
  moreover have "distinct (keys_of (last_n (DELIVERY_MAX_ENTRIES c) ?m))"
    using d unfolding keys_of_def by (rule distinct_map_last_n)
  moreover have "sorted (map (\<lambda>p. d_created_at (snd p)) (last_n (DELIVERY_MAX_ENTRIES c) ?m))"
    unfolding last_n_map using s by (rule sorted_last_n)
  moreover have "list_all delivery_id_re (keys_of ?m)" "\<forall>p \<in> set ?m. d_created_at (snd p) \<le> now"
    using live assms(4) by (auto simp: deliveries_ok_def keys_of_def)
  then have "list_all delivery_id_re (keys_of (last_n (DELIVERY_MAX_ENTRIES c) ?m))"
    "\<forall>p \<in> set (last_n (DELIVERY_MAX_ENTRIES c) ?m). d_created_at (snd p) \<le> now"
    using set_last_n [of "DELIVERY_MAX_ENTRIES c" ?m] by (auto simp: keys_of_def list_all_iff)
  ultimately show "deliveries_ok c now (add_delivery c now i m)"
    using length_last_n [OF max, of ?m] by (simp add: add_delivery_def deliveries_ok_def)
qed

lemma json_wf_delivery_dict: "distinct (keys_of m) \<Longrightarrow> json_wf (delivery_dict m)"
proof -
  assume "distinct (keys_of m)"
  moreover have "map fst (map (\<lambda>(k, e). (k, JObj [(''created_at'', JInt (d_created_at e)),
     (''expires_at'', JInt (d_expires_at e))])) m) = keys_of m"
    by (auto simp: keys_of_def)
  ultimately show ?thesis by (auto simp: delivery_dict_def list_all_iff)
qed

lemma recorded_write:
  assumes "deliveries_ok c now m" and "load_state f = Inr d"
  shows "recorded c now (write_state (dset ''delivery_dedupe'' (delivery_dict m) d)) m"
proof -
  have "json_wf (JObj (dset ''delivery_dedupe'' (delivery_dict m) d))"
    using assms by (intro json_wf_dset json_wf_delivery_dict load_state_wf) (auto simp: deliveries_ok_def)
  from load_write [OF this] assms(1) show ?thesis by (simp add: recorded_def)
qed

text \<open>What the two operations do to a recorded map.\<close>

definition set_deliveries :: "deliveries \<Rightarrow> dict \<Rightarrow> state_file" where
  "set_deliveries m d = write_state (dset ''delivery_dedupe'' (delivery_dict m) d)"

lemma claim_delivery_recorded:
  assumes "cfg_ok c" and "recorded c t f m" and "t \<le> now" and "delivery_id_re i"
  shows "\<exists>d. load_state f = Inr d \<and> claim_delivery c now i f =
    (if i \<in> set (keys_of (live_deliveries now m))
     then (Inr (''duplicate'', True), set_deliveries (live_deliveries now m) d)
     else (Inr (''fresh'', False), set_deliveries (add_delivery c now i m) d))"
proof -
  have ok: "deliveries_ok c t m" using assms(2) by (simp add: recorded_def)
  obtain d where d: "load_state f = Inr d"
    "bounded_deliveries c (dget_py d ''delivery_dedupe'') now = Inr (live_deliveries now m)"
    using bounded_recorded [OF assms(2,3)] by blast
  have "dhas (live_deliveries now m) i \<longleftrightarrow> i \<in> set (keys_of (live_deliveries now m))"
    by (simp add: dhas_def dget_None_iff)
  with d add_delivery_ok(2) [OF ok assms(3,1,4)] show ?thesis
    by (simp add: claim_delivery_def set_deliveries_def)
qed

lemma release_delivery_recorded:
  assumes "recorded c t f m" and "t \<le> now"
  shows "\<exists>d. load_state f = Inr d \<and>
    release_delivery c now i f = (Inr (), set_deliveries (ddel i (live_deliveries now m)) d)"
proof -
  obtain d where "load_state f = Inr d"
    "bounded_deliveries c (dget_py d ''delivery_dedupe'') now = Inr (live_deliveries now m)"
    using bounded_recorded [OF assms(1,2)] by blast
  then show ?thesis by (simp add: release_delivery_def set_deliveries_def)
qed

section \<open>Deliveries among the other operations\<close>

datatype intake_op = QueueOp router_op | ClaimDelivery string | ReleaseDelivery string

inductive intake_step ::
  "router_cfg \<Rightarrow> int \<times> state_file \<Rightarrow> intake_op \<Rightarrow> int \<times> state_file \<Rightarrow> bool" where
  step_queue: "router_step c (t, f) op r (now, f') \<Longrightarrow> intake_step c (t, f) (QueueOp op) (now, f')"
| step_deliver: "t \<le> now \<Longrightarrow> delivery_id_re i \<Longrightarrow> claim_delivery c now i f = (r, f') \<Longrightarrow>
     intake_step c (t, f) (ClaimDelivery i) (now, f')"
| step_release: "t \<le> now \<Longrightarrow> release_delivery c now i f = (r', f') \<Longrightarrow>
     intake_step c (t, f) (ReleaseDelivery i) (now, f')"

inductive_cases intake_stepE: "intake_step c (t, f) op (now, f')"

inductive intake_steps ::
  "router_cfg \<Rightarrow> int \<times> state_file \<Rightarrow> intake_op list \<Rightarrow> int \<times> state_file \<Rightarrow> bool" where
  intake_none: "intake_steps c tf [] tf"
| intake_more: "intake_step c tf op tf' \<Longrightarrow> intake_steps c tf' ops tf'' \<Longrightarrow>
     intake_steps c tf (op # ops) tf''"

definition intake_file :: "router_cfg \<Rightarrow> int \<Rightarrow> state_file \<Rightarrow> bool" where
  "intake_file c t f \<longleftrightarrow> (\<exists>t0 ops. 0 < t0 \<and> intake_steps c (t0, FMissing) ops (t, f))"

fun next_deliveries :: "router_cfg \<Rightarrow> int \<Rightarrow> intake_op \<Rightarrow> deliveries \<Rightarrow> deliveries" where
  "next_deliveries c now (QueueOp op) m = m"
| "next_deliveries c now (ClaimDelivery i) m =
     (if i \<in> set (keys_of (live_deliveries now m)) then live_deliveries now m else add_delivery c now i m)"
| "next_deliveries c now (ReleaseDelivery i) m = ddel i (live_deliveries now m)"

definition known :: "router_cfg \<Rightarrow> int \<Rightarrow> state_file \<Rightarrow> deliveries \<Rightarrow> bool" where
  "known c t f m \<longleftrightarrow> 0 < t \<and> deliveries_ok c t m \<and> (\<exists>q. holds c t f q \<and>
     (dget (q_rest q) ''delivery_dedupe'' = Some (delivery_dict m) \<or>
      dget (q_rest q) ''delivery_dedupe'' = None \<and> m = []))"

lemma delivery_key: "''delivery_dedupe'' \<notin> scope_keys" "''delivery_dedupe'' \<notin> reserved_keys"
  by (simp_all add: scope_keys_def reserved_keys_def)

lemma known_recorded: "cfg_ok c \<Longrightarrow> known c t f m \<Longrightarrow> recorded c t f m"
proof -
  assume c: "cfg_ok c" and k: "known c t f m"
  then obtain q where q: "holds c t f q" "0 < t" and m: "deliveries_ok c t m"
    "dget (q_rest q) ''delivery_dedupe'' = Some (delivery_dict m) \<or>
      dget (q_rest q) ''delivery_dedupe'' = None \<and> m = []" by (auto simp: known_def)
  obtain d where "load_state f = Inr d" "dget d ''delivery_dedupe'' = dget (q_rest q) ''delivery_dedupe''"
    by (rule holds_open [OF c q(1) order_refl q(2)]) (use delivery_key in blast)
  with m show ?thesis by (auto simp: recorded_def)
qed

lemma known_set:
  assumes "known c t f m" and "t \<le> now" and "load_state f = Inr d" and "deliveries_ok c now m'"
  shows "known c now (set_deliveries m' d) m'"
proof -
  obtain q where q: "holds c t f q" "0 < t" using assms(1) by (auto simp: known_def)
  have "json_wf (delivery_dict m')" using assms(4) by (intro json_wf_delivery_dict) (simp add: deliveries_ok_def)
  from holds_other [OF q(1) assms(2,3) delivery_key(1) this] obtain q' where
    "holds c now (set_deliveries m' d) q'" "dget (q_rest q') ''delivery_dedupe'' = Some (delivery_dict m')"
    unfolding set_deliveries_def using delivery_key by auto
  with q assms(2,4) show ?thesis by (auto simp: known_def)
qed

lemma deliveries_ok_later: "deliveries_ok c t m \<Longrightarrow> t \<le> now \<Longrightarrow> deliveries_ok c now m"
  by (auto simp: deliveries_ok_def)

text \<open>The scope operations keep the deliveries.\<close>

lemma effect_rest:
  "effect c now op q r q' \<Longrightarrow> k \<notin> reserved_keys \<Longrightarrow> dget (q_rest q') k = dget (q_rest q) k"
  by (erule effect.cases)
    (auto simp: leased_state_def acked_state_def requeued_state_def reserved_keys_def split: prod.splits)

lemma queue_step_known:
  assumes "cfg_ok c" and "known c t f m" and "router_step c (t, f) op r (now, f')"
  shows "known c now f' m"
proof -
  obtain q where q: "holds c t f q" "0 < t" and m: "deliveries_ok c t m"
    "dget (q_rest q) ''delivery_dedupe'' = Some (delivery_dict m) \<or>
      dget (q_rest q) ''delivery_dedupe'' = None \<and> m = []" using assms(2) by (auto simp: known_def)
  show ?thesis
  proof (cases r)
    case (Inl e)
    with assms(3) have "f' = f" "t \<le> now" by (auto elim!: router_stepE dest: op_error_no_change)
    with q m show ?thesis by (auto simp: known_def holds_def intro: deliveries_ok_later wf_state_later)
  next
    case (Inr x)
    obtain d q' where "effect c now op (opened c now q d) x q'" "holds c now f' q'" "t \<le> now"
      "\<And>k. k \<notin> scope_keys \<Longrightarrow> dget d k = dget (q_rest q) k"
      by (rule step_refines [OF assms(1) q(1,2) assms(3) [unfolded Inr]]) blast
    with effect_rest [OF _ delivery_key(2)] delivery_key(1) q m show ?thesis
      by (auto simp: known_def intro: deliveries_ok_later)
  qed
qed

lemma intake_step_known:
  assumes "cfg_ok c" and "known c t f m" and "intake_step c (t, f) op (now, f')"
  shows "known c now f' (next_deliveries c now op m) \<and> t \<le> now"
  using assms(3)
proof (cases rule: intake_step.cases)
  case (step_queue op' r)
  then have "t \<le> now" by (auto elim: router_stepE)
  with step_queue queue_step_known [OF assms(1,2)] show ?thesis by auto
next
  case (step_deliver i r)
  note rec = known_recorded [OF assms(1,2)]
  obtain d where d: "load_state f = Inr d" "claim_delivery c now i f =
    (if i \<in> set (keys_of (live_deliveries now m))
     then (Inr (''duplicate'', True), set_deliveries (live_deliveries now m) d)
     else (Inr (''fresh'', False), set_deliveries (add_delivery c now i m) d))"
    using claim_delivery_recorded [OF assms(1) rec step_deliver(2,3)] by blast
  have ok: "deliveries_ok c t m" using assms(2) by (simp add: known_def)
  have "deliveries_ok c now (next_deliveries c now op m)"
    using step_deliver live_ok [OF ok] add_delivery_ok(1) [OF ok _ assms(1)] by simp
  from known_set [OF assms(2) step_deliver(2) d(1) this] d step_deliver show ?thesis
    by (auto split: if_splits)
next
  case (step_release i r)
  obtain d where d: "load_state f = Inr d"
    "release_delivery c now i f = (Inr (), set_deliveries (ddel i (live_deliveries now m)) d)"
    using release_delivery_recorded [OF known_recorded [OF assms(1,2)] step_release(2)] by blast
  have "deliveries_ok c t m" using assms(2) by (simp add: known_def)
  then have "deliveries_ok c now (next_deliveries c now op m)"
    using step_release live_ok [of c t m now] deliveries_ok_filter [of c now _ now] by (simp add: ddel_def)
  from known_set [OF assms(2) step_release(2) d(1) this] d step_release show ?thesis by simp
qed

lemma intake_step_time: "intake_step c tf op tf' \<Longrightarrow> fst tf \<le> fst tf'"
  by (erule intake_step.cases) (auto elim: router_stepE)

lemma intake_steps_time: "intake_steps c tf ops tf' \<Longrightarrow> fst tf \<le> fst tf'"
  by (induction rule: intake_steps.induct) (auto dest: intake_step_time)

text \<open>
  What holds of the deliveries during a run: a property of the operations that are left and of the
  map, kept by every step before the end of the run.
\<close>

lemma intake_steps_keep:
  assumes "intake_steps c tf ops tf'" and "cfg_ok c" and "known c (fst tf) (snd tf) m" and "P ops m"
    and step: "\<And>op ops t now m. P (op # ops) m \<Longrightarrow> t \<le> now \<Longrightarrow> now \<le> fst tf' \<Longrightarrow> deliveries_ok c t m \<Longrightarrow>
       P ops (next_deliveries c now op m)"
  shows "\<exists>m'. known c (fst tf') (snd tf') m' \<and> P [] m'"
  using assms
proof (induction arbitrary: m rule: intake_steps.induct)
  case (intake_none c tf)
  then show ?case by blast
next
  case (intake_more c tf op tf' ops tf'')
  have k: "known c (fst tf') (snd tf') (next_deliveries c (fst tf') op m)" "fst tf \<le> fst tf'"
    using intake_step_known [of c "fst tf" "snd tf" m op "fst tf'" "snd tf'"] intake_more by simp_all
  have ok: "deliveries_ok c (fst tf) m" using intake_more.prems(2) by (simp add: known_def)
  have "P ops (next_deliveries c (fst tf') op m)"
    using intake_more.prems(4) [OF intake_more.prems(3) k(2) intake_steps_time [OF intake_more.hyps(2)] ok] .
  with intake_more.IH [OF intake_more.prems(1) k(1)] intake_more.prems(4) show ?case by blast
qed

lemma known_missing: "cfg_ok c \<Longrightarrow> 0 < t \<Longrightarrow> known c t FMissing []"
  using holds_wf_empty [of c t]
  by (auto simp: known_def deliveries_ok_def cfg_ok_def intro!: exI [of _ empty_qstate])
    (simp add: empty_qstate_def)

lemma missing_intake_file: "0 < t \<Longrightarrow> intake_file c t FMissing"
  unfolding intake_file_def by (intro exI [of _ t] exI [of _ "[]"]) (simp add: intake_none)

lemma intake_file_known:
  assumes "cfg_ok c" and "intake_file c t f"
  obtains m where "known c t f m"
proof -
  from assms(2) obtain t0 ops where "0 < t0" "intake_steps c (t0, FMissing) ops (t, f)"
    by (auto simp: intake_file_def)
  with intake_steps_keep [OF this(2) assms(1), of "[]" "\<lambda>_ _. True"] known_missing [OF assms(1)] that
  show thesis by auto
qed

text \<open>The queue guarantees hold among deliveries: they are the other writes of a router run.\<close>

lemma delivery_step_other:
  assumes "cfg_ok c" and "known c t f m" and "intake_step c (t, f) op (now, f')" and "\<And>op'. op \<noteq> QueueOp op'"
  shows "\<exists>d v. load_state f = Inr d \<and> json_wf v \<and> f' = write_state (dset ''delivery_dedupe'' v d)"
proof -
  have ok: "deliveries_ok c t m" using assms(2) by (simp add: known_def)
  note rec = known_recorded [OF assms(1,2)]
  have "deliveries_ok c now (next_deliveries c now op m)"
    using intake_step_known [OF assms(1-3)] by (simp add: known_def)
  then have wf: "json_wf (delivery_dict (next_deliveries c now op m))"
    by (intro json_wf_delivery_dict) (simp add: deliveries_ok_def)
  from assms(3) show ?thesis
  proof (cases rule: intake_step.cases)
    case (step_deliver i r)
    with claim_delivery_recorded [OF assms(1) rec step_deliver(2,3)] wf show ?thesis
      by (auto simp: set_deliveries_def split: if_splits)
  next
    case (step_release i r)
    with release_delivery_recorded [OF rec step_release(2), of i] wf show ?thesis
      by (auto simp: set_deliveries_def)
  qed (use assms(4) in blast)
qed

lemma intake_router_steps:
  assumes "intake_steps c tf ops tf'" and "cfg_ok c" and "known c (fst tf) (snd tf) m"
  shows "\<exists>qops. router_steps c tf qops tf' \<and> set qops = {op. QueueOp op \<in> set ops}"
  using assms
proof (induction arbitrary: m rule: intake_steps.induct)
  case (intake_none c tf)
  show ?case by (rule exI [of _ "[]"]) (auto intro: router_steps.intros)
next
  case (intake_more c tf op tf' ops tf'')
  obtain t f now f' where tf: "tf = (t, f)" "tf' = (now, f')" by fastforce
  have k: "known c now f' (next_deliveries c now op m)" "t \<le> now"
    using intake_step_known [of c t f m op now f'] intake_more tf by simp_all
  from intake_more.IH [of "next_deliveries c now op m"] intake_more.prems k tf obtain qops where
    q: "router_steps c (now, f') qops tf''" "set qops = {op. QueueOp op \<in> set ops}" by auto
  show ?case
  proof (cases op)
    case (QueueOp op')
    with intake_more.hyps(1) tf obtain r where "router_step c (t, f) op' r (now, f')"
      by (auto elim: intake_step.cases)
    with q tf QueueOp show ?thesis by (intro exI [of _ "op' # qops"]) (auto intro: steps_more)
  qed (use delivery_step_other [of c t f m op now f'] intake_more q tf k delivery_key(2) in
    \<open>auto intro!: exI [of _ qops] intro: steps_other\<close>)
qed

section \<open>Replays, retries and expiry\<close>

fun is_claim :: "intake_op \<Rightarrow> bool" where
  "is_claim (ClaimDelivery _) = True"
| "is_claim _ = False"

text \<open>
  The delivery is in the map, lives until the given time, and fewer claims can still come than it
  takes to evict it.
\<close>

definition remembered :: "router_cfg \<Rightarrow> string \<Rightarrow> int \<Rightarrow> intake_op list \<Rightarrow> deliveries \<Rightarrow> bool" where
  "remembered c i until ops m \<longleftrightarrow> ReleaseDelivery i \<notin> set ops \<and> (\<exists>a e b. m = a @ (i, e) # b \<and>
     until \<le> d_expires_at e \<and>
     int (length b + length (filter is_claim ops)) < DELIVERY_MAX_ENTRIES c)"

lemma last_n_suffix:
  assumes "int (length b) < n"
  shows "\<exists>a'. last_n n (a @ x # b) = a' @ x # b"
proof -
  have "length (a @ x # b) - nat n \<le> length a" using assms by simp
  then show ?thesis by (simp add: last_n_def)
qed

lemma live_split: "live_deliveries now (a @ (i, e) # b) =
    live_deliveries now a @ (if now < d_expires_at e then [(i, e)] else []) @ live_deliveries now b"
  by (simp add: live_deliveries_def)

lemma length_live: "length (live_deliveries now m) \<le> length m"
  by (simp add: live_deliveries_def)

lemma remembered_next:
  assumes "remembered c i until (op # ops) m" and "now < until"
  shows "remembered c i until ops (next_deliveries c now op m)"
proof -
  from assms(1) obtain a e b where m: "m = a @ (i, e) # b" "until \<le> d_expires_at e"
    and n: "int (length b + length (filter is_claim (op # ops))) < DELIVERY_MAX_ENTRIES c"
    and rel: "ReleaseDelivery i \<notin> set (op # ops)" by (auto simp: remembered_def)
  have live: "live_deliveries now m = live_deliveries now a @ (i, e) # live_deliveries now b"
    using m assms(2) by (simp add: live_split)
  note len = length_live [of now b]
  show ?thesis
  proof (cases op)
    case (QueueOp q)
    with assms(1) show ?thesis by (auto simp: remembered_def)
  next
    case (ReleaseDelivery j)
    with rel have "j \<noteq> i" by auto
    then have "ddel j (live_deliveries now m) = ddel j (live_deliveries now a) @ (i, e) # ddel j (live_deliveries now b)"
      by (simp add: live ddel_def)
    with ReleaseDelivery m n rel len length_ddel [of j "live_deliveries now b"] show ?thesis
      by (fastforce simp: remembered_def)
  next
    case (ClaimDelivery j)
    show ?thesis
    proof (cases "j \<in> set (keys_of (live_deliveries now m))")
      case True
      with ClaimDelivery m n rel len live show ?thesis by (fastforce simp: remembered_def)
    next
      case False
      let ?new = "(j, \<lparr>d_created_at = now, d_expires_at = now + DELIVERY_TTL_SECONDS c\<rparr>)"
      have "int (length (live_deliveries now b @ [?new])) < DELIVERY_MAX_ENTRIES c"
        using ClaimDelivery n len by simp
      from last_n_suffix [OF this, of "live_deliveries now a" "(i, e)"] obtain a' where
        "add_delivery c now j m = a' @ (i, e) # live_deliveries now b @ [?new]"
        by (auto simp: add_delivery_def live)
      with ClaimDelivery False m n rel len show ?thesis by (fastforce simp: remembered_def)
    qed
  qed
qed

definition forgotten :: "string \<Rightarrow> int \<Rightarrow> intake_op list \<Rightarrow> deliveries \<Rightarrow> bool" where
  "forgotten i from_time ops m \<longleftrightarrow> ClaimDelivery i \<notin> set ops \<and>
     (\<forall>e. (i, e) \<in> set m \<longrightarrow> d_expires_at e \<le> from_time)"

lemma set_live: "set (live_deliveries now m) \<subseteq> set m"
  by (auto simp: live_deliveries_def)

lemma set_add_delivery: "set (add_delivery c now j m) \<subseteq>
    insert (j, \<lparr>d_created_at = now, d_expires_at = now + DELIVERY_TTL_SECONDS c\<rparr>) (set m)"
  using set_last_n [of "DELIVERY_MAX_ENTRIES c"] set_live [of now m] by (fastforce simp: add_delivery_def)

lemma forgotten_next:
  assumes "forgotten i from_time (op # ops) m"
  shows "forgotten i from_time ops (next_deliveries c now op m)"
proof (cases op)
  case (ClaimDelivery j)
  with assms have "j \<noteq> i" by (auto simp: forgotten_def)
  with assms ClaimDelivery set_add_delivery [of c now j m] set_live [of now m] show ?thesis
    by (auto simp: forgotten_def)
qed (use assms set_live [of now m] in \<open>auto simp: forgotten_def set_ddel\<close>)

lemma claim_delivery_known:
  assumes "cfg_ok c" and "known c t f m" and "t \<le> now" and "delivery_id_re i"
  shows "fst (claim_delivery c now i f) =
    (if i \<in> set (keys_of (live_deliveries now m)) then Inr (''duplicate'', True) else Inr (''fresh'', False))"
  using claim_delivery_recorded [OF assms(1) known_recorded [OF assms(1,2)] assms(3,4)] by auto

text \<open>C32: a replayed delivery does nothing. After a delivery was accepted as fresh, the same delivery
  is answered as a duplicate for the whole time it is remembered, whatever other deliveries arrive
  and whatever the queue does in between, as long as the delivery is not released and fewer
  deliveries arrive than the map has room for.\<close>

theorem replay_suppressed:
  assumes "cfg_ok c" and "intake_file c t f" and "t \<le> t1" and "delivery_id_re i"
    and "claim_delivery c t1 i f = (Inr (''fresh'', False), f1)"
    and "intake_steps c (t1, f1) ops (t2, f2)" and "ReleaseDelivery i \<notin> set ops"
    and "int (length (filter is_claim ops)) < DELIVERY_MAX_ENTRIES c"
    and "t2 \<le> now" and "now < t1 + DELIVERY_TTL_SECONDS c"
  shows "fst (claim_delivery c now i f2) = Inr (''duplicate'', True)"
proof -
  obtain m where m: "known c t f m" by (rule intake_file_known [OF assms(1,2)])
  have step: "intake_step c (t, f) (ClaimDelivery i) (t1, f1)" by (rule step_deliver [OF assms(3-5)])
  have fresh: "i \<notin> set (keys_of (live_deliveries t1 m))"
    using claim_delivery_known [OF assms(1) m assms(3,4)] assms(5) by (auto split: if_splits)
  have k1: "known c t1 f1 (add_delivery c t1 i m)"
    using intake_step_known [OF assms(1) m step] fresh by simp
  have "remembered c i (t1 + DELIVERY_TTL_SECONDS c) ops (add_delivery c t1 i m)"
  proof -
    have "0 < DELIVERY_MAX_ENTRIES c" using assms(1) by (simp add: cfg_ok_def)
    then obtain a' where "add_delivery c t1 i m = a' @ [(i, \<lparr>d_created_at = t1, d_expires_at = t1 + DELIVERY_TTL_SECONDS c\<rparr>)]"
      using last_n_suffix [of "[]" "DELIVERY_MAX_ENTRIES c"] by (fastforce simp: add_delivery_def)
    with assms(7,8) show ?thesis by (fastforce simp: remembered_def)
  qed
  then obtain m2 where m2: "known c t2 f2 m2" "remembered c i (t1 + DELIVERY_TTL_SECONDS c) [] m2"
    using intake_steps_keep [OF assms(6,1), of "add_delivery c t1 i m" "remembered c i (t1 + DELIVERY_TTL_SECONDS c)"]
      remembered_next k1 assms(9,10) by force
  have "i \<in> set (keys_of (live_deliveries now m2))"
    using m2(2) assms(10) by (auto simp: remembered_def live_split keys_of_def)
  with claim_delivery_known [OF assms(1) m2(1) assms(9,4)] show ?thesis by simp
qed

theorem replay_suppressed_witness:
  "fst (claim_delivery sample_cfg 100 ''d1''
     (snd (claim_delivery sample_cfg 20 ''d2'' (snd (claim_delivery sample_cfg 10 ''d1'' FMissing))))) =
   Inr (''duplicate'', True)"
proof -
  let ?f1 = "snd (claim_delivery sample_cfg 10 ''d1'' FMissing)"
  let ?f2 = "snd (claim_delivery sample_cfg 20 ''d2'' ?f1)"
  have re: "delivery_id_re ''d1''" "delivery_id_re ''d2''" by code_simp+
  have "fst (claim_delivery sample_cfg 10 ''d1'' FMissing) = Inr (''fresh'', False)" by code_simp
  then have first: "claim_delivery sample_cfg 10 ''d1'' FMissing = (Inr (''fresh'', False), ?f1)"
    by (simp add: prod_eq_iff)
  have "intake_step sample_cfg (10, ?f1) (ClaimDelivery ''d2'') (20, ?f2)"
    by (rule step_deliver [OF _ re(2), where r = "fst (claim_delivery sample_cfg 20 ''d2'' ?f1)"]) simp_all
  then have steps: "intake_steps sample_cfg (10, ?f1) [ClaimDelivery ''d2''] (20, ?f2)"
    by (blast intro: intake_more intake_none)
  have "intake_file sample_cfg 10 FMissing" by (rule missing_intake_file) simp
  from replay_suppressed [OF sample_cfg_ok this _ re(1) first steps, of 100] show ?thesis
    by (simp add: sample_cfg_def)
qed

text \<open>nothing is suppressed for ever. A delivery that was released because its work failed, or
  that has expired, is accepted as fresh when it comes again.\<close>

theorem released_or_expired_fresh:
  assumes "cfg_ok c" and "intake_file c t f" and "t \<le> t1" and "delivery_id_re i"
    and first: "release_delivery c t1 i f = (r, f1) \<or>
      claim_delivery c t1 i f = (Inr (''fresh'', False), f1) \<and> t1 + DELIVERY_TTL_SECONDS c \<le> now"
    and "intake_steps c (t1, f1) ops (t2, f2)" and "ClaimDelivery i \<notin> set ops" and "t2 \<le> now"
  shows "fst (claim_delivery c now i f2) = Inr (''fresh'', False)"
proof -
  obtain m where m: "known c t f m" by (rule intake_file_known [OF assms(1,2)])
  have "\<exists>m1. known c t1 f1 m1 \<and> forgotten i now ops m1"
    using first
  proof
    assume "release_delivery c t1 i f = (r, f1)"
    then have "intake_step c (t, f) (ReleaseDelivery i) (t1, f1)" by (rule step_release [OF assms(3)])
    from intake_step_known [OF assms(1) m this] assms(7) show ?thesis
      by (auto simp: forgotten_def set_ddel)
  next
    assume cl: "claim_delivery c t1 i f = (Inr (''fresh'', False), f1) \<and> t1 + DELIVERY_TTL_SECONDS c \<le> now"
    then have "intake_step c (t, f) (ClaimDelivery i) (t1, f1)" by (intro step_deliver assms) auto
    note k = intake_step_known [OF assms(1) m this]
    have fresh: "i \<notin> set (keys_of (live_deliveries t1 m))"
      using claim_delivery_known [OF assms(1) m assms(3,4)] cl by (auto split: if_splits)
    then have "(i, e) \<notin> set (live_deliveries t1 m)" for e by (auto dest: key_of_pair)
    then have "forgotten i now ops (add_delivery c t1 i m)"
      using set_last_n [of "DELIVERY_MAX_ENTRIES c"] cl assms(7)
      by (fastforce simp: forgotten_def add_delivery_def)
    with k fresh show ?thesis by auto
  qed
  then obtain m1 where m1: "known c t1 f1 m1" "forgotten i now ops m1" by blast
  obtain m2 where m2: "known c t2 f2 m2" "forgotten i now [] m2"
    using intake_steps_keep [OF assms(6,1), of m1 "forgotten i now"] forgotten_next m1 by force
  have "i \<notin> set (keys_of (live_deliveries now m2))"
    using m2(2) by (force simp: forgotten_def live_deliveries_def keys_of_def)
  with claim_delivery_known [OF assms(1) m2(1) assms(8,4)] show ?thesis by simp
qed

theorem released_or_expired_fresh_witness:
  "fst (claim_delivery sample_cfg 30 ''d1''
     (snd (release_delivery sample_cfg 20 ''d1'' (snd (claim_delivery sample_cfg 10 ''d1'' FMissing))))) =
   Inr (''fresh'', False)"
proof -
  let ?f1 = "snd (claim_delivery sample_cfg 10 ''d1'' FMissing)"
  let ?r = "release_delivery sample_cfg 20 ''d1'' ?f1"
  have re: "delivery_id_re ''d1''" by code_simp
  have "intake_step sample_cfg (10, FMissing) (ClaimDelivery ''d1'') (10, ?f1)"
    by (rule step_deliver [OF _ re, where r = "fst (claim_delivery sample_cfg 10 ''d1'' FMissing)"]) simp_all
  then have "intake_file sample_cfg 10 ?f1"
    unfolding intake_file_def by (intro exI [of _ 10] exI [of _ "[ClaimDelivery ''d1'']"])
      (auto intro: intake_more intake_none)
  from released_or_expired_fresh [OF sample_cfg_ok this _ re, of 20 "fst ?r" "snd ?r" 30 "[]" 20]
  show ?thesis by (auto intro: intake_none)
qed

end
