(* ===== verification/GitHubHttp.thy ===== *)
theory GitHubHttp
  imports PyBase
begin

text \<open>
  What the programs exchange with services over HTTP. A service is a function from the calls made
  so far and the next call to its answer, so any stateful behaviour of GitHub, the lease
  controller and n8n can be plugged in; the text of an answer is read by a given JSON parser.
  Then the two GitHub clients (github-router/router.py and scripts/repository_registry.py) with
  their retry loops, and the discovery of repositories.
\<close>

section \<open>Calls and answers\<close>

datatype call =
    GitHubCall string string "json option"
  | LeaseCall string
  | EdgeCall json

text \<open>
  An answer: a status with the bytes of the body, an HTTP error status, a failure of the transport
  (an \<open>OSError\<close> such as \<open>URLError\<close> or \<open>TimeoutError\<close>, by type name), a
  \<open>ValueError\<close>, or another exception.
\<close>

datatype http_result =
    Response int string
  | HttpStatus int
  | NetOS string
  | NetValue
  | NetOther string

record net =
  respond :: "call list \<Rightarrow> call \<Rightarrow> http_result"
  parse_json :: "string \<Rightarrow> json option"

definition send :: "net \<Rightarrow> call \<Rightarrow> call list \<Rightarrow> http_result \<times> call list" where
  "send n x calls = (respond n calls x, calls @ [x])"

text \<open>\<open>json.loads(raw, object_pairs_hook=_reject_duplicate_pairs)\<close>; none is a \<open>ValueError\<close>.\<close>

definition loads :: "net \<Rightarrow> string \<Rightarrow> json option" where
  "loads n raw = (case parse_json n raw of None \<Rightarrow> None | Some t \<Rightarrow> json_loads t)"

text \<open>\<open>urllib.parse.quote(s, safe=safe)\<close> and \<open>quote_plus\<close> on the UTF-8 bytes.\<close>

definition hex_upper :: "nat \<Rightarrow> char" where
  "hex_upper n = (if n < 10 then char_of (48 + n) else char_of (55 + n))"

definition percent :: "nat \<Rightarrow> string" where
  "percent n = [CHR ''%'', hex_upper (n div 16), hex_upper (n mod 16)]"

definition quote_char :: "string \<Rightarrow> char \<Rightarrow> string" where
  "quote_char safe c = (let n = code c in
     if is_alnum c \<or> c \<in> {CHR ''_'', CHR ''.'', CHR ''-'', CHR ''~''} \<or> c \<in> set safe then [c]
     else if n < 128 then percent n
     else percent (192 + n div 64) @ percent (128 + n mod 64))"

definition py_quote :: "string \<Rightarrow> string \<Rightarrow> string" where
  "py_quote safe s = concat (map (quote_char safe) s)"

definition quote_plus :: "string \<Rightarrow> string" where
  "quote_plus s = concat (map (\<lambda>c. if c = CHR '' '' then ''+'' else quote_char [] c) s)"

definition urlencode :: "(string \<times> string) list \<Rightarrow> string" where
  "urlencode ps = join_with ''&'' (map (\<lambda>(k, v). quote_plus k @ ''='' @ quote_plus v) ps)"

definition rstrip_slash :: "string \<Rightarrow> string" where
  "rstrip_slash s = rev (dropWhile (\<lambda>c. c = CHR ''/'') (rev s))"

section \<open>The router's GitHub client\<close>

definition MAX_RESPONSE :: int where
  "MAX_RESPONSE = 4194304"

definition github_path :: "string \<Rightarrow> string \<Rightarrow> string" where
  "github_path repository tail =
     ''/repos/'' @ py_quote [] (before_char CHR ''/'' repository) @ ''/'' @
     py_quote [] (after_char CHR ''/'' repository) @ tail"

definition api_error :: "string \<Rightarrow> string \<Rightarrow> string \<Rightarrow> exn" where
  "api_error method path what = RouterError (''GitHub API '' @ method @ '' '' @ path @ what)"

definition read_github_body :: "net \<Rightarrow> string \<Rightarrow> string \<Rightarrow> string \<Rightarrow> json res" where
  "read_github_body n method path raw =
     (if int (length raw) > MAX_RESPONSE then Inl (RouterError ''GitHub API response is too large'')
      else if raw = [] then Inr JNull
      else case loads n raw of None \<Rightarrow> Inl (api_error method path '' returned invalid JSON'')
        | Some v \<Rightarrow> Inr v)"

text \<open>The loop over the attempts that are left; \<open>attempt\<close> counts from zero.\<close>

fun github_attempts ::
  "net \<Rightarrow> string \<Rightarrow> string \<Rightarrow> json option \<Rightarrow> nat \<Rightarrow> nat \<Rightarrow> call list \<Rightarrow> json res \<times> call list" where
  "github_attempts n method path payload 0 attempt calls =
     (Inl (api_error method path '' retry exhausted''), calls)"
| "github_attempts n method path payload (Suc left) attempt calls =
     (let get = (method = ''GET'');
          (r, calls) = send n (GitHubCall method path payload) calls
      in case r of
        Response status raw \<Rightarrow> (read_github_body n method path raw, calls)
      | HttpStatus status_code \<Rightarrow>
          if get \<and> 500 \<le> status_code \<and> status_code < 600 \<and> attempt = 0
          then github_attempts n method path payload left (attempt + 1) calls
          else if get \<and> 500 \<le> status_code \<and> status_code < 600
          then (Inl (api_error method path '' retry exhausted''), calls)
          else (Inl (api_error method path ('' returned HTTP '' @ int_str status_code)), calls)
      | NetOS name \<Rightarrow>
          if get \<and> attempt = 0 then github_attempts n method path payload left (attempt + 1) calls
          else if get then (Inl (api_error method path '' retry exhausted''), calls)
          else (Inl (api_error method path ('' failed: '' @ name)), calls)
      | NetValue \<Rightarrow> (Inl (api_error method path '' returned invalid JSON''), calls)
      | NetOther name \<Rightarrow> (Inl (PyError name), calls))"

definition github_request ::
  "net \<Rightarrow> string \<Rightarrow> string \<Rightarrow> json option \<Rightarrow> call list \<Rightarrow> json res \<times> call list" where
  "github_request n method path payload calls =
     github_attempts n method path payload (if method = ''GET'' then 2 else 1) 0 calls"

section \<open>The registry's GitHub client\<close>

definition registry_body :: "net \<Rightarrow> string \<Rightarrow> json res" where
  "registry_body n raw =
     (if int (length raw) > MAX_RESPONSE then Inl (RegistryError ''GitHub API response exceeded size limit'')
      else case loads n raw of None \<Rightarrow> Inl (RegistryError ''GitHub API returned invalid JSON'')
        | Some v \<Rightarrow> Inr v)"

fun registry_attempts ::
  "net \<Rightarrow> string \<Rightarrow> bool \<Rightarrow> nat \<Rightarrow> nat \<Rightarrow> string \<Rightarrow> call list \<Rightarrow> json res \<times> call list" where
  "registry_attempts n path allow_not_found 0 attempt error_type calls =
     (Inl (RegistryError (''GitHub API request failed: '' @ error_type)), calls)"
| "registry_attempts n path allow_not_found (Suc left) attempt error_type calls =
     (let (r, calls) = send n (GitHubCall ''GET'' path None) calls
      in case r of
        Response status raw \<Rightarrow> (registry_body n raw, calls)
      | HttpStatus status_code \<Rightarrow>
          if allow_not_found \<and> status_code = 404 then (Inr JNull, calls)
          else if 500 \<le> status_code \<and> status_code \<le> 599 \<and> attempt = 0
          then registry_attempts n path allow_not_found left (attempt + 1) error_type calls
          else if 500 \<le> status_code \<and> status_code \<le> 599
          then (Inl (RegistryError (''GitHub API HTTP '' @ int_str status_code @ '': retry_exhausted'')), calls)
          else (Inl (RegistryError (''GitHub API HTTP '' @ int_str status_code)), calls)
      | NetOS name \<Rightarrow>
          if attempt = 0 then registry_attempts n path allow_not_found left (attempt + 1) name calls
          else (Inl (RegistryError (''GitHub API request failed: '' @ name)), calls)
      | NetValue \<Rightarrow> (Inl (RegistryError ''GitHub API returned invalid JSON''), calls)
      | NetOther name \<Rightarrow> (Inl (PyError name), calls))"

definition github_json ::
  "net \<Rightarrow> string \<Rightarrow> (string \<times> string) list \<Rightarrow> bool \<Rightarrow> call list \<Rightarrow> json res \<times> call list" where
  "github_json n path params allow_not_found calls =
     registry_attempts n (path @ (if params = [] then [] else ''?'' @ urlencode params))
       allow_not_found 2 0 ''unknown'' calls"

text \<open>A request is sent once, a \<open>GET\<close> at most twice, and nothing else is sent.\<close>

definition sent :: "call \<Rightarrow> nat \<Rightarrow> nat \<Rightarrow> call list \<Rightarrow> call list \<Rightarrow> bool" where
  "sent x lo hi calls calls' \<longleftrightarrow> (\<exists>k. lo \<le> k \<and> k \<le> hi \<and> calls' = calls @ replicate k x)"

lemma sent_none: "sent x 0 hi calls calls"
  by (auto simp: sent_def intro: exI [of _ 0])

lemma sent_one: "lo \<le> 1 \<Longrightarrow> sent x lo (Suc hi) calls (calls @ [x])"
  by (auto simp: sent_def intro: exI [of _ 1])

lemma sent_more: "sent x lo hi (calls @ [x]) calls' \<Longrightarrow> sent x (Suc 0) (Suc hi) calls calls'"
  unfolding sent_def by (elim exE conjE, rule_tac x = "Suc k" in exI) simp

lemma sent_weaken: "sent x lo hi calls calls' \<Longrightarrow> lo' \<le> lo \<Longrightarrow> sent x lo' hi calls calls'"
  unfolding sent_def by (elim exE conjE, rule_tac x = k in exI) simp

lemma github_attempts_calls:
  "sent (GitHubCall method path payload) 0 left calls
     (snd (github_attempts n method path payload left attempt calls))"
proof (induction left arbitrary: attempt calls)
  case (Suc left)
  have "sent (GitHubCall method path payload) 0 (Suc left) calls
     (snd (github_attempts n method path payload left (attempt + 1) (calls @ [GitHubCall method path payload])))"
    using sent_weaken [OF sent_more [OF Suc.IH]] by simp
  then show ?case
    by (auto simp: send_def Let_def sent_one split: http_result.splits)
qed (simp add: sent_none)

lemma github_request_calls:
  "sent (GitHubCall method path payload) 0 (if method = ''GET'' then 2 else 1) calls
     (snd (github_request n method path payload calls))"
  unfolding github_request_def by (rule github_attempts_calls)

lemma registry_attempts_calls:
  "sent (GitHubCall ''GET'' path None) 0 left calls
     (snd (registry_attempts n path nf left attempt e calls))"
proof (induction left arbitrary: attempt e calls)
  case (Suc left)
  have "sent (GitHubCall ''GET'' path None) 0 (Suc left) calls
     (snd (registry_attempts n path nf left (attempt + 1) e (calls @ [GitHubCall ''GET'' path None])))" for e
    using sent_weaken [OF sent_more [OF Suc.IH]] by simp
  then show ?case
    by (auto simp: send_def Let_def sent_one split: http_result.splits)
qed (simp add: sent_none)

text \<open>A write that is answered is done by one call, and its failure is a router error.\<close>

lemma github_request_write:
  "method \<noteq> ''GET'' \<Longrightarrow> snd (github_request n method path payload calls) = calls @ [GitHubCall method path payload]"
  by (auto simp: github_request_def send_def Let_def split: http_result.splits)

end
