(* ===== verification/RouterWeb.thy ===== *)
theory RouterWeb
  imports RouterDelivery GitHubHttp
begin

text \<open>
  The router's surroundings and what it does with them (automation/n8n/github-router/router.py):
  secrets and authorization, the checks on configured URLs, the calls to the lease controller
  and to n8n, and the webhooks it keeps on the managed repositories.
\<close>

section \<open>The world of a request\<close>

text \<open>
  Each lock section of a request reads the clock once and sees the file that other threads left
  since the last one: \<open>others\<close> gives, for the number of the section, what they did. Answers of
  services depend on the calls made so far. \<open>w_hint\<close> is the completion hint of the thread
  (\<open>_HINT.completion_comment\<close> of router\_entrypoint.py); \<open>w_deadline\<close>,
  \<open>w_generation\<close> and \<open>w_timers\<close> are its delayed wake: the deadline, its generation, and the
  timer threads that are asleep. A secret file is missing, not UTF-8, or text.
\<close>

datatype secret_file = SecretMissing | SecretNotUtf8 | SecretText string

record parsed_url =
  u_scheme :: string
  u_netloc :: string
  u_path :: string
  u_query :: string
  u_fragment :: string
  u_username :: "string option"
  u_password :: "string option"
  u_hostname :: "string option"
  u_port :: "int option option"

record web =
  w_net :: net
  url_parse :: "string \<Rightarrow> parsed_url option"
  PUBLIC_URL :: string
  LEASE_BASE_URL :: string
  N8N_EDGE_SYNC_URL :: string
  GITHUB_TOPIC :: string
  github_token_file :: secret_file
  webhook_secret_file :: secret_file
  intake_token_file :: secret_file
  hmac_hex :: "string \<Rightarrow> string \<Rightarrow> string"
  clock :: "nat \<Rightarrow> int"
  others :: "nat \<Rightarrow> state_file \<Rightarrow> state_file"
  uuid :: "nat \<Rightarrow> string"
  recovery_token :: "nat \<Rightarrow> string \<Rightarrow> string"

record world =
  w_file :: state_file
  w_calls :: "call list"
  w_step :: nat
  w_pauses :: "string list"
  w_hint :: bool
  w_deadline :: "int option"
  w_generation :: nat
  w_timers :: "(int \<times> nat) list"

type_synonym 'a result = "'a res \<times> world"

definition and_then :: "'a res \<times> 'w \<Rightarrow> ('a \<Rightarrow> 'w \<Rightarrow> 'b res \<times> 'w) \<Rightarrow> 'b res \<times> 'w" where
  "and_then m k = (case m of (Inl e, w) \<Rightarrow> (Inl e, w) | (Inr x, w) \<Rightarrow> k x w)"

lemma and_then_result: "and_then m k = (Inr y, c') \<Longrightarrow> \<exists>x c. m = (Inr x, c) \<and> k x c = (Inr y, c')"
  by (cases m; cases "fst m") (auto simp: and_then_def split: sum.splits)

definition on_router_error :: "'a res \<times> 'w \<Rightarrow> (string \<Rightarrow> 'w \<Rightarrow> 'a res \<times> 'w) \<Rightarrow> 'a res \<times> 'w" where
  "on_router_error m h = (case m of (Inl (RouterError s), w) \<Rightarrow> h s w | _ \<Rightarrow> m)"

definition locked :: "web \<Rightarrow> (nat \<Rightarrow> int \<Rightarrow> state_file \<Rightarrow> 'a op_result) \<Rightarrow> world \<Rightarrow> 'a result" where
  "locked e op w = (let n = w_step w; (r, f) = op n (clock e n) (others e n (w_file w))
     in (r, w\<lparr>w_file := f, w_step := Suc n\<rparr>))"

definition calling :: "(call list \<Rightarrow> 'a \<times> call list) \<Rightarrow> world \<Rightarrow> 'a \<times> world" where
  "calling op w = (let (r, calls) = op (w_calls w) in (r, w\<lparr>w_calls := calls\<rparr>))"

lemma and_then_simps [simp]:
  "and_then (Inl e, w) k = (Inl e, w)" "and_then (Inr x, w) k = k x w"
  by (simp_all add: and_then_def)

lemma on_router_error_simps [simp]:
  "on_router_error (Inl (RouterError s), w) h = h s w" "on_router_error (Inr x, w) h = (Inr x, w)"
  by (simp_all add: on_router_error_def)

section \<open>Secrets and authorization\<close>

definition read_secret :: "secret_file \<Rightarrow> string \<Rightarrow> string res" where
  "read_secret file label = (case file of
      SecretMissing \<Rightarrow> Inl (RouterError (label @ '' is unavailable''))
    | SecretNotUtf8 \<Rightarrow> Inl (PyError ''UnicodeDecodeError'')
    | SecretText text \<Rightarrow> let value = py_strip text in
        if value = [] then Inl (RouterError (label @ '' is empty'')) else Inr value)"

text \<open>A router error of the secret refuses; another exception is raised.\<close>

definition service_authorized :: "web \<Rightarrow> string \<Rightarrow> bool res" where
  "service_authorized e header = (case read_secret (intake_token_file e) ''intake control token'' of
      Inl (RouterError m) \<Rightarrow> Inr False
    | Inl x \<Rightarrow> Inl x
    | Inr token \<Rightarrow> Inr (header \<noteq> [] \<and> header = ''Bearer '' @ token))"

definition github_signature_valid :: "web \<Rightarrow> string \<Rightarrow> string \<Rightarrow> bool res" where
  "github_signature_valid e body signature =
     (case read_secret (webhook_secret_file e) ''GitHub webhook secret'' of
        Inl (RouterError m) \<Rightarrow> Inr False
      | Inl x \<Rightarrow> Inl x
      | Inr secret \<Rightarrow> Inr (signature \<noteq> [] \<and>
          filter (\<lambda>c. code c < 128) signature = ''sha256='' @ hmac_hex e secret body))"

section \<open>Configured URLs\<close>

definition given :: "string option \<Rightarrow> bool" where
  "given x \<longleftrightarrow> (case x of Some s \<Rightarrow> s \<noteq> [] | None \<Rightarrow> False)"

definition bare_url :: "parsed_url \<Rightarrow> bool" where
  "bare_url u \<longleftrightarrow> \<not> given (u_username u) \<and> \<not> given (u_password u) \<and> u_query u = [] \<and> u_fragment u = []"

definition loopback :: "parsed_url \<Rightarrow> bool" where
  "loopback u \<longleftrightarrow> u_hostname u \<in> {Some ''127.0.0.1'', Some ''localhost'', Some ''::1''}"

definition bad_port :: "int option \<Rightarrow> bool" where
  "bad_port p \<longleftrightarrow> (case p of None \<Rightarrow> False | Some n \<Rightarrow> \<not> (1 \<le> n \<and> n \<le> 65535))"

definition validated_public_url :: "web \<Rightarrow> string res" where
  "validated_public_url e = (let url = py_strip (PUBLIC_URL e) in
     case url_parse e url of
       None \<Rightarrow> Inl (RouterError ''GITHUB_ROUTER_PUBLIC_URL is malformed'')
     | Some u \<Rightarrow>
         if u_scheme u \<noteq> ''https'' \<or> u_netloc u = [] \<or> \<not> given (u_hostname u) \<or> \<not> bare_url u
         then Inl (RouterError
           ''GITHUB_ROUTER_PUBLIC_URL must be an HTTPS URL without credentials/query/fragment'')
         else if rstrip_slash (u_path u) \<noteq> ''/github/hermes-intake''
         then Inl (RouterError ''GITHUB_ROUTER_PUBLIC_URL path must be /github/hermes-intake'')
         else Inr (rstrip_slash url))"

text \<open>Reading the port of the two loopback URLs raises \<open>ValueError\<close> when it is malformed.\<close>

definition validated_lease_base_url :: "web \<Rightarrow> string res" where
  "validated_lease_base_url e = (let url = py_strip (LEASE_BASE_URL e) in
     case url_parse e url of
       None \<Rightarrow> Inl (RouterError ''lease-controller URL is malformed'')
     | Some u \<Rightarrow> (case u_port u of
           None \<Rightarrow> Inl (RouterError ''lease-controller URL is malformed'')
         | Some port \<Rightarrow>
             if u_scheme u \<noteq> ''http'' \<or> \<not> loopback u \<or> \<not> bare_url u \<or> u_path u \<notin> {'''', ''/''}
             then Inl (RouterError ''lease-controller URL must be a loopback URL'')
             else if bad_port port then Inl (RouterError ''lease-controller URL has an invalid port'')
             else Inr (rstrip_slash url)))"

definition validated_n8n_edge_sync_url :: "web \<Rightarrow> string res" where
  "validated_n8n_edge_sync_url e = (let url = N8N_EDGE_SYNC_URL e in
     case url_parse e url of
       None \<Rightarrow> Inl (RouterError ''n8n edge-sync URL is malformed'')
     | Some u \<Rightarrow> (case u_port u of
           None \<Rightarrow> Inl (RouterError ''n8n edge-sync URL is malformed'')
         | Some port \<Rightarrow>
             if u_scheme u \<noteq> ''http'' \<or> u_netloc u = [] \<or> \<not> bare_url u \<or>
                u_path u \<noteq> ''/webhook/hermes-github-edge-sync'' \<or> \<not> loopback u
             then Inl (RouterError ''n8n edge-sync URL must be a loopback Webhook URL'')
             else if bad_port port then Inl (RouterError ''n8n edge-sync URL has an invalid port'')
             else Inr url))"

section \<open>The lease controller and n8n\<close>

definition EDGE_SYNC_MAX_RESPONSE :: int where
  "EDGE_SYNC_MAX_RESPONSE = 65536"

definition lease_body :: "net \<Rightarrow> string \<Rightarrow> dict res" where
  "lease_body n raw =
     (if int (length raw) > EDGE_SYNC_MAX_RESPONSE
      then Inl (RouterError ''lease-controller response is too large'')
      else case (if raw = [] then Some (JObj []) else loads n raw) of
        None \<Rightarrow> Inl (RouterError ''lease-controller response is invalid JSON'')
      | Some (JObj d) \<Rightarrow> Inr d
      | Some _ \<Rightarrow> Inl (RouterError ''lease-controller response is not an object''))"

definition lease_request :: "web \<Rightarrow> string \<Rightarrow> world \<Rightarrow> (int \<times> dict) result" where
  "lease_request e path w =
     (if path \<noteq> ''/trigger'' \<and> \<not> starts_with path ''/pause?lease=''
      then (Inl (RouterError ''lease-controller path is invalid''), w)
      else case validated_lease_base_url e of Inl x \<Rightarrow> (Inl x, w) | Inr base_url \<Rightarrow>
      (let (r, w) = calling (send (w_net e) (LeaseCall path)) w in
       case r of
         Response status raw \<Rightarrow> (case lease_body (w_net e) raw of
             Inl x \<Rightarrow> (Inl x, w) | Inr payload \<Rightarrow> (Inr (status, payload), w))
       | HttpStatus sc \<Rightarrow> (Inr (sc, []), w)
       | NetOS name \<Rightarrow> (Inl (RouterError (''lease-controller request failed: '' @ name)), w)
       | NetValue \<Rightarrow> (Inl (RouterError ''lease-controller request failed: ValueError''), w)
       | NetOther name \<Rightarrow> (Inl (PyError name), w)))"

definition edge_body :: "net \<Rightarrow> string \<Rightarrow> dict res" where
  "edge_body n raw =
     (if int (length raw) > EDGE_SYNC_MAX_RESPONSE
      then Inl (RouterError ''n8n edge-sync response is too large'')
      else if raw = [] then Inl (RouterError ''n8n edge-sync response is empty'')
      else case loads n raw of
        None \<Rightarrow> Inl (RouterError ''n8n edge-sync response is invalid JSON'')
      | Some (JObj d) \<Rightarrow> Inr d
      | Some _ \<Rightarrow> Inl (RouterError ''n8n edge-sync response is not an object''))"

definition n8n_edge_sync :: "web \<Rightarrow> dict \<Rightarrow> world \<Rightarrow> dict result" where
  "n8n_edge_sync e event w =
     (case validated_n8n_edge_sync_url e of Inl x \<Rightarrow> (Inl x, w) | Inr url \<Rightarrow>
      case read_secret (intake_token_file e) ''intake control token'' of Inl x \<Rightarrow> (Inl x, w) | Inr token \<Rightarrow>
      (let (r, w) = calling (send (w_net e) (EdgeCall (JObj event))) w in
       case r of
         Response status raw \<Rightarrow> (case edge_body (w_net e) raw of
             Inl x \<Rightarrow> (Inl x, w)
           | Inr body \<Rightarrow> (Inr [(''status'', JInt status), (''body'', JObj body)], w))
       | HttpStatus sc \<Rightarrow> (Inl (RouterError (''n8n edge-sync returned HTTP '' @ int_str sc)), w)
       | NetOS name \<Rightarrow> (Inl (RouterError (''n8n edge-sync request failed: '' @ name)), w)
       | NetValue \<Rightarrow> (Inl (PyError ''ValueError''), w)
       | NetOther name \<Rightarrow> (Inl (PyError name), w)))"

text \<open>
  Waking the agent: a trigger, then a thread that pauses the lease later; the threads started are
  recorded in \<open>w_pauses\<close>.
\<close>

definition wake :: "web \<Rightarrow> world \<Rightarrow> dict result" where
  "wake e w =
     (case read_secret (intake_token_file e) ''intake control token'' of Inl x \<Rightarrow> (Inl x, w) | Inr token \<Rightarrow>
      and_then (lease_request e ''/trigger'' w) (\<lambda>(status, payload) w.
        if \<not> (200 \<le> status \<and> status < 300)
        then (Inl (RouterError (''lease-controller trigger rejected with HTTP '' @ int_str status)), w)
        else case dget_py payload ''lease'' of
          JStr lease \<Rightarrow>
            if lease \<noteq> py_strip lease \<or> lease = []
            then (Inl (RouterError ''lease-controller trigger returned no lease''), w)
            else (Inr [(''lease'', JStr lease), (''upstream_status'', dget_py payload ''upstream_status'')],
                  w\<lparr>w_pauses := w_pauses w @ [lease]\<rparr>)
        | _ \<Rightarrow> (Inl (RouterError ''lease-controller trigger returned no lease''), w)))"

text \<open>The request of the delayed thread; its outcome is only printed.\<close>

definition delayed_pause :: "web \<Rightarrow> string \<Rightarrow> world \<Rightarrow> world" where
  "delayed_pause e lease w = snd (lease_request e (''/pause?lease='' @ py_quote [] lease) w)"

end
