(* ===== verification/RouterWebhooks.thy ===== *)
theory RouterWebhooks
  imports RouterWeb
begin

text \<open>
  Discovery of the managed repositories (scripts/repository_registry.py) and the reconciliation of
  their webhooks (github-router/router.py): one hook of the router on every current repository, none on
  those that left, and the list of managed repositories in the state file.
\<close>

section \<open>Discovery\<close>

definition MAX_PAGES :: nat where
  "MAX_PAGES = 20"

fun search_pages :: "net \<Rightarrow> string \<Rightarrow> nat \<Rightarrow> nat \<Rightarrow> dict list \<Rightarrow> call list \<Rightarrow> dict list res \<times> call list" where
  "search_pages n query page 0 found calls =
     (Inl (RegistryError (''repository search exceeded '' @ nat_digits MAX_PAGES @ '' pages'')), calls)"
| "search_pages n query page (Suc left) found calls =
     (let (r, calls) = github_json n ''/search/repositories''
            [(''q'', query), (''per_page'', ''100''), (''page'', nat_digits page),
             (''sort'', ''full_name''), (''order'', ''asc'')] False calls
      in case r of Inl x \<Rightarrow> (Inl x, calls) | Inr payload \<Rightarrow>
       (case payload of
          JObj d \<Rightarrow> (case dget_py d ''items'' of
              JArr raws \<Rightarrow> (let items = map obj_of (filter is_obj raws); found = found @ items
                in if length items < 100 then (Inr found, calls)
                   else search_pages n query (page + 1) left found calls)
            | _ \<Rightarrow> (Inl (RegistryError ''GitHub repository search returned an unexpected payload''), calls))
        | _ \<Rightarrow> (Inl (RegistryError ''GitHub repository search returned an unexpected payload''), calls)))"

definition owned_repository :: "string \<Rightarrow> string \<Rightarrow> dict \<Rightarrow> string option" where
  "owned_repository owner owner_type repo =
     (let owner_payload = (case dget_py repo ''owner'' of JObj d \<Rightarrow> d | _ \<Rightarrow> []) in
      case (json_str (dget_py repo ''full_name''), json_str (dget_py owner_payload ''login''),
            json_str (dget_py owner_payload ''type'')) of
        (Some full_name_value, Some repo_owner_value, Some repo_owner_type) \<Rightarrow>
          (let full_name = py_strip full_name_value; repo_owner = py_strip repo_owner_value in
           if \<not> repository_re full_name \<or> CHR ''/'' \<notin> set full_name \<or>
              casefold (before_char CHR ''/'' full_name) \<noteq> casefold owner \<or>
              casefold repo_owner \<noteq> casefold owner \<or>
              casefold repo_owner_type \<noteq> (if owner_type = ''organization'' then ''organization'' else ''user'')
           then None
           else if dget_py repo ''archived'' = JBool False \<and> dget_py repo ''disabled'' = JBool False
           then Some full_name else None)
      | _ \<Rightarrow> None)"

fun select_repositories :: "string \<Rightarrow> string \<Rightarrow> dict list \<Rightarrow> string list \<Rightarrow> dict list" where
  "select_repositories owner owner_type [] seen = []"
| "select_repositories owner owner_type (repo # rest) seen =
     (case owned_repository owner owner_type repo of
        None \<Rightarrow> select_repositories owner owner_type rest seen
      | Some full_name \<Rightarrow>
          if casefold full_name \<in> set seen then select_repositories owner owner_type rest seen
          else repo # select_repositories owner owner_type rest (casefold full_name # seen))"

definition full_name_of :: "dict \<Rightarrow> string" where
  "full_name_of repo = py_str (py_or (dget_py repo ''full_name'') (JStr ''''))"

definition search_query :: "string \<Rightarrow> string \<Rightarrow> string \<Rightarrow> string" where
  "search_query owner_type owner topic =
     (if owner_type = ''organization'' then ''org'' else ''user'') @ '':'' @ owner @ '' topic:'' @ topic"

definition discover_repositories ::
  "net \<Rightarrow> string \<Rightarrow> string \<Rightarrow> string \<Rightarrow> call list \<Rightarrow> dict list res \<times> call list" where
  "discover_repositories n raw_owner raw_topic raw_owner_type calls =
     (let owner = py_strip raw_owner; topic = py_lower (py_strip raw_topic);
          owner_type = casefold (py_strip raw_owner_type) in
      if owner = [] \<or> topic = []
      then (Inl (RegistryError ''owner and topic must be non-empty''), calls)
      else if owner_type \<notin> {''personal'', ''organization''}
      then (Inl (RegistryError ''owner_type must be personal or organization''), calls)
      else let (r, calls) = search_pages n (search_query owner_type owner topic) 1 MAX_PAGES [] calls
        in case r of Inl x \<Rightarrow> (Inl x, calls)
         | Inr found \<Rightarrow> (Inr (sort_key (\<lambda>item. casefold (full_name_of item))
             (select_repositories owner owner_type found [])), calls))"

definition repository_key :: "dict \<Rightarrow> string" where
  "repository_key repo = casefold (py_strip (full_name_of repo))"

lemma owned_repository_facts:
  assumes "owned_repository owner owner_type repo = Some name"
  shows "repository_re name \<and> casefold (before_char CHR ''/'' name) = casefold owner \<and>
    dget_py repo ''archived'' = JBool False \<and> dget_py repo ''disabled'' = JBool False \<and>
    repository_key repo = casefold name"
proof -
  from assms obtain raw where raw: "dget_py repo ''full_name'' = JStr raw" and name: "name = py_strip raw"
    and f: "repository_re name" "casefold (before_char CHR ''/'' name) = casefold owner"
      "dget_py repo ''archived'' = JBool False" "dget_py repo ''disabled'' = JBool False"
    by (cases "dget_py repo ''full_name''")
      (auto simp: owned_repository_def Let_def split: option.splits if_splits)
  have "full_name_of repo = raw"
    using raw by (auto simp: full_name_of_def py_or_def truthy_def py_str_def)
  with f name show ?thesis by (simp add: repository_key_def)
qed

lemma select_repositories_owned:
  "repo \<in> set (select_repositories owner owner_type found seen) \<Longrightarrow>
   \<exists>name. owned_repository owner owner_type repo = Some name \<and> casefold name \<notin> set seen"
proof (induction found arbitrary: seen)
  case (Cons r found)
  show ?case
  proof (cases "owned_repository owner owner_type r")
    case (Some name)
    with Cons.prems Cons.IH [of seen] Cons.IH [of "casefold name # seen"] show ?thesis
      by (cases "casefold name \<in> set seen") auto
  qed (use Cons in simp)
qed simp

lemma select_repositories_distinct:
  "distinct (map repository_key (select_repositories owner owner_type found seen))"
proof (induction found arbitrary: seen)
  case (Cons r found)
  show ?case
  proof (cases "owned_repository owner owner_type r")
    case (Some name)
    have "repository_key r \<noteq> repository_key repo"
      if "repo \<in> set (select_repositories owner owner_type found (casefold name # seen))" for repo
      using select_repositories_owned [OF that] owned_repository_facts Some by fastforce
    with Cons Some show ?thesis by auto
  qed (use Cons in simp)
qed simp

section \<open>Hooks\<close>

definition list_hooks :: "net \<Rightarrow> string \<Rightarrow> call list \<Rightarrow> dict list res \<times> call list" where
  "list_hooks n repository calls =
     (let (r, calls) = github_request n ''GET'' (github_path repository ''/hooks?per_page=100'') None calls
      in case r of Inl x \<Rightarrow> (Inl x, calls)
       | Inr (JArr hooks) \<Rightarrow> (Inr (map obj_of (filter is_obj hooks)), calls)
       | Inr _ \<Rightarrow> (Inl (RouterError (''GitHub hooks response is invalid for '' @ repository)), calls))"

definition hook_url :: "dict \<Rightarrow> string" where
  "hook_url hook = (case dget_py hook ''config'' of
     JObj config \<Rightarrow> rstrip_slash (py_str (py_or (dget_py config ''url'') (JStr '''')))
   | _ \<Rightarrow> [])"

text \<open>\<open>isinstance(x, int)\<close>, which holds of the Booleans too, and its value.\<close>

fun int_of_json :: "json \<Rightarrow> int option" where
  "int_of_json (JInt i) = Some i"
| "int_of_json (JBool b) = Some (if b then 1 else 0)"
| "int_of_json _ = None"

definition hook_id :: "dict \<Rightarrow> int option" where
  "hook_id hook = int_of_json (dget_py hook ''id'')"

definition hook_payload :: "string \<Rightarrow> string \<Rightarrow> dict" where
  "hook_payload public_url webhook_secret =
     [(''active'', JBool True),
      (''events'', JArr [JStr ''issues'', JStr ''issue_comment'', JStr ''pull_request'',
                         JStr ''pull_request_review'']),
      (''config'', JObj [(''url'', JStr public_url), (''content_type'', JStr ''json''),
                         (''secret'', JStr webhook_secret), (''insecure_ssl'', JStr ''0'')])]"

definition hook_path :: "string \<Rightarrow> string \<Rightarrow> string" where
  "hook_path repository hook = github_path repository (''/hooks/'' @ hook)"

fun delete_duplicates :: "net \<Rightarrow> string \<Rightarrow> int list \<Rightarrow> nat \<Rightarrow> call list \<Rightarrow> nat res \<times> call list" where
  "delete_duplicates n repository [] removed calls = (Inr removed, calls)"
| "delete_duplicates n repository (i # is) removed calls =
     (let (r, calls) = github_request n ''DELETE'' (hook_path repository (int_str i)) None calls
      in case r of Inl x \<Rightarrow> (Inl x, calls)
       | Inr _ \<Rightarrow> delete_duplicates n repository is (removed + 1) calls)"

definition matching_hooks :: "string \<Rightarrow> dict list \<Rightarrow> int list" where
  "matching_hooks public_url hooks =
     sort (List.map_filter (\<lambda>hook. if hook_url hook = public_url then hook_id hook else None) hooks)"

definition ensure_webhook ::
  "net \<Rightarrow> string \<Rightarrow> string \<Rightarrow> string \<Rightarrow> call list \<Rightarrow> (string \<times> nat) res \<times> call list" where
  "ensure_webhook n repository public_url webhook_secret calls =
     and_then (list_hooks n repository calls) (\<lambda>hooks calls.
       let payload = hook_payload public_url webhook_secret in
       case matching_hooks public_url hooks of
         keep # duplicates \<Rightarrow>
           and_then (github_request n ''PATCH'' (hook_path repository (int_str keep)) (Some (JObj payload)) calls)
             (\<lambda>_ calls. and_then (delete_duplicates n repository duplicates 0 calls)
               (\<lambda>removed calls. (Inr (''updated'', removed), calls)))
       | [] \<Rightarrow>
           and_then (github_request n ''POST'' (github_path repository ''/hooks'')
               (Some (JObj ((''name'', JStr ''web'') # payload))) calls)
             (\<lambda>_ calls. (Inr (''created'', 0), calls)))"

fun delete_matching :: "net \<Rightarrow> string \<Rightarrow> string \<Rightarrow> dict list \<Rightarrow> nat \<Rightarrow> call list \<Rightarrow> nat res \<times> call list" where
  "delete_matching n repository public_url [] removed calls = (Inr removed, calls)"
| "delete_matching n repository public_url (hook # hooks) removed calls =
     (if hook_url hook = public_url \<and> hook_id hook \<noteq> None then
        and_then (github_request n ''DELETE'' (hook_path repository (py_str (dget_py hook ''id''))) None calls)
          (\<lambda>_ calls. delete_matching n repository public_url hooks (removed + 1) calls)
      else delete_matching n repository public_url hooks removed calls)"

definition delete_router_webhooks ::
  "net \<Rightarrow> string \<Rightarrow> string \<Rightarrow> call list \<Rightarrow> nat res \<times> call list" where
  "delete_router_webhooks n repository public_url calls =
     and_then (list_hooks n repository calls)
       (\<lambda>hooks calls. delete_matching n repository public_url hooks 0 calls)"

section \<open>Reconciliation\<close>

text \<open>
  The set comprehensions are lists without repetition, in order of first occurrence; names that
  differ in case only keep that order in the sort.
\<close>

definition current_repositories :: "dict list \<Rightarrow> string list" where
  "current_repositories repositories =
     sort_key casefold (remdups (filter repository_re (map (\<lambda>r. py_strip (full_name_of r)) repositories)))"

definition previous_repositories :: "dict \<Rightarrow> string list res" where
  "previous_repositories state =
     (case py_iter (dget_or state ''managed_repositories'' (JArr [])) of
        Inl x \<Rightarrow> Inl x
      | Inr items \<Rightarrow> Inr (remdups (filter repository_re (map py_str items))))"

record hook_counts =
  created :: nat
  updated :: nat
  deleted :: nat

fun ensure_all :: "net \<Rightarrow> string \<Rightarrow> string \<Rightarrow> string list \<Rightarrow> hook_counts \<Rightarrow> call list \<Rightarrow> hook_counts res \<times> call list" where
  "ensure_all n public_url secret [] hc calls = (Inr hc, calls)"
| "ensure_all n public_url secret (repository # rest) hc calls =
     and_then (ensure_webhook n repository public_url secret calls) (\<lambda>(action, duplicate_deletes) calls.
       ensure_all n public_url secret rest
         \<lparr>created = created hc + (if action = ''created'' then 1 else 0),
          updated = updated hc + (if action = ''updated'' then 1 else 0),
          deleted = deleted hc + duplicate_deletes\<rparr> calls)"

fun delete_all :: "net \<Rightarrow> string \<Rightarrow> string list \<Rightarrow> string list \<Rightarrow> hook_counts \<Rightarrow> call list \<Rightarrow> hook_counts res \<times> call list" where
  "delete_all n public_url current_casefold [] hc calls = (Inr hc, calls)"
| "delete_all n public_url current_casefold (repository # rest) hc calls =
     (if casefold repository \<in> set current_casefold then delete_all n public_url current_casefold rest hc calls
      else and_then (delete_router_webhooks n repository public_url calls) (\<lambda>removed calls.
        delete_all n public_url current_casefold rest (hc\<lparr>deleted := deleted hc + removed\<rparr>) calls))"

definition read_previous :: "nat \<Rightarrow> int \<Rightarrow> state_file \<Rightarrow> string list op_result" where
  "read_previous _ now f = (case load_state f of Inl x \<Rightarrow> (Inl x, f)
     | Inr state \<Rightarrow> (previous_repositories state, f))"

definition write_managed :: "string list \<Rightarrow> nat \<Rightarrow> int \<Rightarrow> state_file \<Rightarrow> unit op_result" where
  "write_managed current _ now f = (case load_state f of Inl x \<Rightarrow> (Inl x, f)
     | Inr state \<Rightarrow> (Inr (), write_state (dset ''last_reconciled_at'' (JInt now)
         (dset ''managed_repositories'' (JArr (map JStr current)) state))))"

definition reconcile_webhooks :: "router_cfg \<Rightarrow> web \<Rightarrow> world \<Rightarrow> dict result" where
  "reconcile_webhooks c e w =
     (case read_secret (github_token_file e) ''GitHub token'' of Inl x \<Rightarrow> (Inl x, w) | Inr token \<Rightarrow>
      case read_secret (webhook_secret_file e) ''GitHub webhook secret'' of Inl x \<Rightarrow> (Inl x, w) | Inr secret \<Rightarrow>
      case validated_public_url e of Inl x \<Rightarrow> (Inl x, w) | Inr public_url \<Rightarrow>
      and_then (calling (discover_repositories (w_net e) (GITHUB_OWNER c) (GITHUB_TOPIC e)
          (if GITHUB_OWNER_TYPE c = ''personal'' then ''personal'' else GITHUB_OWNER_TYPE c)) w)
        (\<lambda>repositories w. let current = current_repositories repositories in
      and_then (locked e read_previous w) (\<lambda>previous w.
      and_then (calling (ensure_all (w_net e) public_url secret current \<lparr>created = 0, updated = 0, deleted = 0\<rparr>) w)
        (\<lambda>hc w.
      and_then (calling (delete_all (w_net e) public_url (map casefold current) (sort_key casefold previous) hc) w)
        (\<lambda>hc w.
      and_then (locked e (write_managed current) w) (\<lambda>_ w.
        (Inr [(''ok'', JBool True), (''managed'', JInt (int (length current))),
              (''created'', JInt (int (created hc))), (''updated'', JInt (int (updated hc))),
              (''deleted'', JInt (int (deleted hc)))], w)))))))"

end
