(* ===== verification/RouterEvents.thy ===== *)
theory RouterEvents
  imports RouterWebhooks
begin

text \<open>
  The ingress of the router (automation/n8n/github-router/router.py): what it reads from a GitHub
  payload, who is authorised to make it queue work, and the handler of a signed delivery.
\<close>

section \<open>Reading a payload\<close>

definition installation_id :: "dict \<Rightarrow> int option" where
  "installation_id payload = (case dget_py payload ''installation'' of
     JObj installation \<Rightarrow> (case parse_installation_id (dget_py installation ''id'') of
         None \<Rightarrow> None
       | Some i \<Rightarrow> (case dget installation ''node_id'' of
             None \<Rightarrow> Some i
           | Some (JStr node_id) \<Rightarrow> if node_id = [] \<or> node_id \<noteq> py_strip node_id then None else Some i
           | Some _ \<Rightarrow> None))
   | _ \<Rightarrow> None)"

definition configured_installation_matches :: "router_cfg \<Rightarrow> dict \<Rightarrow> bool" where
  "configured_installation_matches c payload \<longleftrightarrow>
     GITHUB_INSTALLATION_ID c \<noteq> None \<and> installation_id payload = GITHUB_INSTALLATION_ID c"

definition installation_account :: "dict \<Rightarrow> (string \<times> string) option" where
  "installation_account payload = (case dget_py payload ''installation'' of
     JObj installation \<Rightarrow> (case dget installation ''account'' of
         None \<Rightarrow> None
       | Some (JObj account) \<Rightarrow> (case (dget_py account ''login'', dget_py account ''type'') of
             (JStr login, JStr account_type) \<Rightarrow>
               if login \<noteq> py_strip login \<or> account_type \<noteq> py_strip account_type then Some ([], [])
               else Some (login, account_type)
           | _ \<Rightarrow> Some ([], []))
       | Some _ \<Rightarrow> Some ([], []))
   | _ \<Rightarrow> None)"

definition expected_account_type :: "router_cfg \<Rightarrow> string" where
  "expected_account_type c = (if GITHUB_OWNER_TYPE c = ''personal'' then ''User'' else ''Organization'')"

definition owner_scope_matches :: "router_cfg \<Rightarrow> dict \<Rightarrow> string list \<Rightarrow> bool" where
  "owner_scope_matches c payload repositories =
     (let configured_owner = casefold (GITHUB_OWNER c) in
      if configured_owner = [] \<or> GITHUB_OWNER_TYPE c \<notin> {''personal'', ''organization''} then False
      else if \<not> list_all (\<lambda>r. casefold (before_char CHR ''/'' r) = configured_owner) repositories then False
      else if \<not> dhas payload ''installation'' then True
      else if \<not> configured_installation_matches c payload then False
      else case installation_account payload of
        None \<Rightarrow> True
      | Some (account_login, account_type) \<Rightarrow>
          account_login \<noteq> [] \<and> account_type \<noteq> [] \<and> casefold account_login = configured_owner \<and>
          casefold account_type = casefold (expected_account_type c))"

definition installation_context_matches :: "router_cfg \<Rightarrow> dict \<Rightarrow> bool" where
  "installation_context_matches c payload =
     (if \<not> configured_installation_matches c payload then False
      else case installation_account payload of
        None \<Rightarrow> True
      | Some (account_login, account_type) \<Rightarrow>
          account_login \<noteq> [] \<and> casefold account_login = casefold (GITHUB_OWNER c) \<and>
          casefold account_type = casefold (expected_account_type c))"

definition has_app_installation_context :: "router_cfg \<Rightarrow> dict \<Rightarrow> bool" where
  "has_app_installation_context c payload =
     (if \<not> configured_installation_matches c payload then False
      else case installation_account payload of
        None \<Rightarrow> True
      | Some (account_login, account_type) \<Rightarrow>
          account_login \<noteq> [] \<and> casefold account_login = casefold (GITHUB_OWNER c) \<and>
          casefold account_type = casefold (expected_account_type c))"

definition repository_missing :: exn where
  "repository_missing = RouterError ''repository_missing''"

definition repository_from_event_item :: "json \<Rightarrow> string res" where
  "repository_from_event_item item = (case item of
     JObj d \<Rightarrow> (case dget_py d ''full_name'' of
         JStr repository \<Rightarrow>
           if repository \<noteq> py_strip repository \<or> \<not> repository_re repository
           then Inl repository_missing else Inr repository
       | _ \<Rightarrow> Inl repository_missing)
   | _ \<Rightarrow> Inl repository_missing)"

definition event_action :: "dict \<Rightarrow> string" where
  "event_action payload = casefold (py_strip (py_str (py_or (dget_py payload ''action'') (JStr ''''))))"

fun collect_repositories :: "json list \<Rightarrow> string list \<Rightarrow> string list res" where
  "collect_repositories [] repositories = Inr repositories"
| "collect_repositories (item # items) repositories =
     (case repository_from_event_item item of Inl x \<Rightarrow> Inl x
      | Inr repository \<Rightarrow>
          if casefold repository \<in> set (map casefold repositories)
          then collect_repositories items repositories
          else collect_repositories items (repositories @ [repository]))"

text \<open>A missing list counts as empty.\<close>

definition py_or_empty :: "json \<Rightarrow> json" where
  "py_or_empty v = (if v = JNull then JArr [] else v)"

definition event_items :: "string \<Rightarrow> dict \<Rightarrow> json" where
  "event_items event payload =
     (if event = ''installation'' then py_or_empty (dget_py payload ''repositories'')
      else if event = ''installation_repositories'' then
        (if event_action payload = ''removed'' then JArr []
         else py_or_empty (dget_py payload ''repositories_added''))
      else JArr [dget_py payload ''repository''])"

definition event_repositories :: "string \<Rightarrow> dict \<Rightarrow> string list res" where
  "event_repositories event payload = (case event_items event payload of
     JArr raw_items \<Rightarrow>
       if length raw_items > MAX_SCOPE_REPOSITORIES then Inl (RouterError ''repository_scope_too_large'')
       else collect_repositories raw_items []
   | _ \<Rightarrow> Inl repository_missing)"

definition pull_request_label :: "json \<Rightarrow> string option" where
  "pull_request_label label = (case label of
     JNull \<Rightarrow> Some []
   | JObj d \<Rightarrow> (case dget_py d ''name'' of
         JStr name \<Rightarrow> let label_name = py_strip name in
           if length label_name > 128 then None else Some label_name
       | _ \<Rightarrow> None)
   | _ \<Rightarrow> None)"

definition normalise_pull_request_event :: "dict \<Rightarrow> string \<Rightarrow> string \<Rightarrow> dict res" where
  "normalise_pull_request_event payload repository delivery_id =
     (case dget_py payload ''pull_request'' of
        JObj pull_request \<Rightarrow>
          (let action = (case dget_py payload ''action'' of JStr raw_action \<Rightarrow> py_strip raw_action | _ \<Rightarrow> []) in
           if \<not> action_re action then Inl (RouterError ''pull_request_action_invalid'')
           else case dget_py pull_request ''merged'' of
             JBool merged \<Rightarrow>
               (case pull_request_label (dget_py payload ''label'') of
                  None \<Rightarrow> Inl (RouterError ''pull_request_label_invalid'')
                | Some label_name \<Rightarrow> Inr
                    [(''repository'', JStr repository), (''event'', JStr ''pull_request''),
                     (''action'', JStr action), (''merged'', JBool merged),
                     (''label'', JStr label_name), (''delivery'', JStr delivery_id)])
           | _ \<Rightarrow> Inl (RouterError ''pull_request_merged_invalid''))
      | _ \<Rightarrow> Inl (RouterError ''pull_request_missing''))"

definition ignored_event_response :: "string \<Rightarrow> string \<Rightarrow> string \<Rightarrow> string list \<Rightarrow> dict" where
  "ignored_event_response reason event delivery_id repositories =
     [(''ok'', JBool True), (''ignored'', JBool True), (''reason'', JStr reason),
      (''event'', JStr event), (''delivery'', JStr delivery_id)] @
     (if repositories = [] then [] else [(''repositories'', JArr (map JStr repositories))]) @
     (case repositories of [r] \<Rightarrow> [(''repository'', JStr r)] | _ \<Rightarrow> [])"

end
