(* ===== verification/RouterHandler.thy ===== *)
theory RouterHandler
  imports RouterEvents
begin

text \<open>
  The request handlers of the router (\<open>do_POST\<close>, \<open>do_GET\<close> and \<open>_github_event\<close> of
  automation/n8n/github-router/router.py). A handler gives the reply it sends, or the exception that
  escapes it, and the world it leaves. The functions that router\_entrypoint.py replaces at
  start-up are looked up in an overlay, as the code looks them up in its module.
\<close>

section \<open>Operations on the state file as requests see them\<close>

record overlay =
  ov_event_repositories :: "string \<Rightarrow> dict \<Rightarrow> world \<Rightarrow> string list result"
  ov_enqueue_scope ::
    "bool \<Rightarrow> string option \<Rightarrow> string list option \<Rightarrow> string option \<Rightarrow> world \<Rightarrow> dict result"
  ov_edge_sync :: "dict \<Rightarrow> world \<Rightarrow> dict result"
  ov_ack_scope :: "string \<Rightarrow> string \<Rightarrow> world \<Rightarrow> dict result"
  ov_requeue_scope :: "string \<Rightarrow> string \<Rightarrow> string \<Rightarrow> world \<Rightarrow> dict result"

definition core_enqueue ::
  "router_cfg \<Rightarrow> web \<Rightarrow> bool \<Rightarrow> string option \<Rightarrow> string list option \<Rightarrow> string option \<Rightarrow> world \<Rightarrow> dict result" where
  "core_enqueue c e full repository repositories delivery w =
     locked e (\<lambda>n now f. enqueue_scope c now (recovery_token e n) (uuid e n) full repository
       repositories delivery f) w"

definition core_claim :: "router_cfg \<Rightarrow> web \<Rightarrow> world \<Rightarrow> dict result" where
  "core_claim c e w = locked e (\<lambda>n now f. claim_scope c now (recovery_token e n) (uuid e n) f) w"

definition core_ack :: "router_cfg \<Rightarrow> web \<Rightarrow> string \<Rightarrow> string \<Rightarrow> world \<Rightarrow> dict result" where
  "core_ack c e scope_id claim_token w =
     locked e (\<lambda>n now f. ack_scope c now (recovery_token e n) scope_id claim_token f) w"

definition core_requeue :: "router_cfg \<Rightarrow> web \<Rightarrow> string \<Rightarrow> string \<Rightarrow> string \<Rightarrow> world \<Rightarrow> dict result" where
  "core_requeue c e scope_id reason claim_token w =
     locked e (\<lambda>n now f. requeue_scope c now (recovery_token e n) scope_id reason claim_token f) w"

definition core_overlay :: "router_cfg \<Rightarrow> web \<Rightarrow> overlay" where
  "core_overlay c e =
     \<lparr>ov_event_repositories = (\<lambda>event payload w. (event_repositories event payload, w)),
      ov_enqueue_scope = core_enqueue c e, ov_edge_sync = n8n_edge_sync e,
      ov_ack_scope = core_ack c e, ov_requeue_scope = core_requeue c e\<rparr>"

definition managed_in :: "string \<Rightarrow> nat \<Rightarrow> int \<Rightarrow> state_file \<Rightarrow> bool op_result" where
  "managed_in repository _ now f = (case load_state f of Inl x \<Rightarrow> (Inl x, f)
     | Inr state \<Rightarrow> (case py_iter (py_or (dget_py state ''managed_repositories'') (JArr [])) of
         Inl x \<Rightarrow> (Inl x, f)
       | Inr items \<Rightarrow> (Inr (casefold repository \<in> set (map (\<lambda>i. casefold (py_str i)) items)), f)))"

definition managed_repository :: "web \<Rightarrow> string \<Rightarrow> world \<Rightarrow> bool result" where
  "managed_repository e repository w = locked e (managed_in repository) w"

fun unknown_repositories :: "web \<Rightarrow> string list \<Rightarrow> world \<Rightarrow> string list result" where
  "unknown_repositories e [] w = (Inr [], w)"
| "unknown_repositories e (repository # rest) w =
     and_then (managed_repository e repository w) (\<lambda>managed w.
       and_then (unknown_repositories e rest w) (\<lambda>unknown w.
         (Inr (if managed then unknown else repository # unknown), w)))"

section \<open>Replies\<close>

datatype reply = Reply int dict

definition error_reply :: "int \<Rightarrow> string \<Rightarrow> reply" where
  "error_reply status m = Reply status [(''ok'', JBool False), (''error'', JStr m)]"

definition merge :: "dict \<Rightarrow> dict \<Rightarrow> dict" where
  "merge d upd = foldl (\<lambda>d (k, v). dset k v d) d upd"

record request =
  r_path :: string
  r_content_length :: "string option"
  r_authorization :: "string option"
  r_signature :: "string option"
  r_delivery :: "string option"
  r_event :: "string option"
  r_body :: string

definition header_or :: "string option \<Rightarrow> string \<Rightarrow> string" where
  "header_or h d = (case h of None \<Rightarrow> d | Some s \<Rightarrow> s)"

text \<open>\<open>int\<close> of a string of ASCII digits raises beyond 4300 of them.\<close>

definition read_length :: "string option \<Rightarrow> int \<Rightarrow> int option res" where
  "read_length header limit = (let raw_length = header_or header ''0'' in
     if \<not> is_ascii raw_length \<or> \<not> py_isdigit raw_length then Inr None
     else if length raw_length > 4300 then Inl (PyError ''ValueError'')
     else let n = digits_value raw_length in if n \<le> 0 \<or> n > limit then Inr None else Inr (Some n))"

definition MAX_BODY_BYTES :: int where
  "MAX_BODY_BYTES = 1048576"

definition SUPPORTED_EVENTS :: "string list" where
  "SUPPORTED_EVENTS = [''installation'', ''installation_repositories'', ''issues'', ''issue_comment'',
     ''pull_request'', ''pull_request_review'', ''public'', ''repository'']"

section \<open>A signed delivery\<close>

text \<open>A failed dispatch releases the delivery, so that a retry is accepted.\<close>

definition release_and_reply :: "router_cfg \<Rightarrow> web \<Rightarrow> string \<Rightarrow> string \<Rightarrow> world \<Rightarrow> reply result" where
  "release_and_reply c e delivery_id m w =
     and_then (locked e (\<lambda>n now f. release_delivery c now delivery_id f) w)
       (\<lambda>_ w. (Inr (error_reply 502 m), w))"

definition dispatch_pull_request ::
  "router_cfg \<Rightarrow> web \<Rightarrow> overlay \<Rightarrow> dict \<Rightarrow> string \<Rightarrow> string \<Rightarrow> string \<Rightarrow> world \<Rightarrow> reply result" where
  "dispatch_pull_request c e ov payload repository event delivery_id w =
     (case normalise_pull_request_event payload repository delivery_id of
        Inl (RouterError m) \<Rightarrow> (Inr (error_reply 400 m), w)
      | Inl x \<Rightarrow> (Inl x, w)
      | Inr normalized \<Rightarrow>
          (case ov_edge_sync ov normalized w of
             (Inl (RouterError m), w) \<Rightarrow> release_and_reply c e delivery_id m w
           | (Inl x, w) \<Rightarrow> (Inl x, w)
           | (Inr edge_sync, w) \<Rightarrow>
               (Inr (Reply 202 [(''ok'', JBool True), (''edge_sync'', JBool True),
                  (''repository'', JStr repository), (''event'', JStr event),
                  (''delivery'', JStr delivery_id),
                  (''upstream_status'', dget_py edge_sync ''status'')]), w)))"

definition scope_active :: "dict \<Rightarrow> bool" where
  "scope_active scope \<longleftrightarrow> truthy (dget_py scope ''in_flight'') \<or> truthy (dget_py scope ''pending'')"

definition wake_skipped :: dict where
  "wake_skipped = [(''skipped'', JBool True), (''reason'', JStr ''scope_already_active_or_pending'')]"

definition enqueue_and_wake ::
  "web \<Rightarrow> (world \<Rightarrow> dict result) \<Rightarrow> world \<Rightarrow> (dict \<times> dict) result" where
  "enqueue_and_wake e enqueue w = and_then (enqueue w) (\<lambda>scope w.
     if scope_active scope then (Inr (scope, wake_skipped), w)
     else and_then (wake e w) (\<lambda>wk w. (Inr (scope, wk), w)))"

definition dispatch_scope ::
  "router_cfg \<Rightarrow> web \<Rightarrow> overlay \<Rightarrow> string list \<Rightarrow> string \<Rightarrow> string \<Rightarrow> world \<Rightarrow> reply result" where
  "dispatch_scope c e ov repositories event delivery_id w =
     (case enqueue_and_wake e (ov_enqueue_scope ov False None (Some repositories) (Some delivery_id)) w of
        (Inl (RouterError m), w) \<Rightarrow> release_and_reply c e delivery_id m w
      | (Inl x, w) \<Rightarrow> (Inl x, w)
      | (Inr (scope, wk), w) \<Rightarrow>
          (Inr (Reply 202 [(''ok'', JBool True), (''queued'', JBool True),
             (''repository'', (case repositories of [r] \<Rightarrow> JStr r | _ \<Rightarrow> JNull)),
             (''repositories'', JArr (map JStr repositories)), (''event'', JStr event),
             (''delivery'', JStr delivery_id), (''scope'', JObj scope), (''wake'', JObj wk)]), w))"

definition installation_event :: "string \<Rightarrow> bool" where
  "installation_event event \<longleftrightarrow> event \<in> {''installation'', ''installation_repositories''}"

text \<open>The checks on an authentic, new delivery with a JSON object, and its dispatch.\<close>

definition handle_payload ::
  "router_cfg \<Rightarrow> web \<Rightarrow> overlay \<Rightarrow> string \<Rightarrow> string \<Rightarrow> dict \<Rightarrow> world \<Rightarrow> reply result" where
  "handle_payload c e ov event delivery_id payload w =
     (case ov_event_repositories ov event payload w of
        (Inl (RouterError m), w) \<Rightarrow> (Inr (error_reply 400 m), w)
      | (Inl x, w) \<Rightarrow> (Inl x, w)
      | (Inr repositories, w) \<Rightarrow>
          let ignored = (\<lambda>reason rs. Reply 202 (ignored_event_response reason event delivery_id rs)) in
          if installation_event event \<and> \<not> installation_context_matches c payload \<or>
             \<not> owner_scope_matches c payload repositories
          then (Inr (ignored ''owner_scope_mismatch'' repositories), w)
          else if repositories = []
          then (Inr (ignored (if installation_event event then ''installation_no_repository_candidates''
                  else ''repository_missing'') []), w)
          else if event = ''repository'' \<and> event_action payload \<noteq> ''archived''
          then (Inr (ignored ''unsupported_repository_action'' repositories), w)
          else and_then (unknown_repositories e repositories w) (\<lambda>unknown w.
            if unknown \<noteq> [] \<and> \<not> has_app_installation_context c payload
            then (Inr (ignored ''repository_not_managed'' unknown), w)
            else if event = ''pull_request'' \<and> length repositories = 1 \<and> unknown = []
            then dispatch_pull_request c e ov payload (hd repositories) event delivery_id w
            else dispatch_scope c e ov repositories event delivery_id w))"

definition handle_event ::
  "router_cfg \<Rightarrow> web \<Rightarrow> overlay \<Rightarrow> string \<Rightarrow> string \<Rightarrow> string \<Rightarrow> world \<Rightarrow> reply result" where
  "handle_event c e ov event delivery_id body w =
     (if event = ''ping'' then
        (Inr (Reply 200 [(''ok'', JBool True), (''event'', JStr ''ping''), (''delivery'', JStr delivery_id)]), w)
      else if event \<notin> set SUPPORTED_EVENTS then
        (Inr (Reply 202 [(''ok'', JBool True), (''ignored'', JBool True),
           (''reason'', JStr ''unsupported_event''), (''event'', JStr event),
           (''delivery'', JStr delivery_id)]), w)
      else case loads (w_net e) body of
          None \<Rightarrow> (Inr (error_reply 400 ''invalid_json''), w)
        | Some (JObj payload) \<Rightarrow> handle_payload c e ov event delivery_id payload w
        | Some _ \<Rightarrow> (Inr (error_reply 400 ''payload_invalid''), w))"

definition github_event ::
  "router_cfg \<Rightarrow> web \<Rightarrow> overlay \<Rightarrow> request \<Rightarrow> world \<Rightarrow> reply result" where
  "github_event c e ov req w =
     (case read_length (r_content_length req) MAX_BODY_BYTES of
        Inl x \<Rightarrow> (Inl x, w)
      | Inr None \<Rightarrow> (Inr (error_reply 400 ''invalid_body_length''), w)
      | Inr (Some n) \<Rightarrow>
          let body = take (nat n) (r_body req) in
          if length body \<noteq> nat n then (Inr (error_reply 400 ''truncated_body''), w)
          else case github_signature_valid e body (py_strip (header_or (r_signature req) [])) of
            Inl x \<Rightarrow> (Inl x, w)
          | Inr valid \<Rightarrow>
              if \<not> valid then (Inr (error_reply 401 ''invalid_signature''), w)
              else let delivery_id = py_strip (header_or (r_delivery req) []) in
                if \<not> delivery_id_re delivery_id then (Inr (error_reply 400 ''invalid_delivery_id''), w)
                else case locked e (\<lambda>n now f. claim_delivery c now delivery_id f) w of
                    (Inl (RouterError m), w) \<Rightarrow> (Inr (error_reply 503 m), w)
                  | (Inl x, w) \<Rightarrow> (Inl x, w)
                  | (Inr (_, is_duplicate), w) \<Rightarrow>
                      if is_duplicate then
                        (Inr (Reply 202 [(''ok'', JBool True), (''duplicate'', JBool True),
                           (''reason'', JStr ''duplicate_delivery''), (''delivery'', JStr delivery_id)]), w)
                      else handle_event c e ov (py_strip (header_or (r_event req) [])) delivery_id body w)"

section \<open>Routing\<close>

definition read_scope_control_body :: "web \<Rightarrow> request \<Rightarrow> dict res" where
  "read_scope_control_body e req =
     (let bad = RouterError ''invalid_scope_control_body'' in
      case read_length (r_content_length req) 4096 of
        Inl x \<Rightarrow> Inl x
      | Inr None \<Rightarrow> Inl bad
      | Inr (Some n) \<Rightarrow>
          let body = take (nat n) (r_body req) in
          if length body \<noteq> nat n then Inl bad
          else case loads (w_net e) body of
              Some (JObj payload) \<Rightarrow> Inr payload
            | _ \<Rightarrow> Inl bad)"

definition scope_error_status :: "string \<Rightarrow> int" where
  "scope_error_status m =
     (if contains ''not in flight'' m \<or> contains ''claim token mismatch'' m then 409
      else if starts_with m ''invalid'' then 400 else 503)"

definition settle_scope :: "web \<Rightarrow> overlay \<Rightarrow> request \<Rightarrow> world \<Rightarrow> dict result" where
  "settle_scope e ov req w =
     (case read_scope_control_body e req of Inl x \<Rightarrow> (Inl x, w) | Inr payload \<Rightarrow>
      case dget_py payload ''id'' of
        JStr scope_id \<Rightarrow>
          (case dget_py payload ''claim_token'' of
             JStr claim_token \<Rightarrow>
               if r_path req = ''/scope/ack'' then ov_ack_scope ov scope_id claim_token w
               else (case dget_or payload ''reason'' (JStr []) of
                   JStr reason \<Rightarrow> ov_requeue_scope ov scope_id reason claim_token w
                 | _ \<Rightarrow> (Inl (RouterError ''invalid scope reason''), w))
           | _ \<Rightarrow> (Inl (RouterError ''invalid scope claim token''), w))
      | _ \<Rightarrow> (Inl (RouterError ''invalid scope id''), w))"

definition fallback :: "router_cfg \<Rightarrow> web \<Rightarrow> overlay \<Rightarrow> world \<Rightarrow> reply result" where
  "fallback c e ov w =
     (let finish = (\<lambda>outcome warning w.
        on_router_error
          (and_then (ov_enqueue_scope ov True None None None w) (\<lambda>scope w.
           and_then (wake e w) (\<lambda>wk w.
             (Inr (Reply 200 [(''ok'', JBool True), (''mode'', JStr ''fallback''), (''scope'', JObj scope),
                (''wake'', JObj wk), (''reconcile_ok'', JBool (outcome \<noteq> None)),
                (''reconcile'', (case outcome of None \<Rightarrow> JNull | Some d \<Rightarrow> JObj d)),
                (''reconcile_warning'', JStr warning)]), w))))
          (\<lambda>m w. (Inr (error_reply 502 m), w)))
      in case reconcile_webhooks c e w of
           (Inl (RouterError m), w) \<Rightarrow> finish None m w
         | (Inl x, w) \<Rightarrow> (Inl x, w)
         | (Inr d, w) \<Rightarrow> finish (Some d) [] w)"

definition do_POST :: "router_cfg \<Rightarrow> web \<Rightarrow> overlay \<Rightarrow> request \<Rightarrow> world \<Rightarrow> reply result" where
  "do_POST c e ov req w =
     (if r_path req = ''/github/hermes-intake'' then
        (case github_event c e ov req w of
           (Inl (RouterError m), w) \<Rightarrow> (Inr (error_reply 503 m), w)
         | (Inl x, w) \<Rightarrow> if x = PyError ''UnicodeEncodeError''
             then (Inr (error_reply 400 ''invalid_header''), w) else (Inl x, w)
         | r \<Rightarrow> r)
      else case service_authorized e (py_strip (header_or (r_authorization req) [])) of
        Inl x \<Rightarrow> (Inl x, w)
      | Inr authorized \<Rightarrow>
          if \<not> authorized then (Inr (error_reply 401 ''authorization_required''), w)
          else if r_path req = ''/scope/claim'' then
            on_router_error
              (and_then (core_claim c e w) (\<lambda>item w. (Inr (Reply 200 (merge [(''ok'', JBool True)] item)), w)))
              (\<lambda>m w. (Inr (error_reply 503 m), w))
          else if r_path req \<in> {''/scope/ack'', ''/scope/requeue''} then
            on_router_error
              (and_then (settle_scope e ov req w) (\<lambda>result w. (Inr (Reply 200 result), w)))
              (\<lambda>m w. (Inr (error_reply (scope_error_status m) m), w))
          else if r_path req = ''/reconcile'' then
            on_router_error
              (and_then (reconcile_webhooks c e w) (\<lambda>result w. (Inr (Reply 200 result), w)))
              (\<lambda>m w. (Inr (error_reply 502 m), w))
          else if r_path req = ''/fallback'' then fallback c e ov w
          else (Inr (error_reply 404 ''not_found''), w))"

definition is_file :: "secret_file \<Rightarrow> bool" where
  "is_file s \<longleftrightarrow> s \<noteq> SecretMissing"

definition do_GET :: "router_cfg \<Rightarrow> web \<Rightarrow> request \<Rightarrow> world \<Rightarrow> reply result" where
  "do_GET c e req w =
     (if r_path req = ''/healthz'' then (Inr (Reply 200 [(''ok'', JBool True)]), w)
      else if r_path req = ''/debug/state'' then
        (case service_authorized e (py_strip (header_or (r_authorization req) [])) of
           Inl x \<Rightarrow> (Inl x, w)
         | Inr authorized \<Rightarrow>
             if \<not> authorized then (Inr (error_reply 401 ''authorization_required''), w)
             else on_router_error
               (and_then (locked e (\<lambda>n now f. queue_status c now (recovery_token e n) f) w) (\<lambda>status w.
                  (Inr (Reply 200 (merge [(''ok'', JBool True)] status @
                     [(''public_url_configured'', JBool (PUBLIC_URL e \<noteq> [])),
                      (''github_token_configured'', JBool (is_file (github_token_file e))),
                      (''webhook_secret_configured'', JBool (is_file (webhook_secret_file e))),
                      (''hermes_token_configured'', JBool (is_file (intake_token_file e)))])), w)))
               (\<lambda>m w. (Inr (error_reply 503 m), w)))
      else (Inr (error_reply 404 ''not_found''), w))"

end
