(* ===== verification/RouterLiveness.thy ===== *)
theory RouterLiveness
  imports RouterHandler
begin

text \<open>
  The overlay that automation/n8n/github-router/router\_entrypoint.py installs over the router:
  the low-latency wake for completion comments, the wake chained to every settled scope, the
  delayed wake of one coalescing timer, the durable fallback of a failed edge sync, and the start-up and
  periodic recovery.
\<close>

section \<open>Completion comments\<close>

text \<open>\<open>str.splitlines\<close> on the characters below 256.\<close>

definition line_break :: "char \<Rightarrow> bool" where
  "line_break c \<longleftrightarrow> code c \<in> {10, 11, 12, 13, 28, 29, 30, 133}"

fun split_lines :: "bool \<Rightarrow> string \<Rightarrow> string \<Rightarrow> string list" where
  "split_lines after_return line [] = (if line = [] then [] else [line])"
| "split_lines after_return line (c # s) =
     (if after_return \<and> code c = 10 then split_lines False line s
      else if line_break c then line # split_lines (code c = 13) [] s
      else split_lines False (line @ [c]) s)"

definition py_splitlines :: "string \<Rightarrow> string list" where
  "py_splitlines s = split_lines False [] s"

definition first_nonempty_line :: "json \<Rightarrow> string" where
  "first_nonempty_line v = (case v of
     JStr s \<Rightarrow> (case filter (\<lambda>l. l \<noteq> []) (map py_strip (py_splitlines s)) of [] \<Rightarrow> [] | l # _ \<Rightarrow> l)
   | _ \<Rightarrow> [])"

definition COMPLETION_MARKER :: string where
  "COMPLETION_MARKER = ''AGENT_REWORK_COMPLETE''"

definition is_pr_completion_comment :: "string \<Rightarrow> dict \<Rightarrow> bool" where
  "is_pr_completion_comment event payload \<longleftrightarrow> event = ''issue_comment'' \<and>
     (case dget_py payload ''action'' of JStr action \<Rightarrow> casefold (py_strip action) = ''created'' | _ \<Rightarrow> False) \<and>
     (case dget_py payload ''issue'' of JObj issue \<Rightarrow> is_obj (dget_py issue ''pull_request'') | _ \<Rightarrow> False) \<and>
     (case dget_py payload ''comment'' of
        JObj comment \<Rightarrow> first_nonempty_line (dget_py comment ''body'') = COMPLETION_MARKER | _ \<Rightarrow> False)"

definition supported_direct_edge_event :: "dict \<Rightarrow> bool" where
  "supported_direct_edge_event event \<longleftrightarrow> dget_py event ''event'' = JStr ''pull_request'' \<and>
     (dget_py event ''action'' = JStr ''closed'' \<and> dget_py event ''merged'' = JBool True \<or>
      dget_py event ''action'' = JStr ''labeled'' \<and> dget_py event ''label'' = JStr ''agent-rework'')"

section \<open>The delayed wake\<close>

definition earliest_not_before ::
  "router_cfg \<Rightarrow> int \<Rightarrow> (string \<Rightarrow> string) \<Rightarrow> state_file \<Rightarrow> int option op_result" where
  "earliest_not_before c now tok f = (case load_state f of Inl x \<Rightarrow> (Inl x, f) | Inr state \<Rightarrow>
     let q = recover_scope_claims c now tok state
     in (Inr (case q_queue q of [] \<Rightarrow> None | s # ss \<Rightarrow> Some (min_list (map s_not_before (s # ss)))), save q))"

definition earliest_scope_not_before :: "router_cfg \<Rightarrow> web \<Rightarrow> world \<Rightarrow> int option result" where
  "earliest_scope_not_before c e w = locked e (\<lambda>n now f. earliest_not_before c now (recovery_token e n) f) w"

definition clear_delayed_scope_wake :: "nat \<Rightarrow> world \<Rightarrow> world" where
  "clear_delayed_scope_wake generation w =
     (if generation = w_generation w then w\<lparr>w_deadline := None\<rparr> else w)"

definition schedule_delayed_scope_wake :: "int \<Rightarrow> world \<Rightarrow> dict \<times> world" where
  "schedule_delayed_scope_wake deadline w =
     (let reply = (\<lambda>d coalesced. [(''accepted'', JBool True), (''mode'', JStr ''delayed''),
        (''not_before'', JInt d), (''coalesced'', JBool coalesced)]) in
      case w_deadline w of
        Some current \<Rightarrow> if current \<le> deadline then (reply current True, w)
          else (reply deadline False, w\<lparr>w_generation := Suc (w_generation w), w_deadline := Some deadline,
            w_timers := w_timers w @ [(deadline, Suc (w_generation w))]\<rparr>)
      | None \<Rightarrow> (reply deadline False, w\<lparr>w_generation := Suc (w_generation w), w_deadline := Some deadline,
            w_timers := w_timers w @ [(deadline, Suc (w_generation w))]\<rparr>))"

text \<open>A reading of the clock outside the lock.\<close>

definition read_clock :: "web \<Rightarrow> world \<Rightarrow> int \<times> world" where
  "read_clock e w = (clock e (w_step w), w\<lparr>w_step := Suc (w_step w)\<rparr>)"

text \<open>A timer thread after its sleep. It ends without an exception, whatever it meets.\<close>

definition delayed_scope_wake_background ::
  "router_cfg \<Rightarrow> web \<Rightarrow> int \<Rightarrow> nat \<Rightarrow> world \<Rightarrow> world" where
  "delayed_scope_wake_background c e not_before generation w =
     (if generation \<noteq> w_generation w \<or> w_deadline w \<noteq> Some not_before then w
      else case earliest_scope_not_before c e w of
        (Inl x, w) \<Rightarrow> clear_delayed_scope_wake generation w
      | (Inr earliest, w) \<Rightarrow>
          let (current, w) = read_clock e w in
          (case earliest of
             None \<Rightarrow> clear_delayed_scope_wake generation w
           | Some t \<Rightarrow>
               if t > current
               then snd (schedule_delayed_scope_wake t (clear_delayed_scope_wake generation w))
               else clear_delayed_scope_wake generation (snd (wake e w))))"

text \<open>Waking up removes the thread from those asleep.\<close>

definition timer_fires :: "router_cfg \<Rightarrow> web \<Rightarrow> int \<times> nat \<Rightarrow> world \<Rightarrow> world" where
  "timer_fires c e timer w = delayed_scope_wake_background c e (fst timer) (snd timer)
     (w\<lparr>w_timers := remove1 timer (w_timers w)\<rparr>)"

section \<open>Wakes chained to settled scopes\<close>

definition refused_wake :: "string \<Rightarrow> dict" where
  "refused_wake reason = [(''accepted'', JBool False), (''reason'', JStr reason)]"

definition with_next_wake :: "dict \<Rightarrow> dict \<Rightarrow> dict" where
  "with_next_wake result next_wake = dset ''next_wake'' (JObj next_wake) result"

definition chain_scope_wake :: "router_cfg \<Rightarrow> web \<Rightarrow> dict \<Rightarrow> world \<Rightarrow> dict result" where
  "chain_scope_wake c e result w =
     (if unhashable (dget_py result ''status'') then (Inl (PyError ''TypeError''), w)
      else if dget_py result ''status'' \<notin> {JStr ''acknowledged'', JStr ''requeued'', JStr ''pending''}
      then (Inr result, w)
      else case earliest_scope_not_before c e w of
        (Inl x, w) \<Rightarrow> (Inr (with_next_wake result (refused_wake ''queue_check_failed'')), w)
      | (Inr None, w) \<Rightarrow> (Inr (with_next_wake result (refused_wake ''queue_empty'')), w)
      | (Inr (Some earliest), w) \<Rightarrow>
          let (current, w) = read_clock e w in
          if earliest > current
          then (let (scheduled, w) = schedule_delayed_scope_wake earliest w
                in (Inr (with_next_wake result scheduled), w))
          else (case wake e w of
              (Inl x, w) \<Rightarrow> (Inr (with_next_wake result (refused_wake ''wake_failed'')), w)
            | (Inr wk, w) \<Rightarrow> (Inr (with_next_wake result [(''accepted'', JBool True),
                (''mode'', JStr ''immediate''), (''upstream_status'', dget_py wk ''upstream_status'')]), w)))"

definition live_ack :: "router_cfg \<Rightarrow> web \<Rightarrow> string \<Rightarrow> string \<Rightarrow> world \<Rightarrow> dict result" where
  "live_ack c e scope_id claim_token w =
     and_then (core_ack c e scope_id claim_token w) (\<lambda>result w. chain_scope_wake c e result w)"

definition live_requeue :: "router_cfg \<Rightarrow> web \<Rightarrow> string \<Rightarrow> string \<Rightarrow> string \<Rightarrow> world \<Rightarrow> dict result" where
  "live_requeue c e scope_id reason claim_token w =
     and_then (core_requeue c e scope_id reason claim_token w) (\<lambda>result w. chain_scope_wake c e result w)"

section \<open>Edge sync with a durable fallback\<close>

text \<open>
  The fallback queues the scope with the completion hint off, so it does not come back here: the
  overlaid \<open>_enqueue_scope\<close> is then the router's own, after which the hint is off.
\<close>

definition unhinted_enqueue ::
  "router_cfg \<Rightarrow> web \<Rightarrow> bool \<Rightarrow> string option \<Rightarrow> string list option \<Rightarrow> string option \<Rightarrow> world \<Rightarrow> dict result" where
  "unhinted_enqueue c e full repository repositories delivery w =
     and_then (core_enqueue c e full repository repositories delivery w)
       (\<lambda>result w. (Inr result, w\<lparr>w_hint := False\<rparr>))"

definition deferred_reply :: "dict \<Rightarrow> dict" where
  "deferred_reply scope = [(''status'', JInt 202), (''body'', JObj
     [(''ok'', JBool True), (''deferred'', JBool True), (''reason'', JStr ''edge_sync_deferred''),
      (''scope_id'', dget_or scope ''id'' (JStr [])), (''direct_error'', JStr ''RouterError'')])]"

definition live_edge_sync :: "router_cfg \<Rightarrow> web \<Rightarrow> dict \<Rightarrow> world \<Rightarrow> dict result" where
  "live_edge_sync c e event w =
     (case n8n_edge_sync e event w of
        (Inl (RouterError m), w) \<Rightarrow>
          if \<not> supported_direct_edge_event event then (Inl (RouterError m), w)
          else (case (dget_py event ''repository'', dget_py event ''delivery'') of
            (JStr repository, JStr delivery_id) \<Rightarrow>
              let prior = w_hint w in
              (case enqueue_and_wake e (unhinted_enqueue c e False (Some repository) None (Some delivery_id))
                  (w\<lparr>w_hint := False\<rparr>) of
                 (Inl x, w) \<Rightarrow> (Inl (RouterError ''edge_sync_defer_failed''), w\<lparr>w_hint := prior\<rparr>)
               | (Inr (scope, wk), w) \<Rightarrow> (Inr (deferred_reply scope), w\<lparr>w_hint := prior\<rparr>))
          | _ \<Rightarrow> (Inl (RouterError m), w))
      | r \<Rightarrow> r)"

section \<open>The overlay\<close>

definition live_event_repositories :: "string \<Rightarrow> dict \<Rightarrow> world \<Rightarrow> string list result" where
  "live_event_repositories event payload w =
     (case event_repositories event payload of
        Inl x \<Rightarrow> (Inl x, w\<lparr>w_hint := False\<rparr>)
      | Inr repositories \<Rightarrow> (Inr repositories,
          w\<lparr>w_hint := (length repositories = 1 \<and> is_pr_completion_comment event payload)\<rparr>))"

definition completion_event :: "string \<Rightarrow> string \<Rightarrow> dict" where
  "completion_event target delivery_id =
     [(''repository'', JStr target), (''event'', JStr ''pull_request''), (''action'', JStr ''labeled''),
      (''merged'', JBool False), (''label'', JStr ''agent-rework''), (''delivery'', JStr delivery_id)]"

definition unhint :: "'a result \<Rightarrow> 'a result" where
  "unhint r = (fst r, (snd r)\<lparr>w_hint := False\<rparr>)"

definition live_enqueue ::
  "router_cfg \<Rightarrow> web \<Rightarrow> bool \<Rightarrow> string option \<Rightarrow> string list option \<Rightarrow> string option \<Rightarrow> world \<Rightarrow> dict result" where
  "live_enqueue c e full repository repositories delivery w =
     and_then (core_enqueue c e full repository repositories delivery w) (\<lambda>result w.
       unhint
         (if full \<or> \<not> w_hint w then (Inr result, w)
          else let scoped = (case repositories of Some rs \<Rightarrow> rs
                 | None \<Rightarrow> (case repository of Some r \<Rightarrow> [r] | None \<Rightarrow> [])) in
            (case (scoped, delivery) of
               ([target], Some delivery_id) \<Rightarrow>
                 if delivery_id = [] then (Inr result, w)
                 else and_then (managed_repository e target w) (\<lambda>managed w.
                   if \<not> managed then (Inr result, w)
                   else and_then (live_edge_sync c e (completion_event target delivery_id) w) (\<lambda>wk w.
                     (Inr (merge result [(''completion_edge_sync'', JBool True),
                        (''completion_edge_sync_status'', dget_py wk ''status'')]), w)))
             | _ \<Rightarrow> (Inr result, w))))"

definition live_overlay :: "router_cfg \<Rightarrow> web \<Rightarrow> overlay" where
  "live_overlay c e =
     \<lparr>ov_event_repositories = live_event_repositories, ov_enqueue_scope = live_enqueue c e,
      ov_edge_sync = live_edge_sync c e, ov_ack_scope = live_ack c e, ov_requeue_scope = live_requeue c e\<rparr>"

section \<open>Periodic and start-up recovery\<close>

definition fallback_interval_seconds :: "string \<Rightarrow> int res" where
  "fallback_interval_seconds raw = (case parse_int raw of
      None \<Rightarrow> Inl (RuntimeError ''GITHUB_ROUTER_FALLBACK_INTERVAL_SECONDS must be an integer'')
    | Some interval \<Rightarrow> if interval < 300
        then Inl (RuntimeError ''GITHUB_ROUTER_FALLBACK_INTERVAL_SECONDS must be at least 300'')
        else Inr interval)"

definition PERIODIC_DELIVERY :: string where
  "PERIODIC_DELIVERY = ''router-periodic-full-intake''"

definition periodic_full_intake_once :: "router_cfg \<Rightarrow> web \<Rightarrow> world \<Rightarrow> (dict \<times> dict) result" where
  "periodic_full_intake_once c e w =
     enqueue_and_wake e (live_enqueue c e True None None (Some PERIODIC_DELIVERY)) w"

fun exn_name :: "exn \<Rightarrow> string" where
  "exn_name (RouterError m) = ''RouterError''"
| "exn_name (RegistryError m) = ''RegistryError''"
| "exn_name (RuntimeError m) = ''RuntimeError''"
| "exn_name (PyError name) = name"

text \<open>The attempts of the start-up recovery that are left, and the last error.\<close>

fun wake_attempts :: "web \<Rightarrow> nat \<Rightarrow> string \<Rightarrow> world \<Rightarrow> dict \<times> world" where
  "wake_attempts e 0 last_error w =
     ([(''skipped'', JBool False), (''accepted'', JBool False), (''reason'', JStr ''wake_failed''),
       (''error_type'', JStr last_error)], w)"
| "wake_attempts e (Suc n) last_error w = (case wake e w of
      (Inl x, w) \<Rightarrow> wake_attempts e n (exn_name x) w
    | (Inr wk, w) \<Rightarrow> ([(''skipped'', JBool False), (''accepted'', JBool True), (''mode'', JStr ''immediate''),
        (''upstream_status'', dget_py wk ''upstream_status'')], w))"

definition startup_queue_recovery :: "router_cfg \<Rightarrow> web \<Rightarrow> nat \<Rightarrow> world \<Rightarrow> dict result" where
  "startup_queue_recovery c e attempts w =
     and_then (earliest_scope_not_before c e w) (\<lambda>earliest w. (case earliest of
        None \<Rightarrow> (Inr [(''skipped'', JBool True), (''reason'', JStr ''queue_empty'')], w)
      | Some t \<Rightarrow>
          let (current, w) = read_clock e w in
          if t > current then (let (scheduled, w) = schedule_delayed_scope_wake t w
            in (Inr ((''skipped'', JBool False) # scheduled), w))
          else (let (d, w) = wake_attempts e (max 1 attempts) [] w in (Inr d, w))))"

end
