(* ===== verification/RouterIngress.thy ===== *)
theory RouterIngress
  imports RouterHandler
begin

text \<open>
  What the router's ingress guarantees: nothing happens for a request that is not authentic, work
  is queued only for repositories of the configured owner, and a delivery whose dispatch failed
  can be delivered again. The state file may be changed by other threads between any two
  lock sections of a request.
\<close>

section \<open>Failed dispatches\<close>

lemma prune_loop_ok:
  "prune_deliveries_loop now d kept = Inr m \<Longrightarrow> distinct (keys_of kept) \<and> list_all delivery_id_re (keys_of kept) \<Longrightarrow>
   distinct (keys_of m) \<and> list_all delivery_id_re (keys_of m)"
proof (induction now d kept rule: prune_deliveries_loop.induct)
  case (2 now raw_id raw_entry rest kept)
  have "distinct (keys_of (dset (py_strip raw_id) e kept)) \<and> list_all delivery_id_re (keys_of (dset (py_strip raw_id) e kept))"
    if "delivery_id_re (py_strip raw_id)" for e
    using that "2.prems"(2) by (auto simp: distinct_keys_dset list_all_iff)
  with 2 show ?case
    by (simp add: Let_def split: if_splits json.splits time_field.splits)
qed simp

lemma cap_ok:
  "distinct (keys_of m) \<and> list_all delivery_id_re (keys_of m) \<Longrightarrow>
   distinct (keys_of (cap_deliveries c m)) \<and> list_all delivery_id_re (keys_of (cap_deliveries c m))"
  by (auto simp: cap_deliveries_def keys_of_def distinct_map_filter list_all_iff Let_def)

lemma bounded_ok:
  assumes "bounded_deliveries c v now = Inr m"
  shows "distinct (keys_of m) \<and> list_all delivery_id_re (keys_of m)"
proof -
  from assms obtain m0 where m0: "prune_deliveries v now = Inr m0" "m = cap_deliveries c m0"
    by (cases "prune_deliveries v now") (auto simp: bounded_deliveries_def)
  from m0(1) have "distinct (keys_of m0) \<and> list_all delivery_id_re (keys_of m0)"
    by (auto simp: prune_deliveries_def split: json.splits dest!: prune_loop_ok)
  with m0(2) cap_ok show ?thesis by blast
qed

lemma cap_subset: "set (cap_deliveries c m) \<subseteq> set m"
  by (auto simp: cap_deliveries_def Let_def)

lemma released_delivery_fresh:
  assumes "release_delivery c now i f = (Inr (), f')"
  shows "fst (claim_delivery c now' i f') = Inr (''fresh'', False)"
proof -
  from assms obtain d kept where d: "load_state f = Inr d"
    and kept: "bounded_deliveries c (dget_py d ''delivery_dedupe'') now = Inr kept"
    and f': "f' = write_state (dset ''delivery_dedupe'' (delivery_dict (ddel i kept)) d)"
    by (auto simp: release_delivery_def split: sum.splits)
  note ok = bounded_ok [OF kept]
  then have dist: "distinct (keys_of (ddel i kept))" and re: "list_all delivery_id_re (keys_of (ddel i kept))"
    by (simp_all add: distinct_keys_ddel list_all_iff)
  have "json_wf (JObj (dset ''delivery_dedupe'' (delivery_dict (ddel i kept)) d))"
    by (intro json_wf_dset load_state_wf [OF d] json_wf_delivery_dict dist)
  then have load: "load_state f' = Inr (dset ''delivery_dedupe'' (delivery_dict (ddel i kept)) d)"
    unfolding f' by (rule load_write)
  let ?m = "cap_deliveries c (live_deliveries now' (ddel i kept))"
  have "bounded_deliveries c (delivery_dict (ddel i kept)) now' = Inr ?m"
    using prune_encoded [OF re dist, of "[]" now']
    by (simp add: bounded_deliveries_def prune_deliveries_def delivery_dict_def)
  moreover have "i \<notin> set (keys_of ?m)"
    using cap_subset [of c "live_deliveries now' (ddel i kept)"] set_live [of now' "ddel i kept"]
    by (auto simp: keys_of_def set_ddel)
  then have "\<not> dhas ?m i" by (simp add: dhas_def dget_None_iff)
  ultimately show ?thesis using load by (simp add: claim_delivery_def dget_py_def dget_or_def)
qed

lemma and_then_Inr: "and_then m k = (Inr y, w') \<longleftrightarrow> (\<exists>x w. m = (Inr x, w) \<and> k x w = (Inr y, w'))"
  by (auto simp: and_then_def split: prod.splits sum.splits)

lemma and_then_Inl: "and_then m k = (Inl e, w') \<longleftrightarrow> m = (Inl e, w') \<or> (\<exists>x w. m = (Inr x, w) \<and> k x w = (Inl e, w'))"
  by (auto simp: and_then_def split: prod.splits sum.splits)

lemma release_reply:
  assumes "release_and_reply c e i m w = (Inr r, w')"
  shows "r = error_reply 502 m \<and> fst (claim_delivery c now' i (w_file w')) = Inr (''fresh'', False)"
  using assms released_delivery_fresh
  by (auto simp: release_and_reply_def and_then_Inr locked_def Let_def split: prod.splits)

lemma dispatch_502:
  "dispatch_pull_request c e ov payload r event i w = (Inr (Reply 502 b), w') \<Longrightarrow>
     fst (claim_delivery c now' i (w_file w')) = Inr (''fresh'', False)"
  "dispatch_scope c e ov rs event i w = (Inr (Reply 502 b), w') \<Longrightarrow>
     fst (claim_delivery c now' i (w_file w')) = Inr (''fresh'', False)"
  by (auto simp: dispatch_pull_request_def dispatch_scope_def error_reply_def release_reply
      split: sum.splits exn.splits prod.splits)

lemma handle_event_502:
  "handle_event c e ov event i body w = (Inr (Reply 502 b), w') \<Longrightarrow>
     fst (claim_delivery c now' i (w_file w')) = Inr (''fresh'', False)"
  by (auto simp: handle_event_def handle_payload_def error_reply_def Let_def and_then_Inr
      split: if_splits option.splits json.splits sum.splits exn.splits prod.splits dest: dispatch_502)

section \<open>Nothing without authority\<close>

lemma locked_calls [simp]: "locked e op w = (r, w') \<Longrightarrow> w_calls w' = w_calls w"
  by (auto simp: locked_def Let_def split: prod.splits)

lemma unknown_repositories_calls: "unknown_repositories e rs w = (r, w') \<Longrightarrow> w_calls w' = w_calls w"
proof (induction rs arbitrary: w r w')
  case (Cons x rs)
  then show ?case
    by (auto simp: and_then_def managed_repository_def split: prod.splits sum.splits)
qed simp

definition signed_body :: "web \<Rightarrow> request \<Rightarrow> string option" where
  "signed_body e req = (case read_length (r_content_length req) MAX_BODY_BYTES of
     Inr (Some n) \<Rightarrow> (let body = take (nat n) (r_body req) in
       if length body = nat n \<and>
          github_signature_valid e body (py_strip (header_or (r_signature req) [])) = Inr True
       then Some body else None)
   | _ \<Rightarrow> None)"

lemma read_secret_error: "read_secret s l = Inl x \<Longrightarrow> (\<exists>m. x = RouterError m) \<or> (\<exists>m. x = PyError m)"
  by (auto simp: read_secret_def Let_def split: secret_file.splits if_splits)

lemma signature_error: "github_signature_valid e body sig = Inl x \<Longrightarrow> \<exists>m. x = PyError m"
  using read_secret_error
  by (fastforce simp: github_signature_valid_def split: sum.splits exn.splits)

lemma read_length_error: "read_length h n = Inl x \<Longrightarrow> \<exists>m. x = PyError m"
  by (auto simp: read_length_def Let_def split: if_splits)

lemma github_event_unsigned:
  assumes "signed_body e req = None" and "github_event c e ov req w = (r, w')"
  shows "w' = w \<and> ((\<exists>m. r = Inl (PyError m)) \<or> (\<exists>s m. r = Inr (error_reply s m) \<and> s \<in> {400, 401}))"
  using assms
  by (auto simp: github_event_def signed_body_def Let_def
      split: sum.splits option.splits if_splits dest: signature_error read_length_error)


text \<open>C34: a failed dispatch can be retried. When a delivery is answered with 502, because n8n, the lease
  controller or the queue failed, the same delivery is accepted as fresh whenever it comes
  again, whatever other threads did to the state file meanwhile.\<close>

theorem failed_dispatch_retryable:
  assumes "r_path req = ''/github/hermes-intake''" and "do_POST c e ov req w = (Inr (Reply 502 b), w')"
  shows "fst (claim_delivery c now (py_strip (header_or (r_delivery req) [])) (w_file w')) = Inr (''fresh'', False)"
proof -
  from assms have "github_event c e ov req w = (Inr (Reply 502 b), w')"
    by (auto simp: do_POST_def error_reply_def split: sum.splits exn.splits prod.splits if_splits)
  then show ?thesis
    by (auto simp: github_event_def error_reply_def Let_def handle_event_502
        split: sum.splits option.splits if_splits prod.splits exn.splits)
qed

section \<open>Work only for authorised deliveries\<close>

definition undisturbed :: "web \<Rightarrow> bool" where
  "undisturbed e \<longleftrightarrow> (\<forall>n f. others e n f = f)"

definition manages :: "state_file \<Rightarrow> string \<Rightarrow> bool" where
  "manages f repository \<longleftrightarrow> fst (managed_in repository 0 0 f) = Inr True"

lemma managed_in_any: "managed_in r n now f = (fst (managed_in r 0 0 f), f)"
  by (auto simp: managed_in_def split: sum.splits)

lemma managed_repository_stable:
  "undisturbed e \<Longrightarrow> managed_repository e r w = (fst (managed_in r 0 0 (w_file w)), w\<lparr>w_step := Suc (w_step w)\<rparr>)"
  by (simp add: managed_repository_def locked_def undisturbed_def managed_in_any [of r "w_step w"] Let_def)

lemma unknown_stable:
  assumes "undisturbed e" and "unknown_repositories e rs w = (r, w')"
  shows "w_file w' = w_file w \<and> w_calls w' = w_calls w \<and> w_pauses w' = w_pauses w \<and>
    (\<forall>us. r = Inr us \<longrightarrow> us = filter (\<lambda>r. \<not> manages (w_file w) r) rs)"
  using assms(2)
proof (induction rs arbitrary: w r w')
  case (Cons x rs)
  show ?case
  proof (cases "fst (managed_in x 0 0 (w_file w))")
    case (Inl y)
    with Cons.prems show ?thesis by (auto simp: managed_repository_stable [OF assms(1)])
  next
    case (Inr b)
    obtain r0 w0 where u: "unknown_repositories e rs (w\<lparr>w_step := Suc (w_step w)\<rparr>) = (r0, w0)" by fastforce
    from Cons.IH [OF u] u Inr Cons.prems show ?thesis
      by (cases r0) (auto simp: managed_repository_stable [OF assms(1)] manages_def)
  qed
qed simp

definition authorised :: "router_cfg \<Rightarrow> web \<Rightarrow> state_file \<Rightarrow> request \<Rightarrow> bool" where
  "authorised c e f req \<longleftrightarrow> (\<exists>body payload rs. let event = py_strip (header_or (r_event req) []) in
     signed_body e req = Some body \<and> loads (w_net e) body = Some (JObj payload) \<and>
     event \<in> set SUPPORTED_EVENTS \<and> event_repositories event payload = Inr rs \<and> rs \<noteq> [] \<and>
     owner_scope_matches c payload rs \<and>
     (installation_event event \<longrightarrow> installation_context_matches c payload) \<and>
     ((\<forall>r \<in> set rs. manages f r) \<or> has_app_installation_context c payload))"

lemma filter_none: "filter P xs \<noteq> [] \<longleftrightarrow> (\<exists>x \<in> set xs. P x)"
  by (auto simp: filter_empty_conv)

lemma handle_payload_unauthorised:
  assumes "undisturbed e" and "handle_payload c e (core_overlay c e) event i payload w = (r, w')"
    and un: "\<And>rs. event_repositories event payload = Inr rs \<Longrightarrow> rs \<noteq> [] \<Longrightarrow> owner_scope_matches c payload rs \<Longrightarrow>
      installation_event event \<longrightarrow> installation_context_matches c payload \<Longrightarrow>
      (\<exists>r \<in> set rs. \<not> manages (w_file w) r) \<and> \<not> has_app_installation_context c payload"
  shows "w_file w' = w_file w \<and> w_calls w' = w_calls w \<and> w_pauses w' = w_pauses w"
proof (cases "event_repositories event payload")
  case (Inl x)
  with assms(2) show ?thesis
    by (auto simp: handle_payload_def core_overlay_def split: exn.splits)
next
  case (Inr rs)
  show ?thesis
  proof (cases "rs \<noteq> [] \<and> owner_scope_matches c payload rs \<and>
      (installation_event event \<longrightarrow> installation_context_matches c payload)")
    case True
    with un Inr have bad: "\<exists>r \<in> set rs. \<not> manages (w_file w) r" "\<not> has_app_installation_context c payload" by auto
    obtain r0 w0 where u: "unknown_repositories e rs w = (r0, w0)" by fastforce
    note st = unknown_stable [OF assms(1) u]
    have "r0 = Inr us \<Longrightarrow> us \<noteq> []" for us using st bad(1) by (auto simp: filter_empty_conv)
    with assms(2) Inr True u st bad(2) show ?thesis
      by (cases r0) (auto simp: handle_payload_def core_overlay_def Let_def split: if_splits)
  next
    case False
    with assms(2) Inr show ?thesis
      by (auto simp: handle_payload_def core_overlay_def Let_def split: if_splits)
  qed
qed

lemma github_event_signed:
  assumes "signed_body e req = Some body"
    and "locked e (\<lambda>n now f. claim_delivery c now (py_strip (header_or (r_delivery req) [])) f) w = (cr, w1)"
    and "github_event c e ov req w = (r, w')"
  shows "w' = w \<or> w' = w1 \<or>
    handle_event c e ov (py_strip (header_or (r_event req) [])) (py_strip (header_or (r_delivery req) [])) body w1 = (r, w')"
proof -
  obtain n where "read_length (r_content_length req) MAX_BODY_BYTES = Inr (Some n)"
    and "take (nat n) (r_body req) = body" "length body = nat n"
      "github_signature_valid e body (py_strip (header_or (r_signature req) [])) = Inr True"
    using assms(1) by (auto simp: signed_body_def Let_def split: sum.splits option.splits if_splits)
  with assms(2,3) show ?thesis
    by (auto simp: github_event_def Let_def split: sum.splits exn.splits prod.splits if_splits)
qed


section \<open>Where requests go\<close>

lemma lease_url_sent:
  assumes "lease_request e path w = (r, w')" and "w_calls w' \<noteq> w_calls w"
  shows "\<exists>u. url_parse e (py_strip (LEASE_BASE_URL e)) = Some u \<and> u_scheme u = ''http'' \<and> loopback u \<and> bare_url u"
  using assms
  by (auto simp: lease_request_def validated_lease_base_url_def Let_def split: sum.splits option.splits if_splits)

lemma edge_url_sent:
  assumes "n8n_edge_sync e event w = (r, w')" and "w_calls w' \<noteq> w_calls w"
  shows "\<exists>u. url_parse e (N8N_EDGE_SYNC_URL e) = Some u \<and> u_scheme u = ''http'' \<and> loopback u \<and> bare_url u"
  using assms
  by (auto simp: n8n_edge_sync_def validated_n8n_edge_sync_url_def Let_def split: sum.splits option.splits if_splits)

text \<open>the bearer token stays on the machine. A request to the lease controller or to n8n is sent
  only when its configured URL is a plain HTTP URL of a loopback host without credentials, query
  or fragment.\<close>

theorem control_calls_loopback:
  assumes "lease_request e path w = (r, w') \<or> n8n_edge_sync e event w = (r', w')" and "w_calls w' \<noteq> w_calls w"
  shows "\<exists>url u. url \<in> {py_strip (LEASE_BASE_URL e), N8N_EDGE_SYNC_URL e} \<and> url_parse e url = Some u \<and>
    u_scheme u = ''http'' \<and> loopback u \<and> bare_url u"
  using assms lease_url_sent [of e path w r w'] edge_url_sent [of e event w r' w'] by blast

section \<open>Webhooks\<close>

lemma delete_duplicates_calls:
  "delete_duplicates n repository is k calls = (Inr removed, calls') \<Longrightarrow>
   removed = k + length is \<and>
   calls' = calls @ map (\<lambda>i. GitHubCall ''DELETE'' (hook_path repository (int_str i)) None) is"
proof (induction "is" arbitrary: k calls)
  case (Cons i "is")
  obtain x c2 where g: "github_request n ''DELETE'' (hook_path repository (int_str i)) None calls = (x, c2)" by fastforce
  then have c2: "c2 = calls @ [GitHubCall ''DELETE'' (hook_path repository (int_str i)) None]"
    using github_request_write [of "''DELETE''" n "hook_path repository (int_str i)" None calls] by simp
  from Cons.prems g have "delete_duplicates n repository is (k + 1) c2 = (Inr removed, calls')"
    by (auto split: sum.splits)
  from Cons.IH [OF this] c2 show ?case by simp
qed simp

text \<open>one hook per repository. When a repository's webhook has been ensured, the calls made were
  the listing of its hooks followed by exactly what leaves one hook with the router's URL: an
  update of the oldest matching one and the deletion of all others, or a creation when there
  was none.\<close>

theorem ensure_webhook_calls:
  assumes "ensure_webhook n repository url secret calls = (Inr (action, removed), calls')"
  shows "\<exists>hooks listed. list_hooks n repository calls = (Inr hooks, listed) \<and>
    calls' = listed @ (case matching_hooks url hooks of
      [] \<Rightarrow> [GitHubCall ''POST'' (github_path repository ''/hooks'')
              (Some (JObj ((''name'', JStr ''web'') # hook_payload url secret)))]
    | keep # duplicates \<Rightarrow>
        GitHubCall ''PATCH'' (hook_path repository (int_str keep)) (Some (JObj (hook_payload url secret))) #
        map (\<lambda>i. GitHubCall ''DELETE'' (hook_path repository (int_str i)) None) duplicates) \<and>
    action = (if matching_hooks url hooks = [] then ''created'' else ''updated'') \<and>
    removed = length (matching_hooks url hooks) - 1"
proof -
  from assms obtain hooks listed where l: "list_hooks n repository calls = (Inr hooks, listed)"
    by (auto simp: ensure_webhook_def and_then_Inr)
  show ?thesis
  proof (cases "matching_hooks url hooks")
    case Nil
    with assms l github_request_write [of "''POST''" n "github_path repository ''/hooks''"
        "Some (JObj ((''name'', JStr ''web'') # hook_payload url secret))" listed]
    show ?thesis by (auto simp: ensure_webhook_def and_then_Inr Let_def)
  next
    case (Cons keep duplicates)
    with assms l github_request_write [of "''PATCH''" n "hook_path repository (int_str keep)"
        "Some (JObj (hook_payload url secret))" listed]
    show ?thesis
      by (auto simp: ensure_webhook_def and_then_Inr Let_def dest!: delete_duplicates_calls)
  qed
qed

text \<open>what discovery selects. Every repository it keeps has a well-formed name under the configured
  owner and is neither archived nor disabled, no two names differ in case only, and they come in
  the order of their names.\<close>

theorem discovery_selects_owned:
  assumes "discover_repositories n owner topic owner_type calls = (Inr repos, calls')"
  shows "(\<forall>repo \<in> set repos. \<exists>name. owned_repository (py_strip owner) (casefold (py_strip owner_type)) repo = Some name \<and>
      repository_re name \<and> casefold (before_char CHR ''/'' name) = casefold (py_strip owner) \<and>
      dget_py repo ''archived'' = JBool False \<and> dget_py repo ''disabled'' = JBool False) \<and>
    distinct (map repository_key repos) \<and> sorted (map (\<lambda>repo. casefold (full_name_of repo)) repos)"
proof -
  from assms obtain found where r: "repos = sort_key (\<lambda>item. casefold (full_name_of item))
      (select_repositories (py_strip owner) (casefold (py_strip owner_type)) found [])"
    by (auto simp: discover_repositories_def Let_def split: if_splits sum.splits prod.splits)
  have d: "distinct (map repository_key (sort_key f xs)) = distinct (map repository_key xs)" for f :: "dict \<Rightarrow> string" and xs
    by (metis distinct_map distinct_sort set_sort)
  show ?thesis
    using select_repositories_owned owned_repository_facts select_repositories_distinct
    by (fastforce simp: r d)
qed

section \<open>The fallback intake\<close>

text \<open>the fallback needs GitHub. While GitHub answers every request with a server error, the
  authorised fallback request ends with the registry's exception: no reply is sent, no scope is
  queued and nothing is woken, although the handler means a failed reconciliation to be a warning.\<close>

theorem fallback_stops_without_github:
  assumes "r_path req = ''/fallback''" and "service_authorized e (py_strip (header_or (r_authorization req) [])) = Inr True"
    and "read_secret (github_token_file e) ''GitHub token'' = Inr token"
    and "read_secret (webhook_secret_file e) ''GitHub webhook secret'' = Inr secret"
    and "validated_public_url e = Inr url" and "py_strip (GITHUB_OWNER c) \<noteq> []" and "py_strip (GITHUB_TOPIC e) \<noteq> []"
    and "casefold (py_strip (GITHUB_OWNER_TYPE c)) \<in> {''personal'', ''organization''}"
    and "\<And>calls x. \<exists>sc. respond (w_net e) calls x = HttpStatus sc \<and> 500 \<le> sc \<and> sc \<le> 599"
  shows "\<exists>m w'. do_POST c e ov req w = (Inl (RegistryError m), w') \<and> w_file w' = w_file w \<and> w_pauses w' = w_pauses w"
proof -
  have fails: "\<exists>m. fst (registry_attempts (w_net e) path False (Suc left) attempt et calls) = Inl (RegistryError m)"
    for path left attempt et calls
  proof (induction left arbitrary: attempt et calls)
    case 0
    obtain sc where "respond (w_net e) calls (GitHubCall ''GET'' path None) = HttpStatus sc" "500 \<le> sc" "sc \<le> 599"
      using assms(9) by blast
    then show ?case by (simp add: send_def)
  next
    case (Suc left)
    obtain sc where "respond (w_net e) calls (GitHubCall ''GET'' path None) = HttpStatus sc" "500 \<le> sc" "sc \<le> 599"
      using assms(9) by blast
    with Suc.IH [of 1] show ?case
      by (subst registry_attempts.simps(2)) (simp add: send_def del: registry_attempts.simps(2))
  qed
  have "\<exists>m. fst (discover_repositories (w_net e) (GITHUB_OWNER c) (GITHUB_TOPIC e) (GITHUB_OWNER_TYPE c) calls) =
      Inl (RegistryError m)" for calls
  proof -
    have topic: "py_lower (py_strip (GITHUB_TOPIC e)) \<noteq> []" using assms(7) by (simp add: py_lower_def)
    have pages: "\<exists>m. fst (search_pages (w_net e) q 1 MAX_PAGES [] calls) = Inl (RegistryError m)" for q
    proof -
      let ?path = "''/search/repositories'' @ ''?'' @ urlencode [(''q'', q), (''per_page'', ''100''),
        (''page'', nat_digits 1), (''sort'', ''full_name''), (''order'', ''asc'')]"
      obtain m calls' where r: "registry_attempts (w_net e) ?path False 2 0 ''unknown'' calls = (Inl (RegistryError m), calls')"
        using fails [of ?path 1 0 "''unknown''" calls] by (metis One_nat_def Suc_1 prod.collapse)
      then have "github_json (w_net e) ''/search/repositories'' [(''q'', q), (''per_page'', ''100''),
        (''page'', nat_digits 1), (''sort'', ''full_name''), (''order'', ''asc'')] False calls = (Inl (RegistryError m), calls')"
        by (simp add: github_json_def)
      then have "fst (search_pages (w_net e) q 1 (Suc left) [] calls) = Inl (RegistryError m)" for left by simp
      moreover have "MAX_PAGES = Suc 19" by (simp add: MAX_PAGES_def)
      ultimately show ?thesis by metis
    qed
    from pages obtain m calls' where "search_pages (w_net e) (search_query (casefold (py_strip (GITHUB_OWNER_TYPE c)))
        (py_strip (GITHUB_OWNER c)) (py_lower (py_strip (GITHUB_TOPIC e)))) 1 MAX_PAGES [] calls = (Inl (RegistryError m), calls')"
      by (metis prod.collapse)
    then show ?thesis using assms(6,8) topic by (auto simp: discover_repositories_def Let_def)
  qed
  then obtain m calls' where disc: "discover_repositories (w_net e) (GITHUB_OWNER c) (GITHUB_TOPIC e) (GITHUB_OWNER_TYPE c) (w_calls w) =
      (Inl (RegistryError m), calls')"
    by (metis prod.collapse)
  then have "reconcile_webhooks c e w = (Inl (RegistryError m), w\<lparr>w_calls := calls'\<rparr>)"
    using assms(3-5) by (auto simp: reconcile_webhooks_def calling_def)
  then have "do_POST c e ov req w = (Inl (RegistryError m), w\<lparr>w_calls := calls'\<rparr>)"
    using assms(1,2) by (simp add: do_POST_def fallback_def Let_def)
  then show ?thesis by auto
qed

section \<open>Sample requests\<close>

definition sample_net :: "http_result \<Rightarrow> json \<Rightarrow> net" where
  "sample_net answer tree = \<lparr>respond = (\<lambda>_ _. answer), parse_json = (\<lambda>_. Some tree)\<rparr>"

definition sample_url :: "string \<Rightarrow> parsed_url" where
  "sample_url path = \<lparr>u_scheme = ''http'', u_netloc = ''localhost'', u_path = path, u_query = [], u_fragment = [],
     u_username = None, u_password = None, u_hostname = Some ''localhost'', u_port = Some (Some 5680)\<rparr>"

definition sample_web :: "http_result \<Rightarrow> json \<Rightarrow> web" where
  "sample_web answer tree = \<lparr>w_net = sample_net answer tree, url_parse = (\<lambda>url. Some (sample_url [])),
     PUBLIC_URL = [], LEASE_BASE_URL = ''http://localhost:5680'', N8N_EDGE_SYNC_URL = [], GITHUB_TOPIC = ''agent'',
     github_token_file = SecretMissing, webhook_secret_file = SecretText ''s'', intake_token_file = SecretText ''t'',
     hmac_hex = (\<lambda>_ _. ''00''), clock = (\<lambda>n. 10 + int n), others = (\<lambda>_ f. f),
     uuid = (\<lambda>n. ''s'' @ nat_digits n), recovery_token = (\<lambda>_ _. replicate 32 CHR ''a'')\<rparr>"

definition sample_world :: world where
  "sample_world = \<lparr>w_file = FMissing, w_calls = [], w_step = 0, w_pauses = [], w_hint = False,
     w_deadline = None, w_generation = 0, w_timers = []\<rparr>"

definition sample_payload :: json where
  "sample_payload = JObj [(''action'', JStr ''opened''), (''installation'', JObj [(''id'', JInt 7)]),
     (''repository'', JObj [(''full_name'', JStr ''octo/app'')])]"

definition sample_request :: "string \<Rightarrow> request" where
  "sample_request signature = \<lparr>r_path = ''/github/hermes-intake'', r_content_length = Some ''2'',
     r_authorization = None, r_signature = Some signature, r_delivery = Some ''d1'',
     r_event = Some ''issues'', r_body = ''{}''\<rparr>"


theorem failed_dispatch_retryable_witness:
  "\<exists>b w'. do_POST sample_cfg (sample_web (NetOS ''URLError'') sample_payload)
      (core_overlay sample_cfg (sample_web (NetOS ''URLError'') sample_payload)) (sample_request ''sha256=00'') sample_world =
      (Inr (Reply 502 b), w') \<and>
    fst (claim_delivery sample_cfg 20 ''d1'' (w_file w')) = Inr (''fresh'', False)"
proof -
  let ?r = "do_POST sample_cfg (sample_web (NetOS ''URLError'') sample_payload)
      (core_overlay sample_cfg (sample_web (NetOS ''URLError'') sample_payload)) (sample_request ''sha256=00'') sample_world"
  have "case fst ?r of Inr (Reply s b) \<Rightarrow> s = 502 | _ \<Rightarrow> False" by code_simp
  then obtain b w' where r: "?r = (Inr (Reply 502 b), w')"
    by (auto split: sum.splits reply.splits simp: prod_eq_iff)
  moreover have "py_strip (header_or (r_delivery (sample_request ''sha256=00'')) []) = ''d1''" by code_simp
  ultimately show ?thesis
    using failed_dispatch_retryable [OF _ r, of 20] by (auto simp: sample_request_def)
qed

text \<open>
  A delivery whose handling meets an unreadable state file after it was recorded is answered with
  503, and stays recorded: when the file can be read again, its redelivery is a duplicate.
\<close>

definition flaky_web :: web where
  "flaky_web = (sample_web (NetOS ''URLError'') sample_payload)
     \<lparr>others := (\<lambda>n f. if n = 1 then FFault (Unreadable ''EIO'') else f)\<rparr>"

lemma unreadable_state_drops_delivery:
  "fst (do_POST sample_cfg flaky_web (core_overlay sample_cfg flaky_web) (sample_request ''sha256=00'') sample_world) =
     Inr (error_reply 503 ''cannot read router state: EIO'') \<and>
   fst (claim_delivery sample_cfg 20 ''d1'' (snd (claim_delivery sample_cfg 10 ''d1'' (w_file sample_world)))) =
     Inr (''duplicate'', True)"
proof
  show "fst (do_POST sample_cfg flaky_web (core_overlay sample_cfg flaky_web) (sample_request ''sha256=00'') sample_world) =
     Inr (error_reply 503 ''cannot read router state: EIO'')" by code_simp
  show "fst (claim_delivery sample_cfg 20 ''d1'' (snd (claim_delivery sample_cfg 10 ''d1'' (w_file sample_world)))) =
     Inr (''duplicate'', True)" by code_simp
qed


theorem control_calls_loopback_witness:
  "\<exists>url u. url \<in> {''http://localhost:5680'', ''''} \<and> url_parse (sample_web NetValue JNull) url = Some u \<and>
    u_scheme u = ''http'' \<and> loopback u \<and> bare_url u"
proof -
  let ?e = "sample_web NetValue JNull"
  have "w_calls (snd (lease_request ?e ''/trigger'' sample_world)) \<noteq> w_calls sample_world" by code_simp
  moreover have "py_strip (LEASE_BASE_URL ?e) = ''http://localhost:5680''" "N8N_EDGE_SYNC_URL ?e = ''''" by code_simp+
  ultimately show ?thesis
    using control_calls_loopback [of ?e "''/trigger''" sample_world "fst (lease_request ?e ''/trigger'' sample_world)"
        "snd (lease_request ?e ''/trigger'' sample_world)"] by simp
qed

definition sample_hook :: "int \<Rightarrow> json" where
  "sample_hook i = JObj [(''id'', JInt i), (''config'', JObj [(''url'', JStr ''https://h/x/'')])]"

theorem ensure_webhook_calls_witness:
  "\<exists>calls. ensure_webhook (sample_net (Response 200 ''[]'') (JArr [sample_hook 5, sample_hook 3])) ''octo/app''
      ''https://h/x'' ''s'' [] = (Inr (''updated'', 1), calls) \<and> length calls = 3"
proof -
  define n where "n = sample_net (Response 200 ''[]'') (JArr [sample_hook 5, sample_hook 3])"
  have "fst (ensure_webhook n ''octo/app'' ''https://h/x'' ''s'' []) = Inr (''updated'', 1)" unfolding n_def by code_simp
  then obtain calls where r: "ensure_webhook n ''octo/app'' ''https://h/x'' ''s'' [] = (Inr (''updated'', 1), calls)"
    by (metis prod.collapse)
  have l: "map_prod (map_sum id (matching_hooks ''https://h/x'')) length (list_hooks n ''octo/app'' []) = (Inr [3, 5], 1)"
    unfolding n_def by code_simp
  from ensure_webhook_calls [OF r] l have "length calls = 3" by auto
  with r show ?thesis unfolding n_def by blast
qed

definition sample_repo :: json where
  "sample_repo = JObj [(''full_name'', JStr ''octo/app''), (''archived'', JBool False), (''disabled'', JBool False),
     (''owner'', JObj [(''login'', JStr ''octo''), (''type'', JStr ''User'')])]"

theorem discovery_selects_owned_witness:
  "\<exists>calls. discover_repositories (sample_net (Response 200 ''{}'') (JObj [(''items'', JArr [sample_repo, sample_repo])]))
      ''octo'' ''agent'' ''personal'' [] = (Inr [obj_of sample_repo], calls) \<and>
    (\<exists>name. owned_repository ''octo'' ''personal'' (obj_of sample_repo) = Some name \<and> repository_re name)"
proof -
  define n where "n = sample_net (Response 200 ''{}'') (JObj [(''items'', JArr [sample_repo, sample_repo])])"
  define repo where "repo = obj_of sample_repo"
  have "fst (discover_repositories n ''octo'' ''agent'' ''personal'' []) = Inr [repo]"
    unfolding n_def repo_def by code_simp
  then obtain calls where r: "discover_repositories n ''octo'' ''agent'' ''personal'' [] = (Inr [repo], calls)"
    by (metis prod.collapse)
  have "py_strip ''octo'' = ''octo''" "casefold (py_strip ''personal'') = ''personal''" by code_simp+
  with discovery_selects_owned [OF r]
  have "\<exists>name. owned_repository ''octo'' ''personal'' repo = Some name \<and> repository_re name" by auto
  with r show ?thesis unfolding n_def repo_def by blast
qed

theorem fallback_stops_without_github_witness:
  "\<exists>m w'. do_POST sample_cfg
      ((sample_web (HttpStatus 503) JNull)\<lparr>github_token_file := SecretText ''t'', PUBLIC_URL := ''https://h/github/hermes-intake'',
         url_parse := (\<lambda>_. Some ((sample_url ''/github/hermes-intake'')\<lparr>u_scheme := ''https''\<rparr>))\<rparr>)
      (core_overlay sample_cfg (sample_web NetValue JNull))
      ((sample_request [])\<lparr>r_path := ''/fallback'', r_authorization := Some ''Bearer t''\<rparr>) sample_world =
    (Inl (RegistryError m), w') \<and> w_file w' = FMissing \<and> w_pauses w' = []"
proof -
  let ?e = "(sample_web (HttpStatus 503) JNull)\<lparr>github_token_file := SecretText ''t'', PUBLIC_URL := ''https://h/github/hermes-intake'',
     url_parse := (\<lambda>_. Some ((sample_url ''/github/hermes-intake'')\<lparr>u_scheme := ''https''\<rparr>))\<rparr>"
  let ?req = "(sample_request [])\<lparr>r_path := ''/fallback'', r_authorization := Some ''Bearer t''\<rparr>"
  have a: "r_path ?req = ''/fallback''" by simp
  have b: "service_authorized ?e (py_strip (header_or (r_authorization ?req) [])) = Inr True" by code_simp
  have c: "read_secret (github_token_file ?e) ''GitHub token'' = Inr ''t''" by code_simp
  have d: "read_secret (webhook_secret_file ?e) ''GitHub webhook secret'' = Inr ''s''" by code_simp
  have f: "validated_public_url ?e = Inr ''https://h/github/hermes-intake''" by code_simp
  have g: "py_strip (GITHUB_OWNER sample_cfg) \<noteq> []" "py_strip (GITHUB_TOPIC ?e) \<noteq> []"
    "casefold (py_strip (GITHUB_OWNER_TYPE sample_cfg)) \<in> {''personal'', ''organization''}" by code_simp+
  have h: "\<exists>sc. respond (w_net ?e) calls x = HttpStatus sc \<and> 500 \<le> sc \<and> sc \<le> 599" for calls x
    by (simp add: sample_web_def sample_net_def)
  from fallback_stops_without_github [OF a b c d f g h, of "core_overlay sample_cfg (sample_web NetValue JNull)" sample_world]
  show ?thesis by (simp add: sample_world_def)
qed

end
