(* ===== verification/RouterWakes.thy ===== *)
theory RouterWakes
  imports RouterLiveness RouterIngress
begin

text \<open>
  What the router's liveness overlay guarantees: chained wakes never undo a settled scope, a
  waiting scope always has a timer, a failed edge sync is queued; and how the periodic intake
  stops once its scope is parked.
\<close>

section \<open>Chained wakes\<close>

lemma chain_result:
  assumes "dget d ''status'' = Some (JStr s)"
  shows "\<exists>d' w'. chain_scope_wake c e d w = (Inr d', w') \<and> (\<forall>key. key \<noteq> ''next_wake'' \<longrightarrow> dget d' key = dget d key)"
proof -
  have st: "\<not> unhashable (dget_py d ''status'')" using assms by (simp add: dget_py_def dget_or_def unhashable_def)
  show ?thesis
    unfolding chain_scope_wake_def
    using st by (auto simp: with_next_wake_def Let_def split: prod.splits sum.splits option.splits if_splits)
qed

lemma ack_status: "core_ack c e i k w = (Inr d, w') \<Longrightarrow> \<exists>s. dget d ''status'' = Some (JStr s)"
  by (auto simp: core_ack_def locked_def ack_scope_def scope_ack_reply_def Let_def
      split: prod.splits if_splits sum.splits option.splits json.splits)

lemma requeue_status: "core_requeue c e i r k w = (Inr d, w') \<Longrightarrow> \<exists>s. dget d ''status'' = Some (JStr s)"
  by (auto simp: core_requeue_def locked_def requeue_scope_def scope_requeue_reply_def scope_ack_reply_def Let_def
      split: prod.splits if_splits sum.splits option.splits json.splits)

text \<open>The overlaid acknowledgement and requeue fail exactly
  when the router's own do, with the same exception and effect; otherwise they succeed with the same
  reply plus the report on the next wake, whatever happens to the queue read-back or the wake.\<close>

theorem chained_wake_harmless:
  shows "(\<forall>x w'. core_ack c e i k w = (Inl x, w') \<longrightarrow> live_ack c e i k w = (Inl x, w')) \<and>
    (\<forall>x w'. core_requeue c e i r k w = (Inl x, w') \<longrightarrow> live_requeue c e i r k w = (Inl x, w')) \<and>
    (\<forall>d w'. core_ack c e i k w = (Inr d, w') \<longrightarrow>
       (\<exists>d' w''. live_ack c e i k w = (Inr d', w'') \<and> (\<forall>key. key \<noteq> ''next_wake'' \<longrightarrow> dget d' key = dget d key))) \<and>
    (\<forall>d w'. core_requeue c e i r k w = (Inr d, w') \<longrightarrow>
       (\<exists>d' w''. live_requeue c e i r k w = (Inr d', w'') \<and> (\<forall>key. key \<noteq> ''next_wake'' \<longrightarrow> dget d' key = dget d key)))"
proof (intro conjI allI impI)
  fix d w' assume a: "core_ack c e i k w = (Inr d, w')"
  obtain s where "dget d ''status'' = Some (JStr s)" using ack_status [OF a] by blast
  from chain_result [OF this, of c e w'] a
  show "\<exists>d' w''. live_ack c e i k w = (Inr d', w'') \<and> (\<forall>key. key \<noteq> ''next_wake'' \<longrightarrow> dget d' key = dget d key)"
    by (simp add: live_ack_def)
next
  fix d w' assume a: "core_requeue c e i r k w = (Inr d, w')"
  obtain s where "dget d ''status'' = Some (JStr s)" using requeue_status [OF a] by blast
  from chain_result [OF this, of c e w'] a
  show "\<exists>d' w''. live_requeue c e i r k w = (Inr d', w'') \<and> (\<forall>key. key \<noteq> ''next_wake'' \<longrightarrow> dget d' key = dget d key)"
    by (simp add: live_requeue_def)
qed (simp_all add: live_ack_def live_requeue_def)

theorem chained_wake_harmless_witness:
  "\<exists>x. live_ack sample_cfg (sample_web NetValue JNull) ''s1'' [] sample_world = (Inl x, sample_world\<lparr>w_step := 1\<rparr>)"
proof -
  let ?e = "sample_web NetValue JNull"
  have "core_ack sample_cfg ?e ''s1'' [] sample_world =
      (Inl (RouterError ''invalid scope claim token''), sample_world\<lparr>w_step := 1\<rparr>)" by code_simp
  from chained_wake_harmless [THEN conjunct1, rule_format, OF this] show ?thesis by (rule exI)
qed

section \<open>The coalescing timer\<close>

definition same_timers :: "world \<Rightarrow> world \<Rightarrow> bool" where
  "same_timers w w' \<longleftrightarrow> w_deadline w' = w_deadline w \<and> w_generation w' = w_generation w \<and> w_timers w' = w_timers w"

inductive wake_reach :: "router_cfg \<Rightarrow> web \<Rightarrow> world \<Rightarrow> bool" for c e where
  reach_start: "w_deadline w = None \<Longrightarrow> w_timers w = [] \<Longrightarrow> wake_reach c e w"
| reach_same: "wake_reach c e w \<Longrightarrow> same_timers w w' \<Longrightarrow> wake_reach c e w'"
| reach_schedule: "wake_reach c e w \<Longrightarrow> wake_reach c e (snd (schedule_delayed_scope_wake t w))"
| reach_fire: "wake_reach c e w \<Longrightarrow> timer \<in> set (w_timers w) \<Longrightarrow> wake_reach c e (timer_fires c e timer w)"

definition timers_ok :: "world \<Rightarrow> bool" where
  "timers_ok w \<longleftrightarrow> distinct (map snd (w_timers w)) \<and> (\<forall>timer \<in> set (w_timers w). snd timer \<le> w_generation w) \<and>
     (\<forall>d. w_deadline w = Some d \<longrightarrow> (d, w_generation w) \<in> set (w_timers w))"

lemma same_timers_simps:
  "locked e op w = (r, w') \<Longrightarrow> same_timers w w'"
  "wake e w = (r', w') \<Longrightarrow> same_timers w w'"
  "read_clock e w = (t, w') \<Longrightarrow> same_timers w w'"
  by (auto simp: locked_def wake_def lease_request_def calling_def read_clock_def same_timers_def and_then_def Let_def
      split: prod.splits sum.splits if_splits http_result.splits json.splits)

lemma same_timers_trans: "same_timers w w' \<Longrightarrow> same_timers w' w'' \<Longrightarrow> same_timers w w''"
  by (simp add: same_timers_def)

lemma timers_ok_same: "timers_ok w \<Longrightarrow> same_timers w w' \<Longrightarrow> timers_ok w'"
  by (simp add: timers_ok_def same_timers_def)

lemma timers_ok_schedule: "timers_ok w \<Longrightarrow> timers_ok (snd (schedule_delayed_scope_wake t w))"
  by (fastforce simp: timers_ok_def schedule_delayed_scope_wake_def Let_def split: option.splits)

lemma schedule_deadline:
  "\<exists>d \<le> t. w_deadline (snd (schedule_delayed_scope_wake t w)) = Some d"
  by (auto simp: schedule_delayed_scope_wake_def Let_def split: option.splits)

lemma clear_fields: "clear_delayed_scope_wake g w = w \<or> g = w_generation w \<and> clear_delayed_scope_wake g w = w\<lparr>w_deadline := None\<rparr>"
  by (simp add: clear_delayed_scope_wake_def)

text \<open>A timer that is not the current one ends without doing anything; the current one clears the
  deadline, and arms a new timer when the queue still waits.\<close>

lemma timer_fires_ok:
  assumes "timers_ok w" and "timer \<in> set (w_timers w)"
  shows "timers_ok (timer_fires c e timer w)"
proof -
  obtain d g where timer: "timer = (d, g)" by fastforce
  let ?w = "w\<lparr>w_timers := remove1 timer (w_timers w)\<rparr>"
  have d: "distinct (w_timers w)" using assms(1) by (simp add: timers_ok_def distinct_map)
  have cleared: "timers_ok (clear_delayed_scope_wake g w2)" if "same_timers ?w w2" "g = w_generation w" for w2
    using that assms d by (auto simp: timers_ok_def same_timers_def clear_delayed_scope_wake_def distinct_map
        dest: inj_on_subset)
  show ?thesis
  proof (cases "g = w_generation w \<and> w_deadline w = Some d")
    case False
    have "timers_ok ?w"
      using assms False d timer unfolding timers_ok_def
      by (auto simp: distinct_map inj_on_def)
    with False timer show ?thesis by (auto simp: timer_fires_def delayed_scope_wake_background_def)
  next
    case True
    obtain r w1 where s: "earliest_scope_not_before c e ?w = (r, w1)" by fastforce
    then have w1: "same_timers ?w w1" unfolding earliest_scope_not_before_def by (rule same_timers_simps(1))
    obtain now w2 where now: "read_clock e w1 = (now, w2)" by fastforce
    then have w2: "same_timers ?w w2" using w1 same_timers_simps(3) same_timers_trans by blast
    obtain r3 w3 where w3: "wake e w2 = (r3, w3)" by fastforce
    then have w3': "same_timers ?w w3" using w2 same_timers_simps(2) same_timers_trans by blast
    from True timer s now w3 cleared [OF w1] cleared [OF w2] cleared [OF w3'] timers_ok_schedule show ?thesis
      by (auto simp: timer_fires_def delayed_scope_wake_background_def split: sum.splits option.splits)
  qed
qed

lemma wake_reach_ok: "wake_reach c e w \<Longrightarrow> timers_ok w"
proof (induction rule: wake_reach.induct)
  case (reach_start w)
  then show ?case by (simp add: timers_ok_def)
qed (auto intro: timers_ok_same timers_ok_schedule timer_fires_ok)

text \<open>a waiting scope has its wake. However timers were armed, coalesced and fired before, when a
  settled scope leaves a queue whose first scope becomes ready at a later time, a timer of the
  current generation is asleep whose deadline is not later than that.\<close>

theorem waiting_scope_has_timer:
  assumes "wake_reach c e w" and "earliest_scope_not_before c e w = (Inr (Some t), w1)"
    and "fst (read_clock e w1) < t" and "dget d ''status'' = Some (JStr s)"
    and "s \<in> {''acknowledged'', ''requeued'', ''pending''}"
    and "chain_scope_wake c e d w = (r, w')"
  shows "\<exists>deadline \<le> t. w_deadline w' = Some deadline \<and> (deadline, w_generation w') \<in> set (w_timers w')"
proof -
  obtain now w2 where now: "read_clock e w1 = (now, w2)" by fastforce
  have w2: "same_timers w w2"
    using assms(2) now same_timers_simps(1,3) same_timers_trans unfolding earliest_scope_not_before_def by blast
  have w': "w' = snd (schedule_delayed_scope_wake t w2)"
    using assms(2-6) now
    by (auto simp: chain_scope_wake_def dget_py_def dget_or_def unhashable_def split: prod.splits)
  have "timers_ok w'" unfolding w'
    by (rule timers_ok_schedule [OF timers_ok_same [OF wake_reach_ok [OF assms(1)] w2]])
  with schedule_deadline [of t w2] show ?thesis unfolding w' by (auto simp: timers_ok_def)
qed

definition waiting_world :: world where
  "waiting_world = sample_world\<lparr>w_file := save \<lparr>q_queue = [\<lparr>s_id = ''u1'', s_mode = ''full'', s_repositories = [],
       s_created_at = 5, s_expires_at = 305, s_attempts = 1, s_not_before = 60, s_delivery = None\<rparr>],
     q_claims = [], q_pending = [], q_rest = []\<rparr>\<rparr>"

theorem waiting_scope_has_timer_witness:
  "\<exists>deadline \<le> 60. w_deadline (snd (chain_scope_wake sample_cfg (sample_web NetValue JNull)
     [(''status'', JStr ''requeued'')] waiting_world)) = Some deadline"
proof -
  let ?e = "sample_web NetValue JNull"
  have r: "wake_reach sample_cfg ?e waiting_world"
    by (rule reach_start) (simp_all add: waiting_world_def sample_world_def)
  have a: "fst (earliest_scope_not_before sample_cfg ?e waiting_world) = Inr (Some 60)" by code_simp
  then obtain w1 where e: "earliest_scope_not_before sample_cfg ?e waiting_world = (Inr (Some 60), w1)"
    by (metis prod.collapse)
  have "fst (read_clock ?e (snd (earliest_scope_not_before sample_cfg ?e waiting_world))) < 60" by code_simp
  then have c: "fst (read_clock ?e w1) < 60" unfolding e by simp
  define d where "d = [(''status'', JStr ''requeued'')]"
  have d: "dget d ''status'' = Some (JStr ''requeued'')" "''requeued'' \<in> {''acknowledged'', ''requeued'', ''pending''}"
    by (simp_all add: d_def)
  from waiting_scope_has_timer [OF r e c d prod.collapse [symmetric]]
  show ?thesis unfolding d_def by blast
qed

section \<open>A failed edge sync\<close>

lemma core_enqueue_known:
  assumes "core_enqueue c e full r rs (Some i) w = (Inr d, w')"
  shows "\<exists>q. w_file w' = save q \<and> with_delivery i q"
proof -
  let ?n = "w_step w" let ?now = "clock e ?n" and ?tok = "recovery_token e ?n" and ?f = "others e ?n (w_file w)"
  obtain f' where en: "enqueue_scope c ?now ?tok (uuid e ?n) full r rs (Some i) ?f = (Inr d, f')" and w': "w_file w' = f'"
    using assms by (auto simp: core_enqueue_def locked_def Let_def split: prod.splits)
  obtain state where "load_state ?f = Inr state"
    using en by (cases "load_state ?f") (auto simp: enqueue_scope_def split: sum.splits if_splits)
  from enqueue_refines [OF this refl en] obtain q' where q': "f' = save q'"
    "effect c ?now (Enqueue (uuid e ?n) full r rs (Some i)) (recover_scope_claims c ?now ?tok state) d q'" by blast
  from q'(2) have "with_delivery i q'"
    by (cases rule: effect.cases) (auto simp: with_delivery_def new_scope_def)
  with q' w' show ?thesis by blast
qed

text \<open>a failed edge sync becomes durable work. When n8n cannot take a merge or a rework label and the
  overlay still answers with success, the delivery's scope is recorded in the state file, queued,
  leased or pending.\<close>

theorem deferred_edge_is_durable:
  assumes "n8n_edge_sync e event w = (Inl (RouterError m), w1)" and "live_edge_sync c e event w = (Inr d, w')"
    and "dget_py event ''delivery'' = JStr i"
  shows "\<exists>q. w_file w' = save q \<and> with_delivery i q"
proof -
  let ?w = "w1\<lparr>w_hint := False\<rparr>"
  from assms obtain repository scope wk w2 where
    en: "enqueue_and_wake e (unhinted_enqueue c e False (Some repository) None (Some i)) ?w = (Inr (scope, wk), w2)"
    and w': "w' = w2\<lparr>w_hint := w_hint w1\<rparr>"
    by (auto simp: live_edge_sync_def Let_def split: if_splits json.splits prod.splits sum.splits)
  from en obtain w3 where u: "unhinted_enqueue c e False (Some repository) None (Some i) ?w = (Inr scope, w3)"
    and w2: "w2 = w3 \<or> (\<exists>r. wake e w3 = (r, w2))"
    by (auto simp: enqueue_and_wake_def and_then_Inr split: if_splits)
  from u obtain w4 where "core_enqueue c e False (Some repository) None (Some i) ?w = (Inr scope, w4)"
    and w3: "w3 = w4\<lparr>w_hint := False\<rparr>"
    by (auto simp: unhinted_enqueue_def and_then_Inr)
  from core_enqueue_known [OF this(1)] obtain q where "w_file w4 = save q" "with_delivery i q" by blast
  moreover have "wake e w3 = (r, w2) \<Longrightarrow> w_file w2 = w_file w3" for r
    by (auto simp: wake_def lease_request_def calling_def and_then_def Let_def
      split: prod.splits sum.splits if_splits http_result.splits json.splits)
  ultimately show ?thesis using w' w2 w3 by auto
qed

definition sample_merge :: dict where
  "sample_merge = [(''repository'', JStr ''octo/app''), (''event'', JStr ''pull_request''), (''action'', JStr ''closed''),
     (''merged'', JBool True), (''label'', JStr []), (''delivery'', JStr ''d1'')]"

definition deferring_web :: web where
  "deferring_web = (sample_web NetValue (JObj [(''lease'', JStr ''l1'')]))
     \<lparr>w_net := \<lparr>respond = (\<lambda>_ x. case x of EdgeCall _ \<Rightarrow> HttpStatus 503 | _ \<Rightarrow> Response 200 ''{}''),
        parse_json = (\<lambda>_. Some (JObj [(''lease'', JStr ''l1'')]))\<rparr>,
      N8N_EDGE_SYNC_URL := ''http://localhost/webhook/hermes-github-edge-sync'',
      url_parse := (\<lambda>url. Some (sample_url (if url = ''http://localhost:5680'' then [] else ''/webhook/hermes-github-edge-sync'')))\<rparr>"

theorem deferred_edge_is_durable_witness:
  "\<exists>q. w_file (snd (live_edge_sync sample_cfg deferring_web sample_merge sample_world)) = save q \<and> with_delivery ''d1'' q"
proof -
  let ?l = "live_edge_sync sample_cfg deferring_web sample_merge sample_world"
  have "fst (n8n_edge_sync deferring_web sample_merge sample_world) = Inl (RouterError ''n8n edge-sync returned HTTP 503'')"
    by code_simp
  then obtain w1 where e: "n8n_edge_sync deferring_web sample_merge sample_world =
      (Inl (RouterError ''n8n edge-sync returned HTTP 503''), w1)" by (metis prod.collapse)
  have "case fst ?l of Inr _ \<Rightarrow> True | Inl _ \<Rightarrow> False" by code_simp
  then obtain d where l: "?l = (Inr d, snd ?l)" by (auto split: sum.splits simp: prod_eq_iff)
  have "dget_py sample_merge ''delivery'' = JStr ''d1''" by code_simp
  from deferred_edge_is_durable [OF e l this] show ?thesis .
qed

section \<open>The periodic intake\<close>

fun periodic_runs :: "router_cfg \<Rightarrow> web \<Rightarrow> nat \<Rightarrow> world \<Rightarrow> world" where
  "periodic_runs c e 0 w = w"
| "periodic_runs c e (Suc n) w = periodic_runs c e n (snd (periodic_full_intake_once c e w))"

definition parked_only :: "qstate \<Rightarrow> bool" where
  "parked_only q \<longleftrightarrow> q_queue q = [] \<and> q_claims q = [] \<and>
     (\<exists>p \<in> set (q_pending q). s_delivery (p_scope p) = Some PERIODIC_DELIVERY)"

lemma periodic_delivery_ok: "delivery_id_re PERIODIC_DELIVERY" "py_strip PERIODIC_DELIVERY = PERIODIC_DELIVERY"
  by code_simp+

lemma parked_opened: "parked_only q \<Longrightarrow> parked_only (opened c now q d)"
  by (force simp: parked_only_def opened_def spec_recover_def age_queue_def lost_scopes_def canon_pending_def)

lemma parked_once:
  assumes "cfg_ok c" and "undisturbed e" and "holds c t (w_file w) q" and "parked_only q"
    and "0 < t" and "t \<le> clock e (w_step w)"
  shows "\<exists>scope q'. periodic_full_intake_once c e w =
      (Inr (scope, wake_skipped), w\<lparr>w_file := save q', w_step := Suc (w_step w), w_hint := False\<rparr>) \<and>
    holds c (clock e (w_step w)) (save q') q' \<and> parked_only q'"
proof -
  let ?now = "clock e (w_step w)"
  have "0 < ?now" using assms by simp
  then obtain d where d: "load_state (w_file w) = Inr d"
    "\<And>tok. recover_scope_claims c ?now tok d = opened c ?now q d" "wf_state c ?now (opened c ?now q d)"
    by (rule holds_open [OF assms(1,3,6)]) blast
  define q' where "q' = opened c ?now q d"
  have pk: "parked_only q'" unfolding q'_def by (rule parked_opened [OF assms(4)])
  then have none: "q_queue q' = []" and "\<exists>p \<in> set (q_pending q'). s_delivery (p_scope p) = Some PERIODIC_DELIVERY"
    by (auto simp: parked_only_def)
  then obtain p where p: "find (\<lambda>p. s_delivery (p_scope p) = Some PERIODIC_DELIVERY) (q_pending q') = Some p"
    by (cases "find (\<lambda>p. s_delivery (p_scope p) = Some PERIODIC_DELIVERY) (q_pending q')") (auto simp: find_None_iff)
  define scope where "scope = dset ''pending'' (JBool True) (dset ''existing'' (JBool True) (pending_dict p))"
  have "enqueue_scope c ?now tok uid True None None (Some PERIODIC_DELIVERY) (w_file w) = (Inr scope, save q')"
    for tok uid
  proof -
    have rec: "recover_scope_claims c ?now tok d = q'" unfolding q'_def by (rule d(2))
    show ?thesis
      by (simp add: enqueue_scope_def enqueue_repositories_def d(1) rec none p periodic_delivery_ok scope_def)
  qed
  then have "core_enqueue c e True None None (Some PERIODIC_DELIVERY) w = (Inr scope, w\<lparr>w_file := save q', w_step := Suc (w_step w)\<rparr>)"
    using assms(2) by (simp add: core_enqueue_def locked_def undisturbed_def Let_def)
  moreover have "scope_active scope"
    by (simp add: scope_active_def scope_def dget_py_def dget_or_def truthy_def)
  ultimately have "periodic_full_intake_once c e w =
      (Inr (scope, wake_skipped), w\<lparr>w_file := save q', w_step := Suc (w_step w), w_hint := False\<rparr>)"
    by (simp add: periodic_full_intake_once_def enqueue_and_wake_def live_enqueue_def unhint_def)
  with d(3) pk show ?thesis by (auto simp: q'_def holds_saved)
qed

text \<open>C35: a parked periodic scope disables the periodic intake. Once the periodic scope has used its
  attempts and lies in the pending list of an otherwise idle router, no later period queues a
  scope or wakes anything, however many there are: the entry is found each time, never
  retried and never removed.\<close>

theorem periodic_intake_stops:
  assumes "cfg_ok c" and "undisturbed e" and "holds c t (w_file w) q" and "parked_only q"
    and "0 < t" and "t \<le> clock e (w_step w)" and "\<And>m. clock e m \<le> clock e (Suc m)"
  shows "w_calls (periodic_runs c e n w) = w_calls w \<and> w_pauses (periodic_runs c e n w) = w_pauses w \<and>
    (\<exists>t' q'. holds c t' (w_file (periodic_runs c e n w)) q' \<and> parked_only q')"
  using assms(3-6)
proof (induction n arbitrary: w t q)
  case (Suc n)
  obtain scope q' where once: "periodic_full_intake_once c e w =
      (Inr (scope, wake_skipped), w\<lparr>w_file := save q', w_step := Suc (w_step w), w_hint := False\<rparr>)"
    and q': "holds c (clock e (w_step w)) (save q') q'" "parked_only q'"
    using parked_once [OF assms(1,2) Suc.prems] by blast
  have "0 < clock e (w_step w)" using Suc.prems by simp
  with Suc.IH [of "clock e (w_step w)" "w\<lparr>w_file := save q', w_step := Suc (w_step w), w_hint := False\<rparr>" q']
    q' assms(7) once
  show ?case by simp
qed auto

section \<open>Sample runs\<close>

text \<open>
  How a scope gets parked: it is queued at time 10 and no worker comes. Every later look at the
  queue finds it expired and spends an attempt, and the third one parks it.
\<close>

definition sample_parked :: qstate where
  "sample_parked = \<lparr>q_queue = [], q_claims = [], q_pending =
     [\<lparr>p_scope = \<lparr>s_id = ''u1'', s_mode = ''full'', s_repositories = [], s_created_at = 10, s_expires_at = 1000,
         s_attempts = 3, s_not_before = 700, s_delivery = Some PERIODIC_DELIVERY\<rparr>,
       p_at = 1200, p_reason = ''scope_expired''\<rparr>],
     q_rest = encode_state \<lparr>q_queue = [], q_claims = [], q_pending = [], q_rest = []\<rparr>\<rparr>"

definition sample_periodic_run :: state_file where
  "sample_periodic_run = snd (run_op sample_cfg 1200 (\<lambda>_. []) Status (snd (run_op sample_cfg 700 (\<lambda>_. []) Status
     (snd (run_op sample_cfg 400 (\<lambda>_. []) Status
       (snd (run_op sample_cfg 10 (\<lambda>_. []) (Enqueue ''u1'' True None None (Some PERIODIC_DELIVERY)) FMissing)))))))"

lemma sample_gets_parked: "sample_periodic_run = save sample_parked"
  by code_simp

lemma sample_parked_ok: "parked_only sample_parked" "wf_state sample_cfg 1200 sample_parked"
  by code_simp+

theorem periodic_intake_stops_witness:
  "w_pauses (periodic_runs sample_cfg ((sample_web (Response 200 []) JNull)\<lparr>clock := (\<lambda>n. 3600 + 3600 * int n)\<rparr>) 48
     (sample_world\<lparr>w_file := sample_periodic_run\<rparr>)) = []"
proof -
  let ?e = "(sample_web (Response 200 []) JNull)\<lparr>clock := (\<lambda>n. 3600 + 3600 * int n)\<rparr>"
  let ?w = "sample_world\<lparr>w_file := sample_periodic_run\<rparr>"
  have h: "holds sample_cfg 1200 (w_file ?w) sample_parked"
    using sample_parked_ok(2) by (simp add: sample_gets_parked holds_saved)
  have u: "undisturbed ?e" by (simp add: undisturbed_def sample_web_def)
  have "1200 \<le> clock ?e (w_step ?w)" "clock ?e m \<le> clock ?e (Suc m)" for m by (simp_all add: sample_world_def)
  from periodic_intake_stops [OF sample_cfg_ok u h sample_parked_ok(1) _ this]
  show ?thesis by (simp add: sample_world_def)
qed

end
