(* ===== verification/LeaseController.thy ===== *)
theory LeaseController
  imports RouterHandler
begin

text \<open>
  The lease controller (automation/n8n/lease-controller/controller.py): it accepts a trigger, calls the
  intake actuator in a background thread with bounded retries while it is busy, and records in a
  state file whether the latest lease is pending, active, failed or paused.
\<close>

section \<open>The state file\<close>

datatype lease_file = LMissing | LUnreadable string | LNotUtf8 | LInvalid | LTree json

fun load_lease :: "lease_file \<Rightarrow> dict res" where
  "load_lease LMissing = Inr []"
| "load_lease (LUnreadable m) = Inl (RuntimeError (''cannot read lease state: '' @ m))"
| "load_lease LNotUtf8 = Inl (PyError ''UnicodeDecodeError'')"
| "load_lease LInvalid = Inl (RuntimeError ''lease state is invalid JSON'')"
| "load_lease (LTree t) = (case json_plain t of JObj d \<Rightarrow> Inr d
     | _ \<Rightarrow> Inl (RuntimeError ''lease state must be a JSON object''))"

definition write_lease :: "dict \<Rightarrow> lease_file" where
  "write_lease d = LTree (JObj d)"

section \<open>Calling the actuator\<close>

definition ACTUATOR_BUSY_RETRY_SECONDS :: "nat list" where
  "ACTUATOR_BUSY_RETRY_SECONDS = [1, 5, 15, 30, 60, 120]"

definition validated_actuator_base_url :: "(string \<Rightarrow> parsed_url option) \<Rightarrow> string \<Rightarrow> string res" where
  "validated_actuator_base_url parse base = (case parse base of
      None \<Rightarrow> Inl (RuntimeError ''LEASE_ACTUATOR_BASE_URL is malformed'')
    | Some u \<Rightarrow> (case u_port u of
          None \<Rightarrow> Inl (RuntimeError ''LEASE_ACTUATOR_BASE_URL is malformed'')
        | Some port \<Rightarrow>
            if u_scheme u \<notin> {''http'', ''https''} \<or> \<not> loopback u \<or> \<not> bare_url u \<or> u_path u \<notin> {'''', ''/''}
            then Inl (RuntimeError ''LEASE_ACTUATOR_BASE_URL must be a loopback URL'')
            else if bad_port port then Inl (RuntimeError ''LEASE_ACTUATOR_BASE_URL has an invalid port'')
            else Inr (rstrip_slash base)))"

text \<open>
  One call, given the checked URL and the actuator's answer; the text of a transport error is its
  message.
\<close>

definition call_actuator :: "string res \<Rightarrow> http_result \<Rightarrow> (int \<times> string) res" where
  "call_actuator base_url answer = (case base_url of Inl x \<Rightarrow> Inl x | Inr url \<Rightarrow> (case answer of
      Response status raw \<Rightarrow> if int (length raw) > 65536
        then Inl (RuntimeError ''intake actuator response is too large'') else Inr (status, raw)
    | HttpStatus sc \<Rightarrow> Inr (sc, [])
    | NetOS m \<Rightarrow> Inl (RuntimeError (''intake actuator request failed: '' @ m))
    | NetValue \<Rightarrow> Inl (RuntimeError ''intake actuator request failed: '')
    | NetOther name \<Rightarrow> Inl (PyError name)))"

text \<open>
  The retry loop over the attempts that are left: the result, the number of calls and the seconds slept.
\<close>

fun busy_loop ::
  "string res \<Rightarrow> (nat \<Rightarrow> http_result) \<Rightarrow> nat \<Rightarrow> nat \<Rightarrow> nat \<Rightarrow> (int \<times> string) res \<times> nat \<times> nat" where
  "busy_loop base_url answers attempt 0 slept =
     (Inl (RuntimeError ''intake actuator retry loop exhausted''), attempt, slept)"
| "busy_loop base_url answers attempt (Suc left) slept =
     (case call_actuator base_url (answers attempt) of
        Inl x \<Rightarrow> (Inl x, Suc attempt, slept)
      | Inr (status, body) \<Rightarrow>
          if status \<noteq> 409 then (Inr (status, body), Suc attempt, slept)
          else if attempt \<ge> length ACTUATOR_BUSY_RETRY_SECONDS then (Inr (status, body), Suc attempt, slept)
          else busy_loop base_url answers (Suc attempt) left (slept + ACTUATOR_BUSY_RETRY_SECONDS ! attempt))"

definition call_actuator_serialized ::
  "string res \<Rightarrow> (nat \<Rightarrow> http_result) \<Rightarrow> (int \<times> string) res \<times> nat \<times> nat" where
  "call_actuator_serialized base_url answers =
     busy_loop base_url answers 0 (length ACTUATOR_BUSY_RETRY_SECONDS + 1) 0"

section \<open>Operations\<close>

type_synonym 'a lease_result = "'a res \<times> lease_file"

fun exn_text :: "exn \<Rightarrow> string" where
  "exn_text (RouterError m) = m"
| "exn_text (RegistryError m) = m"
| "exn_text (RuntimeError m) = m"
| "exn_text (CompletionError m _) = m"
| "exn_text (SyncError m) = m"
| "exn_text (PyError m) = m"

definition lease_of :: "dict \<Rightarrow> string" where
  "lease_of d = py_str (dget_or d ''lease'' (JStr []))"

definition trigger :: "string \<Rightarrow> lease_file \<Rightarrow> unit lease_result" where
  "trigger lease f = (case load_lease f of Inl x \<Rightarrow> (Inl x, f)
     | Inr _ \<Rightarrow> (Inr (), write_lease [(''lease'', JStr lease), (''status'', JStr ''pending'')]))"

definition settled :: "string \<Rightarrow> string \<Rightarrow> int \<Rightarrow> lease_file" where
  "settled lease status upstream = write_lease
     [(''lease'', JStr lease), (''status'', JStr status), (''upstream_status'', JInt upstream)]"

text \<open>What the background thread does once the call has ended; only \<open>RuntimeError\<close> is caught.\<close>

definition finish_trigger :: "string \<Rightarrow> (int \<times> string) res \<Rightarrow> lease_file \<Rightarrow> unit lease_result" where
  "finish_trigger lease outcome f = (case outcome of
      Inl (RuntimeError m) \<Rightarrow> (case load_lease f of Inl x \<Rightarrow> (Inl x, f) | Inr state \<Rightarrow>
        if lease_of state = lease
        then (Inr (), write_lease (dset ''trigger_error'' (JStr m) state)) else (Inr (), f))
    | Inl x \<Rightarrow> (Inl x, f)
    | Inr (status, body) \<Rightarrow> (case load_lease f of Inl x \<Rightarrow> (Inl x, f) | Inr state \<Rightarrow>
        if lease_of state \<noteq> lease then (Inr (), f)
        else if \<not> (200 \<le> status \<and> status < 300) then (Inr (), settled lease ''failed'' status)
        else if truthy (dget_py state ''pause_requested'') then (Inr (), settled lease ''paused'' status)
        else (Inr (), settled lease ''active'' status)))"

definition pause_reply :: "int \<Rightarrow> bool \<Rightarrow> bool \<Rightarrow> string \<Rightarrow> reply" where
  "pause_reply status ok paused reason =
     Reply status [(''ok'', JBool ok), (''paused'', JBool paused), (''reason'', JStr reason)]"

definition pause :: "string \<Rightarrow> lease_file \<Rightarrow> reply lease_result" where
  "pause lease f = (case load_lease f of Inl x \<Rightarrow> (Inl x, f) | Inr state \<Rightarrow>
     let current = lease_of state; current_status = py_str (dget_or state ''status'' (JStr [])) in
     if current = [] \<or> lease \<noteq> current then (Inr (pause_reply 200 True False ''superseded''), f)
     else if current_status = ''paused'' then (Inr (pause_reply 200 True True ''already_paused''), f)
     else if current_status = ''pending'' then
       (Inr (pause_reply 202 True False ''pause_queued''),
        write_lease (dset ''pause_requested'' (JBool True) state))
     else if current_status \<noteq> ''active'' then (Inr (pause_reply 409 False False ''lease_not_active''), f)
     else (Inr (Reply 200 [(''ok'', JBool True), (''paused'', JBool True)]),
           write_lease [(''lease'', JStr lease), (''status'', JStr ''paused'')]))"

section \<open>Starting up\<close>

text \<open>The canonical text of a UUID: lower-case hexadecimal digits in groups of 8, 4, 4, 4 and 12.\<close>

definition lower_hex :: "char \<Rightarrow> bool" where
  "lower_hex c \<longleftrightarrow> is_digit c \<or> (97 \<le> code c \<and> code c \<le> 102)"

definition canonical_uuid :: "string \<Rightarrow> bool" where
  "canonical_uuid s \<longleftrightarrow> length s = 36 \<and>
     list_all (\<lambda>(i, c). if i \<in> {8, 13, 18, 23} then c = CHR ''-'' else lower_hex c) (zip [0..<36] s)"

definition canonical_lease_id :: "json \<Rightarrow> string" where
  "canonical_lease_id v = (case v of JStr s \<Rightarrow> if canonical_uuid s then s else [] | _ \<Rightarrow> [])"

definition read_token :: "secret_file \<Rightarrow> string res" where
  "read_token file = (case file of
      SecretMissing \<Rightarrow> Inl (RuntimeError ''intake control token unavailable'')
    | SecretNotUtf8 \<Rightarrow> Inl (PyError ''UnicodeDecodeError'')
    | SecretText text \<Rightarrow> let value = py_strip text in
        if value = [] then Inl (RuntimeError ''intake control token empty'') else Inr value)"

text \<open>The lease and authorization of the thread that is started, if one is.\<close>

definition resume_pending_trigger :: "secret_file \<Rightarrow> lease_file \<Rightarrow> (string \<times> string) option res" where
  "resume_pending_trigger token f = (case load_lease f of Inl x \<Rightarrow> Inl x | Inr state \<Rightarrow>
     if dget_py state ''status'' \<noteq> JStr ''pending'' then Inr None
     else let lease = canonical_lease_id (dget_py state ''lease'') in
       if lease = [] then Inr None
       else (case read_token token of Inl x \<Rightarrow> Inl x | Inr t \<Rightarrow> Inr (Some (lease, ''Bearer '' @ t))))"

section \<open>Requests\<close>

text \<open>\<open>hmac.compare_digest\<close> raises on text that is not ASCII.\<close>

definition lease_authorized :: "secret_file \<Rightarrow> string \<Rightarrow> bool res" where
  "lease_authorized token header =
     (if \<not> starts_with header ''Bearer '' then Inr False
      else let supplied = py_strip (drop 7 header) in
        case read_token token of
          Inl (RuntimeError m) \<Rightarrow> Inr False
        | Inl x \<Rightarrow> Inl x
        | Inr expected \<Rightarrow>
            if supplied = [] then Inr False
            else if \<not> is_ascii supplied \<or> \<not> is_ascii expected then Inl (PyError ''TypeError'')
            else Inr (supplied = expected))"

datatype control_request = TriggerRequest | PauseRequest string | OtherRequest

text \<open>
  A \<open>POST\<close>: its reply and, for a trigger, the background thread it starts. The argument of a pause is
  the value of the query; a fresh \<open>uuid4\<close> is given for a trigger.
\<close>

definition lease_POST ::
  "secret_file \<Rightarrow> string option \<Rightarrow> control_request \<Rightarrow> string \<Rightarrow> lease_file \<Rightarrow>
   reply res \<times> (string \<times> string) option \<times> lease_file" where
  "lease_POST token header req uid f =
     (let authorization = py_strip (header_or header []) in
      case lease_authorized token authorization of
        Inl x \<Rightarrow> (Inl x, None, f)
      | Inr authorized \<Rightarrow>
          if \<not> authorized then (Inr (error_reply 401 ''authorization_required''), None, f)
          else (case req of
            TriggerRequest \<Rightarrow> (case trigger uid f of
                (Inl (RuntimeError m), f) \<Rightarrow> (Inr (error_reply 503 m), None, f)
              | (Inl x, f) \<Rightarrow> (Inl x, None, f)
              | (Inr _, f) \<Rightarrow> (Inr (Reply 202 [(''ok'', JBool True), (''accepted'', JBool True),
                    (''lease'', JStr uid)]), Some (uid, authorization), f))
          | PauseRequest raw \<Rightarrow> (let lease = py_strip raw in
              if lease = [] then (Inr (error_reply 400 ''lease_required''), None, f)
              else (case pause lease f of
                  (Inl (RuntimeError m), f) \<Rightarrow> (Inr (error_reply 503 m), None, f)
                | (Inl x, f) \<Rightarrow> (Inl x, None, f)
                | (Inr r, f) \<Rightarrow> (Inr r, None, f)))
          | OtherRequest \<Rightarrow> (Inr (error_reply 404 ''not_found''), None, f)))"

definition lease_healthz :: "lease_file \<Rightarrow> reply res" where
  "lease_healthz f = (case load_lease f of
      Inl (RuntimeError m) \<Rightarrow> Inr (error_reply 503 m)
    | Inl x \<Rightarrow> Inl x
    | Inr state \<Rightarrow> Inr (Reply 200 [(''ok'', JBool True), (''lease_status'', dget_or state ''status'' (JStr ''none''))]))"

end
