(* ===== verification/LeaseGuarantees.thy ===== *)
theory LeaseGuarantees
  imports LeaseController
begin

text \<open>
  The lease controller as a machine of requests, background threads and restarts, the abstract
  lease it implements, and its guarantees: the latest trigger owns the state, a pause
  that was queued wins, a paused or failed lease stays so, and retries are bounded.
\<close>

section \<open>The state file as a store\<close>

interpretation lease_store: durable_store load_lease write_lease "\<lambda>d. json_wf (JObj d)"
proof unfold_locales
  show "load_lease (write_lease d) = Inr d" if "json_wf (JObj d)" for d
    using json_plain_wf [OF that] by (simp add: write_lease_def)
  show "json_wf (JObj d)" if "load_lease f = Inr d" for f d
  proof (cases f)
    case (LTree t)
    with that json_plain_result_wf [of t] show ?thesis by (auto split: json.splits simp del: json_wf.simps)
  qed (use that in auto)
qed

section \<open>The abstract lease\<close>

text \<open>What the file says: the latest lease, its status, and whether a pause is requested.\<close>

record lease_view =
  v_lease :: string
  v_status :: string
  v_pause :: bool

definition view_dict :: "dict \<Rightarrow> lease_view" where
  "view_dict d = \<lparr>v_lease = lease_of d, v_status = py_str (dget_or d ''status'' (JStr [])),
     v_pause = truthy (dget_py d ''pause_requested'')\<rparr>"

definition view :: "lease_file \<Rightarrow> lease_view option" where
  "view f = (case load_lease f of Inl _ \<Rightarrow> None | Inr d \<Rightarrow> Some (view_dict d))"

definition view_pause :: "string \<Rightarrow> lease_view \<Rightarrow> lease_view" where
  "view_pause l v = (if v_lease v = [] \<or> l \<noteq> v_lease v then v
     else if v_status v = ''pending'' then v\<lparr>v_pause := True\<rparr>
     else if v_status v = ''active'' then v\<lparr>v_status := ''paused'', v_pause := False\<rparr> else v)"

definition view_finish :: "string \<Rightarrow> (int \<times> string) res \<Rightarrow> lease_view \<Rightarrow> lease_view" where
  "view_finish l outcome v = (case outcome of Inl _ \<Rightarrow> v
     | Inr (status, _) \<Rightarrow> if v_lease v \<noteq> l then v
         else \<lparr>v_lease = l, v_status = (if \<not> (200 \<le> status \<and> status < 300) then ''failed''
                 else if v_pause v then ''paused'' else ''active''), v_pause = False\<rparr>)"

lemmas view_simps = view_dict_def lease_of_def dget_py_def dget_or_def py_str_def truthy_def

lemma view_write: "json_wf (JObj d) \<Longrightarrow> view (write_lease d) = Some (view_dict d)"
  by (simp add: view_def lease_store.load_save)

lemma settled_view: "view (settled l s u) = Some \<lparr>v_lease = l, v_status = s, v_pause = False\<rparr>"
  unfolding settled_def by (subst view_write) (simp_all add: view_simps)

lemma trigger_view:
  "view (snd (trigger l f)) = (if view f = None then None
     else Some \<lparr>v_lease = l, v_status = ''pending'', v_pause = False\<rparr>)"
  using view_write [of "[(''lease'', JStr l), (''status'', JStr ''pending'')]"]
  by (auto simp: trigger_def view_def view_simps split: sum.splits)

lemma pause_view: "view (snd (pause l f)) = map_option (view_pause l) (view f)"
proof (cases "load_lease f")
  case (Inr d)
  have wf: "json_wf (JObj (dset ''pause_requested'' (JBool True) d))"
    using lease_store.load_storable [OF Inr] by (rule json_wf_dset) simp
  have "view_dict (dset ''pause_requested'' (JBool True) d) = (view_dict d)\<lparr>v_pause := True\<rparr>"
    by (simp add: view_simps)
  moreover have "view (write_lease [(''lease'', JStr l), (''status'', JStr ''paused'')]) =
      Some \<lparr>v_lease = l, v_status = ''paused'', v_pause = False\<rparr>"
    by (subst view_write) (simp_all add: view_simps)
  ultimately show ?thesis
    using Inr view_write [OF wf]
    by (auto simp: pause_def Let_def view_pause_def view_def) (simp_all add: view_dict_def)
qed (simp add: pause_def view_def)

lemma finish_view: "view (snd (finish_trigger l outcome f)) = map_option (view_finish l outcome) (view f)"
proof (cases "load_lease f")
  case (Inl x)
  then show ?thesis by (auto simp: finish_trigger_def view_def split: sum.splits exn.splits)
next
  case (Inr d)
  have e: "view (write_lease (dset ''trigger_error'' (JStr m) d)) = view f" for m
    using view_write [OF json_wf_dset [OF lease_store.load_storable [OF Inr]], of "JStr m" "''trigger_error''"] Inr
    by (simp add: view_def view_simps)
  have v: "view f = Some (view_dict d)" "v_lease (view_dict d) = lease_of d"
    "v_pause (view_dict d) = truthy (dget_py d ''pause_requested'')"
    using Inr by (simp_all add: view_def) (simp_all add: view_dict_def)
  show ?thesis
  proof (cases outcome)
    case (Inl x)
    with v e \<open>load_lease f = Inr d\<close> show ?thesis
      by (cases x) (simp_all add: finish_trigger_def view_finish_def)
  next
    case (Inr r)
    obtain status body where "r = (status, body)" by fastforce
    with v Inr \<open>load_lease f = Inr d\<close> show ?thesis
      by (simp add: finish_trigger_def view_finish_def settled_view)
  qed
qed

section \<open>The machine\<close>

text \<open>
  The file and the background threads, each with its lease and its authorization. A trigger has a
  fresh canonical identifier; a thread ends with some outcome of its calls; a restart loses the
  threads and resumes what is pending.
\<close>

record lease_world =
  l_file :: lease_file
  l_threads :: "(string \<times> string) list"

datatype lease_event = Triggered string | Paused string reply | Finished string "(int \<times> string) res" | Restarted

inductive lease_step :: "secret_file \<Rightarrow> lease_world \<Rightarrow> lease_event \<Rightarrow> lease_world \<Rightarrow> bool" for token where
  step_trigger: "canonical_uuid l \<Longrightarrow> l \<notin> set (map fst ts) \<Longrightarrow> trigger l f = (Inr (), f') \<Longrightarrow>
     lease_step token \<lparr>l_file = f, l_threads = ts\<rparr> (Triggered l) \<lparr>l_file = f', l_threads = ts @ [(l, a)]\<rparr>"
| step_pause: "pause l f = (Inr r, f') \<Longrightarrow>
     lease_step token \<lparr>l_file = f, l_threads = ts\<rparr> (Paused l r) \<lparr>l_file = f', l_threads = ts\<rparr>"
| step_finish: "(l, a) \<in> set ts \<Longrightarrow> finish_trigger l outcome f = (r', f') \<Longrightarrow>
     lease_step token \<lparr>l_file = f, l_threads = ts\<rparr> (Finished l outcome)
       \<lparr>l_file = f', l_threads = remove1 (l, a) ts\<rparr>"
| step_restart: "resume_pending_trigger token f = Inr ot \<Longrightarrow>
     lease_step token \<lparr>l_file = f, l_threads = ts\<rparr> Restarted
       \<lparr>l_file = f, l_threads = (case ot of None \<Rightarrow> [] | Some t \<Rightarrow> [t])\<rparr>"

inductive_cases lease_stepE: "lease_step token w ev w'"

inductive lease_run :: "secret_file \<Rightarrow> lease_world \<Rightarrow> lease_event list \<Rightarrow> lease_world \<Rightarrow> bool" for token where
  run_none: "lease_run token w [] w"
| run_more: "lease_step token w ev w' \<Longrightarrow> lease_run token w' evs w'' \<Longrightarrow> lease_run token w (ev # evs) w''"

text \<open>The worlds a controller leaves that starts without a file.\<close>

definition lease_reachable :: "secret_file \<Rightarrow> lease_world \<Rightarrow> bool" where
  "lease_reachable token w \<longleftrightarrow> (\<exists>evs. lease_run token \<lparr>l_file = LMissing, l_threads = []\<rparr> evs w)"

definition no_view :: lease_view where
  "no_view = \<lparr>v_lease = [], v_status = [], v_pause = False\<rparr>"

text \<open>Threads are of different leases, and the thread of the latest lease only runs while it is pending.\<close>

definition threads_ok :: "lease_world \<Rightarrow> bool" where
  "threads_ok w \<longleftrightarrow> distinct (map fst (l_threads w)) \<and> (\<exists>v. view (l_file w) = Some v \<and>
     (\<forall>(l, a) \<in> set (l_threads w). l \<noteq> [] \<and> (l = v_lease v \<longrightarrow> v_status v = ''pending'')))"

lemma missing_ok: "threads_ok \<lparr>l_file = LMissing, l_threads = []\<rparr>"
  by (simp add: threads_ok_def view_def)

lemma canonical_nonempty: "canonical_uuid l \<Longrightarrow> l \<noteq> []"
  by (auto simp: canonical_uuid_def)

lemma trigger_effect: "trigger l f = (Inr (), f') \<Longrightarrow> view f' = Some \<lparr>v_lease = l, v_status = ''pending'', v_pause = False\<rparr>"
  using trigger_view [of l f] by (auto simp: trigger_def view_def split: sum.splits)

lemma resume_effect:
  "resume_pending_trigger token f = Inr (Some (l, a)) \<Longrightarrow>
   l \<noteq> [] \<and> (\<exists>v. view f = Some v \<and> v_lease v = l \<and> v_status v = ''pending'')"
  by (auto simp: resume_pending_trigger_def canonical_lease_id_def view_def view_simps Let_def
      split: sum.splits if_splits json.splits option.splits)

lemma threads_ok_step: "lease_step token w ev w' \<Longrightarrow> threads_ok w \<Longrightarrow> threads_ok w'"
proof (induction rule: lease_step.induct)
  case (step_trigger l ts f f' a)
  then show ?case using trigger_effect canonical_nonempty by (fastforce simp: threads_ok_def)
next
  case (step_pause l f r f' ts)
  then obtain v where v: "view f = Some v" "\<forall>(l, a) \<in> set ts. l \<noteq> [] \<and> (l = v_lease v \<longrightarrow> v_status v = ''pending'')"
    and d: "distinct (map fst ts)" by (auto simp: threads_ok_def)
  have "view f' = Some (view_pause l v)" using pause_view [of l f] step_pause(1) v(1) by simp
  moreover have "v_lease (view_pause l v) = v_lease v"
    "v_status v = ''pending'' \<longrightarrow> v_status (view_pause l v) = ''pending''" by (auto simp: view_pause_def)
  ultimately show ?case using v d by (fastforce simp: threads_ok_def)
next
  case (step_finish l a ts outcome f r' f')
  then obtain v where v: "view f = Some v" "\<forall>(l, a) \<in> set ts. l \<noteq> [] \<and> (l = v_lease v \<longrightarrow> v_status v = ''pending'')"
    and d: "distinct (map fst ts)" by (auto simp: threads_ok_def)
  have f': "view f' = Some (view_finish l outcome v)" using finish_view [of l outcome f] step_finish(2) v(1) by simp
  have gone: "l \<notin> set (map fst (remove1 (l, a) ts))"
    using d step_finish(1) by (fastforce simp: distinct_map inj_on_def)
  have "distinct (map fst (remove1 (l, a) ts))"
    using d by (auto simp: distinct_map intro: inj_on_subset dest: set_remove1_subset [THEN subsetD])
  moreover have "l' \<noteq> [] \<and> (l' = v_lease (view_finish l outcome v) \<longrightarrow> v_status (view_finish l outcome v) = ''pending'')"
    if "(l', a') \<in> set (remove1 (l, a) ts)" for l' a'
  proof -
    have "l' \<in> set (map fst (remove1 (l, a) ts))" using imageI [OF that, of fst] by simp
    with gone have "l' \<noteq> l" by blast
    moreover have "(l', a') \<in> set ts" using that set_remove1_subset by fastforce
    ultimately show ?thesis using v(2) by (auto simp: view_finish_def split: sum.splits prod.splits)
  qed
  ultimately show ?case using f' by (auto simp: threads_ok_def)
next
  case (step_restart f ot ts)
  then show ?case using resume_effect by (fastforce simp: threads_ok_def split: option.splits)
qed

lemma threads_ok_run: "lease_run token w evs w' \<Longrightarrow> threads_ok w \<Longrightarrow> threads_ok w'"
  by (induction rule: lease_run.induct) (auto dest: threads_ok_step)

lemma reachable_ok: "lease_reachable token w \<Longrightarrow> threads_ok w"
  unfolding lease_reachable_def using threads_ok_run missing_ok by blast

lemma run_append: "lease_run token w evs w' \<Longrightarrow> lease_run token w' evs' w'' \<Longrightarrow> lease_run token w (evs @ evs') w''"
  by (induction rule: lease_run.induct) (auto intro: run_more)

section \<open>Guarantees\<close>

text \<open>
  What stays true of the latest lease while no new trigger comes: an invariant of views that pausing
  keeps, and that finishing keeps when it happens to a pending lease.
\<close>

lemma run_view_keeps:
  assumes "lease_run token w evs w'" and "threads_ok w" and "\<forall>l. Triggered l \<notin> set evs"
    and "view (l_file w) = Some v" and "P v"
    and "\<And>l v. P v \<Longrightarrow> P (view_pause l v)"
    and "\<And>l outcome v. P v \<Longrightarrow> v_lease v = l \<longrightarrow> v_status v = ''pending'' \<Longrightarrow> P (view_finish l outcome v)"
  shows "\<exists>v'. view (l_file w') = Some v' \<and> P v'"
  using assms
proof (induction arbitrary: v rule: lease_run.induct)
  case (run_more w ev w' evs w'')
  have ok: "threads_ok w'" using run_more.hyps(1) run_more.prems(1) by (rule threads_ok_step)
  from run_more.hyps(1) have "\<exists>v'. view (l_file w') = Some v' \<and> P v'"
  proof (cases rule: lease_step.cases)
    case (step_trigger l ts f f' a)
    with run_more.prems(2) show ?thesis by auto
  next
    case (step_pause l f r f' ts)
    with pause_view [of l f] run_more.prems show ?thesis by auto
  next
    case (step_finish l a ts outcome f r f')
    then have "v_lease v = l \<longrightarrow> v_status v = ''pending''"
      using run_more.prems(1,3) by (auto simp: threads_ok_def)
    with step_finish finish_view [of l outcome f] run_more.prems show ?thesis by auto
  next
    case (step_restart f ot ts)
    with run_more.prems show ?thesis by auto
  qed
  then obtain v' where "view (l_file w') = Some v'" "P v'" by blast
  with run_more.IH [OF ok _ this] run_more.prems show ?case by auto
qed blast

text \<open>C30: the latest trigger owns the lease. After a trigger, whatever pauses come, whichever background
  threads end with whatever outcome, and however often the controller restarts, the state stays
  that of the triggered lease until the next trigger, and its status is pending, active,
  failed or paused.\<close>

theorem latest_trigger_owns:
  assumes "lease_reachable token w" and "lease_step token w (Triggered l) w1"
    and "lease_run token w1 evs w2" and "\<forall>l'. Triggered l' \<notin> set evs"
  shows "\<exists>v. view (l_file w2) = Some v \<and> v_lease v = l \<and>
    v_status v \<in> {''pending'', ''active'', ''failed'', ''paused''}"
proof -
  have ok: "threads_ok w1" by (rule threads_ok_step [OF assms(2) reachable_ok [OF assms(1)]])
  have "view (l_file w1) = Some \<lparr>v_lease = l, v_status = ''pending'', v_pause = False\<rparr>"
    using assms(2) by (cases rule: lease_step.cases) (auto dest: trigger_effect)
  then show ?thesis
    by (rule run_view_keeps [OF assms(3) ok assms(4)])
      (auto simp: view_pause_def view_finish_def split: sum.splits)
qed


text \<open>A lease that is paused or has failed stays so until the next trigger.\<close>

theorem settled_lease_final:
  assumes "lease_reachable token w" and "view (l_file w) = Some v" and "v_status v \<in> {''paused'', ''failed''}"
    and "lease_run token w evs w'" and "\<forall>l'. Triggered l' \<notin> set evs"
  shows "\<exists>v'. view (l_file w') = Some v' \<and> v_lease v' = v_lease v \<and> v_status v' = v_status v"
  by (rule run_view_keeps [OF assms(4) reachable_ok [OF assms(1)] assms(5,2)])
    (use assms(3) in \<open>auto simp: view_pause_def view_finish_def split: sum.splits\<close>)

lemma busy_loop_stops:
  assumes "attempt + left = 7" and "0 < left" and "slept = sum_list (take attempt ACTUATOR_BUSY_RETRY_SECONDS)"
  shows "\<exists>k. attempt \<le> k \<and> k \<le> 6 \<and> busy_loop base_url answers attempt left slept =
      (call_actuator base_url (answers k), Suc k, sum_list (take k ACTUATOR_BUSY_RETRY_SECONDS)) \<and>
    (\<forall>j. attempt \<le> j \<and> j < k \<longrightarrow> (\<exists>body. call_actuator base_url (answers j) = Inr (409, body))) \<and>
    (k < 6 \<longrightarrow> (\<forall>body. call_actuator base_url (answers k) \<noteq> Inr (409, body)))"
  using assms
proof (induction left arbitrary: attempt slept)
  case (Suc left)
  have len: "length ACTUATOR_BUSY_RETRY_SECONDS = 6" by (simp add: ACTUATOR_BUSY_RETRY_SECONDS_def)
  show ?case
  proof (cases "(\<exists>body. call_actuator base_url (answers attempt) = Inr (409, body)) \<and> attempt < 6")
    case True
    then obtain body where b: "call_actuator base_url (answers attempt) = Inr (409, body)" by blast
    have "\<exists>k. Suc attempt \<le> k \<and> k \<le> 6 \<and> busy_loop base_url answers (Suc attempt) left (slept + ACTUATOR_BUSY_RETRY_SECONDS ! attempt) =
      (call_actuator base_url (answers k), Suc k, sum_list (take k ACTUATOR_BUSY_RETRY_SECONDS)) \<and>
      (\<forall>j. Suc attempt \<le> j \<and> j < k \<longrightarrow> (\<exists>body. call_actuator base_url (answers j) = Inr (409, body))) \<and>
      (k < 6 \<longrightarrow> (\<forall>body. call_actuator base_url (answers k) \<noteq> Inr (409, body)))"
      by (rule Suc.IH) (use True Suc.prems len in \<open>simp_all add: take_Suc_conv_app_nth\<close>)
    then obtain k where k: "Suc attempt \<le> k" "k \<le> 6" "busy_loop base_url answers (Suc attempt) left (slept + ACTUATOR_BUSY_RETRY_SECONDS ! attempt) =
      (call_actuator base_url (answers k), Suc k, sum_list (take k ACTUATOR_BUSY_RETRY_SECONDS))"
      "\<And>j. Suc attempt \<le> j \<Longrightarrow> j < k \<Longrightarrow> \<exists>body. call_actuator base_url (answers j) = Inr (409, body)"
      "k < 6 \<longrightarrow> (\<forall>body. call_actuator base_url (answers k) \<noteq> Inr (409, body))" by blast
    have "busy_loop base_url answers attempt (Suc left) slept =
      (call_actuator base_url (answers k), Suc k, sum_list (take k ACTUATOR_BUSY_RETRY_SECONDS))"
      using k(3) b True len by simp
    moreover have "\<exists>body. call_actuator base_url (answers j) = Inr (409, body)" if "attempt \<le> j" "j < k" for j
      using that b k(4) [of j] by (cases "j = attempt") auto
    ultimately show ?thesis using k(1,2,5) Suc_leD [OF k(1)] by blast
  next
    case False
    then have "busy_loop base_url answers attempt (Suc left) slept = (call_actuator base_url (answers attempt), Suc attempt, slept)"
      using len by (auto split: sum.splits)
    with False Suc.prems show ?thesis by (intro exI [of _ attempt]) auto
  qed
qed simp

text \<open>C31: retries of a busy actuator are bounded. One trigger makes at most seven calls and sleeps at
  most 231 seconds; its result is that of the first answer that is not a conflict, or of the
  seventh call.\<close>

theorem busy_retries_bounded:
  "\<exists>k \<le> 6. call_actuator_serialized base_url answers =
      (call_actuator base_url (answers k), Suc k, sum_list (take k ACTUATOR_BUSY_RETRY_SECONDS)) \<and>
    (\<forall>j < k. \<exists>body. call_actuator base_url (answers j) = Inr (409, body)) \<and>
    (k < 6 \<longrightarrow> (\<forall>body. call_actuator base_url (answers k) \<noteq> Inr (409, body))) \<and>
    sum_list (take k ACTUATOR_BUSY_RETRY_SECONDS) \<le> 231"
proof -
  obtain k where k: "k \<le> 6" "busy_loop base_url answers 0 7 0 =
      (call_actuator base_url (answers k), Suc k, sum_list (take k ACTUATOR_BUSY_RETRY_SECONDS))"
    "\<forall>j. 0 \<le> j \<and> j < k \<longrightarrow> (\<exists>body. call_actuator base_url (answers j) = Inr (409, body))"
    "k < 6 \<longrightarrow> (\<forall>body. call_actuator base_url (answers k) \<noteq> Inr (409, body))"
    using busy_loop_stops [of 0 7 0 base_url answers] by auto
  have "sum_list (take k ACTUATOR_BUSY_RETRY_SECONDS) \<le> sum_list (take k ACTUATOR_BUSY_RETRY_SECONDS @ drop k ACTUATOR_BUSY_RETRY_SECONDS)"
    unfolding sum_list_append by (rule le_add1)
  then have "sum_list (take k ACTUATOR_BUSY_RETRY_SECONDS) \<le> 231"
    by (simp add: ACTUATOR_BUSY_RETRY_SECONDS_def)
  moreover have "call_actuator_serialized base_url answers = busy_loop base_url answers 0 7 0"
  proof -
    have "length ACTUATOR_BUSY_RETRY_SECONDS + 1 = 7" by (simp add: ACTUATOR_BUSY_RETRY_SECONDS_def)
    then show ?thesis unfolding call_actuator_serialized_def by (rule arg_cong)
  qed
  ultimately show ?thesis using k by (intro exI [of _ k]) auto
qed

text \<open>An actuator that is busy twice: three calls, six seconds of sleep.\<close>

definition busy_twice :: "nat \<Rightarrow> http_result" where
  "busy_twice n = (if n < 2 then HttpStatus 409 else Response 200 ''{}'')"

lemma busy_twice_run:
  "call_actuator_serialized (Inr ''http://127.0.0.1:5681'') busy_twice = (Inr (200, ''{}''), 3, 6)"
  by code_simp

theorem busy_retries_bounded_witness:
  "\<exists>k \<le> 6. (Inr (200, ''{}''), 3, 6) =
      (call_actuator (Inr ''http://127.0.0.1:5681'') (busy_twice k), Suc k, sum_list (take k ACTUATOR_BUSY_RETRY_SECONDS))"
  using busy_retries_bounded [of "Inr ''http://127.0.0.1:5681''" busy_twice] unfolding busy_twice_run by blast

section \<open>A concrete run\<close>

definition lease1 :: string where
  "lease1 = ''123e4567-e89b-42d3-a456-426614174000''"

definition pending1 :: lease_file where
  "pending1 = write_lease [(''lease'', JStr lease1), (''status'', JStr ''pending'')]"

definition queued1 :: lease_file where
  "queued1 = write_lease [(''lease'', JStr lease1), (''status'', JStr ''pending''), (''pause_requested'', JBool True)]"

definition the_token :: secret_file where
  "the_token = SecretText ''tok''"

definition world0 :: lease_world where
  "world0 = \<lparr>l_file = LMissing, l_threads = []\<rparr>"

definition world1 :: lease_world where
  "world1 = \<lparr>l_file = pending1, l_threads = [(lease1, ''Bearer tok'')]\<rparr>"

definition world2 :: lease_world where
  "world2 = \<lparr>l_file = queued1, l_threads = [(lease1, ''Bearer tok'')]\<rparr>"

definition world3 :: lease_world where
  "world3 = \<lparr>l_file = settled lease1 ''paused'' 200, l_threads = []\<rparr>"

lemma triggered1: "lease_step the_token world0 (Triggered lease1) world1"
proof -
  have "lease_step the_token \<lparr>l_file = LMissing, l_threads = []\<rparr> (Triggered lease1)
      \<lparr>l_file = pending1, l_threads = [] @ [(lease1, ''Bearer tok'')]\<rparr>"
  proof (rule lease_step.step_trigger)
    show "canonical_uuid lease1" by code_simp
    show "trigger lease1 LMissing = (Inr (), pending1)" by code_simp
  qed simp
  then show ?thesis by (simp add: world0_def world1_def)
qed

lemma paused1: "lease_step the_token world1 (Paused lease1 (pause_reply 202 True False ''pause_queued'')) world2"
  unfolding world1_def world2_def by (rule lease_step.step_pause) code_simp

lemma finished1: "lease_step the_token world2 (Finished lease1 (Inr (200, []))) world3"
proof -
  have "lease_step the_token \<lparr>l_file = queued1, l_threads = [(lease1, ''Bearer tok'')]\<rparr> (Finished lease1 (Inr (200, [])))
      \<lparr>l_file = settled lease1 ''paused'' 200, l_threads = remove1 (lease1, ''Bearer tok'') [(lease1, ''Bearer tok'')]\<rparr>"
  proof (rule lease_step.step_finish)
    show "finish_trigger lease1 (Inr (200, [])) queued1 = (Inr (), settled lease1 ''paused'' 200)" by code_simp
  qed simp
  then show ?thesis by (simp add: world2_def world3_def)
qed

lemma restarted3: "lease_step the_token world3 Restarted world3"
proof -
  have "lease_step the_token \<lparr>l_file = settled lease1 ''paused'' 200, l_threads = []\<rparr> Restarted
      \<lparr>l_file = settled lease1 ''paused'' 200, l_threads = (case None of None \<Rightarrow> [] | Some t \<Rightarrow> [t])\<rparr>"
    by (rule lease_step.step_restart) code_simp
  then show ?thesis by (simp add: world3_def)
qed

lemma run_finish1: "lease_run the_token world2 [Finished lease1 (Inr (200, []))] world3"
  by (rule lease_run.run_more [OF finished1 lease_run.run_none])

lemma run_pause1: "lease_run the_token world1
    [Paused lease1 (pause_reply 202 True False ''pause_queued''), Finished lease1 (Inr (200, []))] world3"
  by (rule lease_run.run_more [OF paused1 run_finish1])

lemma reachable0: "lease_reachable the_token world0"
  using lease_run.run_none [of the_token world0] unfolding lease_reachable_def world0_def by blast

lemma reachable1: "lease_reachable the_token world1"
  using lease_run.run_more [OF triggered1 lease_run.run_none] unfolding lease_reachable_def world0_def by blast

lemma reachable3: "lease_reachable the_token world3"
  using lease_run.run_more [OF triggered1 run_pause1] unfolding lease_reachable_def world0_def by blast

lemma view3: "view (l_file world3) = Some \<lparr>v_lease = lease1, v_status = ''paused'', v_pause = False\<rparr>"
  by code_simp

theorem latest_trigger_owns_witness:
  "\<exists>v. view (l_file world3) = Some v \<and> v_lease v = lease1 \<and>
    v_status v \<in> {''pending'', ''active'', ''failed'', ''paused''}"
  by (rule latest_trigger_owns [OF reachable0 triggered1 run_pause1]) simp


theorem settled_lease_final_witness:
  "\<exists>v. view (l_file world3) = Some v \<and> v_lease v = lease1 \<and> v_status v = ''paused''"
  using settled_lease_final [OF reachable3 view3, of "[Restarted]" world3]
    lease_run.run_more [OF restarted3 lease_run.run_none] by simp

end
