(* ===== verification/RepoRegistry.thy ===== *)
theory RepoRegistry
  imports RouterWebhooks
begin

text \<open>
  The repository registry (automation/n8n/scripts/repository_registry.py): how a discovered repository
  is bound to its Kanban board, by the provenance recorded in the boards' tasks, and to its
  checkout, by the checkout's own remote; and the snapshot of all entries, read-only and failing
  closed.
\<close>

section \<open>Paths and the file system\<close>

text \<open>\<open>s.split(c)\<close>.\<close>

fun split_char :: "char \<Rightarrow> string \<Rightarrow> string list" where
  "split_char c [] = [[]]"
| "split_char c (x # s) = (if x = c then [] # split_char c s
     else (case split_char c s of [] \<Rightarrow> [[x]] | w # ws \<Rightarrow> (x # w) # ws))"

text \<open>
  \<open>PurePosixPath\<close>: the root is empty, one slash or exactly two; empty parts and dots are dropped.
\<close>

record path =
  p_root :: string
  p_parts :: "string list"

definition parse_path :: "string \<Rightarrow> path" where
  "parse_path s = \<lparr>p_root = (if starts_with s ''//'' \<and> \<not> starts_with s ''///'' then ''//''
       else if starts_with s ''/'' then ''/'' else ''''),
     p_parts = filter (\<lambda>p. p \<noteq> [] \<and> p \<noteq> ''.'') (split_char CHR ''/'' s)\<rparr>"

definition path_str :: "path \<Rightarrow> string" where
  "path_str p = (let s = p_root p @ join_with ''/'' (p_parts p) in if s = [] then ''.'' else s)"

definition is_absolute :: "path \<Rightarrow> bool" where
  "is_absolute p \<longleftrightarrow> p_root p \<noteq> []"

definition path_join :: "path \<Rightarrow> string \<Rightarrow> path" where
  "path_join p s = (let q = parse_path s in if is_absolute q then q else p\<lparr>p_parts := p_parts p @ p_parts q\<rparr>)"

text \<open>What a read of board metadata and a run of git can give.\<close>

datatype json_file = JUnreadable string | JNotUtf8 | JInvalid string | JTree json

datatype git_run = GitNotRun | GitExit int string

text \<open>
  The file system and the tools as the registry sees them: the directories below the boards root
  that hold a database, the keys in one, the metadata files, and git under a given environment.
\<close>

record fs =
  fs_exists :: "path \<Rightarrow> bool"
  fs_lexists :: "path \<Rightarrow> bool"
  fs_is_symlink :: "path \<Rightarrow> bool"
  fs_is_dir :: "path \<Rightarrow> bool"
  fs_is_file :: "path \<Rightarrow> bool"
  fs_boards :: "path \<Rightarrow> string list"
  fs_keys :: "path \<Rightarrow> string + json list"
  fs_json :: "path \<Rightarrow> json_file"
  fs_environ :: "(string \<times> string) list"
  fs_git_origin :: "(string \<times> string) list \<Rightarrow> path \<Rightarrow> git_run"

fun symlink_below :: "fs \<Rightarrow> path \<Rightarrow> string list \<Rightarrow> bool" where
  "symlink_below s current [] = False"
| "symlink_below s current (part # rest) =
     (let current = current\<lparr>p_parts := p_parts current @ [part]\<rparr> in
      (fs_lexists s current \<and> fs_is_symlink s current) \<or> symlink_below s current rest)"

definition path_has_symlink_component :: "fs \<Rightarrow> path \<Rightarrow> bool" where
  "path_has_symlink_component s p =
     (if \<not> is_absolute p then True
      else if list_ex (\<lambda>part. part \<in> {'''', ''.'', ''..''}) (p_parts p) then True
      else symlink_below s (p\<lparr>p_parts := []\<rparr>) (p_parts p))"

section \<open>Identities\<close>

definition ends_with :: "string \<Rightarrow> string \<Rightarrow> bool" where
  "ends_with s p \<longleftrightarrow> starts_with (rev s) (rev p)"

definition branch_char :: "char \<Rightarrow> bool" where
  "branch_char c \<longleftrightarrow> is_alnum c \<or> c \<in> {CHR ''.'', CHR ''_'', CHR ''/'', CHR ''-''}"

text \<open>The pattern: allowed characters, no forbidden pair, and a last character that is no dot or slash.\<close>

definition branch_re :: "string \<Rightarrow> bool" where
  "branch_re s \<longleftrightarrow> (case s of [] \<Rightarrow> False | c # rest \<Rightarrow>
     is_alnum c \<and> length rest \<le> 254 \<and> list_all branch_char rest) \<and>
     \<not> contains ''..'' s \<and> \<not> contains ''//'' s \<and> \<not> contains [CHR ''@'', CHR ''{''] s \<and>
     last s \<notin> {CHR ''.'', CHR ''/''}"

definition valid_branch :: "json \<Rightarrow> bool" where
  "valid_branch v = (case v of JStr s \<Rightarrow>
     if \<not> branch_re s then False
     else (let components = split_char CHR ''/'' s in
       \<not> (s \<in> {''.'', ''..'', ''@''}
          \<or> starts_with s ''-'' \<or> starts_with s ''.'' \<or> starts_with s ''/''
          \<or> ends_with s ''.'' \<or> ends_with s ''/'' \<or> ends_with s ''.lock''
          \<or> contains ''..'' s \<or> contains ''//'' s \<or> contains [CHR ''@'', CHR ''{''] s
          \<or> list_ex (\<lambda>component. starts_with component ''.'' \<or> ends_with component ''.lock'') components
          \<or> list_ex (\<lambda>character. character \<in> set ''~^:?*['' \<union> {char_of (92::nat)}) s))
   | _ \<Rightarrow> False)"

text \<open>No slash, no space, 1 to 255 characters.\<close>

definition board_re :: "string \<Rightarrow> bool" where
  "board_re s \<longleftrightarrow> fixed_length 1 255 s \<and> list_all (\<lambda>c. c \<noteq> CHR ''/'' \<and> \<not> is_space c) s"

text \<open>
  The repository of a key \<open>github:owner/name:issue:number\<close>, in any case; the repository part has no
  colon, so a key matches when it has these four parts.
\<close>

definition issue_key_repository :: "string \<Rightarrow> string option" where
  "issue_key_repository s = (case split_char CHR '':'' s of
     [github, name, issue, number] \<Rightarrow>
       if casefold github = ''github'' \<and> casefold issue = ''issue'' \<and>
          number \<noteq> [] \<and> list_all is_digit number \<and>
          CHR ''/'' \<in> set (butlast (tl name)) then Some name else None
   | _ \<Rightarrow> None)"

definition CONTRACT_CANDIDATES :: "string list" where
  "CONTRACT_CANDIDATES = [''AGENTS.md'', ''AGENTS_PROJECT.md'', ''Docs/AGENTS.md'',
     ''.agent/REQ_REQUEST_TEMPLATE.md'', ''.agent/PR_REQUEST_TEMPLATE.md'']"

section \<open>Remotes\<close>

definition strip_slash :: "string \<Rightarrow> string" where
  "strip_slash s = rstrip_slash (dropWhile (\<lambda>c. c = CHR ''/'') s)"

definition remote_prefixes :: "string list" where
  "remote_prefixes = [''https://github.com/'', ''http://github.com/'', ''ssh://git@github.com/'',
     ''git://github.com/'', ''git@github.com:'']"

fun drop_first_prefix :: "string list \<Rightarrow> string \<Rightarrow> string" where
  "drop_first_prefix [] raw = raw"
| "drop_first_prefix (p # ps) raw = (if starts_with raw p then drop (length p) raw else drop_first_prefix ps raw)"

definition normalise_remote :: "string \<Rightarrow> string" where
  "normalise_remote v = (let raw = rstrip_slash (py_strip v);
       raw = (if ends_with raw ''.git'' then take (length raw - 4) raw else raw)
     in strip_slash (drop_first_prefix remote_prefixes raw))"

text \<open>The environment git runs in: nothing that redirects the repository, its configuration or helpers.\<close>

definition removed_variables :: "string list" where
  "removed_variables = [''GIT_DIR'', ''GIT_COMMON_DIR'', ''GIT_WORK_TREE'', ''GIT_INDEX_FILE'',
     ''GIT_OBJECT_DIRECTORY'', ''GIT_ALTERNATE_OBJECT_DIRECTORIES'', ''GIT_CONFIG_PARAMETERS'',
     ''GIT_CONFIG_COUNT'', ''GIT_CONFIG_KEY_0'', ''GIT_CONFIG_VALUE_0'', ''GIT_ASKPASS'',
     ''GIT_CREDENTIAL_HELPER'', ''GIT_SSH_COMMAND'', ''GIT_PROXY_COMMAND'']"

definition pinned_variables :: "(string \<times> string) list" where
  "pinned_variables = [(''GIT_CONFIG_NOSYSTEM'', ''1''), (''GIT_CONFIG_SYSTEM'', ''/dev/null''),
     (''GIT_CONFIG_GLOBAL'', ''/dev/null''), (''GIT_TERMINAL_PROMPT'', ''0''), (''GIT_TRACE'', ''0''),
     (''GIT_TRACE_CURL'', ''0''), (''GIT_CURL_VERBOSE'', ''0'')]"

definition safe_git_environment :: "(string \<times> string) list \<Rightarrow> (string \<times> string) list" where
  "safe_git_environment environ =
     (let env = foldl (\<lambda>env v. ddel v env) environ removed_variables;
          env = foldl (\<lambda>env v. if starts_with v ''GIT_CONFIG_KEY_'' \<or> starts_with v ''GIT_CONFIG_VALUE_''
                        then ddel v env else env) env (keys_of env)
      in foldl (\<lambda>env (k, v). dset k v env) env pinned_variables)"

definition git_origin :: "fs \<Rightarrow> path \<Rightarrow> string option" where
  "git_origin s checkout = (case fs_git_origin s (safe_git_environment (fs_environ s)) checkout of
      GitNotRun \<Rightarrow> None
    | GitExit status out \<Rightarrow> if status \<noteq> 0 then None
        else let v = py_strip out in if v = [] then None else Some v)"

section \<open>Boards\<close>

record board_evidence =
  ev_repositories :: "string list"
  ev_task_count :: nat
  ev_non_github :: nat

text \<open>One database: its distinct repositories, and how many of its tasks have none.\<close>

definition key_repository :: "json \<Rightarrow> string option" where
  "key_repository raw_key = (case issue_key_repository (py_str (py_or raw_key (JStr []))) of
     Some name \<Rightarrow> if repository_re name then Some (casefold name) else None
   | None \<Rightarrow> None)"

definition evidence_of_keys :: "json list \<Rightarrow> board_evidence" where
  "evidence_of_keys rows = \<lparr>ev_repositories = sort (remdups (List.map_filter key_repository rows)),
     ev_task_count = length rows,
     ev_non_github = length (filter (\<lambda>k. key_repository k = None) rows)\<rparr>"

fun evidence_of_boards :: "fs \<Rightarrow> path \<Rightarrow> string list \<Rightarrow> (string \<times> board_evidence) list res" where
  "evidence_of_boards s boards_root [] = Inr []"
| "evidence_of_boards s boards_root (board # rest) =
     (let db = path_join (path_join boards_root board) ''kanban.db'' in
      if path_has_symlink_component s db
      then Inl (RegistryError (''Kanban board database path is unsafe: '' @ path_str db))
      else if starts_with board ''_'' then evidence_of_boards s boards_root rest
      else (case fs_keys s db of
          Inl m \<Rightarrow> Inl (RegistryError (''could not read Kanban provenance for board '' @ board @ '': '' @ m))
        | Inr rows \<Rightarrow> (case evidence_of_boards s boards_root rest of Inl x \<Rightarrow> Inl x
            | Inr evidence \<Rightarrow> Inr ((board, evidence_of_keys rows) # evidence))))"

definition kanban_board_repository_evidence :: "fs \<Rightarrow> path \<Rightarrow> (string \<times> board_evidence) list res" where
  "kanban_board_repository_evidence s boards_root =
     (if \<not> fs_exists s boards_root then Inr []
      else if \<not> fs_is_dir s boards_root
      then Inl (RegistryError (''Kanban boards root is not a directory: '' @ path_str boards_root))
      else if path_has_symlink_component s boards_root
      then Inl (RegistryError (''Kanban boards root path is unsafe: '' @ path_str boards_root))
      else evidence_of_boards s boards_root (sort (fs_boards s boards_root)))"

definition repo_name :: "string \<Rightarrow> string" where
  "repo_name repository = (if CHR ''/'' \<in> set repository then after_char CHR ''/'' repository else repository)"

definition resolve_board :: "string \<Rightarrow> (string \<times> board_evidence) list \<Rightarrow> string option \<times> string" where
  "resolve_board repository evidence =
     (let key = casefold repository;
          provenance = filter (\<lambda>(board, ev). key \<in> set (ev_repositories ev)) evidence;
          exact = map fst (filter (\<lambda>(board, ev). length (ev_repositories ev) = 1) provenance);
          conflicted = map fst (filter (\<lambda>(board, ev). length (ev_repositories ev) \<noteq> 1) provenance);
          canonical_slug = casefold (repo_name repository);
          canonical = filter (\<lambda>(board, ev). casefold board = canonical_slug) evidence
      in if conflicted \<noteq> [] then (None, ''ambiguous_task_provenance'')
         else (case exact of
            [board] \<Rightarrow> (Some board, ''resolved_task_provenance'')
          | _ # _ # _ \<Rightarrow> (None, ''ambiguous_multiple_boards'')
          | [] \<Rightarrow> (case canonical of
                _ # _ # _ \<Rightarrow> (None, ''ambiguous_canonical_boards'')
              | [(board, ev)] \<Rightarrow>
                  if ev_repositories ev \<noteq> [] then (None, ''canonical_board_conflict'')
                  else if ev_task_count ev \<noteq> 0 then (None, ''canonical_board_conflict'')
                  else (Some board, ''resolved_empty_canonical_board'')
              | [] \<Rightarrow> (None, ''not_found_task_provenance''))))"

definition metadata_error :: "string \<Rightarrow> 'a res" where
  "metadata_error m = Inl (RegistryError m)"

text \<open>The checkout a board declares; \<open>None\<close> when it declares none.\<close>

definition declared_workdir :: "fs \<Rightarrow> string \<Rightarrow> dict \<Rightarrow> path option res" where
  "declared_workdir s board payload =
     (let declared_slug_value = dget_py payload ''slug'' in
      if declared_slug_value \<noteq> JNull \<and> json_str declared_slug_value = None
      then metadata_error (''invalid Kanban board metadata slug for '' @ board)
      else let declared_slug = (case declared_slug_value of JStr t \<Rightarrow> t | _ \<Rightarrow> []) in
      if declared_slug \<noteq> [] \<and> (declared_slug \<noteq> py_strip declared_slug \<or> casefold declared_slug \<noteq> casefold board)
      then metadata_error (''Kanban board metadata slug mismatch: directory='' @ board @ '' metadata='' @ declared_slug)
      else (case dget_py payload ''default_workdir'' of
          JNull \<Rightarrow> Inr None
        | JStr raw \<Rightarrow> (let raw_workdir = py_strip raw; workdir = parse_path raw_workdir in
            if raw_workdir = [] then Inr None
            else if \<not> is_absolute workdir
            then metadata_error (''Kanban board default_workdir must be absolute for '' @ board @ '': '' @ raw_workdir)
            else if path_has_symlink_component s workdir
            then metadata_error (''Kanban board default_workdir path is unsafe for '' @ board @ '': '' @ raw_workdir)
            else Inr (Some workdir))
        | _ \<Rightarrow> metadata_error (''Kanban board default_workdir is invalid for '' @ board)))"

definition board_default_workdir :: "fs \<Rightarrow> path \<Rightarrow> string option \<Rightarrow> path option res" where
  "board_default_workdir s boards_root ob = (case ob of None \<Rightarrow> Inr None | Some board \<Rightarrow>
     (let metadata = path_join (path_join boards_root board) ''board.json'' in
      if fs_is_symlink s metadata \<or> path_has_symlink_component s metadata
      then metadata_error (''Kanban board metadata path is unsafe: '' @ path_str metadata)
      else if \<not> fs_exists s metadata then Inr None
      else if \<not> fs_is_file s metadata
      then metadata_error (''Kanban board metadata is not a file: '' @ path_str metadata)
      else (case fs_json s metadata of
          JUnreadable m \<Rightarrow> metadata_error (''invalid Kanban board metadata for '' @ board @ '': '' @ m)
        | JInvalid m \<Rightarrow> metadata_error (''invalid Kanban board metadata for '' @ board @ '': '' @ m)
        | JNotUtf8 \<Rightarrow> Inl (PyError ''UnicodeDecodeError'')
        | JTree t \<Rightarrow> (case json_plain t of
              JObj payload \<Rightarrow> declared_workdir s board payload
            | _ \<Rightarrow> metadata_error (''invalid Kanban board metadata for '' @ board @ '': expected object'')))))"

section \<open>Entries\<close>

record registry_entry =
  e_repository :: string
  e_repository_id :: int
  e_default_branch :: string
  e_canonical_slug :: string
  e_display_name :: string
  e_board :: "string option"
  e_board_status :: string
  e_checkout :: string
  e_checkout_status :: string
  e_checkout_remote :: "string option"
  e_contract_paths :: "string list"
  e_ready :: bool
  e_reason :: "string option"
  e_bootstrap :: "(string \<times> string) option"

definition registry_error :: "string \<Rightarrow> 'a res" where
  "registry_error m = Inl (RegistryError m)"

text \<open>The provider's status must be two Booleans, both false; the message depends on the caller.\<close>

definition status_check :: "dict \<Rightarrow> string \<Rightarrow> string \<Rightarrow> unit res" where
  "status_check repo invalid inactive =
     (case (dget_py repo ''archived'', dget_py repo ''disabled'') of
        (JBool archived, JBool disabled) \<Rightarrow> if archived \<or> disabled then registry_error inactive else Inr ()
      | _ \<Rightarrow> registry_error invalid)"

definition identity_of :: "dict \<Rightarrow> (string \<times> int \<times> string) res" where
  "identity_of repo = (case dget_py repo ''full_name'' of
      JStr full_name \<Rightarrow>
        if py_strip full_name \<noteq> full_name \<or> \<not> repository_re (py_strip full_name)
        then registry_error (''repository full_name is invalid: '' @ py_repr_str (py_strip full_name))
        else (case dget_py repo ''id'' of
            JInt i \<Rightarrow> if i \<le> 0 then registry_error (''repository id is invalid for '' @ full_name)
              else (case dget_py repo ''default_branch'' of
                  JStr default_branch \<Rightarrow>
                    if py_strip default_branch \<noteq> default_branch \<or> \<not> valid_branch (JStr (py_strip default_branch))
                    then registry_error (''repository default_branch is invalid for '' @ full_name)
                    else Inr (full_name, i, default_branch)
                | _ \<Rightarrow> registry_error (''repository default_branch is invalid for '' @ full_name))
          | _ \<Rightarrow> registry_error (''repository id is invalid for '' @ full_name))
    | _ \<Rightarrow> registry_error ''repository full_name is invalid'')"

definition ordered_contracts :: "string list \<Rightarrow> string \<Rightarrow> string list res" where
  "ordered_contracts raw full_name =
     (let unknown = filter (\<lambda>p. p \<notin> set CONTRACT_CANDIDATES) (remdups raw) in
      if \<not> distinct raw then registry_error (''duplicate contract paths for '' @ full_name)
      else if unknown \<noteq> []
      then registry_error (''unknown contract paths for '' @ full_name @ '': '' @ join_with '', '' (sort unknown))
      else Inr (filter (\<lambda>p. p \<in> set raw) CONTRACT_CANDIDATES))"

text \<open>The status of a checkout and why it is not ready; \<open>None\<close> when the checkout is verified.\<close>

definition checkout_problem :: "fs \<Rightarrow> path \<Rightarrow> bool \<Rightarrow> string option \<Rightarrow> string \<Rightarrow> (string \<times> string) option" where
  "checkout_problem s checkout checkout_safe origin full_name =
     (if \<not> checkout_safe then Some (''unsafe_path'', ''checkout_path_unsafe'')
      else if \<not> fs_exists s checkout then Some (''missing'', ''checkout_missing'')
      else if \<not> fs_is_dir s checkout then Some (''not_directory'', ''checkout_not_directory'')
      else (case origin of
          None \<Rightarrow> Some (''origin_unavailable'', ''checkout_origin_unavailable'')
        | Some remote \<Rightarrow> if casefold (normalise_remote remote) \<noteq> casefold full_name
            then Some (''remote_mismatch'', ''checkout_remote_mismatch'') else None))"

definition build_entry ::
  "fs \<Rightarrow> dict \<Rightarrow> path \<Rightarrow> string list \<Rightarrow> string option \<Rightarrow> string \<Rightarrow> path option \<Rightarrow> registry_entry res" where
  "build_entry s repo checkout_root contract_paths board board_status checkout_path =
     (case status_check repo ''repository archive/disabled metadata is invalid''
        ''repository is archived or disabled'' of Inl x \<Rightarrow> Inl x | Inr _ \<Rightarrow>
      case identity_of repo of Inl x \<Rightarrow> Inl x | Inr (full_name, repository_id, default_branch) \<Rightarrow>
      case ordered_contracts contract_paths full_name of Inl x \<Rightarrow> Inl x | Inr contracts \<Rightarrow>
      let slug = casefold (repo_name full_name);
          checkout = (case checkout_path of Some p \<Rightarrow> p | None \<Rightarrow> path_join checkout_root slug);
          checkout_safe = (is_absolute checkout \<and> \<not> path_has_symlink_component s checkout \<and>
            \<not> fs_is_symlink s checkout);
          origin = (if checkout_safe \<and> fs_is_dir s checkout then git_origin s checkout else None);
          problem = checkout_problem s checkout checkout_safe origin full_name;
          checkout_status = (case problem of Some (status, _) \<Rightarrow> status | None \<Rightarrow> ''verified'')
      in Inr \<lparr>e_repository = full_name, e_repository_id = repository_id, e_default_branch = default_branch,
           e_canonical_slug = slug, e_display_name = repo_name full_name, e_board = board,
           e_board_status = board_status, e_checkout = path_str checkout,
           e_checkout_status = checkout_status, e_checkout_remote = origin, e_contract_paths = contracts,
           e_ready = (problem = None \<and> board \<noteq> None),
           e_reason = (case problem of Some (_, reason) \<Rightarrow> Some reason
             | None \<Rightarrow> if board = None then Some (''board_'' @ board_status) else None),
           e_bootstrap = (if checkout_status = ''verified'' \<and> board = None \<and>
               board_status = ''not_found_task_provenance''
             then Some (slug, path_str checkout) else None)\<rparr>)"

section \<open>Snapshots\<close>

fun validate_repository_status_metadata :: "json list \<Rightarrow> unit res" where
  "validate_repository_status_metadata [] = Inr ()"
| "validate_repository_status_metadata (JObj repo # rest) =
     (case status_check repo ''repository metadata contains invalid archive/disabled fields''
        ''repository metadata is archived or disabled'' of
       Inl x \<Rightarrow> Inl x | Inr _ \<Rightarrow> validate_repository_status_metadata rest)"
| "validate_repository_status_metadata (_ # rest) =
     registry_error ''repository metadata contains a non-object entry''"

text \<open>The contracts of a repository, asked of its default branch one by one.\<close>

fun github_contracts_loop :: "net \<Rightarrow> string \<Rightarrow> string \<Rightarrow> string list \<Rightarrow> string list \<Rightarrow> call list \<Rightarrow> string list res \<times> call list" where
  "github_contracts_loop n repository default_branch [] found calls = (Inr found, calls)"
| "github_contracts_loop n repository default_branch (candidate # rest) found calls =
     and_then (github_json n (''/repos/'' @ py_quote ''/'' repository @ ''/contents/'' @ py_quote ''/'' candidate)
        [(''ref'', default_branch)] True calls)
      (\<lambda>payload calls.
        if payload = JNull then github_contracts_loop n repository default_branch rest found calls
        else if is_obj payload \<and> dget_py (obj_of payload) ''type'' = JStr ''file''
        then github_contracts_loop n repository default_branch rest (found @ [candidate]) calls
        else (registry_error (''contract candidate is not a file on '' @ repository @ ''@'' @ default_branch
                @ '': '' @ candidate), calls))"

definition github_contracts :: "net \<Rightarrow> string \<Rightarrow> string \<Rightarrow> call list \<Rightarrow> string list res \<times> call list" where
  "github_contracts n repository default_branch calls =
     github_contracts_loop n repository default_branch CONTRACT_CANDIDATES [] calls"

text \<open>
  The readers a snapshot is built with: contracts may call GitHub, boards are looked up, and the
  checkout of a board may be refused.
\<close>

record readers =
  contract_reader :: "string \<Rightarrow> string \<Rightarrow> call list \<Rightarrow> string list res \<times> call list"
  board_resolver :: "string \<Rightarrow> string option \<times> string"
  checkout_resolver :: "string \<Rightarrow> string option \<Rightarrow> path option res"

definition snapshot_identity :: "dict \<Rightarrow> (string \<times> string) res" where
  "snapshot_identity repo = (case (dget_py repo ''full_name'', dget_py repo ''default_branch'') of
      (JStr full_name, JStr default_branch) \<Rightarrow>
        if full_name \<noteq> py_strip full_name \<or> default_branch \<noteq> py_strip default_branch \<or>
           \<not> valid_branch (JStr default_branch)
        then registry_error ''repository metadata contains invalid identity fields''
        else Inr (full_name, default_branch)
    | _ \<Rightarrow> registry_error ''repository metadata contains invalid identity fields'')"

definition snapshot_entry :: "fs \<Rightarrow> readers \<Rightarrow> path \<Rightarrow> dict \<Rightarrow> call list \<Rightarrow> registry_entry res \<times> call list" where
  "snapshot_entry s rd checkout_root repo calls =
     (case snapshot_identity repo of Inl x \<Rightarrow> (Inl x, calls) | Inr (full_name, default_branch) \<Rightarrow>
      and_then (contract_reader rd full_name default_branch calls) (\<lambda>contracts calls.
        let (board, board_status) = board_resolver rd full_name in
        if (case board of None \<Rightarrow> False | Some b \<Rightarrow> b \<noteq> py_strip b \<or> \<not> board_re b)
        then (registry_error (''board identity is invalid for '' @ full_name), calls)
        else if board_status \<noteq> py_strip board_status \<or> board_status = []
        then (registry_error (''board status is invalid for '' @ full_name), calls)
        else (case checkout_resolver rd full_name board of Inl x \<Rightarrow> (Inl x, calls)
          | Inr checkout_path \<Rightarrow>
              (build_entry s repo checkout_root contracts board board_status checkout_path, calls))))"

fun snapshot_entries :: "fs \<Rightarrow> readers \<Rightarrow> path \<Rightarrow> dict list \<Rightarrow> call list \<Rightarrow> registry_entry list res \<times> call list" where
  "snapshot_entries s rd checkout_root [] calls = (Inr [], calls)"
| "snapshot_entries s rd checkout_root (repo # rest) calls =
     and_then (snapshot_entry s rd checkout_root repo calls) (\<lambda>entry calls.
       and_then (snapshot_entries s rd checkout_root rest calls) (\<lambda>entries calls. (Inr (entry # entries), calls)))"

definition registry_snapshot ::
  "fs \<Rightarrow> readers \<Rightarrow> path \<Rightarrow> json list \<Rightarrow> call list \<Rightarrow> registry_entry list res \<times> call list" where
  "registry_snapshot s rd checkout_root repositories calls =
     (case validate_repository_status_metadata repositories of Inl x \<Rightarrow> (Inl x, calls) | Inr _ \<Rightarrow>
      and_then (snapshot_entries s rd checkout_root (map obj_of repositories) calls)
        (\<lambda>entries calls. (Inr (sort_key (\<lambda>entry. casefold (e_repository entry)) entries), calls)))"

text \<open>The JSON of a snapshot.\<close>

definition opt_str :: "string option \<Rightarrow> json" where
  "opt_str v = (case v of None \<Rightarrow> JNull | Some s \<Rightarrow> JStr s)"

definition entry_json :: "registry_entry \<Rightarrow> json" where
  "entry_json e = JObj [(''repository'', JStr (e_repository e)), (''repository_id'', JInt (e_repository_id e)),
     (''default_branch'', JStr (e_default_branch e)), (''canonical_slug'', JStr (e_canonical_slug e)),
     (''display_name'', JStr (e_display_name e)), (''board'', opt_str (e_board e)),
     (''board_status'', JStr (e_board_status e)), (''checkout'', JStr (e_checkout e)),
     (''checkout_status'', JStr (e_checkout_status e)), (''checkout_remote'', opt_str (e_checkout_remote e)),
     (''contract_paths'', JArr (map JStr (e_contract_paths e))), (''ready'', JBool (e_ready e)),
     (''reason'', opt_str (e_reason e)),
     (''bootstrap'', (case e_bootstrap e of None \<Rightarrow> JNull
        | Some (board, checkout) \<Rightarrow> JObj [(''board'', JStr board), (''checkout'', JStr checkout)]))]"

definition snapshot_json :: "registry_entry list \<Rightarrow> json" where
  "snapshot_json entries = JObj [(''schema_version'', JInt 2), (''mode'', JStr ''shadow''),
     (''board_authority'', JStr ''tasks.idempotency_key''),
     (''contract_candidates'', JArr (map JStr CONTRACT_CANDIDATES)),
     (''repositories'', JArr (map entry_json entries))]"

definition live_readers :: "fs \<Rightarrow> net \<Rightarrow> path \<Rightarrow> (string \<times> board_evidence) list \<Rightarrow> readers" where
  "live_readers s n kanban_root evidence =
     \<lparr>contract_reader = github_contracts n, board_resolver = (\<lambda>repository. resolve_board repository evidence),
      checkout_resolver = (\<lambda>repository board. board_default_workdir s kanban_root board)\<rparr>"

definition live_registry_snapshot ::
  "fs \<Rightarrow> net \<Rightarrow> string \<Rightarrow> string \<Rightarrow> path \<Rightarrow> path \<Rightarrow> string option \<Rightarrow> call list \<Rightarrow> registry_entry list res \<times> call list" where
  "live_registry_snapshot s n owner topic checkout_root kanban_root owner_type calls =
     and_then (discover_repositories n owner topic (case owner_type of None \<Rightarrow> ''personal'' | Some t \<Rightarrow> t) calls)
      (\<lambda>repositories calls.
        case validate_repository_status_metadata (map JObj repositories) of Inl x \<Rightarrow> (Inl x, calls) | Inr _ \<Rightarrow>
        case kanban_board_repository_evidence s kanban_root of Inl x \<Rightarrow> (Inl x, calls) | Inr evidence \<Rightarrow>
        registry_snapshot s (live_readers s n kanban_root evidence) checkout_root (map JObj repositories) calls)"

section \<open>Fixtures\<close>

definition fixture_repositories :: "string \<Rightarrow> json_file \<Rightarrow> dict list res" where
  "fixture_repositories file content = (case content of
      JUnreadable _ \<Rightarrow> registry_error (''invalid fixture JSON: '' @ file)
    | JInvalid _ \<Rightarrow> registry_error (''invalid fixture JSON: '' @ file)
    | JNotUtf8 \<Rightarrow> Inl (PyError ''UnicodeDecodeError'')
    | JTree t \<Rightarrow> (let payload = (case json_plain t of JObj d \<Rightarrow> dget_py d ''items'' | v \<Rightarrow> v) in
        case payload of
          JArr items \<Rightarrow> if list_all is_obj items then Inr (map obj_of items)
            else registry_error ''fixture must contain only repository objects''
        | _ \<Rightarrow> registry_error ''fixture must contain only repository objects''))"

definition fixture_contracts :: "dict \<Rightarrow> (string \<times> string list) res" where
  "fixture_contracts repo = (case dget_py repo ''full_name'' of
      JStr full_name \<Rightarrow>
        if full_name \<noteq> py_strip full_name then registry_error ''fixture full_name must be a canonical string''
        else (case dget_or repo ''contract_paths'' (JArr []) of
            JArr items \<Rightarrow>
              if list_ex (\<lambda>v. json_str v = None) items
              then registry_error (''fixture contract_paths must be a string list for '' @ full_name)
              else (let raw = List.map_filter json_str items;
                        unknown = filter (\<lambda>p. p \<notin> set CONTRACT_CANDIDATES) (remdups raw) in
                if \<not> distinct raw
                then registry_error (''fixture contract_paths contains duplicates for '' @ full_name)
                else if unknown \<noteq> []
                then registry_error (''fixture contains unknown contract paths for '' @ full_name @ '': ''
                       @ join_with '', '' (sort unknown))
                else Inr (casefold full_name, filter (\<lambda>p. p \<in> set raw) CONTRACT_CANDIDATES))
          | _ \<Rightarrow> registry_error (''fixture contract_paths must be a string list for '' @ full_name))
    | _ \<Rightarrow> registry_error ''fixture full_name must be a canonical string'')"

fun fixture_by_name :: "dict list \<Rightarrow> (string \<times> string list) list \<Rightarrow> (string \<times> string list) list res" where
  "fixture_by_name [] by_name = Inr by_name"
| "fixture_by_name (repo # rest) by_name = (case fixture_contracts repo of Inl x \<Rightarrow> Inl x
     | Inr (key, contracts) \<Rightarrow> fixture_by_name rest (dset key contracts by_name))"

definition fixture_contract_reader ::
  "dict list \<Rightarrow> (string \<Rightarrow> string \<Rightarrow> call list \<Rightarrow> string list res \<times> call list) res" where
  "fixture_contract_reader repositories = (case fixture_by_name repositories [] of Inl x \<Rightarrow> Inl x
     | Inr by_name \<Rightarrow> Inr (\<lambda>repository default_branch calls.
         (Inr (case dget by_name (casefold repository) of None \<Rightarrow> [] | Some cs \<Rightarrow> cs), calls)))"

end
