(* ===== verification/RegistryGuarantees.thy ===== *)
theory RegistryGuarantees
  imports RepoRegistry
begin

text \<open>
  What the registry guarantees: a live snapshot binds no board to two repositories and calls a
  checkout verified only when its remote is the repository's, every usual spelling of a GitHub
  remote names its repository, and the branch check is git's rule for references over the accepted
  characters.
\<close>

section \<open>Boards\<close>

lemma dget_filter_unique:
  assumes "distinct (keys_of d)" and "(k, v) \<in> set d" and "(k, w) \<in> set d"
  shows "v = w"
  using assms by (metis dget_Some_iff option.inject)

lemma singleton_filter: "filter P xs = [x] \<Longrightarrow> x \<in> set xs \<and> P x"
proof -
  assume "filter P xs = [x]"
  then have "x \<in> set (filter P xs)" by simp
  then show ?thesis by simp
qed

lemma map_singleton: "map f xs = [y] \<Longrightarrow> \<exists>x. xs = [x] \<and> f x = y"
  by (cases xs) auto

text \<open>The two ways a board is resolved.\<close>

lemma resolve_board_cases:
  assumes "resolve_board repository evidence = (Some board, status)"
  obtains (provenance) ev where "(board, ev) \<in> set evidence" "ev_repositories ev = [casefold repository]"
      "status = ''resolved_task_provenance''"
    | (bootstrap) ev where "(board, ev) \<in> set evidence" "ev_repositories ev = []" "ev_task_count ev = 0"
      "casefold board = casefold (repo_name repository)" "status = ''resolved_empty_canonical_board''"
proof -
  define provenance where "provenance = filter (\<lambda>(board, ev). casefold repository \<in> set (ev_repositories ev)) evidence"
  define exact where "exact = map fst (filter (\<lambda>(board, ev). length (ev_repositories ev) = 1) provenance)"
  define canonical where "canonical = filter (\<lambda>(board, ev :: board_evidence). casefold board = casefold (repo_name repository)) evidence"
  note r = assms [unfolded resolve_board_def Let_def, folded provenance_def canonical_def, folded exact_def]
  show ?thesis
  proof (cases exact)
    case (Cons b bs)
    with r have e: "exact = [board]" and st: "status = ''resolved_task_provenance''"
      by (auto split: if_splits list.splits)
    from map_singleton [OF e [unfolded exact_def]] obtain p where
      p: "filter (\<lambda>(board, ev). length (ev_repositories ev) = 1) provenance = [p]" "fst p = board" by blast
    obtain ev where pe: "p = (board, ev)" using p(2) by (cases p) auto
    from singleton_filter [OF p(1)] have "(board, ev) \<in> set evidence" "length (ev_repositories ev) = 1"
      "casefold repository \<in> set (ev_repositories ev)" by (auto simp: pe provenance_def)
    moreover from this(2,3) have "ev_repositories ev = [casefold repository]"
      by (cases "ev_repositories ev") auto
    ultimately show ?thesis using st provenance by blast
  next
    case Nil
    with r obtain ev where c: "canonical = [(board, ev)]" and "ev_repositories ev = []" "ev_task_count ev = 0"
      "status = ''resolved_empty_canonical_board''"
      by (auto split: if_splits list.splits)
    moreover from singleton_filter [OF c [unfolded canonical_def]] have "(board, ev) \<in> set evidence"
      "casefold board = casefold (repo_name repository)" by auto
    ultimately show ?thesis using bootstrap by blast
  qed
qed

lemma repository_split:
  "CHR ''/'' \<in> set r \<Longrightarrow> r = before_char CHR ''/'' r @ CHR ''/'' # repo_name r"
proof -
  assume "CHR ''/'' \<in> set r"
  then have "dropWhile (\<lambda>x. x \<noteq> CHR ''/'') r \<noteq> []" by (simp add: dropWhile_eq_Nil_conv)
  then have "dropWhile (\<lambda>x. x \<noteq> CHR ''/'') r = CHR ''/'' # tl (dropWhile (\<lambda>x. x \<noteq> CHR ''/'') r)"
    using hd_dropWhile [of "\<lambda>x. x \<noteq> CHR ''/''" r] by (metis list.collapse)
  with \<open>CHR ''/'' \<in> set r\<close> show ?thesis
    by (simp add: before_char_def after_char_def repo_name_def)
qed

text \<open>Two repositories of one owner that share a board are the same up to case.\<close>

lemma resolve_board_exclusive:
  assumes "distinct (keys_of evidence)"
    and "resolve_board r1 evidence = (Some board, s1)" and "resolve_board r2 evidence = (Some board, s2)"
    and "CHR ''/'' \<in> set r1" and "CHR ''/'' \<in> set r2"
    and "casefold (before_char CHR ''/'' r1) = casefold (before_char CHR ''/'' r2)"
  shows "casefold r1 = casefold r2"
proof -
  have same: "casefold r1 = casefold r2" if "casefold (repo_name r1) = casefold (repo_name r2)"
    using that assms(6) repository_split [OF assms(4)] repository_split [OF assms(5)] casefold_append
    by (metis append_Cons append_Nil)
  show ?thesis
    using assms(2)
  proof (cases rule: resolve_board_cases)
    case (provenance ev)
    note 1 = this
    from assms(3) show ?thesis
    proof (cases rule: resolve_board_cases)
      case (provenance ev')
      with 1 dget_filter_unique [OF assms(1), of board ev ev'] show ?thesis by auto
    next
      case (bootstrap ev')
      with 1 dget_filter_unique [OF assms(1), of board ev ev'] show ?thesis by auto
    qed
  next
    case (bootstrap ev)
    note 1 = this
    from assms(3) show ?thesis
    proof (cases rule: resolve_board_cases)
      case (provenance ev')
      with 1 dget_filter_unique [OF assms(1), of board ev ev'] show ?thesis by auto
    next
      case (bootstrap ev')
      with 1 same show ?thesis by simp
    qed
  qed
qed

lemma evidence_of_boards_keys:
  "evidence_of_boards s root boards = Inr evidence \<Longrightarrow> distinct boards \<Longrightarrow>
   distinct (keys_of evidence) \<and> set (keys_of evidence) \<subseteq> set boards"
  by (induction boards arbitrary: evidence) (fastforce simp: Let_def split: if_splits sum.splits)+

section \<open>Entries\<close>

lemma status_check_ok: "status_check repo a b = Inr () \<Longrightarrow>
  dget_py repo ''archived'' = JBool False \<and> dget_py repo ''disabled'' = JBool False"
  by (auto simp: status_check_def registry_error_def split: json.splits if_splits)

lemma identity_of_ok:
  "identity_of repo = Inr (full_name, i, b) \<Longrightarrow>
   dget_py repo ''full_name'' = JStr full_name \<and> repository_re full_name \<and> py_strip full_name = full_name \<and>
   dget_py repo ''id'' = JInt i \<and> 0 < i \<and> dget_py repo ''default_branch'' = JStr b \<and> valid_branch (JStr b)"
  by (auto simp: identity_of_def registry_error_def split: json.splits if_splits)

definition entry_sound :: "fs \<Rightarrow> registry_entry \<Rightarrow> bool" where
  "entry_sound s e \<longleftrightarrow> (e_ready e \<longleftrightarrow> e_checkout_status e = ''verified'' \<and> e_board e \<noteq> None) \<and>
     (e_ready e \<longleftrightarrow> e_reason e = None) \<and>
     (e_bootstrap e \<noteq> None \<longleftrightarrow> e_checkout_status e = ''verified'' \<and> e_board e = None \<and>
        e_board_status e = ''not_found_task_provenance'') \<and>
     (e_checkout_status e = ''verified'' \<longrightarrow> (\<exists>checkout origin. e_checkout e = path_str checkout \<and>
        is_absolute checkout \<and> \<not> path_has_symlink_component s checkout \<and> fs_is_dir s checkout \<and>
        git_origin s checkout = Some origin \<and> e_checkout_remote e = Some origin \<and>
        casefold (normalise_remote origin) = casefold (e_repository e)))"

lemma build_entry_ok:
  assumes "build_entry s repo root contracts board board_status checkout_path = Inr e"
  shows "entry_sound s e" and "dget_py repo ''full_name'' = JStr (e_repository e)"
    and "repository_re (e_repository e)" and "e_board e = board" and "e_board_status e = board_status"
proof -
  from assms obtain full_name i b cs checkout checkout_safe origin problem where
    id: "identity_of repo = Inr (full_name, i, b)" and
    safe: "checkout_safe \<longleftrightarrow> is_absolute checkout \<and> \<not> path_has_symlink_component s checkout \<and> \<not> fs_is_symlink s checkout" and
    origin: "origin = (if checkout_safe \<and> fs_is_dir s checkout then git_origin s checkout else None)" and
    problem: "problem = checkout_problem s checkout checkout_safe origin full_name" and
    e: "e_repository e = full_name" "e_board e = board" "e_board_status e = board_status"
      "e_checkout e = path_str checkout" "e_checkout_remote e = origin"
      "e_checkout_status e = (case problem of Some (status, _) \<Rightarrow> status | None \<Rightarrow> ''verified'')"
      "e_ready e = (problem = None \<and> board \<noteq> None)"
      "e_reason e = (case problem of Some (_, reason) \<Rightarrow> Some reason
             | None \<Rightarrow> if board = None then Some (''board_'' @ board_status) else None)"
      "e_bootstrap e = (if e_checkout_status e = ''verified'' \<and> board = None \<and>
               board_status = ''not_found_task_provenance''
             then Some (casefold (repo_name full_name), path_str checkout) else None)"
    by (auto simp: build_entry_def Let_def split: sum.splits prod.splits)
  have ver: "e_checkout_status e = ''verified'' \<longleftrightarrow> problem = None"
    using e(6) by (auto simp: problem checkout_problem_def split: if_splits option.splits)
  show "entry_sound s e"
    using e ver unfolding entry_sound_def
    by (auto simp: problem checkout_problem_def origin safe split: if_splits option.splits)
  show "dget_py repo ''full_name'' = JStr (e_repository e)" "repository_re (e_repository e)"
    "e_board e = board" "e_board_status e = board_status"
    using identity_of_ok [OF id] e by simp_all
qed

section \<open>Snapshots\<close>

definition entry_of :: "fs \<Rightarrow> readers \<Rightarrow> dict \<Rightarrow> registry_entry \<Rightarrow> bool" where
  "entry_of s rd repo e \<longleftrightarrow> entry_sound s e \<and> dget_py repo ''full_name'' = JStr (e_repository e) \<and>
     repository_re (e_repository e) \<and> py_strip (e_repository e) = e_repository e \<and>
     board_resolver rd (e_repository e) = (e_board e, e_board_status e)"

lemma snapshot_entry_ok: "snapshot_entry s rd root repo calls = (Inr e, calls') \<Longrightarrow> entry_of s rd repo e"
proof -
  assume a: "snapshot_entry s rd root repo calls = (Inr e, calls')"
  obtain full_name b where id: "snapshot_identity repo = Inr (full_name, b)"
    using a by (auto simp: snapshot_entry_def split: sum.splits)
  then have name: "dget_py repo ''full_name'' = JStr full_name" "py_strip full_name = full_name"
    by (auto simp: snapshot_identity_def registry_error_def split: json.splits if_splits)
  obtain cs c board status where r: "board_resolver rd full_name = (board, status)"
    and "(let (board, board_status) = board_resolver rd full_name in
        if (case board of None \<Rightarrow> False | Some b \<Rightarrow> b \<noteq> py_strip b \<or> \<not> board_re b)
        then (registry_error (''board identity is invalid for '' @ full_name), c)
        else if board_status \<noteq> py_strip board_status \<or> board_status = []
        then (registry_error (''board status is invalid for '' @ full_name), c)
        else (case checkout_resolver rd full_name board of Inl x \<Rightarrow> (Inl x, c)
          | Inr checkout_path \<Rightarrow> (build_entry s repo root cs board board_status checkout_path, c))) = (Inr e, calls')"
    using a and_then_result id unfolding snapshot_entry_def by (fastforce split: prod.splits)
  then obtain p where "build_entry s repo root cs board status p = Inr e"
    by (auto simp: registry_error_def split: if_splits sum.splits)
  with r name build_entry_ok [OF this] show ?thesis by (simp add: entry_of_def)
qed

lemma snapshot_entries_ok:
  "snapshot_entries s rd root repos calls = (Inr entries, calls') \<Longrightarrow> list_all2 (entry_of s rd) repos entries"
proof (induction repos arbitrary: calls entries)
  case (Cons repo repos)
  from Cons.prems obtain e c where e: "snapshot_entry s rd root repo calls = (Inr e, c)"
    and "and_then (snapshot_entries s rd root repos c) (\<lambda>entries calls. (Inr (e # entries), calls)) = (Inr entries, calls')"
    using and_then_result by fastforce
  then obtain es where "snapshot_entries s rd root repos c = (Inr es, calls')" "entries = e # es"
    using and_then_result by fastforce
  with Cons.IH snapshot_entry_ok [OF e] show ?case by simp
qed simp

lemma discover_shape:
  assumes "discover_repositories n owner topic owner_type calls = (Inr repos, calls')"
  shows "\<exists>found. repos = sort_key (\<lambda>item. casefold (full_name_of item))
      (select_repositories (py_strip owner) (casefold (py_strip owner_type)) found [])"
  using assms by (auto simp: discover_repositories_def Let_def split: if_splits sum.splits prod.splits)

lemma discover_owned:
  assumes "discover_repositories n owner topic owner_type calls = (Inr repos, calls')"
  shows "distinct (map repository_key repos)"
    and "repo \<in> set repos \<Longrightarrow> dget_py repo ''full_name'' = JStr name \<Longrightarrow> py_strip name = name \<Longrightarrow>
      casefold (before_char CHR ''/'' name) = casefold (py_strip owner) \<and> repository_key repo = casefold name"
proof -
  obtain found where r: "repos = sort_key (\<lambda>item. casefold (full_name_of item))
      (select_repositories (py_strip owner) (casefold (py_strip owner_type)) found [])"
    using discover_shape [OF assms] by blast
  show "distinct (map repository_key repos)"
    using select_repositories_distinct [of "py_strip owner" "casefold (py_strip owner_type)" found "[]"]
    by (simp add: r distinct_map)
  assume "repo \<in> set repos" and name: "dget_py repo ''full_name'' = JStr name" "py_strip name = name"
  then obtain name' where o: "owned_repository (py_strip owner) (casefold (py_strip owner_type)) repo = Some name'"
    using select_repositories_owned unfolding r by fastforce
  then have "name' = py_strip name"
    using name(1) by (simp add: owned_repository_def Let_def split: option.splits if_splits)
  then have "name' = name" using name(2) by simp
  with owned_repository_facts [OF o]
  show "casefold (before_char CHR ''/'' name) = casefold (py_strip owner) \<and> repository_key repo = casefold name"
    by simp
qed

lemma map_filter_distinct:
  assumes "distinct (map f xs)"
    and "\<And>x y b. x \<in> set xs \<Longrightarrow> y \<in> set xs \<Longrightarrow> g x = Some b \<Longrightarrow> g y = Some b \<Longrightarrow> f x = f y"
  shows "distinct (List.map_filter g xs)"
  using assms
proof (induction xs)
  case (Cons x xs)
  have IH: "distinct (List.map_filter g xs)"
    by (rule Cons.IH) (use Cons.prems in auto)
  show ?case
  proof (cases "g x")
    case (Some b)
    have "b \<notin> set (List.map_filter g xs)"
    proof
      assume "b \<in> set (List.map_filter g xs)"
      then obtain y where "y \<in> set xs" "g y = Some b" by (auto simp: List.map_filter_def)
      with Cons.prems(2) [of x y b] Some have "f x = f y" by simp
      with Cons.prems(1) \<open>y \<in> set xs\<close> show False by auto
    qed
    with IH Some show ?thesis by (simp add: List.map_filter_simps)
  qed (use IH in \<open>simp add: List.map_filter_simps\<close>)
qed (simp add: List.map_filter_simps)

text \<open>The parts of a live snapshot: what discovery found, the evidence of the boards, and the unsorted entries.\<close>

lemma live_snapshot_parts:
  assumes "live_registry_snapshot s n owner topic checkout_root kanban_root owner_type calls = (Inr entries, calls')"
    and "distinct (fs_boards s kanban_root)"
  shows "\<exists>repos c owner_type evidence es. discover_repositories n owner topic owner_type calls = (Inr repos, c) \<and>
    distinct (keys_of evidence) \<and> list_all2 (entry_of s (live_readers s n kanban_root evidence)) repos es \<and>
    entries = sort_key (\<lambda>entry. casefold (e_repository entry)) es"
proof -
  from and_then_result [OF assms(1) [unfolded live_registry_snapshot_def]]
  obtain repos c where d: "discover_repositories n owner topic
      (case owner_type of None \<Rightarrow> ''personal'' | Some t \<Rightarrow> t) calls = (Inr repos, c)"
    and k: "(case validate_repository_status_metadata (map JObj repos) of Inl x \<Rightarrow> (Inl x, c) | Inr _ \<Rightarrow>
        case kanban_board_repository_evidence s kanban_root of Inl x \<Rightarrow> (Inl x, c) | Inr evidence \<Rightarrow>
        registry_snapshot s (live_readers s n kanban_root evidence) checkout_root (map JObj repos) c) = (Inr entries, calls')"
    by blast
  from k obtain evidence where ev: "kanban_board_repository_evidence s kanban_root = Inr evidence"
    and snap: "registry_snapshot s (live_readers s n kanban_root evidence) checkout_root (map JObj repos) c = (Inr entries, calls')"
    by (auto split: sum.splits)
  have "distinct (keys_of evidence)"
    using ev assms(2) evidence_of_boards_keys [of s kanban_root "sort (fs_boards s kanban_root)" evidence]
    by (auto simp: kanban_board_repository_evidence_def split: if_splits)
  moreover have "and_then (snapshot_entries s (live_readers s n kanban_root evidence) checkout_root (map obj_of (map JObj repos)) c)
      (\<lambda>entries calls. (Inr (sort_key (\<lambda>entry. casefold (e_repository entry)) entries), calls)) = (Inr entries, calls')"
    using snap by (auto simp: registry_snapshot_def split: sum.splits)
  from and_then_result [OF this] obtain es where "list_all2 (entry_of s (live_readers s n kanban_root evidence)) repos es"
    "entries = sort_key (\<lambda>entry. casefold (e_repository entry)) es"
    by (auto simp: comp_def dest: snapshot_entries_ok)
  ultimately show ?thesis using d by blast
qed

text \<open>C28: a live snapshot is exclusive. Its entries have distinct repository names up to case, come in
  their order, no board belongs to two of them, an entry is ready exactly when its checkout is
  verified and it has a board, and a verified checkout is a real directory reached through no
  symlink whose remote names the repository.\<close>

theorem live_snapshot_exclusive:
  assumes "live_registry_snapshot s n owner topic checkout_root kanban_root owner_type calls = (Inr entries, calls')"
    and "distinct (fs_boards s kanban_root)"
  shows "distinct (map (\<lambda>e. casefold (e_repository e)) entries) \<and>
    sorted (map (\<lambda>e. casefold (e_repository e)) entries) \<and>
    distinct (List.map_filter e_board entries) \<and> (\<forall>e \<in> set entries. entry_sound s e)"
proof -
  obtain repos c ot evidence es where d: "discover_repositories n owner topic ot calls = (Inr repos, c)"
    and boards: "distinct (keys_of evidence)"
    and es: "list_all2 (entry_of s (live_readers s n kanban_root evidence)) repos es"
    and entries: "entries = sort_key (\<lambda>entry. casefold (e_repository entry)) es"
    using live_snapshot_parts [OF assms] by blast
  define rd where "rd = live_readers s n kanban_root evidence"
  note es = es [folded rd_def]
  have owned: "casefold (before_char CHR ''/'' (e_repository e)) = casefold (py_strip owner) \<and>
      repository_key repo = casefold (e_repository e)" if "entry_of s rd repo e" "repo \<in> set repos" for repo e
    using discover_owned(2) [OF d that(2)] that(1) by (simp add: entry_of_def)
  have "map repository_key repos = map (\<lambda>e. casefold (e_repository e)) es"
    using es owned by (simp add: list_all2_conv_all_nth list_eq_iff_nth_eq)
  then have names: "distinct (map (\<lambda>e. casefold (e_repository e)) es)" using discover_owned(1) [OF d] by simp
  have e_of: "\<exists>repo \<in> set repos. entry_of s rd repo e" if "e \<in> set es" for e
    using es that by (metis in_set_conv_nth list_all2_conv_all_nth)
  have "casefold (e_repository e) = casefold (e_repository e')"
    if es': "e \<in> set es" "e' \<in> set es" "e_board e = Some b" "e_board e' = Some b" for e e' b
  proof (rule resolve_board_exclusive [OF boards])
    obtain repo repo' where r: "repo \<in> set repos" "entry_of s rd repo e" "repo' \<in> set repos" "entry_of s rd repo' e'"
      using e_of es' by blast
    show "resolve_board (e_repository e) evidence = (Some b, e_board_status e)"
      "resolve_board (e_repository e') evidence = (Some b, e_board_status e')"
      using r es' by (simp_all add: entry_of_def rd_def live_readers_def)
    show "CHR ''/'' \<in> set (e_repository e)" "CHR ''/'' \<in> set (e_repository e')"
      using r by (simp_all add: entry_of_def repository_re_def)
    show "casefold (before_char CHR ''/'' (e_repository e)) = casefold (before_char CHR ''/'' (e_repository e'))"
      using owned r by simp
  qed
  note same_board = this
  have "distinct (List.map_filter e_board entries)"
  proof (rule map_filter_distinct [where f = "\<lambda>e. casefold (e_repository e)"])
    show "distinct (map (\<lambda>e. casefold (e_repository e)) entries)" using names by (simp add: entries distinct_map)
    show "casefold (e_repository e) = casefold (e_repository e')"
      if "e \<in> set entries" "e' \<in> set entries" "e_board e = Some b" "e_board e' = Some b" for e e' b
      by (rule same_board [OF _ _ that(3,4)]) (use that(1,2) in \<open>simp_all add: entries\<close>)
  qed
  moreover have "\<forall>e \<in> set entries. entry_sound s e"
    using e_of by (auto simp: entries entry_of_def)
  ultimately show ?thesis using names by (simp add: entries distinct_map)
qed

section \<open>Remotes\<close>

lemma rstrip_slash_id: "s \<noteq> [] \<Longrightarrow> last s \<noteq> CHR ''/'' \<Longrightarrow> rstrip_slash s = s"
  by (induction s rule: rev_induct) (simp_all add: rstrip_slash_def)

lemma rstrip_slash_slash: "rstrip_slash (s @ ''/'') = rstrip_slash s"
  by (simp add: rstrip_slash_def)

lemma repository_ends:
  assumes "repository_re r"
  shows "r \<noteq> []" and "is_alnum (hd r)" and "last r \<noteq> CHR ''/''" and "\<not> is_space (last r)"
proof -
  from assms have slash: "CHR ''/'' \<in> set r" by (simp add: repository_re_def Let_def)
  show "r \<noteq> []" using slash by auto
  have split: "r = before_char CHR ''/'' r @ CHR ''/'' # after_char CHR ''/'' r"
    using repository_split [OF slash] slash by (simp add: repo_name_def)
  obtain c rest where o: "before_char CHR ''/'' r = c # rest" "is_alnum c"
    using assms by (auto simp: repository_re_def Let_def split: list.splits)
  then show "is_alnum (hd r)" using split by (metis append_Cons list.sel(1))
  obtain d name where n: "after_char CHR ''/'' r = d # name" "is_alnum d"
    "list_all (\<lambda>x. is_alnum x \<or> x \<in> {CHR ''.'', CHR ''_'', CHR ''-''}) name"
    using assms by (auto simp: repository_re_def Let_def split: list.splits)
  have "last r \<in> set (d # name)" using split n(1) by (metis last_appendR last_in_set list.distinct(1) last_ConsR)
  then have "is_alnum (last r) \<or> last r \<in> {CHR ''.'', CHR ''_'', CHR ''-''}"
    using n by (auto simp: list_all_iff)
  then show "last r \<noteq> CHR ''/''" "\<not> is_space (last r)"
    using alnum_not_space by (auto simp: is_alnum_def is_lower_def is_upper_def is_digit_def is_space_def code_def Let_def)
qed

lemma ends_with_drop: "ends_with s q \<longleftrightarrow> drop (length s - length q) s = q"
  by (simp add: ends_with_def starts_with_def take_rev)

lemma ends_with_append [simp]: "ends_with (s @ q) q"
  by (simp add: ends_with_drop)

lemma repository_not_git:
  assumes "CHR ''/'' \<in> set r" and "\<not> ends_with r ''.git''"
  shows "\<not> ends_with (p @ r) ''.git''"
proof
  assume "ends_with (p @ r) ''.git''"
  then have d: "drop (length p + length r - 4) p @ drop (length r - 4) r = ''.git''"
    by (simp add: ends_with_drop eval_nat_numeral)
  show False
  proof (cases "4 \<le> length r")
    case True
    with d assms(2) show False by (simp add: ends_with_drop eval_nat_numeral)
  next
    case False
    then have "set r \<subseteq> set ''.git''" using arg_cong [OF d, of set] by auto
    with assms(1) show False by auto
  qed
qed

lemma strip_slash_repository: "repository_re r \<Longrightarrow> strip_slash r = r"
proof -
  assume r: "repository_re r"
  then have "hd r \<noteq> CHR ''/''" using repository_ends(2) [OF r]
    by (auto simp: is_alnum_def is_lower_def is_upper_def is_digit_def code_def)
  then have "dropWhile (\<lambda>c. c = CHR ''/'') r = r" using repository_ends(1) [OF r] by (cases r) auto
  with rstrip_slash_id repository_ends [OF r] show ?thesis by (simp add: strip_slash_def)
qed

lemma drop_first_prefix_remote:
  "p \<in> set remote_prefixes \<Longrightarrow> drop_first_prefix remote_prefixes (p @ r) = r"
  by (auto simp: remote_prefixes_def starts_with_Cons)

text \<open>Remotes name their repository. A GitHub remote in any of the five usual spellings, with or
  without a closing slash and the suffix of bare repositories, normalises to the repository it was made of.\<close>

theorem remote_roundtrip:
  assumes r: "repository_re r" and git: "\<not> ends_with r ''.git''"
    and p: "p \<in> set remote_prefixes" and suffix: "sfx \<in> {'''', ''/'', ''.git'', ''.git/''}"
  shows "normalise_remote (p @ r @ sfx) = r"
proof -
  have pr: "p \<noteq> []" "\<not> is_space (hd p)"
    using p by (auto simp: remote_prefixes_def is_space_def code_def Let_def)
  have v: "py_strip (p @ r @ sfx) = p @ r @ sfx"
  proof (rule py_strip_ends)
    show "p @ r @ sfx \<noteq> []" "\<not> is_space (hd (p @ r @ sfx))" using pr by simp_all
    have "last (p @ r @ sfx) \<in> {last r, CHR ''/'', CHR ''t''}" using suffix repository_ends(1) [OF r] by auto
    then show "\<not> is_space (last (p @ r @ sfx))" using repository_ends [OF r] by (auto simp: is_space_def code_def Let_def)
  qed
  have slash: "CHR ''/'' \<in> set r" using r by (simp add: repository_re_def Let_def)
  have "rstrip_slash (p @ r @ sfx) = (if sfx \<in> {'''', ''/''} then p @ r else (p @ r) @ ''.git'')"
    using suffix rstrip_slash_id [of "p @ r"] rstrip_slash_id [of "p @ r @ ''.git''"]
      rstrip_slash_slash [of "p @ r"] rstrip_slash_slash [of "p @ r @ ''.git''"] repository_ends [OF r] by auto
  moreover have "\<not> ends_with (p @ r) ''.git''" by (rule repository_not_git [OF slash git])
  moreover have "ends_with (p @ r @ ''.git'') ''.git''" using ends_with_append [of "p @ r" "''.git''"] by simp
  ultimately have "normalise_remote (p @ r @ sfx) = strip_slash (drop_first_prefix remote_prefixes (p @ r))"
    by (simp add: normalise_remote_def v Let_def)
  then show ?thesis using drop_first_prefix_remote [OF p] strip_slash_repository [OF r] by simp
qed

section \<open>Branches\<close>

lemma split_char_not_empty [simp]: "split_char c s \<noteq> []"
  by (induction s) (auto split: list.splits)

lemma split_char_hd: "s \<noteq> [] \<Longrightarrow> hd s \<noteq> c \<Longrightarrow> hd (split_char c s) \<noteq> []"
  by (cases s) (auto split: list.splits)

text \<open>No component is empty when there is no double separator, and none at the ends.\<close>

lemma split_char_components:
  "s \<noteq> [] \<Longrightarrow> list_all (\<lambda>w. w \<noteq> []) (split_char c s) \<longleftrightarrow> hd s \<noteq> c \<and> last s \<noteq> c \<and> \<not> contains [c, c] s"
proof (induction s rule: induct_list012)
  case (3 x y s)
  then show ?case
    by (cases "x = c"; cases "y = c"; cases s) (auto simp: starts_with_Cons split: list.splits)
qed (simp_all add: starts_with_Cons)

lemma split_char_none: "c \<notin> set q \<Longrightarrow> split_char c q = [q]"
  by (induction q) auto

lemma split_char_append:
  "c \<notin> set q \<Longrightarrow> split_char c (u @ q) = butlast (split_char c u) @ [last (split_char c u) @ q]"
proof (induction u)
  case (Cons x u)
  then show ?case by (cases "split_char c u"; cases "tl (split_char c u)") auto
qed (simp add: split_char_none)

lemma ends_with_component:
  assumes "ends_with s q" and "c \<notin> set q"
  shows "ends_with (last (split_char c s)) q"
proof -
  have "s = take (length s - length q) s @ q" using assms(1) by (metis append_take_drop_id ends_with_drop)
  then show ?thesis using split_char_append [OF assms(2)] ends_with_append by (metis last_snoc)
qed

lemma ends_with_last: "ends_with s [c] \<longleftrightarrow> s \<noteq> [] \<and> last s = c"
  by (cases s rule: rev_cases) (auto simp: ends_with_def starts_with_Cons)

text \<open>
  Git's rule for a reference, over the characters accepted here: no empty component, none that
  starts with a dot or ends with \<open>.lock\<close>, no two dots in a row, and no final dot.
\<close>

definition git_branch :: "string \<Rightarrow> bool" where
  "git_branch s \<longleftrightarrow> fixed_length 1 255 s \<and> list_all branch_char s \<and> is_alnum (hd s) \<and>
     \<not> contains ''..'' s \<and> last s \<noteq> CHR ''.'' \<and>
     list_all (\<lambda>w. w \<noteq> [] \<and> \<not> starts_with w ''.'' \<and> \<not> ends_with w ''.lock'') (split_char CHR ''/'' s)"

lemma branch_char_not: "branch_char c \<Longrightarrow> c \<noteq> CHR ''@'' \<and> c \<notin> set ''~^:?*['' \<union> {char_of (92::nat)}"
proof -
  assume c: "branch_char c"
  then have "code c \<noteq> 92" by (auto simp: branch_char_def is_alnum_def is_lower_def is_upper_def is_digit_def code_def)
  moreover have "code (char_of (92::nat)) = 92" by (simp add: code_def)
  ultimately have "c \<noteq> char_of (92::nat)" by metis
  with c show ?thesis by (auto simp: branch_char_def is_alnum_def is_lower_def is_upper_def is_digit_def code_def)
qed

lemma alnum_not_special: "is_alnum c \<Longrightarrow> c \<notin> set ''.@/-''"
  by (auto simp: is_alnum_def is_lower_def is_upper_def is_digit_def code_def)

lemma branch_re_iff:
  "branch_re s \<longleftrightarrow> fixed_length 1 255 s \<and> list_all branch_char s \<and> is_alnum (hd s) \<and>
     \<not> contains ''..'' s \<and> \<not> contains ''//'' s \<and> last s \<notin> {CHR ''.'', CHR ''/''}"
proof (cases s)
  case (Cons c t)
  have "\<not> contains [CHR ''@'', CHR ''{''] s" if "list_all branch_char s"
    using that contains_mem [of "CHR ''@''" "''{''" s] branch_char_not by (auto simp: list_all_iff)
  moreover have "is_alnum c \<Longrightarrow> branch_char c" by (simp add: branch_char_def)
  ultimately show ?thesis using Cons by (auto simp: branch_re_def fixed_length_def)
qed (simp add: branch_re_def fixed_length_def)

text \<open>the branch check is git's rule. Of the texts over the accepted characters, the registry
  accepts exactly those that git accepts as a reference; the checks that repeat the pattern change nothing.\<close>

theorem branch_check_is_git_rule: "valid_branch (JStr s) \<longleftrightarrow> git_branch s"
proof (cases "branch_re s")
  case True
  then have re: "fixed_length 1 255 s" "list_all branch_char s" "is_alnum (hd s)" "\<not> contains ''..'' s"
    "\<not> contains ''//'' s" "last s \<noteq> CHR ''.''" "last s \<noteq> CHR ''/''" by (simp_all add: branch_re_iff)
  then have ne: "s \<noteq> []" by (auto simp: fixed_length_def)
  have components: "list_all (\<lambda>w. w \<noteq> []) (split_char CHR ''/'' s)"
    using split_char_components [OF ne] re alnum_not_special by auto
  have lock: "ends_with s ''.lock'' \<Longrightarrow> list_ex (\<lambda>w. ends_with w ''.lock'') (split_char CHR ''/'' s)"
    using ends_with_component [of s "''.lock''" "CHR ''/''"] last_in_set [OF split_char_not_empty]
    by (auto simp: list_ex_iff)
  have "s \<notin> {''.'', ''..'', ''@''}" "\<not> starts_with s ''-''" "\<not> starts_with s ''.''" "\<not> starts_with s ''/''"
    using re(3) alnum_not_special ne by (cases s; auto simp: starts_with_Cons)+
  moreover have "\<not> contains [CHR ''@'', CHR ''{''] s"
    using re(2) contains_mem [of "CHR ''@''" "''{''" s] branch_char_not by (auto simp: list_all_iff)
  moreover have "\<not> list_ex (\<lambda>character. character \<in> set ''~^:?*['' \<union> {char_of (92::nat)}) s"
    using re(2) branch_char_not by (auto simp: list_all_iff list_ex_iff)
  ultimately have "valid_branch (JStr s) \<longleftrightarrow> \<not> ends_with s ''.lock'' \<and>
      \<not> list_ex (\<lambda>w. starts_with w ''.'' \<or> ends_with w ''.lock'') (split_char CHR ''/'' s)"
    using True re by (simp add: valid_branch_def Let_def ends_with_last)
  with lock re components show ?thesis by (auto simp: git_branch_def list_all_iff list_ex_iff)
next
  case False
  have "\<not> git_branch s"
  proof
    assume g: "git_branch s"
    then have ne: "s \<noteq> []" by (auto simp: git_branch_def fixed_length_def)
    have "list_all (\<lambda>w. w \<noteq> []) (split_char CHR ''/'' s)" using g by (simp add: git_branch_def list_all_iff)
    with split_char_components [OF ne] have "last s \<noteq> CHR ''/''" "\<not> contains ''//'' s" by auto
    with g False show False by (simp add: branch_re_iff git_branch_def)
  qed
  with False show ?thesis by (simp add: valid_branch_def)
qed

section \<open>Examples\<close>

text \<open>One repository without contracts, with an empty board of its name and a checkout of its own.\<close>

definition one_repo :: json where
  "one_repo = JObj [(''full_name'', JStr ''octo/App''), (''id'', JInt 7), (''default_branch'', JStr ''main''),
     (''archived'', JBool False), (''disabled'', JBool False),
     (''owner'', JObj [(''login'', JStr ''octo''), (''type'', JStr ''User'')])]"

definition one_net :: net where
  "one_net = \<lparr>respond = (\<lambda>_ c. case c of GitHubCall method url payload \<Rightarrow>
       if starts_with url ''/search'' then Response 200 ''found'' else HttpStatus 404 | _ \<Rightarrow> HttpStatus 500),
     parse_json = (\<lambda>_. Some (JObj [(''items'', JArr [one_repo])]))\<rparr>"

definition one_fs :: fs where
  "one_fs = \<lparr>fs_exists = (\<lambda>_. True), fs_lexists = (\<lambda>_. True), fs_is_symlink = (\<lambda>_. False),
     fs_is_dir = (\<lambda>_. True), fs_is_file = (\<lambda>_. True), fs_boards = (\<lambda>_. [''app'', ''_archive'']),
     fs_keys = (\<lambda>_. Inr []), fs_json = (\<lambda>_. JTree (JObj [])), fs_environ = [(''GIT_DIR'', ''/tmp'')],
     fs_git_origin = (\<lambda>env _. if dhas env ''GIT_DIR'' then GitNotRun else GitExit 0 ''git@github.com:octo/app.git'')\<rparr>"

definition one_live :: "registry_entry list res \<times> call list" where
  "one_live = live_registry_snapshot one_fs one_net ''octo'' ''agent'' (parse_path ''/ws'')
     (parse_path ''/boards'') None []"

lemma one_live_ready:
  "map_sum (\<lambda>_. ()) (map (\<lambda>e. (e_repository e, e_board e, e_ready e, e_checkout e))) (fst one_live) =
     Inr [(''octo/App'', Some ''app'', True, ''/ws/app'')]"
  by code_simp

theorem live_snapshot_exclusive_witness:
  "\<exists>entries calls. one_live = (Inr entries, calls) \<and>
     map (\<lambda>e. (e_board e, e_ready e)) entries = [(Some ''app'', True)] \<and> (\<forall>e \<in> set entries. entry_sound one_fs e)"
proof -
  obtain result calls where l: "one_live = (result, calls)" by fastforce
  from one_live_ready [unfolded l fst_conv] obtain entries where e: "result = Inr entries"
    "map (\<lambda>e. (e_repository e, e_board e, e_ready e, e_checkout e)) entries = [(''octo/App'', Some ''app'', True, ''/ws/app'')]"
    by (cases result) auto
  note r = l [unfolded e(1)] e(2)
  have "distinct (fs_boards one_fs (parse_path ''/boards''))" by code_simp
  from live_snapshot_exclusive [OF r(1) [unfolded one_live_def] this] r(2) show ?thesis
    by (intro exI [of _ entries] exI [of _ calls]) (auto simp: r(1) map_eq_Cons_conv)
qed

theorem remote_roundtrip_witness:
  "normalise_remote ''git@github.com:octo/app.git/'' = ''octo/app''"
proof -
  have "repository_re ''octo/app''" "\<not> ends_with ''octo/app'' ''.git''" by code_simp+
  from remote_roundtrip [OF this, of "''git@github.com:''" "''.git/''"] show ?thesis
    by (simp add: remote_prefixes_def)
qed

end
