(* ===== verification/EdgeClient.thy ===== *)
theory EdgeClient
  imports RepoRegistry
begin

text \<open>
  The edge sync (edge/kanban-github-sync.py): its GitHub client, the reference of a card to its
  Issue, pull requests and completion decisions. Every call is recorded; answers are a function of the
  calls made so far. GitHub's JSON is read by a parameter, after which equal keys are collapsed.
\<close>

section \<open>Calls and answers\<close>

datatype edge_call = EdgeHttp string string "json option"

text \<open>
  A status with body and headers, an HTTP error status, a failure of the transport that is a
  \<open>URLError\<close> or \<open>TimeoutError\<close>, or another exception, by type name. Times that are not in GitHub's
  own format are read by a parameter, as times without a zone depend on the host.
\<close>

datatype edge_answer =
    Answered int string "(string \<times> string) list"
  | HttpFailed int
  | NoTransport string
  | OtherFailure string

record edge_net =
  reply_to :: "edge_call list \<Rightarrow> edge_call \<Rightarrow> edge_answer"
  read_json :: "string \<Rightarrow> string + json"
  local_time :: "string \<Rightarrow> int option"

type_synonym 'a edge_result = "'a res \<times> edge_call list"

definition ask :: "edge_net \<Rightarrow> edge_call \<Rightarrow> edge_call list \<Rightarrow> edge_answer \<times> edge_call list" where
  "ask n c calls = (reply_to n calls c, calls @ [c])"

definition completion_error :: "string \<Rightarrow> 'a res" where
  "completion_error m = Inl (CompletionError m None)"

text \<open>\<open>json.loads(raw.decode("utf-8"))\<close>; the left result is the type of the error.\<close>

definition edge_json :: "edge_net \<Rightarrow> string \<Rightarrow> string + json" where
  "edge_json n raw = (case read_json n raw of Inl name \<Rightarrow> Inl name | Inr t \<Rightarrow> Inr (json_plain t))"

section \<open>The client\<close>

definition lower_headers :: "(string \<times> string) list \<Rightarrow> (string \<times> string) list" where
  "lower_headers headers = foldl (\<lambda>d (k, v). dset (py_lower k) v d) [] headers"

definition edge_get ::
  "edge_net \<Rightarrow> string \<Rightarrow> (string \<times> string) list \<Rightarrow> edge_call list \<Rightarrow> (json \<times> (string \<times> string) list) edge_result" where
  "edge_get n path params calls =
     (let query = urlencode params;
          url = path @ (if query = [] then [] else ''?'' @ query);
          (r, calls) = ask n (EdgeHttp ''GET'' url None) calls;
          failed = (\<lambda>name. completion_error (''GitHub API request failed for '' @ path @ '': '' @ name))
      in case r of
        Answered status raw headers \<Rightarrow> (case edge_json n raw of
            Inl name \<Rightarrow> (failed name, calls)
          | Inr payload \<Rightarrow> (Inr (payload, lower_headers headers), calls))
      | HttpFailed sc \<Rightarrow> (Inl (CompletionError (''GitHub API '' @ int_str sc @ '' for '' @ path) (Some sc)), calls)
      | NoTransport name \<Rightarrow> (failed name, calls)
      | OtherFailure name \<Rightarrow> (Inl (PyError name), calls))"

definition MAX_EDGE_PAGES :: nat where
  "MAX_EDGE_PAGES = 10"

text \<open>The pages that are left, from \<open>page\<close> on.\<close>

fun edge_pages ::
  "edge_net \<Rightarrow> string \<Rightarrow> (string \<times> string) list \<Rightarrow> nat \<Rightarrow> nat \<Rightarrow> json list \<Rightarrow> edge_call list \<Rightarrow> json list edge_result" where
  "edge_pages n path params 0 page items calls =
     (completion_error (''GitHub pagination exceeded '' @ nat_digits MAX_EDGE_PAGES @ '' pages for '' @ path), calls)"
| "edge_pages n path params (Suc left) page items calls =
     and_then (edge_get n path (dset ''page'' (nat_digits page) params) calls) (\<lambda>(payload, headers) calls.
       case payload of
         JArr xs \<Rightarrow> (let items = items @ xs;
               link = (case dget headers ''link'' of None \<Rightarrow> [] | Some v \<Rightarrow> v)
             in if \<not> contains ''rel=\"next\"'' link then (Inr items, calls)
                else edge_pages n path params left (page + 1) items calls)
       | _ \<Rightarrow> (completion_error (''GitHub returned a non-list response for '' @ path), calls))"

definition get_paginated ::
  "edge_net \<Rightarrow> string \<Rightarrow> (string \<times> string) list \<Rightarrow> edge_call list \<Rightarrow> json list edge_result" where
  "get_paginated n path params calls = edge_pages n path params MAX_EDGE_PAGES 1 [] calls"

definition graphql :: "edge_net \<Rightarrow> string \<Rightarrow> dict \<Rightarrow> edge_call list \<Rightarrow> dict edge_result" where
  "graphql n query variables calls =
     (let (r, calls) = ask n (EdgeHttp ''POST'' ''/graphql''
            (Some (JObj [(''query'', JStr query), (''variables'', JObj variables)]))) calls;
          failed = (\<lambda>name. completion_error (''GitHub GraphQL request failed: '' @ name))
      in case r of
        Answered status raw headers \<Rightarrow> (case edge_json n raw of
            Inl name \<Rightarrow> (failed name, calls)
          | Inr (JObj body) \<Rightarrow>
              if truthy (dget_py body ''errors'') then (completion_error ''GitHub GraphQL returned errors'', calls)
              else (case dget_py body ''data'' of
                  JObj d \<Rightarrow> (Inr d, calls)
                | _ \<Rightarrow> (completion_error ''GitHub GraphQL returned no data'', calls))
          | Inr _ \<Rightarrow> (completion_error ''GitHub GraphQL returned errors'', calls))
      | HttpFailed sc \<Rightarrow> (Inl (CompletionError (''GitHub GraphQL API '' @ int_str sc) (Some sc)), calls)
      | NoTransport name \<Rightarrow> (failed name, calls)
      | OtherFailure name \<Rightarrow> (Inl (PyError name), calls))"

text \<open>A \<open>DELETE\<close> counts 404 as success.\<close>

definition edge_delete :: "edge_net \<Rightarrow> string \<Rightarrow> edge_call list \<Rightarrow> int edge_result" where
  "edge_delete n path calls =
     (let (r, calls) = ask n (EdgeHttp ''DELETE'' path None) calls in case r of
        Answered status raw headers \<Rightarrow> (Inr status, calls)
      | HttpFailed sc \<Rightarrow> if sc = 404 then (Inr 404, calls)
          else (completion_error (''GitHub API '' @ int_str sc @ '' for DELETE '' @ path), calls)
      | NoTransport name \<Rightarrow> (completion_error (''GitHub API request failed for DELETE '' @ path @ '': '' @ name), calls)
      | OtherFailure name \<Rightarrow> (Inl (PyError name), calls))"

text \<open>A write returns the status, with no body when it was refused or is no JSON.\<close>

definition write_json :: "edge_net \<Rightarrow> string \<Rightarrow> string \<Rightarrow> dict \<Rightarrow> edge_call list \<Rightarrow> (int \<times> json) edge_result" where
  "write_json n method path payload calls =
     (let (r, calls) = ask n (EdgeHttp method path (Some (JObj payload))) calls in case r of
        Answered status raw headers \<Rightarrow> if raw = [] then (Inr (status, JNull), calls)
          else (case edge_json n raw of
              Inl name \<Rightarrow> if name = ''UnicodeDecodeError'' then (Inl (PyError name), calls)
                else (Inr (status, JNull), calls)
            | Inr v \<Rightarrow> (Inr (status, v), calls))
      | HttpFailed sc \<Rightarrow> (Inr (sc, JNull), calls)
      | NoTransport name \<Rightarrow> (completion_error (''GitHub API request failed for '' @ method @ '' '' @ path @ '': '' @ name), calls)
      | OtherFailure name \<Rightarrow> (Inl (PyError name), calls))"

section \<open>Cards, pull requests and decisions\<close>

record task_ref =
  r_repository :: string
  r_issue :: int
  r_target :: string
  r_title :: string

record pull =
  pr_number :: int
  pr_state :: string
  pr_merged :: bool
  pr_base :: string
  pr_url :: string
  pr_title :: string
  pr_head_sha :: string
  pr_head_ref :: string
  pr_author :: string
  pr_body :: string
  pr_draft :: bool
  pr_closing :: "int list option"

definition is_merged_into_target :: "pull \<Rightarrow> bool" where
  "is_merged_into_target pr \<longleftrightarrow> pr_merged pr \<and> pr_state pr = ''closed''"

record decision =
  d_status :: "string option"
  d_reason :: string
  d_linked :: "int list"
  d_pulls :: "pull list"
  d_error :: "string option"

definition authoritative :: "decision \<Rightarrow> bool" where
  "authoritative d \<longleftrightarrow> d_error d = None"

definition pull_json :: "pull \<Rightarrow> json" where
  "pull_json pr = JObj [(''number'', JInt (pr_number pr)), (''state'', JStr (pr_state pr)),
     (''merged'', JBool (pr_merged pr)), (''base_branch'', JStr (pr_base pr)),
     (''html_url'', JStr (pr_url pr)), (''title'', JStr (pr_title pr)),
     (''closing_issue_numbers'', (case pr_closing pr of None \<Rightarrow> JNull
        | Some ns \<Rightarrow> JArr (map JInt (sort (remdups ns)))))]"

definition decision_json :: "decision \<Rightarrow> json" where
  "decision_json d = JObj [(''desired_status'', opt_str (d_status d)), (''reason'', JStr (d_reason d)),
     (''linked_pr_numbers'', JArr (map JInt (d_linked d))), (''pull_requests'', JArr (map pull_json (d_pulls d))),
     (''error'', opt_str (d_error d)), (''authoritative'', JBool (authoritative d))]"

end
