(* ===== verification/EdgeCompletion.thy ===== *)
theory EdgeCompletion
  imports IntakeCard
begin

text \<open>
  Completion in the edge sync (edge/kanban-github-sync.py): the pull requests linked to an Issue are
  discovered, fetched afresh with their closing relationships, and decide whether the card
  is done or waits in review; a failed query decides nothing.
\<close>

section \<open>Discovery\<close>

text \<open>The digits at the start of a text.\<close>

definition leading_digits :: "string \<Rightarrow> string" where
  "leading_digits s = takeWhile is_digit s"

text \<open>A prefix up to case (of ASCII patterns), and what follows it.\<close>

definition drop_prefix_ci :: "string \<Rightarrow> string \<Rightarrow> string option" where
  "drop_prefix_ci p s = (if py_lower (take (length p) s) = py_lower p then Some (drop (length p) s) else None)"

text \<open>One match of the pull request URL of a repository, at the start of a text: its digits.\<close>

definition pull_url_here :: "string \<Rightarrow> string \<Rightarrow> string option" where
  "pull_url_here repository s =
     (let path = ''://github.com/'' @ repository @ ''/pull/'';
          rest = (case drop_prefix_ci (''http'' @ path) s of Some r \<Rightarrow> Some r
            | None \<Rightarrow> drop_prefix_ci (''https'' @ path) s)
      in case rest of None \<Rightarrow> None | Some r \<Rightarrow>
        if leading_digits r = [] then None else Some (leading_digits r))"

text \<open>
  All matches from left to right. No match starts inside another, as the text of a match has one
  \<open>://\<close> only; so every position may be tried.
\<close>

fun pull_urls :: "string \<Rightarrow> string \<Rightarrow> string list" where
  "pull_urls repository [] = []"
| "pull_urls repository (c # s) = (case pull_url_here repository (c # s) of
     Some digits \<Rightarrow> digits # pull_urls repository s | None \<Rightarrow> pull_urls repository s)"

definition py_int_str :: "string \<Rightarrow> int res" where
  "py_int_str s = (case parse_int s of Some i \<Rightarrow> Inr i | None \<Rightarrow> Inl (PyError ''ValueError''))"

text \<open>What one timeline item contributes: nothing, or a pull request number.\<close>

definition timeline_number :: "string \<Rightarrow> json \<Rightarrow> int option res" where
  "timeline_number repository item =
     (let d = obj_of item; source = dget_py d ''source''; issue = dget_py (obj_of source) ''issue'';
          i = obj_of issue; full_name = dget_py (obj_of (dget_py i ''repository'')) ''full_name'' in
      if \<not> is_obj item \<or> dget_py d ''event'' \<noteq> JStr ''cross-referenced'' then Inr None
      else if \<not> is_obj issue \<or> \<not> truthy (dget_py i ''pull_request'') then Inr None
      else if truthy full_name \<and> casefold (py_str full_name) \<noteq> casefold repository then Inr None
      else (case int_of_json (dget_py i ''number'') of
          Some number \<Rightarrow> if 0 < number then Inr (Some number) else
            (case pull_urls repository (py_str (dget_or i ''html_url'' (JStr []))) of [] \<Rightarrow> Inr None
             | digits # _ \<Rightarrow> map_sum id Some (py_int_str digits))
        | None \<Rightarrow> (case pull_urls repository (py_str (dget_or i ''html_url'' (JStr []))) of [] \<Rightarrow> Inr None
             | digits # _ \<Rightarrow> map_sum id Some (py_int_str digits))))"

fun collect_numbers :: "'a option res list \<Rightarrow> 'a list res" where
  "collect_numbers [] = Inr []"
| "collect_numbers (r # rs) = (case r of Inl x \<Rightarrow> Inl x | Inr v \<Rightarrow>
     (case collect_numbers rs of Inl x \<Rightarrow> Inl x
      | Inr ns \<Rightarrow> Inr ((case v of None \<Rightarrow> [] | Some n \<Rightarrow> [n]) @ ns)))"

definition timeline_pr_numbers :: "json list \<Rightarrow> string \<Rightarrow> int list res" where
  "timeline_pr_numbers items repository = collect_numbers (map (timeline_number repository) items)"

definition issue_path :: "task_ref \<Rightarrow> int \<Rightarrow> string" where
  "issue_path ref number = ''/repos/'' @ r_repository ref @ ''/issues/'' @ int_str number"

definition discover_linked_pr_numbers ::
  "edge_net \<Rightarrow> task_ref \<Rightarrow> string list \<Rightarrow> edge_call list \<Rightarrow> int list edge_result" where
  "discover_linked_pr_numbers n ref text_sources calls =
     and_then (get_paginated n (issue_path ref (r_issue ref) @ ''/timeline'') [(''per_page'', ''100'')] calls)
       (\<lambda>timeline calls. case timeline_pr_numbers timeline (r_repository ref) of Inl x \<Rightarrow> (Inl x, calls)
        | Inr numbers \<Rightarrow>
            (case collect_numbers (map (\<lambda>digits. map_sum id Some (py_int_str digits))
                (concat (map (pull_urls (r_repository ref)) text_sources))) of Inl x \<Rightarrow> (Inl x, calls)
             | Inr mentioned \<Rightarrow> (Inr (sort (remdups (numbers @ mentioned))), calls)))"

section \<open>Pull requests\<close>

definition parse_pull_request :: "int \<Rightarrow> json \<Rightarrow> task_ref \<Rightarrow> pull res" where
  "parse_pull_request number payload ref = (case payload of
      JObj d \<Rightarrow>
        (let state = casefold (py_str (dget_or d ''state'' (JStr [])));
             base = obj_of (dget_py d ''base''); head = obj_of (dget_py d ''head'');
             user = obj_of (dget_py d ''user'');
             base_branch = (if is_obj (dget_py d ''base'') then py_str (dget_or base ''ref'' (JStr [])) else []);
             head_sha = (if is_obj (dget_py d ''head'') then py_str (dget_or head ''sha'' (JStr [])) else [])
         in case (dget_py d ''merged'', dget_py d ''draft'') of
              (JBool merged_raw, JBool draft_raw) \<Rightarrow>
                if state \<notin> {''open'', ''closed''} \<or> base_branch = [] \<or> head_sha = []
                then completion_error (''GitHub returned incomplete PR data for #'' @ int_str number)
                else Inr \<lparr>pr_number = number, pr_state = state,
                  pr_merged = (merged_raw \<and> base_branch = r_target ref), pr_base = base_branch,
                  pr_url = py_str (dget_or d ''html_url'' (JStr [])), pr_title = py_str (dget_or d ''title'' (JStr [])),
                  pr_head_sha = head_sha,
                  pr_head_ref = (if is_obj (dget_py d ''head'') then py_str (dget_or head ''ref'' (JStr [])) else []),
                  pr_author = (if is_obj (dget_py d ''user'') then py_str (dget_or user ''login'' (JStr [])) else []),
                  pr_body = py_str (py_or (dget_py d ''body'') (JStr [])), pr_draft = draft_raw, pr_closing = None\<rparr>
            | _ \<Rightarrow> completion_error (''GitHub returned incomplete PR data for #'' @ int_str number))
    | _ \<Rightarrow> completion_error (''GitHub returned an invalid PR response for #'' @ int_str number))"

definition CLOSING_ISSUES_QUERY :: string where
  "CLOSING_ISSUES_QUERY = ''query($owner:String!,$name:String!,$number:Int!){'' @
     ''repository(owner:$owner,name:$name){'' @ ''pullRequest(number:$number){'' @
     ''number closingIssuesReferences(first:100){'' @ ''nodes{number} pageInfo{hasNextPage}'' @ ''}}}}''"

fun closing_nodes :: "string \<Rightarrow> json list \<Rightarrow> int list res" where
  "closing_nodes pr [] = Inr []"
| "closing_nodes pr (JObj d # rest) = (case dget_py d ''number'' of
     JInt i \<Rightarrow> if i < 1 then completion_error (''GitHub returned invalid closing Issue number for PR #'' @ pr)
       else (case closing_nodes pr rest of Inl x \<Rightarrow> Inl x | Inr is \<Rightarrow> Inr (i # is))
   | _ \<Rightarrow> completion_error (''GitHub returned invalid closing Issue number for PR #'' @ pr))"
| "closing_nodes pr (_ # rest) = completion_error (''GitHub returned malformed closing relationship for PR #'' @ pr)"

text \<open>Python's equality of a value with an integer.\<close>

definition py_equals_int :: "json \<Rightarrow> int \<Rightarrow> bool" where
  "py_equals_int v i = (case v of JInt j \<Rightarrow> j = i | JBool b \<Rightarrow> i = (if b then 1 else 0)
     | JFloat r t \<Rightarrow> t = Some i \<and> r = int_str i @ ''.0'' | _ \<Rightarrow> False)"

text \<open>The closing relationships in a GraphQL answer, complete or an error.\<close>

definition closing_connection :: "int \<Rightarrow> dict \<Rightarrow> int list res" where
  "closing_connection pr_no data =
     (let pr = int_str pr_no; pull_request = dget_py (obj_of (dget_py data ''repository'')) ''pullRequest'';
          d = obj_of pull_request; connection = dget_py d ''closingIssuesReferences''; cd = obj_of connection;
          page_info = dget_py cd ''pageInfo'' in
      if \<not> is_obj pull_request then completion_error (''GitHub returned no relationship data for PR #'' @ pr)
      else if \<not> py_equals_int (dget_py d ''number'') pr_no
      then completion_error (''GitHub returned mismatched relationship data for PR #'' @ pr)
      else if \<not> is_obj connection
      then completion_error (''GitHub returned malformed closing relationships for PR #'' @ pr)
      else (case (dget_py cd ''nodes'', page_info) of
          (JArr nodes, JObj pi) \<Rightarrow> (case dget_py pi ''hasNextPage'' of
              JBool has_next_page \<Rightarrow>
                if has_next_page
                then completion_error (''GitHub closing relationships exceeded the bounded page for PR #'' @ pr)
                else closing_nodes pr nodes
            | _ \<Rightarrow> completion_error (''GitHub returned invalid closing-relationship pagination for PR #'' @ pr))
        | _ \<Rightarrow> completion_error (''GitHub returned incomplete closing relationships for PR #'' @ pr)))"

definition pull_request_closing_issue_numbers ::
  "edge_net \<Rightarrow> task_ref \<Rightarrow> int \<Rightarrow> edge_call list \<Rightarrow> int list edge_result" where
  "pull_request_closing_issue_numbers n ref pr_no calls =
     (let owner = before_char CHR ''/'' (r_repository ref); name = after_char CHR ''/'' (r_repository ref) in
      if CHR ''/'' \<notin> set (r_repository ref) \<or> owner = [] \<or> name = []
      then (completion_error (''invalid repository name for closing-relationship lookup: '' @ py_repr_str (r_repository ref)), calls)
      else and_then (graphql n CLOSING_ISSUES_QUERY
             [(''owner'', JStr owner), (''name'', JStr name), (''number'', JInt pr_no)] calls)
        (\<lambda>data calls. (closing_connection pr_no data, calls)))"

section \<open>Evaluation\<close>

text \<open>A closing keyword, spaces, the number sign or an Issue URL of any repository, and a whole number.\<close>

definition closing_words :: "string list" where
  "closing_words = [''closes'', ''close'', ''closed'', ''fixes'', ''fix'', ''fixed'', ''resolves'', ''resolve'', ''resolved'']"

definition word_char :: "char \<Rightarrow> bool" where
  "word_char c \<longleftrightarrow> is_alnum c \<or> c = CHR ''_'' \<or> code c \<in> {170, 178, 179, 181, 185, 186, 188, 189, 190} \<or>
     (192 \<le> code c \<and> code c \<noteq> 215 \<and> code c \<noteq> 247)"

text \<open>A run of characters other than slash and space, not empty, then the given text.\<close>

definition skip_segment :: "string \<Rightarrow> string \<Rightarrow> string option" where
  "skip_segment follow s = (let ok = (\<lambda>c. c \<noteq> CHR ''/'' \<and> \<not> is_space c) in
     if takeWhile ok s = [] then None else drop_prefix_ci follow (dropWhile ok s))"

definition after_reference_mark :: "string \<Rightarrow> string list" where
  "after_reference_mark s = (case s of c # r \<Rightarrow> if c = CHR ''#'' then [r] else [] | [] \<Rightarrow> []) @
     (case (case drop_prefix_ci ''http://github.com/'' s of Some r \<Rightarrow> Some r
            | None \<Rightarrow> drop_prefix_ci ''https://github.com/'' s) of
        None \<Rightarrow> []
      | Some r \<Rightarrow> (case skip_segment ''/'' r of None \<Rightarrow> []
          | Some r \<Rightarrow> (case skip_segment ''/issues/'' r of None \<Rightarrow> [] | Some r \<Rightarrow> [r])))"

definition reference_number :: "string \<Rightarrow> string option" where
  "reference_number s = (let digits = leading_digits s; r = dropWhile is_digit s in
     if digits = [] then None
     else (case r of [] \<Rightarrow> Some digits | c # _ \<Rightarrow> if word_char c then None else Some digits))"

text \<open>The references that start at one word: at most one keyword fits before the spaces.\<close>

definition closing_here :: "string \<Rightarrow> string option" where
  "closing_here s = (case List.map_filter (\<lambda>w. case drop_prefix_ci w s of None \<Rightarrow> None
       | Some r \<Rightarrow> if takeWhile is_space r = [] then None
           else (case List.map_filter reference_number (after_reference_mark (dropWhile is_space r)) of
               [] \<Rightarrow> None | digits # _ \<Rightarrow> Some digits)) closing_words of
     [] \<Rightarrow> None | digits # _ \<Rightarrow> Some digits)"

fun closing_references :: "bool \<Rightarrow> string \<Rightarrow> string list" where
  "closing_references after_word [] = []"
| "closing_references after_word (c # s) =
     (case (if after_word then None else closing_here (c # s)) of
        Some digits \<Rightarrow> digits # closing_references (word_char c) s
      | None \<Rightarrow> closing_references (word_char c) s)"

definition body_closes :: "string \<Rightarrow> int \<Rightarrow> bool" where
  "body_closes text issue \<longleftrightarrow> list_ex (\<lambda>digits. parse_int digits = Some issue) (closing_references False text)"

definition is_effective_linked_pr :: "task_ref \<Rightarrow> pull \<Rightarrow> bool" where
  "is_effective_linked_pr ref pr = (case pr_closing pr of
      None \<Rightarrow> True
    | Some relationships \<Rightarrow>
        if r_issue ref \<in> set relationships then True
        else if is_merged_into_target pr \<or> pr_state pr = ''closed'' then body_closes (pr_body pr) (r_issue ref)
        else False)"

definition merged_into :: "task_ref \<Rightarrow> pull \<Rightarrow> bool" where
  "merged_into ref pr \<longleftrightarrow> is_merged_into_target pr \<and> pr_base pr = r_target ref"

definition superseded_closed_pr_numbers :: "task_ref \<Rightarrow> pull list \<Rightarrow> int list" where
  "superseded_closed_pr_numbers ref prs =
     (let merged_target_prs = filter (merged_into ref) prs in
      map pr_number (filter (\<lambda>pr. pr_state pr = ''closed'' \<and> \<not> merged_into ref pr \<and> pr_head_ref pr \<noteq> [] \<and>
        list_ex (\<lambda>replacement. pr_number replacement > pr_number pr \<and> pr_head_ref replacement \<noteq> [] \<and>
          pr_head_ref replacement = pr_head_ref pr) merged_target_prs) prs))"

definition unresolved_closed :: "task_ref \<Rightarrow> pull list \<Rightarrow> pull list" where
  "unresolved_closed ref prs = filter (\<lambda>pr. pr_state pr = ''closed'' \<and> \<not> merged_into ref pr) prs"

definition decide :: "string \<Rightarrow> string \<Rightarrow> int list \<Rightarrow> pull list \<Rightarrow> decision" where
  "decide status reason numbers prs = \<lparr>d_status = Some status, d_reason = reason, d_linked = numbers,
     d_pulls = prs, d_error = None\<rparr>"

text \<open>Whether the closed pull requests that were not merged are all superseded, and nothing else is left.\<close>

definition all_superseded :: "task_ref \<Rightarrow> pull list \<Rightarrow> bool" where
  "all_superseded ref effective =
     (let unresolved = unresolved_closed ref effective; superseded = superseded_closed_pr_numbers ref effective;
          remaining = filter (\<lambda>pr. pr_number pr \<notin> set superseded) effective in
      unresolved \<noteq> [] \<and> superseded \<noteq> [] \<and> set superseded = set (map pr_number unresolved) \<and>
      remaining \<noteq> [] \<and> list_all (merged_into ref) remaining)"

definition evaluate_completion ::
  "task_ref \<Rightarrow> pull list \<Rightarrow> int list \<Rightarrow> string \<Rightarrow> int list \<Rightarrow> decision" where
  "evaluate_completion ref pull_requests linked_pr_numbers issue_state superseded_pr_numbers =
     (let prs = sort_key pr_number pull_requests;
          numbers = sort (remdups (linked_pr_numbers @ map pr_number prs));
          effective = filter (\<lambda>pr. pr_number pr \<notin> set superseded_pr_numbers \<and> is_effective_linked_pr ref pr) prs;
          has_open_pr = list_ex (\<lambda>pr. pr_state pr = ''open'') effective in
      if prs = [] then decide ''review'' ''no_linked_pr'' numbers prs
      else if effective = [] then decide ''review'' ''no_linked_pr'' numbers effective
      else if list_all (merged_into ref) effective then decide ''done'' ''all_linked_prs_merged'' numbers effective
      else if casefold issue_state = ''closed'' \<and> \<not> has_open_pr \<and> all_superseded ref effective
      then decide ''done'' ''superseded_pr_merged'' numbers effective
      else decide ''review''
        (if has_open_pr then ''linked_pr_open''
         else if list_ex (\<lambda>pr. pr_state pr = ''closed'' \<and> \<not> merged_into ref pr) effective
         then ''linked_pr_closed_not_merged'' else ''linked_pr_not_merged'') numbers effective)"

section \<open>Verification\<close>

definition pull_path :: "task_ref \<Rightarrow> int \<Rightarrow> string" where
  "pull_path ref number = ''/repos/'' @ r_repository ref @ ''/pulls/'' @ int_str number"

fun fetch_pulls :: "edge_net \<Rightarrow> task_ref \<Rightarrow> int list \<Rightarrow> edge_call list \<Rightarrow> pull list edge_result" where
  "fetch_pulls n ref [] calls = (Inr [], calls)"
| "fetch_pulls n ref (number # rest) calls =
     and_then (edge_get n (pull_path ref number) [] calls) (\<lambda>(payload, _) calls.
       case parse_pull_request number payload ref of Inl x \<Rightarrow> (Inl x, calls)
       | Inr pr \<Rightarrow> and_then (fetch_pulls n ref rest calls) (\<lambda>prs calls. (Inr (pr # prs), calls)))"

fun fetch_closing :: "edge_net \<Rightarrow> task_ref \<Rightarrow> pull list \<Rightarrow> edge_call list \<Rightarrow> pull list edge_result" where
  "fetch_closing n ref [] calls = (Inr [], calls)"
| "fetch_closing n ref (pr # rest) calls =
     and_then (pull_request_closing_issue_numbers n ref (pr_number pr) calls) (\<lambda>closing calls.
       and_then (fetch_closing n ref rest calls) (\<lambda>prs calls. (Inr (pr\<lparr>pr_closing := Some closing\<rparr> # prs), calls)))"

definition fetch_issue_state :: "edge_net \<Rightarrow> task_ref \<Rightarrow> edge_call list \<Rightarrow> string edge_result" where
  "fetch_issue_state n ref calls =
     and_then (edge_get n (issue_path ref (r_issue ref)) [] calls) (\<lambda>(payload, _) calls. case payload of
         JObj d \<Rightarrow> (let state = casefold (py_str (dget_or d ''state'' (JStr []))) in
           if state \<notin> {''open'', ''closed''}
           then (completion_error (''GitHub returned incomplete Issue data for #'' @ int_str (r_issue ref)), calls)
           else (Inr state, calls))
       | _ \<Rightarrow> (completion_error (''GitHub returned an invalid Issue response for #'' @ int_str (r_issue ref)), calls))"

text \<open>
  The decision on what was read: the state of the Issue is asked for only when every closed pull
  request that was not merged is superseded.
\<close>

definition settle_completion :: "edge_net \<Rightarrow> task_ref \<Rightarrow> int list \<Rightarrow> pull list \<Rightarrow> edge_call list \<Rightarrow> decision edge_result" where
  "settle_completion n ref numbers pull_requests calls =
     (let provisional = evaluate_completion ref pull_requests numbers [] [];
          unresolved = unresolved_closed ref (d_pulls provisional);
          superseded = superseded_closed_pr_numbers ref (d_pulls provisional) in
      if d_reason provisional \<noteq> ''linked_pr_closed_not_merged'' then (Inr provisional, calls)
      else if unresolved = [] \<or> set superseded \<noteq> set (map pr_number unresolved) then (Inr provisional, calls)
      else and_then (fetch_issue_state n ref calls) (\<lambda>issue_state calls.
        (Inr (evaluate_completion ref pull_requests numbers issue_state []), calls)))"

definition verify_queries :: "edge_net \<Rightarrow> task_ref \<Rightarrow> string list \<Rightarrow> edge_call list \<Rightarrow> decision edge_result" where
  "verify_queries n ref text_sources calls =
     and_then (discover_linked_pr_numbers n ref text_sources calls) (\<lambda>numbers calls.
     and_then (fetch_pulls n ref numbers calls) (\<lambda>fetched calls.
     and_then (fetch_closing n ref fetched calls) (settle_completion n ref numbers)))"

definition query_failed :: "string \<Rightarrow> decision" where
  "query_failed m = \<lparr>d_status = None, d_reason = ''github_query_failed'', d_linked = [], d_pulls = [],
     d_error = Some m\<rparr>"

text \<open>Only a \<open>GithubCompletionError\<close> is turned into a decision.\<close>

definition verify_completion :: "edge_net \<Rightarrow> task_ref \<Rightarrow> string list \<Rightarrow> edge_call list \<Rightarrow> decision edge_result" where
  "verify_completion n ref text_sources calls =
     (case verify_queries n ref text_sources calls of
        (Inl (CompletionError m _), calls) \<Rightarrow> (Inr (query_failed m), calls)
      | (r, calls) \<Rightarrow> (r, calls))"

end
