(* ===== verification/CompletionGuarantees.thy ===== *)
theory CompletionGuarantees
  imports EdgeCompletion
begin

text \<open>
  What the edge sync's completion decision means: done exactly when every required pull request is
  merged or superseded, only on evidence fetched in the same run, and nothing when a query fails.
\<close>

section \<open>The decision\<close>

text \<open>The pull requests that count for an Issue.\<close>

definition required :: "task_ref \<Rightarrow> int list \<Rightarrow> pull list \<Rightarrow> pull set" where
  "required ref superseded prs = {pr \<in> set prs. pr_number pr \<notin> set superseded \<and> is_effective_linked_pr ref pr}"

text \<open>A closed pull request that was replaced by a newer merged one from the same branch.\<close>

definition replaced :: "task_ref \<Rightarrow> pull set \<Rightarrow> pull \<Rightarrow> bool" where
  "replaced ref R pr \<longleftrightarrow> pr_state pr = ''closed'' \<and> pr_head_ref pr \<noteq> [] \<and>
     (\<exists>r \<in> R. merged_into ref r \<and> pr_number r > pr_number pr \<and> pr_head_ref r = pr_head_ref pr)"

definition completed :: "task_ref \<Rightarrow> string \<Rightarrow> pull set \<Rightarrow> bool" where
  "completed ref issue_state R \<longleftrightarrow> R \<noteq> {} \<and>
     (\<forall>pr \<in> R. merged_into ref pr \<or> casefold issue_state = ''closed'' \<and> replaced ref R pr)"

lemma merged_closed: "merged_into ref pr \<Longrightarrow> pr_state pr = ''closed''"
  by (simp add: merged_into_def is_merged_into_target_def)

lemma superseded_mem:
  "set (superseded_closed_pr_numbers ref prs) =
     pr_number ` {pr \<in> set prs. \<not> merged_into ref pr \<and> replaced ref (set prs) pr}"
  by (force simp: superseded_closed_pr_numbers_def replaced_def Let_def list_ex_iff)

lemma number_eq: "distinct (map pr_number prs) \<Longrightarrow> a \<in> set prs \<Longrightarrow> b \<in> set prs \<Longrightarrow> pr_number a = pr_number b \<Longrightarrow> a = b"
  by (auto simp: distinct_map dest: inj_onD)

lemma all_superseded_iff:
  assumes d: "distinct (map pr_number prs)" and s: "\<forall>pr \<in> set prs. pr_state pr = ''closed''"
    and some: "\<exists>pr \<in> set prs. \<not> merged_into ref pr"
  shows "all_superseded ref prs \<longleftrightarrow> (\<forall>pr \<in> set prs. merged_into ref pr \<or> replaced ref (set prs) pr)"
proof -
  define gone where "gone = {pr \<in> set prs. \<not> merged_into ref pr \<and> replaced ref (set prs) pr}"
  have sup: "set (superseded_closed_pr_numbers ref prs) = pr_number ` gone" by (simp add: superseded_mem gone_def)
  have unres: "set (map pr_number (unresolved_closed ref prs)) = pr_number ` {pr \<in> set prs. \<not> merged_into ref pr}"
    using s by (auto simp: unresolved_closed_def)
  have inj: "pr_number pr \<in> pr_number ` A \<longleftrightarrow> pr \<in> A" if "pr \<in> set prs" "A \<subseteq> set prs" for pr A
    using number_eq [OF d] that by blast
  show ?thesis
  proof
    assume a: "all_superseded ref prs"
    show "\<forall>pr \<in> set prs. merged_into ref pr \<or> replaced ref (set prs) pr"
    proof (intro ballI)
      fix pr assume pr: "pr \<in> set prs"
      from a have "pr_number ` gone = pr_number ` {pr \<in> set prs. \<not> merged_into ref pr}"
        unfolding all_superseded_def Let_def sup unres by blast
      then have "\<not> merged_into ref pr \<Longrightarrow> pr \<in> gone"
        using inj [OF pr, of gone] inj [OF pr, of "{pr \<in> set prs. \<not> merged_into ref pr}"] pr by (auto simp: gone_def)
      then show "merged_into ref pr \<or> replaced ref (set prs) pr" by (auto simp: gone_def)
    qed
  next
    assume a: "\<forall>pr \<in> set prs. merged_into ref pr \<or> replaced ref (set prs) pr"
    then have gone: "gone = {pr \<in> set prs. \<not> merged_into ref pr}" by (auto simp: gone_def)
    from some obtain pr where pr: "pr \<in> set prs" "\<not> merged_into ref pr" by blast
    with a obtain r where r: "r \<in> set prs" "merged_into ref r" by (auto simp: replaced_def)
    have rest: "pr_number x \<notin> set (superseded_closed_pr_numbers ref prs) \<longleftrightarrow> merged_into ref x" if "x \<in> set prs" for x
      unfolding sup using inj [OF that, of gone] that by (auto simp: gone)
    have "unresolved_closed ref prs \<noteq> []" using pr s by (auto simp: unresolved_closed_def filter_empty_conv)
    moreover have "superseded_closed_pr_numbers ref prs \<noteq> []" using pr rest by fastforce
    moreover have "filter (\<lambda>pr. pr_number pr \<notin> set (superseded_closed_pr_numbers ref prs)) prs \<noteq> []"
      using r rest by (auto simp: filter_empty_conv)
    ultimately show "all_superseded ref prs"
      using rest unfolding all_superseded_def Let_def unres sup gone by (auto simp: list_all_iff)
  qed
qed

text \<open>C10: when a card is done. Of pull requests with distinct numbers, each open or closed, the edge sync
  finds the card done exactly when some are required and each of them is merged into the target branch,
  or, once the Issue is closed, was closed and replaced by a newer merged one from its own branch;
  in every other case it finds it in review.\<close>

theorem done_iff_completed:
  assumes d: "distinct (map pr_number prs)" and states: "\<forall>pr \<in> set prs. pr_state pr \<in> {''open'', ''closed''}"
  shows "d_status (evaluate_completion ref prs linked issue_state superseded) =
    Some (if completed ref issue_state (required ref superseded prs) then ''done'' else ''review'')"
proof -
  define effective where "effective = filter (\<lambda>pr. pr_number pr \<notin> set superseded \<and> is_effective_linked_pr ref pr)
    (sort_key pr_number prs)"
  have set_e: "set effective = required ref superseded prs" by (auto simp: effective_def required_def)
  have dist: "distinct (map pr_number effective)"
    using d by (auto simp: effective_def distinct_map intro: inj_on_subset)
  have st: "\<forall>pr \<in> set effective. pr_state pr \<in> {''open'', ''closed''}" using states by (auto simp: effective_def)
  have eval: "d_status (evaluate_completion ref prs linked issue_state superseded) = Some (if effective \<noteq> [] \<and>
      (list_all (merged_into ref) effective \<or> casefold issue_state = ''closed'' \<and>
       \<not> list_ex (\<lambda>pr. pr_state pr = ''open'') effective \<and> all_superseded ref effective) then ''done'' else ''review'')"
    by (simp add: evaluate_completion_def decide_def effective_def Let_def)
  have "effective \<noteq> [] \<and> (list_all (merged_into ref) effective \<or> casefold issue_state = ''closed'' \<and>
      \<not> list_ex (\<lambda>pr. pr_state pr = ''open'') effective \<and> all_superseded ref effective) \<longleftrightarrow>
    completed ref issue_state (set effective)"
  proof (cases "list_all (merged_into ref) effective")
    case True
    then show ?thesis by (auto simp: completed_def list_all_iff)
  next
    case False
    then have some: "\<exists>pr \<in> set effective. \<not> merged_into ref pr" by (auto simp: list_all_iff)
    show ?thesis
    proof (cases "\<exists>pr \<in> set effective. pr_state pr = ''open''")
      case True
      then show ?thesis using False merged_closed by (fastforce simp: completed_def list_ex_iff replaced_def)
    next
      case closed: False
      then have "\<forall>pr \<in> set effective. pr_state pr = ''closed''" using st by blast
      from all_superseded_iff [OF dist this some] show ?thesis
        using False closed by (auto simp: completed_def list_ex_iff list_all_iff)
    qed
  qed
  then show ?thesis unfolding eval set_e by simp
qed

section \<open>Evidence\<close>

text \<open>A \<open>GET\<close> of a path that was answered with a payload, among the calls made.\<close>

definition got :: "edge_net \<Rightarrow> edge_call list \<Rightarrow> string \<Rightarrow> json \<Rightarrow> bool" where
  "got n calls url payload \<longleftrightarrow> (\<exists>before after status raw headers. calls = before @ EdgeHttp ''GET'' url None # after \<and>
     reply_to n before (EdgeHttp ''GET'' url None) = Answered status raw headers \<and> edge_json n raw = Inr payload)"

definition extends :: "edge_call list \<Rightarrow> edge_call list \<Rightarrow> bool" where
  "extends calls calls' \<longleftrightarrow> (\<exists>more. calls' = calls @ more)"

lemma extends_refl [simp, intro]: "extends calls calls"
  by (simp add: extends_def)

lemma extends_trans: "extends a b \<Longrightarrow> extends b c \<Longrightarrow> extends a c"
  by (auto simp: extends_def)

lemma got_extends: "got n calls url payload \<Longrightarrow> extends calls calls' \<Longrightarrow> got n calls' url payload"
  unfolding got_def extends_def by fastforce

lemma and_then_extends:
  assumes "extends calls (snd m)" and "\<And>x. fst m = Inr x \<Longrightarrow> extends (snd m) (snd (k x (snd m)))"
  shows "extends calls (snd (and_then m k))"
  using assms by (cases m; cases "fst m") (auto simp: and_then_def intro: extends_trans)

lemma edge_get_extends: "extends calls (snd (edge_get n path params calls))"
  by (auto simp: edge_get_def ask_def extends_def Let_def split: edge_answer.splits sum.splits)

lemma graphql_extends: "extends calls (snd (graphql n query variables calls))"
  by (auto simp: graphql_def ask_def extends_def Let_def split: edge_answer.splits sum.splits json.splits)

lemma edge_pages_extends: "extends calls (snd (edge_pages n path params left page items calls))"
proof (induction left arbitrary: page items calls)
  case (Suc left)
  show ?case
    unfolding edge_pages.simps
    by (rule and_then_extends [OF edge_get_extends])
      (use Suc in \<open>auto simp: Let_def split: json.splits\<close>)
qed simp

lemma discover_extends: "extends calls (snd (discover_linked_pr_numbers n ref texts calls))"
  unfolding discover_linked_pr_numbers_def get_paginated_def
  by (rule and_then_extends [OF edge_pages_extends]) (auto split: sum.splits)

lemma edge_get_got:
  "edge_get n path [] calls = (Inr (payload, headers), calls') \<Longrightarrow> got n calls' path payload"
proof -
  assume "edge_get n path [] calls = (Inr (payload, headers), calls')"
  then obtain status raw hs where "reply_to n calls (EdgeHttp ''GET'' path None) = Answered status raw hs"
    "edge_json n raw = Inr payload" "calls' = calls @ [EdgeHttp ''GET'' path None]"
    by (auto simp: edge_get_def ask_def Let_def urlencode_def completion_error_def split: edge_answer.splits sum.splits)
  then show ?thesis unfolding got_def by blast
qed

text \<open>A pull request as it was read in the run.\<close>

definition read_pull :: "edge_net \<Rightarrow> task_ref \<Rightarrow> edge_call list \<Rightarrow> pull \<Rightarrow> bool" where
  "read_pull n ref calls pr \<longleftrightarrow> (\<exists>payload pr'. got n calls (pull_path ref (pr_number pr)) payload \<and>
     parse_pull_request (pr_number pr) payload ref = Inr pr' \<and> pr = pr'\<lparr>pr_closing := pr_closing pr\<rparr>)"

lemma read_pull_extends: "read_pull n ref calls pr \<Longrightarrow> extends calls calls' \<Longrightarrow> read_pull n ref calls' pr"
  unfolding read_pull_def using got_extends by blast

lemma parsed_number: "parse_pull_request number payload ref = Inr pr \<Longrightarrow>
  pr_number pr = number \<and> pr_closing pr = None \<and> pr_state pr \<in> {''open'', ''closed''} \<and>
  (pr_merged pr \<longrightarrow> pr_base pr = r_target ref)"
  by (auto simp: parse_pull_request_def completion_error_def Let_def split: json.splits if_splits)

lemma fetch_pulls_read:
  "fetch_pulls n ref numbers calls = (Inr prs, calls') \<Longrightarrow>
   extends calls calls' \<and> map pr_number prs = numbers \<and>
   (\<forall>pr \<in> set prs. read_pull n ref calls' pr \<and> pr_state pr \<in> {''open'', ''closed''})"
proof (induction numbers arbitrary: calls prs)
  case (Cons number numbers)
  from Cons.prems obtain payload headers c pr where g: "edge_get n (pull_path ref number) [] calls = (Inr (payload, headers), c)"
    and p: "parse_pull_request number payload ref = Inr pr"
    and k: "and_then (fetch_pulls n ref numbers c) (\<lambda>prs calls. (Inr (pr # prs), calls)) = (Inr prs, calls')"
    by (auto simp: and_then_def split: sum.splits prod.splits)
  then obtain rest where r: "fetch_pulls n ref numbers c = (Inr rest, calls')" "prs = pr # rest"
    by (auto simp: and_then_def split: sum.splits prod.splits)
  note IH = Cons.IH [OF r(1)]
  have "extends calls c" using edge_get_extends [of calls n "pull_path ref number" "[]"] g by simp
  moreover have "read_pull n ref c pr"
    unfolding read_pull_def using edge_get_got [OF g] p parsed_number [OF p] by (intro exI [of _ payload] exI [of _ pr]) auto
  ultimately have "extends calls calls'" "read_pull n ref calls' pr"
    using IH extends_trans read_pull_extends by blast+
  with IH r(2) parsed_number [OF p] show ?case by simp
qed simp

lemma fetch_closing_read:
  "fetch_closing n ref prs calls = (Inr prs', calls') \<Longrightarrow> extends calls calls' \<and>
   list_all2 (\<lambda>pr pr'. \<exists>closing. pr' = pr\<lparr>pr_closing := Some closing\<rparr>) prs prs'"
proof (induction prs arbitrary: calls prs')
  case (Cons pr prs)
  from Cons.prems obtain closing c where g: "pull_request_closing_issue_numbers n ref (pr_number pr) calls = (Inr closing, c)"
    and k: "and_then (fetch_closing n ref prs c) (\<lambda>prs calls. (Inr (pr\<lparr>pr_closing := Some closing\<rparr> # prs), calls)) = (Inr prs', calls')"
    by (auto simp: and_then_def split: sum.splits prod.splits)
  then obtain rest where r: "fetch_closing n ref prs c = (Inr rest, calls')" "prs' = pr\<lparr>pr_closing := Some closing\<rparr> # rest"
    by (auto simp: and_then_def split: sum.splits prod.splits)
  have "extends calls (snd (pull_request_closing_issue_numbers n ref (pr_number pr) calls))"
    unfolding pull_request_closing_issue_numbers_def Let_def
    by (auto intro!: and_then_extends graphql_extends)
  with g Cons.IH [OF r(1)] have "extends calls calls'" using extends_trans by simp
  with Cons.IH [OF r(1)] r(2) show ?case by auto
qed simp

text \<open>What the queries of a verification read: the pull requests of every discovered number, in order.\<close>

lemma discovered_numbers:
  "discover_linked_pr_numbers n ref texts calls = (Inr numbers, calls') \<Longrightarrow> sorted numbers \<and> distinct numbers"
  by (auto simp: discover_linked_pr_numbers_def and_then_def split: sum.splits prod.splits)

lemma evaluated_linked:
  assumes "sorted numbers" and "distinct numbers" and "map pr_number prs = numbers"
  shows "d_linked (evaluate_completion ref prs numbers st superseded) = numbers"
proof -
  have "sort (remdups (numbers @ map pr_number (sort_key pr_number prs))) = numbers"
    by (rule sorted_distinct_set_unique) (use assms in auto)
  moreover have "d_linked (evaluate_completion ref prs numbers st superseded) =
      sort (remdups (numbers @ map pr_number (sort_key pr_number prs)))"
    unfolding evaluate_completion_def decide_def Let_def by auto
  ultimately show ?thesis by simp
qed

lemma issue_state_read:
  "fetch_issue_state n ref calls = (Inr st, calls') \<Longrightarrow> extends calls calls' \<and>
   (\<exists>d. got n calls' (issue_path ref (r_issue ref)) (JObj d) \<and> st = casefold (py_str (dget_or d ''state'' (JStr []))))"
proof -
  assume a: "fetch_issue_state n ref calls = (Inr st, calls')"
  then obtain d headers where g: "edge_get n (issue_path ref (r_issue ref)) [] calls = (Inr (JObj d, headers), calls')"
    and st: "st = casefold (py_str (dget_or d ''state'' (JStr [])))"
    by (auto simp: fetch_issue_state_def and_then_def completion_error_def Let_def
        split: sum.splits prod.splits json.splits if_splits)
  with edge_get_got [OF g] edge_get_extends [of calls n "issue_path ref (r_issue ref)" "[]"] show ?thesis by auto
qed

definition run_evidence :: "edge_net \<Rightarrow> task_ref \<Rightarrow> edge_call list \<Rightarrow> int list \<Rightarrow> pull list \<Rightarrow> string \<Rightarrow> bool" where
  "run_evidence n ref calls numbers prs issue_state \<longleftrightarrow> sorted numbers \<and> distinct numbers \<and> map pr_number prs = numbers \<and>
     (\<forall>pr \<in> set prs. read_pull n ref calls pr \<and> pr_state pr \<in> {''open'', ''closed''}) \<and>
     (issue_state = [] \<or> (\<exists>d. got n calls (issue_path ref (r_issue ref)) (JObj d) \<and>
        issue_state = casefold (py_str (dget_or d ''state'' (JStr [])))))"

lemma read_pull_closing: "read_pull n ref calls pr \<Longrightarrow> read_pull n ref calls (pr\<lparr>pr_closing := c\<rparr>)"
proof -
  assume "read_pull n ref calls pr"
  then obtain payload pr' where r: "got n calls (pull_path ref (pr_number pr)) payload"
    "parse_pull_request (pr_number pr) payload ref = Inr pr'" "pr = pr'\<lparr>pr_closing := pr_closing pr\<rparr>"
    unfolding read_pull_def by blast
  from r(3) have "pr\<lparr>pr_closing := c\<rparr> = pr'\<lparr>pr_closing := c\<rparr>" by (metis pull.update_convs(12) pull.surjective)
  with r(1,2) parsed_number [OF r(2)] show ?thesis unfolding read_pull_def by (intro exI [of _ payload] exI [of _ pr']) simp
qed

lemma closing_keeps:
  assumes "list_all2 (\<lambda>pr pr'. \<exists>closing. pr' = pr\<lparr>pr_closing := Some closing\<rparr>) prs prs'"
    and "\<forall>pr \<in> set prs. read_pull n ref calls pr \<and> pr_state pr \<in> {''open'', ''closed''}"
  shows "map pr_number prs' = map pr_number prs \<and>
    (\<forall>pr \<in> set prs'. read_pull n ref calls pr \<and> pr_state pr \<in> {''open'', ''closed''})"
  using assms
proof (induction rule: list_all2_induct)
  case (Cons pr prs pr' prs')
  then obtain closing where c: "pr' = pr\<lparr>pr_closing := Some closing\<rparr>" by blast
  have "read_pull n ref calls pr'" unfolding c by (rule read_pull_closing) (use Cons.prems in simp)
  with Cons c show ?case by auto
qed simp

lemma verify_queries_evidence:
  assumes "verify_queries n ref texts calls = (Inr d, calls')"
  shows "\<exists>numbers prs issue_state. run_evidence n ref calls' numbers prs issue_state \<and>
    d = evaluate_completion ref prs numbers issue_state []"
proof -
  from and_then_result [OF assms [unfolded verify_queries_def]] obtain numbers c1
    where disc: "discover_linked_pr_numbers n ref texts calls = (Inr numbers, c1)"
    and k1: "and_then (fetch_pulls n ref numbers c1) (\<lambda>fetched calls.
      and_then (fetch_closing n ref fetched calls) (settle_completion n ref numbers)) = (Inr d, calls')" by blast
  from and_then_result [OF k1] obtain fetched c2 where f: "fetch_pulls n ref numbers c1 = (Inr fetched, c2)"
    and k2: "and_then (fetch_closing n ref fetched c2) (settle_completion n ref numbers) = (Inr d, calls')" by blast
  from and_then_result [OF k2] obtain prs c3 where cl: "fetch_closing n ref fetched c2 = (Inr prs, c3)"
    and k3: "settle_completion n ref numbers prs c3 = (Inr d, calls')" by blast
  have m: "map pr_number prs = numbers" and r: "\<forall>pr \<in> set prs. read_pull n ref c3 pr \<and> pr_state pr \<in> {''open'', ''closed''}"
    using fetch_pulls_read [OF f] fetch_closing_read [OF cl] closing_keeps read_pull_extends by blast+
  have "(d = evaluate_completion ref prs numbers [] [] \<and> calls' = c3) \<or>
      (\<exists>st. fetch_issue_state n ref c3 = (Inr st, calls') \<and> d = evaluate_completion ref prs numbers st [])"
    using k3 by (auto simp: settle_completion_def Let_def split: if_splits dest!: and_then_result)
  then show ?thesis
  proof
    assume "d = evaluate_completion ref prs numbers [] [] \<and> calls' = c3"
    then show ?thesis using m r discovered_numbers [OF disc] unfolding run_evidence_def by blast
  next
    assume "\<exists>st. fetch_issue_state n ref c3 = (Inr st, calls') \<and> d = evaluate_completion ref prs numbers st []"
    then obtain st where st: "fetch_issue_state n ref c3 = (Inr st, calls')" "d = evaluate_completion ref prs numbers st []" by blast
    from issue_state_read [OF st(1)] r have "\<forall>pr \<in> set prs. read_pull n ref calls' pr \<and> pr_state pr \<in> {''open'', ''closed''}"
      using read_pull_extends by blast
    then show ?thesis using m st(2) discovered_numbers [OF disc] issue_state_read [OF st(1)] unfolding run_evidence_def by blast
  qed
qed


section \<open>Examples\<close>

definition sample_ref :: task_ref where
  "sample_ref = \<lparr>r_repository = ''octo/app'', r_issue = 42, r_target = ''main'', r_title = ''Fix''\<rparr>"

definition sample_pull :: "int \<Rightarrow> bool \<Rightarrow> pull" where
  "sample_pull number merged = \<lparr>pr_number = number, pr_state = ''closed'', pr_merged = merged, pr_base = ''main'',
     pr_url = [], pr_title = [], pr_head_sha = ''c0ffee'', pr_head_ref = ''fix'', pr_author = [], pr_body = [],
     pr_draft = False, pr_closing = Some [42]\<rparr>"

theorem done_iff_completed_witness:
  "d_status (evaluate_completion sample_ref [sample_pull 9 True, sample_pull 7 False] [7, 9] ''closed'' []) = Some ''done'' \<and>
   completed sample_ref ''closed'' (required sample_ref [] [sample_pull 9 True, sample_pull 7 False])"
proof -
  have d: "d_status (evaluate_completion sample_ref [sample_pull 9 True, sample_pull 7 False] [7, 9] ''closed'' []) = Some ''done''"
    by code_simp
  have "distinct (map pr_number [sample_pull 9 True, sample_pull 7 False])"
    "\<forall>pr \<in> set [sample_pull 9 True, sample_pull 7 False]. pr_state pr \<in> {''open'', ''closed''}"
    by (simp_all add: sample_pull_def)
  from done_iff_completed [OF this, of sample_ref "[7, 9]" "''closed''" "[]"] d show ?thesis by (auto split: if_splits)
qed

definition timeline_item :: json where
  "timeline_item = JObj [(''event'', JStr ''cross-referenced''), (''source'', JObj [(''issue'',
     JObj [(''pull_request'', JObj [(''url'', JStr ''u'')]), (''number'', JInt 7)])])]"

definition pull_payload :: json where
  "pull_payload = JObj [(''state'', JStr ''closed''), (''merged'', JBool True), (''draft'', JBool False),
     (''base'', JObj [(''ref'', JStr ''main'')]), (''head'', JObj [(''sha'', JStr ''c0ffee''), (''ref'', JStr ''fix'')])]"

definition closing_payload :: json where
  "closing_payload = JObj [(''data'', JObj [(''repository'', JObj [(''pullRequest'', JObj [(''number'', JInt 7),
     (''closingIssuesReferences'', JObj [(''nodes'', JArr [JObj [(''number'', JInt 42)]]),
       (''pageInfo'', JObj [(''hasNextPage'', JBool False)])])])])])]"

definition merged_net :: edge_net where
  "merged_net = \<lparr>reply_to = (\<lambda>_ c. case c of EdgeHttp method url payload \<Rightarrow>
       if method = ''POST'' then Answered 200 ''c'' [] else if contains ''timeline'' url then Answered 200 ''t'' []
       else Answered 200 ''p'' []),
     read_json = (\<lambda>raw. Inr (if raw = ''t'' then JArr [timeline_item] else if raw = ''c'' then closing_payload
       else pull_payload)),
     local_time = (\<lambda>_. None)\<rparr>"


text \<open>A closing keyword with the URL of another repository's Issue of the same number counts as closing this one.\<close>

lemma foreign_reference_counts:
  "body_closes ''closes https://github.com/other/repo/issues/42'' 42 \<and>
   is_effective_linked_pr sample_ref ((sample_pull 7 True)\<lparr>pr_closing := Some [],
     pr_body := ''closes https://github.com/other/repo/issues/42''\<rparr>)"
proof -
  have "body_closes ''closes https://github.com/other/repo/issues/42'' 42" by code_simp
  then show ?thesis by (simp add: is_effective_linked_pr_def sample_ref_def sample_pull_def)
qed

end
