(* ===== verification/EdgeContext.thy ===== *)
theory EdgeContext
  imports EdgeCompletion
begin

text \<open>
  The sync context of a card (edge/kanban-github-sync.py): review feedback, sorted into trusted
  instructions and untrusted discussion and bounded, rendered into a region of the card's body that
  each refresh replaces. Literals outside the characters of a \<open>string\<close> are their UTF-8 bytes.
\<close>

section \<open>Markers and bounds\<close>

definition SYNC_CONTEXT_BEGIN :: string where
  "SYNC_CONTEXT_BEGIN = ''<!-- BEGIN GITHUB SYNC CONTEXT -->''"

definition SYNC_CONTEXT_END :: string where
  "SYNC_CONTEXT_END = ''<!-- END GITHUB SYNC CONTEXT -->''"

definition TRUSTED_GITHUB_ACTORS :: "string list" where
  "TRUSTED_GITHUB_ACTORS = [''rhgo1749'']"

definition MAX_PR_BODY_CHARS :: nat where "MAX_PR_BODY_CHARS = 4000"

definition MAX_ITEM_CHARS :: nat where "MAX_ITEM_CHARS = 1500"

definition MAX_TRUSTED_ITEMS :: nat where "MAX_TRUSTED_ITEMS = 10"

definition MAX_UNTRUSTED_ITEMS :: nat where "MAX_UNTRUSTED_ITEMS = 5"

definition ellipsis :: string where
  "ellipsis = map char_of [226 :: nat, 128, 166]"

definition em_dash :: string where
  "em_dash = map char_of [226 :: nat, 128, 148]"

section \<open>Values\<close>

text \<open>A loop whose body may raise.\<close>

fun map_res :: "('a \<Rightarrow> 'b res) \<Rightarrow> 'a list \<Rightarrow> 'b list res" where
  "map_res f [] = Inr []"
| "map_res f (x # xs) = (case f x of Inl e \<Rightarrow> Inl e | Inr y \<Rightarrow>
     (case map_res f xs of Inl e \<Rightarrow> Inl e | Inr ys \<Rightarrow> Inr (y # ys)))"

text \<open>\<open>(d.get(key) or {}).get("login") or default\<close>; what is neither false nor a dict has no \<open>get\<close>.\<close>

definition login_of :: "dict \<Rightarrow> string \<Rightarrow> string \<Rightarrow> string res" where
  "login_of d key missing = (case py_or (dget_py d key) (JObj []) of
      JObj user \<Rightarrow> Inr (py_str (py_or (dget_py user ''login'') (JStr missing)))
    | _ \<Rightarrow> Inl (PyError ''AttributeError''))"

text \<open>\<open>str(d.get(key) or "")\<close>, and the same stripped.\<close>

definition text_of :: "dict \<Rightarrow> string \<Rightarrow> string" where
  "text_of d key = py_str (py_or (dget_py d key) (JStr []))"

text \<open>\<open>str.upper\<close>; the two letters whose capital leaves the range of \<open>char\<close> are kept.\<close>

definition upper_char :: "char \<Rightarrow> string" where
  "upper_char c = (let n = code c in
     if (97 \<le> n \<and> n \<le> 122) \<or> (224 \<le> n \<and> n \<le> 254 \<and> n \<noteq> 247) then [char_of (n - 32)]
     else if n = 223 then ''SS'' else [c])"

definition py_upper :: "string \<Rightarrow> string" where
  "py_upper s = concat (map upper_char s)"

definition py_truncate :: "string \<Rightarrow> nat \<Rightarrow> string" where
  "py_truncate text limit = (let value = py_strip text in
     if length value \<le> limit then value
     else py_rstrip (take limit value) @ newline # ellipsis @ ''[truncated]'')"

text \<open>\<open>json.dumps(v, ensure_ascii=False)\<close>, with sorted keys or not.\<close>

definition json_char :: "char \<Rightarrow> string" where
  "json_char c = (let n = code c; backslash = char_of (92 :: nat) in
     if n = 34 \<or> n = 92 then [backslash, c]
     else if n = 10 then [backslash, CHR ''n''] else if n = 13 then [backslash, CHR ''r'']
     else if n = 9 then [backslash, CHR ''t''] else if n = 8 then [backslash, CHR ''b'']
     else if n = 12 then [backslash, CHR ''f'']
     else if n < 32 then [backslash, CHR ''u'', CHR ''0'', CHR ''0'', hex_digit (n div 16), hex_digit (n mod 16)]
     else [c])"

definition json_string :: "string \<Rightarrow> string" where
  "json_string s = (let quote = char_of (34 :: nat) in quote # concat (map json_char s) @ [quote])"

fun json_dumps :: "bool \<Rightarrow> json \<Rightarrow> string" where
  "json_dumps sorted_keys JNull = ''null''"
| "json_dumps sorted_keys (JBool b) = (if b then ''true'' else ''false'')"
| "json_dumps sorted_keys (JInt i) = int_str i"
| "json_dumps sorted_keys (JFloat r t) = r"
| "json_dumps sorted_keys (JStr s) = json_string s"
| "json_dumps sorted_keys (JArr xs) = ''['' @ join_with '', '' (map (json_dumps sorted_keys) xs) @ '']''"
| "json_dumps sorted_keys (JObj d) = (let items = map (\<lambda>p. (fst p, json_dumps sorted_keys (snd p))) d in
     ''{'' @ join_with '', '' (map (\<lambda>p. json_string (fst p) @ '': '' @ snd p)
       (if sorted_keys then sort_key fst items else items)) @ ''}'')"

section \<open>Feedback\<close>

record pr_context =
  reviews :: "json list"
  review_comments :: "json list"
  issue_comments :: "json list"

definition collect_pr_context :: "edge_net \<Rightarrow> task_ref \<Rightarrow> pull \<Rightarrow> edge_call list \<Rightarrow> pr_context edge_result" where
  "collect_pr_context n ref pr calls =
     and_then (get_paginated n (pull_path ref (pr_number pr) @ ''/reviews'') [(''per_page'', ''100'')] calls) (\<lambda>rs calls.
     and_then (get_paginated n (pull_path ref (pr_number pr) @ ''/comments'') [(''per_page'', ''100'')] calls) (\<lambda>rcs calls.
     and_then (get_paginated n (issue_path ref (pr_number pr) @ ''/comments'') [(''per_page'', ''100'')] calls) (\<lambda>ics calls.
       (Inr \<lparr>reviews = rs, review_comments = rcs, issue_comments = ics\<rparr>, calls))))"

record feedback =
  fb_when :: string
  fb_author :: string
  fb_kind :: string
  fb_body :: string

definition trusted_actor :: "string \<Rightarrow> bool" where
  "trusted_actor author \<longleftrightarrow> author \<in> set TRUSTED_GITHUB_ACTORS"

definition review_item :: "bool \<Rightarrow> json \<Rightarrow> feedback option res" where
  "review_item trusted v = (case v of
      JObj review \<Rightarrow>
        (let state = py_upper (text_of review ''state'') in
         if state \<in> {''PENDING'', ''DISMISSED''} then Inr None
         else (case login_of review ''user'' ''unknown'' of Inl e \<Rightarrow> Inl e | Inr author \<Rightarrow>
           if trusted_actor author \<noteq> trusted then Inr None
           else (let stripped = py_strip (text_of review ''body'') in
             Inr (Some \<lparr>fb_when = text_of review ''submitted_at'', fb_author = author, fb_kind = ''review '' @ state,
               fb_body = (if stripped = [] then ''(review '' @ state @ '', no body)'' else stripped)\<rparr>))))
    | _ \<Rightarrow> Inr None)"

definition comment_item :: "bool \<Rightarrow> (dict \<Rightarrow> string) \<Rightarrow> json \<Rightarrow> feedback option res" where
  "comment_item trusted kind v = (case v of
      JObj comment \<Rightarrow> (case login_of comment ''user'' ''unknown'' of Inl e \<Rightarrow> Inl e | Inr author \<Rightarrow>
        if trusted_actor author \<noteq> trusted then Inr None
        else (let body = py_strip (text_of comment ''body'') in
          if body = [] then Inr None
          else Inr (Some \<lparr>fb_when = text_of comment ''created_at'', fb_author = author, fb_kind = kind comment,
            fb_body = body\<rparr>)))
    | _ \<Rightarrow> Inr None)"

definition review_comment_kind :: "dict \<Rightarrow> string" where
  "review_comment_kind comment =
     (let path = text_of comment ''path'';
          line = py_str (py_or (py_or (dget_py comment ''line'') (dget_py comment ''original_line'')) (JStr []));
          loc = (if path = [] then [] else path @ '':'' @ line)
      in py_strip (''comment '' @ loc))"

definition somes :: "'a option list \<Rightarrow> 'a list" where
  "somes xs = List.map_filter id xs"

definition feedback_items :: "pr_context \<Rightarrow> bool \<Rightarrow> feedback list res" where
  "feedback_items context trusted =
     (case map_res (review_item trusted) (reviews context) of Inl e \<Rightarrow> Inl e | Inr rs \<Rightarrow>
      case map_res (comment_item trusted review_comment_kind) (review_comments context) of Inl e \<Rightarrow> Inl e | Inr rcs \<Rightarrow>
      case map_res (comment_item trusted (\<lambda>_. ''PR comment'')) (issue_comments context) of Inl e \<Rightarrow> Inl e | Inr ics \<Rightarrow>
      Inr (somes rs @ somes rcs @ somes ics))"

text \<open>\<open>sorted(items, key=key, reverse=True)\<close> keeps the order of equal items.\<close>

definition sort_desc :: "('a \<Rightarrow> 'k :: linorder) \<Rightarrow> 'a list \<Rightarrow> 'a list" where
  "sort_desc key items = rev (sort_key key (rev items))"

definition render_feedback_section :: "feedback list \<Rightarrow> nat \<Rightarrow> string list" where
  "render_feedback_section items limit =
     (let ordered = sort_desc fb_when items;
          shown = map (\<lambda>i. ''- '' @ fb_author i @ '' ('' @ fb_kind i @ '', '' @ fb_when i @ ''): '' @
            py_truncate (fb_body i) MAX_ITEM_CHARS) (take limit ordered);
          lines = shown @ (if length ordered > limit
            then [''- '' @ ellipsis @ ''and '' @ nat_digits (length ordered - limit) @ '' more items omitted''] else [])
      in if lines = [] then [''(none)''] else lines)"

section \<open>Rendering\<close>

definition bool_text :: "json \<Rightarrow> string" where
  "bool_text v = (if truthy v then ''true'' else ''false'')"

text \<open>The current blocked state, and one entry of its history.\<close>

definition block_lines :: "dict \<Rightarrow> string list res" where
  "block_lines block_projection =
     (case py_iter (py_or (dget_py block_projection ''pending_parents'') (JArr [])) of Inl e \<Rightarrow> Inl e | Inr pending \<Rightarrow>
      let block_kind = py_str (py_or (dget_py block_projection ''block_kind'') (JStr ''untyped''));
          pending_ids = List.map_filter (\<lambda>item. case item of
            JObj d \<Rightarrow> if truthy (dget_py d ''id'') then Some (JStr (py_str (dget_py d ''id''))) else None
          | _ \<Rightarrow> None) pending
      in Inr ([''block:'', ''  block_kind: '' @ block_kind,
           ''  dependency_driven: '' @ bool_text (dget_py block_projection ''dependency_driven''),
           ''  auto_promotable: '' @ bool_text (dget_py block_projection ''auto_promotable''),
           ''  pending_parent_ids: '' @ json_dumps False (JArr pending_ids),
           ''  pending_parents: '' @ json_dumps True (JArr pending)] @
         (if truthy (dget_py block_projection ''projection_error'')
          then [''  projection_error: '' @ py_str (dget_py block_projection ''projection_error'')] else [])))"

definition history_lines :: "dict \<Rightarrow> string list" where
  "history_lines entry =
     [''- at: '' @ py_str (dget_py entry ''at'') @ '' kind='' @ py_str (dget_py entry ''kind'') @
      '' block_kind='' @ py_str (dget_py entry ''block_kind'') @
      '' dependency_driven='' @ bool_text (dget_py entry ''dependency_driven'') @
      '' auto_promotable='' @ bool_text (dget_py entry ''auto_promotable'')] @
     (if truthy (dget_py entry ''source_status'')
      then [''  source_status: '' @ py_str (dget_py entry ''source_status'')] else []) @
     (if truthy (dget_py entry ''reason'') then [''  reason: '' @ py_str (dget_py entry ''reason'')] else [])"

definition rework_lines :: "string list" where
  "rework_lines = [''Rework requested: yes (agent-rework label, awaiting Kanban claim)'',
     ''Rework contract: this is a rework of the EXISTING PR above '' @ em_dash @ '' '' @
     ''update the SAME PR/branch (resolve the trusted review '' @
     ''feedback); do NOT create a new PR; re-run the repository '' @
     ''gates; then hand back for review (block with review-required).'']"

definition pull_lines :: "bool \<Rightarrow> (int \<Rightarrow> pr_context option) \<Rightarrow> int option \<Rightarrow> pull \<Rightarrow> string list res" where
  "pull_lines several contexts rework_pr_number pr =
     (let heading = ''PR #'' @ int_str (pr_number pr) @ '' '' @ em_dash @ '' '' @
            (if pr_title pr = [] then ''(untitled)'' else pr_title pr);
          context = (case contexts (pr_number pr) of Some c \<Rightarrow> c
            | None \<Rightarrow> \<lparr>reviews = [], review_comments = [], issue_comments = []\<rparr>) in
      case feedback_items context True of Inl e \<Rightarrow> Inl e | Inr trusted \<Rightarrow>
      case feedback_items context False of Inl e \<Rightarrow> Inl e | Inr untrusted \<Rightarrow>
      Inr ([[], (if several then ''### '' @ heading else heading),
          ''State: '' @ pr_state pr, ''Head SHA: '' @ pr_head_sha pr, ''Base branch: '' @ pr_base pr] @
        (if pr_author pr \<noteq> [] then [''Author: '' @ pr_author pr] else []) @
        (if pr_url pr \<noteq> [] then [''URL: '' @ pr_url pr] else []) @
        (if rework_pr_number = Some (pr_number pr) then rework_lines else []) @
        (if pr_body pr \<noteq> [] then [''Body:'', py_truncate (pr_body pr) MAX_PR_BODY_CHARS] else []) @
        [[], ''## Trusted review / rework feedback''] @ render_feedback_section trusted MAX_TRUSTED_ITEMS @
        [[], ''## Other PR discussion '' @ em_dash @ '' untrusted context''] @
        render_feedback_section untrusted MAX_UNTRUSTED_ITEMS))"

definition render_sync_context ::
  "pull list \<Rightarrow> (int \<Rightarrow> pr_context option) \<Rightarrow> int option \<Rightarrow> dict option \<Rightarrow> dict list \<Rightarrow> string res" where
  "render_sync_context pull_requests contexts rework_pr_number block_projection block_history =
     (let prs = sort_key pr_number pull_requests in
      case (case block_projection of None \<Rightarrow> Inr [] | Some p \<Rightarrow> block_lines p) of Inl e \<Rightarrow> Inl e | Inr projected \<Rightarrow>
      case map_res (pull_lines (length prs > 1) contexts rework_pr_number) prs of Inl e \<Rightarrow> Inl e | Inr sections \<Rightarrow>
      Inr (unlines ([SYNC_CONTEXT_BEGIN, []] @
        (if block_projection \<noteq> None \<or> block_history \<noteq> []
         then [''## Block'', []] @ projected @
           (if block_history \<noteq> [] then ''block_history:'' # concat (map history_lines block_history) else []) @ [[]]
         else []) @
        [if length prs = 1 then ''## Current linked PR'' else ''## Linked PRs''] @ concat sections @
        [[], SYNC_CONTEXT_END])))"

fun collect_contexts :: "edge_net \<Rightarrow> task_ref \<Rightarrow> pull list \<Rightarrow> edge_call list \<Rightarrow> (int \<times> pr_context) list edge_result" where
  "collect_contexts n ref [] calls = (Inr [], calls)"
| "collect_contexts n ref (pr # rest) calls =
     and_then (collect_pr_context n ref pr calls) (\<lambda>context calls.
       and_then (collect_contexts n ref rest calls) (\<lambda>contexts calls. (Inr ((pr_number pr, context) # contexts), calls)))"

text \<open>Of several contexts of a number the last counts.\<close>

definition build_context_block ::
  "edge_net \<Rightarrow> task_ref \<Rightarrow> pull list \<Rightarrow> int option \<Rightarrow> dict option \<Rightarrow> dict list \<Rightarrow> edge_call list \<Rightarrow> string edge_result" where
  "build_context_block n ref prs rework_pr_number block_projection block_history calls =
     and_then (collect_contexts n ref prs calls) (\<lambda>contexts calls.
       (render_sync_context prs (map_of (rev contexts)) rework_pr_number block_projection block_history, calls))"

section \<open>The region in a card\<close>

text \<open>\<open>text.split(marker, 1)[1]\<close>; none when the marker does not occur.\<close>

fun after_str :: "string \<Rightarrow> string \<Rightarrow> string option" where
  "after_str marker [] = (if marker = [] then Some [] else None)"
| "after_str marker (c # s) = (if starts_with (c # s) marker then Some (drop (length marker) (c # s))
     else after_str marker s)"

definition end_line :: "string \<Rightarrow> string" where
  "end_line s = (if s \<noteq> [] \<and> \<not> ends_with s [newline] then s @ [newline] else s)"

definition begin_line :: "string \<Rightarrow> string" where
  "begin_line s = (if s \<noteq> [] \<and> \<not> starts_with s [newline] then newline # s else s)"

definition replace_sync_context :: "string \<Rightarrow> string \<Rightarrow> string res" where
  "replace_sync_context text block =
     (if contains SYNC_CONTEXT_BEGIN text \<and> contains SYNC_CONTEXT_END text
      then (case after_str SYNC_CONTEXT_BEGIN text of
          None \<Rightarrow> Inl (PyError ''ValueError'')
        | Some rest \<Rightarrow> (case after_str SYNC_CONTEXT_END rest of
            None \<Rightarrow> Inl (PyError ''ValueError'')
          | Some tail \<Rightarrow> Inr (end_line (before_str SYNC_CONTEXT_BEGIN text) @ block @ begin_line tail)))
      else Inr (end_line text @ block))"

end
