(* ===== verification/ContextGuarantees.thy ===== *)
theory ContextGuarantees
  imports EdgeContext CardGuarantees
begin

text \<open>
  The sync context is a region of the card: a refresh replaces it and leaves the provenance readable,
  as long as no text inside it ends the region early.
\<close>

lemma starts_with_mono: "starts_with s p \<Longrightarrow> starts_with (s @ v) p"
  unfolding starts_with_prefix by auto

lemma contains_append: "contains p s \<Longrightarrow> contains p (u @ s @ v)"
proof (induction u)
  case Nil
  then show ?case
  proof (induction s)
    case Nil
    then show ?case by (cases v) auto
  next
    case (Cons c s)
    then show ?case
      using starts_with_mono [of "c # s" p v] by auto
  qed
qed simp

lemma contains_self: "contains p p"
  by (cases p) (simp_all add: starts_with_def)

lemma after_str_contains: "after_str m s = Some t \<Longrightarrow> contains m s"
  by (induction s) (auto split: if_splits)

lemma before_str_contains: "contains m s \<Longrightarrow> before_str m (s @ y) = before_str m s"
proof (induction s)
  case Nil
  then show ?case by (cases y) auto
next
  case (Cons c s)
  show ?case
  proof (cases "starts_with (c # s) m")
    case True
    then have "starts_with (c # s @ y) m" using starts_with_mono [of "c # s" m y] by simp
    with True show ?thesis by simp
  next
    case False
    with Cons have c: "contains m s" by simp
    then have "m = [] \<or> length m \<le> length s"
    proof (induction s)
      case (Cons d s)
      show ?case
      proof (cases "starts_with (d # s) m")
        case True
        then obtain t where "d # s = m @ t" unfolding starts_with_prefix by blast
        then show ?thesis by (metis le_add1 length_append)
      qed (use Cons in auto)
    qed simp
    with False have "\<not> starts_with (c # s @ y) m" using starts_with_take [of m "c # s" y] by auto
    with Cons.IH [OF c] False show ?thesis by simp
  qed
qed

lemma end_line_idem: "end_line (end_line s) = end_line s"
  by (auto simp: end_line_def ends_with_def starts_with_def)

lemma newline_not_in_begin: "newline \<notin> set SYNC_CONTEXT_BEGIN"
proof -
  have "\<forall>c \<in> set SYNC_CONTEXT_BEGIN. \<not> line_sep c"
    by (simp add: SYNC_CONTEXT_BEGIN_def line_sep_def code_def Let_def)
  with newline_sep show ?thesis by blast
qed

lemma before_begin:
  assumes "\<not> contains SYNC_CONTEXT_BEGIN (end_line text)"
  shows "before_str SYNC_CONTEXT_BEGIN (end_line text @ SYNC_CONTEXT_BEGIN @ r) = end_line text"
proof (cases "text = []")
  case True
  then show ?thesis using before_str_rest [where h = "[]" and m = SYNC_CONTEXT_BEGIN and r = r]
    by (simp add: end_line_def SYNC_CONTEXT_BEGIN_def starts_with_Cons)
next
  case False
  then have "\<exists>h. end_line text = h @ [newline]"
    by (cases "text" rule: rev_cases) (auto simp: end_line_def ends_with_def starts_with_Cons)
  then obtain h where h: "end_line text = h @ [newline]" by blast
  have "SYNC_CONTEXT_BEGIN \<noteq> []" by (simp add: SYNC_CONTEXT_BEGIN_def)
  then show ?thesis using before_str_marker newline_not_in_begin assms unfolding h by blast
qed

lemma after_before: "contains m s \<Longrightarrow> after_str m s = Some (drop (length (before_str m s) + length m) s)"
  by (induction s) (auto split: if_splits)

lemma after_begin:
  assumes "\<not> contains SYNC_CONTEXT_BEGIN (end_line text)"
  shows "after_str SYNC_CONTEXT_BEGIN (end_line text @ SYNC_CONTEXT_BEGIN @ r) = Some r"
  using after_before [OF contains_append [OF contains_self, of _ "end_line text" r]] before_begin [OF assms, of r] by simp

lemma end_after_begin: "after_str SYNC_CONTEXT_END (SYNC_CONTEXT_BEGIN @ r) = after_str SYNC_CONTEXT_END r"
  by (simp add: SYNC_CONTEXT_BEGIN_def SYNC_CONTEXT_END_def starts_with_Cons)

text \<open>A rendered block starts with the begin marker.\<close>

lemma rendered_block:
  "render_sync_context prs contexts rework projection history = Inr block \<Longrightarrow> \<exists>r. block = SYNC_CONTEXT_BEGIN @ r"
  by (auto simp: render_sync_context_def unlines_def Let_def split: sum.splits)

text \<open>a refresh replaces the context. When a rendered block has its end marker only at its end, putting it into a
  card without a context appends it, any later block takes its place exactly, so the body
  does not grow, and the card's reference is read as before.\<close>

theorem sync_context_replaced:
  assumes "render_sync_context prs contexts rework projection history = Inr block"
    and closed: "after_str SYNC_CONTEXT_END block = Some []"
    and fresh: "\<not> contains SYNC_CONTEXT_BEGIN (end_line text)" "\<not> contains SYNC_CONTEXT_BEGIN text"
  shows "replace_sync_context text block = Inr (end_line text @ block) \<and>
    (\<forall>later. replace_sync_context (end_line text @ block) later = Inr (end_line text @ later)) \<and>
    (contains PROVENANCE_END text \<longrightarrow> parse_task_ref (end_line text @ block) = parse_task_ref text)"
proof (intro conjI allI impI)
  obtain r where b: "block = SYNC_CONTEXT_BEGIN @ r" using rendered_block [OF assms(1)] by blast
  show "replace_sync_context text block = Inr (end_line text @ block)"
    using fresh(2) by (simp add: replace_sync_context_def)
  fix later
  have "contains SYNC_CONTEXT_BEGIN (end_line text @ block)" "contains SYNC_CONTEXT_END (end_line text @ block)"
    using contains_append [OF contains_self, of _ "end_line text" r] contains_append [OF after_str_contains [OF closed], of "end_line text" "[]"]
    by (simp_all add: b)
  moreover have "after_str SYNC_CONTEXT_END r = Some []" using closed by (simp add: b end_after_begin)
  ultimately show "replace_sync_context (end_line text @ block) later = Inr (end_line text @ later)"
    using before_begin [OF fresh(1), of r] after_begin [OF fresh(1), of r]
    by (simp add: replace_sync_context_def b end_line_idem begin_line_def)
next
  assume c: "contains PROVENANCE_END text"
  have "\<exists>y. end_line text = text @ y" by (simp add: end_line_def)
  then obtain y where "end_line text = text @ y" by blast
  then show "parse_task_ref (end_line text @ block) = parse_task_ref text"
    using before_str_contains [OF c, of "y @ block"] by (simp add: parse_task_ref_def)
qed

section \<open>Examples\<close>

definition open_pull :: "string \<Rightarrow> pull" where
  "open_pull body = \<lparr>pr_number = 7, pr_state = ''open'', pr_merged = False, pr_base = ''main'', pr_url = [],
     pr_title = ''Fix'', pr_head_sha = ''c0ffee'', pr_head_ref = ''fix'', pr_author = ''dev'', pr_body = body,
     pr_draft = False, pr_closing = Some [42]\<rparr>"

definition one_comment :: pr_context where
  "one_comment = \<lparr>reviews = [], review_comments = [], issue_comments = [JObj [(''user'', JObj [(''login'', JStr ''rhgo1749'')]),
     (''body'', JStr ''Please rename'')]]\<rparr>"

definition sample_block :: "string \<Rightarrow> string res" where
  "sample_block body = render_sync_context [open_pull body] (\<lambda>k. if k = 7 then Some one_comment else None) (Some 7) None []"

definition block_text :: "string \<Rightarrow> string" where
  "block_text body = (case sample_block body of Inr b \<Rightarrow> b | Inl _ \<Rightarrow> [])"

definition card_text :: string where
  "card_text = unlines [''- source: github-issue'', ''- repository: octo/app'', ''- issue number: 42'', PROVENANCE_END, ''text'']"

theorem sync_context_replaced_witness:
  "replace_sync_context (end_line card_text @ block_text ''body'') (block_text ''new'') = Inr (end_line card_text @ block_text ''new'') \<and>
   parse_task_ref (end_line card_text @ block_text ''body'') = parse_task_ref card_text"
proof -
  have b: "sample_block ''body'' = Inr (block_text ''body'')"
    by (cases "sample_block ''body''") (simp_all add: block_text_def, code_simp)
  have "after_str SYNC_CONTEXT_END (block_text ''body'') = Some []"
    "\<not> contains SYNC_CONTEXT_BEGIN (end_line card_text)" "\<not> contains SYNC_CONTEXT_BEGIN card_text"
    "contains PROVENANCE_END card_text"
    by code_simp+
  with sync_context_replaced [OF b [unfolded sample_block_def]] show ?thesis by blast
qed

text \<open>
  A pull request whose body quotes the end marker ends the region early: every refresh with the same
  block leaves the rest of the last one behind, and the card grows.
\<close>

definition quoting_block :: string where
  "quoting_block = block_text SYNC_CONTEXT_END"

lemma quoted_marker_grows:
  "map_sum id (\<lambda>once. map_sum id (\<lambda>twice. length once < length twice) (replace_sync_context once quoting_block))
     (replace_sync_context card_text quoting_block) = Inr (Inr True)"
  by code_simp

text \<open>An Issue that quotes the markers in the other order makes the refresh raise.\<close>

lemma quoted_markers_raise:
  "replace_sync_context (SYNC_CONTEXT_END @ SYNC_CONTEXT_BEGIN) block = Inl (PyError ''ValueError'')"
proof -
  have "after_str SYNC_CONTEXT_BEGIN (SYNC_CONTEXT_END @ SYNC_CONTEXT_BEGIN) = Some []"
    "contains SYNC_CONTEXT_BEGIN (SYNC_CONTEXT_END @ SYNC_CONTEXT_BEGIN)"
    "contains SYNC_CONTEXT_END (SYNC_CONTEXT_END @ SYNC_CONTEXT_BEGIN)" "after_str SYNC_CONTEXT_END [] = None"
    by code_simp+
  then show ?thesis by (simp add: replace_sync_context_def)
qed

end
