(* ===== verification/EdgeStore.thy ===== *)
theory EdgeStore
  imports EdgeContext
begin

text \<open>
  The Kanban database as the edge sync (edge/kanban-github-sync.py) uses it: its tables, the
  transactions in which one card changes its status, and the dependency gate folded into the
  write. Other processes write between any two statements up to the first write of a transaction,
  and any statement may fail; both are parameters.
\<close>

section \<open>Tables\<close>

record task =
  t_id :: string
  t_status :: string
  t_body :: "string option"
  t_assignee :: "string option"
  t_completed_at :: "int option"
  t_claim_lock :: "string option"
  t_claim_expires :: "int option"
  t_worker_pid :: "int option"
  t_block_kind :: "string option"
  t_block_recurrences :: int
  t_heartbeat :: "int option"
  t_current_run :: "int option"

text \<open>
  A text column that holds JSON: null or empty, no JSON, or the value \<open>json.loads\<close> gives for it.
\<close>

datatype json_text = NoText | BadText | JsonText json

text \<open>Rows of \<open>task_events\<close>, \<open>task_runs\<close> and \<open>task_comments\<close>, in the order of their ids.\<close>

record event =
  e_task :: string
  e_run :: "int option"
  e_kind :: string
  e_payload :: json_text
  e_at :: int

record run =
  run_id :: int
  run_task :: string
  run_outcome :: "string option"
  run_summary :: "string option"
  run_status :: "string option"
  run_error :: "string option"
  run_metadata :: json_text
  run_started :: int
  run_ended :: "int option"
  run_profile :: "string option"
  run_pid :: "int option"

record comment =
  c_task :: string
  c_author :: string
  c_body :: "string option"
  c_at :: int

record board =
  tasks :: "task list"
  task_links :: "(string \<times> string) list"
  events :: "event list"
  task_runs :: "run list"
  comments :: "comment list"

section \<open>Transactions\<close>

text \<open>What was committed, and what the connection sees.\<close>

record db =
  committed :: board
  working :: board

text \<open>
  The clock, what other processes commit just before a statement, and the statements that raise
  a \<open>sqlite3.Error\<close>, with its type and text; statement 0 is the commit.
\<close>

record db_env =
  db_now :: int
  others :: "nat \<Rightarrow> board \<Rightarrow> board"
  sql_error :: "nat \<Rightarrow> string option"

type_synonym 'a db_result = "'a res \<times> db"

text \<open>A statement before the first write, and one that runs under the write lock.\<close>

definition seen :: "db_env \<Rightarrow> nat \<Rightarrow> db \<Rightarrow> db" where
  "seen env n c = (let b = others env n (working c) in \<lparr>committed = b, working = b\<rparr>)"

definition sql :: "db_env \<Rightarrow> nat \<Rightarrow> (db \<Rightarrow> 'a db_result) \<Rightarrow> db \<Rightarrow> 'a db_result" where
  "sql env n k c = (case sql_error env n of Some m \<Rightarrow> (Inl (DbError m), seen env n c) | None \<Rightarrow> k (seen env n c))"

definition sql_locked :: "db_env \<Rightarrow> nat \<Rightarrow> (db \<Rightarrow> 'a db_result) \<Rightarrow> db \<Rightarrow> 'a db_result" where
  "sql_locked env n k c = (case sql_error env n of Some m \<Rightarrow> (Inl (DbError m), c) | None \<Rightarrow> k c)"

text \<open>\<open>with conn\<close>: commit, or roll back on an exception.\<close>

definition with_conn :: "db_env \<Rightarrow> 'a db_result \<Rightarrow> 'a db_result" where
  "with_conn env m = (case m of
      (Inr x, c) \<Rightarrow> (case sql_error env 0 of
          None \<Rightarrow> (Inr x, \<lparr>committed = working c, working = working c\<rparr>)
        | Some e \<Rightarrow> (Inl (DbError e), \<lparr>committed = committed c, working = committed c\<rparr>))
    | (Inl e, c) \<Rightarrow> (Inl e, \<lparr>committed = committed c, working = committed c\<rparr>))"

section \<open>Statements\<close>

definition task_row :: "string \<Rightarrow> board \<Rightarrow> task option" where
  "task_row task_id b = find (\<lambda>t. t_id t = task_id) (tasks b)"

text \<open>\<open>UPDATE tasks SET ... WHERE ...\<close>, with its \<open>rowcount\<close>.\<close>

definition update_tasks :: "(task \<Rightarrow> bool) \<Rightarrow> (task \<Rightarrow> task) \<Rightarrow> db \<Rightarrow> nat \<times> db" where
  "update_tasks wanted change c = (let b = working c in
     (length (filter wanted (tasks b)),
      c\<lparr>working := b\<lparr>tasks := map (\<lambda>t. if wanted t then change t else t) (tasks b)\<rparr>\<rparr>))"

definition insert_event :: "event \<Rightarrow> db \<Rightarrow> db" where
  "insert_event e c = c\<lparr>working := (working c)\<lparr>events := events (working c) @ [e]\<rparr>\<rparr>"

definition insert_comment :: "comment \<Rightarrow> db \<Rightarrow> db" where
  "insert_comment m c = c\<lparr>working := (working c)\<lparr>comments := comments (working c) @ [m]\<rparr>\<rparr>"

text \<open>\<open>ORDER BY created_at DESC, id DESC LIMIT 1\<close>.\<close>

definition newest_event :: "(event \<Rightarrow> bool) \<Rightarrow> board \<Rightarrow> event option" where
  "newest_event wanted b = foldl (\<lambda>best e. if \<not> wanted e then best
     else (case best of None \<Rightarrow> Some e | Some x \<Rightarrow> if e_at x \<le> e_at e then Some e else best)) None (events b)"

definition append_sync_event :: "db_env \<Rightarrow> string \<Rightarrow> dict \<Rightarrow> string \<Rightarrow> db \<Rightarrow> db" where
  "append_sync_event env task_id payload kind c =
     insert_event \<lparr>e_task = task_id, e_run = None, e_kind = kind, e_payload = JsonText (JObj payload),
       e_at = db_now env\<rparr> c"

text \<open>The columns every transition clears.\<close>

definition release_task :: "task \<Rightarrow> task" where
  "release_task t = t\<lparr>t_claim_lock := None, t_claim_expires := None, t_worker_pid := None,
     t_block_kind := None, t_block_recurrences := 0\<rparr>"

section \<open>The dependency gate\<close>

definition PRESERVED_STATES :: "string list" where
  "PRESERVED_STATES = [''triage'', ''todo'', ''scheduled'', ''ready'', ''running'', ''blocked'', ''archived'']"

definition DEPENDENCY_TERMINAL_STATES :: "string list" where
  "DEPENDENCY_TERMINAL_STATES = [''done'', ''archived'']"

definition parents_of :: "string \<Rightarrow> board \<Rightarrow> string list" where
  "parents_of task_id b = sort (map fst (filter (\<lambda>l. snd l = task_id) (task_links b)))"

fun gate_rows :: "board \<Rightarrow> string list \<Rightarrow> (string \<times> string) list res" where
  "gate_rows b [] = Inr []"
| "gate_rows b (parent # rest) = (case task_row parent b of
      None \<Rightarrow> Inl (SyncError (''missing parent task for link: '' @ parent))
    | Some t \<Rightarrow> (case gate_rows b rest of Inl e \<Rightarrow> Inl e | Inr ps \<Rightarrow> Inr ((parent, t_status t) # ps)))"

text \<open>The parents that are not terminal; \<open>all_terminal\<close> is that there are none.\<close>

definition internal_dependency_gate :: "string \<Rightarrow> board \<Rightarrow> (string \<times> string) list res" where
  "internal_dependency_gate task_id b = (case gate_rows b (parents_of task_id b) of Inl e \<Rightarrow> Inl e
     | Inr parents \<Rightarrow> Inr (filter (\<lambda>p. snd p \<notin> set DEPENDENCY_TERMINAL_STATES) parents))"

definition parent_json :: "string \<times> string \<Rightarrow> json" where
  "parent_json p = JObj [(''id'', JStr (fst p)), (''status'', JStr (snd p))]"

text \<open>The guard in the \<open>UPDATE\<close>: no link to a parent that is missing or not terminal.\<close>

definition dependency_guard :: "string \<Rightarrow> board \<Rightarrow> bool" where
  "dependency_guard task_id b \<longleftrightarrow> filter (\<lambda>l. snd l = task_id \<and>
     \<not> list_ex (\<lambda>t. t_id t = fst l \<and> t_status t \<in> set DEPENDENCY_TERMINAL_STATES) (tasks b)) (task_links b) = []"

section \<open>Replies\<close>

definition unchanged :: "string \<Rightarrow> string \<Rightarrow> string \<Rightarrow> dict \<Rightarrow> dict" where
  "unchanged task_id status reason more_items =
     [(''task_id'', JStr task_id), (''status'', JStr status), (''changed'', JBool False), (''reason'', JStr reason)] @ more_items"

definition task_missing :: "string \<Rightarrow> dict" where
  "task_missing task_id = [(''task_id'', JStr task_id), (''changed'', JBool False), (''reason'', JStr ''task_missing'')]"

definition state_changed :: "string \<Rightarrow> string \<Rightarrow> dict" where
  "state_changed task_id status = unchanged task_id status ''state_changed_during_sync'' []"

definition opt_int :: "int option \<Rightarrow> json" where
  "opt_int v = (case v of None \<Rightarrow> JNull | Some i \<Rightarrow> JInt i)"

definition trusted_policy :: json where
  "trusted_policy = JArr (map JStr (sort TRUSTED_GITHUB_ACTORS))"

definition body_text :: "task \<Rightarrow> string" where
  "body_text t = (case t_body t of None \<Rightarrow> [] | Some s \<Rightarrow> s)"

end
