(* ===== verification/EdgeTransitions.thy ===== *)
theory EdgeTransitions
  imports EdgeStore
begin

text \<open>
  The transitions of a card in the edge sync (edge/kanban-github-sync.py): the write of a completion
  decision, of a supersession, of a rework round and of a blocked resume, and the hold of a card
  whose parents are in flight. Each is one transaction whose update names the status it read.
\<close>

section \<open>Decisions and requests\<close>

record rework =
  w_reason :: string
  w_pr :: "int option"
  w_head_sha :: string
  w_comment_id :: "int option"
  w_context :: string
  w_label_present :: bool
  w_label_at :: "int option"
  w_actor :: string
  w_label_event :: "int option"
  w_authoritative :: bool
  w_error :: "string option"

text \<open>The defaults of a \<open>ReworkDecision\<close>.\<close>

definition rework_result :: "string \<Rightarrow> rework" where
  "rework_result reason = \<lparr>w_reason = reason, w_pr = None, w_head_sha = [], w_comment_id = None, w_context = [],
     w_label_present = False, w_label_at = None, w_actor = [], w_label_event = None, w_authoritative = True,
     w_error = None\<rparr>"

definition rework_json :: "rework \<Rightarrow> json" where
  "rework_json w = JObj [(''reason'', JStr (w_reason w)), (''pr_number'', opt_int (w_pr w)),
     (''head_sha'', JStr (w_head_sha w)), (''request_comment_id'', opt_int (w_comment_id w)),
     (''label_present'', JBool (w_label_present w)), (''label_added_at'', opt_int (w_label_at w)),
     (''label_actor'', JStr (w_actor w)), (''label_event_id'', opt_int (w_label_event w)),
     (''trusted_actor_policy'', trusted_policy), (''authoritative'', JBool (w_authoritative w)),
     (''error'', opt_str (w_error w))]"

record resume =
  m_reason :: string
  m_context :: string
  m_author :: string
  m_at :: string
  m_authoritative :: bool
  m_error :: "string option"

definition resume_result :: "string \<Rightarrow> resume" where
  "resume_result reason = \<lparr>m_reason = reason, m_context = [], m_author = [], m_at = [], m_authoritative = True,
     m_error = None\<rparr>"

definition resume_json :: "resume \<Rightarrow> json" where
  "resume_json m = JObj [(''reason'', JStr (m_reason m)), (''response_author'', JStr (m_author m)),
     (''response_at'', JStr (m_at m)), (''trusted_actor_policy'', trusted_policy),
     (''authoritative'', JBool (m_authoritative m)), (''error'', opt_str (m_error m))]"

section \<open>Parking comments\<close>

definition bytes :: "nat list \<Rightarrow> string" where
  "bytes ns = map char_of ns"

definition PARKING_COMMENT_PREFIX :: string where
  "PARKING_COMMENT_PREFIX = ''[parked:''"

text \<open>The sentences that say what happens next, in Korean, as UTF-8.\<close>

definition no_action_needed :: string where
  "no_action_needed = bytes [236, 130, 172, 235, 158, 140, 32, 237, 150, 137, 235, 143, 153, 32, 235, 182, 136, 237, 149, 132, 236, 154, 148] @ ''.''"

definition next_on_link :: string where
  "next_on_link = ''next=github-edge(PR '' @ bytes [235, 167, 129, 237, 129, 172, 32, 234, 176, 144, 236, 167, 128, 32,
     236, 139, 156, 32, 236, 158, 144, 235, 143, 153, 32, 236, 158, 172, 237, 143, 137, 234, 176, 128] @ ''). '' @ no_action_needed"

definition next_on_merge :: string where
  "next_on_merge = ''next=github-edge(merge '' @ bytes [234, 176, 144, 236, 167, 128, 32, 236, 139, 156, 32, 236, 158,
     144, 235, 143, 153, 32, 237, 149, 180, 236, 160, 156] @ ''). '' @ no_action_needed"

definition parking_comment_for_decision :: "decision \<Rightarrow> string option" where
  "parking_comment_for_decision d =
     (if d_status d \<noteq> Some ''review'' then None
      else if d_reason d = ''no_linked_pr''
      then Some (PARKING_COMMENT_PREFIX @ '' awaiting-pr] reason=no_linked_pr'' @ '' '' @ next_on_link)
      else (let pr_token = join_with '','' (map int_str (sort (filter (\<lambda>i. i > 0) (d_linked d)))) in
        if pr_token = [] then None
        else Some (PARKING_COMMENT_PREFIX @ '' awaiting-merge] reason='' @ d_reason d @ '' pr=#'' @ pr_token @ '' '' @ next_on_merge)))"

definition append_parking_comment_if_absent :: "db_env \<Rightarrow> string \<Rightarrow> string \<Rightarrow> (db \<Rightarrow> 'a db_result) \<Rightarrow> db \<Rightarrow> 'a db_result" where
  "append_parking_comment_if_absent env task_id comment_body k =
     sql_locked env 4 (\<lambda>c.
       if list_ex (\<lambda>m. c_task m = task_id \<and>
            py_strip (case c_body m of None \<Rightarrow> [] | Some s \<Rightarrow> s) = comment_body) (comments (working c))
       then k c
       else sql_locked env 5 (\<lambda>c. k (insert_comment
         \<lparr>c_task = task_id, c_author = ''github-edge'', c_body = Some comment_body, c_at = db_now env\<rparr> c)) c)"

section \<open>Completion decisions\<close>

text \<open>The gate without raising: what is pending, or the text of the error.\<close>

definition dependency_gate_evidence ::
  "db_env \<Rightarrow> nat \<Rightarrow> string \<Rightarrow> (string + (string \<times> string) list \<Rightarrow> db \<Rightarrow> 'a db_result) \<Rightarrow> db \<Rightarrow> 'a db_result" where
  "dependency_gate_evidence env n task_id k c =
     (case sql env n (\<lambda>c. (internal_dependency_gate task_id (working c), c)) c of
        (Inr pending, c) \<Rightarrow> k (Inr pending) c
      | (Inl (SyncError m), c) \<Rightarrow> k (Inl (''SyncError: '' @ m)) c
      | (Inl (DbError m), c) \<Rightarrow> k (Inl m) c
      | (Inl e, c) \<Rightarrow> (Inl e, c))"

definition reviewed :: "string option \<Rightarrow> task \<Rightarrow> task" where
  "reviewed body t = (release_task t)\<lparr>t_status := ''review'', t_completed_at := None, t_assignee := None, t_body := body\<rparr>"

definition completed_at :: "int \<Rightarrow> task \<Rightarrow> task" where
  "completed_at now t = (release_task t)\<lparr>t_status := ''done'', t_completed_at := Some now\<rparr>"

text \<open>What the event of the transition holds.\<close>

definition decision_payload :: "decision \<Rightarrow> string \<Rightarrow> string \<Rightarrow> rework option \<Rightarrow> dict" where
  "decision_payload d current desired recovery =
     (let payload = foldl (\<lambda>p (k, v). dset k v p) (obj_of (decision_json d))
        [(''source'', JStr ''github''), (''previous_status'', JStr current), (''new_status'', JStr desired),
         (''merge_authority'', JStr ''human''), (''auto_merge'', JBool False)] in
      case recovery of
        Some w \<Rightarrow> if current = ''done'' \<and> desired = ''review'' then foldl (\<lambda>p (k, v). dset k v p) payload
            [(''recovery_reason'', JStr ''false_terminal_done_open_conflict''),
             (''recovery_pending_rework_event_id'', opt_int (w_label_event w)),
             (''recovery_pending_rework_label_added_at'', opt_int (w_label_at w)),
             (''recovery_pending_rework_actor'', JStr (w_actor w)),
             (''pr_number'', opt_int (w_pr w)), (''head_sha'', JStr (w_head_sha w))]
          else payload
      | None \<Rightarrow> payload)"

text \<open>The update, its refusals, the parking comment and the event.\<close>

definition finish_decision :: "db_env \<Rightarrow> string \<Rightarrow> decision \<Rightarrow> rework option \<Rightarrow> string \<Rightarrow> string \<Rightarrow> db \<Rightarrow> dict db_result" where
  "finish_decision env task_id d recovery current desired = sql_locked env 6 (\<lambda>c.
     (Inr [(''task_id'', JStr task_id), (''status'', JStr desired), (''changed'', JBool True),
        (''reason'', JStr (d_reason d)), (''evidence'', decision_json d)],
      append_sync_event env task_id (decision_payload d current desired recovery) ''github_pr_sync'' c))"

definition write_decision ::
  "db_env \<Rightarrow> string \<Rightarrow> decision \<Rightarrow> rework option \<Rightarrow> string \<Rightarrow> string \<Rightarrow> (string \<times> string) list \<Rightarrow> (task \<Rightarrow> task) \<Rightarrow> db \<Rightarrow> dict db_result" where
  "write_decision env task_id d recovery current desired pending change =
     sql env 3 (\<lambda>c.
       let (rowcount, c') = update_tasks (\<lambda>t. t_id t = task_id \<and> t_status t = current \<and>
              dependency_guard task_id (working c)) change c in
       if rowcount \<noteq> 1 then
         (Inr (if pending \<noteq> [] then unchanged task_id current ''dependency_recheck_pending''
              [(''evidence'', JObj [(''parents'', JArr (map parent_json pending)),
                (''dependency_gate'', JStr ''recheck_pending'')])]
            else state_changed task_id current), c')
       else (case (if desired = ''review'' then parking_comment_for_decision d else None) of
           Some text \<Rightarrow> append_parking_comment_if_absent env task_id text (finish_decision env task_id d recovery current desired)
         | None \<Rightarrow> finish_decision env task_id d recovery current desired) c')"

text \<open>The transition once the parents were read: a failed read refuses it.\<close>

definition gated_decision ::
  "db_env \<Rightarrow> string \<Rightarrow> decision \<Rightarrow> string option \<Rightarrow> rework option \<Rightarrow> task \<Rightarrow> string \<Rightarrow> string + (string \<times> string) list \<Rightarrow> db \<Rightarrow> dict db_result" where
  "gated_decision env task_id d context_block recovery row desired gate c = (case gate of
      Inl m \<Rightarrow> (Inr (unchanged task_id (t_status row) ''dependency_recheck_failed'' [(''error'', JStr m)]), c)
    | Inr pending \<Rightarrow>
        if desired = ''review''
        then (case (case context_block of None \<Rightarrow> Inr (body_text row)
                 | Some block \<Rightarrow> replace_sync_context (body_text row) block) of
             Inl e \<Rightarrow> (Inl e, c)
           | Inr body \<Rightarrow> write_decision env task_id d recovery (t_status row) desired pending (reviewed (Some body)) c)
        else write_decision env task_id d recovery (t_status row) desired pending (completed_at (db_now env)) c)"

definition apply_decision ::
  "db_env \<Rightarrow> string \<Rightarrow> decision \<Rightarrow> string option \<Rightarrow> bool \<Rightarrow> rework option \<Rightarrow> db \<Rightarrow> dict db_result" where
  "apply_decision env task_id d context_block allow_blocked_source recovery =
     sql env 1 (\<lambda>c. case task_row task_id (working c) of
        None \<Rightarrow> (Inr (task_missing task_id), c)
      | Some row \<Rightarrow> (let current = t_status row in
          if \<not> is_github_backed_body (body_text row) then (Inr (unchanged task_id current ''not_github_backed'' []), c)
          else if \<not> authoritative d
          then (Inr (unchanged task_id current (d_reason d) [(''error'', opt_str (d_error d))]), c)
          else (case d_status d of
              None \<Rightarrow> (Inr (unchanged task_id current ''invalid_sync_decision'' []), c)
            | Some desired \<Rightarrow>
                if desired \<notin> {''review'', ''done''} then (Inr (unchanged task_id current ''invalid_sync_decision'' []), c)
                else if current = desired
                then (Inr (unchanged task_id current (d_reason d) [(''sync_action'', JStr ''idempotent''),
                       (''evidence'', decision_json d)]), c)
                else if current \<in> set PRESERVED_STATES \<and> \<not> (allow_blocked_source \<and> current = ''blocked'')
                then (Inr (unchanged task_id current ''state_preserved'' [(''evidence'', decision_json d)]), c)
                else dependency_gate_evidence env 2 task_id
                  (gated_decision env task_id d context_block recovery row desired) c)))"

section \<open>Supersession\<close>

record supersede_signal =
  sg_comment_id :: int
  sg_author :: string
  sg_created_at :: int

definition SUPERSEDE_EVENT_KIND :: string where
  "SUPERSEDE_EVENT_KIND = ''github_pr_superseded''"

definition supersede_payload :: "task_ref \<Rightarrow> supersede_signal \<Rightarrow> pull \<Rightarrow> string \<Rightarrow> dict" where
  "supersede_payload ref signal pr previous =
     [(''previous_status'', JStr previous), (''new_status'', JStr ''ready''),
      (''repository'', JStr (r_repository ref)), (''issue_number'', JInt (r_issue ref)),
      (''pr_number'', JInt (pr_number pr)), (''head_sha'', JStr (pr_head_sha pr)),
      (''signal_comment_id'', JInt (sg_comment_id signal)), (''signal_author'', JStr (sg_author signal)),
      (''signal_created_at'', JInt (sg_created_at signal)), (''reason'', JStr ''explicit_pr_superseded''),
      (''superseded'', JBool True), (''trusted_actor_policy'', trusted_policy),
      (''merge_authority'', JStr ''human''), (''auto_merge'', JBool False), (''source'', JStr ''github'')]"

definition abandoned :: "task \<Rightarrow> task" where
  "abandoned t = (release_task t)\<lparr>t_status := ''ready'', t_completed_at := None, t_assignee := None, t_heartbeat := None\<rparr>"

definition write_supersede :: "db_env \<Rightarrow> string \<Rightarrow> task_ref \<Rightarrow> supersede_signal \<Rightarrow> pull \<Rightarrow> string \<Rightarrow> db \<Rightarrow> dict db_result" where
  "write_supersede env task_id ref signal pr previous = sql env 2 (\<lambda>c.
     let (rowcount, c) = update_tasks (\<lambda>t. t_id t = task_id \<and> t_status t = previous) abandoned c in
     if rowcount \<noteq> 1 then (Inr (state_changed task_id previous), c)
     else sql_locked env 3 (\<lambda>c. (Inr [(''task_id'', JStr task_id), (''status'', JStr ''ready''),
         (''changed'', JBool True), (''reason'', JStr ''explicit_pr_superseded''), (''pr_number'', JInt (pr_number pr)),
         (''signal_comment_id'', JInt (sg_comment_id signal))],
       append_sync_event env task_id (supersede_payload ref signal pr previous) SUPERSEDE_EVENT_KIND c)) c)"

definition apply_supersede :: "db_env \<Rightarrow> string \<Rightarrow> task_ref \<Rightarrow> supersede_signal \<Rightarrow> pull \<Rightarrow> db \<Rightarrow> dict db_result" where
  "apply_supersede env task_id ref signal pr = sql env 1 (\<lambda>c. case task_row task_id (working c) of
       None \<Rightarrow> (Inr (task_missing task_id), c)
     | Some row \<Rightarrow> if t_status row \<notin> {''review'', ''blocked''} then (Inr (state_changed task_id (t_status row)), c)
         else write_supersede env task_id ref signal pr (t_status row) c)"

section \<open>Rework rounds\<close>

definition REWORK_RESERVED_ASSIGNEE :: string where
  "REWORK_RESERVED_ASSIGNEE = ''__github_edge_rework_dispatcher__''"

definition REWORK_DELIVERY_CONTRACT :: string where
  "REWORK_DELIVERY_CONTRACT = unlines [''## Rework delivery contract'', [],
     ''Update the EXISTING linked PR only; do not create a new PR.'',
     ''Run the repository-required validation and publish the final head.'',
     ''Complete the task through the normal Kanban completion surface; do not post AGENT_REWORK_COMPLETE.'',
     ''Record machine-readable run metadata validation=passed and the full head_sha observed after validation.'',
     ''The edge resolves task, request binding, current PR head, and creates the canonical completion marker after read-back.'']"

definition rework_payload :: "task_ref \<Rightarrow> rework \<Rightarrow> string \<Rightarrow> string option \<Rightarrow> nat \<Rightarrow> int option \<Rightarrow> dict" where
  "rework_payload ref w current assignee rework_round retry_comment_id =
     [(''previous_status'', JStr current), (''new_status'', JStr ''ready''), (''repository'', JStr (r_repository ref)),
      (''issue_number'', JInt (r_issue ref)), (''pr_number'', opt_int (w_pr w)), (''head_sha'', JStr (w_head_sha w)),
      (''request_comment_id'', opt_int (w_comment_id w)), (''label_added_at'', opt_int (w_label_at w)),
      (''label_event_id'', opt_int (w_label_event w)), (''reason'', JStr ''agent_rework''),
      (''rework_round'', JInt (int rework_round)), (''trusted_actor_policy'', trusted_policy),
      (''label_actor'', JStr (w_actor w)), (''previous_assignee'', opt_str assignee),
      (''merge_authority'', JStr ''human''), (''auto_merge'', JBool False), (''source'', JStr ''github'')] @
     (case retry_comment_id of None \<Rightarrow> []
      | Some i \<Rightarrow> [(''trigger'', JStr ''maintainer_retry''), (''retry_comment_id'', JInt i)])"

definition reworked :: "string \<Rightarrow> task \<Rightarrow> task" where
  "reworked body t = (release_task t)\<lparr>t_status := ''ready'', t_completed_at := None,
     t_assignee := Some REWORK_RESERVED_ASSIGNEE, t_body := Some body\<rparr>"

definition write_rework ::
  "db_env \<Rightarrow> string \<Rightarrow> rework \<Rightarrow> task_ref \<Rightarrow> int option \<Rightarrow> task \<Rightarrow> string \<Rightarrow> db \<Rightarrow> dict db_result" where
  "write_rework env task_id w ref retry_comment_id row body = sql env 2 (\<lambda>c.
     let (rowcount, c) = update_tasks (\<lambda>t. t_id t = task_id \<and> t_status t = t_status row) (reworked body) c in
     if rowcount \<noteq> 1 then (Inr (state_changed task_id (t_status row)), c)
     else sql_locked env 3 (\<lambda>c.
       let rework_round = length (filter (\<lambda>e. e_task e = task_id \<and> e_kind e = ''github_pr_rework'')
             (events (working c))) + 1 in
       sql_locked env 4 (sql_locked env 5 (\<lambda>c. (Inr [(''task_id'', JStr task_id), (''status'', JStr ''ready''),
           (''changed'', JBool True), (''reason'', JStr ''agent_rework''), (''rework_round'', JInt (int rework_round)),
           (''rework'', rework_json w)],
         insert_comment \<lparr>c_task = task_id, c_author = ''kanban-main'', c_body = Some REWORK_DELIVERY_CONTRACT, c_at = db_now env\<rparr>
          (append_sync_event env task_id
            (rework_payload ref w (t_status row) (t_assignee row) rework_round retry_comment_id) ''github_pr_rework'' c)))) c) c)"

definition apply_rework :: "db_env \<Rightarrow> string \<Rightarrow> rework \<Rightarrow> task_ref \<Rightarrow> int option \<Rightarrow> db \<Rightarrow> dict db_result" where
  "apply_rework env task_id w ref retry_comment_id = sql env 1 (\<lambda>c. case task_row task_id (working c) of
       None \<Rightarrow> (Inr (task_missing task_id), c)
     | Some row \<Rightarrow>
         if t_status row \<notin> {''review'', ''blocked'', ''done''} then (Inr (state_changed task_id (t_status row)), c)
         else (case replace_sync_context (body_text row) (w_context w) of Inl e \<Rightarrow> (Inl e, c)
           | Inr body \<Rightarrow> write_rework env task_id w ref retry_comment_id row body c))"

definition rework_kind :: "string \<Rightarrow> event \<Rightarrow> bool" where
  "rework_kind task_id e \<longleftrightarrow> e_task e = task_id \<and> e_kind e \<in> {''github_pr_rework'', ''github_pr_rework_retry''}"

definition last_rework_event_at :: "string \<Rightarrow> board \<Rightarrow> int option" where
  "last_rework_event_at task_id b = (case map e_at (filter (rework_kind task_id) (events b)) of
     [] \<Rightarrow> None | t # ts \<Rightarrow> Some (foldl max t ts))"

text \<open>Payload, time and kind of the latest rework event; what is no JSON object counts as empty.\<close>

definition latest_rework_event :: "string \<Rightarrow> board \<Rightarrow> (dict \<times> int \<times> string) option" where
  "latest_rework_event task_id b = (case newest_event (rework_kind task_id) b of None \<Rightarrow> None
     | Some e \<Rightarrow> Some (case e_payload e of JsonText (JObj d) \<Rightarrow> d | _ \<Rightarrow> [], e_at e, e_kind e))"

definition latest_rework_command_baseline :: "string \<Rightarrow> board \<Rightarrow> int option \<times> int option \<times> int option" where
  "latest_rework_command_baseline task_id b = (case latest_rework_event task_id b of None \<Rightarrow> (None, None, None)
     | Some (payload, event_at, _) \<Rightarrow> (Some event_at,
         (case dget_py payload ''label_added_at'' of JInt i \<Rightarrow> Some i | _ \<Rightarrow> None),
         (case dget_py payload ''label_event_id'' of JInt i \<Rightarrow> if i > 0 then Some i else None | _ \<Rightarrow> None)))"

section \<open>Blocked resumes\<close>

definition resumed :: "string \<Rightarrow> task \<Rightarrow> task" where
  "resumed body t = (release_task t)\<lparr>t_status := ''ready'', t_completed_at := None, t_assignee := None, t_body := Some body\<rparr>"

definition resume_payload :: "string \<Rightarrow> task_ref \<Rightarrow> resume \<Rightarrow> dict" where
  "resume_payload task_id ref m =
     [(''previous_status'', JStr ''blocked''), (''new_status'', JStr ''ready''), (''repository'', JStr (r_repository ref)),
      (''issue_number'', JInt (r_issue ref)), (''task_id'', JStr task_id), (''reason'', JStr ''agent_blocked_resolved''),
      (''response_author'', JStr (m_author m)), (''response_at'', JStr (m_at m)), (''trusted_actor_policy'', trusted_policy),
      (''merge_authority'', JStr ''human''), (''auto_merge'', JBool False), (''source'', JStr ''github'')]"

definition write_resume :: "db_env \<Rightarrow> string \<Rightarrow> resume \<Rightarrow> task_ref \<Rightarrow> string \<Rightarrow> db \<Rightarrow> dict db_result" where
  "write_resume env task_id m ref body = sql env 2 (\<lambda>c.
     let (rowcount, c) = update_tasks (\<lambda>t. t_id t = task_id \<and> t_status t = ''blocked'') (resumed body) c in
     if rowcount \<noteq> 1 then (Inr (state_changed task_id ''blocked''), c)
     else sql_locked env 3 (\<lambda>c. (Inr [(''task_id'', JStr task_id), (''status'', JStr ''ready''),
         (''changed'', JBool True), (''reason'', JStr ''agent_blocked_resolved''), (''resume'', resume_json m)],
       append_sync_event env task_id (resume_payload task_id ref m) ''github_blocked_resolved'' c)) c)"

definition apply_blocked_resume :: "db_env \<Rightarrow> string \<Rightarrow> resume \<Rightarrow> task_ref \<Rightarrow> db \<Rightarrow> dict db_result" where
  "apply_blocked_resume env task_id m ref = sql env 1 (\<lambda>c. case task_row task_id (working c) of
       None \<Rightarrow> (Inr (task_missing task_id), c)
     | Some row \<Rightarrow> if t_status row \<noteq> ''blocked'' then (Inr (state_changed task_id (t_status row)), c)
         else (case replace_sync_context (body_text row) (m_context m) of Inl e \<Rightarrow> (Inl e, c)
           | Inr body \<Rightarrow> write_resume env task_id m ref body c))"

text \<open>The time of the response that the newest resume consumed.\<close>

definition last_resume_response_at :: "string \<Rightarrow> board \<Rightarrow> string res" where
  "last_resume_response_at task_id b =
     (case newest_event (\<lambda>e. e_task e = task_id \<and> e_kind e = ''github_blocked_resolved'') b of
        None \<Rightarrow> Inr []
      | Some e \<Rightarrow> (case e_payload e of NoText \<Rightarrow> Inr [] | BadText \<Rightarrow> Inr []
          | JsonText (JObj d) \<Rightarrow> Inr (text_of d ''response_at'')
          | JsonText _ \<Rightarrow> Inl (PyError ''AttributeError'')))"

section \<open>The dependency hold\<close>

definition held :: "task \<Rightarrow> task" where
  "held t = (release_task t)\<lparr>t_status := ''todo'', t_completed_at := None, t_assignee := None\<rparr>"

definition restore_pending_dependency ::
  "db_env \<Rightarrow> string \<Rightarrow> (string \<times> string) list \<Rightarrow> bool \<Rightarrow> db \<Rightarrow> dict db_result" where
  "restore_pending_dependency env task_id pending dry_run =
     sql env 1 (\<lambda>c. case task_row task_id (working c) of
        None \<Rightarrow> (Inr [(''task_id'', JStr task_id), (''status'', JNull), (''changed'', JBool False),
                 (''reason'', JStr ''task_missing'')], c)
      | Some row \<Rightarrow> (let current = t_status row; parents = JArr (map parent_json pending);
            evidence = [(''evidence'', JObj [(''parents'', parents), (''dependency_gate'', JStr ''pending'')])] in
          if current \<notin> {''review'', ''done''}
          then (Inr (unchanged task_id current ''internal_dependency_pending'' evidence), c)
          else if dry_run then (Inr (unchanged task_id ''todo'' ''internal_dependency_pending_predicted'' evidence), c)
          else with_conn env (sql env 2 (\<lambda>c.
            let (rowcount, c) = update_tasks (\<lambda>t. t_id t = task_id \<and> t_status t = current) held c in
            if rowcount \<noteq> 1 then (Inr (unchanged task_id current ''state_changed_during_sync'' evidence), c)
            else sql_locked env 3 (\<lambda>c. (Inr ([(''task_id'', JStr task_id), (''status'', JStr ''todo''),
                (''changed'', JBool True), (''reason'', JStr ''internal_dependency_pending'')] @ evidence),
              append_sync_event env task_id [(''parents'', parents), (''dependency_gate'', JStr ''pending''),
                (''source'', JStr ''github''), (''previous_status'', JStr current), (''new_status'', JStr ''todo''),
                (''reason'', JStr ''internal_dependency_pending''), (''merge_authority'', JStr ''human''),
                (''auto_merge'', JBool False)] ''github_dependency_gate'' c)) c) c)))"

end
