(* ===== verification/EdgeRework.thy ===== *)
theory EdgeRework
  imports EdgeTransitions
begin

text \<open>
  Requests of a maintainer in the edge sync (edge/kanban-github-sync.py): the labels of pull requests,
  the label events that order rework requests, and the decision whether a label opens a rework round.
\<close>

section \<open>Times\<close>

definition days_of_month :: "int \<Rightarrow> int \<Rightarrow> int" where
  "days_of_month y m = (if m = 2 then (if y mod 4 = 0 \<and> (y mod 100 \<noteq> 0 \<or> y mod 400 = 0) then 29 else 28)
     else if m \<in> {4, 6, 9, 11} then 30 else 31)"

text \<open>Days since 1970-01-01 in the Gregorian calendar.\<close>

definition epoch_days :: "int \<Rightarrow> int \<Rightarrow> int \<Rightarrow> int" where
  "epoch_days y m d = (let y = (if m \<le> 2 then y - 1 else y); era = y div 400; yoe = y mod 400;
       doy = (153 * ((m + 9) mod 12) + 2) div 5 + d - 1 in
     era * 146097 + yoe * 365 + yoe div 4 - yoe div 100 + doy - 719468)"

text \<open>A time as GitHub writes it, once its zone \<open>Z\<close> was replaced.\<close>

definition utc_time :: "string \<Rightarrow> int option" where
  "utc_time s = (let part = (\<lambda>i n. take n (drop i s)); num = (\<lambda>i n. digits_value (part i n));
       y = num 0 4; mo = num 5 2; d = num 8 2; h = num 11 2; mi = num 14 2; se = num 17 2 in
     if length s = 25 \<and> list_all is_digit (part 0 4 @ part 5 2 @ part 8 2 @ part 11 2 @ part 14 2 @ part 17 2) \<and>
        part 4 1 = ''-'' \<and> part 7 1 = ''-'' \<and> part 10 1 = ''T'' \<and> part 13 1 = '':'' \<and> part 16 1 = '':'' \<and>
        drop 19 s = ''+00:00'' \<and> 1 \<le> y \<and> 1 \<le> mo \<and> mo \<le> 12 \<and> 1 \<le> d \<and> d \<le> days_of_month y mo \<and>
        h < 24 \<and> mi < 60 \<and> se < 60
     then Some (epoch_days y mo d * 86400 + h * 3600 + mi * 60 + se) else None)"

definition parse_iso_ts :: "edge_net \<Rightarrow> json \<Rightarrow> int option" where
  "parse_iso_ts n v = (if \<not> truthy v then None
     else (let s = concat (map (\<lambda>c. if c = CHR ''Z'' then ''+00:00'' else [c]) (py_str v)) in
       case utc_time s of Some t \<Rightarrow> Some t | None \<Rightarrow> local_time n s))"

section \<open>Labels\<close>

definition AGENT_READY_LABEL :: string where
  "AGENT_READY_LABEL = ''agent-ready''"

definition REWORK_LABEL :: string where
  "REWORK_LABEL = ''agent-rework''"

text \<open>\<open>{str(item.get("name")) for item in items if isinstance(item, dict)}\<close>, and only those that have one.\<close>

definition label_names :: "json list \<Rightarrow> string list" where
  "label_names items = List.map_filter (\<lambda>v. case v of JObj d \<Rightarrow> Some (py_str (dget_py d ''name'')) | _ \<Rightarrow> None) items"

definition named_labels :: "json list \<Rightarrow> string list" where
  "named_labels items = label_names (filter (\<lambda>v. truthy (dget_py (obj_of v) ''name'')) items)"

text \<open>The labels of an Issue as GitHub sent it.\<close>

definition payload_labels :: "dict \<Rightarrow> string list res" where
  "payload_labels d = map_sum id label_names (py_iter (dget_or d ''labels'' (JArr [])))"

text \<open>The pattern of the labels endpoint, at the start of a text and anywhere in it.\<close>

definition path_segment :: "string \<Rightarrow> string option" where
  "path_segment s = (if takeWhile (\<lambda>c. c \<noteq> CHR ''/'') s = [] then None else Some (dropWhile (\<lambda>c. c \<noteq> CHR ''/'') s))"

definition labels_path_here :: "string \<Rightarrow> bool" where
  "labels_path_here s \<longleftrightarrow> (if \<not> starts_with s ''/repos/'' then False
     else (case path_segment (drop 7 s) of None \<Rightarrow> False | Some r \<Rightarrow>
       (case path_segment (drop 1 r) of None \<Rightarrow> False | Some r \<Rightarrow>
         if \<not> starts_with r ''/issues/'' then False
         else (let digits = takeWhile is_digit (drop 8 r); r = dropWhile is_digit (drop 8 r) in
           digits \<noteq> [] \<and> (r = ''/labels'' \<or> r = ''/labels'' @ [newline])))))"

definition labels_path_in :: "string \<Rightarrow> bool" where
  "labels_path_in s \<longleftrightarrow> list_ex labels_path_here (suffixes s)"

text \<open>A 404 of this endpoint means no labels, if the pull request is known to exist.\<close>

definition pr_labels :: "edge_net \<Rightarrow> string \<Rightarrow> int \<Rightarrow> bool \<Rightarrow> edge_call list \<Rightarrow> string list edge_result" where
  "pr_labels n repository pr_no pr_exists calls =
     (case edge_get n (''/repos/'' @ repository @ ''/issues/'' @ int_str pr_no @ ''/labels'') [] calls of
        (Inl (CompletionError m status), calls) \<Rightarrow>
          if pr_exists \<and> status = Some 404 \<and> labels_path_in m then (Inr [], calls)
          else (Inl (CompletionError m status), calls)
      | (Inl e, calls) \<Rightarrow> (Inl e, calls)
      | (Inr (JArr items, _), calls) \<Rightarrow> (Inr (named_labels items), calls)
      | (Inr _, calls) \<Rightarrow> (completion_error (''GitHub returned invalid labels for '' @ repository @ ''#'' @ int_str pr_no), calls))"

section \<open>Label events\<close>

type_synonym label_event = "int \<times> string \<times> int option"

text \<open>What one timeline item says about the rework label.\<close>

definition labeled_event :: "edge_net \<Rightarrow> json \<Rightarrow> label_event option res" where
  "labeled_event n item = (let d = obj_of item; label = dget_py d ''label'' in
     if \<not> is_obj item \<or> dget_py d ''event'' \<noteq> JStr ''labeled'' then Inr None
     else if \<not> is_obj label \<or> py_str (dget_py (obj_of label) ''name'') \<noteq> REWORK_LABEL then Inr None
     else (case login_of d ''actor'' [] of Inl e \<Rightarrow> Inl e | Inr actor \<Rightarrow>
       (case parse_iso_ts n (dget_py d ''created_at'') of None \<Rightarrow> Inr None
        | Some ts \<Rightarrow> Inr (Some (ts, actor, (case dget_py d ''id'' of JInt i \<Rightarrow> if i \<le> 0 then None else Some i
            | _ \<Rightarrow> None))))))"

definition labeled_events :: "edge_net \<Rightarrow> task_ref \<Rightarrow> int \<Rightarrow> edge_call list \<Rightarrow> label_event list edge_result" where
  "labeled_events n ref pr_no calls =
     and_then (get_paginated n (issue_path ref pr_no @ ''/timeline'') [(''per_page'', ''100'')] calls)
       (\<lambda>items calls. (collect_numbers (map (labeled_event n) items), calls))"

definition event_number :: "label_event \<Rightarrow> int" where
  "event_number e = (case snd (snd e) of Some i \<Rightarrow> i | None \<Rightarrow> 0)"

text \<open>\<open>max(items, key=f)\<close>: the first of the greatest.\<close>

definition max_by :: "('a \<Rightarrow> int) \<Rightarrow> 'a list \<Rightarrow> 'a" where
  "max_by f xs = foldl (\<lambda>best x. if f best < f x then x else best) (hd xs) (tl xs)"

definition latest_labeled_event :: "label_event list \<Rightarrow> label_event option" where
  "latest_labeled_event es = (if es = [] then None
     else (let newest_at = fst (max_by fst es); newest = filter (\<lambda>e. fst e = newest_at) es in
       case find (\<lambda>e. snd (snd e) = None) newest of
         Some e \<Rightarrow> Some e
       | None \<Rightarrow> Some (max_by event_number newest)))"

text \<open>Whether a label event is newer than the round that the database knows and the label that opened it.\<close>

definition label_event_is_newer :: "label_event \<Rightarrow> int \<Rightarrow> int option \<Rightarrow> int option \<Rightarrow> bool" where
  "label_event_is_newer e durable_at bound_at bound_id =
     (case snd (snd e) of None \<Rightarrow> False | Some label_id \<Rightarrow>
        if label_id \<le> 0 then False
        else (let label_at = fst e; baseline = max durable_at (case bound_at of None \<Rightarrow> 0 | Some t \<Rightarrow> t) in
          if label_at > baseline then True
          else if label_at < baseline then False
          else if bound_at \<noteq> Some label_at \<or> durable_at > label_at then False
          else (case bound_id of None \<Rightarrow> False | Some i \<Rightarrow> 0 < i \<and> label_id > i)))"

section \<open>The decision\<close>

fun labelled_pulls :: "edge_net \<Rightarrow> task_ref \<Rightarrow> pull list \<Rightarrow> edge_call list \<Rightarrow> pull list edge_result" where
  "labelled_pulls n ref [] calls = (Inr [], calls)"
| "labelled_pulls n ref (pr # rest) calls =
     and_then (pr_labels n (r_repository ref) (pr_number pr) True calls) (\<lambda>names calls.
       and_then (labelled_pulls n ref rest calls) (\<lambda>prs calls.
         (Inr (if REWORK_LABEL \<in> set names then pr # prs else prs), calls)))"

text \<open>The request of a label event: never bound to an earlier comment.\<close>

definition label_request :: "string \<Rightarrow> pull \<Rightarrow> label_event \<Rightarrow> rework" where
  "label_request reason pr e = (rework_result reason)\<lparr>w_pr := Some (pr_number pr), w_head_sha := pr_head_sha pr,
     w_label_present := True, w_label_at := Some (fst e), w_actor := fst (snd e), w_label_event := snd (snd e)\<rparr>"

definition without_identity :: "string \<Rightarrow> pull \<Rightarrow> rework" where
  "without_identity reason pr = (rework_result reason)\<lparr>w_pr := Some (pr_number pr), w_label_present := True\<rparr>"

text \<open>The Issue as it is now, and the round it opens.\<close>

definition authorise_rework :: "edge_net \<Rightarrow> task_ref \<Rightarrow> decision \<Rightarrow> pull \<Rightarrow> label_event \<Rightarrow> edge_call list \<Rightarrow> rework option edge_result" where
  "authorise_rework n ref d pr e calls =
     and_then (edge_get n (issue_path ref (r_issue ref)) [] calls) (\<lambda>(payload, _) calls. case payload of
         JObj issue \<Rightarrow> (case payload_labels issue of Inl x \<Rightarrow> (Inl x, calls) | Inr labels \<Rightarrow>
           if casefold (py_str (dget_or issue ''state'' (JStr []))) \<noteq> ''open'' \<or> AGENT_READY_LABEL \<notin> set labels
           then (Inr (Some (label_request ''issue_not_agent_ready'' pr e)), calls)
           else and_then (build_context_block n ref (d_pulls d) (Some (pr_number pr)) None [] calls) (\<lambda>block calls.
             (Inr (Some ((label_request ''agent_rework'' pr e)\<lparr>w_context := block\<rparr>)), calls)))
       | _ \<Rightarrow> (completion_error (''GitHub returned an invalid issue response for #'' @ int_str (r_issue ref)), calls))"

definition judge_label ::
  "edge_net \<Rightarrow> task_ref \<Rightarrow> decision \<Rightarrow> int option \<times> int option \<times> int option \<Rightarrow> pull \<Rightarrow> label_event list \<Rightarrow> edge_call list \<Rightarrow> rework option edge_result" where
  "judge_label n ref d baseline pr es calls = (case latest_labeled_event es of
      None \<Rightarrow> (Inr (Some (without_identity ''rework_label_event_missing'' pr)), calls)
    | Some e \<Rightarrow>
        if snd (snd e) = None then (Inr (Some (without_identity ''rework_label_event_identity_missing'' pr)), calls)
        else if \<not> trusted_actor (fst (snd e)) then (Inr (Some (label_request ''untrusted_rework_label_actor'' pr e)), calls)
        else (case baseline of
            (Some last_at, label_at, label_id) \<Rightarrow>
              if \<not> label_event_is_newer e last_at label_at label_id
              then (Inr (Some (label_request ''rework_claim_pending'' pr e)), calls)
              else authorise_rework n ref d pr e calls
          | (None, _, _) \<Rightarrow> authorise_rework n ref d pr e calls))"

definition evaluate_rework ::
  "edge_net \<Rightarrow> task_ref \<Rightarrow> decision \<Rightarrow> string \<Rightarrow> int option \<times> int option \<times> int option \<Rightarrow> edge_call list \<Rightarrow> rework option edge_result" where
  "evaluate_rework n ref d current_status baseline calls =
     (let open_prs = filter (\<lambda>pr. pr_state pr = ''open'') (d_pulls d) in
      if current_status \<notin> {''review'', ''ready'', ''blocked''} \<or> open_prs = [] then (Inr None, calls)
      else and_then (labelled_pulls n ref open_prs calls) (\<lambda>rework_prs calls. case rework_prs of
          [] \<Rightarrow> (Inr None, calls)
        | [pr] \<Rightarrow> and_then (labeled_events n ref (pr_number pr) calls) (judge_label n ref d baseline pr)
        | _ \<Rightarrow> (Inr (Some ((rework_result ''multiple_rework_prs'')\<lparr>w_label_present := True\<rparr>)), calls)))"

definition evaluate_rework_for_task ::
  "edge_net \<Rightarrow> task_ref \<Rightarrow> decision \<Rightarrow> string \<Rightarrow> string \<Rightarrow> board \<Rightarrow> edge_call list \<Rightarrow> rework option edge_result" where
  "evaluate_rework_for_task n ref d task_id current_status b calls =
     evaluate_rework n ref d current_status (latest_rework_command_baseline task_id b) calls"

end
