(* ===== verification/EdgeBlocked.thy ===== *)
theory EdgeBlocked
  imports EdgeRework
begin

text \<open>
  Blocked cards in the edge sync (edge/kanban-github-sync.py): why a card is blocked, the marker
  comment and the label that make it visible on GitHub, the maintainer's response that resumes
  it, and the reconciliation of one blocked card. Literals outside the characters of a
  \<open>string\<close> are their UTF-8 bytes.
\<close>

section \<open>Constants\<close>

definition BLOCKED_LABEL :: string where
  "BLOCKED_LABEL = ''agent-blocked''"

definition BLOCKER_MARKER_PREFIX :: string where
  "BLOCKER_MARKER_PREFIX = ''<!-- HERMES KANBAN BLOCKER task_id=''"

definition BLOCKER_MARKER_SUFFIX :: string where
  "BLOCKER_MARKER_SUFFIX = '' -->''"

definition MAX_BLOCKER_REASON_CHARS :: nat where "MAX_BLOCKER_REASON_CHARS = 1500"

definition MAX_ISSUE_RESPONSE_ITEMS :: nat where "MAX_ISSUE_RESPONSE_ITEMS = 3"

definition NEEDS_FROM_MAINTAINER :: "(string \<times> string) list" where
  "NEEDS_FROM_MAINTAINER = [
     (''needs_input'', ''A decision or input from the maintainer (reply on this Issue).''),
     (''capability'', ''The required capability or environment access must be provided by the maintainer.''),
     (''transient'', ''Confirm whether the blocking condition has cleared, then unblock.'')]"

definition needs_from :: "string option \<Rightarrow> string" where
  "needs_from block_kind = (case block_kind of None \<Rightarrow> ''A maintainer decision is required.''
     | Some k \<Rightarrow> (case dget NEEDS_FROM_MAINTAINER k of Some s \<Rightarrow> s | None \<Rightarrow> ''A maintainer decision is required.''))"

definition robot :: string where
  "robot = bytes [240, 159, 164, 150]"

section \<open>Why a card is blocked\<close>

text \<open>\<open>json.loads(payload)\<close> where a text that is no JSON counts as an empty object.\<close>

definition loaded_or_empty :: "json_text \<Rightarrow> json" where
  "loaded_or_empty p = (case p of JsonText v \<Rightarrow> v | _ \<Rightarrow> JObj [])"

definition nonempty_text :: "string option \<Rightarrow> bool" where
  "nonempty_text s \<longleftrightarrow> (case s of None \<Rightarrow> False | Some t \<Rightarrow> t \<noteq> [])"

definition task_block_reason :: "string \<Rightarrow> board \<Rightarrow> string res" where
  "task_block_reason task_id b =
     (let run_reason = (case rev (filter (\<lambda>r. run_task r = task_id \<and> run_outcome r = Some ''blocked'' \<and> run_summary r \<noteq> None)
            (sort_key run_id (task_runs b))) of
          r # _ \<Rightarrow> if nonempty_text (run_summary r) then py_strip (the (run_summary r))
            else ''The task is blocked pending maintainer input (no reason recorded).''
        | [] \<Rightarrow> ''The task is blocked pending maintainer input (no reason recorded).'') in
      case newest_event (\<lambda>e. e_task e = task_id \<and> e_kind e = ''blocked'') b of
        None \<Rightarrow> Inr run_reason
      | Some e \<Rightarrow> if e_payload e = NoText then Inr run_reason
          else (case loaded_or_empty (e_payload e) of
              JObj d \<Rightarrow> (let reason = py_strip (text_of d ''reason'') in Inr (if reason \<noteq> [] then reason else run_reason))
            | _ \<Rightarrow> Inl (PyError ''AttributeError'')))"

text \<open>A failed lookup of the parents is shown and never promotes.\<close>

definition blocked_state_projection :: "db_env \<Rightarrow> nat \<Rightarrow> string \<Rightarrow> string option \<Rightarrow> board \<Rightarrow> dict res" where
  "blocked_state_projection env k task_id block_kind b =
     (let kind = (if nonempty_text block_kind then the block_kind else ''untyped'');
          projection = (\<lambda>pending promotable rest. [(''block_kind'', JStr kind),
            (''pending_parents'', JArr (map parent_json pending)),
            (''pending_parent_ids'', JArr (map (\<lambda>p. JStr (fst p)) pending)),
            (''dependency_driven'', JBool (kind = ''dependency'')), (''auto_promotable'', JBool promotable)] @ rest) in
      case (case sql_error env k of Some m \<Rightarrow> Inl (DbError m) | None \<Rightarrow> internal_dependency_gate task_id b) of
        Inr pending \<Rightarrow> Inr (projection pending (kind = ''dependency'') [])
      | Inl (SyncError m) \<Rightarrow> Inr (projection [] False [(''projection_error'', JStr (''SyncError: '' @ m))])
      | Inl (DbError m) \<Rightarrow> Inr (projection [] False [(''projection_error'', JStr m)])
      | Inl e \<Rightarrow> Inl e)"

text \<open>The newest block events, each with its own run's summary where it gives no reason.\<close>

definition block_event_kinds :: "string list" where
  "block_event_kinds = [''blocked'', ''dependency_wait'', ''block_loop_detected'']"

definition own_run_summary :: "string \<Rightarrow> int option \<Rightarrow> board \<Rightarrow> string" where
  "own_run_summary task_id own_run b = (case own_run of None \<Rightarrow> [] | Some i \<Rightarrow>
     (case find (\<lambda>r. run_task r = task_id \<and> run_id r = i \<and> run_outcome r = Some ''blocked'' \<and> run_summary r \<noteq> None)
        (task_runs b) of
       Some r \<Rightarrow> if nonempty_text (run_summary r) then py_strip (the (run_summary r)) else []
     | None \<Rightarrow> []))"

definition block_history_entry :: "string \<Rightarrow> board \<Rightarrow> event \<Rightarrow> dict" where
  "block_history_entry task_id b e =
     (let payload = obj_of (loaded_or_empty (e_payload e)); kind = dget_py payload ''kind'';
          given = py_strip (text_of payload ''reason'');
          reason = (if given = [] then own_run_summary task_id (e_run e) b else given) in
      [(''kind'', JStr (e_kind e)),
       (''block_kind'', JStr (if kind = JNull \<or> kind = JStr [] then ''untyped'' else py_str kind)),
       (''dependency_driven'', JBool (kind = JStr ''dependency'')), (''auto_promotable'', JBool (kind = JStr ''dependency'')),
       (''recurrences'', dget_py payload ''recurrences''), (''source_status'', dget_py payload ''source_status''),
       (''run_id'', opt_int (e_run e)),
       (''reason'', JStr (if reason = [] then [] else py_truncate reason MAX_ITEM_CHARS)), (''at'', JInt (e_at e))])"

definition task_block_history :: "string \<Rightarrow> nat \<Rightarrow> board \<Rightarrow> dict list" where
  "task_block_history task_id limit b = map (block_history_entry task_id b)
     (take limit (sort_desc e_at (rev (filter (\<lambda>e. e_task e = task_id \<and> e_kind e \<in> set block_event_kinds) (events b)))))"

section \<open>The marker comment\<close>

definition blocker_marker :: "string \<Rightarrow> string" where
  "blocker_marker task_id = BLOCKER_MARKER_PREFIX @ task_id @ BLOCKER_MARKER_SUFFIX"

definition ticked :: "string \<Rightarrow> string" where
  "ticked s = (let tick = char_of (96 :: nat) in tick # s @ [tick])"

definition blocker_metadata :: "dict \<Rightarrow> string list res" where
  "blocker_metadata p = (case py_iter (py_or (dget_py p ''pending_parent_ids'') (JArr [])) of Inl e \<Rightarrow> Inl e
     | Inr waiting \<Rightarrow> Inr ([[], ''Block metadata:'',
         ''block: block_kind='' @ py_str (py_or (dget_py p ''block_kind'') (JStr ''untyped'')),
         ''block: dependency_driven='' @ bool_text (dget_py p ''dependency_driven''),
         ''block: auto_promotable='' @ bool_text (dget_py p ''auto_promotable''),
         ''block: pending_parent_ids='' @ json_dumps False (JArr waiting)] @
        (if truthy (dget_py p ''projection_error'')
         then [''block: projection_error='' @ py_str (dget_py p ''projection_error'')] else [])))"

definition maintained_note :: string where
  "maintained_note = ''This comment is maintained by the Hermes GitHub reconciliation layer.''"

definition blocker_comment_body :: "string \<Rightarrow> string \<Rightarrow> string \<Rightarrow> bool \<Rightarrow> dict option \<Rightarrow> string res" where
  "blocker_comment_body task_id reason needs no_pr block_projection =
     (case (case block_projection of None \<Rightarrow> Inr [] | Some p \<Rightarrow> blocker_metadata p) of Inl e \<Rightarrow> Inl e
      | Inr metadata \<Rightarrow> Inr (unlines ([blocker_marker task_id, [], robot @ '' Hermes blocked'', [],
          ''Kanban task: '' @ ticked task_id, [], ''Reason:'', py_truncate reason MAX_BLOCKER_REASON_CHARS, [],
          ''Needs from maintainer:'', needs] @ metadata @
         (if no_pr then [[], ''No reviewable pull request is currently available.''] else []) @
         [[], maintained_note])))"

definition resume_consumed_comment_body :: "string \<Rightarrow> string \<Rightarrow> string \<Rightarrow> string" where
  "resume_consumed_comment_body task_id response_at response_author = unlines [blocker_marker task_id, [],
     robot @ '' Hermes blocked (resume consumed)'', [], ''Kanban task: '' @ ticked task_id, [],
     ''Maintainer response ('' @ response_author @ '', '' @ response_at @ '') already unblocked '' @
     ''this task once, but the worker crashed before completing the work. '' @
     ''The same response is consumed and will not re-fire automatically.'', [],
     ''Needs from maintainer: post a NEW comment on the Issue to resume this '' @ ''task once.'', [],
     ''No reviewable pull request is currently available.'', [], maintained_note]"

definition find_blocker_marker :: "json list \<Rightarrow> string \<Rightarrow> dict option" where
  "find_blocker_marker cs task_id = (case find (\<lambda>v. is_obj v \<and>
       contains (blocker_marker task_id) (text_of (obj_of v) ''body'')) cs of
     None \<Rightarrow> None | Some v \<Rightarrow> Some (obj_of v))"

section \<open>The response of a maintainer\<close>

text \<open>A comment with its author, when it has a text and comes after the baseline.\<close>

definition comment_after :: "string \<Rightarrow> json \<Rightarrow> (string \<times> dict) option res" where
  "comment_after baseline v = (case v of
      JObj d \<Rightarrow> (case login_of d ''user'' [] of Inl e \<Rightarrow> Inl e | Inr author \<Rightarrow>
        Inr (if py_strip (text_of d ''body'') = [] \<or> baseline \<noteq> [] \<and> text_of d ''created_at'' \<le> baseline then None
             else Some (author, d)))
    | _ \<Rightarrow> Inr None)"

definition newest_response :: "dict list \<Rightarrow> dict option" where
  "newest_response ds = foldl (\<lambda>best d. case best of None \<Rightarrow> Some d
     | Some x \<Rightarrow> if text_of x ''created_at'' < text_of d ''created_at'' then Some d else best) None ds"

definition trusted_response_after :: "json list \<Rightarrow> string \<Rightarrow> dict option res" where
  "trusted_response_after cs baseline = (case map_res (comment_after baseline) cs of Inl e \<Rightarrow> Inl e
     | Inr found \<Rightarrow> Inr (newest_response (map snd (filter (\<lambda>p. trusted_actor (fst p)) (somes found)))))"

definition response_line :: "dict \<Rightarrow> string res" where
  "response_line d = (case login_of d ''user'' ''unknown'' of Inl e \<Rightarrow> Inl e
     | Inr author \<Rightarrow> Inr (''- '' @ author @ '' ('' @ text_of d ''created_at'' @ ''): '' @ py_truncate (text_of d ''body'') MAX_ITEM_CHARS))"

definition response_lines :: "dict list \<Rightarrow> string list res" where
  "response_lines ds = (case map_res response_line (take MAX_ISSUE_RESPONSE_ITEMS (sort_desc (\<lambda>d. text_of d ''created_at'') ds)) of
     Inl e \<Rightarrow> Inl e | Inr ls \<Rightarrow> Inr (if ds = [] then [''(none)''] else ls))"

definition render_issue_resolve_context :: "json list \<Rightarrow> string \<Rightarrow> string res" where
  "render_issue_resolve_context cs baseline = (case map_res (comment_after baseline) cs of Inl e \<Rightarrow> Inl e | Inr found \<Rightarrow>
     case response_lines (map snd (filter (\<lambda>p. trusted_actor (fst p)) (somes found))) of Inl e \<Rightarrow> Inl e | Inr trusted \<Rightarrow>
     case response_lines (map snd (filter (\<lambda>p. \<not> trusted_actor (fst p)) (somes found))) of Inl e \<Rightarrow> Inl e | Inr untrusted \<Rightarrow>
     Inr (unlines ([SYNC_CONTEXT_BEGIN, [], ''## Issue blocker resolution'', []] @ trusted @
       [[], ''## Issue discussion '' @ em_dash @ '' untrusted context (reference only)''] @ untrusted @ [[], SYNC_CONTEXT_END])))"

definition marker_baseline :: "dict \<Rightarrow> string" where
  "marker_baseline m = py_str (py_or (py_or (dget_py m ''updated_at'') (dget_py m ''created_at'')) (JStr []))"

definition evaluate_blocked_resume ::
  "task_ref \<Rightarrow> decision \<Rightarrow> dict option \<Rightarrow> dict \<Rightarrow> json list \<Rightarrow> string \<Rightarrow> resume res" where
  "evaluate_blocked_resume ref d marker issue_payload thread last_response_at =
     (if d_pulls d \<noteq> [] then Inr (resume_result ''linked_pr_present'')
      else (case marker of None \<Rightarrow> Inr (resume_result ''no_projection_baseline'') | Some m \<Rightarrow>
        case payload_labels issue_payload of Inl e \<Rightarrow> Inl e | Inr labels \<Rightarrow>
        if casefold (py_str (dget_or issue_payload ''state'' (JStr []))) \<noteq> ''open'' \<or> AGENT_READY_LABEL \<notin> set labels
        then Inr (resume_result ''issue_not_ready'')
        else if BLOCKED_LABEL \<in> set labels then Inr (resume_result ''agent_blocked_label_present'')
        else (case trusted_response_after thread (marker_baseline m) of Inl e \<Rightarrow> Inl e
          | Inr None \<Rightarrow> Inr (resume_result ''no_trusted_response'')
          | Inr (Some response) \<Rightarrow> (case login_of response ''user'' [] of Inl e \<Rightarrow> Inl e | Inr author \<Rightarrow>
              let response_at = text_of response ''created_at'';
                  answer = (\<lambda>reason. (resume_result reason)\<lparr>m_author := author, m_at := response_at\<rparr>) in
              if last_response_at \<noteq> [] \<and> response_at = last_response_at then Inr (answer ''resume_consumed'')
              else (case render_issue_resolve_context thread (marker_baseline m) of Inl e \<Rightarrow> Inl e
                | Inr block \<Rightarrow> Inr ((answer ''agent_blocked_resolved'')\<lparr>m_context := block\<rparr>))))))"

end
