(* ===== verification/EdgeReconcile.thy ===== *)
theory EdgeReconcile
  imports EdgeBlocked
begin

text \<open>
  The reconciliation of one blocked card (edge/kanban-github-sync.py): labels and comments are
  written through GitHub's API, the card through a transaction. Merged evidence comes before a
  rework request, that before an open pull request, and only then is the block made visible or
  resolved by a maintainer's response.
\<close>

section \<open>Database and network\<close>

type_synonym edge_world = "db \<times> edge_call list"

type_synonym 'a sync_result = "'a res \<times> edge_world"

definition on_net :: "(edge_call list \<Rightarrow> 'a edge_result) \<Rightarrow> edge_world \<Rightarrow> 'a sync_result" where
  "on_net m w = (case m (snd w) of (r, calls) \<Rightarrow> (r, (fst w, calls)))"

definition on_db :: "(db \<Rightarrow> 'a db_result) \<Rightarrow> edge_world \<Rightarrow> 'a sync_result" where
  "on_db m w = (case m (fst w) of (r, c) \<Rightarrow> (r, (c, snd w)))"

text \<open>A read of the database outside a transaction of the edge.\<close>

definition reading :: "db_env \<Rightarrow> nat \<Rightarrow> (board \<Rightarrow> 'a res) \<Rightarrow> edge_world \<Rightarrow> 'a sync_result" where
  "reading env k f w = on_db (sql env k (\<lambda>c. (f (working c), c))) w"

text \<open>\<open>except GithubCompletionError\<close>, and \<open>except sqlite3.Error\<close> around a transaction.\<close>

definition on_completion_error :: "'a res \<times> 'w \<Rightarrow> (string \<Rightarrow> 'w \<Rightarrow> 'a res \<times> 'w) \<Rightarrow> 'a res \<times> 'w" where
  "on_completion_error m h = (case m of (Inl (CompletionError text _), w) \<Rightarrow> h text w | r \<Rightarrow> r)"

definition on_db_error :: "'a res \<times> 'w \<Rightarrow> (string \<Rightarrow> 'w \<Rightarrow> 'a res \<times> 'w) \<Rightarrow> 'a res \<times> 'w" where
  "on_db_error m h = (case m of (Inl (DbError text), w) \<Rightarrow> h text w | r \<Rightarrow> r)"

section \<open>Labels and comments\<close>

definition issue_labels_path :: "string \<Rightarrow> int \<Rightarrow> string" where
  "issue_labels_path repository number = ''/repos/'' @ repository @ ''/issues/'' @ int_str number @ ''/labels''"

definition ok_status :: "int \<Rightarrow> bool" where
  "ok_status s \<longleftrightarrow> 200 \<le> s \<and> s < 300"

definition repo_has_label :: "edge_net \<Rightarrow> string \<Rightarrow> string \<Rightarrow> edge_call list \<Rightarrow> bool edge_result" where
  "repo_has_label n repository label calls =
     and_then (edge_get n (''/repos/'' @ repository @ ''/labels'') [(''per_page'', ''100'')] calls) (\<lambda>(payload, _) calls.
       case payload of JArr items \<Rightarrow> (Inr (label \<in> set (label_names items)), calls)
       | _ \<Rightarrow> (completion_error ''invalid repo labels payload'', calls))"

definition add_to_issue :: "edge_net \<Rightarrow> string \<Rightarrow> int \<Rightarrow> string \<Rightarrow> edge_call list \<Rightarrow> (int \<times> json) edge_result" where
  "add_to_issue n repository number label calls =
     write_json n ''POST'' (issue_labels_path repository number) [(''labels'', JArr [JStr label])] calls"

definition label_not_added :: "string \<Rightarrow> int \<Rightarrow> 'a res" where
  "label_not_added label status = completion_error (''could not add label '' @ label @ '' to issue (HTTP '' @ int_str status @ '')'')"

text \<open>A label the repository lacks is created; a lost race for it is seen by looking again.\<close>

definition create_label :: "edge_net \<Rightarrow> string \<Rightarrow> string \<Rightarrow> edge_call list \<Rightarrow> unit edge_result" where
  "create_label n repository label calls =
     and_then (write_json n ''POST'' (''/repos/'' @ repository @ ''/labels'') [(''name'', JStr label), (''color'', JStr ''b60205''),
         (''description'', JStr ''Hermes Kanban task is blocked; resolution is tracked in the linked issue comment.'')] calls)
       (\<lambda>(created, _) calls.
          let failed = completion_error (''could not create label '' @ label @ '' (HTTP '' @ int_str created @ '')'') in
          if ok_status created then (Inr (), calls)
          else if created \<in> {404, 422} then and_then (repo_has_label n repository label calls)
            (\<lambda>present calls. (if present then Inr () else failed, calls))
          else (failed, calls))"

definition add_label :: "edge_net \<Rightarrow> string \<Rightarrow> int \<Rightarrow> string \<Rightarrow> edge_call list \<Rightarrow> unit edge_result" where
  "add_label n repository number label calls =
     and_then (add_to_issue n repository number label calls) (\<lambda>(status, _) calls.
       if ok_status status then (Inr (), calls)
       else if status \<notin> {404, 422} then (label_not_added label status, calls)
       else and_then (repo_has_label n repository label calls) (\<lambda>present calls.
         and_then (if present then (Inr (), calls) else create_label n repository label calls) (\<lambda>_ calls.
         and_then (add_to_issue n repository number label calls) (\<lambda>(status, _) calls.
           (if ok_status status then Inr () else label_not_added label status, calls)))))"

definition add_issue_label :: "edge_net \<Rightarrow> task_ref \<Rightarrow> string \<Rightarrow> edge_call list \<Rightarrow> unit edge_result" where
  "add_issue_label n ref label calls = add_label n (r_repository ref) (r_issue ref) label calls"

definition remove_label :: "edge_net \<Rightarrow> string \<Rightarrow> int \<Rightarrow> string \<Rightarrow> edge_call list \<Rightarrow> int edge_result" where
  "remove_label n repository number label calls = edge_delete n (issue_labels_path repository number @ ''/'' @ label) calls"

definition remove_pr_label :: "edge_net \<Rightarrow> task_ref \<Rightarrow> int \<Rightarrow> string \<Rightarrow> edge_call list \<Rightarrow> int edge_result" where
  "remove_pr_label n ref pr_no label calls = remove_label n (r_repository ref) pr_no label calls"

text \<open>\<open>int(v) if v is not None else None\<close>.\<close>

definition opt_py_int :: "json \<Rightarrow> int option res" where
  "opt_py_int v = (if v = JNull then Inr None else map_sum id Some (py_int v))"

definition comments_path :: "task_ref \<Rightarrow> string" where
  "comments_path ref = issue_path ref (r_issue ref) @ ''/comments''"

definition upsert_blocker_comment ::
  "edge_net \<Rightarrow> task_ref \<Rightarrow> string \<Rightarrow> string \<Rightarrow> edge_call list \<Rightarrow> (string \<times> int option) edge_result" where
  "upsert_blocker_comment n ref task_id body calls =
     and_then (edge_get n (comments_path ref) [] calls) (\<lambda>(payload, _) calls.
       case py_iter payload of Inl e \<Rightarrow> (Inl e, calls) | Inr cs \<Rightarrow>
       (case find_blocker_marker cs task_id of
          None \<Rightarrow> and_then (write_json n ''POST'' (comments_path ref) [(''body'', JStr body)] calls) (\<lambda>(status, reply) calls.
            if \<not> ok_status status
            then (completion_error (''could not create blocker comment (HTTP '' @ int_str status @ '')''), calls)
            else (map_sum id (Pair ''created'') (opt_py_int (if is_obj reply then dget_py (obj_of reply) ''id'' else JNull)), calls))
        | Some m \<Rightarrow>
            if text_of m ''body'' = body
            then (map_sum id (Pair ''unchanged'') (opt_py_int (dget_py m ''id'')), calls)
            else (case dget m ''id'' of None \<Rightarrow> (Inl (PyError ''KeyError''), calls)
              | Some i \<Rightarrow> and_then (write_json n ''PATCH''
                    (''/repos/'' @ r_repository ref @ ''/issues/comments/'' @ py_str i) [(''body'', JStr body)] calls)
                  (\<lambda>(status, _) calls. if \<not> ok_status status
                    then (completion_error (''could not update blocker comment (HTTP '' @ int_str status @ '')''), calls)
                    else (map_sum id (Pair ''updated'') (opt_py_int i), calls)))))"

fun linked_pr_evidence :: "edge_net \<Rightarrow> task_ref \<Rightarrow> pull list \<Rightarrow> edge_call list \<Rightarrow> bool edge_result" where
  "linked_pr_evidence n ref [] calls = (Inr False, calls)"
| "linked_pr_evidence n ref (pr # rest) calls =
     and_then (pr_labels n (r_repository ref) (pr_number pr) True calls) (\<lambda>names calls.
       if REWORK_LABEL \<in> set names then (Inr True, calls)
       else if pr_state pr \<noteq> ''open'' \<and> \<not> pr_draft pr then linked_pr_evidence n ref rest calls
       else and_then (collect_pr_context n ref pr calls) (\<lambda>context calls.
         case feedback_items context True of Inl e \<Rightarrow> (Inl e, calls)
         | Inr items \<Rightarrow> if items \<noteq> [] then (Inr True, calls) else linked_pr_evidence n ref rest calls))"

section \<open>One blocked card\<close>

text \<open>The reply for a card that stays blocked.\<close>

definition blocked_entry :: "string \<Rightarrow> dict \<Rightarrow> string \<Rightarrow> dict \<Rightarrow> dict" where
  "blocked_entry task_id projection reason extra = foldl (\<lambda>d (k, v). dset k v d)
     (unchanged task_id ''blocked'' reason [(''block'', JObj projection), (''block_kind'', dget_py projection ''block_kind''),
       (''auto_promotable'', dget_py projection ''auto_promotable'')]) extra"

definition entry_error :: "string \<Rightarrow> dict \<Rightarrow> string \<Rightarrow> string \<Rightarrow> dict" where
  "entry_error task_id projection reason m = blocked_entry task_id projection reason [(''error'', JStr m)]"

text \<open>A transaction of the reconciliation: a database error leaves the card and is reported.\<close>

definition in_transaction ::
  "db_env \<Rightarrow> (string \<Rightarrow> string \<Rightarrow> dict) \<Rightarrow> (db \<Rightarrow> dict db_result) \<Rightarrow> edge_world \<Rightarrow> dict sync_result" where
  "in_transaction env failed m w =
     on_db_error (on_db (\<lambda>c. with_conn env (m c)) w) (\<lambda>text w. (Inr (failed ''db_write_failed'' text), w))"

definition projection_payload :: "string \<Rightarrow> task_ref \<Rightarrow> string option \<Rightarrow> string \<Rightarrow> int option \<Rightarrow> dict" where
  "projection_payload task_id ref block_kind action comment_id =
     [(''previous_status'', JStr ''blocked''), (''new_status'', JStr ''blocked''), (''repository'', JStr (r_repository ref)),
      (''issue_number'', JInt (r_issue ref)), (''task_id'', JStr task_id), (''reason'', JStr ''blocker_projection''),
      (''action'', JStr action), (''comment_id'', opt_int comment_id), (''block_kind'', opt_str block_kind),
      (''trusted_actor_policy'', trusted_policy), (''merge_authority'', JStr ''human''), (''auto_merge'', JBool False),
      (''source'', JStr ''github'')]"

definition append_blocked_projection_event ::
  "db_env \<Rightarrow> string \<Rightarrow> task_ref \<Rightarrow> string option \<Rightarrow> string \<Rightarrow> int option \<Rightarrow> db \<Rightarrow> unit db_result" where
  "append_blocked_projection_event env task_id ref block_kind action comment_id = sql env 16 (\<lambda>c.
     (Inr (), append_sync_event env task_id (projection_payload task_id ref block_kind action comment_id) ''github_blocked_projection'' c))"

text \<open>The hold label, while no trusted response exists, and the record of what was projected.\<close>

definition finish_projection ::
  "db_env \<Rightarrow> edge_net \<Rightarrow> task_ref \<Rightarrow> task \<Rightarrow> dict \<Rightarrow> bool \<Rightarrow> bool \<Rightarrow> string \<Rightarrow> int option \<Rightarrow> edge_world \<Rightarrow> dict sync_result" where
  "finish_projection env n ref row projection dry_run hold comment_action comment_id w =
     (let task_id = t_id row; entry = blocked_entry task_id projection;
          label_action = (if \<not> hold then ''unchanged'' else if dry_run then ''add_predicted'' else ''added'') in
      on_completion_error
        (and_then (if hold \<and> \<not> dry_run then on_net (add_issue_label n ref BLOCKED_LABEL) w else (Inr (), w)) (\<lambda>_ w.
          if dry_run then (Inr (entry ''blocker_projection_predicted'' [(''projection'', JObj
              [(''comment_action'', JStr comment_action), (''label_action'', JStr label_action)])]), w)
          else if comment_action \<noteq> ''unchanged'' then
            on_db_error (and_then (on_db (\<lambda>c. with_conn env
                  (append_blocked_projection_event env task_id ref (t_block_kind row) comment_action comment_id c)) w)
                (\<lambda>_ w. (Inr (entry ''blocker_projected'' [(''projection_action'', JStr comment_action),
                  (''comment_id'', opt_int comment_id), (''label_action'', JStr label_action)]), w)))
              (\<lambda>text w. (Inr (entry ''blocker_projected_event_failed'' [(''projection_action'', JStr comment_action),
                (''comment_id'', opt_int comment_id), (''error'', JStr text)]), w))
          else (Inr (entry ''blocked_evidence_ok'' [(''label_action'', JStr label_action)]), w)))
        (\<lambda>m w. (Inr (entry_error task_id projection ''blocker_projection_failed'' m), w)))"

text \<open>
  The durable evidence of the block: the pull requests' own, else the marker comment. The first
  part is skipped when a marker exists.
\<close>

definition project_blocker ::
  "db_env \<Rightarrow> edge_net \<Rightarrow> task_ref \<Rightarrow> decision \<Rightarrow> task \<Rightarrow> dict \<Rightarrow> bool \<Rightarrow> dict \<Rightarrow> json list \<Rightarrow> dict option \<Rightarrow> edge_world \<Rightarrow> dict sync_result" where
  "project_blocker env n ref d row projection dry_run issue_payload cs marker w =
     (let task_id = t_id row; failed = entry_error task_id projection in
      and_then (reading env 15 (task_block_reason task_id) w) (\<lambda>reason w.
      case blocker_comment_body task_id reason (needs_from (t_block_kind row)) (d_pulls d = []) (Some projection) of
        Inl e \<Rightarrow> (Inl e, w) | Inr body \<Rightarrow>
      case payload_labels issue_payload of Inl e \<Rightarrow> (Inl e, w) | Inr labels \<Rightarrow>
      case (case marker of None \<Rightarrow> Inr None | Some m \<Rightarrow> trusted_response_after cs (marker_baseline m)) of
        Inl e \<Rightarrow> (Inl e, w) | Inr response \<Rightarrow>
      let hold = (BLOCKED_LABEL \<notin> set labels \<and> response = None) in
      case marker of
        Some m \<Rightarrow> if text_of m ''body'' = body
          then (case opt_py_int (dget_py m ''id'') of Inl e \<Rightarrow> (Inl e, w)
            | Inr comment_id \<Rightarrow> finish_projection env n ref row projection dry_run hold ''unchanged'' comment_id w)
          else if dry_run then (Inr (blocked_entry task_id projection ''blocker_projection_predicted'' []), w)
          else (case on_net (upsert_blocker_comment n ref task_id body) w of
              (Inl (CompletionError m _), w) \<Rightarrow> (Inr (failed ''blocker_projection_failed'' m), w)
            | (Inl e, w) \<Rightarrow> (Inl e, w)
            | (Inr (action, comment_id), w) \<Rightarrow> finish_projection env n ref row projection dry_run hold action comment_id w)
      | None \<Rightarrow> (case on_net (linked_pr_evidence n ref (d_pulls d)) w of
            (Inl (CompletionError m _), w) \<Rightarrow> (Inr (failed ''github_query_failed'' m), w)
          | (Inl e, w) \<Rightarrow> (Inl e, w)
          | (Inr True, w) \<Rightarrow> (Inr (blocked_entry task_id projection ''blocked_evidence_ok'' []), w)
          | (Inr False, w) \<Rightarrow>
              if dry_run then (Inr (blocked_entry task_id projection ''blocker_projection_predicted'' []), w)
              else (case on_net (upsert_blocker_comment n ref task_id body) w of
                  (Inl (CompletionError m _), w) \<Rightarrow> (Inr (failed ''blocker_projection_failed'' m), w)
                | (Inl e, w) \<Rightarrow> (Inl e, w)
                | (Inr (action, comment_id), w) \<Rightarrow> finish_projection env n ref row projection dry_run hold action comment_id w))))"

text \<open>The answer of a maintainer to a card without pull requests: resume, or show that it is consumed.\<close>

definition resolve_blocked ::
  "db_env \<Rightarrow> edge_net \<Rightarrow> task_ref \<Rightarrow> decision \<Rightarrow> task \<Rightarrow> dict \<Rightarrow> bool \<Rightarrow> dict \<Rightarrow> json list \<Rightarrow> dict option \<Rightarrow> edge_world \<Rightarrow> dict sync_result" where
  "resolve_blocked env n ref d row projection dry_run issue_payload cs marker w =
     (let task_id = t_id row; entry = blocked_entry task_id projection in
      if d_pulls d \<noteq> [] then project_blocker env n ref d row projection dry_run issue_payload cs marker w
      else and_then (reading env 14 (last_resume_response_at task_id) w) (\<lambda>last_at w.
        case evaluate_blocked_resume ref d marker issue_payload cs last_at of Inl e \<Rightarrow> (Inl e, w) | Inr m \<Rightarrow>
        if m_reason m = ''agent_blocked_resolved'' then
          if dry_run then (Inr (entry ''blocked_resume_ready_predicted'' [(''resume'', resume_json m)]), w)
          else in_transaction env (entry_error task_id projection) (apply_blocked_resume env task_id m ref) w
        else if m_reason m = ''resume_consumed'' then
          if dry_run then (Inr (entry ''resume_consumed'' [(''resume'', resume_json m)]), w)
          else on_completion_error
            (and_then (on_net (upsert_blocker_comment n ref task_id (resume_consumed_comment_body task_id (m_at m) (m_author m))) w)
              (\<lambda>(action, comment_id) w. (Inr (entry ''resume_consumed'' [(''resume'', resume_json m),
                 (''comment_action'', JStr action), (''comment_id'', opt_int comment_id)]), w)))
            (\<lambda>text w. (Inr (entry_error task_id projection ''blocker_projection_failed'' text), w))
        else project_blocker env n ref d row projection dry_run issue_payload cs marker w))"

definition stay_blocked ::
  "db_env \<Rightarrow> edge_net \<Rightarrow> task_ref \<Rightarrow> decision \<Rightarrow> task \<Rightarrow> dict \<Rightarrow> bool \<Rightarrow> edge_world \<Rightarrow> dict sync_result" where
  "stay_blocked env n ref d row projection dry_run w =
     (let task_id = t_id row; failed = entry_error task_id projection ''github_query_failed'' in
      case on_net (edge_get n (issue_path ref (r_issue ref)) []) w of
        (Inl (CompletionError m _), w) \<Rightarrow> (Inr (failed m), w)
      | (Inl e, w) \<Rightarrow> (Inl e, w)
      | (Inr (payload, _), w) \<Rightarrow>
          if \<not> is_obj payload then (Inr (failed ''invalid issue payload''), w)
          else if casefold (py_str (dget_or (obj_of payload) ''state'' (JStr []))) \<noteq> ''open''
          then (Inr (blocked_entry task_id projection ''closed_issue_no_projection'' []), w)
          else (case on_net (edge_get n (comments_path ref) []) w of
              (Inl (CompletionError m _), w) \<Rightarrow> (Inr (failed m), w)
            | (Inl e, w) \<Rightarrow> (Inl e, w)
            | (Inr (JArr cs, _), w) \<Rightarrow> resolve_blocked env n ref d row projection dry_run (obj_of payload) cs
                (find_blocker_marker cs task_id) w
            | (Inr _, w) \<Rightarrow> (Inr (failed ''invalid issue comments payload''), w)))"

text \<open>An open pull request that is no draft: the card waits in review, with or without its context.\<close>

definition review_blocked ::
  "db_env \<Rightarrow> edge_net \<Rightarrow> task_ref \<Rightarrow> decision \<Rightarrow> task \<Rightarrow> dict \<Rightarrow> bool \<Rightarrow> edge_world \<Rightarrow> dict sync_result" where
  "review_blocked env n ref d row projection dry_run w =
     and_then (on_completion_error
        (and_then (reading env 13 (\<lambda>b. Inr (task_block_history (t_id row) 5 b)) w) (\<lambda>history w.
           and_then (on_net (build_context_block n ref (d_pulls d) None (Some projection) history) w)
             (\<lambda>block w. (Inr (Some block), w))))
        (\<lambda>_ w. (Inr None, w)))
      (\<lambda>context w. if dry_run
         then (Inr (blocked_entry (t_id row) projection ''blocked_open_pr_review_predicted'' [(''evidence'', decision_json d)]), w)
         else in_transaction env (entry_error (t_id row) projection) (apply_decision env (t_id row) d context True None) w)"

text \<open>The rework request, where a failed lookup is only carried in the reply that nobody reads.\<close>

definition rework_blocked ::
  "db_env \<Rightarrow> edge_net \<Rightarrow> task_ref \<Rightarrow> decision \<Rightarrow> task \<Rightarrow> edge_world \<Rightarrow> rework option sync_result" where
  "rework_blocked env n ref d row w =
     on_completion_error
       (and_then (reading env 12 (\<lambda>b. Inr (latest_rework_command_baseline (t_id row) b)) w) (\<lambda>baseline.
          on_net (evaluate_rework n ref d ''blocked'' baseline)))
       (\<lambda>m w. (Inr (Some ((rework_result ''rework_query_failed'')\<lparr>w_error := Some m, w_authoritative := False\<rparr>)), w))"

text \<open>The requests that settle the reconciliation: a round, one that waits, or an ambiguous one.\<close>

definition binding_request :: "rework option \<Rightarrow> rework option" where
  "binding_request request = (case request of None \<Rightarrow> None | Some q \<Rightarrow>
     if w_authoritative q \<and> w_reason q \<in> {''agent_rework'', ''rework_claim_pending'', ''multiple_rework_prs''}
     then Some q else None)"

definition reconcile_blocked ::
  "db_env \<Rightarrow> edge_net \<Rightarrow> task_ref \<Rightarrow> decision \<Rightarrow> task \<Rightarrow> bool \<Rightarrow> edge_world \<Rightarrow> dict sync_result" where
  "reconcile_blocked env n ref d row dry_run w =
     (let task_id = t_id row in
      and_then (on_db (\<lambda>c. (blocked_state_projection env 11 task_id (t_block_kind row) (working (seen env 11 c)),
          seen env 11 c)) w) (\<lambda>projection w.
      let entry = blocked_entry task_id projection; evidence = [(''evidence'', decision_json d)] in
      if \<not> authoritative d then (Inr (entry (d_reason d) evidence), w)
      else if d_status d = Some ''done'' then
        if dry_run then (Inr (entry ''blocked_merged_done_predicted'' evidence), w)
        else in_transaction env (entry_error task_id projection) (apply_decision env task_id d None True None) w
      else and_then (rework_blocked env n ref d row w) (\<lambda>request w. case binding_request request of
          Some q \<Rightarrow>
            if w_reason q \<noteq> ''agent_rework'' then (Inr (entry (w_reason q) [(''rework'', rework_json q)]), w)
            else if dry_run then (Inr (entry ''blocked_rework_ready_predicted'' [(''rework'', rework_json q)]), w)
            else in_transaction env (entry_error task_id projection) (apply_rework env task_id q ref None) w
        | None \<Rightarrow>
            if list_ex (\<lambda>pr. pr_state pr = ''open'' \<and> \<not> pr_draft pr) (d_pulls d)
            then review_blocked env n ref d row projection dry_run w
            else stay_blocked env n ref d row projection dry_run w)))"

end
