(* ===== verification/TransitionGuarantees.thy ===== *)
theory TransitionGuarantees
  imports EdgeReconcile
begin

text \<open>
  The contract of the edge sync's transitions: whatever other processes commit between its
  statements and whichever statement fails, a transition either writes nothing or moves one card from the
  status it read and records one event; a completion decision also rechecks the parents in its write.
\<close>

section \<open>The contract\<close>

text \<open>The board after what others committed before the first statements.\<close>

fun seen_after :: "db_env \<Rightarrow> nat \<Rightarrow> board \<Rightarrow> board" where
  "seen_after env 0 b = b"
| "seen_after env (Suc k) b = others env (Suc k) (seen_after env k b)"

text \<open>The ids of the cards are a primary key, whatever others write.\<close>

definition keyed :: "db_env \<Rightarrow> board \<Rightarrow> bool" where
  "keyed env b \<longleftrightarrow> (\<forall>k \<le> 3. distinct (map t_id (tasks (seen_after env k b))))"

text \<open>One card moved by \<open>change\<close> from status \<open>s\<close>, with one event and perhaps comments of its own.\<close>

definition moved :: "string \<Rightarrow> string \<Rightarrow> (task \<Rightarrow> task) \<Rightarrow> event \<Rightarrow> board \<Rightarrow> board \<Rightarrow> bool" where
  "moved task_id s change e b b' \<longleftrightarrow>
     length (filter (\<lambda>t. t_id t = task_id \<and> t_status t = s) (tasks b)) = 1 \<and>
     tasks b' = map (\<lambda>t. if t_id t = task_id \<and> t_status t = s then change t else t) (tasks b) \<and>
     events b' = events b @ [e] \<and> e_task e = task_id \<and> task_links b' = task_links b \<and> task_runs b' = task_runs b \<and>
     (\<exists>ms. comments b' = comments b @ ms \<and> (\<forall>m \<in> set ms. c_task m = task_id))"

definition moves :: "string \<Rightarrow> (string \<Rightarrow> bool) \<Rightarrow> string \<Rightarrow> board \<Rightarrow> board \<Rightarrow> bool" where
  "moves task_id allowed target b b' \<longleftrightarrow> (\<exists>s change e. allowed s \<and> moved task_id s change e b b' \<and>
     (\<forall>t. t_id (change t) = t_id t \<and> t_status (change t) = target))"

definition changed_reply :: "dict res \<Rightarrow> bool" where
  "changed_reply r \<longleftrightarrow> (case r of Inr out \<Rightarrow> dget out ''changed'' = Some (JBool True) | Inl _ \<Rightarrow> False)"

text \<open>
  An operation on a connection whose reads see what others committed, and that in the end has either
  written nothing, or moved the card from an allowed status and answered so.
\<close>

definition lawful :: "db_env \<Rightarrow> string \<Rightarrow> (string \<Rightarrow> bool) \<Rightarrow> string \<Rightarrow> board \<Rightarrow> dict db_result \<Rightarrow> bool" where
  "lawful env task_id allowed target b x \<longleftrightarrow> (case x of (r, c') \<Rightarrow> (\<exists>k \<le> 3. committed c' = seen_after env k b) \<and>
     (case r of Inl _ \<Rightarrow> True
      | Inr out \<Rightarrow> if changed_reply r then moves task_id allowed target (committed c') (working c')
          else working c' = committed c'))"

text \<open>What a transaction leaves: the board others made, or that board with the card moved.\<close>

definition all_or_nothing :: "db_env \<Rightarrow> string \<Rightarrow> (string \<Rightarrow> bool) \<Rightarrow> string \<Rightarrow> board \<Rightarrow> dict db_result \<Rightarrow> bool" where
  "all_or_nothing env task_id allowed target b x \<longleftrightarrow> (case x of (r, c') \<Rightarrow> working c' = committed c' \<and>
     (\<exists>k \<le> 3. if changed_reply r then moves task_id allowed target (seen_after env k b) (committed c')
        else committed c' = seen_after env k b))"

lemma moves_others:
  assumes "moves task_id allowed target b b'"
  shows "task_links b' = task_links b \<and> filter (\<lambda>t. t_id t \<noteq> task_id) (tasks b') = filter (\<lambda>t. t_id t \<noteq> task_id) (tasks b)"
proof -
  have keep: "filter (\<lambda>t. t_id t \<noteq> task_id) (map (\<lambda>t. if t_id t = task_id \<and> t_status t = s then change t else t) ts) =
      filter (\<lambda>t. t_id t \<noteq> task_id) ts" if "\<forall>t. t_id (change t) = t_id t" for s change ts
    using that by (induction ts) auto
  from assms obtain s change e where "moved task_id s change e b b'" "\<forall>t. t_id (change t) = t_id t" by (auto simp: moves_def)
  then show ?thesis using keep by (simp add: moved_def)
qed

locale transition =
  fixes run_op :: "db_env \<Rightarrow> db \<Rightarrow> dict db_result" and task_id :: string and allowed :: "string \<Rightarrow> bool" and target :: string
  assumes law: "keyed env (working c) \<Longrightarrow> lawful env task_id allowed target (working c) (run_op env c)"
begin

lemma atomic:
  assumes key: "keyed env (working c)"
  shows "all_or_nothing env task_id allowed target (working c) (with_conn env (run_op env c))"
proof -
  obtain r c' where x: "with_conn env (run_op env c) = (r, c')" by fastforce
  obtain r0 c0 where o: "run_op env c = (r0, c0)" by fastforce
  have l: "lawful env task_id allowed target (working c) (r0, c0)" using law [OF key] o by simp
  then obtain k where k: "k \<le> 3" "committed c0 = seen_after env k (working c)" by (auto simp: lawful_def)
  from x o have "working c' = committed c' \<and> (r = r0 \<and> committed c' = working c0 \<and> (\<exists>x. r0 = Inr x) \<or>
      \<not> changed_reply r \<and> committed c' = committed c0)"
    by (auto simp: with_conn_def changed_reply_def split: sum.splits option.splits)
  moreover have "r0 = Inr x \<Longrightarrow> if changed_reply r0 then moves task_id allowed target (committed c0) (working c0)
      else working c0 = committed c0" for x
    using l by (auto simp: lawful_def)
  ultimately have "working c' = committed c' \<and> (if changed_reply r
      then moves task_id allowed target (seen_after env k (working c)) (committed c') else committed c' = seen_after env k (working c))"
    unfolding k(2) by (metis (no_types, lifting))
  with k(1) x show ?thesis by (auto simp: all_or_nothing_def)
qed

text \<open>Every other card, and the whole graph, is as others left it.\<close>

lemma others_kept:
  assumes key: "keyed env (working c)" and "with_conn env (run_op env c) = (r, c')"
  shows "\<exists>k \<le> 3. let b = seen_after env k (working c) in task_links (committed c') = task_links b \<and>
    filter (\<lambda>t. t_id t \<noteq> task_id) (tasks (committed c')) = filter (\<lambda>t. t_id t \<noteq> task_id) (tasks b)"
proof -
  from atomic [OF assms(1)] assms(2) obtain k where k: "k \<le> 3" and a: "if changed_reply r
      then moves task_id allowed target (seen_after env k (working c)) (committed c')
      else committed c' = seen_after env k (working c)" unfolding all_or_nothing_def by auto
  have "task_links (committed c') = task_links (seen_after env k (working c)) \<and>
    filter (\<lambda>t. t_id t \<noteq> task_id) (tasks (committed c')) = filter (\<lambda>t. t_id t \<noteq> task_id) (tasks (seen_after env k (working c)))"
    using a moves_others by (cases "changed_reply r") auto
  then show ?thesis using k unfolding Let_def by blast
qed

end

section \<open>The statements\<close>

lemma seen_simps [simp]: "committed (seen env k c) = others env k (working c)" "working (seen env k c) = others env k (working c)"
  by (simp_all add: seen_def Let_def)

lemma insert_simps [simp]: "committed (insert_event e c) = committed c" "committed (insert_comment m c) = committed c"
  "working (insert_event e c) = (working c)\<lparr>events := events (working c) @ [e]\<rparr>"
  "working (insert_comment m c) = (working c)\<lparr>comments := comments (working c) @ [m]\<rparr>"
  by (simp_all add: insert_event_def insert_comment_def)

lemma update_simps [simp]: "fst (update_tasks wanted change c) = length (filter wanted (tasks (working c)))"
  "committed (snd (update_tasks wanted change c)) = committed c"
  "working (snd (update_tasks wanted change c)) = (working c)\<lparr>tasks := map (\<lambda>t. if wanted t then change t else t) (tasks (working c))\<rparr>"
  by (simp_all add: update_tasks_def Let_def)

lemma not_changed [simp]: "\<not> changed_reply (Inl e)" "\<not> changed_reply (Inr (unchanged task_id s reason extra))"
  "\<not> changed_reply (Inr (task_missing task_id))" "\<not> changed_reply (Inr (state_changed task_id s))"
  by (simp_all add: changed_reply_def unchanged_def task_missing_def state_changed_def)

text \<open>The connection after some statements that only read, and after the write.\<close>

definition at_read :: "db_env \<Rightarrow> nat \<Rightarrow> board \<Rightarrow> db \<Rightarrow> bool" where
  "at_read env k b c \<longleftrightarrow> k \<le> 3 \<and> committed c = seen_after env k b \<and> working c = seen_after env k b"

definition wrote :: "db_env \<Rightarrow> board \<Rightarrow> string \<Rightarrow> string \<Rightarrow> (task \<Rightarrow> task) \<Rightarrow> db \<Rightarrow> bool" where
  "wrote env b task_id s change c \<longleftrightarrow> (\<exists>k \<le> 3. committed c = seen_after env k b) \<and>
     length (filter (\<lambda>t. t_id t = task_id \<and> t_status t = s) (tasks (committed c))) = 1 \<and>
     (\<exists>ms. (\<forall>m \<in> set ms. c_task m = task_id) \<and> working c = (committed c)
       \<lparr>tasks := map (\<lambda>t. if t_id t = task_id \<and> t_status t = s then change t else t) (tasks (committed c)),
        comments := comments (committed c) @ ms\<rparr>)"

lemma lawful_refused: "at_read env k b c \<Longrightarrow> \<not> changed_reply r \<Longrightarrow> lawful env task_id allowed target b (r, c)"
  by (auto simp: lawful_def at_read_def split: sum.splits)

lemma lawful_failed: "wrote env b task_id s change c \<Longrightarrow> lawful env task_id allowed target b (Inl e, c)"
  by (auto simp: lawful_def wrote_def)

lemma lawful_first:
  assumes "\<And>c1. at_read env 1 (working c) c1 \<Longrightarrow> lawful env task_id allowed target (working c) (k c1)"
  shows "lawful env task_id allowed target (working c) (sql env 1 k c)"
proof -
  have "at_read env 1 (working c) (seen env 1 c)" by (simp add: at_read_def)
  then show ?thesis using assms lawful_refused by (auto simp: sql_def split: option.splits)
qed

lemma lawful_sql:
  assumes "at_read env j b c" and "i = Suc j" and "j < 3"
    and "\<And>c1. at_read env i b c1 \<Longrightarrow> lawful env task_id allowed target b (k c1)"
  shows "lawful env task_id allowed target b (sql env i k c)"
proof -
  have "at_read env i b (seen env i c)" using assms(1-3) by (simp add: at_read_def)
  then show ?thesis using assms lawful_refused by (auto simp: sql_def split: option.splits)
qed

lemma lawful_locked:
  assumes "wrote env b task_id s change c" and "lawful env task_id allowed target b (k c)"
  shows "lawful env task_id allowed target b (sql_locked env j k c)"
  using assms lawful_failed by (auto simp: sql_locked_def split: option.splits)

text \<open>The update: refused, or it wrote the one card it names; the guard of the statement then held.\<close>

lemma key_once: "distinct (map f xs) \<Longrightarrow> length (filter (\<lambda>x. f x = a \<and> P x) xs) \<le> 1"
proof (induction xs)
  case (Cons x xs)
  have "f x = a \<Longrightarrow> filter (\<lambda>x. f x = a \<and> P x) xs = []" using Cons.prems by (auto simp: filter_empty_conv) (metis image_eqI)
  then show ?case using Cons by auto
qed simp

lemma lawful_update:
  assumes key: "keyed env b" and r: "at_read env j b c" and refused: "\<not> changed_reply no"
    and go: "\<And>c1. wrote env b task_id s change c1 \<Longrightarrow> lawful env task_id allowed target b (k c1)"
  shows "lawful env task_id allowed target b
    (let (rowcount, c1) = update_tasks (\<lambda>t. t_id t = task_id \<and> t_status t = s \<and> G) change c in
     if rowcount \<noteq> 1 then (no, c1) else k c1)"
proof -
  define wanted where "wanted = (\<lambda>t :: task. t_id t = task_id \<and> t_status t = s \<and> G)"
  define c1 where "c1 = snd (update_tasks wanted change c)"
  have at: "committed c1 = seen_after env j b" "working c = seen_after env j b" "j \<le> 3" using r by (simp_all add: at_read_def c1_def)
  have "distinct (map t_id (tasks (working c)))" using key at by (simp add: keyed_def)
  then have one: "length (filter wanted (tasks (working c))) \<le> 1" unfolding wanted_def by (rule key_once)
  have "lawful env task_id allowed target b (if length (filter wanted (tasks (working c))) \<noteq> 1 then (no, c1) else k c1)"
  proof (cases "filter wanted (tasks (working c))")
    case Nil
    then have "map (\<lambda>t. if wanted t then change t else t) (tasks (working c)) = tasks (working c)"
      by (auto simp: filter_empty_conv intro: map_idI)
    then have "working c1 = committed c1" using at by (simp add: c1_def)
    then have "at_read env j b c1" using at by (simp add: at_read_def)
    then show ?thesis using Nil lawful_refused refused by simp
  next
    case (Cons t ts)
    then have G by (auto simp: wanted_def filter_eq_Cons_iff)
    then have w: "wanted = (\<lambda>t. t_id t = task_id \<and> t_status t = s)" by (simp add: wanted_def)
    from one Cons have len: "length (filter wanted (tasks (working c))) = 1" by simp
    have "wrote env b task_id s change c1"
      unfolding wrote_def using at len
      by (intro conjI exI [of _ j] exI [of _ "[]"]) (auto simp: c1_def w)
    then show ?thesis using len go by simp
  qed
  then show ?thesis unfolding wanted_def c1_def by (simp add: case_prod_unfold Let_def split: if_splits)
qed

lemma lawful_done:
  assumes w: "wrote env b task_id s change c" and a: "allowed s"
    and ch: "\<And>t. t_id (change t) = t_id t \<and> t_status (change t) = target" and out: "changed_reply (Inr out)"
    and e: "committed c1 = committed c" "e_task e = task_id"
      "working c1 = (working c)\<lparr>events := events (working c) @ [e], comments := comments (working c) @ ms\<rparr>" "\<forall>m \<in> set ms. c_task m = task_id"
  shows "lawful env task_id allowed target b (Inr out, c1)"
proof -
  from w obtain k ns where "k \<le> 3" "committed c = seen_after env k b" "\<forall>m \<in> set ns. c_task m = task_id"
    "length (filter (\<lambda>t. t_id t = task_id \<and> t_status t = s) (tasks (committed c))) = 1"
    "working c = (committed c)\<lparr>tasks := map (\<lambda>t. if t_id t = task_id \<and> t_status t = s then change t else t) (tasks (committed c)),
        comments := comments (committed c) @ ns\<rparr>" unfolding wrote_def by blast
  then have "moved task_id s change e (committed c1) (working c1)"
    using e unfolding moved_def by (auto intro!: exI [of _ "ns @ ms"])
  then show ?thesis
    using a ch out \<open>k \<le> 3\<close> \<open>committed c = seen_after env k b\<close> e(1) unfolding lawful_def moves_def by auto
qed

lemma lawful_update_status:
  assumes "keyed env b" and "at_read env j b c" and "\<not> changed_reply no"
    and "\<And>c1. wrote env b task_id s change c1 \<Longrightarrow> lawful env task_id allowed target b (k c1)"
  shows "lawful env task_id allowed target b
    (let (rowcount, c1) = update_tasks (\<lambda>t. t_id t = task_id \<and> t_status t = s) change c in
     if rowcount \<noteq> 1 then (no, c1) else k c1)"
  using lawful_update [where G = True and j = j and c = c and no = no and k = k, OF assms] by (simp only: simp_thms)

section \<open>The transitions\<close>

lemma release_keeps [simp]: "t_id (release_task t) = t_id t"
  by (simp add: release_task_def)

lemma changed_true [simp]: "changed_reply (Inr ((''task_id'', v) # (''status'', w) # (''changed'', JBool True) # rest))"
  by (simp add: changed_reply_def)

lemma append_event_simps [simp]: "committed (append_sync_event env task_id p kind c) = committed c"
  "working (append_sync_event env task_id p kind c) = (working c)\<lparr>events := events (working c) @
     [\<lparr>e_task = task_id, e_run = None, e_kind = kind, e_payload = JsonText (JObj p), e_at = db_now env\<rparr>]\<rparr>"
  by (simp_all add: append_sync_event_def)

lemma lawful_event:
  assumes "wrote env b task_id s change c" and "allowed s"
    and "\<And>t. t_id (change t) = t_id t \<and> t_status (change t) = target" and "changed_reply (Inr out)"
  shows "lawful env task_id allowed target b (Inr out, append_sync_event env task_id p kind c)"
  by (rule lawful_done [OF assms(1), where ms = "[]" and target = target
      and e = "\<lparr>e_task = task_id, e_run = None, e_kind = kind, e_payload = JsonText (JObj p), e_at = db_now env\<rparr>"])
    (use assms in simp_all)

lemma lawful_event_comment:
  assumes "wrote env b task_id s change c" and "allowed s"
    and "\<And>t. t_id (change t) = t_id t \<and> t_status (change t) = target" and "changed_reply (Inr out)" and "c_task m = task_id"
  shows "lawful env task_id allowed target b (Inr out, insert_comment m (append_sync_event env task_id p kind c))"
  by (rule lawful_done [OF assms(1), where ms = "[m]" and target = target
      and e = "\<lparr>e_task = task_id, e_run = None, e_kind = kind, e_payload = JsonText (JObj p), e_at = db_now env\<rparr>"])
    (use assms in simp_all)

lemma wrote_comment:
  assumes "wrote env b task_id s change c" and "c_task m = task_id"
  shows "wrote env b task_id s change (insert_comment m c)"
proof -
  from assms(1) obtain ns where n: "\<forall>m \<in> set ns. c_task m = task_id" and "working c = (committed c)
     \<lparr>tasks := map (\<lambda>t. if t_id t = task_id \<and> t_status t = s then change t else t) (tasks (committed c)),
      comments := comments (committed c) @ ns\<rparr>" unfolding wrote_def by blast
  then have "working (insert_comment m c) = (committed c)
     \<lparr>tasks := map (\<lambda>t. if t_id t = task_id \<and> t_status t = s then change t else t) (tasks (committed c)),
      comments := comments (committed c) @ (ns @ [m])\<rparr>" by simp
  moreover have "\<forall>x \<in> set (ns @ [m]). c_task x = task_id" using n assms(2) by simp
  ultimately show ?thesis using assms(1) unfolding wrote_def insert_simps by blast
qed

definition resume_source :: "string \<Rightarrow> bool" where
  "resume_source s \<longleftrightarrow> s = ''blocked''"

definition rework_source :: "string \<Rightarrow> bool" where
  "rework_source s \<longleftrightarrow> s \<in> {''review'', ''blocked'', ''done''}"

definition supersede_source :: "string \<Rightarrow> bool" where
  "supersede_source s \<longleftrightarrow> s \<in> {''review'', ''blocked''}"

lemma write_resume_lawful:
  assumes "keyed env b" and "at_read env 1 b c"
  shows "lawful env task_id resume_source ''ready'' b (write_resume env task_id m ref body c)"
  unfolding write_resume_def
  by (rule lawful_sql [OF assms(2)], simp, simp, rule lawful_update_status [OF assms(1)], assumption, simp,
      rule lawful_locked, assumption, rule lawful_event, assumption) (simp_all add: resume_source_def resumed_def)

lemma write_supersede_lawful:
  assumes "keyed env b" and "at_read env 1 b c" and "supersede_source s"
  shows "lawful env task_id supersede_source ''ready'' b (write_supersede env task_id ref signal pr s c)"
  unfolding write_supersede_def
  by (rule lawful_sql [OF assms(2)], simp, simp, rule lawful_update_status [OF assms(1)], assumption, simp,
      rule lawful_locked, assumption, rule lawful_event, assumption) (simp_all add: assms(3) abandoned_def)

lemma write_rework_lawful:
  assumes "keyed env b" and "at_read env 1 b c" and "rework_source (t_status row)"
  shows "lawful env task_id rework_source ''ready'' b (write_rework env task_id w ref retry row body c)"
  unfolding write_rework_def
  by (rule lawful_sql [OF assms(2)], simp, simp, rule lawful_update_status [OF assms(1)], assumption, simp,
      rule lawful_locked, assumption, subst Let_def, rule lawful_locked, assumption, rule lawful_locked, assumption,
      rule lawful_event_comment, assumption) (simp_all add: assms(3) reworked_def)

lemma resume_lawful: "keyed env (working c) \<Longrightarrow>
  lawful env task_id resume_source ''ready'' (working c) (apply_blocked_resume env task_id m ref c)"
  unfolding apply_blocked_resume_def
  by (rule lawful_first) (auto intro: lawful_refused write_resume_lawful split: option.splits sum.splits)

lemma supersede_lawful: "keyed env (working c) \<Longrightarrow>
  lawful env task_id supersede_source ''ready'' (working c) (apply_supersede env task_id ref signal pr c)"
  unfolding apply_supersede_def
  by (rule lawful_first) (auto intro: lawful_refused write_supersede_lawful simp: supersede_source_def split: option.splits sum.splits)

lemma rework_lawful: "keyed env (working c) \<Longrightarrow>
  lawful env task_id rework_source ''ready'' (working c) (apply_rework env task_id w ref retry c)"
  unfolding apply_rework_def
  by (rule lawful_first) (auto intro: lawful_refused write_rework_lawful simp: rework_source_def split: option.splits sum.splits)

text \<open>A completion decision leaves the states it preserves, but for a blocked card where that is allowed.\<close>

definition decision_source :: "decision \<Rightarrow> bool \<Rightarrow> string \<Rightarrow> bool" where
  "decision_source d allow s \<longleftrightarrow> authoritative d \<and> d_status d \<noteq> Some s \<and>
     (s \<in> set PRESERVED_STATES \<longrightarrow> allow \<and> s = ''blocked'')"

definition desired_of :: "decision \<Rightarrow> string" where
  "desired_of d = (case d_status d of Some s \<Rightarrow> s | None \<Rightarrow> [])"

lemma write_decision_lawful:
  assumes key: "keyed env b" and r: "at_read env 2 b c" and s: "decision_source d allow s"
    and ch: "\<And>t. t_id (change t) = t_id t \<and> t_status (change t) = target"
  shows "lawful env task_id (decision_source d allow) target b (write_decision env task_id d recovery s target pending change c)"
proof -
  have event: "lawful env task_id (decision_source d allow) target b (finish_decision env task_id d recovery s target c1)"
    if w: "wrote env b task_id s change c1" for c1
    unfolding finish_decision_def by (rule lawful_locked [OF w], rule lawful_event [OF w]) (simp_all add: s ch)
  have parked: "lawful env task_id (decision_source d allow) target b
      (append_parking_comment_if_absent env task_id text (finish_decision env task_id d recovery s target) c1)"
    if w: "wrote env b task_id s change c1" for c1 "text"
    unfolding append_parking_comment_if_absent_def
    using event [OF w] event [OF wrote_comment [OF w]]
    by (intro lawful_locked [OF w]) (auto intro: lawful_locked [OF w])
  have finish: "lawful env task_id (decision_source d allow) target b
      ((case (if target = ''review'' then parking_comment_for_decision d else None) of
         Some text \<Rightarrow> append_parking_comment_if_absent env task_id text (finish_decision env task_id d recovery s target)
       | None \<Rightarrow> finish_decision env task_id d recovery s target) c1)" if "wrote env b task_id s change c1" for c1
    using event [OF that] parked [OF that] by (auto split: option.splits)
  show ?thesis
    unfolding write_decision_def
    by (rule lawful_sql [OF r], simp, simp, rule lawful_update [OF key], assumption, simp, erule finish)
qed

lemma gate_lawful:
  assumes r: "at_read env 1 b c"
    and go: "\<And>g c1. at_read env 2 b c1 \<Longrightarrow> lawful env task_id allowed target b (k g c1)"
  shows "lawful env task_id allowed target b (dependency_gate_evidence env 2 task_id k c)"
proof -
  have "at_read env 2 b (seen env 2 c)" using r by (simp add: at_read_def numeral_2_eq_2)
  then show ?thesis
    using go lawful_refused
    by (auto simp: dependency_gate_evidence_def sql_def split: option.splits sum.splits exn.splits)
qed

lemma gated_lawful:
  assumes "keyed env b" and "at_read env 2 b c" and "decision_source d allow (t_status row)" and "d_status d = Some desired"
    and "desired \<in> {''review'', ''done''}"
  shows "lawful env task_id (decision_source d allow) desired b (gated_decision env task_id d context recovery row desired gate c)"
  using assms write_decision_lawful [OF assms(1-3)] lawful_refused [OF assms(2)]
  by (auto simp: gated_decision_def reviewed_def completed_at_def split: sum.splits option.splits)

lemma decision_lawful: "keyed env (working c) \<Longrightarrow>
  lawful env task_id (decision_source d allow) (desired_of d) (working c) (apply_decision env task_id d context allow recovery c)"
  unfolding apply_decision_def
proof (rule lawful_first, goal_cases)
  case (1 c1)
  have gated: "lawful env task_id (decision_source d allow) desired (working c)
      (dependency_gate_evidence env 2 task_id (gated_decision env task_id d context recovery row desired) c1)"
    if "decision_source d allow (t_status row)" "d_status d = Some desired" "desired \<in> {''review'', ''done''}" for row desired
    using 1 that by (intro gate_lawful gated_lawful)
  show ?case using 1 gated lawful_refused [OF 1(2)]
    by (auto simp: Let_def decision_source_def desired_of_def split: option.splits)
qed

interpretation dec: transition "\<lambda>env. apply_decision env task_id d context allow recovery" task_id "decision_source d allow" "desired_of d"
  for task_id d "context" allow recovery
  by unfold_locales (rule decision_lawful)

interpretation rew: transition "\<lambda>env. apply_rework env task_id w ref retry" task_id rework_source "''ready''"
  for task_id w ref retry
  by unfold_locales (rule rework_lawful)

interpretation res: transition "\<lambda>env. apply_blocked_resume env task_id m ref" task_id resume_source "''ready''"
  for task_id m ref
  by unfold_locales (rule resume_lawful)

interpretation spr: transition "\<lambda>env. apply_supersede env task_id ref signal pr" task_id supersede_source "''ready''"
  for task_id ref signal pr
  by unfold_locales (rule supersede_lawful)

section \<open>All or nothing\<close>

datatype request =
    Decide decision "string option" bool "rework option"
  | Rework rework task_ref "int option"
  | Resume resume task_ref
  | Supersede task_ref supersede_signal pull

fun transact :: "request \<Rightarrow> db_env \<Rightarrow> string \<Rightarrow> db \<Rightarrow> dict db_result" where
  "transact (Decide d block allow recovery) env task_id = apply_decision env task_id d block allow recovery"
| "transact (Rework w ref retry) env task_id = apply_rework env task_id w ref retry"
| "transact (Resume m ref) env task_id = apply_blocked_resume env task_id m ref"
| "transact (Supersede ref signal pr) env task_id = apply_supersede env task_id ref signal pr"

fun source_status :: "request \<Rightarrow> string \<Rightarrow> bool" where
  "source_status (Decide d block allow recovery) = decision_source d allow"
| "source_status (Rework w ref retry) = rework_source"
| "source_status (Resume m ref) = resume_source"
| "source_status (Supersede ref signal pr) = supersede_source"

fun target_status :: "request \<Rightarrow> string" where
  "target_status (Decide d block allow recovery) = desired_of d"
| "target_status _ = ''ready''"

text \<open>C7: a transition is all or nothing. Whatever other processes commit between its statements and
  whichever statement or commit fails, a transaction that moves a card leaves behind exactly the board that
  others made, or that board with this one card moved from a status the request allows and one event, and it
  answers "changed" in the second case only.\<close>

theorem transitions_atomic:
  assumes "keyed env (working c)"
  shows "all_or_nothing env task_id (source_status q) (target_status q) (working c) (with_conn env (transact q env task_id c))"
  using dec.atomic [OF assms] rew.atomic [OF assms] res.atomic [OF assms] spr.atomic [OF assms] by (cases q) simp_all

section \<open>The guard in the write\<close>

lemma finish_tasks: "finish_decision env task_id d recovery s target c = (Inr out, c') \<Longrightarrow>
  committed c' = committed c \<and> tasks (working c') = tasks (working c)"
  by (auto simp: finish_decision_def sql_locked_def split: option.splits)

lemma parking_tasks: "append_parking_comment_if_absent env task_id text (finish_decision env task_id d recovery s target) c = (Inr out, c') \<Longrightarrow>
  committed c' = committed c \<and> tasks (working c') = tasks (working c)"
  by (auto simp: append_parking_comment_if_absent_def sql_locked_def dest!: finish_tasks split: option.splits if_splits)

lemma write_decision_guard:
  assumes "write_decision env task_id d recovery s target pending change c = (Inr out, c')" and "changed_reply (Inr out)"
  shows "dependency_guard task_id (others env 3 (working c)) \<and> committed c' = others env 3 (working c) \<and>
    tasks (working c') = map (\<lambda>t. if t_id t = task_id \<and> t_status t = s then change t else t) (tasks (others env 3 (working c)))"
proof -
  define b where "b = others env 3 (working c)"
  define wanted where "wanted = (\<lambda>t :: task. t_id t = task_id \<and> t_status t = s \<and> dependency_guard task_id b)"
  define c1 where "c1 = snd (update_tasks wanted change (seen env 3 c))"
  from assms have len: "length (filter wanted (tasks b)) = 1" and
    k: "(case (if target = ''review'' then parking_comment_for_decision d else None) of
           Some text \<Rightarrow> append_parking_comment_if_absent env task_id text (finish_decision env task_id d recovery s target)
         | None \<Rightarrow> finish_decision env task_id d recovery s target) c1 = (Inr out, c')"
    unfolding write_decision_def sql_def c1_def wanted_def b_def
    by (auto simp: case_prod_unfold Let_def split: option.splits if_splits)
  from len have g: "dependency_guard task_id b" by (auto simp: wanted_def length_Suc_conv filter_eq_Cons_iff)
  have "committed c' = committed c1 \<and> tasks (working c') = tasks (working c1)"
    using k by (auto split: option.splits dest: finish_tasks parking_tasks)
  then show ?thesis using g by (simp add: c1_def wanted_def b_def)
qed

text \<open>Every parent of a card exists and is finished.\<close>

definition parents_settled :: "string \<Rightarrow> board \<Rightarrow> bool" where
  "parents_settled task_id b \<longleftrightarrow> (\<forall>l \<in> set (task_links b). snd l = task_id \<longrightarrow>
     (\<exists>t \<in> set (tasks b). t_id t = fst l \<and> t_status t \<in> {''done'', ''archived''}))"

lemma guard_settled: "dependency_guard task_id b \<longleftrightarrow> parents_settled task_id b"
  by (auto simp: dependency_guard_def parents_settled_def DEPENDENCY_TERMINAL_STATES_def filter_empty_conv list_ex_iff)

definition decided_change :: "db_env \<Rightarrow> string \<Rightarrow> (task \<Rightarrow> task) \<Rightarrow> bool" where
  "decided_change env desired change \<longleftrightarrow>
     (if desired = ''review'' then \<exists>body. change = reviewed (Some body) else change = completed_at (db_now env))"

lemma gated_writes:
  assumes g: "gated_decision env task_id d context recovery row desired gate c = (Inr out, c')" and ch: "changed_reply (Inr out)"
  shows "\<exists>pending change. decided_change env desired change \<and>
    write_decision env task_id d recovery (t_status row) desired pending change c = (Inr out, c')"
proof (cases gate)
  case (Inl m)
  with g ch show ?thesis by (auto simp: gated_decision_def)
next
  case (Inr pending)
  show ?thesis
  proof (cases "desired = ''review''")
    case True
    with g Inr obtain body where "write_decision env task_id d recovery (t_status row) desired pending (reviewed (Some body)) c = (Inr out, c')"
      by (auto simp: gated_decision_def split: option.splits sum.splits)
    then show ?thesis using True by (auto simp: decided_change_def)
  qed (use g Inr in \<open>auto simp: gated_decision_def decided_change_def\<close>)
qed

lemma decision_changes:
  assumes a: "apply_decision env task_id d context allow recovery c = (Inr out, c')" and ch: "changed_reply (Inr out)"
  shows "\<exists>row desired change b. b = seen_after env 3 (working c) \<and> task_row task_id (seen_after env 1 (working c)) = Some row \<and>
    is_github_backed_body (body_text row) \<and> d_status d = Some desired \<and> desired \<in> {''review'', ''done''} \<and>
    decision_source d allow (t_status row) \<and> parents_settled task_id b \<and> decided_change env desired change \<and>
    tasks (working c') = map (\<lambda>t. if t_id t = task_id \<and> t_status t = t_status row then change t else t) (tasks b)"
proof -
  define c1 where "c1 = seen env 1 c"
  from a ch obtain row desired where row: "task_row task_id (working c1) = Some row" "is_github_backed_body (body_text row)"
    "authoritative d" "d_status d = Some desired" "desired \<in> {''review'', ''done''}" "t_status row \<noteq> desired"
    "t_status row \<in> set PRESERVED_STATES \<longrightarrow> allow \<and> t_status row = ''blocked''"
    and g: "dependency_gate_evidence env 2 task_id (gated_decision env task_id d context recovery row desired) c1 = (Inr out, c')"
    unfolding apply_decision_def sql_def c1_def [symmetric] Let_def
    by (auto split: option.splits if_splits)
  from g obtain gate where "gated_decision env task_id d context recovery row desired gate (seen env 2 c1) = (Inr out, c')"
    by (auto simp: dependency_gate_evidence_def sql_def split: option.splits sum.splits exn.splits)
  from gated_writes [OF this ch] obtain pending change where w: "decided_change env desired change"
    "write_decision env task_id d recovery (t_status row) desired pending change (seen env 2 c1) = (Inr out, c')" by blast
  have b: "others env 3 (working (seen env 2 c1)) = seen_after env 3 (working c)"
    by (simp add: c1_def numeral_3_eq_3 numeral_2_eq_2)
  have "task_row task_id (seen_after env 1 (working c)) = Some row" using row(1) by (simp add: c1_def)
  moreover have "decision_source d allow (t_status row)" using row by (auto simp: decision_source_def)
  ultimately show ?thesis
    using row(2,4,5) w(1) write_decision_guard [OF w(2) ch, unfolded b guard_settled] by blast
qed

text \<open>C26: the parents are checked in the write itself. Whatever others did since the decision was made, a
  card is moved to review or done only if it is a GitHub card, the decision is authoritative, the
  status it had when it was read is one that a decision may leave, and, on the board the write ran on, every
  parent exists and is done or archived; the write touches only the card, and only if it still has that status.\<close>

theorem decision_rechecks_parents:
  assumes "with_conn env (apply_decision env task_id d context allow recovery c) = (Inr out, c')" and "changed_reply (Inr out)"
  shows "\<exists>row desired change b. b = seen_after env 3 (working c) \<and> task_row task_id (seen_after env 1 (working c)) = Some row \<and>
    is_github_backed_body (body_text row) \<and> d_status d = Some desired \<and> desired \<in> {''review'', ''done''} \<and>
    decision_source d allow (t_status row) \<and> parents_settled task_id b \<and> decided_change env desired change \<and>
    tasks (committed c') = map (\<lambda>t. if t_id t = task_id \<and> t_status t = t_status row then change t else t) (tasks b)"
proof -
  from assms(1) obtain c0 where "apply_decision env task_id d context allow recovery c = (Inr out, c0)" "committed c' = working c0"
    by (auto simp: with_conn_def split: prod.splits sum.splits option.splits)
  with decision_changes [OF this(1) assms(2)] show ?thesis by simp
qed

section \<open>Examples\<close>

definition sample_task :: "string \<Rightarrow> string \<Rightarrow> task" where
  "sample_task name status = \<lparr>t_id = name, t_status = status,
     t_body = Some (unlines [''- source: github-issue'', ''- repository: octo/app'', ''- issue number: 42'', PROVENANCE_END]),
     t_assignee = None, t_completed_at = None, t_claim_lock = Some ''lock'', t_claim_expires = Some 9, t_worker_pid = None,
     t_block_kind = None, t_block_recurrences = 0, t_heartbeat = None, t_current_run = None\<rparr>"

definition sample_board :: "string \<Rightarrow> board" where
  "sample_board status = \<lparr>tasks = [sample_task ''p1'' ''done'', sample_task ''t1'' status], task_links = [(''p1'', ''t1'')],
     events = [], task_runs = [], comments = []\<rparr>"

definition fresh_db :: "board \<Rightarrow> db" where
  "fresh_db b = \<lparr>committed = b, working = b\<rparr>"

text \<open>Nobody else writes, nothing fails.\<close>

definition quiet :: db_env where
  "quiet = \<lparr>db_now = 100, others = (\<lambda>_ b. b), sql_error = (\<lambda>_. None)\<rparr>"

definition done_decision :: decision where
  "done_decision = \<lparr>d_status = Some ''done'', d_reason = ''all_linked_prs_merged'', d_linked = [7], d_pulls = [], d_error = None\<rparr>"

lemma quiet_seen [simp]: "seen_after quiet k b = b"
  by (induction k) (simp_all add: quiet_def)

lemma quiet_others [simp]: "others quiet k b = b"
  by (simp add: quiet_def)

lemma sample_keyed: "keyed quiet (working (fresh_db (sample_board status)))"
  by (simp add: keyed_def fresh_db_def sample_board_def sample_task_def)

lemma sample_done: "changed_reply (fst (with_conn quiet (apply_decision quiet ''t1'' done_decision None False None (fresh_db (sample_board ''review'')))))"
  by code_simp

theorem transitions_atomic_witness:
  "moves ''t1'' (decision_source done_decision False) ''done'' (sample_board ''review'')
     (committed (snd (with_conn quiet (transact (Decide done_decision None False None) quiet ''t1'' (fresh_db (sample_board ''review''))))))"
proof -
  obtain r c' where x: "with_conn quiet (transact (Decide done_decision None False None) quiet ''t1'' (fresh_db (sample_board ''review''))) = (r, c')"
    by fastforce
  then have "changed_reply r" using sample_done by simp
  moreover have "desired_of done_decision = ''done''" by (simp add: desired_of_def done_decision_def)
  ultimately show ?thesis
    using transitions_atomic [OF sample_keyed [of "''review''"], of "''t1''" "Decide done_decision None False None"] x
    by (simp add: all_or_nothing_def fresh_db_def)
qed

theorem decision_rechecks_parents_witness:
  "parents_settled ''t1'' (sample_board ''review'') \<and> map t_status (tasks (committed (snd (with_conn quiet
     (apply_decision quiet ''t1'' done_decision None False None (fresh_db (sample_board ''review''))))))) = [''done'', ''done'']"
proof -
  obtain r c' where x: "with_conn quiet (apply_decision quiet ''t1'' done_decision None False None (fresh_db (sample_board ''review''))) = (r, c')"
    by fastforce
  then have ch: "changed_reply r" using sample_done by simp
  then obtain out where r: "r = Inr out" by (cases r) simp_all
  have row: "task_row ''t1'' (sample_board ''review'') = Some (sample_task ''t1'' ''review'')"
    by (simp add: task_row_def sample_board_def sample_task_def)
  have w: "working (fresh_db b) = b" for b by (simp add: fresh_db_def)
  from decision_rechecks_parents [OF x [unfolded r] ch [unfolded r], unfolded w quiet_seen row]
  obtain change where settled: "parents_settled ''t1'' (sample_board ''review'')" and "decided_change quiet ''done'' change"
    and "tasks (committed c') = map (\<lambda>t. if t_id t = ''t1'' \<and> t_status t = t_status (sample_task ''t1'' ''review'') then change t else t)
      (tasks (sample_board ''review''))"
    by (auto simp: done_decision_def)
  then have "map t_status (tasks (committed c')) = [''done'', ''done'']"
    by (simp add: sample_board_def sample_task_def decided_change_def completed_at_def)
  with settled x show ?thesis by simp
qed

end
