(* ===== verification/ReworkGuarantees.thy ===== *)
theory ReworkGuarantees
  imports TransitionGuarantees CompletionGuarantees
begin

text \<open>
  Requests of a maintainer: a rework round is opened only by the newest label event of a trusted
  actor on the only labelled pull request, each label event opens at most one round, and each response
  to a blocked card resumes it at most once.
\<close>

section \<open>The newest label event\<close>

lemma max_by_max: "xs \<noteq> [] \<Longrightarrow> max_by f xs \<in> set xs \<and> (\<forall>x \<in> set xs. f x \<le> f (max_by f xs))"
proof -
  have fold: "foldl (\<lambda>best x. if f best < f x then x else best) y ys \<in> insert y (set ys) \<and>
      (\<forall>x \<in> insert y (set ys). f x \<le> f (foldl (\<lambda>best x. if f best < f x then x else best) y ys))" for y ys
    by (induction ys arbitrary: y) fastforce+
  assume "xs \<noteq> []"
  with fold [of "hd xs" "tl xs"] show ?thesis by (cases xs) (simp_all add: max_by_def)
qed

text \<open>The newest event by time, then by id, when no event of that time lacks its id.\<close>

definition newest_label :: "label_event list \<Rightarrow> label_event \<Rightarrow> bool" where
  "newest_label es e \<longleftrightarrow> e \<in> set es \<and> (\<forall>x \<in> set es. fst x < fst e \<or>
     fst x = fst e \<and> snd (snd x) \<noteq> None \<and> event_number x \<le> event_number e)"

lemma latest_is_newest:
  assumes "latest_labeled_event es = Some e" and "snd (snd e) \<noteq> None"
  shows "newest_label es e"
proof -
  define newest where "newest = filter (\<lambda>x. fst x = fst (max_by fst es)) es"
  have ne: "es \<noteq> []" using assms by (auto simp: latest_labeled_event_def)
  note m = max_by_max [OF ne, of fst]
  then have nn: "newest \<noteq> []" by (auto simp: newest_def filter_empty_conv)
  have f: "find (\<lambda>x. snd (snd x) = None) newest = None"
  proof (rule ccontr)
    assume "find (\<lambda>x. snd (snd x) = None) newest \<noteq> None"
    then obtain x where x: "find (\<lambda>x. snd (snd x) = None) newest = Some x" by blast
    then have "latest_labeled_event es = Some x" using ne by (simp add: latest_labeled_event_def newest_def Let_def)
    with x assms show False by (auto simp: find_Some_iff)
  qed
  then have e: "e = max_by event_number newest" using assms ne by (simp add: latest_labeled_event_def newest_def Let_def)
  note k = max_by_max [OF nn, of event_number, folded e]
  have at: "e \<in> set es" "fst e = fst (max_by fst es)" using k by (auto simp: newest_def)
  moreover have "fst x < fst e \<or> fst x = fst e \<and> snd (snd x) \<noteq> None \<and> event_number x \<le> event_number e" if x: "x \<in> set es" for x
  proof (cases "fst x = fst e")
    case True
    then have "x \<in> set newest" using x at by (simp add: newest_def)
    with k f True show ?thesis by (cases x; cases "snd (snd x)") (auto simp: find_None_iff)
  qed (use m x at in force)
  ultimately show ?thesis by (auto simp: newest_label_def)
qed

section \<open>What opens a round\<close>

lemma collect_pr_context_extends: "extends calls (snd (collect_pr_context n ref pr calls))"
  unfolding collect_pr_context_def get_paginated_def
  by (intro and_then_extends edge_pages_extends) simp

lemma collect_contexts_extends: "extends calls (snd (collect_contexts n ref prs calls))"
proof (induction prs arbitrary: calls)
  case (Cons pr prs)
  show ?case unfolding collect_contexts.simps
    by (rule and_then_extends [OF collect_pr_context_extends], rule and_then_extends [OF Cons.IH]) simp
qed simp

lemma build_context_extends: "extends calls (snd (build_context_block n ref prs rework_pr projection history calls))"
  unfolding build_context_block_def by (rule and_then_extends [OF collect_contexts_extends]) simp

text \<open>The Issue as it was read in the run: open, and marked as ready for an agent.\<close>

definition issue_ready :: "edge_net \<Rightarrow> task_ref \<Rightarrow> edge_call list \<Rightarrow> bool" where
  "issue_ready n ref calls \<longleftrightarrow> (\<exists>issue labels. got n calls (issue_path ref (r_issue ref)) (JObj issue) \<and>
     casefold (py_str (dget_or issue ''state'' (JStr []))) = ''open'' \<and> payload_labels issue = Inr labels \<and>
     AGENT_READY_LABEL \<in> set labels)"

lemma label_request_simps [simp]: "w_reason (label_request reason pr e) = reason" "w_pr (label_request reason pr e) = Some (pr_number pr)"
  "w_head_sha (label_request reason pr e) = pr_head_sha pr" "w_label_at (label_request reason pr e) = Some (fst e)"
  "w_actor (label_request reason pr e) = fst (snd e)" "w_label_event (label_request reason pr e) = snd (snd e)"
  "w_reason (without_identity reason pr) = reason" "w_reason (rework_result reason) = reason"
  by (simp_all add: label_request_def without_identity_def rework_result_def)

lemma authorise_rework_ready:
  assumes "authorise_rework n ref d pr e calls = (Inr (Some w), calls')" and "w_reason w = ''agent_rework''"
  shows "issue_ready n ref calls' \<and> w_pr w = Some (pr_number pr) \<and> w_head_sha w = pr_head_sha pr \<and>
    w_label_at w = Some (fst e) \<and> w_actor w = fst (snd e) \<and> w_label_event w = snd (snd e)"
proof -
  from assms(1) obtain payload headers c where g: "edge_get n (issue_path ref (r_issue ref)) [] calls = (Inr (payload, headers), c)"
    and k: "(case payload of
         JObj issue \<Rightarrow> (case payload_labels issue of Inl x \<Rightarrow> (Inl x, c) | Inr labels \<Rightarrow>
           if casefold (py_str (dget_or issue ''state'' (JStr []))) \<noteq> ''open'' \<or> AGENT_READY_LABEL \<notin> set labels
           then (Inr (Some (label_request ''issue_not_agent_ready'' pr e)), c)
           else and_then (build_context_block n ref (d_pulls d) (Some (pr_number pr)) None [] c) (\<lambda>block calls.
             (Inr (Some ((label_request ''agent_rework'' pr e)\<lparr>w_context := block\<rparr>)), calls)))
       | _ \<Rightarrow> (completion_error (''GitHub returned an invalid issue response for #'' @ int_str (r_issue ref)), c)) = (Inr (Some w), calls')"
    unfolding authorise_rework_def by (auto dest!: and_then_result)
  from k assms(2) obtain issue labels block where i: "payload = JObj issue" "payload_labels issue = Inr labels"
    "casefold (py_str (dget_or issue ''state'' (JStr []))) = ''open''" "AGENT_READY_LABEL \<in> set labels"
    and b: "build_context_block n ref (d_pulls d) (Some (pr_number pr)) None [] c = (Inr block, calls')"
    and w: "w = (label_request ''agent_rework'' pr e)\<lparr>w_context := block\<rparr>"
    by (auto simp: completion_error_def dest!: and_then_result split: json.splits sum.splits if_splits)
  have "extends c calls'" using build_context_extends [of c n ref "d_pulls d" "Some (pr_number pr)" None "[]"] b by simp
  with edge_get_got [OF g] have "got n calls' (issue_path ref (r_issue ref)) (JObj issue)" using got_extends i(1) by blast
  then have "issue_ready n ref calls'" using i(2-4) unfolding issue_ready_def by blast
  then show ?thesis using w by simp
qed

definition newer_than_round :: "int option \<times> int option \<times> int option \<Rightarrow> label_event \<Rightarrow> bool" where
  "newer_than_round baseline e \<longleftrightarrow> (case baseline of (Some last_at, label_at, label_id) \<Rightarrow>
     label_event_is_newer e last_at label_at label_id | (None, _, _) \<Rightarrow> True)"

lemma judge_label_authorised:
  assumes "judge_label n ref d baseline pr es calls = (Inr (Some w), calls')" and "w_reason w = ''agent_rework''"
  shows "\<exists>e. newest_label es e \<and> snd (snd e) \<noteq> None \<and> trusted_actor (w_actor w) \<and> newer_than_round baseline e \<and>
    issue_ready n ref calls' \<and> w_pr w = Some (pr_number pr) \<and> w_head_sha w = pr_head_sha pr \<and>
    w_label_at w = Some (fst e) \<and> w_actor w = fst (snd e) \<and> w_label_event w = snd (snd e)"
proof -
  obtain last_at label_at label_id where bl: "baseline = (last_at, label_at, label_id)" by (cases baseline)
  from assms obtain e where e: "latest_labeled_event es = Some e" "snd (snd e) \<noteq> None" "trusted_actor (fst (snd e))"
      "newer_than_round baseline e"
    and a: "authorise_rework n ref d pr e calls = (Inr (Some w), calls')"
    unfolding judge_label_def newer_than_round_def bl by (auto split: option.splits if_splits)
  from authorise_rework_ready [OF a assms(2)] e latest_is_newest [OF e(1,2)] show ?thesis by auto
qed

text \<open>C27: what opens a rework round. The edge authorises rework only on a card in review, ready or blocked, of
  which exactly one open pull request carries the label, on the newest event of that label, set by a trusted
  actor, identified, and newer than the round the database knows, while the Issue, read in the same run, is open
  and marked as ready.\<close>

theorem rework_authorised:
  assumes "evaluate_rework n ref d status baseline calls = (Inr (Some w), calls')" and "w_reason w = ''agent_rework''"
  shows "status \<in> {''review'', ''ready'', ''blocked''} \<and> (\<exists>pr es e c1 c2.
    labelled_pulls n ref (filter (\<lambda>pr. pr_state pr = ''open'') (d_pulls d)) calls = (Inr [pr], c1) \<and>
    labeled_events n ref (pr_number pr) c1 = (Inr es, c2) \<and> newest_label es e \<and> snd (snd e) \<noteq> None \<and>
    trusted_actor (w_actor w) \<and> newer_than_round baseline e \<and> issue_ready n ref calls' \<and>
    w_pr w = Some (pr_number pr) \<and> w_head_sha w = pr_head_sha pr \<and>
    w_label_at w = Some (fst e) \<and> w_actor w = fst (snd e) \<and> w_label_event w = snd (snd e))"
proof -
  from assms(1) have status: "status \<in> {''review'', ''ready'', ''blocked''}"
    by (auto simp: evaluate_rework_def Let_def split: if_splits)
  from assms(1) obtain prs c1 where l: "labelled_pulls n ref (filter (\<lambda>pr. pr_state pr = ''open'') (d_pulls d)) calls = (Inr prs, c1)"
    and k: "(case prs of [] \<Rightarrow> (Inr None, c1)
        | [pr] \<Rightarrow> and_then (labeled_events n ref (pr_number pr) c1) (judge_label n ref d baseline pr)
        | _ \<Rightarrow> (Inr (Some ((rework_result ''multiple_rework_prs'')\<lparr>w_label_present := True\<rparr>)), c1)) = (Inr (Some w), calls')"
    unfolding evaluate_rework_def Let_def by (auto dest!: and_then_result split: if_splits)
  from k assms(2) obtain pr where pr: "prs = [pr]"
    and "and_then (labeled_events n ref (pr_number pr) c1) (judge_label n ref d baseline pr) = (Inr (Some w), calls')"
    by (auto split: list.splits)
  then obtain es c2 where es: "labeled_events n ref (pr_number pr) c1 = (Inr es, c2)"
    and j: "judge_label n ref d baseline pr es c2 = (Inr (Some w), calls')" by (auto dest!: and_then_result)
  from judge_label_authorised [OF j assms(2)] status l pr es show ?thesis by blast
qed

section \<open>One round for each label event\<close>

lemma newest_event_foldl:
  "foldl (\<lambda>best e. if \<not> P e then best else (case best of None \<Rightarrow> Some e | Some x \<Rightarrow> if e_at x \<le> e_at e then Some e else best)) None es = best \<Longrightarrow>
   (case best of None \<Rightarrow> True | Some x \<Rightarrow> x \<in> set es \<and> P x)"
  by (induction es arbitrary: best rule: rev_induct) (auto split: option.splits if_splits)

lemma newest_event_last:
  assumes "events b = es @ e # rest" and "P e" and "\<forall>x \<in> set es. P x \<longrightarrow> e_at x \<le> e_at e" and "\<forall>x \<in> set rest. \<not> P x"
  shows "newest_event P b = Some e"
proof -
  define step where "step = (\<lambda>best e. if \<not> P e then best
     else (case best of None \<Rightarrow> Some e | Some x \<Rightarrow> if e_at x \<le> e_at e then Some e else best))"
  have "step (foldl step None es) e = Some e"
    using newest_event_foldl [of P es] assms(2,3) by (auto simp: step_def split: option.splits)
  moreover have "foldl step best rest = best" for best
    using assms(4) by (induction rest arbitrary: best) (auto simp: step_def)
  ultimately have "foldl step None (es @ e # rest) = Some e" by simp
  then show ?thesis unfolding newest_event_def assms(1) step_def .
qed

lemma rework_event:
  assumes "apply_rework env task_id w ref retry c = (Inr out, c1)" and "changed_reply (Inr out)"
  shows "\<exists>es s assignee r. events (working c1) = es @ [\<lparr>e_task = task_id, e_run = None, e_kind = ''github_pr_rework'',
    e_payload = JsonText (JObj (rework_payload ref w s assignee r retry)), e_at = db_now env\<rparr>]"
  using assms
  unfolding apply_rework_def write_rework_def sql_def sql_locked_def
  by (auto simp: case_prod_unfold Let_def split: option.splits sum.splits if_splits; blast)

lemma rework_payload_label:
  "dget_py (rework_payload ref w s assignee r retry) ''label_added_at'' = opt_int (w_label_at w)"
  "dget_py (rework_payload ref w s assignee r retry) ''label_event_id'' = opt_int (w_label_event w)"
  by (simp_all add: rework_payload_def dget_py_def dget_or_def)


section \<open>One resume for each response\<close>

lemma resume_event:
  assumes "apply_blocked_resume env task_id m ref c = (Inr out, c1)" and "changed_reply (Inr out)"
  shows "\<exists>es. events (working c1) = es @ [\<lparr>e_task = task_id, e_run = None, e_kind = ''github_blocked_resolved'',
    e_payload = JsonText (JObj (resume_payload task_id ref m)), e_at = db_now env\<rparr>]"
  using assms
  unfolding apply_blocked_resume_def write_resume_def sql_def sql_locked_def
  by (auto simp: case_prod_unfold Let_def split: option.splits sum.splits if_splits)

lemma newest_response_snoc: "newest_response (ds @ [d]) = (case newest_response ds of None \<Rightarrow> Some d
  | Some x \<Rightarrow> if text_of x ''created_at'' < text_of d ''created_at'' then Some d else Some x)"
  by (simp add: newest_response_def split: option.splits)

lemma newest_response_props:
  "case newest_response ds of None \<Rightarrow> ds = []
   | Some x \<Rightarrow> x \<in> set ds \<and> (\<forall>d \<in> set ds. text_of d ''created_at'' \<le> text_of x ''created_at'')"
proof (induction ds rule: rev_induct)
  case Nil
  show ?case by (simp add: newest_response_def)
next
  case (snoc d ds)
  show ?case
  proof (cases "newest_response ds")
    case None
    with snoc newest_response_snoc [of ds d] show ?thesis by simp
  next
    case (Some x)
    with snoc show ?thesis
      by (cases "text_of x ''created_at'' < text_of d ''created_at''")
        (auto simp: newest_response_snoc dest: less_imp_le order_trans)
  qed
qed

lemma map_res_mem: "map_res f xs = Inr ys \<Longrightarrow> y \<in> set ys \<Longrightarrow> \<exists>x \<in> set xs. f x = Inr y"
proof (induction xs arbitrary: ys)
  case (Cons x xs)
  then obtain y' ys' where "f x = Inr y'" "map_res f xs = Inr ys'" "ys = y' # ys'" by (auto split: sum.splits)
  with Cons show ?case by auto
qed simp

lemma somes_mem: "x \<in> set (somes xs) \<longleftrightarrow> Some x \<in> set xs"
  unfolding somes_def map_filter_def by force

text \<open>A comment that may answer the block: by a trusted actor, with a text, after the marker.\<close>

definition answers_block :: "json list \<Rightarrow> string \<Rightarrow> string \<Rightarrow> dict \<Rightarrow> bool" where
  "answers_block thread baseline author d \<longleftrightarrow> JObj d \<in> set thread \<and> login_of d ''user'' [] = Inr author \<and> trusted_actor author \<and>
     py_strip (text_of d ''body'') \<noteq> [] \<and> (baseline \<noteq> [] \<longrightarrow> baseline < text_of d ''created_at'')"

lemma comment_after_some: "comment_after baseline v = Inr (Some (author, d)) \<Longrightarrow> v = JObj d \<and> login_of d ''user'' [] = Inr author \<and>
  py_strip (text_of d ''body'') \<noteq> [] \<and> (baseline \<noteq> [] \<longrightarrow> baseline < text_of d ''created_at'')"
  by (auto simp: comment_after_def not_le split: json.splits sum.splits if_splits)

lemma trusted_response:
  assumes "trusted_response_after thread baseline = Inr (Some x)"
  shows "\<exists>author. answers_block thread baseline author x"
proof -
  from assms obtain found where f: "map_res (comment_after baseline) thread = Inr found"
    and n: "newest_response (map snd (filter (\<lambda>p. trusted_actor (fst p)) (somes found))) = Some x"
    by (auto simp: trusted_response_after_def split: sum.splits)
  from n newest_response_props [of "map snd (filter (\<lambda>p. trusted_actor (fst p)) (somes found))"]
  obtain author where "(author, x) \<in> set (somes found)" "trusted_actor author" by auto
  with map_res_mem [OF f, of "Some (author, x)"] comment_after_some show ?thesis
    unfolding answers_block_def by (fastforce simp: somes_mem)
qed

lemma resume_result_simps [simp]: "m_reason (resume_result reason) = reason"
  by (simp add: resume_result_def)

lemma resume_allowed:
  assumes "evaluate_blocked_resume ref d marker issue thread last_at = Inr m" and "m_reason m = ''agent_blocked_resolved''"
  shows "d_pulls d = [] \<and> (\<exists>mk labels x. marker = Some mk \<and> payload_labels issue = Inr labels \<and>
    casefold (py_str (dget_or issue ''state'' (JStr []))) = ''open'' \<and> AGENT_READY_LABEL \<in> set labels \<and> BLOCKED_LABEL \<notin> set labels \<and>
    answers_block thread (marker_baseline mk) (m_author m) x \<and> m_at m = text_of x ''created_at'' \<and>
    (last_at \<noteq> [] \<longrightarrow> m_at m \<noteq> last_at))"
proof -
  from assms obtain mk labels where l: "d_pulls d = []" "marker = Some mk" "payload_labels issue = Inr labels"
    "casefold (py_str (dget_or issue ''state'' (JStr []))) = ''open''" "AGENT_READY_LABEL \<in> set labels" "BLOCKED_LABEL \<notin> set labels"
    unfolding evaluate_blocked_resume_def by (auto split: if_splits option.splits sum.splits)
  with assms obtain x where x: "trusted_response_after thread (marker_baseline mk) = Inr (Some x)"
    unfolding evaluate_blocked_resume_def by (auto split: option.splits sum.splits)
  from trusted_response [OF x] obtain author where a: "answers_block thread (marker_baseline mk) author x" ..
  then have "login_of x ''user'' [] = Inr author" by (simp add: answers_block_def)
  with assms l x have "m_author m = author \<and> m_at m = text_of x ''created_at'' \<and> (last_at \<noteq> [] \<longrightarrow> m_at m \<noteq> last_at)"
    unfolding evaluate_blocked_resume_def by (auto simp: Let_def resume_result_def split: if_splits sum.splits)
  with l a show ?thesis by blast
qed

text \<open>a response resumes a blocked card once. Once a response resumed a card, the edge, until the next resume,
  resumes it only for another response: a comment with a text that a trusted actor made on the Issue after the
  marker of the block, while the Issue is open, ready and without the hold label and has no pull request.\<close>

theorem response_resumes_once:
  assumes applied: "apply_blocked_resume env task_id m ref c = (Inr out, c1)" "changed_reply (Inr out)" and at: "m_at m \<noteq> []"
    and clock: "\<forall>e \<in> set (events (working c1)). e_task e = task_id \<and> e_kind e = ''github_blocked_resolved'' \<longrightarrow> e_at e \<le> db_now env"
    and later: "events b = events (working c1) @ more_events"
      "\<forall>e \<in> set more_events. \<not> (e_task e = task_id \<and> e_kind e = ''github_blocked_resolved'')"
    and again: "last_resume_response_at task_id b = Inr last_at"
      "evaluate_blocked_resume ref' d marker issue thread last_at = Inr m'" "m_reason m' = ''agent_blocked_resolved''"
  shows "m_at m' \<noteq> m_at m \<and> d_pulls d = [] \<and> (\<exists>mk labels x. marker = Some mk \<and> payload_labels issue = Inr labels \<and>
    AGENT_READY_LABEL \<in> set labels \<and> BLOCKED_LABEL \<notin> set labels \<and>
    answers_block thread (marker_baseline mk) (m_author m') x \<and> m_at m' = text_of x ''created_at'')"
proof -
  from resume_event [OF applied] obtain es where es: "events (working c1) = es @ [\<lparr>e_task = task_id, e_run = None,
    e_kind = ''github_blocked_resolved'', e_payload = JsonText (JObj (resume_payload task_id ref m)), e_at = db_now env\<rparr>]" by blast
  have "newest_event (\<lambda>e. e_task e = task_id \<and> e_kind e = ''github_blocked_resolved'') b = Some \<lparr>e_task = task_id, e_run = None,
      e_kind = ''github_blocked_resolved'', e_payload = JsonText (JObj (resume_payload task_id ref m)), e_at = db_now env\<rparr>"
    using later clock by (intro newest_event_last [of b es _ more_events]) (auto simp: es)
  moreover have "text_of (resume_payload task_id ref m) ''response_at'' = m_at m"
    by (simp add: resume_payload_def text_of_def dget_py_def dget_or_def py_or_def py_str_def truthy_def at)
  ultimately have "last_at = m_at m" using again(1) by (simp add: last_resume_response_at_def)
  then have "last_at \<noteq> []" using at by simp
  from resume_allowed [OF again(2,3)] obtain mk labels x where "d_pulls d = []" "marker = Some mk" "payload_labels issue = Inr labels"
    "AGENT_READY_LABEL \<in> set labels" "BLOCKED_LABEL \<notin> set labels"
    "answers_block thread (marker_baseline mk) (m_author m') x" "m_at m' = text_of x ''created_at''" "m_at m' \<noteq> last_at"
    using \<open>last_at \<noteq> []\<close> by blast
  then show ?thesis using \<open>last_at = m_at m\<close> by blast
qed

section \<open>Examples\<close>

definition open_pull :: pull where
  "open_pull = \<lparr>pr_number = 7, pr_state = ''open'', pr_merged = False, pr_base = ''main'', pr_url = [], pr_title = [],
     pr_head_sha = ''abc'', pr_head_ref = ''fix'', pr_author = [], pr_body = [], pr_draft = False, pr_closing = Some [42]\<rparr>"

definition open_decision :: decision where
  "open_decision = \<lparr>d_status = Some ''review'', d_reason = ''linked_pr_open'', d_linked = [7], d_pulls = [open_pull], d_error = None\<rparr>"

definition label_item :: json where
  "label_item = JObj [(''event'', JStr ''labeled''), (''label'', JObj [(''name'', JStr ''agent-rework'')]),
     (''created_at'', JStr ''2026-01-01T00:00:00Z''), (''actor'', JObj [(''login'', JStr ''rhgo1749'')]), (''id'', JInt 11)]"

definition rework_net :: edge_net where
  "rework_net = \<lparr>reply_to = (\<lambda>_ c. case c of EdgeHttp method url payload \<Rightarrow>
       Answered 200 (if contains ''timeline'' url then ''t'' else if contains ''labels'' url then ''l''
         else if contains ''reviews'' url \<or> contains ''comments'' url then ''e'' else ''i'') []),
     read_json = (\<lambda>raw. Inr (if raw = ''t'' then JArr [label_item] else if raw = ''l'' then JArr [JObj [(''name'', JStr ''agent-rework'')]]
       else if raw = ''e'' then JArr []
       else JObj [(''state'', JStr ''open''), (''labels'', JArr [JObj [(''name'', JStr ''agent-ready'')]])])),
     local_time = (\<lambda>_. None)\<rparr>"

definition opens :: "rework option edge_result \<Rightarrow> bool" where
  "opens x \<longleftrightarrow> (case fst x of Inr (Some w) \<Rightarrow> w_reason w = ''agent_rework'' | _ \<Rightarrow> False)"

lemma opensE: "opens x \<Longrightarrow> \<exists>w calls. x = (Inr (Some w), calls) \<and> w_reason w = ''agent_rework''"
  by (cases x) (auto simp: opens_def split: sum.splits option.splits)

theorem rework_authorised_witness:
  "\<exists>w calls. evaluate_rework rework_net sample_ref open_decision ''review'' (None, None, None) [] = (Inr (Some w), calls) \<and>
     trusted_actor (w_actor w) \<and> issue_ready rework_net sample_ref calls \<and> w_pr w = Some 7"
proof -
  have "opens (evaluate_rework rework_net sample_ref open_decision ''review'' (None, None, None) [])" by code_simp
  then obtain w calls where e: "evaluate_rework rework_net sample_ref open_decision ''review'' (None, None, None) [] = (Inr (Some w), calls)"
    and r: "w_reason w = ''agent_rework''" using opensE by blast
  from rework_authorised [OF e r] obtain pr c1 where "labelled_pulls rework_net sample_ref
      (filter (\<lambda>pr. pr_state pr = ''open'') (d_pulls open_decision)) [] = (Inr [pr], c1)"
    and w: "trusted_actor (w_actor w)" "issue_ready rework_net sample_ref calls" "w_pr w = Some (pr_number pr)" by blast
  moreover have "map_sum (\<lambda>_. ()) (map pr_number) (fst (labelled_pulls rework_net sample_ref
      (filter (\<lambda>pr. pr_state pr = ''open'') (d_pulls open_decision)) [])) = Inr [7]" by code_simp
  ultimately have "pr_number pr = 7" by simp
  with e w show ?thesis by auto
qed

lemma changed_out: "changed_reply (fst x) \<Longrightarrow> \<exists>out. x = (Inr out, snd x) \<and> changed_reply (Inr out)"
proof (cases x)
  case (Pair r c)
  assume "changed_reply (fst x)"
  with Pair show ?thesis by (cases r) auto
qed

definition first_round :: rework where
  "first_round = (rework_result ''agent_rework'')\<lparr>w_label_at := Some 50, w_label_event := Some 3\<rparr>"

definition after_round :: "dict db_result" where
  "after_round = apply_rework quiet ''t1'' first_round sample_ref None (fresh_db (sample_board ''review''))"


definition first_resume :: resume where
  "first_resume = (resume_result ''agent_blocked_resolved'')\<lparr>m_author := ''rhgo1749'', m_at := ''2026-01-01T00:00:00Z''\<rparr>"

definition after_resume :: "dict db_result" where
  "after_resume = apply_blocked_resume quiet ''t1'' first_resume sample_ref (fresh_db (sample_board ''blocked''))"

definition resume_thread :: "string \<Rightarrow> json list" where
  "resume_thread at = [JObj [(''user'', JObj [(''login'', JStr ''rhgo1749'')]), (''created_at'', JStr at), (''body'', JStr ''go on'')]]"

definition later_resume :: "string \<Rightarrow> resume res" where
  "later_resume at = evaluate_blocked_resume sample_ref (open_decision\<lparr>d_pulls := []\<rparr>) (Some [(''updated_at'', JStr ''2025-12-31T00:00:00Z'')])
     [(''state'', JStr ''open''), (''labels'', JArr [JObj [(''name'', JStr ''agent-ready'')]])] (resume_thread at) ''2026-01-01T00:00:00Z''"

theorem response_resumes_once_witness:
  "\<exists>m. later_resume ''2026-01-02T00:00:00Z'' = Inr m \<and> m_reason m = ''agent_blocked_resolved'' \<and> m_at m \<noteq> m_at first_resume"
proof -
  have "changed_reply (fst after_resume)" by code_simp
  then obtain out where a: "apply_blocked_resume quiet ''t1'' first_resume sample_ref (fresh_db (sample_board ''blocked'')) = (Inr out, snd after_resume)"
    and ch: "changed_reply (Inr out)" using changed_out unfolding after_resume_def [symmetric] by blast
  have clock: "\<forall>e \<in> set (events (working (snd after_resume))). e_task e = ''t1'' \<and> e_kind e = ''github_blocked_resolved'' \<longrightarrow>
      e_at e \<le> db_now quiet" by code_simp
  have at: "m_at first_resume \<noteq> []" by (simp add: first_resume_def)
  have last: "last_resume_response_at ''t1'' (working (snd after_resume)) = Inr ''2026-01-01T00:00:00Z''" by code_simp
  have "map_sum (\<lambda>_. ()) m_reason (later_resume ''2026-01-02T00:00:00Z'') = Inr ''agent_blocked_resolved''" by code_simp
  then obtain m where m: "later_resume ''2026-01-02T00:00:00Z'' = Inr m" "m_reason m = ''agent_blocked_resolved''"
    by (cases "later_resume ''2026-01-02T00:00:00Z''") auto
  from response_resumes_once [OF a ch at clock, of "working (snd after_resume)" "[]", OF _ _ last m(1) [unfolded later_resume_def] m(2)] m
  show ?thesis by auto
qed

end
