(* ===== verification/BlockedGuarantees.thy ===== *)
theory BlockedGuarantees
  imports ReworkGuarantees EdgeReconcile
begin

text \<open>
  The reconciliation of a blocked card: a dry run only reads, and two places where the code does
  not do what its comments say.
\<close>

section \<open>Reading\<close>

text \<open>The board after commits of others only.\<close>

inductive only_others :: "db_env \<Rightarrow> board \<Rightarrow> board \<Rightarrow> bool" for env where
  no_commit: "only_others env b b"
| commit: "only_others env b b' \<Longrightarrow> only_others env b (others env k b')"

lemma only_others_trans: "only_others env b b' \<Longrightarrow> only_others env b' b'' \<Longrightarrow> only_others env b b''"
  by (rotate_tac, induction rule: only_others.induct) (auto intro: only_others.intros)

fun is_get :: "edge_call \<Rightarrow> bool" where
  "is_get (EdgeHttp method url payload) \<longleftrightarrow> method = ''GET''"

definition only_gets :: "edge_call list \<Rightarrow> edge_call list \<Rightarrow> bool" where
  "only_gets calls calls' \<longleftrightarrow> (\<exists>made. calls' = calls @ made \<and> list_all is_get made)"

lemma only_gets_refl [simp, intro]: "only_gets calls calls"
  by (simp add: only_gets_def)

lemma only_gets_trans: "only_gets a b \<Longrightarrow> only_gets b c \<Longrightarrow> only_gets a c"
  by (auto simp: only_gets_def)

lemma and_then_gets:
  assumes "only_gets calls (snd m)" and "\<And>x c. m = (Inr x, c) \<Longrightarrow> only_gets c (snd (k x c))"
  shows "only_gets calls (snd (and_then m k))"
proof (cases m)
  case (Pair r c)
  with assms show ?thesis by (cases r) (auto intro: only_gets_trans)
qed

named_theorems gets \<open>calls that only read\<close>

lemma edge_get_gets [gets]: "only_gets calls (snd (edge_get n path params calls))"
  by (auto simp: edge_get_def ask_def only_gets_def Let_def split: edge_answer.splits sum.splits)

lemma edge_pages_gets: "only_gets calls (snd (edge_pages n path params left page items calls))"
proof (induction left arbitrary: page items calls)
  case (Suc left)
  show ?case unfolding edge_pages.simps
    by (rule and_then_gets [OF edge_get_gets]) (use Suc in \<open>auto simp: Let_def split: json.splits\<close>)
qed simp

lemma paginated_gets [gets]: "only_gets calls (snd (get_paginated n path params calls))"
  by (simp add: get_paginated_def edge_pages_gets)

lemma pr_context_gets [gets]: "only_gets calls (snd (collect_pr_context n ref pr calls))"
  unfolding collect_pr_context_def by (intro and_then_gets gets) simp

lemma contexts_gets: "only_gets calls (snd (collect_contexts n ref prs calls))"
proof (induction prs arbitrary: calls)
  case (Cons pr prs)
  show ?case unfolding collect_contexts.simps
    by (rule and_then_gets [OF pr_context_gets], rule and_then_gets [OF Cons.IH]) simp
qed simp

lemma block_gets [gets]: "only_gets calls (snd (build_context_block n ref prs number projection history calls))"
  unfolding build_context_block_def by (rule and_then_gets [OF contexts_gets]) simp

lemma pr_labels_gets [gets]: "only_gets calls (snd (pr_labels n repository number there calls))"
proof -
  obtain r c where g: "edge_get n (''/repos/'' @ repository @ ''/issues/'' @ int_str number @ ''/labels'') [] calls = (r, c)" by fastforce
  then have "only_gets calls c" using edge_get_gets [of calls n "''/repos/'' @ repository @ ''/issues/'' @ int_str number @ ''/labels''" "[]"] by simp
  then show ?thesis unfolding pr_labels_def g by (auto split: sum.splits exn.splits prod.splits json.splits)
qed

lemma labelled_pulls_gets: "only_gets calls (snd (labelled_pulls n ref prs calls))"
proof (induction prs arbitrary: calls)
  case (Cons pr prs)
  show ?case unfolding labelled_pulls.simps
    by (rule and_then_gets [OF pr_labels_gets], rule and_then_gets [OF Cons.IH]) simp
qed simp

lemma labeled_events_gets [gets]: "only_gets calls (snd (labeled_events n ref number calls))"
  unfolding labeled_events_def by (rule and_then_gets [OF paginated_gets]) simp

lemma authorise_gets [gets]: "only_gets calls (snd (authorise_rework n ref d pr e calls))"
  unfolding authorise_rework_def
  by (rule and_then_gets [OF edge_get_gets]) (auto intro!: and_then_gets gets split: json.splits sum.splits)

lemma judge_gets: "only_gets calls (snd (judge_label n ref d baseline pr es calls))"
  by (auto simp: judge_label_def intro: gets split: option.splits prod.splits)

lemma evaluate_rework_gets [gets]: "only_gets calls (snd (evaluate_rework n ref d status baseline calls))"
  unfolding evaluate_rework_def Let_def
  by (auto intro!: and_then_gets labelled_pulls_gets labeled_events_gets judge_gets split: list.splits)

lemma evidence_gets: "only_gets calls (snd (linked_pr_evidence n ref prs calls))"
proof (induction prs arbitrary: calls)
  case (Cons pr prs)
  show ?case unfolding linked_pr_evidence.simps
    by (rule and_then_gets [OF pr_labels_gets])
      (auto intro!: and_then_gets pr_context_gets Cons.IH split: sum.splits)
qed simp

section \<open>A dry run\<close>

definition reads_only :: "db_env \<Rightarrow> edge_world \<Rightarrow> edge_world \<Rightarrow> bool" where
  "reads_only env w w' \<longleftrightarrow> only_others env (working (fst w)) (working (fst w')) \<and>
     (fst w' = fst w \<or> committed (fst w') = working (fst w')) \<and> only_gets (snd w) (snd w')"

lemma reads_refl [simp, intro]: "reads_only env w w"
  by (simp add: reads_only_def only_others.no_commit)

lemma reads_trans: "reads_only env a b \<Longrightarrow> reads_only env b c \<Longrightarrow> reads_only env a c"
  unfolding reads_only_def using only_others_trans only_gets_trans by metis

lemma and_then_reads:
  assumes "reads_only env w (snd m)" and "\<And>x w'. m = (Inr x, w') \<Longrightarrow> reads_only env w' (snd (k x w'))"
  shows "reads_only env w (snd (and_then m k))"
proof -
  obtain r w' where m: "m = (r, w')" by (rule prod.exhaust)
  show ?thesis
  proof (cases r)
    case (Inr x)
    with assms m have "reads_only env w w'" "reads_only env w' (snd (k x w'))" by simp_all
    then show ?thesis using m Inr by (simp add: reads_trans)
  qed (use assms m in simp)
qed

lemma on_error_reads:
  assumes "reads_only env w (snd m)" and "\<And>text w'. reads_only env w' (snd (h text w'))"
  shows "reads_only env w (snd (on_completion_error m h))"
  using assms by (auto simp: on_completion_error_def intro: reads_trans split: prod.splits sum.splits exn.splits)

lemma on_net_reads: "only_gets (snd w) (snd (m (snd w))) \<Longrightarrow> reads_only env w (snd (on_net m w))"
  by (simp add: on_net_def reads_only_def only_others.no_commit case_prod_unfold)

lemma on_net_result: "on_net m w = (r, w') \<Longrightarrow> (\<And>calls. only_gets calls (snd (m calls))) \<Longrightarrow> reads_only env w w'"
  using on_net_reads [of w m env] by simp

lemma seen_reads: "reads_only env w (seen env k (fst w), snd w)"
  by (simp add: reads_only_def seen_def Let_def only_others.intros)

lemma reading_reads: "reads_only env w (snd (reading env k f w))"
  using seen_reads [of env w k] by (simp add: reading_def on_db_def sql_def case_prod_unfold split: option.splits)

lemma finish_dry: "reads_only env w (snd (finish_projection env n ref row projection True hold action comment_id w))"
  unfolding finish_projection_def Let_def by (rule on_error_reads) simp_all

lemma project_dry: "reads_only env w (snd (project_blocker env n ref d row projection True issue thread marker w))"
  unfolding project_blocker_def Let_def
proof (rule and_then_reads [OF reading_reads], goal_cases)
  case (1 reason w1)
  obtain r w2 where l: "on_net (linked_pr_evidence n ref (d_pulls d)) w1 = (r, w2)" by (rule prod.exhaust)
  then have "reads_only env w1 w2" by (rule on_net_result) (rule evidence_gets)
  then show ?case
    by (auto simp: l intro: finish_dry split: sum.splits option.splits exn.splits bool.splits)
qed

lemma resolve_dry: "reads_only env w (snd (resolve_blocked env n ref d row projection True issue thread marker w))"
  unfolding resolve_blocked_def Let_def
  by (auto intro!: and_then_reads [OF reading_reads] project_dry split: sum.splits)

lemma stay_dry: "reads_only env w (snd (stay_blocked env n ref d row projection True w))"
proof -
  obtain r w1 where i: "on_net (edge_get n (issue_path ref (r_issue ref)) []) w = (r, w1)" by (rule prod.exhaust)
  then have w1: "reads_only env w w1" by (rule on_net_result) (rule edge_get_gets)
  obtain r2 w2 where c: "on_net (edge_get n (comments_path ref) []) w1 = (r2, w2)" by (rule prod.exhaust)
  then have w2: "reads_only env w1 w2" by (rule on_net_result) (rule edge_get_gets)
  show ?thesis
    using w1 reads_trans [OF w1 w2] reads_trans [OF reads_trans [OF w1 w2] resolve_dry]
    by (auto simp: stay_blocked_def Let_def i c split: sum.splits exn.splits json.splits)
qed

lemma review_dry: "reads_only env w (snd (review_blocked env n ref d row projection True w))"
  unfolding review_blocked_def
  by (intro and_then_reads on_error_reads reading_reads on_net_reads block_gets) auto

lemma rework_dry: "reads_only env w (snd (rework_blocked env n ref d row w))"
  unfolding rework_blocked_def
  by (intro and_then_reads on_error_reads reading_reads on_net_reads evaluate_rework_gets) auto

text \<open>A dry run changes nothing. A dry run of the reconciliation of a blocked card sends only GET requests
  and leaves the board as other processes made it, whatever GitHub answers and whichever read fails.\<close>

theorem dry_run_only_reads:
  "reads_only env w (snd (reconcile_blocked env n ref d row True w))"
proof -
  have "reads_only env w (snd (on_db (\<lambda>c. (blocked_state_projection env 11 (t_id row) (t_block_kind row) (working (seen env 11 c)),
      seen env 11 c)) w))" using seen_reads [of env w 11] by (simp add: on_db_def)
  then show ?thesis
    unfolding reconcile_blocked_def Let_def
    by (auto intro!: rework_dry review_dry stay_dry and_then_reads split: option.splits)
qed

section \<open>Two divergences\<close>

text \<open>
  GitHub failures are meant to leave a blocked card untouched; but when only the lookup of a rework
  request fails, a card with an open pull request still moves to review.
\<close>

definition labels_fail_net :: edge_net where
  "labels_fail_net = rework_net\<lparr>reply_to := (\<lambda>_ c. case c of EdgeHttp method url payload \<Rightarrow>
     if contains ''labels'' url then HttpFailed 500 else Answered 200 ''e'' [])\<rparr>"

lemma failed_lookup_still_moves:
  "changed_reply (fst (reconcile_blocked quiet labels_fail_net sample_ref open_decision (sample_task ''t1'' ''blocked'') False
     (fresh_db (sample_board ''blocked''), [])))"
  by code_simp

text \<open>
  The marker is looked for on the first page of the comments only: where it is further back, a second
  one is posted.
\<close>

lemma marker_off_page_reposted:
  assumes "edge_get n (comments_path ref) [] calls = (Inr (JArr cs, headers), c)" and "find_blocker_marker cs task_id = None"
    and "reply_to n c (EdgeHttp ''POST'' (comments_path ref) (Some (JObj [(''body'', JStr body)]))) = Answered 201 [] []"
  shows "fst (upsert_blocker_comment n ref task_id body calls) = Inr (''created'', None)"
  using assms by (simp add: upsert_blocker_comment_def py_iter_def write_json_def ask_def ok_status_def opt_py_int_def)

end
