(* ===== verification/TerminalGraph.thy ===== *)
theory TerminalGraph
  imports EdgeReconcile "HOL-Library.Product_Lexorder"
begin

text \<open>
  The graph above a card (edge/kanban-github-sync.py, terminal convergence): the depth-first walk over
  the parent links that finds every ancestor or a broken or cyclic link, and its correctness. The reads
  of one walk see one state of the database.
\<close>

section \<open>The walk\<close>

text \<open>The columns the walk reads of a card: neither the body nor the heartbeat.\<close>

definition node_of :: "task \<Rightarrow> task" where
  "node_of t = t\<lparr>t_body := None, t_heartbeat := None\<rparr>"

type_synonym nodes = "(string \<times> task) list"

text \<open>The parents of a card with their rows, none for a link to a card that does not exist.\<close>

definition link_rows :: "board \<Rightarrow> string \<Rightarrow> (string \<times> task option) list" where
  "link_rows b child = map (\<lambda>parent. (parent, map_option node_of (task_row parent b))) (parents_of child b)"

text \<open>Gray is on the active path, black is completed; other cards are white.\<close>

datatype color = Gray | Black

type_synonym frame = "string \<times> (string \<times> task option) list"

definition walk_universe :: "board \<Rightarrow> frame list \<Rightarrow> string set" where
  "walk_universe b stack = fst ` set (task_links b) \<union> (\<Union>f \<in> set stack. fst ` set (snd f))"

lemma finite_universe: "finite (walk_universe b stack)"
  by (simp add: walk_universe_def)

definition white_left :: "board \<Rightarrow> (string \<times> color) list \<Rightarrow> frame list \<Rightarrow> nat" where
  "white_left b colors stack = card (walk_universe b stack - set (keys_of colors))"

lemma white_less:
  assumes "walk_universe b stack' \<subseteq> walk_universe b stack" and "set (keys_of colors) \<subseteq> set (keys_of colors')"
  shows "white_left b colors' stack' \<le> white_left b colors stack"
    and "x \<in> walk_universe b stack \<Longrightarrow> x \<in> set (keys_of colors') \<Longrightarrow> x \<notin> set (keys_of colors) \<Longrightarrow>
      white_left b colors' stack' < white_left b colors stack"
proof -
  let ?A = "walk_universe b stack' - set (keys_of colors')" and ?B = "walk_universe b stack - set (keys_of colors)"
  have fin: "finite ?B" by (simp add: finite_universe)
  have sub: "?A \<subseteq> ?B" using assms by blast
  show "white_left b colors' stack' \<le> white_left b colors stack"
    unfolding white_left_def by (rule card_mono [OF fin sub])
  assume x: "x \<in> walk_universe b stack" "x \<in> set (keys_of colors')" "x \<notin> set (keys_of colors)"
  then have "?A \<subset> ?B" using sub by blast
  then show "white_left b colors' stack' < white_left b colors stack"
    unfolding white_left_def by (rule psubset_card_mono [OF fin])
qed

function chain_walk :: "board \<Rightarrow> nodes \<Rightarrow> (string \<times> color) list \<Rightarrow> frame list \<Rightarrow> string + nodes" where
  "chain_walk b nodes colors [] = Inr nodes"
| "chain_walk b nodes colors ((child, []) # stack) = chain_walk b nodes (dset child Black colors) stack"
| "chain_walk b nodes colors ((child, (parent, row) # rows) # stack) =
     (case row of
        None \<Rightarrow> Inl (''missing parent task for link: '' @ parent)
      | Some node \<Rightarrow> (case dget colors parent of
          Some Gray \<Rightarrow> Inl (''cyclic task link: '' @ parent @ '' -> '' @ child)
        | Some Black \<Rightarrow> chain_walk b nodes colors ((child, rows) # stack)
        | None \<Rightarrow> chain_walk b (dset parent node nodes) (dset parent Gray colors)
            ((parent, link_rows b parent) # (child, rows) # stack)))"
  by pat_completeness auto
termination
proof (relation "measures [\<lambda>(b, nodes, colors, stack). white_left b colors stack,
    \<lambda>(b, nodes, colors, stack). sum_list (map (\<lambda>f. 1 + length (snd f)) stack)]", goal_cases)
  case (2 b nodes colors child stack)
  have "white_left b (dset child Black colors) stack \<le> white_left b colors ((child, []) # stack)"
    by (rule white_less(1)) (auto simp: walk_universe_def)
  then show ?case by auto
next
  case (4 b nodes colors child parent row rows stack node c)
  have "white_left b colors ((child, rows) # stack) \<le> white_left b colors ((child, (parent, row) # rows) # stack)"
    by (rule white_less(1)) (auto simp: walk_universe_def)
  then show ?case by auto
next
  case (3 b nodes colors child parent row rows stack node)
  have "fst ` set (link_rows b parent) \<subseteq> fst ` set (task_links b)"
    by (force simp: link_rows_def parents_of_def)
  then have "white_left b (dset parent Gray colors) ((parent, link_rows b parent) # (child, rows) # stack)
      < white_left b colors ((child, (parent, row) # rows) # stack)"
    using 3 by (intro white_less(2) [where x = parent]) (auto simp: walk_universe_def dget_None_iff)
  then show ?case by simp
qed simp

definition terminal_chain_ancestors :: "board \<Rightarrow> string \<Rightarrow> string + nodes" where
  "terminal_chain_ancestors b root = (case task_row root b of
      None \<Rightarrow> Inl (''missing root task: '' @ root)
    | Some t \<Rightarrow> chain_walk b [(root, node_of t)] [(root, Gray)] [(root, link_rows b root)])"

text \<open>The links to the parents of the given cards, duplicates too, by child and parent.\<close>

definition terminal_chain_edge_snapshot :: "board \<Rightarrow> string list \<Rightarrow> (string \<times> string) list" where
  "terminal_chain_edge_snapshot b ids = sort_key (\<lambda>l. (snd l, fst l)) (filter (\<lambda>l. snd l \<in> set ids) (task_links b))"

section \<open>What it finds\<close>

text \<open>From a card to its parent, and the cards above one, itself included.\<close>

definition up :: "board \<Rightarrow> (string \<times> string) set" where
  "up b = {(c, p). (p, c) \<in> set (task_links b)}"

definition ancestors :: "board \<Rightarrow> string \<Rightarrow> string set" where
  "ancestors b root = (up b)\<^sup>* `` {root}"

lemma link_rows_mem: "(p, row) \<in> set (link_rows b c) \<longleftrightarrow> (c, p) \<in> up b \<and> row = map_option node_of (task_row p b)"
  by (force simp: link_rows_def parents_of_def up_def)

text \<open>The frames under the one whose child is \<open>over\<close>: every parent is left, black, or that child.\<close>

fun frames_ok :: "board \<Rightarrow> (string \<times> color) list \<Rightarrow> string option \<Rightarrow> frame list \<Rightarrow> bool" where
  "frames_ok b colors over [] = True"
| "frames_ok b colors over ((c, rows) # stack) = (set rows \<subseteq> set (link_rows b c) \<and>
     (\<forall>p. (c, p) \<in> up b \<longrightarrow> p \<in> fst ` set rows \<or> dget colors p = Some Black \<or> over = Some p) \<and>
     (case over of None \<Rightarrow> True | Some x \<Rightarrow> (c, x) \<in> up b) \<and> frames_ok b colors (Some c) stack)"

lemma frames_blacker:
  assumes black: "\<And>p. dget colors p = Some Black \<Longrightarrow> dget colors' p = Some Black"
  shows "frames_ok b colors over stack \<Longrightarrow> frames_ok b colors' over stack"
proof (induction stack arbitrary: over)
  case (Cons f stack)
  obtain c rows where f: "f = (c, rows)" by fastforce
  from Cons.prems f have p: "\<forall>p. (c, p) \<in> up b \<longrightarrow> p \<in> fst ` set rows \<or> dget colors p = Some Black \<or> over = Some p"
    by simp
  then have "\<forall>p. (c, p) \<in> up b \<longrightarrow> p \<in> fst ` set rows \<or> dget colors' p = Some Black \<or> over = Some p"
    using black by blast
  with Cons f show ?case by simp
qed simp

lemma frames_popped:
  assumes "frames_ok b colors (Some c) stack" and "dget colors c = Some Black"
  shows "frames_ok b colors None stack"
  using assms by (cases stack) (auto split: prod.splits)

lemma frames_path: "frames_ok b colors (Some c) stack \<Longrightarrow> x \<in> fst ` set stack \<Longrightarrow> (x, c) \<in> (up b)\<^sup>+"
proof (induction stack arbitrary: c)
  case (Cons f stack)
  obtain y rows where f: "f = (y, rows)" by fastforce
  with Cons.prems have e: "(y, c) \<in> up b" "frames_ok b colors (Some y) stack" by auto
  show ?case
  proof (cases "x = y")
    case False
    with Cons.IH [OF e(2)] Cons.prems(2) f have "(x, y) \<in> (up b)\<^sup>+" by auto
    from this e(1) show ?thesis by (rule trancl.trancl_into_trancl)
  qed (use e in auto)
qed simp

definition black_ok :: "board \<Rightarrow> (string \<times> color) list \<Rightarrow> bool" where
  "black_ok b colors \<longleftrightarrow> (\<forall>x. dget colors x = Some Black \<longrightarrow> (x, x) \<notin> (up b)\<^sup>+ \<and>
     (\<forall>p. (x, p) \<in> up b \<longrightarrow> dget colors p = Some Black))"

definition walk_ok :: "board \<Rightarrow> string \<Rightarrow> nodes \<Rightarrow> (string \<times> color) list \<Rightarrow> frame list \<Rightarrow> bool" where
  "walk_ok b root nodes colors stack \<longleftrightarrow>
     distinct (map fst stack) \<and> (\<forall>x. dget colors x = Some Gray \<longleftrightarrow> x \<in> fst ` set stack) \<and>
     (\<forall>x. dget colors x \<noteq> None \<longrightarrow> x \<in> ancestors b root) \<and> dget colors root \<noteq> None \<and>
     (\<forall>x. dget nodes x = (if dget colors x = None then None else map_option node_of (task_row x b))) \<and>
     (\<forall>x. dget colors x \<noteq> None \<longrightarrow> task_row x b \<noteq> None) \<and>
     black_ok b colors \<and> frames_ok b colors None stack"

lemma black_closed: "black_ok b colors \<Longrightarrow> dget colors x = Some Black \<Longrightarrow> (x, y) \<in> (up b)\<^sup>+ \<Longrightarrow> dget colors y = Some Black"
  by (rotate_tac -1, induction rule: trancl_induct) (auto simp: black_ok_def)

lemma ancestors_step: "x \<in> ancestors b root \<Longrightarrow> (x, p) \<in> up b \<Longrightarrow> p \<in> ancestors b root"
  by (auto simp: ancestors_def intro: rtrancl.rtrancl_into_rtrancl)

lemma walk_pop:
  assumes "walk_ok b root nodes colors ((child, []) # stack)"
  shows "walk_ok b root nodes (dset child Black colors) stack"
proof -
  let ?c = "dset child Black colors"
  have ok: "black_ok b colors" "frames_ok b colors (Some child) stack"
    and parents: "\<And>p. (child, p) \<in> up b \<Longrightarrow> dget colors p = Some Black"
    and gray: "dget colors child = Some Gray" "child \<notin> fst ` set stack"
    using assms by (auto simp: walk_ok_def)
  have known: "dget colors child \<noteq> None" using gray by simp
  have "(child, child) \<notin> (up b)\<^sup>+"
  proof
    assume "(child, child) \<in> (up b)\<^sup>+"
    then obtain p where p: "(child, p) \<in> up b" "p = child \<or> (p, child) \<in> (up b)\<^sup>+" by (auto elim: converse_tranclE)
    with parents black_closed [OF ok(1)] gray show False by fastforce
  qed
  with ok(1) parents have "black_ok b ?c" by (auto simp: black_ok_def)
  moreover have "frames_ok b ?c None stack"
    by (rule frames_popped, rule frames_blacker [OF _ ok(2)]) auto
  moreover have "child \<in> ancestors b root" "task_row child b \<noteq> None"
      "dget nodes child = map_option node_of (task_row child b)"
    using assms known by (auto simp: walk_ok_def)
  ultimately show ?thesis using assms gray by (auto simp: walk_ok_def)
qed

lemma walk_skip:
  assumes "walk_ok b root nodes colors ((child, (parent, row) # rows) # stack)" and "dget colors parent = Some Black"
  shows "walk_ok b root nodes colors ((child, rows) # stack)"
  using assms by (auto simp: walk_ok_def)

lemma all_left: "(c, p) \<in> up b \<Longrightarrow> p \<in> fst ` set (link_rows b c)"
  using link_rows_mem [of p "map_option node_of (task_row p b)" b c] by (force simp: image_iff)

lemma walk_push:
  assumes "walk_ok b root nodes colors ((child, (parent, Some node) # rows) # stack)" and "dget colors parent = None"
  shows "walk_ok b root (dset parent node nodes) (dset parent Gray colors) ((parent, link_rows b parent) # (child, rows) # stack)"
proof -
  let ?c = "dset parent Gray colors"
  have e: "(child, parent) \<in> up b" and t: "map_option node_of (task_row parent b) = Some node"
    using assms(1) by (auto simp: walk_ok_def link_rows_mem)
  have black: "dget colors p = Some Black \<Longrightarrow> dget ?c p = Some Black" for p using assms(2) by auto
  have "frames_ok b ?c (Some parent) ((child, rows) # stack)"
    using assms(1) e frames_blacker [OF black, where b = b and over = "Some child" and stack = stack] black by (auto simp: walk_ok_def)
  moreover have "\<forall>p. (parent, p) \<in> up b \<longrightarrow> p \<in> fst ` set (link_rows b parent)"
    by (simp add: all_left)
  ultimately have f: "frames_ok b ?c None ((parent, link_rows b parent) # (child, rows) # stack)" by simp
  have old: "\<forall>x. dget colors x \<noteq> None \<longrightarrow> x \<in> ancestors b root" "dget colors root \<noteq> None"
      "\<forall>x. dget nodes x = (if dget colors x = None then None else map_option node_of (task_row x b))"
      "\<forall>x. dget colors x \<noteq> None \<longrightarrow> task_row x b \<noteq> None" and "black_ok b colors"
      and gray: "distinct (child # map fst stack)" "\<forall>x. dget colors x = Some Gray \<longleftrightarrow> x \<in> insert child (fst ` set stack)"
    using assms(1) by (simp_all add: walk_ok_def del: frames_ok.simps)
  have "child \<in> ancestors b root" using old(1) gray(2) by blast
  from ancestors_step [OF this e] t have parent: "parent \<in> ancestors b root" "task_row parent b \<noteq> None" by auto
  show ?thesis
    unfolding walk_ok_def
  proof (intro conjI)
    show "black_ok b ?c" using \<open>black_ok b colors\<close> assms(2) by (auto simp: black_ok_def)
    show "distinct (map fst ((parent, link_rows b parent) # (child, rows) # stack))"
    proof -
      have "parent \<notin> insert child (fst ` set stack)" using gray(2) assms(2) by (metis option.distinct(1))
      with gray(1) show ?thesis by simp
    qed
    show "\<forall>x. dget ?c x = Some Gray \<longleftrightarrow> x \<in> fst ` set ((parent, link_rows b parent) # (child, rows) # stack)"
      using gray(2) by simp
    show "\<forall>x. dget (dset parent node nodes) x = (if dget ?c x = None then None else map_option node_of (task_row x b))"
      using old(3) t by auto
    show "\<forall>x. dget ?c x \<noteq> None \<longrightarrow> x \<in> ancestors b root" using old(1) parent(1) by simp
    show "\<forall>x. dget ?c x \<noteq> None \<longrightarrow> task_row x b \<noteq> None" using old(4) parent(2) by simp
    show "dget ?c root \<noteq> None" using old(2) by simp
  qed (rule f)
qed

text \<open>The rows of exactly the ancestors, each of which exists and is on no cycle; or an ancestor that does not.\<close>

definition chain_sound :: "board \<Rightarrow> string \<Rightarrow> bool" where
  "chain_sound b root \<longleftrightarrow> (\<forall>x \<in> ancestors b root. task_row x b \<noteq> None \<and> (x, x) \<notin> (up b)\<^sup>+)"

definition walk_result :: "board \<Rightarrow> string \<Rightarrow> string + nodes \<Rightarrow> bool" where
  "walk_result b root r \<longleftrightarrow> (case r of
      Inl _ \<Rightarrow> \<not> chain_sound b root
    | Inr nodes \<Rightarrow> chain_sound b root \<and> (\<forall>x. dget nodes x =
        (if x \<in> ancestors b root then map_option node_of (task_row x b) else None)))"

lemma walk_end:
  assumes "walk_ok b root nodes colors []"
  shows "walk_result b root (Inr nodes)"
proof -
  have black: "dget colors x \<noteq> None \<Longrightarrow> dget colors x = Some Black" for x
    using assms by (cases "dget colors x"; cases "the (dget colors x)") (auto simp: walk_ok_def)
  have "x \<in> ancestors b root \<Longrightarrow> dget colors x = Some Black" for x
    unfolding ancestors_def Image_singleton_iff
  proof (induction rule: rtrancl_induct)
    case base
    then show ?case using assms black by (simp add: walk_ok_def)
  next
    case (step y z)
    then show ?case using assms by (auto simp: walk_ok_def black_ok_def)
  qed
  then have "dget colors x = (if x \<in> ancestors b root then Some Black else None)" for x
    using assms by (cases "dget colors x") (auto simp: walk_ok_def)
  then show ?thesis using assms by (auto simp: walk_result_def walk_ok_def black_ok_def chain_sound_def)
qed

lemma chain_walk_correct: "walk_ok b root nodes colors stack \<Longrightarrow> walk_result b root (chain_walk b nodes colors stack)"
proof (induction b nodes colors stack rule: chain_walk.induct)
  case (1 b nodes colors)
  then show ?case by (simp add: walk_end)
next
  case (2 b nodes colors child stack)
  then show ?case using walk_pop by simp
next
  case (3 b nodes colors child parent row rows stack)
  have child: "child \<in> ancestors b root" and e: "(child, parent) \<in> up b" and r: "row = map_option node_of (task_row parent b)"
    using 3(3) by (auto simp: walk_ok_def link_rows_mem)
  then have parent: "parent \<in> ancestors b root" by (blast intro: ancestors_step)
  show ?case
  proof (cases row)
    case None
    with r parent show ?thesis by (auto simp: walk_result_def chain_sound_def)
  next
    case (Some node)
    show ?thesis
    proof (cases "dget colors parent")
      case None
      with Some 3 walk_push show ?thesis by simp
    next
      case (Some c)
      show ?thesis
      proof (cases c)
        case Gray
        have "parent = child \<or> (parent, child) \<in> (up b)\<^sup>+"
          using 3(3) Some Gray by (auto simp: walk_ok_def intro: frames_path)
        with e have "(parent, parent) \<in> (up b)\<^sup>+" by (auto intro: trancl.trancl_into_trancl)
        with parent Some Gray \<open>row = Some node\<close> show ?thesis by (auto simp: walk_result_def chain_sound_def)
      next
        case Black
        with Some \<open>row = Some node\<close> 3 walk_skip show ?thesis by simp
      qed
    qed
  qed
qed

text \<open>
  C8: The walk over the parent links ends on every graph. It succeeds exactly when every card above the root
  exists and lies on no cycle, and then gives the rows of exactly these cards; shared ancestors are no cycle.
\<close>

theorem ancestor_walk_exact: "walk_result b root (terminal_chain_ancestors b root)"
proof (cases "task_row root b")
  case None
  then show ?thesis by (auto simp: terminal_chain_ancestors_def walk_result_def chain_sound_def ancestors_def)
next
  case (Some t)
  have "walk_ok b root [(root, node_of t)] [(root, Gray)] [(root, link_rows b root)]"
    using Some all_left by (auto simp: walk_ok_def black_ok_def ancestors_def)
  from chain_walk_correct [OF this] Some show ?thesis by (simp add: terminal_chain_ancestors_def)
qed

end
