(* ===== verification/TerminalProvenance.thy ===== *)
theory TerminalProvenance
  imports TerminalGraph
begin

text \<open>
  The durable evidence terminal convergence asks for (edge/kanban-github-sync.py): how a card was
  created and linked, the rework round that governs it, a later human hold, and the role all of this
  gives to each ancestor. The id of an event is its place in the table.
\<close>

section \<open>Events\<close>

definition event_rows :: "(event \<Rightarrow> bool) \<Rightarrow> board \<Rightarrow> (nat \<times> event) list" where
  "event_rows wanted b = sort_key (\<lambda>r. e_at (snd r)) (filter (\<lambda>r. wanted (snd r)) (List.enumerate 1 (events b)))"

text \<open>\<open>ORDER BY created_at DESC, id DESC LIMIT 1\<close>.\<close>

definition newest_row :: "(event \<Rightarrow> bool) \<Rightarrow> board \<Rightarrow> (nat \<times> event) option" where
  "newest_row wanted b = (case rev (event_rows wanted b) of [] \<Rightarrow> None | r # _ \<Rightarrow> Some r)"

text \<open>\<open>json.loads(payload or "{}")\<close> when it is a dict.\<close>

definition event_dict :: "event \<Rightarrow> dict option" where
  "event_dict e = (case e_payload e of NoText \<Rightarrow> Some [] | BadText \<Rightarrow> None
     | JsonText v \<Rightarrow> (case v of JObj d \<Rightarrow> Some d | _ \<Rightarrow> None))"

definition FULL_SHA :: "string \<Rightarrow> bool" where
  "FULL_SHA s \<longleftrightarrow> length s = 40 \<and> list_all (\<lambda>c. is_digit c \<or> (97 \<le> code c \<and> code c \<le> 102) \<or> (65 \<le> code c \<and> code c \<le> 70)) s"

text \<open>Python's equality of a value with a scalar.\<close>

definition py_scalar_eq :: "json \<Rightarrow> json \<Rightarrow> bool" where
  "py_scalar_eq a v \<longleftrightarrow> (case v of JInt i \<Rightarrow> py_equals_int a i | JBool x \<Rightarrow> py_equals_int a (if x then 1 else 0)
     | JFloat r t \<Rightarrow> a = v \<or> (case t of Some i \<Rightarrow> r = int_str i @ ''.0'' \<and> py_equals_int a i | None \<Rightarrow> False)
     | _ \<Rightarrow> a = v)"

section \<open>Creation\<close>

text \<open>The created payload so far with the recorded parents; none refuses the whole history.\<close>

fun creation_rows :: "string \<Rightarrow> event list \<Rightarrow> dict option \<Rightarrow> string list \<Rightarrow> (dict option \<times> string list) option" where
  "creation_rows task_id [] made parents = Some (made, parents)"
| "creation_rows task_id (e # rest) made parents = (case event_dict e of None \<Rightarrow> None
     | Some payload \<Rightarrow>
        if e_kind e = ''created'' then
          (if made \<noteq> None then None
           else case dget_py payload ''parents'' of
             JArr raw \<Rightarrow> if list_all (\<lambda>v. case v of JStr s \<Rightarrow> s \<noteq> [] | _ \<Rightarrow> False) raw
               then creation_rows task_id rest (Some payload) (parents @ map py_str raw) else None
           | _ \<Rightarrow> None)
        else (case dget_py payload ''parent'' of
             JStr parent \<Rightarrow> if py_str (dget_py payload ''child'') \<noteq> task_id \<or> parent = [] then None
               else creation_rows task_id rest made (parents @ [parent])
           | _ \<Rightarrow> None))"

definition task_creation_provenance :: "board \<Rightarrow> string \<Rightarrow> (string \<times> string list) option" where
  "task_creation_provenance b task_id =
     (case creation_rows task_id (map snd (event_rows (\<lambda>e. e_task e = task_id \<and> e_kind e \<in> {''created'', ''linked''}) b)) None [] of
        Some (Some made, parents) \<Rightarrow> (case dget_py made ''assignee'' of
            JStr assignee \<Rightarrow> if assignee = [] then None else Some (assignee, sort (remdups parents))
          | _ \<Rightarrow> None)
      | _ \<Rightarrow> None)"

section \<open>Rework rounds and human holds\<close>

definition REWORK_GOVERNING_KINDS :: "string list" where
  "REWORK_GOVERNING_KINDS = [''created'', ''changes_requested'', ''github_pr_rework'', ''github_pr_sync'',
     ''github_pr_rework_retry'', ''github_pr_rework_projection_failure'', SUPERSEDE_EVENT_KIND,
     ''github_blocked_resolved'', ''github_blocked_projection'', ''blocked'', ''completed'', ''status'', ''promoted'',
     ''unblocked'', ''reclaimed'', ''scheduled'', ''archived'']"

definition rework_is_current_governing_event :: "board \<Rightarrow> string \<Rightarrow> nat \<times> event \<Rightarrow> bool" where
  "rework_is_current_governing_event b task_id r \<longleftrightarrow>
     (case newest_row (\<lambda>e. e_task e = task_id \<and> e_kind e \<in> set REWORK_GOVERNING_KINDS) b of
        None \<Rightarrow> False
      | Some (i, e) \<Rightarrow> e_kind e = e_kind (snd r) \<and> e_at e = e_at (snd r) \<and> i = fst r)"

definition attention_keys :: "string list" where
  "attention_keys = [''repository'', ''issue_number'', ''pr_number'', ''rework_round'']"

text \<open>The first blocked or attention event after the round.\<close>

definition hold_of :: "dict \<Rightarrow> nat \<times> event \<Rightarrow> dict" where
  "hold_of round_payload r = (let (i, e) = r;
       head = [(''event_kind'', JStr (e_kind e)), (''event_id'', JInt (int i)), (''created_at'', JInt (e_at e))] in
     if e_kind e = ''blocked''
     then head @ [(''block_kind'', (case event_dict e of None \<Rightarrow> JNull | Some d \<Rightarrow> dget_py d ''kind''))]
     else (case event_dict e of
         None \<Rightarrow> head @ [(''reason'', JStr ''rework_attention_malformed'')]
       | Some d \<Rightarrow> if \<not> list_all (\<lambda>k. py_scalar_eq (dget_py d k) (dget_py round_payload k)) attention_keys
           then head @ [(''reason'', JStr ''rework_attention_mismatched'')]
           else head @ [(''rework_round'', dget_py round_payload ''rework_round''),
             (''pr_number'', dget_py round_payload ''pr_number'')]))"

definition current_round_human_hold :: "board \<Rightarrow> string \<Rightarrow> dict \<Rightarrow> nat \<times> event \<Rightarrow> dict option" where
  "current_round_human_hold b task_id round_payload rework_row =
     (case filter (\<lambda>r. e_at (snd r) > e_at (snd rework_row) \<or> (e_at (snd r) = e_at (snd rework_row) \<and> fst r > fst rework_row))
          (event_rows (\<lambda>e. e_task e = task_id \<and> e_kind e \<in> {''blocked'', ''github_pr_rework_attention''}) b) of
        [] \<Rightarrow> None
      | r # _ \<Rightarrow> Some (hold_of round_payload r))"

text \<open>A source that cannot be looked up in a set is a \<open>TypeError\<close>.\<close>

definition rework_identity :: "dict \<Rightarrow> task_ref \<Rightarrow> bool res" where
  "rework_identity payload ref =
     (if dget_py payload ''repository'' \<noteq> JStr (r_repository ref) \<or>
         \<not> py_equals_int (dget_py payload ''issue_number'') (r_issue ref) \<or>
         dget_py payload ''reason'' \<noteq> JStr ''agent_rework'' \<or> dget_py payload ''merge_authority'' \<noteq> JStr ''human'' \<or>
         dget_py payload ''auto_merge'' \<noteq> JBool False then Inr False
      else if unhashable (dget_py payload ''source'') then Inl (PyError ''TypeError'')
      else Inr (dget_py payload ''source'' \<in> {JStr ''github'', JStr ''github_edge_rework_recovery''} \<and>
        dget_py payload ''new_status'' = JStr ''ready''))"

definition round_role :: "board \<Rightarrow> string \<Rightarrow> (int \<times> string) list option \<Rightarrow> dict \<Rightarrow> nat \<times> event \<Rightarrow> dict option" where
  "round_role b task_id merged payload r =
     (case (dget_py payload ''pr_number'', dget_py payload ''rework_round'', dget_py payload ''head_sha'') of
        (JInt pr_no, JInt round_no, JStr head) \<Rightarrow>
          if pr_no \<le> 0 \<or> round_no \<le> 0 \<or> \<not> FULL_SHA head then None
          else if \<not> (case merged of None \<Rightarrow> True | Some heads \<Rightarrow>
              (case dget heads pr_no of None \<Rightarrow> False | Some expected \<Rightarrow> casefold head = casefold expected)) then None
          else (case current_round_human_hold b task_id payload r of
              Some hold \<Rightarrow> Some [(''role'', JStr ''human_hold''), (''human_hold'', JObj hold)]
            | None \<Rightarrow> Some [(''role'', JStr ''stale_rework''), (''event_kind'', JStr (e_kind (snd r))),
                (''pr_number'', JInt pr_no), (''rework_round'', JInt round_no), (''head_sha'', JStr head)])
      | _ \<Rightarrow> None)"

definition rework_provenance :: "board \<Rightarrow> string \<Rightarrow> task_ref \<Rightarrow> (int \<times> string) list option \<Rightarrow> dict option res" where
  "rework_provenance b task_id ref merged = (case newest_row (rework_kind task_id) b of
      None \<Rightarrow> Inr None
    | Some r \<Rightarrow> if \<not> rework_is_current_governing_event b task_id r then Inr None
        else (case event_dict (snd r) of None \<Rightarrow> Inr None
          | Some payload \<Rightarrow> (case rework_identity payload ref of
              Inl e \<Rightarrow> Inl e
            | Inr ok \<Rightarrow> Inr (if ok then round_role b task_id merged payload r else None))))"

section \<open>The role of each ancestor\<close>

definition OK_TERMINAL :: "string list" where
  "OK_TERMINAL = [''done'', ''archived'']"

definition TERMINALIZE :: "string list" where
  "TERMINALIZE = [''blocked'']"

definition ARCHIVE :: "string list" where
  "ARCHIVE = [''todo'', ''review'', ''ready'', ''scheduled'']"

definition ROOT_STATUSES :: "string list" where
  "ROOT_STATUSES = [''todo'', ''review'']"

type_synonym provenance = "(string \<times> dict) list"

definition role_of :: "dict \<Rightarrow> string \<Rightarrow> bool" where
  "role_of item role \<longleftrightarrow> dget_py item ''role'' = JStr role"

definition direct_parents :: "nodes \<Rightarrow> (string \<times> string) list \<Rightarrow> string \<Rightarrow> string list" where
  "direct_parents nodes edges node_id = map fst (filter (\<lambda>l. snd l = node_id) edges)"

definition provenance_failure :: "string \<Rightarrow> string \<Rightarrow> string \<Rightarrow> dict" where
  "provenance_failure node_id status reason =
     [(''node_id'', JStr node_id), (''node_status'', JStr status), (''provenance_reason'', JStr reason)]"

text \<open>A blocked card is the stale work of a developer: its round, its creation and its parents agree.\<close>

definition rework_role :: "board \<Rightarrow> task_ref \<Rightarrow> (int \<times> string) list option \<Rightarrow> string list \<Rightarrow> string \<Rightarrow> string \<Rightarrow> (dict + dict) res" where
  "rework_role b ref merged parents node_id status = (case rework_provenance b node_id ref merged of
      Inl e \<Rightarrow> Inl e
    | Inr event \<Rightarrow> Inr (case (event, task_creation_provenance b node_id) of
          (Some item, Some (assignee, known_parents)) \<Rightarrow>
            if assignee \<noteq> ''kanban-developer'' \<or> set known_parents \<noteq> set parents \<or> parents = []
            then Inl (provenance_failure node_id status ''missing_stale_rework_provenance'')
            else if role_of item ''human_hold'' then Inl (provenance_failure node_id status ''current_round_human_hold'')
            else Inr (dset ''role'' (JStr ''stale_rework'') item)
        | _ \<Rightarrow> Inl (provenance_failure node_id status ''missing_stale_rework_provenance'')))"

fun rework_roles ::
  "board \<Rightarrow> task_ref \<Rightarrow> (int \<times> string) list option \<Rightarrow> (string \<Rightarrow> string list) \<Rightarrow> nodes \<Rightarrow> provenance \<Rightarrow> (dict + provenance) res" where
  "rework_roles b ref merged parents [] prov = Inr (Inr prov)"
| "rework_roles b ref merged parents ((node_id, node) # rest) prov =
     (let status = t_status node in
      if status \<in> set OK_TERMINAL then rework_roles b ref merged parents rest
        (prov @ [(node_id, [(''role'', JStr ''already_terminal''), (''status'', JStr status)])])
      else if status \<notin> set (TERMINALIZE @ ARCHIVE)
      then Inr (Inl (provenance_failure node_id status ''status_not_convergeable''))
      else if status \<notin> set TERMINALIZE then rework_roles b ref merged parents rest prov
      else (case rework_role b ref merged (parents node_id) node_id status of
          Inl e \<Rightarrow> Inl e
        | Inr (Inl failed) \<Rightarrow> Inr (Inl failed)
        | Inr (Inr item) \<Rightarrow> rework_roles b ref merged parents rest (prov @ [(node_id, item)])))"

definition ids_with_role :: "string \<Rightarrow> provenance \<Rightarrow> string list" where
  "ids_with_role role prov = sort (map fst (filter (\<lambda>p. role_of (snd p) role) prov))"

text \<open>
  An unstarted card is a reviewer's that waits for such work: it depends on it, and on nothing else that is open.
\<close>

definition reviewer_role :: "board \<Rightarrow> nodes \<Rightarrow> string list \<Rightarrow> string list \<Rightarrow> string \<Rightarrow> dict option" where
  "reviewer_role b nodes stale parents node_id = (case task_creation_provenance b node_id of
      Some (assignee, known_parents) \<Rightarrow>
        if assignee \<noteq> ''kanban-reviewer'' \<or> set known_parents \<noteq> set parents \<or> parents = [] \<or>
           \<not> list_ex (\<lambda>p. p \<in> set stale) parents \<or>
           \<not> list_all (\<lambda>p. case dget nodes p of None \<Rightarrow> True
               | Some t \<Rightarrow> t_status t \<in> set OK_TERMINAL \<or> p \<in> set stale) parents
        then None
        else Some [(''role'', JStr ''stale_reviewer''), (''assignee'', JStr assignee),
          (''parents'', JArr (map JStr (sort (remdups parents))))]
    | None \<Rightarrow> None)"

fun reviewer_roles :: "board \<Rightarrow> nodes \<Rightarrow> string list \<Rightarrow> (string \<Rightarrow> string list) \<Rightarrow> nodes \<Rightarrow> provenance \<Rightarrow> dict + provenance" where
  "reviewer_roles b nodes stale parents [] prov = Inr prov"
| "reviewer_roles b nodes stale parents ((node_id, node) # rest) prov =
     (if t_status node \<notin> set ARCHIVE then reviewer_roles b nodes stale parents rest prov
      else (case reviewer_role b nodes stale (parents node_id) node_id of
          None \<Rightarrow> Inl (provenance_failure node_id (t_status node) ''missing_reviewer_provenance'')
        | Some item \<Rightarrow> reviewer_roles b nodes stale parents rest (prov @ [(node_id, item)])))"

definition others_sorted :: "nodes \<Rightarrow> string \<Rightarrow> nodes" where
  "others_sorted nodes root = filter (\<lambda>p. fst p \<noteq> root) (sort_key fst nodes)"

definition node_provenance ::
  "board \<Rightarrow> string \<Rightarrow> task_ref \<Rightarrow> nodes \<Rightarrow> (string \<times> string) list \<Rightarrow> (int \<times> string) list option \<Rightarrow> (dict + provenance) res" where
  "node_provenance b root ref nodes edges merged =
     (let parents = direct_parents nodes edges; rest = others_sorted nodes root in
      case rework_roles b ref merged parents rest [(root, [(''role'', JStr ''intake_root'')])] of
        Inr (Inr prov) \<Rightarrow> Inr (reviewer_roles b nodes (ids_with_role ''stale_rework'' prov) parents rest prov)
      | r \<Rightarrow> r)"

definition node_has_active_ownership :: "task \<Rightarrow> bool" where
  "node_has_active_ownership t \<longleftrightarrow> t_status t = ''running'' \<or> t_claim_lock t \<notin> {None, Some []} \<or>
     t_worker_pid t \<notin> {None, Some 0} \<or> t_current_run t \<notin> {None, Some 0}"

end
