(* ===== verification/TerminalConvergence.thy ===== *)
theory TerminalConvergence
  imports TerminalProvenance
begin

text \<open>
  Terminal convergence (edge/kanban-github-sync.py): one pass that moves a whole stale graph to terminal
  states once GitHub proves the Issue closed and every linked pull request merged. The graph is read, GitHub
  is asked, and everything is read again under the write lock before the first update. Statements 1 to 5 read
  before the transaction, 6 takes the lock, and from 12 on each card has an update and an event.
\<close>

section \<open>Evidence from GitHub\<close>

definition issue_is_closed :: "edge_net \<Rightarrow> task_ref \<Rightarrow> edge_call list \<Rightarrow> bool edge_result" where
  "issue_is_closed n ref calls = and_then (edge_get n (issue_path ref (r_issue ref)) [] calls) (\<lambda>(payload, _) calls.
     case payload of
       JObj d \<Rightarrow> (let state = casefold (py_str (dget_or d ''state'' (JStr []))) in
         if state \<notin> {''open'', ''closed''}
         then (completion_error (''GitHub returned incomplete Issue data for #'' @ int_str (r_issue ref)), calls)
         else (Inr (state = ''closed''), calls))
     | _ \<Rightarrow> (completion_error (''GitHub returned an invalid Issue response for #'' @ int_str (r_issue ref)), calls))"

definition merged_json :: "pull \<Rightarrow> json" where
  "merged_json pr = JObj [(''number'', JInt (pr_number pr)), (''head_sha'', JStr (pr_head_sha pr)),
     (''base_branch'', JStr (pr_base pr))]"

definition closure_evidence :: "task_ref \<Rightarrow> pull list \<Rightarrow> dict" where
  "closure_evidence ref prs = [(''issue_state'', JStr ''closed''), (''target_branch'', JStr (r_target ref)),
     (''merged_prs'', JArr (map merged_json prs))]"

definition terminal_convergence_evidence :: "edge_net \<Rightarrow> task_ref \<Rightarrow> decision \<Rightarrow> edge_call list \<Rightarrow> dict option edge_result" where
  "terminal_convergence_evidence n ref d calls =
     (if \<not> authoritative d \<or> d_status d \<noteq> Some ''done'' \<or> d_pulls d = [] \<or> \<not> list_all (merged_into ref) (d_pulls d)
      then (Inr None, calls)
      else (case issue_is_closed n ref calls of
          (Inl (CompletionError _ _), calls) \<Rightarrow> (Inr None, calls)
        | (Inl e, calls) \<Rightarrow> (Inl e, calls)
        | (Inr closed, calls) \<Rightarrow> (Inr (if closed then Some (closure_evidence ref (d_pulls d)) else None), calls)))"

text \<open>The heads of the merged pull requests; of equal numbers the last one counts.\<close>

definition merged_heads :: "pull list \<Rightarrow> (int \<times> string) list" where
  "merged_heads prs = foldl (\<lambda>heads pr. dset (pr_number pr) (pr_head_sha pr) heads) [] prs"

section \<open>Replies\<close>

definition node_evidence :: "string \<Rightarrow> string \<Rightarrow> json" where
  "node_evidence node_id status = JObj [(''node_id'', JStr node_id), (''node_status'', JStr status)]"

definition ambiguous :: "string \<Rightarrow> string \<Rightarrow> string \<Rightarrow> dict" where
  "ambiguous root status m = unchanged root status ''terminal_convergence_ambiguous_graph'' [(''error'', JStr m)]"

definition unconvergeable :: "string \<Rightarrow> string \<Rightarrow> dict \<Rightarrow> dict" where
  "unconvergeable root status failed = unchanged root status ''terminal_convergence_node_unconvergeable'' [(''evidence'', JObj failed)]"

definition drifted :: "string \<Rightarrow> string \<Rightarrow> dict \<Rightarrow> dict" where
  "drifted root status evidence = unchanged root status ''terminal_convergence_state_changed'' [(''evidence'', JObj evidence)]"

definition owned :: "string \<Rightarrow> string \<Rightarrow> string \<times> task \<Rightarrow> dict" where
  "owned root status p = unchanged root status ''terminal_convergence_active_ownership''
     [(''evidence'', node_evidence (fst p) (t_status (snd p)))]"

definition first_owned :: "nodes \<Rightarrow> (string \<times> task) option" where
  "first_owned nodes = find (\<lambda>p. node_has_active_ownership (snd p)) (sort_key fst nodes)"

definition provenance_json :: "provenance \<Rightarrow> json" where
  "provenance_json prov = JObj (map (\<lambda>p. (fst p, JObj (snd p))) prov)"

definition strings_json :: "string list \<Rightarrow> json" where
  "strings_json ss = JArr (map JStr ss)"

definition edges_json :: "(string \<times> string) list \<Rightarrow> json" where
  "edges_json edges = JArr (map (\<lambda>l. JArr [JStr (fst l), JStr (snd l)]) edges)"

text \<open>Equality of dicts, whatever their order.\<close>

definition dict_same :: "('k \<times> 'v) list \<Rightarrow> ('k \<times> 'v) list \<Rightarrow> bool" where
  "dict_same d e \<longleftrightarrow> list_all (\<lambda>p. dget e (fst p) = Some (snd p)) d \<and> list_all (\<lambda>p. dget d (fst p) = Some (snd p)) e"

section \<open>The transaction\<close>

definition unclaimed_in :: "string \<Rightarrow> string \<Rightarrow> task \<Rightarrow> bool" where
  "unclaimed_in node_id status t \<longleftrightarrow> t_id t = node_id \<and> t_status t = status \<and> t_claim_lock t = None \<and>
     t_worker_pid t = None \<and> t_current_run t = None"

definition terminalized :: "int \<Rightarrow> task \<Rightarrow> task" where
  "terminalized now t = (release_task t)\<lparr>t_status := ''done'', t_completed_at := Some now, t_current_run := None\<rparr>"

definition archived_unstarted :: "task \<Rightarrow> task" where
  "archived_unstarted t = (release_task t)\<lparr>t_status := ''archived'', t_assignee := None, t_current_run := None\<rparr>"

definition convergence_payload :: "string \<Rightarrow> string \<Rightarrow> string \<Rightarrow> dict \<Rightarrow> dict \<Rightarrow> dict" where
  "convergence_payload previous new reason extra evidence =
     [(''source'', JStr ''github''), (''previous_status'', JStr previous), (''new_status'', JStr new), (''reason'', JStr reason)] @
     extra @ evidence @ [(''merge_authority'', JStr ''human''), (''auto_merge'', JBool False)]"

text \<open>One card: the update must hit it, unclaimed and in the status that was read, and its event follows.\<close>

definition converge_card ::
  "db_env \<Rightarrow> nat \<Rightarrow> string \<Rightarrow> string \<Rightarrow> (db \<Rightarrow> bool) \<Rightarrow> (task \<Rightarrow> task) \<Rightarrow> string \<Rightarrow> dict \<Rightarrow> db \<Rightarrow> unit db_result" where
  "converge_card env k node_id status guard change shown payload = sql_locked env k (\<lambda>c.
     let (rowcount, c') = update_tasks (\<lambda>t. unclaimed_in node_id status t \<and> guard c) change c in
     if rowcount \<noteq> 1 then (Inl (SyncError (''terminal convergence state changed during sync: '' @ shown)), c')
     else sql_locked env (k + 1) (\<lambda>c. (Inr (), append_sync_event env node_id payload ''github_pr_sync'' c)) c')"

fun converge_cards ::
  "db_env \<Rightarrow> nat \<Rightarrow> nodes \<Rightarrow> (task \<Rightarrow> task) \<Rightarrow> (string \<Rightarrow> dict) \<Rightarrow> string list \<Rightarrow> db \<Rightarrow> unit db_result" where
  "converge_cards env k nodes change payload [] c = (Inr (), c)"
| "converge_cards env k nodes change payload (node_id # rest) c = (case dget nodes node_id of
      None \<Rightarrow> (Inl (PyError ''KeyError''), c)
    | Some t \<Rightarrow> (case converge_card env k node_id (t_status t) (\<lambda>_. True) change node_id (payload (t_status t)) c of
        (Inl e, c) \<Rightarrow> (Inl e, c)
      | (Inr _, c) \<Rightarrow> converge_cards env (k + 2) nodes change payload rest c))"

text \<open>What was read before the transaction.\<close>

record convergence_plan =
  v_root :: string
  v_status :: string
  v_body :: string
  v_parents :: "(string \<times> string) list"
  v_nodes :: nodes
  v_edges :: "(string \<times> string) list"
  v_heads :: "(int \<times> string) list"
  v_provenance :: provenance
  v_evidence :: dict

definition plan_terminalize :: "convergence_plan \<Rightarrow> string list" where
  "plan_terminalize p = ids_with_role ''stale_rework'' (v_provenance p)"

definition plan_archive :: "convergence_plan \<Rightarrow> string list" where
  "plan_archive p = ids_with_role ''stale_reviewer'' (v_provenance p)"

definition converged_ids :: "convergence_plan \<Rightarrow> string list" where
  "converged_ids p = sort (plan_terminalize p @ plan_archive p)"

definition full_evidence :: "convergence_plan \<Rightarrow> dict" where
  "full_evidence p = v_evidence p @ [(''convergence_provenance'',
     provenance_json (filter (\<lambda>q. fst q \<noteq> v_root p) (v_provenance p)))]"

definition write_convergence :: "db_env \<Rightarrow> convergence_plan \<Rightarrow> db \<Rightarrow> dict db_result" where
  "write_convergence env p c =
     (let evidence = full_evidence p; rework_ids = plan_terminalize p; review_ids = plan_archive p;
          k = 12 + 2 * length rework_ids in
      case converge_cards env 12 (v_nodes p) (terminalized (db_now env))
          (\<lambda>status. convergence_payload status ''done'' ''terminal_merge_convergence'' [] evidence) rework_ids c of
        (Inl e, c) \<Rightarrow> (Inl e, c)
      | (Inr _, c) \<Rightarrow>
      (case converge_cards env k (v_nodes p) archived_unstarted
          (\<lambda>status. convergence_payload status ''archived'' ''terminal_merge_convergence_archived_unstarted'' [] evidence) review_ids c of
        (Inl e, c) \<Rightarrow> (Inl e, c)
      | (Inr _, c) \<Rightarrow>
      (case converge_card env (k + 2 * length review_ids) (v_root p) (v_status p) (\<lambda>c. dependency_guard (v_root p) (working c))
          (terminalized (db_now env)) ''root''
          (convergence_payload (v_status p) ''done'' ''terminal_merge_convergence''
            [(''converged'', strings_json (converged_ids p))] evidence) c of
        (Inl e, c) \<Rightarrow> (Inl e, c)
      | (Inr _, c) \<Rightarrow>
        (Inr [(''task_id'', JStr (v_root p)), (''status'', JStr ''done''), (''changed'', JBool True),
           (''reason'', JStr ''terminal_merge_convergence''),
           (''evidence'', JObj (evidence @ [(''converged'', strings_json (converged_ids p))]))], c))))"

text \<open>The second reading, under the lock: graph, links, root, parents, ownership and roles are as they were.\<close>

definition all_parents :: "board \<Rightarrow> string \<Rightarrow> (string \<times> string) list res" where
  "all_parents b root = gate_rows b (parents_of root b)"

definition recheck_roles :: "db_env \<Rightarrow> task_ref \<Rightarrow> convergence_plan \<Rightarrow> nodes \<Rightarrow> (string \<times> string) list \<Rightarrow> db \<Rightarrow> dict db_result" where
  "recheck_roles env ref p nodes edges = sql_locked env 11 (\<lambda>c.
     case node_provenance (working c) (v_root p) ref nodes edges (Some (v_heads p)) of
       Inl e \<Rightarrow> (Inl e, c)
     | Inr (Inl failed) \<Rightarrow> (Inr (unconvergeable (v_root p) (v_status p) failed), c)
     | Inr (Inr prov) \<Rightarrow> if prov \<noteq> v_provenance p
         then (Inr (drifted (v_root p) (v_status p) [(''expected_provenance'', provenance_json (v_provenance p)),
             (''actual_provenance'', provenance_json prov)]), c)
         else write_convergence env p c)"

definition recheck_parents :: "db_env \<Rightarrow> task_ref \<Rightarrow> convergence_plan \<Rightarrow> nodes \<Rightarrow> (string \<times> string) list \<Rightarrow> db \<Rightarrow> dict db_result" where
  "recheck_parents env ref p nodes edges c =
     (let root = v_root p; status = v_status p in
      case sql_locked env 10 (\<lambda>c. (all_parents (working c) root, c)) c of
        (Inl (SyncError m), c) \<Rightarrow> (Inr (ambiguous root status (''SyncError: '' @ m)), c)
      | (Inl (DbError m), c) \<Rightarrow> (Inr (ambiguous root status m), c)
      | (Inl e, c) \<Rightarrow> (Inl e, c)
      | (Inr parents, c) \<Rightarrow>
        if parents \<noteq> v_parents p
        then (Inr (drifted root status [(''expected_parents'', JArr (map parent_json (v_parents p))),
            (''actual_parents'', JArr (map parent_json parents))]), c)
        else (case first_owned nodes of Some q \<Rightarrow> (Inr (owned root status q), c)
          | None \<Rightarrow> recheck_roles env ref p nodes edges c))"

definition recheck_root :: "db_env \<Rightarrow> task_ref \<Rightarrow> convergence_plan \<Rightarrow> nodes \<Rightarrow> (string \<times> string) list \<Rightarrow> db \<Rightarrow> dict db_result" where
  "recheck_root env ref p nodes edges = sql_locked env 9 (\<lambda>c.
     if (case task_row (v_root p) (working c) of None \<Rightarrow> True
          | Some t \<Rightarrow> body_text t \<noteq> v_body p \<or> t_status t \<noteq> v_status p)
     then (Inr (drifted (v_root p) (v_status p) (obj_of (node_evidence (v_root p) (v_status p)))), c)
     else recheck_parents env ref p nodes edges c)"

definition recheck_graph :: "db_env \<Rightarrow> task_ref \<Rightarrow> convergence_plan \<Rightarrow> db \<Rightarrow> dict db_result" where
  "recheck_graph env ref p = sql_locked env 7 (\<lambda>c.
     let root = v_root p; status = v_status p in
     case terminal_chain_ancestors (working c) root of
       Inl m \<Rightarrow> (Inr (ambiguous root status m), c)
     | Inr nodes \<Rightarrow>
       (case sql_locked env 8 (\<lambda>c. (Inr (terminal_chain_edge_snapshot (working c) (keys_of nodes)), c)) c of
          (Inl (DbError m), c) \<Rightarrow> (Inr (ambiguous root status m), c)
        | (Inl e, c) \<Rightarrow> (Inl e, c)
        | (Inr edges, c) \<Rightarrow>
          if \<not> dict_same nodes (v_nodes p) \<or> edges \<noteq> v_edges p
          then (Inr (drifted root status [(''expected_node_ids'', strings_json (sort (keys_of (v_nodes p)))),
              (''actual_node_ids'', strings_json (sort (keys_of nodes))),
              (''expected_edges'', edges_json (v_edges p)), (''actual_edges'', edges_json edges)]), c)
          else recheck_root env ref p nodes edges c))"

definition converge :: "db_env \<Rightarrow> task_ref \<Rightarrow> convergence_plan \<Rightarrow> db \<Rightarrow> dict db_result" where
  "converge env ref p c = with_conn env (sql env 6 (recheck_graph env ref p) c)"

section \<open>The pass\<close>

text \<open>GitHub has proved the closure: the roles again, now with the merged heads, and then the transaction.\<close>

definition verified_pass ::
  "db_env \<Rightarrow> task_ref \<Rightarrow> bool \<Rightarrow> convergence_plan \<Rightarrow> edge_world \<Rightarrow> dict option sync_result" where
  "verified_pass env ref dry_run p w =
     and_then (reading env 5 (\<lambda>b. node_provenance b (v_root p) ref (v_nodes p) (v_edges p) (Some (v_heads p))) w) (\<lambda>prov w.
       case prov of
         Inl failed \<Rightarrow> (Inr (Some (unconvergeable (v_root p) (v_status p) failed)), w)
       | Inr prov \<Rightarrow>
         if prov \<noteq> v_provenance p
         then (Inr (Some (drifted (v_root p) (v_status p) [(''expected_provenance'', provenance_json (v_provenance p)),
             (''actual_provenance'', provenance_json prov)])), w)
         else if dry_run
         then (Inr (Some (unchanged (v_root p) (v_status p) ''terminal_merge_convergence_predicted''
             [(''evidence'', JObj (full_evidence p @ [(''terminalize'', strings_json (plan_terminalize p)),
               (''archive'', strings_json (plan_archive p))]))])), w)
         else and_then (on_db (converge env ref p) w) (\<lambda>out w. (Inr (Some out), w)))"

definition ask_github ::
  "edge_net \<Rightarrow> db_env \<Rightarrow> task_ref \<Rightarrow> string list \<Rightarrow> bool \<Rightarrow> convergence_plan \<Rightarrow> edge_world \<Rightarrow> dict option sync_result" where
  "ask_github n env ref sources dry_run p w =
     and_then (on_net (verify_completion n ref sources) w) (\<lambda>d w.
     and_then (on_net (terminal_convergence_evidence n ref d) w) (\<lambda>evidence w.
       case evidence of
         None \<Rightarrow> (Inr None, w)
       | Some e \<Rightarrow> verified_pass env ref dry_run (p\<lparr>v_heads := merged_heads (d_pulls d), v_evidence := e\<rparr>) w))"

text \<open>The graph as it is: owned by nobody, and every ancestor has a role.\<close>

definition stale_graph ::
  "edge_net \<Rightarrow> db_env \<Rightarrow> task \<Rightarrow> task_ref \<Rightarrow> string list \<Rightarrow> bool \<Rightarrow> (string \<times> string) list \<Rightarrow> nodes \<Rightarrow> (string \<times> string) list \<Rightarrow>
   edge_world \<Rightarrow> dict option sync_result" where
  "stale_graph n env row ref sources dry_run parents nodes edges w =
     (let root = t_id row; status = t_status row in
      case first_owned nodes of
        Some q \<Rightarrow> (Inr (if status = ''review'' then None else Some (owned root status q)), w)
      | None \<Rightarrow> and_then (reading env 4 (\<lambda>b. node_provenance b root ref nodes edges None) w) (\<lambda>prov w.
          case prov of
            Inl failed \<Rightarrow> (Inr (Some (unconvergeable root status failed)), w)
          | Inr prov \<Rightarrow> ask_github n env ref sources dry_run
              \<lparr>v_root = root, v_status = status, v_body = body_text row, v_parents = parents, v_nodes = nodes,
               v_edges = edges, v_heads = [], v_provenance = prov, v_evidence = []\<rparr> w))"

definition read_graph ::
  "edge_net \<Rightarrow> db_env \<Rightarrow> task \<Rightarrow> task_ref \<Rightarrow> string list \<Rightarrow> bool \<Rightarrow> (string \<times> string) list \<Rightarrow> edge_world \<Rightarrow> dict option sync_result" where
  "read_graph n env row ref sources dry_run parents w =
     (let root = t_id row; status = t_status row in
      and_then (reading env 2 (\<lambda>b. Inr (terminal_chain_ancestors b root)) w) (\<lambda>nodes w.
        case nodes of
          Inl m \<Rightarrow> (Inr (Some (ambiguous root status m)), w)
        | Inr nodes \<Rightarrow>
          and_then (on_db_error (and_then (reading env 3 (\<lambda>b. Inr (terminal_chain_edge_snapshot b (keys_of nodes))) w)
              (\<lambda>edges w. (Inr (Inr edges), w))) (\<lambda>m w. (Inr (Inl m), w))) (\<lambda>edges w.
            case edges of
              Inl m \<Rightarrow> (Inr (Some (ambiguous root status m)), w)
            | Inr edges \<Rightarrow> stale_graph n env row ref sources dry_run parents nodes edges w)))"

text \<open>None leaves the card to the other lanes.\<close>

definition dependency_ambiguous :: "task \<Rightarrow> string \<Rightarrow> dict" where
  "dependency_ambiguous row m = unchanged (t_id row) (t_status row) ''terminal_convergence_dependency_ambiguous'' [(''error'', JStr m)]"

definition attempt_terminal_merge_convergence ::
  "edge_net \<Rightarrow> db_env \<Rightarrow> task \<Rightarrow> task_ref \<Rightarrow> string list \<Rightarrow> bool \<Rightarrow> edge_world \<Rightarrow> dict option sync_result" where
  "attempt_terminal_merge_convergence n env row ref sources dry_run w =
     (if t_status row \<notin> set ROOT_STATUSES \<or> \<not> is_github_backed_body (body_text row) then (Inr None, w)
      else (case reading env 1 (\<lambda>b. all_parents b (t_id row)) w of
          (Inl (SyncError m), w) \<Rightarrow> (Inr (Some (dependency_ambiguous row (''SyncError: '' @ m))), w)
        | (Inl (DbError m), w) \<Rightarrow> (Inr (Some (dependency_ambiguous row m)), w)
        | (Inl e, w) \<Rightarrow> (Inl e, w)
        | (Inr parents, w) \<Rightarrow>
          if filter (\<lambda>p. snd p \<notin> set DEPENDENCY_TERMINAL_STATES) parents = [] then (Inr None, w)
          else read_graph n env row ref sources dry_run parents w))"

end
