(* ===== verification/TerminalGuarantees.thy ===== *)
theory TerminalGuarantees
  imports TerminalConvergence TransitionGuarantees CompletionGuarantees
begin

text \<open>
  What terminal convergence promises: it writes nothing, or in one transaction brings every card above
  the root to a terminal state, blocked work to done and unstarted reviews to archived, when none of them is
  owned, the graph is sound and GitHub proved the merge. The board is the one under the write lock.
\<close>

section \<open>Roles\<close>

lemma role_simps [simp]: "role_of [(''role'', JStr r), p] s \<longleftrightarrow> r = s" "role_of [(''role'', JStr r)] s \<longleftrightarrow> r = s"
  "role_of (dset ''role'' (JStr r) item) s \<longleftrightarrow> r = s" "role_of [(''role'', JStr r), p, q] s \<longleftrightarrow> r = s"
  by (simp_all add: role_of_def dget_py_def dget_or_def)

lemma role_unique: "role_of item r \<Longrightarrow> role_of item s \<Longrightarrow> r = s"
  by (simp add: role_of_def)

text \<open>Where the items come from: each is the item of one card in the list, in a status that goes with its role.\<close>

definition items_of :: "(string \<Rightarrow> dict \<Rightarrow> bool) \<Rightarrow> nodes \<Rightarrow> provenance \<Rightarrow> bool" where
  "items_of fits ns new \<longleftrightarrow> (\<forall>q \<in> set new. \<exists>t. (fst q, t) \<in> set ns \<and> fits (t_status t) (snd q)) \<and>
     (distinct (map fst ns) \<longrightarrow> distinct (map fst new))"

lemma items_empty [simp]: "items_of fits [] []"
  by (simp add: items_of_def)

lemma items_skip: "items_of fits ns new \<Longrightarrow> items_of fits (p # ns) new"
  by (force simp: items_of_def)

lemma items_add:
  assumes "items_of fits ns new" and "fits (t_status t) item"
  shows "items_of fits ((x, t) # ns) ((x, item) # new)"
proof -
  have "x \<in> fst ` set new \<Longrightarrow> x \<in> fst ` set ns" using assms(1) by (force simp: items_of_def)
  with assms show ?thesis by (auto simp: items_of_def)
qed

definition rework_fits :: "string \<Rightarrow> dict \<Rightarrow> bool" where
  "rework_fits s item \<longleftrightarrow> s \<in> set OK_TERMINAL \<and> role_of item ''already_terminal'' \<or>
     s \<in> set TERMINALIZE \<and> role_of item ''stale_rework''"

definition reviewer_fits :: "string \<Rightarrow> dict \<Rightarrow> bool" where
  "reviewer_fits s item \<longleftrightarrow> s \<in> set ARCHIVE \<and> role_of item ''stale_reviewer''"

lemma statuses_apart: "s \<in> set OK_TERMINAL \<Longrightarrow> s \<notin> set TERMINALIZE" "s \<in> set OK_TERMINAL \<Longrightarrow> s \<notin> set ARCHIVE"
  "s \<in> set TERMINALIZE \<Longrightarrow> s \<notin> set ARCHIVE"
  by (auto simp: OK_TERMINAL_def TERMINALIZE_def ARCHIVE_def)

lemma rework_role_stale: "rework_role b ref merged ps x s = Inr (Inr item) \<Longrightarrow> role_of item ''stale_rework''"
  by (auto simp: rework_role_def split: sum.split_asm option.split_asm prod.split_asm if_split_asm)

lemma rework_roles_items:
  "rework_roles b ref merged parents ns prov = Inr (Inr prov') \<Longrightarrow>
   \<exists>new. prov' = prov @ new \<and> items_of rework_fits ns new \<and>
     (\<forall>p \<in> set ns. t_status (snd p) \<in> set (OK_TERMINAL @ TERMINALIZE @ ARCHIVE) \<and>
       (t_status (snd p) \<in> set TERMINALIZE \<longrightarrow> (\<exists>item. (fst p, item) \<in> set new \<and> role_of item ''stale_rework'')))"
proof (induction ns arbitrary: prov)
  case (Cons p ns)
  obtain x t where p: "p = (x, t)" by fastforce
  let ?s = "t_status t"
  consider (ok) "?s \<in> set OK_TERMINAL" | (work) "?s \<in> set TERMINALIZE" | (wait) "?s \<in> set ARCHIVE" "?s \<notin> set TERMINALIZE" "?s \<notin> set OK_TERMINAL"
    using Cons.prems by (auto simp: p Let_def split: if_split_asm)
  then show ?case
  proof cases
    case ok
    let ?i = "[(''role'', JStr ''already_terminal''), (''status'', JStr ?s)]"
    from ok Cons.prems have "rework_roles b ref merged parents ns (prov @ [(x, ?i)]) = Inr (Inr prov')" by (simp add: p)
    from Cons.IH [OF this] obtain new where new: "prov' = prov @ (x, ?i) # new" "items_of rework_fits ns new"
      "\<forall>p \<in> set ns. t_status (snd p) \<in> set (OK_TERMINAL @ TERMINALIZE @ ARCHIVE) \<and>
       (t_status (snd p) \<in> set TERMINALIZE \<longrightarrow> (\<exists>item. (fst p, item) \<in> set new \<and> role_of item ''stale_rework''))" by auto
    have "items_of rework_fits (p # ns) ((x, ?i) # new)"
      unfolding p by (rule items_add [OF new(2)]) (simp add: rework_fits_def ok)
    with new ok statuses_apart show ?thesis by (intro exI [of _ "(x, ?i) # new"]) (auto simp: p)
  next
    case work
    then have "?s \<notin> set OK_TERMINAL" using statuses_apart by blast
    with work Cons.prems obtain item where i: "rework_role b ref merged (parents x) x ?s = Inr (Inr item)"
      and r: "rework_roles b ref merged parents ns (prov @ [(x, item)]) = Inr (Inr prov')"
      by (auto simp: p Let_def split: sum.split_asm)
    from Cons.IH [OF r] obtain new where new: "prov' = prov @ (x, item) # new" "items_of rework_fits ns new"
      "\<forall>p \<in> set ns. t_status (snd p) \<in> set (OK_TERMINAL @ TERMINALIZE @ ARCHIVE) \<and>
       (t_status (snd p) \<in> set TERMINALIZE \<longrightarrow> (\<exists>item. (fst p, item) \<in> set new \<and> role_of item ''stale_rework''))" by auto
    have "items_of rework_fits (p # ns) ((x, item) # new)"
      unfolding p by (rule items_add [OF new(2)]) (simp add: rework_fits_def work rework_role_stale [OF i])
    with new work rework_role_stale [OF i] show ?thesis by (intro exI [of _ "(x, item) # new"]) (auto simp: p)
  next
    case wait
    with Cons.prems have "rework_roles b ref merged parents ns prov = Inr (Inr prov')" by (simp add: p Let_def)
    from Cons.IH [OF this] items_skip wait show ?thesis by (fastforce simp: p)
  qed
qed auto

lemma reviewer_roles_items:
  "reviewer_roles b nodes stale parents ns prov = Inr prov' \<Longrightarrow>
   \<exists>new. prov' = prov @ new \<and> items_of reviewer_fits ns new \<and>
     (\<forall>p \<in> set ns. t_status (snd p) \<in> set ARCHIVE \<longrightarrow> (\<exists>item. (fst p, item) \<in> set new \<and> role_of item ''stale_reviewer''))"
proof (induction ns arbitrary: prov)
  case (Cons p ns)
  obtain x t where p: "p = (x, t)" by fastforce
  show ?case
  proof (cases "t_status t \<in> set ARCHIVE")
    case True
    with Cons.prems obtain item where i: "reviewer_role b nodes stale (parents x) x = Some item"
      and r: "reviewer_roles b nodes stale parents ns (prov @ [(x, item)]) = Inr prov'"
      by (auto simp: p split: option.split_asm)
    have role: "role_of item ''stale_reviewer''"
      using i by (auto simp: reviewer_role_def split: option.split_asm prod.split_asm if_split_asm)
    from Cons.IH [OF r] obtain new where new: "prov' = prov @ (x, item) # new" "items_of reviewer_fits ns new"
      "\<forall>p \<in> set ns. t_status (snd p) \<in> set ARCHIVE \<longrightarrow> (\<exists>item. (fst p, item) \<in> set new \<and> role_of item ''stale_reviewer'')" by auto
    have "items_of reviewer_fits (p # ns) ((x, item) # new)"
      unfolding p by (rule items_add [OF new(2)]) (simp add: reviewer_fits_def True role)
    with new role show ?thesis by (intro exI [of _ "(x, item) # new"]) (auto simp: p)
  next
    case False
    with Cons.prems have "reviewer_roles b nodes stale parents ns prov = Inr prov'" by (simp add: p)
    from Cons.IH [OF this] items_skip False show ?thesis by (fastforce simp: p)
  qed
qed auto

text \<open>The roles of a whole graph.\<close>

lemma ids_with_role_mem: "x \<in> set (ids_with_role role prov) \<longleftrightarrow> (\<exists>item. (x, item) \<in> set prov \<and> role_of item role)"
  by (force simp: ids_with_role_def)

lemma ids_with_role_distinct: "distinct (map fst prov) \<Longrightarrow> distinct (ids_with_role role prov)"
  by (simp add: ids_with_role_def distinct_map_filter)

lemma provenance_roles:
  assumes prov: "node_provenance b root ref nodes edges merged = Inr (Inr prov)" and keys: "distinct (map fst nodes)"
  shows "distinct (map fst prov)"
    and "x \<in> set (ids_with_role ''stale_rework'' prov) \<Longrightarrow> x \<noteq> root \<and> (\<exists>t. (x, t) \<in> set nodes \<and> t_status t \<in> set TERMINALIZE)"
    and "x \<in> set (ids_with_role ''stale_reviewer'' prov) \<Longrightarrow> x \<noteq> root \<and> (\<exists>t. (x, t) \<in> set nodes \<and> t_status t \<in> set ARCHIVE)"
    and "(x, t) \<in> set nodes \<Longrightarrow> x \<noteq> root \<Longrightarrow> t_status t \<in> set OK_TERMINAL \<or>
      x \<in> set (ids_with_role ''stale_rework'' prov) \<or> x \<in> set (ids_with_role ''stale_reviewer'' prov)"
proof -
  let ?rest = "others_sorted nodes root" and ?root = "(root, [(''role'', JStr ''intake_root'')])"
  let ?parents = "direct_parents nodes edges"
  have rest: "set ?rest = {p \<in> set nodes. fst p \<noteq> root}" "distinct (map fst ?rest)"
    using keys distinct_map_filter [of fst "sort_key fst nodes"] by (auto simp: others_sorted_def distinct_map)
  obtain prov1 where p1: "rework_roles b ref merged ?parents ?rest [?root] = Inr (Inr prov1)"
    and p2: "reviewer_roles b nodes (ids_with_role ''stale_rework'' prov1) ?parents ?rest prov1 = Inr prov"
    using prov by (auto simp: node_provenance_def Let_def split: sum.split_asm)
  from rework_roles_items [OF p1] obtain works where works: "prov1 = ?root # works" "items_of rework_fits ?rest works"
    "\<forall>p \<in> set ?rest. t_status (snd p) \<in> set (OK_TERMINAL @ TERMINALIZE @ ARCHIVE) \<and>
       (t_status (snd p) \<in> set TERMINALIZE \<longrightarrow> (\<exists>item. (fst p, item) \<in> set works \<and> role_of item ''stale_rework''))" by auto
  from reviewer_roles_items [OF p2] obtain revs where revs: "prov = ?root # works @ revs" "items_of reviewer_fits ?rest revs"
    "\<forall>p \<in> set ?rest. t_status (snd p) \<in> set ARCHIVE \<longrightarrow> (\<exists>item. (fst p, item) \<in> set revs \<and> role_of item ''stale_reviewer'')"
    using works(1) by auto
  have once: "(x, t) \<in> set ?rest \<Longrightarrow> (x, t') \<in> set ?rest \<Longrightarrow> t = t'" for x t t'
    using rest(2) by (auto dest: eq_key_imp_eq_value)
  have w: "\<exists>t. (x, t) \<in> set ?rest \<and> rework_fits (t_status t) item" if "(x, item) \<in> set works" for x item
    using works(2) that by (force simp: items_of_def)
  have r: "\<exists>t. (x, t) \<in> set ?rest \<and> reviewer_fits (t_status t) item" if "(x, item) \<in> set revs" for x item
    using revs(2) that by (force simp: items_of_def)
  have "fst ` set works \<inter> fst ` set revs = {}"
  proof -
    have False if "(x, i) \<in> set works" "(x, j) \<in> set revs" for x i j
      using w [OF that(1)] r [OF that(2)] once statuses_apart by (fastforce simp: rework_fits_def reviewer_fits_def)
    then show ?thesis by force
  qed
  moreover have "root \<notin> fst ` set works" "root \<notin> fst ` set revs" using w r rest(1) by force+
  moreover have "distinct (map fst works)" "distinct (map fst revs)" using works(2) revs(2) rest(2) by (simp_all add: items_of_def)
  ultimately show "distinct (map fst prov)" by (auto simp: revs(1))
  show "x \<in> set (ids_with_role ''stale_rework'' prov) \<Longrightarrow> x \<noteq> root \<and> (\<exists>t. (x, t) \<in> set nodes \<and> t_status t \<in> set TERMINALIZE)"
  proof -
    assume "x \<in> set (ids_with_role ''stale_rework'' prov)"
    then obtain item where i: "(x, item) \<in> set prov" "role_of item ''stale_rework''" by (auto simp: ids_with_role_mem)
    then have "(x, item) \<in> set works" using r [of x item] role_unique [of item] by (auto simp: revs(1) reviewer_fits_def)
    with w i(2) rest(1) show ?thesis by (fastforce simp: rework_fits_def dest: role_unique)
  qed
  show "x \<in> set (ids_with_role ''stale_reviewer'' prov) \<Longrightarrow> x \<noteq> root \<and> (\<exists>t. (x, t) \<in> set nodes \<and> t_status t \<in> set ARCHIVE)"
  proof -
    assume "x \<in> set (ids_with_role ''stale_reviewer'' prov)"
    then obtain item where i: "(x, item) \<in> set prov" "role_of item ''stale_reviewer''" by (auto simp: ids_with_role_mem)
    then have "(x, item) \<in> set revs" using w [of x item] role_unique [of item] by (fastforce simp: revs(1) rework_fits_def)
    with r rest(1) show ?thesis by (fastforce simp: reviewer_fits_def)
  qed
  show "t_status t \<in> set OK_TERMINAL \<or> x \<in> set (ids_with_role ''stale_rework'' prov) \<or> x \<in> set (ids_with_role ''stale_reviewer'' prov)"
    if "(x, t) \<in> set nodes" "x \<noteq> root"
  proof -
    have "(x, t) \<in> set ?rest" using that rest(1) by simp
    with works(3) revs(3) show ?thesis unfolding ids_with_role_mem revs(1) by fastforce
  qed
qed

section \<open>The graph that was read\<close>

lemma chain_walk_keys: "chain_walk b nodes colors stack = Inr nodes' \<Longrightarrow> distinct (keys_of nodes) \<Longrightarrow> distinct (keys_of nodes')"
  by (induction b nodes colors stack rule: chain_walk.induct)
    (auto simp: distinct_keys_dset split: option.split_asm color.split_asm)

lemma ancestors_read:
  assumes "terminal_chain_ancestors b root = Inr nodes"
  shows "chain_sound b root" and "distinct (map fst nodes)"
    and "(x, t) \<in> set nodes \<longleftrightarrow> x \<in> ancestors b root \<and> map_option node_of (task_row x b) = Some t"
proof -
  show sound: "chain_sound b root" using ancestor_walk_exact [of b root] assms by (simp add: walk_result_def)
  show d: "distinct (map fst nodes)"
    using assms chain_walk_keys by (fastforce simp: terminal_chain_ancestors_def keys_of_def split: option.split_asm)
  have "dget nodes x = (if x \<in> ancestors b root then map_option node_of (task_row x b) else None)"
    using ancestor_walk_exact [of b root] assms by (simp add: walk_result_def)
  moreover have "(x, t) \<in> set nodes \<longleftrightarrow> dget nodes x = Some t"
    using d dget_Some_iff [of nodes x t] by (simp add: keys_of_def)
  ultimately show "(x, t) \<in> set nodes \<longleftrightarrow> x \<in> ancestors b root \<and> map_option node_of (task_row x b) = Some t" by simp
qed

lemma same_lookup: "dict_same d e \<Longrightarrow> dget d k = dget e k"
proof -
  assume s: "dict_same d e"
  have "dget d k = Some v \<Longrightarrow> dget e k = Some v" for v
    using s dget_Some_mem [of d k v] by (auto simp: dict_same_def list_all_iff)
  moreover have "dget e k = Some v \<Longrightarrow> dget d k = Some v" for v
    using s dget_Some_mem [of e k v] by (auto simp: dict_same_def list_all_iff)
  ultimately show ?thesis by (metis option.exhaust)
qed

section \<open>The writes\<close>

lemma row_in: "distinct (map t_id ts) \<Longrightarrow> t \<in> set ts \<Longrightarrow> find (\<lambda>u. t_id u = t_id t) ts = Some t"
  by (induction ts) (auto simp: image_iff)

lemma row_found: "task_row x b = Some t \<Longrightarrow> t \<in> set (tasks b) \<and> t_id t = x"
  by (auto simp: task_row_def find_Some_iff)

lemma row_unique: "distinct (map t_id (tasks b)) \<Longrightarrow> t \<in> set (tasks b) \<Longrightarrow> task_row (t_id t) b = Some t"
  by (simp add: task_row_def row_in)

text \<open>Some cards changed, in a board with unique ids, with events of those cards only.\<close>

definition rewritten :: "(string \<Rightarrow> task \<Rightarrow> task) \<Rightarrow> string list \<Rightarrow> board \<Rightarrow> board \<Rightarrow> bool" where
  "rewritten change ids b b' \<longleftrightarrow> tasks b' = map (\<lambda>t. if t_id t \<in> set ids then change (t_id t) t else t) (tasks b) \<and>
     task_links b' = task_links b \<and> task_runs b' = task_runs b \<and> comments b' = comments b \<and>
     (\<exists>es. events b' = events b @ es \<and> (\<forall>e \<in> set es. e_task e \<in> set ids))"

lemma rewritten_nothing: "rewritten change [] b b"
  by (simp add: rewritten_def)

lemma rewritten_append:
  assumes "rewritten f xs b b1" and "rewritten g ys b1 b2" and "\<And>x t. t_id (f x t) = t_id t" and "set xs \<inter> set ys = {}"
  shows "rewritten (\<lambda>x. if x \<in> set xs then f x else g x) (xs @ ys) b b2"
proof -
  have "tasks b2 = map (\<lambda>t. if t_id t \<in> set (xs @ ys) then (if t_id t \<in> set xs then f (t_id t) else g (t_id t)) t else t) (tasks b)"
    using assms by (auto simp: rewritten_def)
  with assms(1,2) show ?thesis by (auto simp: rewritten_def)
qed

lemma rewritten_cong: "rewritten f xs b b' \<Longrightarrow> (\<And>x. x \<in> set xs \<Longrightarrow> f x = g x) \<Longrightarrow> rewritten g xs b b'"
  by (auto simp: rewritten_def)

lemma rewritten_ids: "rewritten f xs b b' \<Longrightarrow> (\<And>x t. t_id (f x t) = t_id t) \<Longrightarrow> map t_id (tasks b') = map t_id (tasks b)"
  by (auto simp: rewritten_def)

text \<open>The row of an id after the rewriting.\<close>

lemma rewritten_row:
  assumes "rewritten f xs b b'" and "\<And>x t. t_id (f x t) = t_id t"
  shows "task_row x b' = map_option (\<lambda>t. if x \<in> set xs then f x t else t) (task_row x b)"
proof -
  have "find (\<lambda>u. t_id u = x) (map (\<lambda>t. if t_id t \<in> set xs then f (t_id t) t else t) ts) =
    map_option (\<lambda>t. if x \<in> set xs then f x t else t) (find (\<lambda>u. t_id u = x) ts)" for ts
    by (induction ts) (auto simp: assms(2))
  then show ?thesis using assms(1) by (simp add: task_row_def rewritten_def)
qed

lemma sql_locked_Inr: "sql_locked env k m c = (Inr x, c') \<Longrightarrow> m c = (Inr x, c')"
  by (auto simp: sql_locked_def split: option.split_asm)

lemma append_event_working: "working (append_sync_event env x payload kind c) =
    (working c)\<lparr>events := events (working c) @ [\<lparr>e_task = x, e_run = None, e_kind = kind, e_payload = JsonText (JObj payload), e_at = db_now env\<rparr>]\<rparr>"
  "committed (append_sync_event env x payload kind c) = committed c"
  by (simp_all add: append_sync_event_def insert_event_def)

lemma card_converged:
  assumes "converge_card env k x status guard change shown payload c = (Inr u, c')"
    and keys: "distinct (map t_id (tasks (working c)))"
  shows "committed c' = committed c" and "guard c" and "rewritten (\<lambda>_. change) [x] (working c) (working c')"
    and "\<exists>t. task_row x (working c) = Some t \<and> unclaimed_in x status t"
proof -
  let ?hit = "\<lambda>t. unclaimed_in x status t \<and> guard c"
  define c1 where "c1 = snd (update_tasks ?hit change c)"
  have n: "length (filter ?hit (tasks (working c))) = 1"
    and c': "c' = append_sync_event env x payload ''github_pr_sync'' c1"
    using sql_locked_Inr [OF assms(1) [unfolded converge_card_def]]
    by (auto simp: Let_def update_tasks_def c1_def split: if_split_asm dest: sql_locked_Inr)
  have "filter ?hit (tasks (working c)) \<noteq> []" using n by auto
  then obtain t where t: "t \<in> set (tasks (working c))" "?hit t" by (auto simp: filter_empty_conv)
  then have x: "t_id t = x" by (simp add: unclaimed_in_def)
  have "?hit u \<longleftrightarrow> t_id u = x" if "u \<in> set (tasks (working c))" for u
    using that t x keys by (auto simp: distinct_map inj_on_def unclaimed_in_def)
  then have "map (\<lambda>u. if ?hit u then change u else u) (tasks (working c)) =
      map (\<lambda>u. if t_id u \<in> set [x] then change u else u) (tasks (working c))" by auto
  then show "rewritten (\<lambda>_. change) [x] (working c) (working c')"
    by (simp add: rewritten_def c' append_event_working c1_def update_tasks_def Let_def)
  show "committed c' = committed c" by (simp add: c' append_event_working c1_def update_tasks_def Let_def)
  show "guard c" using t by simp
  from row_unique [OF keys t(1)] x t(2) show "\<exists>t. task_row x (working c) = Some t \<and> unclaimed_in x status t" by auto
qed

lemma cards_converged:
  assumes "converge_cards env k nodes change payload ids c = (Inr u, c')" and "distinct (map t_id (tasks (working c)))"
    and "distinct ids" and "\<And>t. t_id (change t) = t_id t"
  shows "committed c' = committed c \<and> rewritten (\<lambda>_. change) ids (working c) (working c') \<and>
    (\<forall>x \<in> set ids. \<exists>t n. task_row x (working c) = Some t \<and> dget nodes x = Some n \<and> unclaimed_in x (t_status n) t)"
  using assms(1-3)
proof (induction ids arbitrary: k c)
  case Nil
  then show ?case by (simp add: rewritten_nothing)
next
  case (Cons x ids)
  obtain n where n: "dget nodes x = Some n" using Cons.prems(1) by (cases "dget nodes x") auto
  obtain v c1 where one: "converge_card env k x (t_status n) (\<lambda>_. True) change x (payload (t_status n)) c = (Inr v, c1)"
    and more: "converge_cards env (k + 2) nodes change payload ids c1 = (Inr u, c')"
    using Cons.prems(1) n by (auto split: prod.split_asm sum.split_asm)
  note o = card_converged [OF one Cons.prems(2)]
  have ids: "map t_id (tasks (working c1)) = map t_id (tasks (working c))"
    by (rule rewritten_ids [OF o(3)]) (simp add: assms(4))
  with Cons.IH [OF more] Cons.prems(2,3) have r: "committed c' = committed c1" "rewritten (\<lambda>_. change) ids (working c1) (working c')"
    "\<forall>x \<in> set ids. \<exists>t n. task_row x (working c1) = Some t \<and> dget nodes x = Some n \<and> unclaimed_in x (t_status n) t" by auto
  have "rewritten (\<lambda>_. change) (x # ids) (working c) (working c')"
    using rewritten_append [OF o(3) r(2)] assms(4) Cons.prems(3) by (auto intro: rewritten_cong)
  moreover have "\<exists>t n. task_row y (working c) = Some t \<and> dget nodes y = Some n \<and> unclaimed_in y (t_status n) t" if "y \<in> set ids" for y
  proof -
    have "y \<noteq> x" using that Cons.prems(3) by auto
    with rewritten_row [OF o(3), of y] assms(4) have "task_row y (working c1) = task_row y (working c)" by (simp add: option.map_ident)
    moreover from r(3) that obtain t n where "task_row y (working c1) = Some t" "dget nodes y = Some n" "unclaimed_in y (t_status n) t"
      by blast
    ultimately show ?thesis by metis
  qed
  ultimately show ?case using o r(1) n by auto
qed

section \<open>One pass\<close>

text \<open>
  The board before the writes and after: only ancestors changed, blocked ones to done and unstarted ones to
  archived, each unclaimed; the root is done; every card above it is terminal; links and comments stay.
\<close>

definition card_moved :: "string \<Rightarrow> task \<Rightarrow> task \<Rightarrow> bool" where
  "card_moved root t t' \<longleftrightarrow> t_id t' = t_id t \<and> t_body t' = t_body t \<and>
     t_claim_lock t = None \<and> t_worker_pid t = None \<and> t_current_run t = None \<and>
     (if t_id t = root then t_status t \<noteq> ''running'' \<and> t_status t' = ''done''
      else if t_status t = ''blocked'' then t_status t' = ''done''
      else t_status t \<in> set ARCHIVE \<and> t_status t' = ''archived'')"

definition converged_board :: "string \<Rightarrow> board \<Rightarrow> board \<Rightarrow> bool" where
  "converged_board root b b' \<longleftrightarrow> chain_sound b root \<and>
     list_all2 (\<lambda>t t'. t' = t \<or> t_id t \<in> ancestors b root \<and> card_moved root t t') (tasks b) (tasks b') \<and>
     (\<forall>x \<in> ancestors b root. \<exists>t'. task_row x b' = Some t' \<and> t_status t' \<in> {''done'', ''archived''}) \<and>
     (\<exists>t'. task_row root b' = Some t' \<and> t_status t' = ''done'') \<and>
     task_links b' = task_links b \<and> comments b' = comments b \<and> task_runs b' = task_runs b \<and>
     (\<exists>es. events b' = events b @ es \<and> (\<forall>e \<in> set es. e_task e \<in> ancestors b root))"

lemma node_of_simps [simp]: "t_status (node_of t) = t_status t" "node_has_active_ownership (node_of t) = node_has_active_ownership t"
  by (simp_all add: node_of_def node_has_active_ownership_def)

lemma change_ids [simp]: "t_id (terminalized now t) = t_id t" "t_id (archived_unstarted t) = t_id t"
  "t_status (terminalized now t) = ''done''" "t_status (archived_unstarted t) = ''archived''"
  "t_body (terminalized now t) = t_body t" "t_body (archived_unstarted t) = t_body t"
  by (simp_all add: terminalized_def archived_unstarted_def release_task_def)

lemma reply_drift [simp]: "\<not> changed_reply (Inr (ambiguous root s m))" "\<not> changed_reply (Inr (unconvergeable root s d))"
  "\<not> changed_reply (Inr (drifted root s d))" "\<not> changed_reply (Inr (owned root s q))" "\<not> changed_reply (Inl e)"
  by (simp_all add: ambiguous_def unconvergeable_def drifted_def owned_def changed_reply_def unchanged_def)

text \<open>What holds when the second reading lets the writes begin.\<close>

definition may_write :: "task_ref \<Rightarrow> convergence_plan \<Rightarrow> board \<Rightarrow> bool" where
  "may_write ref p b \<longleftrightarrow> (\<exists>nodes edges. terminal_chain_ancestors b (v_root p) = Inr nodes \<and> dict_same nodes (v_nodes p) \<and>
     first_owned nodes = None \<and> (\<exists>t. task_row (v_root p) b = Some t \<and> t_status t = v_status p) \<and>
     node_provenance b (v_root p) ref nodes edges (Some (v_heads p)) = Inr (Inr (v_provenance p)))"

definition read_only :: "db \<Rightarrow> dict db_result \<Rightarrow> bool" where
  "read_only c x \<longleftrightarrow> snd x = c \<and> \<not> changed_reply (fst x)"

lemma recheck_cases:
  "read_only c (recheck_graph env ref p c) \<or>
   may_write ref p (working c) \<and> recheck_graph env ref p c = write_convergence env p c"
proof -
  have roles: "read_only c (recheck_roles env ref p nodes edges c) \<or>
      recheck_roles env ref p nodes edges c = write_convergence env p c \<and>
      node_provenance (working c) (v_root p) ref nodes edges (Some (v_heads p)) = Inr (Inr (v_provenance p))" for nodes edges
    by (auto simp: recheck_roles_def sql_locked_def read_only_def split: option.split sum.split)
  have parents: "read_only c (recheck_parents env ref p nodes edges c) \<or>
      first_owned nodes = None \<and> recheck_parents env ref p nodes edges c = recheck_roles env ref p nodes edges c" for nodes edges
    by (auto simp: recheck_parents_def sql_locked_def read_only_def Let_def split: option.split sum.split exn.split)
  have root: "read_only c (recheck_root env ref p nodes edges c) \<or>
      (\<exists>t. task_row (v_root p) (working c) = Some t \<and> t_status t = v_status p) \<and>
      recheck_root env ref p nodes edges c = recheck_parents env ref p nodes edges c" for nodes edges
    by (auto simp: recheck_root_def sql_locked_def read_only_def split: option.split)
  have "read_only c (recheck_graph env ref p c) \<or> (\<exists>nodes edges. terminal_chain_ancestors (working c) (v_root p) = Inr nodes \<and>
      dict_same nodes (v_nodes p) \<and> recheck_graph env ref p c = recheck_root env ref p nodes edges c)"
    by (auto simp: recheck_graph_def sql_locked_def read_only_def Let_def split: option.split sum.split)
  with roles parents root show ?thesis unfolding may_write_def by metis
qed

lemma write_steps:
  assumes "write_convergence env p c = (Inr out, c')"
  shows "\<exists>c1 c2 u1 u2 u3 pay1 pay2 pay3 k2 k3.
    converge_cards env 12 (v_nodes p) (terminalized (db_now env)) pay1 (plan_terminalize p) c = (Inr u1, c1) \<and>
    converge_cards env k2 (v_nodes p) archived_unstarted pay2 (plan_archive p) c1 = (Inr u2, c2) \<and>
    converge_card env k3 (v_root p) (v_status p) (\<lambda>c. dependency_guard (v_root p) (working c)) (terminalized (db_now env))
      ''root'' pay3 c2 = (Inr u3, c')"
  using assms unfolding write_convergence_def Let_def
  by (auto split: prod.split_asm sum.split_asm)

text \<open>The board with the cards of the plan rewritten.\<close>

definition planned :: "int \<Rightarrow> convergence_plan \<Rightarrow> string \<Rightarrow> task \<Rightarrow> task" where
  "planned now p x = (if x \<in> set (plan_archive p) then archived_unstarted else terminalized now)"

lemma planned_id [simp]: "t_id (planned now p x t) = t_id t"
  by (simp add: planned_def)

lemma read_status:
  assumes "(x, n) \<in> set nodes" and "terminal_chain_ancestors b root = Inr nodes" and "task_row x b = Some t"
  shows "t_status t = t_status n"
  using assms(1,3) ancestors_read(3) [OF assms(2), of x n] by auto

lemma written:
  assumes "write_convergence env p c = (Inr out, c')" and may: "may_write ref p (working c)"
    and keys: "distinct (map t_id (tasks (working c)))"
  defines "ids \<equiv> plan_terminalize p @ plan_archive p @ [v_root p]"
  shows "committed c' = committed c" and "rewritten (planned (db_now env) p) ids (working c) (working c')"
    and "x \<in> set ids \<Longrightarrow> \<exists>t s. task_row x (working c) = Some t \<and> unclaimed_in x s t"
proof -
  let ?b = "working c" and ?now = "db_now env" and ?root = "v_root p"
  let ?W = "plan_terminalize p" and ?R = "plan_archive p"
  obtain nodes edges where nodes: "terminal_chain_ancestors ?b ?root = Inr nodes"
    and prov: "node_provenance ?b ?root ref nodes edges (Some (v_heads p)) = Inr (Inr (v_provenance p))"
    using may unfolding may_write_def by blast
  note roles = provenance_roles [OF prov ancestors_read(2) [OF nodes]]
  have dist: "distinct ?W" "distinct ?R"
    using ids_with_role_distinct [OF roles(1)] by (simp_all add: plan_terminalize_def plan_archive_def)
  have apart: "set ?W \<inter> set ?R = {}" "?root \<notin> set ?W" "?root \<notin> set ?R"
  proof -
    have False if "x \<in> set ?W" "x \<in> set ?R" for x
    proof -
      from roles(2,3) that obtain t u where "(x, t) \<in> set nodes" "t_status t \<in> set TERMINALIZE" "(x, u) \<in> set nodes" "t_status u \<in> set ARCHIVE"
        unfolding plan_terminalize_def plan_archive_def by blast
      moreover have "t = u" using calculation ancestors_read(3) [OF nodes] by auto
      ultimately show False using statuses_apart by blast
    qed
    then show "set ?W \<inter> set ?R = {}" by blast
    show "?root \<notin> set ?W" "?root \<notin> set ?R"
      using roles(2,3) unfolding plan_terminalize_def plan_archive_def by blast+
  qed
  obtain c1 c2 u1 u2 u3 pay1 pay2 pay3 k2 k3 where
    s1: "converge_cards env 12 (v_nodes p) (terminalized ?now) pay1 ?W c = (Inr u1, c1)" and
    s2: "converge_cards env k2 (v_nodes p) archived_unstarted pay2 ?R c1 = (Inr u2, c2)" and
    s3: "converge_card env k3 ?root (v_status p) (\<lambda>c. dependency_guard ?root (working c)) (terminalized ?now) ''root'' pay3 c2 = (Inr u3, c')"
    using write_steps [OF assms(1)] by blast
  from cards_converged [OF s1 keys dist(1)] have w1: "committed c1 = committed c"
    "rewritten (\<lambda>_. terminalized ?now) ?W ?b (working c1)"
    "\<forall>x \<in> set ?W. \<exists>t n. task_row x ?b = Some t \<and> dget (v_nodes p) x = Some n \<and> unclaimed_in x (t_status n) t" by auto
  have k1: "map t_id (tasks (working c1)) = map t_id (tasks ?b)" by (rule rewritten_ids [OF w1(2)]) simp
  with cards_converged [OF s2 _ dist(2)] keys have w2: "committed c2 = committed c1"
    "rewritten (\<lambda>_. archived_unstarted) ?R (working c1) (working c2)"
    "\<forall>x \<in> set ?R. \<exists>t n. task_row x (working c1) = Some t \<and> dget (v_nodes p) x = Some n \<and> unclaimed_in x (t_status n) t" by auto
  have k2: "map t_id (tasks (working c2)) = map t_id (tasks ?b)" using rewritten_ids [OF w2(2)] k1 by simp
  note w3 = card_converged [OF s3, unfolded k2, OF keys]
  show "committed c' = committed c" using w1 w2 w3 by simp
  have r12: "rewritten (\<lambda>x. if x \<in> set ?W then terminalized ?now else archived_unstarted) (?W @ ?R) ?b (working c2)"
    by (rule rewritten_append [OF w1(2) w2(2)]) (use apart in auto)
  have "rewritten (\<lambda>x. if x \<in> set (?W @ ?R) then if x \<in> set ?W then terminalized ?now else archived_unstarted
      else terminalized ?now) ((?W @ ?R) @ [?root]) ?b (working c')"
    by (rule rewritten_append [OF r12 w3(3)]) (use apart in auto)
  then show "rewritten (planned ?now p) ids ?b (working c')"
    unfolding ids_def append_assoc by (rule rewritten_cong) (use apart in \<open>auto simp: planned_def\<close>)
  have keep1: "task_row x (working c1) = task_row x ?b" if "x \<notin> set ?W" for x
    using rewritten_row [OF w1(2), of x] that by (simp add: option.map_ident)
  have keep2: "task_row x (working c2) = task_row x ?b" if "x \<notin> set ?W" "x \<notin> set ?R" for x
    using rewritten_row [OF w2(2), of x] that keep1 by (simp add: option.map_ident)
  show "\<exists>t s. task_row x ?b = Some t \<and> unclaimed_in x s t" if x: "x \<in> set ids"
  proof -
    consider "x \<in> set ?W" | "x \<in> set ?R" | "x = ?root" using x by (auto simp: ids_def)
    then show ?thesis
    proof cases
      case 1
      with w1(3) show ?thesis by blast
    next
      case 2
      with apart keep1 w2(3) show ?thesis by (metis disjoint_iff)
    next
      case 3
      with apart keep2 w3(4) show ?thesis by metis
    qed
  qed
qed

lemma write_converged:
  assumes w: "write_convergence env p c = (Inr out, c')" and may: "may_write ref p (working c)"
    and keys: "distinct (map t_id (tasks (working c)))"
  shows "committed c' = committed c \<and> converged_board (v_root p) (working c) (working c')"
proof -
  let ?b = "working c" and ?b' = "working c'" and ?root = "v_root p"
  let ?ids = "plan_terminalize p @ plan_archive p @ [?root]" and ?f = "planned (db_now env) p"
  obtain nodes edges where nodes: "terminal_chain_ancestors ?b ?root = Inr nodes" and free: "first_owned nodes = None"
    and prov: "node_provenance ?b ?root ref nodes edges (Some (v_heads p)) = Inr (Inr (v_provenance p))"
    using may unfolding may_write_def by blast
  note read = ancestors_read [OF nodes]
  note roles = provenance_roles [OF prov read(2), folded plan_terminalize_def plan_archive_def]
  note wr = written [OF w may keys]
  have sound: "x \<in> ancestors ?b ?root \<Longrightarrow> \<exists>t. task_row x ?b = Some t \<and> (x, node_of t) \<in> set nodes" for x
    using read(1,3) by (fastforce simp: chain_sound_def)
  have status: "task_row x ?b = Some t \<Longrightarrow> (x, n) \<in> set nodes \<Longrightarrow> t_status n = t_status t" for x t n
    using read(3) by auto
  have root: "?root \<in> ancestors ?b ?root" by (simp add: ancestors_def)
  have inside: "x \<in> ancestors ?b ?root" if "x \<in> set ?ids" for x
    using that roles(2,3) read(3) root by fastforce
  have idle: "t_status t \<noteq> ''running''" if "task_row ?root ?b = Some t" for t
    using free sound [OF root] that by (fastforce simp: first_owned_def find_None_iff node_has_active_ownership_def)
  have row': "task_row x ?b' = map_option (\<lambda>t. if x \<in> set ?ids then ?f x t else t) (task_row x ?b)" for x
    by (rule rewritten_row [OF wr(2)]) simp
  have moved: "card_moved ?root t (?f (t_id t) t)" if m: "t \<in> set (tasks ?b)" and i: "t_id t \<in> set ?ids" for t
  proof -
    have r: "task_row (t_id t) ?b = Some t" using row_unique [OF keys m] .
    with wr(3) [OF i] have u: "t_claim_lock t = None" "t_worker_pid t = None" "t_current_run t = None"
      by (auto simp: unclaimed_in_def)
    have "t_id t \<in> set (plan_archive p) \<or> t_id t \<in> set (plan_terminalize p) \<and> t_id t \<notin> set (plan_archive p) \<or>
        t_id t = ?root \<and> t_id t \<notin> set (plan_archive p)" using i by auto
    then consider "t_id t \<in> set (plan_archive p)" | "t_id t \<in> set (plan_terminalize p)" "t_id t \<notin> set (plan_archive p)"
      | "t_id t = ?root" "t_id t \<notin> set (plan_archive p)" by (elim disjE conjE)
    then show ?thesis
    proof cases
      case 1
      then have "t_id t \<noteq> ?root" "t_status t \<in> set ARCHIVE" using roles(3) status [OF r] by fastforce+
      with 1 u show ?thesis by (auto simp: card_moved_def planned_def ARCHIVE_def)
    next
      case 2
      then have "t_id t \<noteq> ?root" "t_status t = ''blocked''" using roles(2) status [OF r] by (fastforce simp: TERMINALIZE_def)+
      with 2 u show ?thesis by (simp add: card_moved_def planned_def)
    next
      case 3
      with u idle r show ?thesis by (simp add: card_moved_def planned_def)
    qed
  qed
  have "list_all2 (\<lambda>t t'. t' = t \<or> t_id t \<in> ancestors ?b ?root \<and> card_moved ?root t t') (tasks ?b) (tasks ?b')"
    using wr(2) moved inside by (auto simp: rewritten_def list_all2_map2 list_all2_same)
  moreover have "\<exists>t'. task_row x ?b' = Some t' \<and> t_status t' \<in> {''done'', ''archived''}" if x: "x \<in> ancestors ?b ?root" for x
  proof -
    obtain t where t: "task_row x ?b = Some t" "(x, node_of t) \<in> set nodes" using sound [OF x] by blast
    show ?thesis
    proof (cases "x \<in> set ?ids")
      case True
      with t row' show ?thesis by (simp add: planned_def)
    next
      case False
      with roles(4) [OF t(2)] have "t_status t \<in> set OK_TERMINAL" by auto
      with False t row' show ?thesis by (simp add: OK_TERMINAL_def)
    qed
  qed
  moreover have "\<exists>t'. task_row ?root ?b' = Some t' \<and> t_status t' = ''done''"
  proof -
    obtain t where "task_row ?root ?b = Some t" using sound [OF root] by blast
    moreover have "?root \<notin> set (plan_archive p)" using roles(3) by blast
    ultimately show ?thesis using row' [of ?root] by (simp add: planned_def)
  qed
  ultimately show ?thesis using wr(1,2) read(1) inside by (auto simp: converged_board_def rewritten_def)
qed

section \<open>The transaction\<close>

lemma locked_committed: "(\<And>c. committed (snd (m c)) = committed c) \<Longrightarrow> committed (snd (sql_locked env k m c)) = committed c"
  by (simp add: sql_locked_def split: option.split)

lemma card_committed: "committed (snd (converge_card env k x status guard change shown payload c)) = committed c"
proof -
  have event: "committed (snd (sql_locked env j (\<lambda>c. (Inr (), append_sync_event env x payload ''github_pr_sync'' c)) c)) = committed c" for j c
    by (rule locked_committed) (simp add: append_event_working)
  show ?thesis unfolding converge_card_def
    by (rule locked_committed) (simp add: Let_def update_tasks_def event)
qed

lemma cards_committed: "committed (snd (converge_cards env k nodes change payload ids c)) = committed c"
proof (induction ids arbitrary: k c)
  case (Cons x ids)
  show ?case
  proof (cases "dget nodes x")
    case (Some t)
    obtain r c1 where one: "converge_card env k x (t_status t) (\<lambda>_. True) change x (payload (t_status t)) c = (r, c1)"
      by (rule prod.exhaust)
    then have "committed c1 = committed c" using card_committed by (metis snd_conv)
    with Cons.IH one Some show ?thesis by (simp split: sum.split)
  qed simp
qed simp

lemma write_committed: "committed (snd (write_convergence env p c)) = committed c"
  using cards_committed card_committed
  by (auto simp: write_convergence_def Let_def split: prod.split sum.split) (metis snd_conv)+

lemma write_changed: "write_convergence env p c = (Inr out, c') \<Longrightarrow> changed_reply (Inr out)"
  by (auto simp: write_convergence_def Let_def changed_reply_def split: prod.split_asm sum.split_asm)

lemma converge_result:
  assumes "converge env ref p c = (r, c')" and keys: "distinct (map t_id (tasks (others env 6 (working c))))"
  shows "working c' = committed c' \<and> (if changed_reply r
    then converged_board (v_root p) (others env 6 (working c)) (committed c') else committed c' = others env 6 (working c))"
proof (cases "sql_error env 6")
  case None
  define c1 where "c1 = seen env 6 c"
  have c1: "working c1 = others env 6 (working c)" "committed c1 = others env 6 (working c)" by (simp_all add: c1_def)
  obtain r2 c2 where g: "recheck_graph env ref p c1 = (r2, c2)" by (rule prod.exhaust)
  have conn: "with_conn env (r2, c2) = (r, c')" using assms(1) None g by (simp add: converge_def sql_def c1_def)
  from recheck_cases [of c1 env ref p] show ?thesis
  proof
    assume "read_only c1 (recheck_graph env ref p c1)"
    then show ?thesis using g conn c1
      by (auto simp: read_only_def with_conn_def changed_reply_def split: sum.split_asm option.split_asm)
  next
    assume w: "may_write ref p (working c1) \<and> recheck_graph env ref p c1 = write_convergence env p c1"
    with g write_committed [of env p c1] have com: "committed c2 = committed c1" by (metis snd_conv)
    show ?thesis
    proof (cases r2)
      case (Inl e)
      with conn com c1 show ?thesis by (auto simp: with_conn_def)
    next
      case (Inr out)
      with w g have o: "write_convergence env p c1 = (Inr out, c2)" by simp
      have "converged_board (v_root p) (working c1) (working c2)"
        using write_converged [OF o, of ref] w keys c1(1) by simp
      with conn com c1 Inr write_changed [OF o] show ?thesis
        by (auto simp: with_conn_def split: option.split_asm)
    qed
  qed
qed (use assms in \<open>auto simp: converge_def sql_def with_conn_def\<close>)

section \<open>The whole pass\<close>

text \<open>A connection that sees the board as others left it up to a statement.\<close>

definition reads_at :: "db_env \<Rightarrow> board \<Rightarrow> nat \<Rightarrow> db \<Rightarrow> bool" where
  "reads_at env b k c \<longleftrightarrow> committed c = seen_after env k b \<and> working c = seen_after env k b"

definition closes_or_reads ::
  "edge_net \<Rightarrow> db_env \<Rightarrow> task_ref \<Rightarrow> string list \<Rightarrow> string \<Rightarrow> bool \<Rightarrow> board \<Rightarrow> edge_call list \<Rightarrow> dict option sync_result \<Rightarrow> bool" where
  "closes_or_reads n env ref sources root dry_run b calls x \<longleftrightarrow>
     (case x of
        (Inr (Some out), w) \<Rightarrow>
          if changed_reply (Inr out)
          then \<not> dry_run \<and> converged_board root (seen_after env 6 b) (committed (fst w)) \<and>
            (\<exists>d calls'. verify_completion n ref sources calls = (Inr d, calls') \<and> d_error d = None \<and>
               d_status d = Some ''done'' \<and> d_pulls d \<noteq> [] \<and> list_all (merged_into ref) (d_pulls d))
          else (\<exists>k \<le> 6. committed (fst w) = seen_after env k b)
      | (_, w) \<Rightarrow> (\<exists>k \<le> 6. committed (fst w) = seen_after env k b))"

lemma only_reads: "reads_at env b k (fst w) \<Longrightarrow> k \<le> 6 \<Longrightarrow>
   (\<And>out. r = Inr (Some out) \<Longrightarrow> \<not> changed_reply (Inr out)) \<Longrightarrow> closes_or_reads n env ref sources root dry_run b calls (r, w)"
  by (auto simp: closes_or_reads_def reads_at_def split: sum.split option.split)

lemma reading_at: "reading env k f w = (x, w') \<Longrightarrow> reads_at env b j (fst w) \<Longrightarrow> k = Suc j \<Longrightarrow>
   reads_at env b k (fst w') \<and> snd w' = snd w"
  by (auto simp: reading_def on_db_def sql_def reads_at_def split: option.split_asm prod.split_asm)

lemma net_keeps: "on_net m w = (x, w') \<Longrightarrow> fst w' = fst w"
  by (auto simp: on_net_def split: prod.split_asm)

lemma and_then_cases:
  assumes "\<And>e w'. m = (Inl e, w') \<Longrightarrow> P (Inl e, w')" and "\<And>x w'. m = (Inr x, w') \<Longrightarrow> P (k x w')"
  shows "P (and_then m k)"
  using assms by (cases m; cases "fst m") (auto simp: and_then_def)

lemma unchanged_out [simp]: "\<not> changed_reply (Inr (dependency_ambiguous row m))"
  by (simp add: dependency_ambiguous_def)

lemma verified_closes:
  assumes at: "reads_at env b 4 (fst w)" and keys: "distinct (map t_id (tasks (seen_after env 6 b)))"
    and root: "v_root p = root" and d: "verify_completion n ref sources calls = (Inr d, calls')"
      "d_error d = None" "d_status d = Some ''done''" "d_pulls d \<noteq> []" "list_all (merged_into ref) (d_pulls d)"
  shows "closes_or_reads n env ref sources root dry_run b calls (verified_pass env ref dry_run p w)"
  unfolding verified_pass_def
proof (rule and_then_cases)
  fix e w' assume "reading env 5 (\<lambda>b. node_provenance b (v_root p) ref (v_nodes p) (v_edges p) (Some (v_heads p))) w = (Inl e, w')"
  from reading_at [OF this at] show "closes_or_reads n env ref sources root dry_run b calls (Inl e, w')"
    by (auto intro: only_reads [where k = 5])
next
  fix prov w' assume "reading env 5 (\<lambda>b. node_provenance b (v_root p) ref (v_nodes p) (v_edges p) (Some (v_heads p))) w = (Inr prov, w')"
  from reading_at [OF this at] have at5: "reads_at env b 5 (fst w')" by simp
  have closes: "closes_or_reads n env ref sources root dry_run b calls
      (and_then (on_db (converge env ref p) w') (\<lambda>out w. (Inr (Some out), w)))" if "\<not> dry_run"
  proof -
    obtain r c2 where c: "converge env ref p (fst w') = (r, c2)" by (rule prod.exhaust)
    have e: "others env 6 (working (fst w')) = seen_after env 6 b"
      using at5 by (simp add: reads_at_def numeral_eq_Suc)
    with keys have "distinct (map t_id (tasks (others env 6 (working (fst w')))))" by simp
    from converge_result [OF c this, unfolded e root] have "if changed_reply r
      then converged_board root (seen_after env 6 b) (committed c2) else committed c2 = seen_after env 6 b" by (rule conjunct2)
    with c that d show ?thesis
      by (cases r) (auto simp: closes_or_reads_def on_db_def and_then_def split: if_split_asm)
  qed
  from at5 closes show "closes_or_reads n env ref sources root dry_run b calls
     (case prov of Inl failed \<Rightarrow> (Inr (Some (unconvergeable (v_root p) (v_status p) failed)), w')
       | Inr prov \<Rightarrow>
         if prov \<noteq> v_provenance p
         then (Inr (Some (drifted (v_root p) (v_status p) [(''expected_provenance'', provenance_json (v_provenance p)),
             (''actual_provenance'', provenance_json prov)])), w')
         else if dry_run
         then (Inr (Some (unchanged (v_root p) (v_status p) ''terminal_merge_convergence_predicted''
             [(''evidence'', JObj (full_evidence p @ [(''terminalize'', strings_json (plan_terminalize p)),
               (''archive'', strings_json (plan_archive p))]))])), w')
         else and_then (on_db (converge env ref p) w') (\<lambda>out w. (Inr (Some out), w)))"
    by (auto intro!: only_reads [where k = 5] split: sum.split)
qed

lemma evidence_done:
  assumes "terminal_convergence_evidence n ref d calls = (Inr (Some e), calls')"
  shows "d_error d = None" "d_status d = Some ''done''" "d_pulls d \<noteq> []" "list_all (merged_into ref) (d_pulls d)"
  using assms by (auto simp: terminal_convergence_evidence_def authoritative_def split: if_split_asm)

lemma github_closes:
  assumes at: "reads_at env b 4 (fst w)" and keys: "distinct (map t_id (tasks (seen_after env 6 b)))" and root: "v_root p = root"
  shows "closes_or_reads n env ref sources root dry_run b (snd w) (ask_github n env ref sources dry_run p w)"
  unfolding ask_github_def
proof (rule and_then_cases)
  fix e w' assume "on_net (verify_completion n ref sources) w = (Inl e, w')"
  from net_keeps [OF this] at show "closes_or_reads n env ref sources root dry_run b (snd w) (Inl e, w')"
    by (auto intro: only_reads [where k = 4])
next
  fix d w' assume v: "on_net (verify_completion n ref sources) w = (Inr d, w')"
  have at': "reads_at env b 4 (fst w')" using net_keeps [OF v] at by simp
  have ver: "verify_completion n ref sources (snd w) = (Inr d, snd w')"
    using v by (auto simp: on_net_def split: prod.split_asm)
  show "closes_or_reads n env ref sources root dry_run b (snd w) (and_then (on_net (terminal_convergence_evidence n ref d) w')
     (\<lambda>evidence w. case evidence of None \<Rightarrow> (Inr None, w)
       | Some e \<Rightarrow> verified_pass env ref dry_run (p\<lparr>v_heads := merged_heads (d_pulls d), v_evidence := e\<rparr>) w))"
  proof (rule and_then_cases)
    fix e w'' assume "on_net (terminal_convergence_evidence n ref d) w' = (Inl e, w'')"
    from net_keeps [OF this] at' show "closes_or_reads n env ref sources root dry_run b (snd w) (Inl e, w'')"
      by (auto intro: only_reads [where k = 4])
  next
    fix x w'' assume e: "on_net (terminal_convergence_evidence n ref d) w' = (Inr x, w'')"
    have at'': "reads_at env b 4 (fst w'')" using net_keeps [OF e] at' by simp
    show "closes_or_reads n env ref sources root dry_run b (snd w) (case x of None \<Rightarrow> (Inr None, w'')
       | Some e \<Rightarrow> verified_pass env ref dry_run (p\<lparr>v_heads := merged_heads (d_pulls d), v_evidence := e\<rparr>) w'')"
    proof (cases x)
      case None
      with at'' show ?thesis by (auto intro: only_reads [where k = 4])
    next
      case (Some ev)
      then obtain calls' where "terminal_convergence_evidence n ref d (snd w') = (Inr (Some ev), calls')"
        using e by (auto simp: on_net_def split: prod.split_asm)
      from evidence_done [OF this] show ?thesis unfolding Some option.case
        by (intro verified_closes [OF at'' keys _ ver]) (simp_all add: root)
    qed
  qed
qed

lemma stale_closes:
  assumes at: "reads_at env b 3 (fst w)" and keys: "distinct (map t_id (tasks (seen_after env 6 b)))"
  shows "closes_or_reads n env ref sources (t_id row) dry_run b (snd w) (stale_graph n env row ref sources dry_run parents nodes edges w)"
proof (cases "first_owned nodes")
  case (Some q)
  with at show ?thesis by (auto simp: stale_graph_def Let_def intro: only_reads [where k = 3])
next
  case None
  show ?thesis unfolding stale_graph_def Let_def None option.case
  proof (rule and_then_cases)
    fix e w' assume "reading env 4 (\<lambda>b. node_provenance b (t_id row) ref nodes edges None) w = (Inl e, w')"
    from reading_at [OF this at] show "closes_or_reads n env ref sources (t_id row) dry_run b (snd w) (Inl e, w')"
      by (auto intro: only_reads [where k = 4])
  next
    fix prov w' assume "reading env 4 (\<lambda>b. node_provenance b (t_id row) ref nodes edges None) w = (Inr prov, w')"
    from reading_at [OF this at] have r: "reads_at env b 4 (fst w')" "snd w' = snd w" by simp_all
    show "closes_or_reads n env ref sources (t_id row) dry_run b (snd w) (case prov of
        Inl failed \<Rightarrow> (Inr (Some (unconvergeable (t_id row) (t_status row) failed)), w')
      | Inr prov \<Rightarrow> ask_github n env ref sources dry_run
              \<lparr>v_root = t_id row, v_status = t_status row, v_body = body_text row, v_parents = parents, v_nodes = nodes,
               v_edges = edges, v_heads = [], v_provenance = prov, v_evidence = []\<rparr> w')"
    proof (cases prov)
      case (Inl failed)
      with r show ?thesis by (auto intro: only_reads [where k = 4])
    next
      case (Inr prov)
      show ?thesis unfolding Inr sum.case r(2) [symmetric] by (rule github_closes [OF r(1) keys]) simp
    qed
  qed
qed

lemma graph_closes:
  assumes at: "reads_at env b 1 (fst w)" and keys: "distinct (map t_id (tasks (seen_after env 6 b)))"
  shows "closes_or_reads n env ref sources (t_id row) dry_run b (snd w) (read_graph n env row ref sources dry_run parents w)"
  unfolding read_graph_def Let_def
proof (rule and_then_cases)
  fix e w' assume "reading env 2 (\<lambda>b. Inr (terminal_chain_ancestors b (t_id row))) w = (Inl e, w')"
  from reading_at [OF this at] show "closes_or_reads n env ref sources (t_id row) dry_run b (snd w) (Inl e, w')"
    by (auto intro: only_reads [where k = 2])
next
  fix nodes w' assume "reading env 2 (\<lambda>b. Inr (terminal_chain_ancestors b (t_id row))) w = (Inr nodes, w')"
  from reading_at [OF this at] have r: "reads_at env b 2 (fst w')" "snd w' = snd w" by simp_all
  show "closes_or_reads n env ref sources (t_id row) dry_run b (snd w) (case nodes of
      Inl m \<Rightarrow> (Inr (Some (ambiguous (t_id row) (t_status row) m)), w')
    | Inr nodes \<Rightarrow> and_then (on_db_error (and_then (reading env 3 (\<lambda>b. Inr (terminal_chain_edge_snapshot b (keys_of nodes))) w')
          (\<lambda>edges w. (Inr (Inr edges), w))) (\<lambda>m w. (Inr (Inl m), w))) (\<lambda>edges w.
        case edges of Inl m \<Rightarrow> (Inr (Some (ambiguous (t_id row) (t_status row) m)), w)
        | Inr edges \<Rightarrow> stale_graph n env row ref sources dry_run parents nodes edges w))"
  proof (cases nodes)
    case (Inl m)
    with r show ?thesis by (auto intro: only_reads [where k = 2])
  next
    case (Inr ns)
    obtain x w'' where q: "reading env 3 (\<lambda>b. Inr (terminal_chain_edge_snapshot b (keys_of ns))) w' = (x, w'')"
      by (rule prod.exhaust)
    from reading_at [OF q r(1)] r(2) have at3: "reads_at env b 3 (fst w'')" "snd w'' = snd w" by simp_all
    note stale = stale_closes [OF at3(1) keys, of n ref sources row dry_run parents ns, unfolded at3(2)]
    note quiet = only_reads [OF at3(1)]
    from stale show ?thesis
      by (cases x) (auto simp: Inr q and_then_def on_db_error_def intro!: quiet split: exn.split)
  qed
qed

text \<open>
  C3: Terminal convergence closes the whole graph above an Issue card or writes nothing. Whatever other
  processes write between its statements, and whichever statements, commits and requests fail: a reply that
  says the graph changed comes from a real run, when GitHub's fresh answers were complete and decide the Issue
  done with linked pull requests that are all merged into the target branch. Then the state committed is the one
  the transaction locked, in which the links above the root had no missing card and no cycle, with only the root
  and its ancestors moved: each was unclaimed, blocked developer work and the root became done and unstarted review
  cards archived, every ancestor is now terminal, and links, comments and runs are as they were. Every
  other reply, errors included, leaves the board as the others wrote it.
\<close>

theorem convergence_closes_graph:
  assumes start: "committed (fst w) = b" "working (fst w) = b" and keys: "distinct (map t_id (tasks (seen_after env 6 b)))"
  shows "closes_or_reads n env ref sources (t_id row) dry_run b (snd w)
     (attempt_terminal_merge_convergence n env row ref sources dry_run w)"
proof -
  have at: "reads_at env b 0 (fst w)" using start by (simp add: reads_at_def)
  obtain x w' where q: "reading env 1 (\<lambda>b. all_parents b (t_id row)) w = (x, w')" by (rule prod.exhaust)
  from reading_at [OF q at] have at1: "reads_at env b 1 (fst w')" "snd w' = snd w" by simp_all
  note graph = graph_closes [OF at1(1) keys, of n ref sources row dry_run, unfolded at1(2)]
  from graph show ?thesis
    by (cases x) (auto simp: attempt_terminal_merge_convergence_def q [simplified]
      intro!: only_reads [OF at] only_reads [OF at1(1)] split: exn.split)
qed

section \<open>Examples\<close>

definition full_sha :: string where
  "full_sha = replicate 40 CHR ''a''"

definition closed_net :: edge_net where
  "closed_net = merged_net\<lparr>read_json := (\<lambda>raw. Inr (if raw = ''t'' then JArr [timeline_item] else if raw = ''c'' then closing_payload
       else JObj [(''state'', JStr ''closed''), (''merged'', JBool True), (''draft'', JBool False),
         (''base'', JObj [(''ref'', JStr ''main'')]), (''head'', JObj [(''sha'', JStr full_sha), (''ref'', JStr ''fix'')])]))\<rparr>"

definition sample_event :: "string \<Rightarrow> string \<Rightarrow> dict \<Rightarrow> int \<Rightarrow> event" where
  "sample_event name kind payload at = \<lparr>e_task = name, e_run = None, e_kind = kind, e_payload = JsonText (JObj payload), e_at = at\<rparr>"

definition idle_task :: "string \<Rightarrow> string \<Rightarrow> task" where
  "idle_task name status = (sample_task name status)\<lparr>t_claim_lock := None, t_claim_expires := None\<rparr>"

text \<open>The root waits for a blocked developer card, which has a settled parent, and for its reviewer.\<close>

definition stale_board :: board where
  "stale_board = \<lparr>tasks = [idle_task ''p'' ''done'', idle_task ''d'' ''blocked'', idle_task ''v'' ''todo'', idle_task ''r'' ''todo''],
     task_links = [(''p'', ''d''), (''d'', ''v''), (''d'', ''r''), (''v'', ''r'')],
     events = [
       sample_event ''d'' ''created'' [(''assignee'', JStr ''kanban-developer''), (''parents'', JArr [JStr ''p''])] 1,
       sample_event ''v'' ''created'' [(''assignee'', JStr ''kanban-reviewer''), (''parents'', JArr [JStr ''d''])] 2,
       sample_event ''d'' ''github_pr_rework'' [(''source'', JStr ''github''), (''new_status'', JStr ''ready''),
         (''repository'', JStr ''octo/app''), (''issue_number'', JInt 42), (''reason'', JStr ''agent_rework''),
         (''merge_authority'', JStr ''human''), (''auto_merge'', JBool False), (''pr_number'', JInt 7),
         (''rework_round'', JInt 1), (''head_sha'', JStr full_sha)] 3],
     task_runs = [], comments = []\<rparr>"

definition stale_pass :: "dict option sync_result" where
  "stale_pass = attempt_terminal_merge_convergence closed_net quiet (idle_task ''r'' ''todo'') sample_ref [] False (fresh_db stale_board, [])"

lemma stale_pass_result: "map_sum (\<lambda>_. ()) (map_option (\<lambda>out. dget out ''changed'')) (fst stale_pass) = Inr (Some (Some (JBool True)))"
  "map t_status (tasks (committed (fst (snd stale_pass)))) = [''done'', ''done'', ''archived'', ''done'']"
  by code_simp+

theorem convergence_closes_graph_witness:
  "converged_board ''r'' stale_board (committed (fst (snd stale_pass))) \<and>
   map t_status (tasks (committed (fst (snd stale_pass)))) = [''done'', ''done'', ''archived'', ''done''] \<and>
   (\<exists>d calls. verify_completion closed_net sample_ref [] [] = (Inr d, calls) \<and> d_status d = Some ''done'')"
proof -
  obtain r w where x: "stale_pass = (r, w)" by (rule prod.exhaust)
  have "map_sum (\<lambda>_. ()) (map_option (\<lambda>out. dget out ''changed'')) r = Inr (Some (Some (JBool True)))"
    using stale_pass_result(1) unfolding x by simp
  then obtain out where r: "r = Inr (Some out)" "dget out ''changed'' = Some (JBool True)"
    by (cases r) auto
  then have ch: "changed_reply (Inr out)"
    by (simp add: changed_reply_def)
  have keys: "distinct (map t_id (tasks (seen_after quiet 6 stale_board)))"
    by (simp add: stale_board_def idle_task_def sample_task_def)
  have "closes_or_reads closed_net quiet sample_ref [] ''r'' False stale_board [] stale_pass"
    using convergence_closes_graph [OF _ _ keys, of "(fresh_db stale_board, [])" closed_net sample_ref "[]" "idle_task ''r'' ''todo''" False]
    by (simp add: fresh_db_def stale_pass_def idle_task_def sample_task_def)
  with ch stale_pass_result(2) show ?thesis unfolding x r(1) by (auto simp: closes_or_reads_def)
qed

end
