(* ===== verification/EdgeRuns.thy ===== *)
theory EdgeRuns
  imports EdgeReconcile TerminalProvenance
begin

text \<open>
  The runs of a card in the edge sync (edge/kanban-github-sync.py): the heads a run attests, the run that the
  edge itself claimed for a rework round, and the delivery that a graph of specialists hands in for it. The
  reads that choose a run see one state of the database.
\<close>

section \<open>Attested heads\<close>

definition hex_char :: "char \<Rightarrow> bool" where
  "hex_char c \<longleftrightarrow> is_digit c \<or> (97 \<le> code c \<and> code c \<le> 102) \<or> (65 \<le> code c \<and> code c \<le> 70)"

text \<open>The maximal runs of word characters of a text.\<close>

function word_runs :: "string \<Rightarrow> string list" where
  "word_runs [] = []"
| "word_runs (c # s) = (if word_char c then (c # takeWhile word_char s) # word_runs (dropWhile word_char s) else word_runs s)"
  by pat_completeness auto
termination by (relation "measure length") (auto simp: le_imp_less_Suc length_dropWhile_le)

definition full_heads_in :: "string \<Rightarrow> string list" where
  "full_heads_in s = filter (\<lambda>w. length w = 40 \<and> list_all hex_char w) (word_runs s)"

definition head_keys :: "string list" where
  "head_keys = [''head'', ''head_sha'', ''pr_head_sha'', ''commit'', ''sha'', ''oid'']"

text \<open>The strings under such a key, however deep.\<close>

fun visit_heads :: "string \<Rightarrow> json \<Rightarrow> string list" where
  "visit_heads key (JObj d) = concat (map (\<lambda>p. visit_heads (fst p) (snd p)) d)"
| "visit_heads key (JArr vs) = concat (map (visit_heads key) vs)"
| "visit_heads key (JStr s) = (if casefold key \<in> set head_keys then full_heads_in s else [])"
| "visit_heads key v = []"

definition run_metadata_dict :: "run \<Rightarrow> dict" where
  "run_metadata_dict r = (case run_metadata r of JsonText (JObj d) \<Rightarrow> d | _ \<Rightarrow> [])"

definition metadata_heads :: "run \<Rightarrow> string list" where
  "metadata_heads r = visit_heads [] (JObj (run_metadata_dict r))"

text \<open>\<open>str(value or "")\<close> of a text column.\<close>

definition column_text :: "string option \<Rightarrow> string" where
  "column_text v = (case v of None \<Rightarrow> [] | Some s \<Rightarrow> s)"

definition rework_head_candidates :: "run \<Rightarrow> string list" where
  "rework_head_candidates r = map casefold (metadata_heads r @
     full_heads_in (column_text (run_summary r) @ newline # column_text (run_error r)))"

definition specialist_full_heads :: "run \<Rightarrow> string list" where
  "specialist_full_heads r = remdups (filter FULL_SHA (rework_head_candidates r))"

definition specialist_metadata_heads :: "run \<Rightarrow> string list" where
  "specialist_metadata_heads r = remdups (filter FULL_SHA (map casefold (metadata_heads r)))"

section \<open>Specialist runs\<close>

text \<open>The runs of a card that started at a time or later, the newest first.\<close>

definition runs_since :: "board \<Rightarrow> string \<Rightarrow> int \<Rightarrow> run list" where
  "runs_since b task_id at = rev (sort_key run_id (filter (\<lambda>r. run_task r = task_id \<and> at \<le> run_started r) (task_runs b)))"

definition finished_run :: "run \<Rightarrow> bool" where
  "finished_run r \<longleftrightarrow> run_ended r \<noteq> None \<and> casefold (column_text (run_outcome r)) \<in> {''completed'', ''done''}"

definition latest_run :: "(run \<Rightarrow> bool) \<Rightarrow> board \<Rightarrow> string \<Rightarrow> int \<Rightarrow> run option" where
  "latest_run accepted b task_id at = (case runs_since b task_id at of [] \<Rightarrow> None
     | r # _ \<Rightarrow> if finished_run r \<and> accepted r then Some r else None)"

text \<open>\<open>(?<![A-Z0-9_])PASS(?![A-Z0-9_])\<close>, in any case; \<open>prev\<close> is whether the character before is such a one.\<close>

definition ascii_word :: "char \<Rightarrow> bool" where
  "ascii_word c \<longleftrightarrow> is_alnum c \<or> c = CHR ''_''"

fun pass_in :: "bool \<Rightarrow> string \<Rightarrow> bool" where
  "pass_in prev [] = False"
| "pass_in prev (c # s) = (\<not> prev \<and> py_lower (take 4 (c # s)) = ''pass'' \<and>
       (case drop 3 s of [] \<Rightarrow> True | x # _ \<Rightarrow> \<not> ascii_word x) \<or> pass_in (ascii_word c) s)"

definition specialist_review_pass :: "run \<Rightarrow> bool" where
  "specialist_review_pass r \<longleftrightarrow> (case dget_py (run_metadata_dict r) ''verdict'' of
      JNull \<Rightarrow> pass_in False (column_text (run_summary r))
    | JStr s \<Rightarrow> casefold (py_strip s) = ''pass''
    | _ \<Rightarrow> False)"

definition validation_passed :: "run \<Rightarrow> bool" where
  "validation_passed r \<longleftrightarrow> dget_py (run_metadata_dict r) ''validation'' = JStr ''passed''"

definition latest_specialist_reviewer_run :: "board \<Rightarrow> string \<Rightarrow> int \<Rightarrow> run option" where
  "latest_specialist_reviewer_run = latest_run specialist_review_pass"

definition latest_specialist_developer_run :: "board \<Rightarrow> string \<Rightarrow> int \<Rightarrow> run option" where
  "latest_specialist_developer_run = latest_run validation_passed"

definition latest_specialist_lead_run :: "board \<Rightarrow> string \<Rightarrow> int \<Rightarrow> run option" where
  "latest_specialist_lead_run = latest_run (\<lambda>_. True)"

section \<open>The graph of specialists\<close>

definition specialist_timestamp :: "int option \<Rightarrow> int" where
  "specialist_timestamp v = (case v of None \<Rightarrow> -1 | Some t \<Rightarrow> t)"

definition specialist_task_completed_in_round :: "task \<Rightarrow> int \<Rightarrow> bool" where
  "specialist_task_completed_in_round t at \<longleftrightarrow> at \<le> specialist_timestamp (t_completed_at t)"

definition settled_task :: "task \<Rightarrow> bool" where
  "settled_task t \<longleftrightarrow> casefold (t_status t) \<in> {''done'', ''archived''}"

definition assigned_to :: "string \<Rightarrow> task \<Rightarrow> bool" where
  "assigned_to profile t \<longleftrightarrow> casefold (column_text (t_assignee t)) = profile"

text \<open>The rows of the parents that exist.\<close>

definition parent_tasks :: "board \<Rightarrow> string \<Rightarrow> task list" where
  "parent_tasks b child = List.map_filter (\<lambda>p. task_row p b) (parents_of child b)"

text \<open>The parents of one card that were not seen yet join the queue, the developers among them the result.\<close>

fun absorb_parents :: "task list \<Rightarrow> string list \<Rightarrow> string list \<Rightarrow> task list \<Rightarrow> string list \<times> string list \<times> task list" where
  "absorb_parents [] visited queue found = (visited, queue, found)"
| "absorb_parents (t # ts) visited queue found =
     (if t_id t \<in> set visited then absorb_parents ts visited queue found
      else absorb_parents ts (visited @ [t_id t]) (queue @ [t_id t])
        (if assigned_to ''kanban-developer'' t then found @ [t] else found))"

definition unseen :: "board \<Rightarrow> string list \<Rightarrow> nat" where
  "unseen b visited = card (t_id ` set (tasks b) - set visited)"

lemma task_row_id: "task_row x b = Some t \<Longrightarrow> t \<in> set (tasks b) \<and> t_id t = x"
  by (auto simp: task_row_def find_Some_iff)

lemma parent_tasks_mem: "t \<in> set (parent_tasks b child) \<longleftrightarrow> (t_id t, child) \<in> set (task_links b) \<and> task_row (t_id t) b = Some t"
proof -
  have "t \<in> set (parent_tasks b child) \<longleftrightarrow> (\<exists>p. p \<in> set (parents_of child b) \<and> task_row p b = Some t)"
    by (force simp: parent_tasks_def List.map_filter_def image_iff)
  also have "\<dots> \<longleftrightarrow> t_id t \<in> set (parents_of child b) \<and> task_row (t_id t) b = Some t"
    by (auto dest: task_row_id)
  also have "t_id t \<in> set (parents_of child b) \<longleftrightarrow> (t_id t, child) \<in> set (task_links b)"
    by (force simp: parents_of_def)
  finally show ?thesis .
qed

lemma absorbed:
  assumes "absorb_parents ts visited queue found = (visited', queue', found')"
  shows "\<exists>new. visited' = visited @ map t_id new \<and> queue' = queue @ map t_id new \<and>
    found' = found @ filter (assigned_to ''kanban-developer'') new \<and> set new \<subseteq> set ts \<and>
    set (map t_id ts) \<subseteq> set visited' \<and> set (map t_id new) \<inter> set visited = {}"
  using assms
proof (induction ts visited queue found rule: absorb_parents.induct)
  case (2 t ts visited queue found)
  show ?case
  proof (cases "t_id t \<in> set visited")
    case True
    with 2 obtain new where "visited' = visited @ map t_id new" "queue' = queue @ map t_id new"
      "found' = found @ filter (assigned_to ''kanban-developer'') new" "set new \<subseteq> set ts"
      "set (map t_id ts) \<subseteq> set visited'" "set (map t_id new) \<inter> set visited = {}" by auto
    with True show ?thesis by (intro exI [of _ new]) auto
  next
    case False
    with 2 obtain new where "visited' = (visited @ [t_id t]) @ map t_id new" "queue' = (queue @ [t_id t]) @ map t_id new"
      "found' = (if assigned_to ''kanban-developer'' t then found @ [t] else found) @ filter (assigned_to ''kanban-developer'') new"
      "set new \<subseteq> set ts" "set (map t_id ts) \<subseteq> set visited'" "set (map t_id new) \<inter> set (visited @ [t_id t]) = {}" by auto
    with False show ?thesis by (intro exI [of _ "t # new"]) auto
  qed
qed simp

function developer_walk :: "board \<Rightarrow> string list \<Rightarrow> string list \<Rightarrow> task list \<Rightarrow> task list" where
  "developer_walk b [] visited found = found"
| "developer_walk b (child # queue) visited found =
     (case absorb_parents (parent_tasks b child) visited queue found of
        (visited', queue', found') \<Rightarrow> developer_walk b queue' visited' found')"
  by pat_completeness auto
termination
proof (relation "measures [\<lambda>(b, queue, visited, found). unseen b visited, \<lambda>(b, queue, visited, found). length queue]", goal_cases)
  case (2 b child queue visited found visited' q queue' found')
  then have walked: "absorb_parents (parent_tasks b child) visited queue found = (visited', queue', found')" by simp
  from absorbed [OF walked] obtain new where
    new: "visited' = visited @ map t_id new" "queue' = queue @ map t_id new" "set new \<subseteq> set (parent_tasks b child)"
      "set (map t_id new) \<inter> set visited = {}" by auto
  show ?case
  proof (cases new)
    case Nil
    with new show ?thesis by simp
  next
    case (Cons t ts)
    then have "t \<in> set (parent_tasks b child)" using new(3) by simp
    then have "t \<in> set (tasks b)" using task_row_id [of "t_id t" b t] by (simp add: parent_tasks_mem)
    then have "t_id t \<in> t_id ` set (tasks b) - set visited" using new(4) Cons by auto
    moreover have "t_id t \<in> set visited'" using new(1) Cons by simp
    ultimately have "t_id ` set (tasks b) - set visited' \<subset> t_id ` set (tasks b) - set visited" using new(1) by auto
    then have "unseen b visited' < unseen b visited" unfolding unseen_def by (intro psubset_card_mono) auto
    then show ?thesis by simp
  qed
qed simp

definition specialist_developer_ancestors :: "board \<Rightarrow> string \<Rightarrow> task list" where
  "specialist_developer_ancestors b reviewer_id = developer_walk b [reviewer_id] [reviewer_id] []"

section \<open>The delivery of a graph\<close>

text \<open>\<open>max\<close> by the time of completion and the id.\<close>

definition completion_key :: "task \<Rightarrow> int \<times> string" where
  "completion_key t = (specialist_timestamp (t_completed_at t), t_id t)"

definition newest_task :: "task list \<Rightarrow> task" where
  "newest_task ts = foldl (\<lambda>best t. if completion_key best < completion_key t then t else best) (hd ts) (tl ts)"

definition current_tasks :: "int \<Rightarrow> task list \<Rightarrow> task list" where
  "current_tasks at = filter (\<lambda>t. settled_task t \<and> specialist_task_completed_in_round t at)"

text \<open>The head the round asked about, none when its event has no head.\<close>

fun round_head :: "int \<Rightarrow> event list \<Rightarrow> string option option" where
  "round_head round_no [] = None"
| "round_head round_no (e # rest) = (case event_dict e of
      None \<Rightarrow> round_head round_no rest
    | Some payload \<Rightarrow> if \<not> py_equals_int (dget_py payload ''rework_round'') round_no then round_head round_no rest
        else Some (case dget_py payload ''head_sha'' of JNull \<Rightarrow> None | v \<Rightarrow> Some (py_str v)))"

definition specialist_round_event :: "board \<Rightarrow> string \<Rightarrow> int \<Rightarrow> int \<Rightarrow> string option option" where
  "specialist_round_event b task_id at round_no =
     round_head round_no (rev (filter (\<lambda>e. rework_kind task_id e \<and> e_at e = at) (events b)))"

definition run_json :: "run \<Rightarrow> json" where
  "run_json r = JInt (run_id r)"

text \<open>A developer attested what the reviewer passed, and the lead ended after both.\<close>

definition attested_delivery ::
  "board \<Rightarrow> int \<Rightarrow> int \<Rightarrow> string option \<Rightarrow> task \<Rightarrow> run \<Rightarrow> string list \<Rightarrow> run \<Rightarrow> task \<Rightarrow> (run \<times> dict) option" where
  "attested_delivery b at round_no requested reviewer reviewer_run reviewer_heads root_run developer =
     (case latest_specialist_developer_run b (t_id developer) at of
        None \<Rightarrow> None
      | Some developer_run \<Rightarrow>
          if length (specialist_metadata_heads developer_run) \<noteq> 1 \<or> set (specialist_metadata_heads developer_run) \<noteq> set reviewer_heads
          then None
          else if specialist_timestamp (run_ended root_run) <
            max (specialist_timestamp (t_completed_at reviewer)) (specialist_timestamp (run_ended reviewer_run))
          then None
          else Some (developer_run, [(''round'', JInt round_no), (''developer_task_id'', JStr (t_id developer)),
            (''reviewer_task_id'', JStr (t_id reviewer)), (''developer_run_id'', run_json developer_run),
            (''reviewer_run_id'', run_json reviewer_run), (''lead_run_id'', run_json root_run),
            (''head_sha'', JStr (hd (specialist_metadata_heads developer_run))), (''requested_head_sha'', opt_str requested)]))"

definition direct_delivery :: "int \<Rightarrow> string option \<Rightarrow> task \<Rightarrow> run \<Rightarrow> string list \<Rightarrow> run \<Rightarrow> run \<times> dict" where
  "direct_delivery round_no requested reviewer reviewer_run reviewer_heads root_run =
     (root_run, [(''round'', JInt round_no), (''reviewer_task_id'', JStr (t_id reviewer)),
       (''reviewer_run_id'', run_json reviewer_run),
       (''reviewer_completed_at'', JInt (specialist_timestamp (t_completed_at reviewer))), (''lead_run_id'', run_json root_run),
       (''head_sha'', JStr (hd reviewer_heads)), (''requested_head_sha'', opt_str requested), (''legacy_reviewer_direct'', JBool True)])"

text \<open>The reviewer's pass is known; the developers above it and the lead's run decide.\<close>

definition reviewed_delivery ::
  "board \<Rightarrow> string \<Rightarrow> int \<Rightarrow> int \<Rightarrow> task \<Rightarrow> run \<Rightarrow> string list \<Rightarrow> (run \<times> dict) option" where
  "reviewed_delivery b task_id at round_no reviewer reviewer_run reviewer_heads =
     (let round_event = specialist_round_event b task_id at round_no;
          requested = (case round_event of None \<Rightarrow> None | Some h \<Rightarrow> h);
          ancestors = specialist_developer_ancestors b (t_id reviewer);
          developers = current_tasks at ancestors in
      if round_event \<noteq> None \<and> (case requested of None \<Rightarrow> True | Some h \<Rightarrow> \<not> FULL_SHA h) then None
      else if ancestors \<noteq> [] \<and> round_event = None then None
      else if ancestors \<noteq> [] \<and> developers = [] then None
      else (case latest_specialist_lead_run b task_id at of
          None \<Rightarrow> None
        | Some root_run \<Rightarrow>
            if developers \<noteq> []
            then attested_delivery b at round_no requested reviewer reviewer_run reviewer_heads root_run (newest_task developers)
            else Some (direct_delivery round_no requested reviewer reviewer_run reviewer_heads root_run)))"

definition specialist_graph_delivery_candidate :: "board \<Rightarrow> string \<Rightarrow> int \<Rightarrow> int \<Rightarrow> (run \<times> dict) option" where
  "specialist_graph_delivery_candidate b task_id at round_no =
     (let parents = filter (\<lambda>t. t_id t \<in> set (parents_of task_id b)) (tasks b);
          reviewers = filter (\<lambda>t. assigned_to ''kanban-reviewer'' t \<and> specialist_task_completed_in_round t at) parents in
      if round_no \<le> 0 \<or> parents = [] \<or> \<not> list_all settled_task parents \<or> reviewers = [] then None
      else (let reviewer = newest_task reviewers in
        case latest_specialist_reviewer_run b (t_id reviewer) at of
          None \<Rightarrow> None
        | Some reviewer_run \<Rightarrow>
            let heads = specialist_full_heads reviewer_run in
            if length heads \<noteq> 1 then None else reviewed_delivery b task_id at round_no reviewer reviewer_run heads))"

definition specialist_graph_delivery_run :: "board \<Rightarrow> string \<Rightarrow> int \<Rightarrow> int \<Rightarrow> run option" where
  "specialist_graph_delivery_run b task_id at round_no = map_option fst (specialist_graph_delivery_candidate b task_id at round_no)"

section \<open>The run of a round\<close>

definition REWORK_DISPATCH_PROVENANCE_KIND :: string where
  "REWORK_DISPATCH_PROVENANCE_KIND = ''github_pr_rework_dispatch''"

definition REWORK_DISPATCH_PROVENANCE_SOURCE :: string where
  "REWORK_DISPATCH_PROVENANCE_SOURCE = ''github_edge_rework_dispatch''"

definition positive_rework_int :: "json \<Rightarrow> bool" where
  "positive_rework_int v \<longleftrightarrow> (case v of JInt i \<Rightarrow> 0 < i | _ \<Rightarrow> False)"

text \<open>\<open>int(str(value)) == i\<close>, false when there is no such number.\<close>

definition written_int :: "json \<Rightarrow> int \<Rightarrow> bool" where
  "written_int v i \<longleftrightarrow> py_int (JStr (py_str v)) = Inr i"

definition round_provenance :: "string \<Rightarrow> int \<Rightarrow> int \<Rightarrow> dict \<Rightarrow> bool res" where
  "round_provenance task_id at round_no p =
     (if dget_py p ''source'' \<noteq> JStr REWORK_DISPATCH_PROVENANCE_SOURCE \<or> dget_py p ''task_id'' \<noteq> JStr task_id \<or>
         \<not> written_int (dget_py p ''rework_event_at'') at \<or> \<not> written_int (dget_py p ''rework_round'') round_no
      then Inr False
      else if unhashable (dget_py p ''phase'') then Inl (PyError ''TypeError'')
      else Inr (dget_py p ''phase'' \<in> {JStr ''claimed'', JStr ''spawned''}))"

fun any_provenance :: "string \<Rightarrow> int \<Rightarrow> int \<Rightarrow> event list \<Rightarrow> bool res" where
  "any_provenance task_id at round_no [] = Inr False"
| "any_provenance task_id at round_no (e # rest) = (case event_dict e of
      None \<Rightarrow> any_provenance task_id at round_no rest
    | Some p \<Rightarrow> (case round_provenance task_id at round_no p of
        Inl x \<Rightarrow> Inl x
      | Inr True \<Rightarrow> Inr True
      | Inr False \<Rightarrow> any_provenance task_id at round_no rest))"

definition provenance_rows :: "board \<Rightarrow> string \<Rightarrow> run \<Rightarrow> event list" where
  "provenance_rows b task_id r = rev (filter (\<lambda>e. e_task e = task_id \<and> e_run e = Some (run_id r) \<and>
     e_kind e = REWORK_DISPATCH_PROVENANCE_KIND) (events b))"

fun edge_claimed_run :: "board \<Rightarrow> string \<Rightarrow> int \<Rightarrow> int \<Rightarrow> run list \<Rightarrow> run option res" where
  "edge_claimed_run b task_id at round_no [] = Inr None"
| "edge_claimed_run b task_id at round_no (r # rest) =
     (case any_provenance task_id at round_no (provenance_rows b task_id r) of
        Inl x \<Rightarrow> Inl x
      | Inr True \<Rightarrow> Inr (Some r)
      | Inr False \<Rightarrow> edge_claimed_run b task_id at round_no rest)"

text \<open>The delivery of a graph goes before the run the edge claimed.\<close>

definition task_run_after_rework :: "board \<Rightarrow> string \<Rightarrow> int \<Rightarrow> json \<Rightarrow> run option res" where
  "task_run_after_rework b task_id at rework_round = (case rework_round of
      JInt round_no \<Rightarrow> if round_no \<le> 0 then Inr None
        else (case edge_claimed_run b task_id at round_no (runs_since b task_id (max 0 (at - 1))) of
            Inl x \<Rightarrow> Inl x
          | Inr claimed \<Rightarrow> Inr (case specialist_graph_delivery_run b task_id at round_no of
                Some r \<Rightarrow> Some r | None \<Rightarrow> claimed))
    | _ \<Rightarrow> Inr None)"

definition untrusted_task_run_after_rework :: "board \<Rightarrow> string \<Rightarrow> int \<Rightarrow> run option" where
  "untrusted_task_run_after_rework b task_id at =
     find (\<lambda>r. provenance_rows b task_id r = []) (runs_since b task_id (max 0 (at - 1)))"

end
