(* ===== verification/EdgeDelivery.thy ===== *)
theory EdgeDelivery
  imports EdgeRuns
begin

text \<open>
  The delivery of a rework round in the edge sync (edge/kanban-github-sync.py): the event that governs the
  round, the completion marker a worker or the edge posts, and the whole contract a delivery must meet before the
  round is closed.
\<close>

section \<open>The governing event\<close>

text \<open>Payload, time and kind, as \<open>latest_rework_event\<close> finds them.\<close>

type_synonym rework_event = "dict \<times> int \<times> string"

text \<open>The repository and Issue it names.\<close>

definition event_ref_error :: "task_ref option \<Rightarrow> dict \<Rightarrow> string option" where
  "event_ref_error ref p = (case ref of None \<Rightarrow> None
     | Some ref \<Rightarrow> if dget_py p ''repository'' \<noteq> JStr (r_repository ref) then Some ''rework_event_repository_mismatch''
         else if \<not> py_equals_int (dget_py p ''issue_number'') (r_issue ref) then Some ''rework_event_issue_mismatch''
         else None)"

definition event_pr_error :: "int option \<Rightarrow> decision option \<Rightarrow> json \<Rightarrow> string option" where
  "event_pr_error expected d pr_no =
     (if \<not> positive_rework_int pr_no then Some ''rework_event_pr_invalid''
      else if (case expected of None \<Rightarrow> False | Some i \<Rightarrow> pr_no \<noteq> JInt i) then Some ''rework_event_pr_mismatch''
      else if (case d of None \<Rightarrow> False
          | Some d \<Rightarrow> length (filter (\<lambda>pr. pr_no = JInt (pr_number pr)) (d_pulls d)) \<noteq> 1) then Some ''rework_event_pr_unresolved''
      else None)"

definition event_comment_error :: "dict \<Rightarrow> string option" where
  "event_comment_error p = (let request = dget_py p ''request_comment_id''; retry = dget_py p ''retry_comment_id'' in
     if request \<noteq> JNull \<and> \<not> positive_rework_int request then Some ''rework_event_request_comment_invalid''
     else if retry \<noteq> JNull \<and> \<not> positive_rework_int retry then Some ''rework_event_retry_comment_invalid''
     else if retry \<noteq> JNull \<and> request \<noteq> retry then Some ''rework_event_retry_comment_mismatch''
     else if dget_py p ''trigger'' = JStr ''maintainer_retry'' \<and> retry = JNull then Some ''rework_event_retry_comment_missing''
     else None)"

definition full_sha_json :: "json \<Rightarrow> bool" where
  "full_sha_json v \<longleftrightarrow> (case v of JStr s \<Rightarrow> FULL_SHA s | _ \<Rightarrow> False)"

text \<open>The first complaint.\<close>

definition or_else :: "'a option \<Rightarrow> 'a option \<Rightarrow> 'a option" where
  "or_else a b = (case a of None \<Rightarrow> b | Some x \<Rightarrow> Some x)"

definition validate_rework_event :: "task_ref option \<Rightarrow> int option \<Rightarrow> decision option \<Rightarrow> rework_event \<Rightarrow> string option" where
  "validate_rework_event ref expected d event = (let (p, at, kind) = event in
     if kind \<notin> {''github_pr_rework'', ''github_pr_rework_retry''} then Some ''rework_event_invalid_shape''
     else or_else (event_ref_error ref p)
         (or_else (event_pr_error expected d (dget_py p ''pr_number''))
         (if \<not> positive_rework_int (dget_py p ''rework_round'') then Some ''rework_event_round_invalid''
          else if \<not> full_sha_json (dget_py p ''head_sha'') then Some ''rework_event_head_invalid''
          else event_comment_error p)))"

definition rework_round_is_maintainer_retry :: "dict \<Rightarrow> bool" where
  "rework_round_is_maintainer_retry p \<longleftrightarrow>
     py_str (py_or (dget_py p ''trigger'') (JStr [])) = ''maintainer_retry'' \<and> dget_py p ''retry_comment_id'' \<noteq> JNull"

text \<open>The label time the event is bound to: some bound, none, or no number at all.\<close>

definition bound_time :: "json \<Rightarrow> int option option res" where
  "bound_time v = (if v = JNull then Inr (Some None)
     else (case py_int v of Inr i \<Rightarrow> Inr (Some (Some i))
       | Inl e \<Rightarrow> if e = PyError ''OverflowError'' then Inl e else Inr None))"

definition label_is_newer_than_event ::
  "edge_net \<Rightarrow> task_ref \<Rightarrow> int \<Rightarrow> int \<Rightarrow> json \<Rightarrow> json \<Rightarrow> edge_call list \<Rightarrow> bool edge_result" where
  "label_is_newer_than_event n ref pr_no event_at label_at label_id calls =
     and_then (labeled_events n ref pr_no calls) (\<lambda>es calls. case latest_labeled_event es of
         None \<Rightarrow> (Inr False, calls)
       | Some e \<Rightarrow> if snd (snd e) = None then (Inr False, calls)
           else (case bound_time label_at of
               Inl x \<Rightarrow> (Inl x, calls)
             | Inr None \<Rightarrow> (Inr False, calls)
             | Inr (Some bound) \<Rightarrow> (Inr (label_event_is_newer e event_at bound
                 (case label_id of JInt i \<Rightarrow> Some i | _ \<Rightarrow> None)), calls)))"

section \<open>Completion markers\<close>

definition REWORK_COMPLETE_MARKER :: string where
  "REWORK_COMPLETE_MARKER = ''AGENT_REWORK_COMPLETE''"

definition REWORK_RETRY_MARKER :: string where
  "REWORK_RETRY_MARKER = ''AGENT_REWORK_RETRY''"

definition marker_fields :: "string \<Rightarrow> (string \<times> string) list" where
  "marker_fields body = foldl (\<lambda>d line. if CHR ''='' \<notin> set line then d
     else dset (py_strip (before_char CHR ''='' line)) (py_strip (after_char CHR ''='' line)) d) [] (splitlines body)"

definition field_text :: "(string \<times> string) list \<Rightarrow> string \<Rightarrow> string" where
  "field_text kv key = (case dget kv key of None \<Rightarrow> [] | Some v \<Rightarrow> v)"

text \<open>\<open>[0-9a-f]{40}\<close>, all of it.\<close>

definition lower_sha :: "string \<Rightarrow> bool" where
  "lower_sha s \<longleftrightarrow> length s = 40 \<and> list_all (\<lambda>c. is_digit c \<or> (97 \<le> code c \<and> code c \<le> 102)) s"

definition request_text :: "int option \<Rightarrow> string" where
  "request_text request = (case request of None \<Rightarrow> ''none'' | Some i \<Rightarrow> int_str i)"

record marker =
  k_comment :: json
  k_author :: string
  k_at :: int
  k_request :: string
  k_head :: string
  k_round :: "string option"

text \<open>
  A comment of a trusted actor after the round opened that holds the marker's name, with its author, time and
  fields.
\<close>

definition marker_comment :: "edge_net \<Rightarrow> int \<Rightarrow> json \<Rightarrow> (dict \<times> string \<times> int \<times> (string \<times> string) list) option res" where
  "marker_comment n rework_at v = (case v of
      JObj d \<Rightarrow> (case login_of d ''user'' [] of
          Inl e \<Rightarrow> Inl e
        | Inr author \<Rightarrow> Inr (if \<not> trusted_actor author then None
            else (case parse_iso_ts n (dget_py d ''created_at'') of
                None \<Rightarrow> None
              | Some at \<Rightarrow> if at < rework_at \<or> \<not> contains REWORK_COMPLETE_MARKER (text_of d ''body'') then None
                  else Some (d, author, at, marker_fields (text_of d ''body'')))))
    | _ \<Rightarrow> Inr None)"

definition other_round :: "int option \<Rightarrow> string option \<Rightarrow> bool" where
  "other_round expected written = (case (expected, written) of
      (Some i, Some s) \<Rightarrow> parse_int s \<noteq> Some i | _ \<Rightarrow> False)"

definition marker_of ::
  "edge_net \<Rightarrow> string \<Rightarrow> string \<Rightarrow> int \<Rightarrow> int option \<Rightarrow> int option \<Rightarrow> json \<Rightarrow> marker option res" where
  "marker_of n live_head task_id rework_at request expected_round v = (case marker_comment n rework_at v of
      Inl e \<Rightarrow> Inl e
    | Inr None \<Rightarrow> Inr None
    | Inr (Some (d, author, at, kv)) \<Rightarrow> (let head = casefold (field_text kv ''head'') in
        Inr (if dget kv ''task'' \<noteq> Some task_id \<or> \<not> lower_sha head then None
          else if dget kv ''validation'' \<noteq> Some ''passed'' \<or> head \<noteq> casefold live_head then None
          else if other_round expected_round (dget kv ''rework_round'') then None
          else if field_text kv ''request_comment'' \<noteq> request_text request then None
          else Some \<lparr>k_comment = dget_py d ''id'', k_author = author, k_at = at,
            k_request = field_text kv ''request_comment'', k_head = head, k_round = dget kv ''rework_round''\<rparr>)))"

fun first_found :: "('a \<Rightarrow> 'b option res) \<Rightarrow> 'a list \<Rightarrow> 'b option res" where
  "first_found f [] = Inr None"
| "first_found f (x # xs) = (case f x of Inl e \<Rightarrow> Inl e | Inr None \<Rightarrow> first_found f xs | Inr (Some y) \<Rightarrow> Inr (Some y))"

definition pull_comments :: "edge_net \<Rightarrow> task_ref \<Rightarrow> int \<Rightarrow> edge_call list \<Rightarrow> json list edge_result" where
  "pull_comments n ref pr_no calls = get_paginated n (issue_path ref pr_no @ ''/comments'') [(''per_page'', ''100'')] calls"

text \<open>The newest marker, bound to the task, the round, the request and the live head.\<close>

definition completion_marker ::
  "edge_net \<Rightarrow> task_ref \<Rightarrow> pull \<Rightarrow> string \<Rightarrow> int \<Rightarrow> int option \<Rightarrow> int option \<Rightarrow> edge_call list \<Rightarrow> marker option edge_result" where
  "completion_marker n ref pr task_id rework_at request expected_round calls =
     and_then (pull_comments n ref (pr_number pr) calls) (\<lambda>cs calls.
       (first_found (marker_of n (pr_head_sha pr) task_id rework_at request expected_round) (rev cs), calls))"

text \<open>What a comment with the marker's name lacks; a comment that lacks nothing ends the search.\<close>

definition missing_fields :: "string \<Rightarrow> int option \<Rightarrow> (string \<times> string) list \<Rightarrow> string list" where
  "missing_fields task_id request kv =
     (if dget kv ''task'' \<noteq> Some task_id then [''task''] else []) @
     (if \<not> lower_sha (field_text kv ''head'') then [''head''] else []) @
     (if dget kv ''validation'' \<noteq> Some ''passed'' then [''validation''] else []) @
     (if dget kv ''request_comment'' \<noteq> Some (request_text request) then [''request_comment''] else [])"

definition malformed_of :: "edge_net \<Rightarrow> string \<Rightarrow> int \<Rightarrow> int option \<Rightarrow> json \<Rightarrow> (json \<times> string list) option option res" where
  "malformed_of n task_id rework_at request v = (case marker_comment n rework_at v of
      Inl e \<Rightarrow> Inl e
    | Inr None \<Rightarrow> Inr None
    | Inr (Some (d, author, at, kv)) \<Rightarrow> (let lacking = missing_fields task_id request kv in
        Inr (if lacking = [] then Some None
          else if dget_py d ''id'' = JNull then None else Some (Some (dget_py d ''id'', lacking)))))"

definition malformed_completion_marker ::
  "edge_net \<Rightarrow> task_ref \<Rightarrow> pull \<Rightarrow> string \<Rightarrow> int \<Rightarrow> int option \<Rightarrow> edge_call list \<Rightarrow> (json \<times> string list) option edge_result" where
  "malformed_completion_marker n ref pr task_id rework_at request calls =
     and_then (pull_comments n ref (pr_number pr) calls) (\<lambda>cs calls.
       (case first_found (malformed_of n task_id rework_at request) (rev cs) of
          Inl e \<Rightarrow> Inl e | Inr None \<Rightarrow> Inr None | Inr (Some found) \<Rightarrow> Inr found, calls))"

section \<open>The marker the edge posts\<close>

text \<open>The marker, if there is one, the reason and the evidence.\<close>

type_synonym marker_reply = "marker option \<times> string \<times> dict"

definition no_marker :: "string \<Rightarrow> dict \<Rightarrow> marker_reply" where
  "no_marker reason evidence = (None, reason, evidence)"

definition request_comment_of :: "dict \<Rightarrow> int option res" where
  "request_comment_of p = (let v = dget_py p ''request_comment_id'' in
     if v = JNull then Inr None else map_sum id Some (py_int v))"

definition marker_body :: "string \<Rightarrow> int option \<Rightarrow> string \<Rightarrow> int \<Rightarrow> string" where
  "marker_body task_id request live_head round_no = unlines [REWORK_COMPLETE_MARKER, ''task='' @ task_id,
     ''request_comment='' @ request_text request, ''head='' @ live_head, ''validation=passed'',
     ''rework_round='' @ int_str round_no, ''source=edge-reconciliation'']"

text \<open>The actor is asked of GitHub, the marker posted, and looked for again.\<close>

definition post_marker ::
  "edge_net \<Rightarrow> task_ref \<Rightarrow> pull \<Rightarrow> string \<Rightarrow> int \<Rightarrow> int option \<Rightarrow> int \<Rightarrow> edge_call list \<Rightarrow> marker_reply edge_result" where
  "post_marker n ref live_pr task_id rework_at request round_no calls =
     (let live_head = casefold (pr_head_sha live_pr) in
      and_then (edge_get n ''/user'' [] calls) (\<lambda>(payload, _) calls.
      let actor = (case payload of JObj d \<Rightarrow> py_str (py_or (dget_py d ''login'') (JStr [])) | _ \<Rightarrow> []) in
      if \<not> trusted_actor actor then (Inr (no_marker ''edge_actor_untrusted'' [(''actor'', JStr actor)]), calls)
      else and_then (write_json n ''POST'' (issue_path ref (pr_number live_pr) @ ''/comments'')
          [(''body'', JStr (marker_body task_id request live_head round_no))] calls) (\<lambda>(status, _) calls.
      if \<not> ok_status status then (Inr (no_marker ''completion_marker_post_failed'' [(''http_status'', JInt status)]), calls)
      else and_then (completion_marker n ref live_pr task_id rework_at request (Some round_no) calls) (\<lambda>observed calls.
        (Inr (case observed of
           None \<Rightarrow> no_marker ''completion_marker_unobserved''
             [(''http_status'', JInt status), (''head'', JStr live_head), (''rework_round'', JInt round_no)]
         | Some m \<Rightarrow> (Some m, ''edge_marker_created'', [(''completion_comment_id'', k_comment m),
             (''edge_created'', JBool True), (''edge_actor'', JStr actor)])), calls)))))"

text \<open>What the run attests: its validation and the live head, advanced unless a maintainer asked again.\<close>

definition attestation_error :: "dict \<Rightarrow> run \<Rightarrow> string \<Rightarrow> (string \<times> dict) option" where
  "attestation_error p r live_head =
     (let heads = sort (remdups (rework_head_candidates r));
          requested = casefold (py_str (py_or (dget_py p ''head_sha'') (JStr []))) in
      if \<not> validation_passed r then Some (''validation_attestation_missing'',
        [(''run_id'', run_json r), (''validation'', dget_py (run_metadata_dict r) ''validation'')])
      else if heads = [] then Some (''run_head_missing'', [(''run_id'', run_json r)])
      else if live_head \<notin> set heads then Some (''run_head_mismatch'',
        [(''run_id'', run_json r), (''run_heads'', JArr (map JStr heads)), (''live_head'', JStr live_head)])
      else if requested \<noteq> [] \<and> requested = live_head \<and> \<not> rework_round_is_maintainer_retry p
      then Some (''rework_head_unchanged'', [(''requested_head'', JStr requested), (''head'', JStr live_head)])
      else None)"

text \<open>The comment a round is bound to: there, of a trusted actor, and of the exact form when it is a retry.\<close>

definition request_lines :: "dict \<Rightarrow> string list" where
  "request_lines d = filter (\<lambda>l. l \<noteq> []) (map py_strip (splitlines (text_of d ''body'')))"

definition request_error :: "dict \<Rightarrow> string \<Rightarrow> int \<Rightarrow> json list \<Rightarrow> (string \<times> dict) option res" where
  "request_error p task_id request cs =
     (case find (\<lambda>v. is_obj v \<and> py_equals_int (dget_py (obj_of v) ''id'') request) cs of
        None \<Rightarrow> Inr (Some (''rework_request_missing'', [(''request_comment_id'', JInt request)]))
      | Some v \<Rightarrow> (case login_of (obj_of v) ''user'' [] of
          Inl e \<Rightarrow> Inl e
        | Inr author \<Rightarrow> Inr (if \<not> trusted_actor author
            then Some (''rework_request_untrusted'', [(''request_comment_id'', JInt request), (''author'', JStr author)])
            else if rework_round_is_maintainer_retry p \<and> request_lines (obj_of v) \<noteq> [REWORK_RETRY_MARKER, ''task='' @ task_id]
            then Some (''rework_request_invalid'', [(''request_comment_id'', JInt request)])
            else None)))"

definition check_request ::
  "edge_net \<Rightarrow> task_ref \<Rightarrow> int \<Rightarrow> dict \<Rightarrow> string \<Rightarrow> int option \<Rightarrow> edge_call list \<Rightarrow> (string \<times> dict) option edge_result" where
  "check_request n ref pr_no p task_id request calls = (case request of
      None \<Rightarrow> (Inr None, calls)
    | Some i \<Rightarrow> and_then (pull_comments n ref pr_no calls) (\<lambda>cs calls. (request_error p task_id i cs, calls)))"

definition attested_marker ::
  "edge_net \<Rightarrow> task_ref \<Rightarrow> pull \<Rightarrow> string \<Rightarrow> dict \<Rightarrow> int \<Rightarrow> run \<Rightarrow> int option \<Rightarrow> int \<Rightarrow> edge_call list \<Rightarrow> marker_reply edge_result" where
  "attested_marker n ref live_pr task_id p rework_at r request round_no calls =
     and_then (check_request n ref (pr_number live_pr) p task_id request calls) (\<lambda>failed calls. case failed of
         Some (reason, evidence) \<Rightarrow> (Inr (no_marker reason evidence), calls)
       | None \<Rightarrow> (case attestation_error p r (casefold (pr_head_sha live_pr)) of
           Some (reason, evidence) \<Rightarrow> (Inr (no_marker reason evidence), calls)
         | None \<Rightarrow> post_marker n ref live_pr task_id rework_at request round_no calls))"

text \<open>The Issue must still be open and ready.\<close>

definition ready_marker ::
  "edge_net \<Rightarrow> task_ref \<Rightarrow> pull \<Rightarrow> string \<Rightarrow> dict \<Rightarrow> int \<Rightarrow> run \<Rightarrow> int option \<Rightarrow> int \<Rightarrow> edge_call list \<Rightarrow> marker_reply edge_result" where
  "ready_marker n ref live_pr task_id p rework_at r request round_no calls =
     and_then (edge_get n (issue_path ref (r_issue ref)) [] calls) (\<lambda>(payload, _) calls. case payload of
         JObj issue \<Rightarrow> (let state = casefold (py_str (dget_or issue ''state'' (JStr []))) in
           case payload_labels issue of
             Inl e \<Rightarrow> (Inl e, calls)
           | Inr labels \<Rightarrow> if state \<noteq> ''open'' \<or> AGENT_READY_LABEL \<notin> set labels
               then (Inr (no_marker ''issue_not_agent_ready'' [(''issue_state'', JStr state),
                 (''issue_agent_ready'', JBool (AGENT_READY_LABEL \<in> set labels))]), calls)
               else attested_marker n ref live_pr task_id p rework_at r request round_no calls)
       | _ \<Rightarrow> (Inr (no_marker ''issue_query_invalid'' []), calls))"

text \<open>A marker that is there already, on the pull request as it is now, is taken.\<close>

definition live_marker ::
  "edge_net \<Rightarrow> task_ref \<Rightarrow> pull \<Rightarrow> string \<Rightarrow> dict \<Rightarrow> int \<Rightarrow> run \<Rightarrow> int \<Rightarrow> edge_call list \<Rightarrow> marker_reply edge_result" where
  "live_marker n ref live_pr task_id p rework_at r round_no calls = (case request_comment_of p of
      Inl e \<Rightarrow> (Inl e, calls)
    | Inr request \<Rightarrow>
      and_then (completion_marker n ref live_pr task_id rework_at request (Some round_no) calls) (\<lambda>found calls. case found of
          Some m \<Rightarrow> (Inr (Some m, ''delivery_complete'',
            [(''completion_comment_id'', k_comment m), (''edge_created'', JBool False)]), calls)
        | None \<Rightarrow> if column_text (run_outcome r) = ''review_requested''
            then (Inr (no_marker ''delivery_run_review_requested'' [(''run_id'', run_json r)]), calls)
            else ready_marker n ref live_pr task_id p rework_at r request round_no calls))"

definition edge_owned_completion_marker ::
  "edge_net \<Rightarrow> task_ref \<Rightarrow> pull \<Rightarrow> string \<Rightarrow> rework_event \<Rightarrow> run \<Rightarrow> int option \<Rightarrow> edge_call list \<Rightarrow> marker_reply edge_result" where
  "edge_owned_completion_marker n ref pr task_id event r open_pr_count calls =
     (let (p, rework_at, kind) = event in
      case dget_py p ''rework_round'' of
        JInt round_no \<Rightarrow>
          if round_no \<le> 0 then (Inr (no_marker ''rework_event_round_invalid'' []), calls)
          else if kind \<notin> {''github_pr_rework'', ''github_pr_rework_retry''}
          then (Inr (no_marker ''rework_event_invalid_shape'' []), calls)
          else if open_pr_count \<noteq> None \<and> open_pr_count \<noteq> Some 1
          then (Inr (no_marker ''rework_pr_ambiguous'' [(''open_pr_count'', opt_int open_pr_count)]), calls)
          else and_then (edge_get n (pull_path ref (pr_number pr)) [] calls) (\<lambda>(payload, _) calls.
            case parse_pull_request (pr_number pr) payload ref of
              Inl e \<Rightarrow> (Inl e, calls)
            | Inr live_pr \<Rightarrow>
                if pr_state live_pr \<noteq> ''open'' \<or> pr_base live_pr \<noteq> r_target ref
                then (Inr (no_marker ''rework_pr_not_open'' [(''pr_number'', JInt (pr_number live_pr)),
                  (''state'', JStr (pr_state live_pr)), (''base_branch'', JStr (pr_base live_pr))]), calls)
                else if \<not> FULL_SHA (casefold (pr_head_sha live_pr))
                then (Inr (no_marker ''rework_head_invalid'' [(''head'', JStr (pr_head_sha live_pr))]), calls)
                else live_marker n ref live_pr task_id p rework_at r round_no calls)
      | _ \<Rightarrow> (Inr (no_marker ''rework_event_round_invalid'' []), calls))"

section \<open>The contract of a delivery\<close>

type_synonym delivery = "bool \<times> string \<times> dict"

definition rejected :: "string \<Rightarrow> dict \<Rightarrow> delivery" where
  "rejected reason evidence = (False, reason, evidence)"

definition delivery_evidence :: "dict \<Rightarrow> int \<Rightarrow> run \<Rightarrow> marker \<Rightarrow> dict" where
  "delivery_evidence p rework_at r m = [(''run_id'', run_json r), (''run_outcome'', opt_str (run_outcome r)),
     (''rework_round'', dget_py p ''rework_round''), (''rework_event_at'', JInt rework_at),
     (''request_comment_id'', dget_py p ''request_comment_id''), (''head'', JStr (k_head m)),
     (''validation'', JStr ''passed''), (''completion_comment_id'', k_comment m)]"

text \<open>
  The marker against the run: its head must be one the run attests, if it attests any, and a new one; only a
  maintainer's retry may hand in the head the round started from.
\<close>

definition accept_marker :: "dict \<Rightarrow> int \<Rightarrow> run \<Rightarrow> marker \<Rightarrow> dict \<Rightarrow> delivery" where
  "accept_marker p rework_at r m source =
     (let heads = sort (remdups (rework_head_candidates r));
          requested = casefold (py_str (py_or (dget_py p ''head_sha'') (JStr []))) in
      if heads \<noteq> [] \<and> k_head m \<notin> set heads
      then rejected ''run_head_mismatch'' [(''run_id'', run_json r), (''run_heads'', JArr (map JStr heads)), (''marker_head'', JStr (k_head m))]
      else if requested \<noteq> [] \<and> requested = k_head m then
        (if rework_round_is_maintainer_retry p \<and> heads \<noteq> []
         then (True, ''delivery_complete_verification_only'', delivery_evidence p rework_at r m @
           [(''verification_only'', JBool True), (''retry_comment_id'', dget_py p ''retry_comment_id'')])
         else rejected ''rework_head_unchanged'' [(''requested_head'', JStr requested), (''head'', JStr (k_head m))])
      else (True, ''delivery_complete'', delivery_evidence p rework_at r m @
        (if dget_py source ''edge_created'' = JBool True then [(''completion_source'', JStr ''edge-reconciliation'')] else [])))"

definition missing_handoff ::
  "edge_net \<Rightarrow> task_ref \<Rightarrow> pull \<Rightarrow> string \<Rightarrow> int \<Rightarrow> int option \<Rightarrow> run \<Rightarrow> edge_call list \<Rightarrow> delivery edge_result" where
  "missing_handoff n ref pr task_id rework_at request r calls =
     and_then (malformed_completion_marker n ref pr task_id rework_at request calls) (\<lambda>found calls.
       (Inr (case found of
          Some (comment_id, lacking) \<Rightarrow> rejected ''completion_marker_malformed'' [(''run_id'', run_json r),
            (''completion_comment_id'', comment_id), (''missing_fields'', JArr (map JStr lacking))]
        | None \<Rightarrow> rejected ''completion_handoff_missing'' [(''run_id'', run_json r)]), calls))"

text \<open>A marker of the worker, else one the edge may post; a run that attests nothing looks for a malformed one.\<close>

definition judge_run ::
  "edge_net \<Rightarrow> task_ref \<Rightarrow> string \<Rightarrow> pull \<Rightarrow> rework_event \<Rightarrow> int option \<Rightarrow> bool \<Rightarrow> int \<Rightarrow> int option \<Rightarrow> run \<Rightarrow> edge_call list \<Rightarrow> delivery edge_result" where
  "judge_run n ref task_id pr event open_pr_count allow_edge_creation round_no request r calls =
     (let (p, rework_at, kind) = event in
      and_then (completion_marker n ref pr task_id rework_at request (Some round_no) calls) (\<lambda>found calls. case found of
          Some m \<Rightarrow> (Inr (accept_marker p rework_at r m []), calls)
        | None \<Rightarrow>
          and_then (if allow_edge_creation then edge_owned_completion_marker n ref pr task_id event r open_pr_count calls
              else (Inr (no_marker ''edge_marker_creation_skipped_dry_run'' []), calls)) (\<lambda>(posted, reason, evidence) calls.
            case posted of
              Some m \<Rightarrow> (Inr (accept_marker p rework_at r m evidence), calls)
            | None \<Rightarrow> if reason \<notin> {''validation_attestation_missing'', ''run_head_missing''}
                then (Inr (rejected reason (dset ''run_id'' (run_json r) [] @ filter (\<lambda>q. fst q \<noteq> ''run_id'') evidence)), calls)
                else missing_handoff n ref pr task_id rework_at request r calls)))"

definition delivery_outcomes :: "string list" where
  "delivery_outcomes = [''completed'', ''blocked'', ''review_requested'']"

definition rework_delivery_evidence ::
  "edge_net \<Rightarrow> db_env \<Rightarrow> nat \<Rightarrow> task_ref \<Rightarrow> string \<Rightarrow> pull \<Rightarrow> rework_event \<Rightarrow> int option \<Rightarrow> bool \<Rightarrow> edge_world \<Rightarrow> delivery sync_result" where
  "rework_delivery_evidence n env k ref task_id pr event open_pr_count allow_edge_creation w =
     (let (p, rework_at, kind) = event in
      case validate_rework_event (Some ref) (Some (pr_number pr)) None event of
        Some reason \<Rightarrow> (Inr (rejected reason []), w)
      | None \<Rightarrow>
        and_then (on_net (label_is_newer_than_event n ref (pr_number pr) rework_at (dget_py p ''label_added_at'') (dget_py p ''label_event_id'')) w)
        (\<lambda>newer w. if newer then (Inr (rejected ''delivery_superseded_by_new_rework'' [(''rework_at'', JInt rework_at)]), w)
        else and_then (reading env k (\<lambda>b. task_run_after_rework b task_id rework_at (dget_py p ''rework_round'')) w) (\<lambda>found w.
          case found of
            None \<Rightarrow> (Inr (rejected ''delivery_run_missing'' [(''rework_at'', JInt rework_at)]), w)
          | Some r \<Rightarrow>
              if run_ended r = None then (Inr (rejected ''delivery_run_missing'' [(''rework_at'', JInt rework_at)]), w)
              else if column_text (run_outcome r) \<notin> set delivery_outcomes
              then (Inr (rejected ''delivery_run_failed'' [(''outcome'', opt_str (run_outcome r)), (''run_id'', run_json r)]), w)
              else (case (py_int (dget_py p ''rework_round''), request_comment_of p) of
                  (Inr round_no, Inr request) \<Rightarrow>
                    on_net (judge_run n ref task_id pr event open_pr_count allow_edge_creation round_no request r) w
                | (Inl e, _) \<Rightarrow> (Inl e, w)
                | (_, Inl e) \<Rightarrow> (Inl e, w)))))"

end
