(* ===== verification/DeliveryGuarantees.thy ===== *)
theory DeliveryGuarantees
  imports EdgeDelivery BlockedGuarantees CompletionGuarantees
begin

text \<open>
  What a delivery of a rework round rests on: the developers above a reviewer are found exactly, a graph's
  delivery is attested by its reviewer and developer for one head, and a round is closed only with a run of the round
  and a completion marker that was read from GitHub.
\<close>

section \<open>The developers above a reviewer\<close>

definition parent_of :: "board \<Rightarrow> (string \<times> string) set" where
  "parent_of b = {(c, p). (p, c) \<in> set (task_links b) \<and> task_row p b \<noteq> None}"

definition developers_above :: "board \<Rightarrow> string \<Rightarrow> task set" where
  "developers_above b x = {t. assigned_to ''kanban-developer'' t \<and> task_row (t_id t) b = Some t \<and> t_id t \<noteq> x \<and>
     (x, t_id t) \<in> (parent_of b)\<^sup>+}"

lemma parent_of_row: "(c, p) \<in> parent_of b \<longleftrightarrow> (\<exists>t. t \<in> set (parent_tasks b c) \<and> t_id t = p)"
  by (auto simp: parent_of_def parent_tasks_mem dest: task_row_id)

definition walk_inv :: "board \<Rightarrow> string \<Rightarrow> string list \<Rightarrow> string list \<Rightarrow> task list \<Rightarrow> bool" where
  "walk_inv b x queue visited found \<longleftrightarrow> x \<in> set visited \<and> set visited \<subseteq> (parent_of b)\<^sup>* `` {x} \<and> set queue \<subseteq> set visited \<and>
     (\<forall>c \<in> set visited - set queue. parent_of b `` {c} \<subseteq> set visited) \<and>
     set found = {t. assigned_to ''kanban-developer'' t \<and> task_row (t_id t) b = Some t \<and> t_id t \<in> set visited - {x}}"

lemma walk_step:
  assumes inv: "walk_inv b x (child # queue) visited found"
    and step: "absorb_parents (parent_tasks b child) visited queue found = (visited', queue', found')"
  shows "walk_inv b x queue' visited' found'"
proof -
  obtain new where new: "visited' = visited @ map t_id new" "queue' = queue @ map t_id new"
      "found' = found @ filter (assigned_to ''kanban-developer'') new" "set new \<subseteq> set (parent_tasks b child)"
      "set (map t_id (parent_tasks b child)) \<subseteq> set visited'" "set (map t_id new) \<inter> set visited = {}"
    using absorbed [OF step] by auto
  have rows: "(child, t_id t) \<in> parent_of b \<and> task_row (t_id t) b = Some t" if "t \<in> set new" for t
  proof -

    have "t \<in> set (parent_tasks b child)" using that new(4) by blast
    then show ?thesis using parent_of_row by (auto simp: parent_tasks_mem)
  qed
  have "child \<in> (parent_of b)\<^sup>* `` {x}" using inv by (auto simp: walk_inv_def)
  then have reach: "set visited' \<subseteq> (parent_of b)\<^sup>* `` {x}"
    using inv rows by (auto simp: walk_inv_def new(1) intro: rtrancl_into_rtrancl)
  have "parent_of b `` {c} \<subseteq> set visited'" if c: "c \<in> set visited' - set queue'" for c
  proof (cases "c = child")
    case True
    with new(5) show ?thesis by (auto simp: parent_of_row image_subset_iff)
  next
    case False
    with c have "c \<in> set visited - set (child # queue)" by (auto simp: new(1,2))
    with inv have "parent_of b `` {c} \<subseteq> set visited" unfolding walk_inv_def by blast
    then show ?thesis by (auto simp: new(1))
  qed
  moreover have "set found' = {t. assigned_to ''kanban-developer'' t \<and> task_row (t_id t) b = Some t \<and> t_id t \<in> set visited' - {x}}"
  proof -
    have "t \<in> set new" if "task_row (t_id t) b = Some t" "t_id t \<in> t_id ` set new" for t
      using that rows by fastforce
    moreover have "x \<in> set visited" using inv by (simp add: walk_inv_def)
    ultimately show ?thesis using inv rows new(6) by (auto simp: walk_inv_def new(1,3))
  qed
  ultimately show ?thesis using inv reach new(2) by (auto simp: walk_inv_def new(1))
qed

lemma walk_found:
  "walk_inv b x queue visited found \<Longrightarrow> set (developer_walk b queue visited found) = developers_above b x"
proof (induction b queue visited found rule: developer_walk.induct)
  case (1 b visited found)
  then have closed: "parent_of b `` set visited \<subseteq> set visited" and x: "x \<in> set visited"
    and sub: "set visited \<subseteq> (parent_of b)\<^sup>* `` {x}" by (auto simp: walk_inv_def)
  have "(x, y) \<in> (parent_of b)\<^sup>* \<Longrightarrow> y \<in> set visited" for y
    by (induction rule: rtrancl_induct) (use closed x in auto)
  with sub have "set visited = (parent_of b)\<^sup>* `` {x}" by auto
  then have "y \<in> set visited - {x} \<longleftrightarrow> y \<noteq> x \<and> (x, y) \<in> (parent_of b)\<^sup>+" for y
    by (auto simp: rtrancl_eq_or_trancl)
  with 1 show ?case by (auto simp: walk_inv_def developers_above_def)
next
  case (2 b child queue visited found)
  obtain v q f where s: "absorb_parents (parent_tasks b child) visited queue found = (v, q, f)" by (rule prod_cases3)
  from 2 walk_step [OF 2(2) s] s show ?case by simp
qed

text \<open>
  The search for the developers above a reviewer ends on every board, cyclic links included, and finds
  exactly the developer cards that can be reached over parent links between existing cards, other than the reviewer itself.
\<close>

theorem developer_ancestors_exact:
  "set (specialist_developer_ancestors b x) = developers_above b x"
proof -
  have "walk_inv b x [x] [x] []" by (auto simp: walk_inv_def)
  then show ?thesis unfolding specialist_developer_ancestors_def by (rule walk_found)
qed

section \<open>The delivery of a graph\<close>

text \<open>The newest run of a card since a time, and it is finished.\<close>

definition newest_finished :: "board \<Rightarrow> string \<Rightarrow> int \<Rightarrow> run \<Rightarrow> bool" where
  "newest_finished b x at r \<longleftrightarrow> r \<in> set (task_runs b) \<and> run_task r = x \<and> at \<le> run_started r \<and> finished_run r \<and>
     (\<forall>r' \<in> set (task_runs b). run_task r' = x \<and> at \<le> run_started r' \<longrightarrow> run_id r' \<le> run_id r)"

lemma runs_since_mem: "r \<in> set (runs_since b x at) \<longleftrightarrow> r \<in> set (task_runs b) \<and> run_task r = x \<and> at \<le> run_started r"
  by (auto simp: runs_since_def)

lemma latest_run_newest:
  assumes "latest_run accepted b x at = Some r"
  shows "newest_finished b x at r \<and> accepted r"
proof -
  obtain rest where runs: "runs_since b x at = r # rest" and r: "finished_run r" "accepted r"
    using assms by (auto simp: latest_run_def split: list.split_asm if_split_asm)
  have "sorted (map run_id (rev (r # rest)))" unfolding runs [symmetric] by (simp add: runs_since_def)
  then have "\<forall>r' \<in> set (runs_since b x at). run_id r' \<le> run_id r" unfolding runs by (auto simp: sorted_append)
  moreover have "r \<in> set (runs_since b x at)" by (simp add: runs)
  ultimately show ?thesis using r by (auto simp: newest_finished_def runs_since_mem)
qed

lemma newest_task_mem: "ts \<noteq> [] \<Longrightarrow> newest_task ts \<in> set ts"
proof -
  have "foldl (\<lambda>best t. if completion_key best < completion_key t then t else best) t ts \<in> insert t (set ts)" for t
    by (induction ts arbitrary: t) auto
  from this [of "hd (ts)"] show "ts \<noteq> [] \<Longrightarrow> newest_task ts \<in> set ts"
    by (cases ts) (force simp: newest_task_def)+
qed

text \<open>The reviewer's pass on one head, and either a developer's validation of it that the lead outlives, or the lead.\<close>

definition reviewed_head :: "board \<Rightarrow> string \<Rightarrow> int \<Rightarrow> task \<Rightarrow> run \<Rightarrow> string \<Rightarrow> bool" where
  "reviewed_head b task_id at reviewer verdict_run head \<longleftrightarrow>
     (\<forall>t \<in> set (tasks b). (t_id t, task_id) \<in> set (task_links b) \<longrightarrow> settled_task t) \<and>
     reviewer \<in> set (tasks b) \<and> (t_id reviewer, task_id) \<in> set (task_links b) \<and> assigned_to ''kanban-reviewer'' reviewer \<and>
     specialist_task_completed_in_round reviewer at \<and> newest_finished b (t_id reviewer) at verdict_run \<and>
     specialist_review_pass verdict_run \<and> set (specialist_full_heads verdict_run) = {head}"

definition graph_delivery :: "board \<Rightarrow> string \<Rightarrow> int \<Rightarrow> run \<Rightarrow> bool" where
  "graph_delivery b task_id at r \<longleftrightarrow> (\<exists>reviewer verdict_run head. reviewed_head b task_id at reviewer verdict_run head \<and>
     (if developers_above b (t_id reviewer) = {} then newest_finished b task_id at r
      else (\<exists>d lead. d \<in> developers_above b (t_id reviewer) \<and> settled_task d \<and> specialist_task_completed_in_round d at \<and>
        newest_finished b (t_id d) at r \<and> validation_passed r \<and> set (specialist_metadata_heads r) = {head} \<and>
        newest_finished b task_id at lead \<and>
        specialist_timestamp (t_completed_at reviewer) \<le> specialist_timestamp (run_ended lead) \<and>
        specialist_timestamp (run_ended verdict_run) \<le> specialist_timestamp (run_ended lead))))"

lemma one_element: "length xs = 1 \<Longrightarrow> \<exists>x. xs = [x]"
  by (cases xs) auto

lemma reviewed_graph:
  assumes "reviewed_delivery b task_id at round_no reviewer verdict_run [head] = Some (r, evidence)"
    and "reviewed_head b task_id at reviewer verdict_run head"
  shows "graph_delivery b task_id at r"
proof -
  let ?above = "specialist_developer_ancestors b (t_id reviewer)"
  obtain lead where lead: "latest_specialist_lead_run b task_id at = Some lead"
    and out: "if current_tasks at ?above \<noteq> []
      then (\<exists>requested. attested_delivery b at round_no requested reviewer verdict_run [head] lead (newest_task (current_tasks at ?above)) = Some (r, evidence))
      else r = lead \<and> ?above = []"
    using assms(1)
    by (auto simp: reviewed_delivery_def direct_delivery_def Let_def split: if_split_asm option.split_asm)
  have fin: "newest_finished b task_id at lead"
    using latest_run_newest lead unfolding latest_specialist_lead_run_def by blast
  show ?thesis
  proof (cases "current_tasks at ?above = []")
    case True
    with out have r: "r = lead" and none: "developers_above b (t_id reviewer) = {}"
      using developer_ancestors_exact [of b "t_id reviewer"] by auto
    from fin assms(2) show ?thesis unfolding graph_delivery_def r
      by (intro exI [of _ reviewer] exI [of _ verdict_run] exI [of _ head]) (simp add: none)
  next
    case False
    define d where "d = newest_task (current_tasks at ?above)"
    have d: "d \<in> developers_above b (t_id reviewer)" "settled_task d" "specialist_task_completed_in_round d at"
      using newest_task_mem [OF False] developer_ancestors_exact [of b "t_id reviewer"] by (auto simp: d_def current_tasks_def)
    obtain requested where "attested_delivery b at round_no requested reviewer verdict_run [head] lead d = Some (r, evidence)"
      using out False by (auto simp: d_def)
    then have dev: "latest_specialist_developer_run b (t_id d) at = Some r"
      and h: "set (specialist_metadata_heads r) = {head}"
      and ends: "\<not> specialist_timestamp (run_ended lead) <
        max (specialist_timestamp (t_completed_at reviewer)) (specialist_timestamp (run_ended verdict_run))"
      by (auto simp: attested_delivery_def split: option.split_asm if_split_asm)
    have "newest_finished b (t_id d) at r \<and> validation_passed r"
      using latest_run_newest dev unfolding latest_specialist_developer_run_def by blast
    with assms(2) d fin h ends have "\<exists>d lead. d \<in> developers_above b (t_id reviewer) \<and> settled_task d \<and>
        specialist_task_completed_in_round d at \<and> newest_finished b (t_id d) at r \<and> validation_passed r \<and>
        set (specialist_metadata_heads r) = {head} \<and> newest_finished b task_id at lead \<and>
        specialist_timestamp (t_completed_at reviewer) \<le> specialist_timestamp (run_ended lead) \<and>
        specialist_timestamp (run_ended verdict_run) \<le> specialist_timestamp (run_ended lead)"
      by (intro exI [of _ d] exI [of _ lead]) (simp add: not_less)
    moreover have "developers_above b (t_id reviewer) \<noteq> {}" using d(1) by blast
    ultimately show ?thesis using assms(2) unfolding graph_delivery_def
      by (intro exI [of _ reviewer] exI [of _ verdict_run] exI [of _ head]) simp
  qed
qed

lemma graph_run_delivered:
  assumes "specialist_graph_delivery_run b task_id at round_no = Some r"
  shows "graph_delivery b task_id at r"
proof -
  let ?parents = "filter (\<lambda>t. t_id t \<in> set (parents_of task_id b)) (tasks b)"
  define reviewer where "reviewer = newest_task (filter (\<lambda>t. assigned_to ''kanban-reviewer'' t \<and> specialist_task_completed_in_round t at) ?parents)"
  obtain evidence where c: "specialist_graph_delivery_candidate b task_id at round_no = Some (r, evidence)"
    using assms by (auto simp: specialist_graph_delivery_run_def)
  then obtain verdict_run where pre: "list_all settled_task ?parents"
      "filter (\<lambda>t. assigned_to ''kanban-reviewer'' t \<and> specialist_task_completed_in_round t at) ?parents \<noteq> []"
    and run: "latest_specialist_reviewer_run b (t_id reviewer) at = Some verdict_run"
    and one: "length (specialist_full_heads verdict_run) = 1"
    and out: "reviewed_delivery b task_id at round_no reviewer verdict_run (specialist_full_heads verdict_run) = Some (r, evidence)"
    by (auto simp: specialist_graph_delivery_candidate_def reviewer_def Let_def split: option.split_asm if_split_asm)
  obtain head where head: "specialist_full_heads verdict_run = [head]" using one_element [OF one] by blast
  have links: "x \<in> set (parents_of task_id b) \<longleftrightarrow> (x, task_id) \<in> set (task_links b)" for x
    by (force simp: parents_of_def)
  have "reviewer \<in> set (filter (\<lambda>t. assigned_to ''kanban-reviewer'' t \<and> specialist_task_completed_in_round t at) ?parents)"
    unfolding reviewer_def by (rule newest_task_mem [OF pre(2)])
  moreover have "newest_finished b (t_id reviewer) at verdict_run \<and> specialist_review_pass verdict_run"
    using latest_run_newest run unfolding latest_specialist_reviewer_run_def by blast
  ultimately have "reviewed_head b task_id at reviewer verdict_run head"
    using pre(1) head by (auto simp: reviewed_head_def list_all_iff links)
  with out head show ?thesis by (auto intro: reviewed_graph)
qed

section \<open>The run of a round\<close>

text \<open>The edge recorded that it claimed the run for this round.\<close>

definition claimed_by_edge :: "board \<Rightarrow> string \<Rightarrow> int \<Rightarrow> int \<Rightarrow> run \<Rightarrow> bool" where
  "claimed_by_edge b task_id at round_no r \<longleftrightarrow> r \<in> set (task_runs b) \<and> run_task r = task_id \<and> at - 1 \<le> run_started r \<and>
     (\<exists>e p. e \<in> set (events b) \<and> e_task e = task_id \<and> e_run e = Some (run_id r) \<and>
       e_kind e = REWORK_DISPATCH_PROVENANCE_KIND \<and> event_dict e = Some p \<and>
       round_provenance task_id at round_no p = Inr True)"

lemma any_provenance_found:
  "any_provenance task_id at round_no es = Inr True \<Longrightarrow>
   \<exists>e p. e \<in> set es \<and> event_dict e = Some p \<and> round_provenance task_id at round_no p = Inr True"
  by (induction es) (auto split: option.split_asm sum.split_asm bool.split_asm)

lemma claimed_run_found:
  "edge_claimed_run b task_id at round_no rs = Inr (Some r) \<Longrightarrow>
   r \<in> set rs \<and> any_provenance task_id at round_no (provenance_rows b task_id r) = Inr True"
  by (induction rs) (auto split: sum.split_asm bool.split_asm)

definition run_of_round :: "board \<Rightarrow> string \<Rightarrow> int \<Rightarrow> int \<Rightarrow> run \<Rightarrow> bool" where
  "run_of_round b task_id at round_no r \<longleftrightarrow> claimed_by_edge b task_id at round_no r \<or> graph_delivery b task_id at r"

lemma run_after_rework:
  assumes "task_run_after_rework b task_id at v = Inr (Some r)"
  shows "\<exists>round_no. v = JInt round_no \<and> 0 < round_no \<and> run_of_round b task_id at round_no r"
proof -
  obtain round_no claimed where v: "v = JInt round_no" "0 < round_no"
    and c: "edge_claimed_run b task_id at round_no (runs_since b task_id (max 0 (at - 1))) = Inr claimed"
    and r: "(case specialist_graph_delivery_run b task_id at round_no of Some r \<Rightarrow> Some r | None \<Rightarrow> claimed) = Some r"
    using assms by (auto simp: task_run_after_rework_def split: json.split_asm if_split_asm sum.split_asm)
  show ?thesis
  proof (cases "specialist_graph_delivery_run b task_id at round_no")
    case None
    with r c claimed_run_found [of b task_id at round_no _ r] any_provenance_found
    have mem: "r \<in> set (runs_since b task_id (max 0 (at - 1)))"
      and "\<exists>e p. e \<in> set (provenance_rows b task_id r) \<and> event_dict e = Some p \<and> round_provenance task_id at round_no p = Inr True"
      by auto
    then have "claimed_by_edge b task_id at round_no r"
      by (auto simp: claimed_by_edge_def runs_since_mem provenance_rows_def)
    with v show ?thesis by (auto simp: run_of_round_def)
  next
    case (Some r')
    with r graph_run_delivered have "graph_delivery b task_id at r" by auto
    with v show ?thesis by (auto simp: run_of_round_def)
  qed
qed

section \<open>The marker\<close>

text \<open>A comment of the pull request that a listing among the calls returned.\<close>

definition listed :: "edge_net \<Rightarrow> task_ref \<Rightarrow> int \<Rightarrow> edge_call list \<Rightarrow> edge_call list \<Rightarrow> json \<Rightarrow> bool" where
  "listed n ref pr_no calls calls' v \<longleftrightarrow> (\<exists>before after cs. pull_comments n ref pr_no before = (Inr cs, after) \<and>
     extends calls before \<and> extends after calls' \<and> v \<in> set cs)"

text \<open>A trusted marker for the task, the round and the head.\<close>

definition handed_in ::
  "edge_net \<Rightarrow> task_ref \<Rightarrow> int \<Rightarrow> string \<Rightarrow> string \<Rightarrow> int \<Rightarrow> int option \<Rightarrow> int \<Rightarrow> edge_call list \<Rightarrow> edge_call list \<Rightarrow> marker \<Rightarrow> bool" where
  "handed_in n ref pr_no live_head task_id at request round_no calls calls' m \<longleftrightarrow>
     (\<exists>v. listed n ref pr_no calls calls' v \<and> marker_of n live_head task_id at request (Some round_no) v = Inr (Some m))"

lemma first_found_mem: "first_found f xs = Inr (Some y) \<Longrightarrow> \<exists>x \<in> set xs. f x = Inr (Some y)"
  by (induction xs) (auto split: sum.split_asm option.split_asm)

lemma comments_extends: "extends calls (snd (pull_comments n ref pr_no calls))"
  by (simp add: pull_comments_def get_paginated_def edge_pages_extends)

lemma marker_extends: "extends calls (snd (completion_marker n ref pr task_id at request round_no calls))"
  unfolding completion_marker_def by (rule and_then_extends [OF comments_extends]) simp

lemma marker_handed_in:
  assumes "completion_marker n ref pr task_id at request (Some round_no) calls = (Inr (Some m), calls')"
    and "extends before calls" and "extends calls' after"
  shows "handed_in n ref (pr_number pr) (pr_head_sha pr) task_id at request round_no before after m"
proof -
  obtain cs where cs: "pull_comments n ref (pr_number pr) calls = (Inr cs, calls')"
    and f: "first_found (marker_of n (pr_head_sha pr) task_id at request (Some round_no)) (rev cs) = Inr (Some m)"
    using assms(1) by (auto simp: completion_marker_def and_then_def split: prod.split_asm sum.split_asm)
  from first_found_mem [OF f] obtain v where "v \<in> set cs" "marker_of n (pr_head_sha pr) task_id at request (Some round_no) v = Inr (Some m)"
    by auto
  with cs assms(2,3) show ?thesis unfolding handed_in_def listed_def by blast
qed

lemma marker_facts:
  assumes "marker_of n live_head task_id at request round_no v = Inr (Some m)"
  shows "k_head m = casefold live_head" "lower_sha (k_head m)" "trusted_actor (k_author m)" "at \<le> k_at m"
  using assms by (auto simp: marker_of_def marker_comment_def Let_def split: sum.split_asm option.split_asm json.split_asm if_split_asm)

lemma write_extends: "extends calls (snd (write_json n method path payload calls))"
  by (auto simp: write_json_def ask_def extends_def Let_def split: edge_answer.splits sum.splits)

lemma extends_next: "extends calls c \<Longrightarrow> m = (r, c') \<Longrightarrow> extends c (snd m) \<Longrightarrow> extends calls c'"
  by (auto intro: extends_trans)

text \<open>A reply whose marker, if there is one, has a property of it and of the calls made.\<close>

definition marks :: "(marker \<Rightarrow> edge_call list \<Rightarrow> bool) \<Rightarrow> marker_reply edge_result \<Rightarrow> bool" where
  "marks P x \<longleftrightarrow> (\<forall>m reason evidence c. x = (Inr (Some m, reason, evidence), c) \<longrightarrow> P m c)"

lemma marks_simps [simp]: "marks P (Inl e, c)" "marks P (Inr (no_marker reason evidence), c)" "marks P (Inr (None, rest), c)"
  "marks P (Inr (Some m, rest), c) \<longleftrightarrow> P m c"
  by (cases rest; simp add: marks_def no_marker_def)+

lemma marks_then: "(\<And>y c. m = (Inr y, c) \<Longrightarrow> marks P (k y c)) \<Longrightarrow> marks P (and_then m k)"
  by (cases m; cases "fst m") (auto simp: and_then_def)

definition live_head_in :: "edge_net \<Rightarrow> task_ref \<Rightarrow> pull \<Rightarrow> string \<Rightarrow> int \<Rightarrow> int option \<Rightarrow> int \<Rightarrow> edge_call list \<Rightarrow> marker \<Rightarrow> edge_call list \<Rightarrow> bool" where
  "live_head_in n ref pr task_id at request round_no before m after \<longleftrightarrow>
     handed_in n ref (pr_number pr) (pr_head_sha pr) task_id at request round_no before after m"

lemma posted_marks:
  assumes "extends before calls"
  shows "marks (live_head_in n ref live_pr task_id at request round_no before)
    (post_marker n ref live_pr task_id at request round_no calls)"
  unfolding post_marker_def Let_def
proof (rule marks_then, clarsimp, rule marks_then, clarsimp, rule marks_then)
  fix payload headers c1 status body c2 found c3
  assume g: "edge_get n ''/user'' [] calls = (Inr (payload, headers), c1)"
    and w: "write_json n ''POST'' (issue_path ref (pr_number live_pr) @ ''/comments'')
      [(''body'', JStr (marker_body task_id request (casefold (pr_head_sha live_pr)) round_no))] c1 = (Inr (status, body), c2)"
    and o: "completion_marker n ref live_pr task_id at request (Some round_no) c2 = (Inr found, c3)"
  have "extends before c2" by (rule extends_next [OF extends_next [OF assms g edge_get_extends] w write_extends])
  then show "marks (live_head_in n ref live_pr task_id at request round_no before) (Inr (case found of
      None \<Rightarrow> no_marker ''completion_marker_unobserved''
        [(''http_status'', JInt status), (''head'', JStr (casefold (pr_head_sha live_pr))), (''rework_round'', JInt round_no)]
    | Some m \<Rightarrow> (Some m, ''edge_marker_created'', [(''completion_comment_id'', k_comment m), (''edge_created'', JBool True),
        (''edge_actor'', JStr (case payload of JObj d \<Rightarrow> py_str (py_or (dget_py d ''login'') (JStr [])) | _ \<Rightarrow> []))])), c3)"
    using o by (cases found) (auto simp: live_head_in_def intro: marker_handed_in)
qed

lemma attested_marks:
  assumes "extends before calls"
  shows "marks (live_head_in n ref live_pr task_id at request round_no before)
    (attested_marker n ref live_pr task_id p at r request round_no calls)"
  unfolding attested_marker_def
proof (rule marks_then)
  fix failed c assume q: "check_request n ref (pr_number live_pr) p task_id request calls = (Inr failed, c)"
  have "extends calls (snd (check_request n ref (pr_number live_pr) p task_id request calls))"
    by (auto simp: check_request_def intro!: and_then_extends [OF comments_extends] split: option.split)
  from extends_next [OF assms q this] posted_marks
  show "marks (live_head_in n ref live_pr task_id at request round_no before) (case failed of
      Some (reason, evidence) \<Rightarrow> (Inr (no_marker reason evidence), c)
    | None \<Rightarrow> (case attestation_error p r (casefold (pr_head_sha live_pr)) of
        Some (reason, evidence) \<Rightarrow> (Inr (no_marker reason evidence), c)
      | None \<Rightarrow> post_marker n ref live_pr task_id at request round_no c))"
    by (auto split: option.split)
qed

lemma ready_marks:
  assumes "extends before calls"
  shows "marks (live_head_in n ref live_pr task_id at request round_no before)
    (ready_marker n ref live_pr task_id p at r request round_no calls)"
  unfolding ready_marker_def
  by (rule marks_then) (auto simp: Let_def intro!: attested_marks extends_next [OF assms _ edge_get_extends]
    split: json.split sum.split)

lemma live_marks:
  assumes "extends before calls"
  shows "marks (\<lambda>m after. \<exists>request. request_comment_of p = Inr request \<and> live_head_in n ref live_pr task_id at request round_no before m after)
    (live_marker n ref live_pr task_id p at r round_no calls)"
proof (cases "request_comment_of p")
  case (Inr request)
  have "marks (live_head_in n ref live_pr task_id at request round_no before) (live_marker n ref live_pr task_id p at r round_no calls)"
    unfolding live_marker_def Inr sum.case
  proof (rule marks_then)
    fix found c assume o: "completion_marker n ref live_pr task_id at request (Some round_no) calls = (Inr found, c)"
    from marker_handed_in [OF _ assms extends_refl] ready_marks [OF extends_next [OF assms o marker_extends]] o
    show "marks (live_head_in n ref live_pr task_id at request round_no before) (case found of
        Some m \<Rightarrow> (Inr (Some m, ''delivery_complete'', [(''completion_comment_id'', k_comment m), (''edge_created'', JBool False)]), c)
      | None \<Rightarrow> if column_text (run_outcome r) = ''review_requested''
          then (Inr (no_marker ''delivery_run_review_requested'' [(''run_id'', run_json r)]), c)
          else ready_marker n ref live_pr task_id p at r request round_no c)"
      by (auto simp: live_head_in_def split: option.split)
  qed
  with Inr show ?thesis by (auto simp: marks_def)
qed (simp add: live_marker_def)

text \<open>The pull request as this operation read it: open, against the target branch.\<close>

definition live_pull :: "edge_net \<Rightarrow> task_ref \<Rightarrow> edge_call list \<Rightarrow> pull \<Rightarrow> bool" where
  "live_pull n ref calls pr \<longleftrightarrow> read_pull n ref calls pr \<and> pr_state pr = ''open'' \<and> pr_base pr = r_target ref"

definition edge_marked :: "edge_net \<Rightarrow> task_ref \<Rightarrow> pull \<Rightarrow> string \<Rightarrow> int \<Rightarrow> int option \<Rightarrow> int \<Rightarrow> edge_call list \<Rightarrow> marker \<Rightarrow> edge_call list \<Rightarrow> bool" where
  "edge_marked n ref pr task_id at request round_no before m after \<longleftrightarrow> (\<exists>live_pr. pr_number live_pr = pr_number pr \<and>
     (live_pr = pr \<or> (\<exists>c. live_pull n ref c live_pr)) \<and> live_head_in n ref live_pr task_id at request round_no before m after)"

lemma edge_owned_marks:
  assumes "dget_py p ''rework_round'' = JInt round_no" and "request_comment_of p = Inr request" and "extends before calls"
  shows "marks (edge_marked n ref pr task_id at request round_no before)
    (edge_owned_completion_marker n ref pr task_id (p, at, kind) r open_pr_count calls)"
proof -
  have live: "marks (edge_marked n ref pr task_id at request round_no before) (live_marker n ref live_pr task_id p at r round_no c)"
    if g: "edge_get n (pull_path ref (pr_number pr)) [] calls = (Inr (payload, headers), c)"
      and parsed: "parse_pull_request (pr_number pr) payload ref = Inr live_pr"
      and st: "pr_state live_pr = ''open''" "pr_base live_pr = r_target ref" for payload headers c live_pr
  proof -
    have number: "pr_number live_pr = pr_number pr" using parsed_number [OF parsed] by simp
    then have "live_pull n ref c live_pr" using edge_get_got [OF g] parsed st
      unfolding live_pull_def read_pull_def by (auto intro!: exI [of _ payload] exI [of _ live_pr])
    with number live_marks [OF extends_next [OF assms(3) g edge_get_extends], of p n ref live_pr task_id at round_no r] assms(2)
    show ?thesis unfolding marks_def edge_marked_def by (auto intro!: exI [of _ live_pr])
  qed
  show ?thesis unfolding edge_owned_completion_marker_def Let_def prod.case assms(1) json.case
    by (auto simp: live intro!: marks_then split: sum.split)
qed

section \<open>The contract\<close>

text \<open>What the accepted head must be: one the run attests, if any, and new, unless a maintainer asked again.\<close>

definition head_accepted :: "dict \<Rightarrow> run \<Rightarrow> string \<Rightarrow> bool" where
  "head_accepted p r head \<longleftrightarrow> (rework_head_candidates r = [] \<or> head \<in> set (rework_head_candidates r)) \<and>
     (dget_py p ''head_sha'' \<noteq> JNull \<longrightarrow> casefold (py_str (dget_py p ''head_sha'')) = head \<longrightarrow>
       rework_round_is_maintainer_retry p \<and> rework_head_candidates r \<noteq> [])"

lemma accepted_head:
  assumes "accept_marker p at r m source = (True, reason, evidence)"
    and "full_sha_json (dget_py p ''head_sha'')"
  shows "head_accepted p r (k_head m)"
proof -
  obtain s where s: "dget_py p ''head_sha'' = JStr s" "length s = 40"
    using assms(2) by (cases "dget_py p ''head_sha''") (auto simp: full_sha_json_def FULL_SHA_def)
  then obtain c rest where "s = c # rest" by (cases s) auto
  then have asked: "py_str (py_or (JStr s) (JStr [])) = s" "casefold s \<noteq> []" "py_str (JStr s) = s"
    by (auto simp: py_or_def truthy_def casefold_def fold_char_def py_str_def Let_def)
  have none: "sort (remdups xs) = [] \<longleftrightarrow> xs = []" for xs :: "string list"
    by (metis set_empty set_remdups set_sort)
  show ?thesis using assms(1) s asked
    by (auto simp: none accept_marker_def head_accepted_def rejected_def Let_def split: if_split_asm)
qed

definition accepts :: "(run \<Rightarrow> marker \<Rightarrow> edge_call list \<Rightarrow> bool) \<Rightarrow> run \<Rightarrow> delivery edge_result \<Rightarrow> bool" where
  "accepts P r x \<longleftrightarrow> (\<forall>reason evidence c. x = (Inr (True, reason, evidence), c) \<longrightarrow> (\<exists>m. P r m c))"

lemma accepts_simps [simp]: "accepts P r (Inl e, c)" "accepts P r (Inr (rejected reason evidence), c)"
  by (simp_all add: accepts_def rejected_def)

lemma accepts_then: "(\<And>y c. m = (Inr y, c) \<Longrightarrow> accepts P r (k y c)) \<Longrightarrow> accepts P r (and_then m k)"
  by (cases m; cases "fst m") (auto simp: and_then_def)

lemma judged_run:
  assumes round_no: "dget_py p ''rework_round'' = JInt round_no" and request: "request_comment_of p = Inr request"
    and sha: "full_sha_json (dget_py p ''head_sha'')"
  shows "accepts (\<lambda>r m after. edge_marked n ref pr task_id at request round_no calls m after \<and> head_accepted p r (k_head m)) r
    (judge_run n ref task_id pr (p, at, kind) open_pr_count allow round_no request r calls)"
  unfolding judge_run_def prod.case Let_def
proof (rule accepts_then)
  let ?P = "\<lambda>r m after. edge_marked n ref pr task_id at request round_no calls m after \<and> head_accepted p r (k_head m)"
  fix found c assume o: "completion_marker n ref pr task_id at request (Some round_no) calls = (Inr found, c)"
  have taken: "accepts ?P r (Inr (accept_marker p at r m source), c')"
    if "edge_marked n ref pr task_id at request round_no calls m c'" for m c' source
    using accepted_head [OF _ sha] that unfolding accepts_def by blast
  have c: "extends calls c" by (rule extends_next [OF extends_refl o marker_extends])
  have handoff: "accepts ?P r (missing_handoff n ref pr task_id at request r c')" for c'
    unfolding missing_handoff_def by (rule accepts_then) (auto split: option.split)
  have posted: "accepts ?P r (and_then
      (if allow then edge_owned_completion_marker n ref pr task_id (p, at, kind) r open_pr_count c
       else (Inr (no_marker ''edge_marker_creation_skipped_dry_run'' []), c)) (\<lambda>(posted, reason, evidence) calls.
        case posted of
          Some m \<Rightarrow> (Inr (accept_marker p at r m evidence), calls)
        | None \<Rightarrow> if reason \<notin> {''validation_attestation_missing'', ''run_head_missing''}
            then (Inr (rejected reason (dset ''run_id'' (run_json r) [] @ filter (\<lambda>q. fst q \<noteq> ''run_id'') evidence)), calls)
            else missing_handoff n ref pr task_id at request r calls))"
    using edge_owned_marks [OF round_no request c, of n ref pr task_id at kind r open_pr_count] taken handoff
    by (intro accepts_then) (auto simp: marks_def no_marker_def split: option.split if_split_asm)
  show "accepts ?P r (case found of
      Some m \<Rightarrow> (Inr (accept_marker p at r m []), c)
    | None \<Rightarrow> and_then
        (if allow then edge_owned_completion_marker n ref pr task_id (p, at, kind) r open_pr_count c
         else (Inr (no_marker ''edge_marker_creation_skipped_dry_run'' []), c)) (\<lambda>(posted, reason, evidence) calls.
          case posted of
            Some m \<Rightarrow> (Inr (accept_marker p at r m evidence), calls)
          | None \<Rightarrow> if reason \<notin> {''validation_attestation_missing'', ''run_head_missing''}
              then (Inr (rejected reason (dset ''run_id'' (run_json r) [] @ filter (\<lambda>q. fst q \<noteq> ''run_id'') evidence)), calls)
              else missing_handoff n ref pr task_id at request r calls))"
  proof (cases found)
    case (Some m)
    with o have "live_head_in n ref pr task_id at request round_no calls m c"
      by (auto simp: live_head_in_def intro: marker_handed_in)
    then have "edge_marked n ref pr task_id at request round_no calls m c" unfolding edge_marked_def by blast
    with Some taken show ?thesis by simp
  qed (use posted in simp)
qed

lemma validated_event:
  assumes "validate_rework_event (Some ref) (Some pr_no) None (p, at, kind) = None"
  shows "dget_py p ''repository'' = JStr (r_repository ref)" "py_equals_int (dget_py p ''issue_number'') (r_issue ref)"
    "dget_py p ''pr_number'' = JInt pr_no" "\<exists>i. dget_py p ''rework_round'' = JInt i \<and> 0 < i"
    "full_sha_json (dget_py p ''head_sha'')" "dget_py p ''request_comment_id'' = JNull \<or> (\<exists>i. dget_py p ''request_comment_id'' = JInt i)"
proof -
  have ref: "event_ref_error (Some ref) p = None" and pr: "event_pr_error (Some pr_no) None (dget_py p ''pr_number'') = None"
    and pos: "positive_rework_int (dget_py p ''rework_round'')" and sha: "full_sha_json (dget_py p ''head_sha'')"
    and com: "event_comment_error p = None"
    using assms by (auto simp: validate_rework_event_def or_else_def split: if_split_asm option.split_asm)
  from ref show "dget_py p ''repository'' = JStr (r_repository ref)" "py_equals_int (dget_py p ''issue_number'') (r_issue ref)"
    by (auto simp: event_ref_error_def split: if_split_asm)
  from pr show "dget_py p ''pr_number'' = JInt pr_no" by (auto simp: event_pr_error_def split: if_split_asm)
  from pos show "\<exists>i. dget_py p ''rework_round'' = JInt i \<and> 0 < i"
    by (cases "dget_py p ''rework_round''") (auto simp: positive_rework_int_def)
  from sha show "full_sha_json (dget_py p ''head_sha'')" .
  from com show "dget_py p ''request_comment_id'' = JNull \<or> (\<exists>i. dget_py p ''request_comment_id'' = JInt i)"
    by (cases "dget_py p ''request_comment_id''") (auto simp: event_comment_error_def positive_rework_int_def Let_def)
qed

lemma marked_earlier:
  assumes "edge_marked n ref pr task_id at request round_no before m after" and "extends start before"
  shows "edge_marked n ref pr task_id at request round_no start m after"
proof -
  have "handed_in n ref no head task_id at request round_no before after m \<Longrightarrow>
      handed_in n ref no head task_id at request round_no start after m" for no head
    unfolding handed_in_def listed_def using extends_trans [OF assms(2)] by blast
  with assms(1) show ?thesis unfolding edge_marked_def live_head_in_def by blast
qed

lemma marked_facts:
  assumes "edge_marked n ref pr task_id at request round_no before m after"
  shows "lower_sha (k_head m) \<and> trusted_actor (k_author m) \<and> at \<le> k_at m"
  using assms unfolding edge_marked_def live_head_in_def handed_in_def by (auto dest: marker_facts)

section \<open>The course of a check\<close>

lemma newer_gets:
  "only_gets (snd w) (snd (snd (on_net (label_is_newer_than_event n ref pr_no at label_at label_id) w)))"
proof -
  have "only_gets (snd w) (snd (label_is_newer_than_event n ref pr_no at label_at label_id (snd w)))"
    unfolding label_is_newer_than_event_def
    by (rule and_then_gets [OF labeled_events_gets]) (auto split: option.split sum.split)
  then show ?thesis by (simp add: on_net_def case_prod_unfold)
qed

text \<open>A check ends with a rejection, having only read, or judges the run of the round.\<close>

lemma delivery_cases:
  defines "out \<equiv> \<lambda>n env k ref task_id pr p at kind open_pr_count allow w.
    rework_delivery_evidence n env k ref task_id pr (p, at, kind) open_pr_count allow w"
  obtains (read) "\<And>reason evidence. fst (out n env k ref task_id pr p at kind open_pr_count allow w) \<noteq> Inr (True, reason, evidence)"
      "only_gets (snd w) (snd (snd (out n env k ref task_id pr p at kind open_pr_count allow w)))"
      "working (fst (snd (out n env k ref task_id pr p at kind open_pr_count allow w))) \<in> {working (fst w), others env k (working (fst w))}"
    | (judged) r round_no request w2 where "validate_rework_event (Some ref) (Some (pr_number pr)) None (p, at, kind) = None"
      "dget_py p ''rework_round'' = JInt round_no" "request_comment_of p = Inr request"
      "run_of_round (others env k (working (fst w))) task_id at round_no r" "run_ended r \<noteq> None"
      "working (fst w2) = others env k (working (fst w))" "only_gets (snd w) (snd w2)"
      "out n env k ref task_id pr p at kind open_pr_count allow w
        = on_net (judge_run n ref task_id pr (p, at, kind) open_pr_count allow round_no request r) w2"
proof (cases "validate_rework_event (Some ref) (Some (pr_number pr)) None (p, at, kind)")
  case (Some reason)
  then show ?thesis by (intro read) (auto simp: out_def rework_delivery_evidence_def rejected_def)
next
  case None
  let ?newer = "on_net (label_is_newer_than_event n ref (pr_number pr) at (dget_py p ''label_added_at'') (dget_py p ''label_event_id'')) w"
  obtain x w1 where l: "?newer = (x, w1)" by (rule prod.exhaust)
  have w1: "fst w1 = fst w" "only_gets (snd w) (snd w1)"
    using l newer_gets [of w n ref "pr_number pr" at "dget_py p ''label_added_at''" "dget_py p ''label_event_id''"]
    by (auto simp: on_net_def split: prod.split_asm)
  obtain y w2 where run: "reading env k (\<lambda>b. task_run_after_rework b task_id at (dget_py p ''rework_round'')) w1 = (y, w2)"
    by (rule prod.exhaust)
  have w2: "snd w2 = snd w1" "working (fst w2) \<in> {working (fst w), others env k (working (fst w))}"
    using run w1(1) by (auto simp: reading_def on_db_def sql_def seen_def Let_def split: option.split_asm prod.split_asm)
  consider (newer) "x \<noteq> Inr False" | (none) "x = Inr False" "\<forall>r. y = Inr (Some r) \<longrightarrow> run_ended r = None \<or>
        column_text (run_outcome r) \<notin> set delivery_outcomes"
    | (found) r where "x = Inr False" "y = Inr (Some r)" "run_ended r \<noteq> None" "column_text (run_outcome r) \<in> set delivery_outcomes"
    by blast
  then show ?thesis
  proof cases
    case newer
    with None l w1 show ?thesis
      by (intro read; cases x) (auto simp: out_def rework_delivery_evidence_def rejected_def)
  next
    case none
    have "\<exists>e. rework_delivery_evidence n env k ref task_id pr (p, at, kind) open_pr_count allow w = (e, w2) \<and>
        (\<forall>reason evidence. e \<noteq> Inr (True, reason, evidence))"
      using None l none run
      by (cases y) (auto simp: rework_delivery_evidence_def rejected_def split: option.split)
    with w1(2) w2 show ?thesis by (intro read) (auto simp: out_def)
  next
    case (found r)
    have "task_run_after_rework (others env k (working (fst w))) task_id at (dget_py p ''rework_round'') = Inr (Some r)"
        "working (fst w2) = others env k (working (fst w))"
      using run found(2) w1(1) by (auto simp: reading_def on_db_def sql_def seen_def Let_def split: option.split_asm prod.split_asm)
    moreover from run_after_rework [OF this(1)] obtain round_no where "dget_py p ''rework_round'' = JInt round_no"
        "run_of_round (others env k (working (fst w))) task_id at round_no r" by blast
    moreover obtain request where "request_comment_of p = Inr request"
      using validated_event(6) [OF None] by (auto simp: request_comment_of_def py_int_def)
    moreover have "out n env k ref task_id pr p at kind open_pr_count allow w
        = on_net (judge_run n ref task_id pr (p, at, kind) open_pr_count allow round_no request r) w2"
      using None l found run calculation(3,5)
      by (auto simp: out_def rework_delivery_evidence_def py_int_def)
    ultimately show ?thesis using None found(3) w1(2) w2(1) by (intro judged) auto
  qed
qed


section \<open>What the check writes\<close>

text \<open>Reads, and at most one comment: the canonical marker of a head for which the run's attestation holds.\<close>

definition marker_post :: "task_ref \<Rightarrow> int \<Rightarrow> string \<Rightarrow> int option \<Rightarrow> int \<Rightarrow> string \<Rightarrow> edge_call" where
  "marker_post ref pr_no task_id request round_no head = EdgeHttp ''POST'' (issue_path ref pr_no @ ''/comments'')
     (Some (JObj [(''body'', JStr (marker_body task_id request head round_no))]))"

definition posts_marker ::
  "task_ref \<Rightarrow> int \<Rightarrow> string \<Rightarrow> dict \<Rightarrow> run \<Rightarrow> edge_call list \<Rightarrow> edge_call list \<Rightarrow> bool" where
  "posts_marker ref pr_no task_id p r calls calls' \<longleftrightarrow> (\<exists>made. calls' = calls @ made \<and>
     (list_all is_get made \<or> (\<exists>request round_no head. filter (\<lambda>c. \<not> is_get c) made = [marker_post ref pr_no task_id request round_no head] \<and>
       request_comment_of p = Inr request \<and> dget_py p ''rework_round'' = JInt round_no \<and> FULL_SHA head \<and>
       attestation_error p r head = None)))"

lemma gets_post [intro]: "only_gets calls c \<Longrightarrow> posts_marker ref pr_no task_id p r calls c"
  unfolding only_gets_def posts_marker_def by blast

lemma posts_same [simp]: "posts_marker ref pr_no task_id p r calls calls"
  by (simp add: posts_marker_def)

lemma gets_then_post: "only_gets calls c \<Longrightarrow> posts_marker ref pr_no task_id p r c c' \<Longrightarrow> posts_marker ref pr_no task_id p r calls c'"
  unfolding only_gets_def posts_marker_def by (fastforce simp: filter_empty_conv list_all_iff)

lemma post_then_gets: "posts_marker ref pr_no task_id p r calls c \<Longrightarrow> only_gets c c' \<Longrightarrow> posts_marker ref pr_no task_id p r calls c'"
  unfolding only_gets_def posts_marker_def by (fastforce simp: filter_empty_conv list_all_iff)

lemma then_posts:
  assumes "only_gets calls (snd m)" and "\<And>x c. m = (Inr x, c) \<Longrightarrow> posts_marker ref pr_no task_id p r c (snd (k x c))"
  shows "posts_marker ref pr_no task_id p r calls (snd (and_then m k))"
proof (cases m)
  case (Pair x c)
  with assms show ?thesis by (cases x) (auto intro: gets_then_post)
qed

lemma posts_then:
  assumes "posts_marker ref pr_no task_id p r calls (snd m)" and "\<And>x c. m = (Inr x, c) \<Longrightarrow> only_gets c (snd (k x c))"
  shows "posts_marker ref pr_no task_id p r calls (snd (and_then m k))"
proof (cases m)
  case (Pair x c)
  with assms show ?thesis by (cases x) (auto intro: post_then_gets)
qed

lemma comments_gets [gets]: "only_gets calls (snd (pull_comments n ref pr_no calls))"
  by (simp add: pull_comments_def paginated_gets)

lemma marker_gets [gets]: "only_gets calls (snd (completion_marker n ref pr task_id at request round_no calls))"
  unfolding completion_marker_def by (rule and_then_gets [OF comments_gets]) simp

lemma malformed_gets [gets]: "only_gets calls (snd (missing_handoff n ref pr task_id at request r calls))"
  unfolding missing_handoff_def malformed_completion_marker_def
  by (intro and_then_gets comments_gets) (auto split: option.split)

lemma request_gets [gets]: "only_gets calls (snd (check_request n ref pr_no p task_id request calls))"
  by (auto simp: check_request_def intro!: and_then_gets comments_gets split: option.split)

lemma one_post:
  assumes "request_comment_of p = Inr request" "dget_py p ''rework_round'' = JInt round_no" "FULL_SHA head" "attestation_error p r head = None"
  shows "posts_marker ref pr_no task_id p r calls (snd (write_json n ''POST'' (issue_path ref pr_no @ ''/comments'')
    [(''body'', JStr (marker_body task_id request head round_no))] calls))"
proof -
  have "snd (write_json n ''POST'' path payload calls) = calls @ [EdgeHttp ''POST'' path (Some (JObj payload))]" for path payload
    by (auto simp: write_json_def ask_def Let_def split: edge_answer.splits sum.splits)
  with assms show ?thesis unfolding posts_marker_def marker_post_def
    by (intro exI [of _ "[marker_post ref pr_no task_id request round_no head]"]) (auto simp: marker_post_def)
qed

lemma post_posts:
  assumes "request_comment_of p = Inr request" "dget_py p ''rework_round'' = JInt round_no"
    "FULL_SHA (casefold (pr_head_sha live_pr))" "attestation_error p r (casefold (pr_head_sha live_pr)) = None"
  shows "posts_marker ref (pr_number live_pr) task_id p r calls (snd (post_marker n ref live_pr task_id at request round_no calls))"
  unfolding post_marker_def Let_def
  by (rule then_posts [OF edge_get_gets])
    (auto intro!: posts_then [OF one_post [OF assms]] and_then_gets marker_gets split: option.split)

lemma live_posts:
  assumes "dget_py p ''rework_round'' = JInt round_no" "FULL_SHA (casefold (pr_head_sha live_pr))"
  shows "posts_marker ref (pr_number live_pr) task_id p r calls (snd (live_marker n ref live_pr task_id p at r round_no calls))"
proof (cases "request_comment_of p")
  case (Inr request)
  have "posts_marker ref (pr_number live_pr) task_id p r c (snd (attested_marker n ref live_pr task_id p at r request round_no c))" for c
    unfolding attested_marker_def
    by (rule then_posts [OF request_gets]) (auto intro!: post_posts [OF Inr assms(1,2)] split: option.split)
  then have "posts_marker ref (pr_number live_pr) task_id p r c (snd (ready_marker n ref live_pr task_id p at r request round_no c))" for c
    unfolding ready_marker_def by (intro then_posts edge_get_gets) (auto simp: Let_def split: json.split sum.split)
  then show ?thesis unfolding live_marker_def Inr sum.case
    by (intro then_posts marker_gets) (auto split: option.split)
qed (auto simp: live_marker_def)

lemma edge_owned_posts:
  "posts_marker ref (pr_number pr) task_id p r calls (snd (edge_owned_completion_marker n ref pr task_id (p, at, kind) r open_pr_count calls))"
proof (cases "dget_py p ''rework_round''")
  case (JInt round_no)
  have live: "posts_marker ref (pr_number pr) task_id p r c (snd (live_marker n ref live_pr task_id p at r round_no c))"
    if "parse_pull_request (pr_number pr) payload ref = Inr live_pr" "FULL_SHA (casefold (pr_head_sha live_pr))" for payload live_pr c
    using live_posts [OF JInt that(2), of ref task_id r c n at] parsed_number [OF that(1)] by simp
  show ?thesis unfolding edge_owned_completion_marker_def Let_def prod.case JInt json.case
    by (auto intro!: then_posts edge_get_gets live split: sum.split)
qed (auto simp: edge_owned_completion_marker_def)

lemma judge_posts:
  "posts_marker ref (pr_number pr) task_id p r calls
     (snd (judge_run n ref task_id pr (p, at, kind) open_pr_count allow round_no request r calls))"
proof (cases allow)
  case True
  then show ?thesis unfolding judge_run_def Let_def prod.case
    by (intro then_posts marker_gets) (auto intro!: posts_then edge_owned_posts malformed_gets split: option.split)
next
  case False
  then show ?thesis unfolding judge_run_def Let_def prod.case
    by (intro then_posts marker_gets) (auto simp: no_marker_def intro!: gets_post malformed_gets split: option.split)
qed

lemma judge_run_gets:
  "only_gets calls (snd (judge_run n ref task_id pr (p, at, kind) open_pr_count False round_no request r calls))"
  unfolding judge_run_def Let_def prod.case
  by (intro and_then_gets marker_gets) (auto simp: no_marker_def intro!: malformed_gets split: option.split)

text \<open>
  C22: The check of a delivery itself writes at most one thing. It leaves the board as it finds it, and among its
  requests to GitHub there is no write, or exactly one: the canonical completion marker, posted on this pull request, with
  the task, the request comment and the round of the governing event and a full head for which the run of the round attests
  its validation; and that only when the caller allows the edge to post.
\<close>

theorem delivery_check_writes:
  "let w' = snd (rework_delivery_evidence n env k ref task_id pr (p, at, kind) open_pr_count allow w) in
     working (fst w') \<in> {working (fst w), others env k (working (fst w))} \<and>
     (only_gets (snd w) (snd w') \<or> (allow \<and> (\<exists>r round_no. run_of_round (others env k (working (fst w))) task_id at round_no r \<and>
       run_ended r \<noteq> None \<and> posts_marker ref (pr_number pr) task_id p r (snd w) (snd w'))))"
proof (rule delivery_cases [of n env k ref task_id pr p at kind open_pr_count allow w], goal_cases)
  case 1
  then show ?case by (simp add: Let_def)
next
  case (2 r round_no request w2)
  let ?judge = "judge_run n ref task_id pr (p, at, kind) open_pr_count allow round_no request r (snd w2)"
  have out: "snd (rework_delivery_evidence n env k ref task_id pr (p, at, kind) open_pr_count allow w) = (fst w2, snd ?judge)"
    by (simp add: 2(8) on_net_def case_prod_unfold)
  have "posts_marker ref (pr_number pr) task_id p r (snd w) (snd ?judge)"
    by (rule gets_then_post [OF 2(7) judge_posts])
  moreover have "only_gets (snd w) (snd ?judge)" if "\<not> allow"
    using that only_gets_trans [OF 2(7)] judge_run_gets [of "snd w2" n ref task_id pr p at kind open_pr_count round_no request r] by simp
  ultimately show ?case using 2(4-6) unfolding Let_def out by (cases allow) auto
qed

section \<open>Example\<close>

definition new_head :: string where
  "new_head = replicate 40 CHR ''b''"

definition handoff_body :: string where
  "handoff_body = marker_body ''t1'' None new_head 1"

text \<open>No label event, and one comment of the maintainer with the marker.\<close>

definition handoff_net :: edge_net where
  "handoff_net = \<lparr>reply_to = (\<lambda>_ c. case c of EdgeHttp method url payload \<Rightarrow>
       if contains ''timeline'' url then Answered 200 ''t'' [] else Answered 200 ''c'' []),
     read_json = (\<lambda>raw. Inr (if raw = ''t'' then JArr [] else JArr [JObj [(''id'', JInt 11), (''user'', JObj [(''login'', JStr ''rhgo1749'')]),
       (''created_at'', JStr ''1970-01-01T00:01:00Z''), (''body'', JStr handoff_body)]])),
     local_time = (\<lambda>_. None)\<rparr>"

definition round_payload :: dict where
  "round_payload = [(''repository'', JStr ''octo/app''), (''issue_number'', JInt 42), (''pr_number'', JInt 7),
     (''rework_round'', JInt 1), (''head_sha'', JStr (replicate 40 CHR ''a''))]"

definition claim_event :: event where
  "claim_event = \<lparr>e_task = ''t1'', e_run = Some 5, e_kind = REWORK_DISPATCH_PROVENANCE_KIND, e_payload = JsonText (JObj
     [(''source'', JStr REWORK_DISPATCH_PROVENANCE_SOURCE), (''task_id'', JStr ''t1''), (''rework_event_at'', JInt 10),
      (''rework_round'', JInt 1), (''phase'', JStr ''claimed'')]), e_at = 20\<rparr>"

definition handoff_run :: run where
  "handoff_run = \<lparr>run_id = 5, run_task = ''t1'', run_outcome = Some ''completed'', run_summary = None, run_status = None,
     run_error = None, run_metadata = JsonText (JObj [(''validation'', JStr ''passed''), (''head_sha'', JStr new_head)]),
     run_started = 20, run_ended = Some 50, run_profile = None, run_pid = None\<rparr>"

definition handoff_board :: board where
  "handoff_board = (sample_board ''done'')\<lparr>events := [claim_event], task_runs := [handoff_run]\<rparr>"

definition handoff_pull :: pull where
  "handoff_pull = (sample_pull 7 False)\<lparr>pr_state := ''open'', pr_head_sha := new_head\<rparr>"

definition handoff :: "delivery sync_result" where
  "handoff = rework_delivery_evidence handoff_net quiet 0 sample_ref ''t1'' handoff_pull (round_payload, 10, ''github_pr_rework'')
     (Some 1) True (fresh_db handoff_board, [])"

lemma handoff_result: "map_sum (\<lambda>_. ()) (\<lambda>(ok, reason, _). (ok, reason)) (fst handoff) = Inr (True, ''delivery_complete'')"
  by code_simp


end
