(* ===== verification/GuardShell.thy ===== *)
theory GuardShell
  imports EdgeStore
begin

text \<open>
  The block-kind gate (automation/hermes/scripts/kanban-block-kind-guard-core.py), its reading of a
  terminal command: the words \<open>shlex.split\<close> gives, launcher prefixes, inline shell commands,
  control operators and the marker of the \<open>hermes kanban block\<close> family. An index into the tokens
  is the list of the tokens from it on.
\<close>

section \<open>Words\<close>

definition backslash :: char where
  "backslash = char_of (92 :: nat)"

definition single_quote :: char where
  "single_quote = char_of (39 :: nat)"

definition double_quote :: char where
  "double_quote = char_of (34 :: nat)"

definition shell_space :: "char \<Rightarrow> bool" where
  "shell_space c \<longleftrightarrow> code c \<in> {32, 9, 13, 10}"

text \<open>
  \<open>shlex\<close> with POSIX rules, splitting at white space, without comments: between words, in a word,
  in a quotation, and after a backslash met in a word or in a double quotation.
\<close>

datatype lexer = Between | InWord | Quoted char | Escaped "char option"

definition close_word :: "string \<Rightarrow> bool \<Rightarrow> string list \<Rightarrow> string list" where
  "close_word token quoted rest = (if token \<noteq> [] \<or> quoted then token # rest else rest)"

fun shlex_words :: "lexer \<Rightarrow> string \<Rightarrow> bool \<Rightarrow> string \<Rightarrow> string + string list" where
  "shlex_words (Quoted q) token quoted [] = Inl ''No closing quotation''"
| "shlex_words (Escaped e) token quoted [] = Inl ''No escaped character''"
| "shlex_words st token quoted [] = Inr (close_word token quoted [])"
| "shlex_words Between token quoted (c # s) =
     (if shell_space c then map_sum id (close_word token quoted) (shlex_words Between [] False s)
      else if c = backslash then shlex_words (Escaped None) token quoted s
      else if c = single_quote \<or> c = double_quote then shlex_words (Quoted c) token quoted s
      else shlex_words InWord [c] quoted s)"
| "shlex_words InWord token quoted (c # s) =
     (if shell_space c then map_sum id (close_word token quoted) (shlex_words Between [] False s)
      else if c = single_quote \<or> c = double_quote then shlex_words (Quoted c) token quoted s
      else if c = backslash then shlex_words (Escaped None) token quoted s
      else shlex_words InWord (token @ [c]) quoted s)"
| "shlex_words (Quoted q) token quoted (c # s) =
     (if c = q then shlex_words InWord token True s
      else if c = backslash \<and> q = double_quote then shlex_words (Escaped (Some q)) token True s
      else shlex_words (Quoted q) (token @ [c]) True s)"
| "shlex_words (Escaped None) token quoted (c # s) = shlex_words InWord (token @ [c]) quoted s"
| "shlex_words (Escaped (Some q)) token quoted (c # s) =
     shlex_words (Quoted q) (token @ (if c \<noteq> backslash \<and> c \<noteq> q then [backslash, c] else [c])) quoted s"

definition shlex_split :: "string \<Rightarrow> string + string list" where
  "shlex_split s = shlex_words Between [] False s"

text \<open>\<open>Path(token).name\<close>.\<close>

definition path_name :: "path \<Rightarrow> string" where
  "path_name p = (if p_parts p = [] then [] else last (p_parts p))"

definition program_name :: "string \<Rightarrow> string" where
  "program_name token = path_name (parse_path token)"

section \<open>Launchers\<close>

definition SHELL_BINARIES :: "string list" where
  "SHELL_BINARIES = [''sh'', ''bash'', ''dash'', ''zsh'', ''ksh'']"

definition LAUNCHER_BINARIES :: "string list" where
  "LAUNCHER_BINARIES = [''command'', ''builtin'', ''exec'', ''nohup'']"

definition MAX_UNWRAP_DEPTH :: nat where
  "MAX_UNWRAP_DEPTH = 8"

definition identifier_start :: "char \<Rightarrow> bool" where
  "identifier_start c \<longleftrightarrow> is_lower c \<or> is_upper c \<or> c = CHR ''_''"

definition identifier_char :: "char \<Rightarrow> bool" where
  "identifier_char c \<longleftrightarrow> is_alnum c \<or> c = CHR ''_''"

text \<open>\<open>_ENV_ASSIGN_RE.fullmatch\<close>: a name, an equals sign, and no line feed after it.\<close>

definition env_assign :: "string \<Rightarrow> bool" where
  "env_assign s \<longleftrightarrow> (case s of [] \<Rightarrow> False | c # r \<Rightarrow> identifier_start c \<and>
     (case dropWhile identifier_char r of [] \<Rightarrow> False
        | e # rest \<Rightarrow> e = CHR ''='' \<and> list_all (\<lambda>x. code x \<noteq> 10) rest))"

definition ENV_FLAGS :: "string list" where
  "ENV_FLAGS = [''-i'', ''--ignore-environment'', ''-0'', ''--null'']"

definition ENV_OPERANDS :: "string list" where
  "ENV_OPERANDS = [''-u'', ''--unset'', ''-C'', ''--chdir'']"

definition EXEC_FLAGS :: "string list" where
  "EXEC_FLAGS = [''-c'', ''-l'', ''-cl'', ''-lc'']"

text \<open>The options of \<open>env\<close>; none is what the gate does not guess at.\<close>

fun consume_env_options :: "string list \<Rightarrow> string list option" where
  "consume_env_options [] = Some []"
| "consume_env_options (value # rest) =
     (if value = ''--'' then Some rest
      else if env_assign value then consume_env_options rest
      else if value \<in> set ENV_FLAGS then consume_env_options rest
      else if value \<in> set ENV_OPERANDS then
        (case rest of [] \<Rightarrow> None | _ # rest' \<Rightarrow> consume_env_options rest')
      else if starts_with value ''--unset='' \<or> starts_with value ''--chdir='' then
        (if after_char CHR ''='' value = [] then None else consume_env_options rest)
      else if starts_with value ''-u'' \<and> 2 < length value then consume_env_options rest
      else if starts_with value ''-C'' \<and> 2 < length value then consume_env_options rest
      else if \<not> starts_with value ''-'' then Some (value # rest)
      else None)"

fun command_options :: "string list \<Rightarrow> string list option" where
  "command_options [] = Some []"
| "command_options (value # rest) =
     (if value = ''--'' then Some rest
      else if value = ''-p'' then command_options rest
      else if starts_with value ''-'' then None
      else Some (value # rest))"

fun exec_options :: "string list \<Rightarrow> string list option" where
  "exec_options [] = Some []"
| "exec_options (value # rest) =
     (if value = ''--'' then Some rest
      else if value \<in> set EXEC_FLAGS then exec_options rest
      else if value = ''-a'' then (case rest of [] \<Rightarrow> None | _ # rest' \<Rightarrow> exec_options rest')
      else if starts_with value ''-a'' \<and> 2 < length value then exec_options rest
      else if starts_with value ''-'' then None
      else Some (value # rest))"

text \<open>An optional double dash, then a word that is no option: \<open>builtin\<close> and \<open>nohup\<close>.\<close>

definition drop_dashes :: "string list \<Rightarrow> string list" where
  "drop_dashes tokens = (case tokens of value # rest \<Rightarrow> if value = ''--'' then rest else tokens | [] \<Rightarrow> [])"

definition plain_word_next :: "string list \<Rightarrow> string list option" where
  "plain_word_next tokens = (case drop_dashes tokens of [] \<Rightarrow> None
     | value # rest \<Rightarrow> if starts_with value ''-'' then None else Some (value # rest))"

definition consume_launcher_prefix :: "string \<Rightarrow> string list \<Rightarrow> string list option" where
  "consume_launcher_prefix launcher rest =
     (let name = program_name launcher in
      if name = ''env'' then consume_env_options rest
      else if name = ''command'' then command_options rest
      else if name = ''builtin'' then plain_word_next rest
      else if name = ''exec'' then exec_options rest
      else if name = ''nohup'' then plain_word_next rest
      else None)"

text \<open>What is left of the tokens is no longer than they were.\<close>

lemma consume_env_shorter: "consume_env_options ts = Some r \<Longrightarrow> length r \<le> length ts"
  by (induction ts rule: consume_env_options.induct) (simp, auto split: if_split_asm list.split_asm)

lemma command_shorter: "command_options ts = Some r \<Longrightarrow> length r \<le> length ts"
  by (induction ts rule: command_options.induct) (simp, auto split: if_split_asm)

lemma exec_shorter: "exec_options ts = Some r \<Longrightarrow> length r \<le> length ts"
  by (induction ts rule: exec_options.induct) (simp, auto split: if_split_asm list.split_asm)

lemma plain_word_shorter: "plain_word_next ts = Some r \<Longrightarrow> length r \<le> length ts"
  by (auto simp: plain_word_next_def drop_dashes_def split: list.splits if_splits)

lemma launcher_shorter: "consume_launcher_prefix launcher ts = Some r \<Longrightarrow> length r \<le> length ts"
  by (auto simp: consume_launcher_prefix_def Let_def split: if_splits
      dest: consume_env_shorter command_shorter exec_shorter plain_word_shorter)

text \<open>The tokens from the program that the launchers start.\<close>

function launched :: "string list \<Rightarrow> string list option" where
  "launched [] = None"
| "launched (token # rest) =
     (let name = program_name token in
      if name = ''env'' \<or> name \<in> set LAUNCHER_BINARIES then
        (case consume_launcher_prefix token rest of
           None \<Rightarrow> None
         | Some following \<Rightarrow> if length following = length (token # rest) then None else launched following)
      else Some (token # rest))"
  by pat_completeness auto
termination by (relation "measure length") (auto dest: launcher_shorter)

definition launcher_shell :: "string list \<Rightarrow> string list option" where
  "launcher_shell tokens = launched (dropWhile env_assign tokens)"

section \<open>Inline shell commands\<close>

definition SHELL_FLAG_ONLY :: "string list" where
  "SHELL_FLAG_ONLY = [''-l'', ''--login'', ''-i'', ''--interactive'', ''-e'', ''-x'', ''-n'', ''--norc'',
     ''--noprofile'', ''--posix'', ''-v'', ''-s'', ''-p'', ''-f'']"

definition next_token :: "string list \<Rightarrow> string option" where
  "next_token rest = (case rest of [] \<Rightarrow> None | t # _ \<Rightarrow> Some t)"

fun shell_inline_command :: "string list \<Rightarrow> string option" where
  "shell_inline_command [] = None"
| "shell_inline_command (value # rest) =
     (if value = ''--command'' \<or> value = ''-c'' then next_token rest
      else if value \<in> set SHELL_FLAG_ONLY then shell_inline_command rest
      else if starts_with value ''-'' \<and> \<not> starts_with value ''--'' \<and> 1 < length value \<and> CHR ''c'' \<in> set (tl value)
        then next_token rest
      else None)"

definition unwrap_shell_command :: "string list \<Rightarrow> string option" where
  "unwrap_shell_command tokens = (case launcher_shell tokens of
      Some (shell # rest) \<Rightarrow> if program_name shell \<in> set SHELL_BINARIES then shell_inline_command rest else None
    | _ \<Rightarrow> None)"

section \<open>Control operators\<close>

definition control_operator :: "char \<Rightarrow> bool" where
  "control_operator c \<longleftrightarrow> c \<in> set ''&|;''"

definition is_pure_operator :: "string \<Rightarrow> bool" where
  "is_pure_operator token \<longleftrightarrow> token \<noteq> [] \<and> list_all control_operator token"

definition strip_trailing_operators :: "string \<Rightarrow> string \<times> bool" where
  "strip_trailing_operators value = (let stripped = rev (dropWhile control_operator (rev value))
     in (stripped, length stripped < length value))"

text \<open>
  The tokens up to the first that is or ends with an operator, whether there is one, and the tokens as
  the scan leaves them: the one that ends with an operator has lost it, and the segment stops before it.
\<close>

fun scan_segment :: "string list \<Rightarrow> string list \<times> bool \<times> string list" where
  "scan_segment [] = ([], False, [])"
| "scan_segment (candidate # rest) =
     (if is_pure_operator candidate then ([], True, candidate # rest)
      else (let (stripped, had_operator) = strip_trailing_operators candidate in
        if had_operator then ([], True, stripped # rest)
        else (let (segment, glued, rest') = scan_segment rest in (candidate # segment, glued, candidate # rest'))))"

definition command_segment :: "string list \<Rightarrow> string list \<times> string list" where
  "command_segment rest = (let (segment, glued, rest') = scan_segment rest in
     (if glued then rev (dropWhile is_pure_operator (rev segment)) else segment, rest'))"

section \<open>The family marker\<close>

text \<open>A whole word, in any case, at the head of the text.\<close>

definition word_here :: "string \<Rightarrow> string \<Rightarrow> bool" where
  "word_here w s \<longleftrightarrow> py_lower (take (length w) s) = w \<and>
     (case drop (length w) s of [] \<Rightarrow> True | c # _ \<Rightarrow> \<not> word_char c)"

text \<open>The words in this order; \<open>prev\<close> tells that the character before is one of a word.\<close>

function words_in_order :: "string list \<Rightarrow> bool \<Rightarrow> string \<Rightarrow> bool" where
  "words_in_order [] prev s = True"
| "words_in_order (w # ws) prev [] = False"
| "words_in_order (w # ws) prev (c # s) =
     (if \<not> prev \<and> word_here w (c # s) then words_in_order ws True (drop (length w - 1) s)
      else words_in_order (w # ws) (word_char c) s)"
  by pat_completeness auto
termination by (relation "measure (\<lambda>(ws, prev, s). length s)") auto

definition references_block_family :: "string \<Rightarrow> bool" where
  "references_block_family command = words_in_order [''hermes'', ''kanban'', ''block''] False command"

end
