(* ===== verification/BlockKindGuard.thy ===== *)
theory BlockKindGuard
  imports GuardShell
begin

text \<open>
  The block-kind gate (automation/hermes/scripts/kanban-block-kind-guard-core.py): where the board
  is, what is read of it, how a call is taken apart, and the verdict. It is read-only; a verdict is
  the directive it prints and the line it logs.
\<close>

section \<open>The environment and the errors\<close>

datatype 'a guarded = Refused string | OsError string | Uncaught string | Ok 'a

definition gbind :: "'a guarded \<Rightarrow> ('a \<Rightarrow> 'b guarded) \<Rightarrow> 'b guarded" where
  "gbind m k = (case m of Ok x \<Rightarrow> k x | Refused e \<Rightarrow> Refused e | OsError e \<Rightarrow> OsError e
     | Uncaught e \<Rightarrow> Uncaught e)"

lemma gbind_simps [simp]: "gbind (Ok x) k = k x" "gbind (Refused e) k = Refused e"
  "gbind (OsError e) k = OsError e" "gbind (Uncaught e) k = Uncaught e"
  by (simp_all add: gbind_def)

lemma gbind_Ok: "gbind m k = Ok y \<longleftrightarrow> (\<exists>x. m = Ok x \<and> k x = Ok y)"
  by (cases m) auto

text \<open>The file a home keeps its current board in.\<close>

datatype text_file = NoFile | NotUtf8 | TextFile string

text \<open>
  A board database opened read-only: the error of the open and of each statement, its tables and the
  columns of \<open>tasks\<close>, and the rows each statement sees, as other processes write between them.
\<close>

record board_db =
  db_open_error :: "string option"
  db_statement_error :: "nat \<Rightarrow> string option"
  db_tables :: "string list"
  db_task_columns :: "string list"
  db_view :: "nat \<Rightarrow> board"

text \<open>
  The environment variables, the home a leading tilde stands for, and the files: whether a path is a
  file, or the \<open>OSError\<close> of asking.
\<close>

record guard_env =
  environ :: "string \<Rightarrow> string option"
  home_of :: "string \<Rightarrow> string option"
  is_file :: "path \<Rightarrow> string + bool"
  read_text :: "path \<Rightarrow> text_file"
  board_db_at :: "path \<Rightarrow> board_db"

definition getenv :: "guard_env \<Rightarrow> string \<Rightarrow> string" where
  "getenv env name = (case environ env name of None \<Rightarrow> [] | Some v \<Rightarrow> v)"

definition expanduser :: "guard_env \<Rightarrow> path \<Rightarrow> path guarded" where
  "expanduser env p = (case p_parts p of
      first # rest \<Rightarrow> if p_root p = [] \<and> starts_with first ''~'' then
        (case home_of env first of
           None \<Rightarrow> Uncaught ''RuntimeError''
         | Some home \<Rightarrow> Ok (let q = parse_path home in q\<lparr>p_parts := p_parts q @ rest\<rparr>))
        else Ok p
    | [] \<Rightarrow> Ok p)"

definition path_parent :: "path \<Rightarrow> path" where
  "path_parent p = p\<lparr>p_parts := butlast (p_parts p)\<rparr>"

section \<open>The board database\<close>

text \<open>\<open>list(dict.fromkeys(xs))\<close>.\<close>

definition unique :: "'a list \<Rightarrow> 'a list" where
  "unique xs = keys_of (foldl (\<lambda>d k. dset k () d) [] xs)"

definition homes :: "guard_env \<Rightarrow> path list guarded" where
  "homes env =
     gbind (expanduser env (parse_path (case environ env ''HERMES_HOME'' of None \<Rightarrow> ''~/.hermes'' | Some h \<Rightarrow> h))) (\<lambda>root.
     gbind (expanduser env (parse_path ''~'')) (\<lambda>home.
       Ok (unique (root # (if path_name (path_parent root) = ''profiles'' then [path_parent (path_parent root)] else [])
         @ [path_join home ''.hermes'']))))"

definition current_slug :: "guard_env \<Rightarrow> path \<Rightarrow> string option guarded" where
  "current_slug env home = (case read_text env (path_join (path_join home ''kanban'') ''current'') of
      NoFile \<Rightarrow> Ok None
    | NotUtf8 \<Rightarrow> Uncaught ''UnicodeDecodeError''
    | TextFile s \<Rightarrow> Ok (if py_strip s = [] then None else Some (py_strip s)))"

definition there :: "guard_env \<Rightarrow> path \<Rightarrow> bool guarded" where
  "there env p = (case is_file env p of Inl e \<Rightarrow> OsError e | Inr b \<Rightarrow> Ok b)"

definition slug_db :: "path \<Rightarrow> string \<Rightarrow> path" where
  "slug_db home slug = (if slug = ''default'' then path_join home ''kanban.db''
     else path_join (path_join (path_join (path_join home ''kanban'') ''boards'') slug) ''kanban.db'')"

definition home_slug :: "guard_env \<Rightarrow> string \<Rightarrow> path \<Rightarrow> string guarded" where
  "home_slug env requested home = (if requested \<noteq> [] then Ok requested
     else gbind (current_slug env home) (\<lambda>slug. Ok (case slug of None \<Rightarrow> ''default'' | Some s \<Rightarrow> s)))"

fun first_board :: "guard_env \<Rightarrow> string \<Rightarrow> path list \<Rightarrow> path guarded" where
  "first_board env requested [] = Refused (''could not resolve board DB for board '' @
     single_quote # (if requested = [] then ''default'' else requested) @ [single_quote])"
| "first_board env requested (home # rest) =
     gbind (home_slug env requested home) (\<lambda>slug.
     gbind (there env (slug_db home slug)) (\<lambda>found.
       if found then Ok (slug_db home slug) else first_board env requested rest))"

definition board_db_path :: "guard_env \<Rightarrow> string \<Rightarrow> path guarded" where
  "board_db_path env slug =
     (let pinned = py_strip (getenv env ''HERMES_KANBAN_DB'') in
      if pinned \<noteq> [] then
        gbind (expanduser env (parse_path pinned)) (\<lambda>p.
        gbind (there env p) (\<lambda>found. if found then Ok p
          else Refused (''HERMES_KANBAN_DB does not point to a readable DB: '' @ path_str p)))
      else (let requested = (if py_strip slug \<noteq> [] then py_strip slug else py_strip (getenv env ''HERMES_KANBAN_BOARD''))
        in gbind (homes env) (first_board env requested)))"

text \<open>What is read of the card: its status and kind, its parents, and those that are not terminal.\<close>

record projection =
  j_task :: string
  j_status :: string
  j_block_kind :: "string option"
  j_parents :: "(string \<times> string) list"
  j_pending :: "(string \<times> string) list"

definition VALID_BLOCK_KINDS :: "string list" where
  "VALID_BLOCK_KINDS = [''dependency'', ''needs_input'', ''capability'', ''transient'']"

definition TERMINAL_PARENT_STATES :: "string list" where
  "TERMINAL_PARENT_STATES = [''done'', ''archived'']"

definition statement :: "board_db \<Rightarrow> nat \<Rightarrow> (board \<Rightarrow> 'a guarded) \<Rightarrow> 'a guarded" where
  "statement d n k = (case db_statement_error d n of
      Some e \<Rightarrow> Refused (''could not read board DB: '' @ e) | None \<Rightarrow> k (db_view d n))"

definition parent_status :: "board \<Rightarrow> string \<Rightarrow> string" where
  "parent_status b parent = (case task_row parent b of None \<Rightarrow> ''missing''
     | Some t \<Rightarrow> if t_status t = [] then ''missing'' else t_status t)"

definition parent_rows :: "string \<Rightarrow> board \<Rightarrow> (string \<times> string) list" where
  "parent_rows task_id b = map (\<lambda>parent. (parent, parent_status b parent)) (parents_of task_id b)"

definition read_projection :: "board_db \<Rightarrow> string \<Rightarrow> projection guarded" where
  "read_projection d task_id =
     (if py_strip task_id = [] then Refused ''task_id is required (or set HERMES_KANBAN_TASK in the environment)''
      else case db_open_error d of Some e \<Rightarrow> Refused (''could not open board DB read-only: '' @ e) | None \<Rightarrow>
      statement d 1 (\<lambda>_. let missing = filter (\<lambda>t. t \<notin> set (db_tables d)) [''task_links'', ''tasks''] in
        if missing \<noteq> [] then Refused (''board DB schema is incomplete; missing '' @ join_with '', '' missing) else
      statement d 2 (\<lambda>_. if \<not> {''id'', ''status'', ''block_kind''} \<subseteq> set (db_task_columns d)
        then Refused ''board DB tasks schema is incompatible with block-kind gate'' else
      statement d 3 (\<lambda>b. case task_row task_id b of
          None \<Rightarrow> Refused (''task '' @ single_quote # task_id @ single_quote # '' was not found on the resolved board'')
        | Some t \<Rightarrow>
      statement d 4 (\<lambda>b. let parents = parent_rows task_id b in
        Ok \<lparr>j_task = task_id, j_status = t_status t, j_block_kind = t_block_kind t, j_parents = parents,
          j_pending = filter (\<lambda>p. snd p \<notin> set TERMINAL_PARENT_STATES) parents\<rparr>)))))"

section \<open>Verdicts\<close>

text \<open>The message, card and board of a block.\<close>

datatype verdict = Allowed | Blocked string string string

definition exit_status :: "verdict \<Rightarrow> int" where
  "exit_status v = (case v of Allowed \<Rightarrow> 0 | Blocked _ _ _ \<Rightarrow> 2)"

definition directive :: "verdict \<Rightarrow> json option" where
  "directive v = (case v of Allowed \<Rightarrow> None
     | Blocked message task_id slug \<Rightarrow> Some (JObj [(''action'', JStr ''block''), (''message'', JStr message)]))"

definition no_mutation :: string where
  "no_mutation = ''No task mutation was performed.''"

definition diagnostic :: "string \<Rightarrow> projection \<Rightarrow> string" where
  "diagnostic task_id j =
     (if j_pending j \<noteq> [] then ''kanban_block for '' @ task_id @ '' requires an explicit kind; unresolved dependencies: '' @
        join_with '', '' (map (\<lambda>p. fst p @ ''('' @ snd p @ '')'') (j_pending j)) @ '' '' @ em_dash @
        '' use explicit kind=dependency. '' @ no_mutation
      else ''kanban_block for '' @ task_id @ '' requires an explicit kind; pick an explicit kind: '' @
        ''dependency/needs_input/capability/transient. '' @ no_mutation)"

definition needs_parent :: "string \<Rightarrow> string" where
  "needs_parent task_id = ''kanban_block for '' @ task_id @ '' with kind=dependency requires at least one '' @
     ''unresolved parent in canonical task_links; link the parent before '' @
     ''declaring dependency wait. '' @ no_mutation"

section \<open>Calls\<close>

record block_call =
  b_kind :: "string option"
  b_task :: string
  b_board :: string

definition kind_from_value :: "json \<Rightarrow> string option guarded" where
  "kind_from_value v = (case v of JNull \<Rightarrow> Ok None | JStr s \<Rightarrow> Ok (Some (py_strip s))
     | _ \<Rightarrow> Refused ''kind must be a string'')"

definition first_named :: "guard_env \<Rightarrow> dict \<Rightarrow> dict \<Rightarrow> string \<Rightarrow> string \<Rightarrow> string" where
  "first_named env raw extra key variable =
     py_strip (py_str (py_or (dget_py raw key) (py_or (dget_py extra key) (JStr (getenv env variable)))))"

definition extract_tool_call :: "guard_env \<Rightarrow> dict \<Rightarrow> block_call guarded" where
  "extract_tool_call env payload = (case dget_py payload ''tool_input'' of
      JObj raw \<Rightarrow> (let extra = obj_of (dget_py payload ''extra'') in
        gbind (kind_from_value (dget_py raw ''kind'')) (\<lambda>kind.
          Ok \<lparr>b_kind = kind, b_task = first_named env raw extra ''task_id'' ''HERMES_KANBAN_TASK'',
            b_board = first_named env raw extra ''board'' ''HERMES_KANBAN_BOARD''\<rparr>))
    | _ \<Rightarrow> Refused ''kanban_block tool input must be an object'')"

text \<open>\<open>segment.index(word)\<close>: what precedes the first occurrence, and what follows.\<close>

fun split_at :: "string \<Rightarrow> string list \<Rightarrow> (string list \<times> string list) option" where
  "split_at w [] = None"
| "split_at w (t # ts) = (if t = w then Some ([], ts) else map_option (\<lambda>(a, b). (t # a, b)) (split_at w ts))"

fun prefix_board :: "string list \<Rightarrow> string \<Rightarrow> string" where
  "prefix_board [] slug = slug"
| "prefix_board (value # rest) slug = prefix_board rest
     (if value = ''--board'' \<and> rest \<noteq> [] then hd rest
      else if starts_with value ''--board='' then after_char CHR ''='' value else slug)"

text \<open>The options and the positional words after \<open>block\<close>.\<close>

fun block_args :: "string list \<Rightarrow> string \<Rightarrow> string option \<Rightarrow> string list \<Rightarrow> string \<times> string option \<times> string list" where
  "block_args [] slug kind positionals = (slug, kind, positionals)"
| "block_args (value # rest) slug kind positionals =
     (case (value = ''--board'', value = ''--kind'', rest) of
        (True, _, operand # rest') \<Rightarrow> block_args rest' operand kind positionals
      | (_, True, operand # rest') \<Rightarrow> block_args rest' slug (Some (py_strip operand)) positionals
      | _ \<Rightarrow>
         if starts_with value ''--board='' then block_args rest (after_char CHR ''='' value) kind positionals
         else if starts_with value ''--kind='' then block_args rest slug (Some (py_strip (after_char CHR ''='' value))) positionals
         else block_args rest slug kind (if starts_with value ''-'' then positionals else positionals @ [value]))"

text \<open>The call a segment after \<open>hermes\<close> makes, if it is a block call.\<close>

definition segment_call :: "guard_env \<Rightarrow> string list \<Rightarrow> block_call option" where
  "segment_call env segment = (case split_at ''kanban'' segment of None \<Rightarrow> None
     | Some (_, subcommand) \<Rightarrow> (case split_at ''block'' subcommand of None \<Rightarrow> None
         | Some (lead, args) \<Rightarrow>
             (let (slug, kind, positionals) = block_args args (prefix_board lead []) None [];
                  task_id = (case positionals of p # _ \<Rightarrow> p | [] \<Rightarrow> getenv env ''HERMES_KANBAN_TASK'')
              in Some \<lparr>b_kind = kind, b_task = py_strip task_id, b_board = py_strip slug\<rparr>)))"

lemma scan_segment_length: "scan_segment ts = (seg, g, rest) \<Longrightarrow> length rest = length ts"
  by (induction ts arbitrary: seg g rest) (auto simp: Let_def split: prod.splits if_splits)

lemma command_segment_length: "command_segment ts = (seg, rest) \<Longrightarrow> length rest = length ts"
  by (auto simp: command_segment_def Let_def dest: scan_segment_length split: prod.splits)

text \<open>The first \<open>hermes\<close> whose segment is a block call; the scan goes on in the tokens as it left them.\<close>

function find_call :: "guard_env \<Rightarrow> string list \<Rightarrow> block_call option" where
  "find_call env [] = None"
| "find_call env (token # rest) =
     (if program_name token \<noteq> ''hermes'' then find_call env rest
      else (case command_segment rest of (segment, rest') \<Rightarrow>
        (case segment_call env segment of Some call \<Rightarrow> Some call | None \<Rightarrow> find_call env rest')))"
  by pat_completeness auto
termination
  by (relation "measure (\<lambda>(env, ts). length ts)") (auto dest: command_segment_length [OF sym])

definition nesting_error :: string where
  "nesting_error = ''supported shell wrapper nesting exceeds the maximum depth of '' @ nat_digits MAX_UNWRAP_DEPTH @
     ''; command classification failed closed''"

definition family_error :: string where
  "family_error = ''terminal command references a hermes kanban block invocation that '' @
     ''the gate cannot classify definitively (unknown shell option, '' @
     ''dynamic or indirect form). An explicit --kind is required before '' @
     ''the command can be allowed; no task mutation was performed''"

function terminal_call :: "guard_env \<Rightarrow> string \<Rightarrow> nat \<Rightarrow> block_call option guarded" where
  "terminal_call env command depth = (case shlex_split command of
      Inl e \<Rightarrow> Refused (''could not parse hermes kanban command: '' @ e)
    | Inr tokens \<Rightarrow> (case unwrap_shell_command tokens of
        Some inner \<Rightarrow> if depth \<ge> MAX_UNWRAP_DEPTH then Refused nesting_error else terminal_call env inner (depth + 1)
      | None \<Rightarrow> (case find_call env tokens of
          Some call \<Rightarrow> Ok (Some call)
        | None \<Rightarrow> if references_block_family command then Refused family_error else Ok None)))"
  by pat_completeness auto
termination by (relation "measure (\<lambda>(env, command, depth). MAX_UNWRAP_DEPTH - depth)") auto

declare terminal_call.simps [simp del]

section \<open>The policy\<close>

definition evaluate :: "guard_env \<Rightarrow> block_call \<Rightarrow> verdict guarded" where
  "evaluate env call =
     gbind (board_db_path env (b_board call)) (\<lambda>db_path.
     gbind (read_projection (board_db_at env db_path) (b_task call)) (\<lambda>j.
       if b_kind call \<notin> Some ` set VALID_BLOCK_KINDS
       then Ok (Blocked (diagnostic (b_task call) j) (b_task call) (b_board call))
       else if b_kind call = Some ''dependency'' \<and> j_pending j = []
       then Ok (Blocked (needs_parent (b_task call)) (b_task call) (b_board call))
       else Ok Allowed))"

definition classify :: "guard_env \<Rightarrow> dict \<Rightarrow> block_call option guarded" where
  "classify env payload = (let tool_name = py_str (py_or (dget_py payload ''tool_name'') (JStr [])) in
     if tool_name = ''kanban_block'' then gbind (extract_tool_call env payload) (\<lambda>call. Ok (Some call))
     else if tool_name = ''terminal'' then (case dget_py payload ''tool_input'' of
         JObj raw \<Rightarrow> terminal_call env (py_str (py_or (dget_py raw ''command'') (JStr []))) 0
       | _ \<Rightarrow> Ok None)
     else Ok None)"

text \<open>The exit of the process: a verdict, or the type of an exception that it does not catch.\<close>

definition judge_payload :: "guard_env \<Rightarrow> dict \<Rightarrow> string + verdict" where
  "judge_payload env payload =
     (case gbind (classify env payload) (\<lambda>call. case call of None \<Rightarrow> Ok Allowed | Some c \<Rightarrow> evaluate env c) of
        Ok v \<Rightarrow> Inr v
      | Refused e \<Rightarrow> Inr (Blocked (''kanban block-kind gate failed closed: '' @ e @ ''. '' @ no_mutation)
          (py_str (py_or (dget_py (obj_of (dget_py payload ''extra'')) ''task_id'') (JStr []))) [])
      | OsError e \<Rightarrow> Inr (Blocked (''kanban block-kind gate failed closed while reading the board: '' @ e @ ''. '' @ no_mutation) [] [])
      | Uncaught e \<Rightarrow> Inl e)"

text \<open>The hook on its standard input, read as JSON or refused with the type and text of the error.\<close>

definition block_kind_hook :: "guard_env \<Rightarrow> string + json \<Rightarrow> string + verdict" where
  "block_kind_hook env stdin = (case stdin of
      Inl e \<Rightarrow> Inr (Blocked (''kanban block-kind gate failed closed on malformed pre_tool_call payload: '' @ e @ ''. '' @ no_mutation) [] [])
    | Inr tree \<Rightarrow> (case json_plain tree of JObj payload \<Rightarrow> judge_payload env payload | _ \<Rightarrow> Inr Allowed))"

end
