(* ===== verification/BlockKindGuarantees.thy ===== *)
theory BlockKindGuarantees
  imports BlockKindGuard
begin

text \<open>
  What the block-kind gate promises: an allowed block names its kind and, for a dependency, has a
  parent to wait for; options of a later command do not count; a call behind inline shells is judged
  like the call itself. The last section shows where the parser differs from a shell.
\<close>

section \<open>Inline shells are transparent\<close>

text \<open>A text in single quotes, as a shell reads it back.\<close>

definition in_quotes :: "string \<Rightarrow> string" where
  "in_quotes s = concat (map (\<lambda>c. if c = single_quote
     then [single_quote, double_quote, single_quote, double_quote, single_quote] else [c]) s)"

definition inline_shell :: "string \<Rightarrow> string" where
  "inline_shell command = ''bash -c '' @ single_quote # in_quotes command @ [single_quote]"

lemma quotes_differ [simp]: "single_quote \<noteq> double_quote" "double_quote \<noteq> single_quote"
  "backslash \<noteq> single_quote" "backslash \<noteq> double_quote" "single_quote \<noteq> backslash" "double_quote \<noteq> backslash"
  "\<not> shell_space single_quote" "\<not> shell_space double_quote"
  by (simp_all add: single_quote_def double_quote_def backslash_def shell_space_def code_def)

lemma quoted_words:
  "shlex_words (Quoted single_quote) token quoted (in_quotes s @ single_quote # rest) =
   shlex_words InWord (token @ s) True rest"
  by (induction s arbitrary: token quoted) (auto simp: in_quotes_def)

text \<open>Characters that stand for themselves.\<close>

definition ordinary :: "char \<Rightarrow> bool" where
  "ordinary c \<longleftrightarrow> \<not> shell_space c \<and> c \<notin> {backslash, single_quote, double_quote}"

lemma word_goes_on: "list_all ordinary w \<Longrightarrow>
   shlex_words InWord token quoted (w @ s) = shlex_words InWord (token @ w) quoted s"
  by (induction w arbitrary: token) (auto simp: ordinary_def)

lemma word_then_space:
  assumes "list_all ordinary w" and "w \<noteq> []"
  shows "shlex_words Between [] False (w @ CHR '' '' # s) = map_sum id ((#) w) (shlex_words Between [] False s)"
proof -
  obtain c v where w: "w = c # v" using assms by (cases w) auto
  have "shell_space CHR '' ''" by (simp add: shell_space_def code_def)
  then show ?thesis using assms word_goes_on [of v "[c]" False "CHR '' '' # s"]
    by (simp add: w ordinary_def close_word_def map_sum.identity fun_eq_iff cong: sum.map_cong)
qed

lemma ordinary_words: "list_all ordinary ''bash''" "list_all ordinary ''-c''"
  by (code_simp+)

lemma inline_words: "shlex_split (inline_shell command) = Inr [''bash'', ''-c'', command]"
  using word_then_space [OF ordinary_words(1), of "''-c '' @ single_quote # in_quotes command @ [single_quote]"]
    word_then_space [OF ordinary_words(2), of "single_quote # in_quotes command @ [single_quote]"]
    quoted_words [of "[]" False command "[]"]
  by (simp add: shlex_split_def inline_shell_def close_word_def)

lemma inline_unwraps: "unwrap_shell_command [''bash'', ''-c'', command] = Some command"
proof -
  have n: "program_name ''bash'' = ''bash''" "\<not> env_assign ''bash''" "''bash'' \<in> set SHELL_BINARIES"
    "''bash'' \<notin> set LAUNCHER_BINARIES" by (code_simp+)
  then have "launcher_shell [''bash'', ''-c'', command] = Some [''bash'', ''-c'', command]"
    by (simp add: launcher_shell_def)
  with n show ?thesis by (simp add: unwrap_shell_command_def next_token_def)
qed

lemma inline_call: "terminal_call env (inline_shell command) depth =
   (if depth \<ge> MAX_UNWRAP_DEPTH then Refused nesting_error else terminal_call env command (depth + 1))"
  by (subst terminal_call.simps) (simp add: inline_words inline_unwraps)

lemma inline_calls: "depth \<le> MAX_UNWRAP_DEPTH \<Longrightarrow> terminal_call env ((inline_shell ^^ n) command) depth =
   (if depth + n \<le> MAX_UNWRAP_DEPTH then terminal_call env command (depth + n) else Refused nesting_error)"
  by (induction n arbitrary: depth) (auto simp: inline_call)

lemma bare_call: "shlex_split command = Inr tokens \<Longrightarrow> unwrap_shell_command tokens = None \<Longrightarrow>
   terminal_call env command depth = terminal_call env command 0"
  by (subst (1 2) terminal_call.simps) simp


section \<open>Options of a later command do not count\<close>

definition ends_command :: "string \<Rightarrow> bool" where
  "ends_command token \<longleftrightarrow> token \<noteq> [] \<and> control_operator (last token)"

lemma pure_ends: "is_pure_operator token \<Longrightarrow> ends_command token"
  by (auto simp: is_pure_operator_def ends_command_def list_all_iff)

lemma strip_operators: "snd (strip_trailing_operators token) \<longleftrightarrow> ends_command token"
proof (cases token rule: rev_cases)
  case (snoc s c)
  have "length (dropWhile control_operator (rev s)) < Suc (length s)"
    using length_dropWhile_le [of control_operator "rev s"] by simp
  with snoc show ?thesis by (simp add: strip_trailing_operators_def Let_def ends_command_def)
qed (simp add: strip_trailing_operators_def ends_command_def)

lemma scan_to_operator:
  assumes "list_all (\<lambda>t. \<not> ends_command t) segment" and "ends_command op"
  shows "\<exists>rest'. scan_segment (segment @ op # rest) = (segment, True, rest')"
  using assms
proof (induction segment)
  case Nil
  then have "is_pure_operator op \<or> snd (strip_trailing_operators op)" by (simp add: strip_operators)
  then show ?case by (auto simp: Let_def split: prod.splits)
next
  case (Cons t segment)
  then have "\<not> is_pure_operator t" "\<not> snd (strip_trailing_operators t)"
    using pure_ends by (auto simp: strip_operators)
  with Cons show ?case by (auto simp: Let_def split: prod.splits)
qed

lemma segment_to_operator:
  assumes "list_all (\<lambda>t. \<not> ends_command t) segment" and "ends_command op"
  shows "fst (command_segment (segment @ op # rest)) = segment"
proof -
  have "\<forall>t \<in> set segment. \<not> is_pure_operator t" using assms(1) pure_ends by (auto simp: list_all_iff)
  then have "dropWhile is_pure_operator (rev segment) = rev segment"
    by (cases segment rule: rev_cases) auto
  with scan_to_operator [OF assms, of rest] show ?thesis by (auto simp: command_segment_def)
qed

lemma find_skips: "list_all (\<lambda>t. program_name t \<noteq> ''hermes'') before \<Longrightarrow>
   find_call env (before @ tokens) = find_call env tokens"
  by (induction before) auto

text \<open>
  What follows the operator that ends a \<open>hermes kanban block\<close> command has no part in the call: its
  kind, card and board are those of the segment before the operator, whatever comes after.
\<close>

theorem later_command_ignored:
  assumes "shlex_split command = Inr (before @ program # segment @ op # rest)"
    and "unwrap_shell_command (before @ program # segment @ op # rest) = None"
    and "list_all (\<lambda>t. program_name t \<noteq> ''hermes'') before" and "program_name program = ''hermes''"
    and "list_all (\<lambda>t. \<not> ends_command t) segment" and "ends_command op"
    and "segment_call env segment = Some call"
  shows "terminal_call env command 0 = Ok (Some call)"
proof -
  have "find_call env (program # segment @ op # rest) = Some call"
    using segment_to_operator [OF assms(5,6), of rest] assms(4,7) by (auto split: prod.splits)
  with assms(1-3) show ?thesis by (subst terminal_call.simps) (simp add: find_skips)
qed

section \<open>Allowed calls\<close>

text \<open>The kind is valid, the card is on the board, and a dependency has a parent that is not terminal.\<close>

definition explicit_block :: "guard_env \<Rightarrow> block_call \<Rightarrow> bool" where
  "explicit_block env call \<longleftrightarrow> (case board_db_path env (b_board call) of
      Ok p \<Rightarrow> (let view = db_view (board_db_at env p) in
        b_kind call \<in> Some ` set VALID_BLOCK_KINDS \<and> task_row (b_task call) (view 3) \<noteq> None \<and>
        (b_kind call = Some ''dependency'' \<longrightarrow> list_ex (\<lambda>l. snd l = b_task call \<and>
           parent_status (view 4) (fst l) \<notin> set TERMINAL_PARENT_STATES) (task_links (view 4))))
    | _ \<Rightarrow> False)"

lemma statement_Ok: "statement d n k = Ok x \<longleftrightarrow> db_statement_error d n = None \<and> k (db_view d n) = Ok x"
  by (simp add: statement_def split: option.split)

lemma projection_read:
  assumes "read_projection d task_id = Ok j"
  shows "task_row task_id (db_view d 3) \<noteq> None"
    and "j_pending j = filter (\<lambda>p. snd p \<notin> set TERMINAL_PARENT_STATES) (parent_rows task_id (db_view d 4))"
  using assms
  by (auto simp: read_projection_def statement_Ok Let_def split: if_split_asm option.split_asm)

lemma pending_parent: "filter (\<lambda>p. snd p \<notin> S) (parent_rows task_id b) \<noteq> [] \<Longrightarrow>
   list_ex (\<lambda>l. snd l = task_id \<and> parent_status b (fst l) \<notin> S) (task_links b)"
  by (force simp: parent_rows_def parents_of_def filter_empty_conv list_ex_iff)

lemma evaluate_allowed:
  assumes "evaluate env call = Ok Allowed" shows "explicit_block env call"
proof -
  obtain p j where p: "board_db_path env (b_board call) = Ok p"
    and j: "read_projection (board_db_at env p) (b_task call) = Ok j"
    and k: "b_kind call \<in> Some ` set VALID_BLOCK_KINDS"
    and d: "b_kind call = Some ''dependency'' \<longrightarrow> j_pending j \<noteq> []"
    using assms by (auto simp: evaluate_def gbind_Ok split: if_split_asm)
  show ?thesis
    using p k d projection_read [OF j] pending_parent [of "set TERMINAL_PARENT_STATES"]
    by (simp add: explicit_block_def Let_def)
qed

lemma judged_allowed: "judge_payload env payload = Inr Allowed \<Longrightarrow>
   classify env payload = Ok None \<or> (\<exists>c. classify env payload = Ok (Some c) \<and> evaluate env c = Ok Allowed)"
  by (cases "classify env payload") (auto simp: judge_payload_def gbind_def split: guarded.split_asm option.split_asm)

text \<open>
  C6: An allowed call of the block tool names one of the four kinds, its card is on the board the gate
  resolved, and a dependency has a linked parent that is not done or archived when the links are read.
  A terminal command that is allowed is no block call to the parser or satisfies the same.
\<close>

theorem allowed_block_is_explicit:
  assumes "block_kind_hook env (Inr tree) = Inr Allowed" and "json_plain tree = JObj payload"
  shows "case classify env payload of
      Ok (Some call) \<Rightarrow> explicit_block env call
    | Ok None \<Rightarrow> py_str (py_or (dget_py payload ''tool_name'') (JStr [])) \<noteq> ''kanban_block''
    | _ \<Rightarrow> False"
proof -
  have "judge_payload env payload = Inr Allowed" using assms by (simp add: block_kind_hook_def)
  from judged_allowed [OF this] show ?thesis
    by (auto simp: classify_def gbind_Ok Let_def dest: evaluate_allowed split: if_split_asm)
qed

section \<open>Errors end in a block\<close>

definition caught :: "'a guarded \<Rightarrow> bool" where
  "caught m \<longleftrightarrow> (case m of Uncaught _ \<Rightarrow> False | _ \<Rightarrow> True)"

named_theorems caught_intros \<open>steps that raise only what the gate catches\<close>

lemma caught_simps [simp]: "caught (Ok x)" "caught (Refused e)" "caught (OsError e)" "\<not> caught (Uncaught e)"
  by (simp_all add: caught_def)

lemma gbind_caught [caught_intros]: "caught m \<Longrightarrow> (\<And>x. caught (k x)) \<Longrightarrow> caught (gbind m k)"
  by (cases m) auto

lemma statement_caught [caught_intros]: "(\<And>b. caught (k b)) \<Longrightarrow> caught (statement d n k)"
  by (simp add: statement_def split: option.split)

lemma projection_caught [caught_intros]: "caught (read_projection d task_id)"
  unfolding read_projection_def Let_def
  by (auto intro!: caught_intros split: option.split)

lemma terminal_caught [caught_intros]: "caught (terminal_call env command depth)"
proof (induction env command depth rule: terminal_call.induct)
  case (1 env command depth)
  then show ?case by (subst terminal_call.simps) (auto split: sum.split option.split)
qed

lemma classify_caught [caught_intros]: "caught (classify env payload)"
  by (auto simp: classify_def extract_tool_call_def kind_from_value_def Let_def
      intro!: caught_intros split: json.split)

lemma board_path_caught:
  assumes homes_known: "\<And>h. home_of env h \<noteq> None" and utf8: "\<And>p. read_text env p \<noteq> NotUtf8"
  shows "caught (board_db_path env slug)"
proof -
  have x: "caught (expanduser env p)" for p
    using homes_known [of "hd (p_parts p)"] by (auto simp add: expanduser_def Let_def split: list.split option.split)
  have t: "caught (there env p)" for p by (simp add: there_def split: sum.split)
  have c: "caught (current_slug env p)" for p
    using utf8 by (auto simp: current_slug_def split: text_file.split)
  have h: "caught (home_slug env r p)" for r p
    by (auto simp: home_slug_def intro!: caught_intros c)
  have f: "caught (first_board env r ps)" for r ps
    by (induction ps) (auto intro!: caught_intros simp: h t)
  have hs: "caught (homes env)" by (auto simp: homes_def x intro!: caught_intros)
  show ?thesis by (auto simp: board_db_path_def Let_def x t f hs intro!: caught_intros)
qed

text \<open>Whatever is on standard input, the gate prints a verdict and exits with 0 or 2.\<close>

lemma hook_answers:
  assumes "\<And>h. home_of env h \<noteq> None" and "\<And>p. read_text env p \<noteq> NotUtf8"
  shows "\<exists>v. block_kind_hook env stdin = Inr v"
proof -
  have "caught (evaluate env c)" for c
    using board_path_caught [OF assms] by (auto simp: evaluate_def intro!: caught_intros)
  then have c: "caught (gbind (classify env p) (\<lambda>call. case call of None \<Rightarrow> Ok Allowed | Some c \<Rightarrow> evaluate env c))" for p
    by (auto intro!: caught_intros split: option.split)
  have "\<exists>v. judge_payload env p = Inr v" for p
    using c [of p] by (simp add: judge_payload_def caught_def split: guarded.split_asm)
  then show ?thesis by (auto simp: block_kind_hook_def split: sum.split json.split)
qed

section \<open>Sample environment\<close>

definition guard_task :: "string \<Rightarrow> string \<Rightarrow> task" where
  "guard_task task_id status = \<lparr>t_id = task_id, t_status = status, t_body = None, t_assignee = None,
     t_completed_at = None, t_claim_lock = None, t_claim_expires = None, t_worker_pid = None,
     t_block_kind = None, t_block_recurrences = 0, t_heartbeat = None, t_current_run = None\<rparr>"

definition guard_board :: board where
  "guard_board = \<lparr>tasks = [guard_task ''t1'' ''running'', guard_task ''p1'' ''running''],
     task_links = [(''p1'', ''t1'')], events = [], task_runs = [], comments = []\<rparr>"

definition sample_env :: guard_env where
  "sample_env = \<lparr>environ = (\<lambda>name. if name = ''HERMES_KANBAN_DB'' then Some ''/k.db''
       else if name = ''HERMES_KANBAN_TASK'' then Some ''own'' else None),
     home_of = (\<lambda>_. Some ''/home''), is_file = (\<lambda>_. Inr True), read_text = (\<lambda>_. NoFile),
     board_db_at = (\<lambda>_. \<lparr>db_open_error = None, db_statement_error = (\<lambda>_. None), db_tables = [''tasks'', ''task_links''],
       db_task_columns = [''id'', ''status'', ''block_kind''], db_view = (\<lambda>_. guard_board)\<rparr>)\<rparr>"

definition block_request :: "string \<Rightarrow> json" where
  "block_request kind = JObj [(''tool_name'', JStr ''kanban_block''),
     (''tool_input'', JObj [(''task_id'', JStr ''t1''), (''kind'', JStr kind)])]"

definition terminal_request :: "string \<Rightarrow> json" where
  "terminal_request command = JObj [(''tool_name'', JStr ''terminal''), (''tool_input'', JObj [(''command'', JStr command)])]"

theorem allowed_block_is_explicit_witness:
  "block_kind_hook sample_env (Inr (block_request ''dependency'')) = Inr Allowed \<and>
   explicit_block sample_env \<lparr>b_kind = Some ''dependency'', b_task = ''t1'', b_board = []\<rparr>"
proof -
  define payload where "payload = [(''tool_name'', JStr ''kanban_block''),
     (''tool_input'', JObj [(''task_id'', JStr ''t1''), (''kind'', JStr ''dependency'')])]"
  have a: "block_kind_hook sample_env (Inr (block_request ''dependency'')) = Inr Allowed" by code_simp
  have p: "json_plain (block_request ''dependency'') = JObj payload" unfolding payload_def by code_simp
  have c: "classify sample_env payload = Ok (Some \<lparr>b_kind = Some ''dependency'', b_task = ''t1'', b_board = []\<rparr>)"
    unfolding payload_def by code_simp
  from allowed_block_is_explicit [OF a p] a c show ?thesis by simp
qed

definition bare_block :: string where
  "bare_block = ''hermes kanban block t1 --kind needs_input''"

lemma bare_words: "shlex_split bare_block = Inr [''hermes'', ''kanban'', ''block'', ''t1'', ''--kind'', ''needs_input'']"
  "unwrap_shell_command [''hermes'', ''kanban'', ''block'', ''t1'', ''--kind'', ''needs_input''] = None"
  by code_simp+


theorem later_command_ignored_witness:
  "terminal_call sample_env ''hermes kanban block t1 waiting && echo --kind=capability'' 0 =
     Ok (Some \<lparr>b_kind = None, b_task = ''t1'', b_board = []\<rparr>)"
proof (rule later_command_ignored [where before = "[]" and program = "''hermes''"
      and segment = "[''kanban'', ''block'', ''t1'', ''waiting'']" and op = "''&&''" and rest = "[''echo'', ''--kind=capability'']"])
qed code_simp+

section \<open>Where the parser is not a shell\<close>

text \<open>A word that ends with an operator is lost with it: the card is then that of the environment.\<close>

lemma glued_task_lost:
  "terminal_call sample_env ''hermes kanban block --kind needs_input t1; echo'' 0 =
     Ok (Some \<lparr>b_kind = Some ''needs_input'', b_task = ''own'', b_board = []\<rparr>)"
  by code_simp

text \<open>An operator inside a word does not end the command: the kind of the next one is accepted.\<close>

lemma inner_operator_leaks_kind:
  "block_kind_hook sample_env (Inr (terminal_request ''hermes kanban block t1 waiting;echo --kind=capability'')) = Inr Allowed"
  by code_simp

text \<open>Only the first invocation is judged.\<close>

lemma second_block_unjudged:
  "block_kind_hook sample_env (Inr (terminal_request
     ''hermes kanban block t1 --kind needs_input && hermes kanban block t1'')) = Inr Allowed"
  by code_simp

text \<open>What follows an inline shell command is not looked at.\<close>

lemma after_inline_shell_unjudged:
  "block_kind_hook sample_env (Inr (terminal_request (inline_shell ''true'' @ '' && hermes kanban block t1''))) = Inr Allowed"
  by code_simp

end
