(* ===== verification/WorkspaceBinding.thy ===== *)
theory WorkspaceBinding
  imports BlockKindGuard "HOL-Library.Product_Lexorder"
begin

text \<open>
  The workspace-binding preflight (automation/hermes/scripts/kanban-workspace-binding-guard.py) for
  the structured \<open>kanban_create\<close> call: the repository a project stands for, the creation of the card by
  Hermes' own \<open>create_task\<close>, and the read-back that admits it, in one transaction. A \<open>Refused\<close>
  result is a \<open>BindingError\<close>; \<open>OsError\<close> also stands for \<open>sqlite3.Error\<close>.
\<close>

section \<open>Requests\<close>

definition require :: "bool \<Rightarrow> string \<Rightarrow> unit guarded" where
  "require b message = (if b then Ok () else Refused message)"

definition SPECIALIST_ASSIGNEES :: "string list" where
  "SPECIALIST_ASSIGNEES = [''kanban-investigator'', ''kanban-developer'', ''kanban-reviewer'', ''kanban-designer'']"

definition specialist :: "json \<Rightarrow> string option" where
  "specialist v = (case v of
      JStr s \<Rightarrow> (let normalized = casefold (py_strip s) in
        if normalized \<in> set SPECIALIST_ASSIGNEES then Some normalized else None)
    | _ \<Rightarrow> None)"

definition exact_idempotency_key :: "json \<Rightarrow> string guarded" where
  "exact_idempotency_key v = (case v of
      JStr s \<Rightarrow> if py_strip s = [] then Refused ''idempotency_key is required to bind concurrent same-Issue/rework requests''
        else if s \<noteq> py_strip s then Refused ''idempotency_key must not have leading or trailing whitespace''
        else Ok s
    | _ \<Rightarrow> Refused ''idempotency_key is required to bind concurrent same-Issue/rework requests'')"

definition is_blocked_quarantine :: "dict \<Rightarrow> bool" where
  "is_blocked_quarantine raw = (case dget_py raw ''initial_status'' of
      JStr s \<Rightarrow> casefold (py_strip s) = ''blocked'' | _ \<Rightarrow> False)"

definition as_bool :: "json \<Rightarrow> string \<Rightarrow> bool guarded" where
  "as_bool v field = (let failed = Refused (field @ '' must be a boolean'') in case v of
      JNull \<Rightarrow> Ok False
    | JBool b \<Rightarrow> Ok b
    | JInt i \<Rightarrow> if i \<in> {0, 1} then Ok (i = 1) else failed
    | JStr s \<Rightarrow> (let t = casefold (py_strip s) in
        if t \<in> {''true'', ''1'', ''yes''} then Ok True
        else if t \<in> {''false'', ''0'', ''no''} then Ok False else failed)
    | _ \<Rightarrow> failed)"

definition as_optional_int :: "json \<Rightarrow> string \<Rightarrow> int option guarded" where
  "as_optional_int v field = (let failed = Refused (field @ '' must be an integer'') in case v of
      JNull \<Rightarrow> Ok None
    | JBool _ \<Rightarrow> failed
    | _ \<Rightarrow> (case py_int v of
        Inr i \<Rightarrow> Ok (Some i)
      | Inl e \<Rightarrow> if e = PyError ''OverflowError'' then Uncaught ''OverflowError'' else failed))"

fun parent_list :: "json list \<Rightarrow> string list \<Rightarrow> string list guarded" where
  "parent_list [] result = Ok result"
| "parent_list (v # vs) result = (case v of
      JStr s \<Rightarrow> if py_strip s = [] then Refused ''parents must contain non-empty task ids''
        else if py_strip s \<in> set result then Refused ''parents must not contain duplicate task ids''
        else parent_list vs (result @ [py_strip s])
    | _ \<Rightarrow> Refused ''parents must contain non-empty task ids'')"

definition requested_parents :: "dict \<Rightarrow> string list guarded" where
  "requested_parents raw = (case dget_py raw ''parents'' of
      JNull \<Rightarrow> Ok []
    | JStr s \<Rightarrow> parent_list [JStr s] []
    | JArr vs \<Rightarrow> parent_list vs []
    | _ \<Rightarrow> Refused ''parents must be a list of task ids'')"

section \<open>Repository anchors\<close>

record project =
  p_id :: string
  p_slug :: "string option"
  p_primary :: "string option"
  p_archived :: bool

text \<open>
  The project catalog: the type of the \<open>sqlite3.Error\<close> of reading it, the columns of \<open>projects\<close>, and its
  rows, the first that matches being the one the query returns.
\<close>

record catalog =
  g_error :: "string option"
  g_columns :: "string list"
  g_projects :: "project list"

datatype git_answer = GitFailed string | GitExited int string

text \<open>
  The file system beyond what the gate uses: paths with their links resolved, strictly or not, and
  what a path is; git; and the catalog at a path.
\<close>

record binding_env =
  base :: guard_env
  path_resolve :: "path \<Rightarrow> path"
  path_resolve_strict :: "path \<Rightarrow> path option"
  path_is_dir :: "path \<Rightarrow> bool"
  path_exists :: "path \<Rightarrow> bool"
  path_is_symlink :: "path \<Rightarrow> bool"
  git_command :: "path \<Rightarrow> string list \<Rightarrow> git_answer"
  catalog_at :: "path \<Rightarrow> catalog"

record repo_binding =
  rb_project :: string
  rb_slug :: string
  rb_anchor :: path

definition project_db_path :: "binding_env \<Rightarrow> path guarded" where
  "project_db_path env = gbind (expanduser (base env)
       (parse_path (case environ (base env) ''HERMES_HOME'' of None \<Rightarrow> ''~/.hermes'' | Some h \<Rightarrow> h)))
     (\<lambda>home. Ok (path_join home ''projects.db''))"

definition opt_text :: "string option \<Rightarrow> string" where
  "opt_text v = (case v of None \<Rightarrow> [] | Some s \<Rightarrow> s)"

definition project_row :: "binding_env \<Rightarrow> string \<Rightarrow> project guarded" where
  "project_row env token =
     gbind (project_db_path env) (\<lambda>p.
     gbind (there (base env) p) (\<lambda>found.
       if \<not> found then Refused (''project catalog is missing or unreadable: '' @ path_str p)
       else (let c = catalog_at env p in case g_error c of
          Some e \<Rightarrow> Refused (''project catalog could not be read: '' @ e)
        | None \<Rightarrow>
          if \<not> {''id'', ''slug'', ''primary_path''} \<subseteq> set (g_columns c)
          then Refused ''project catalog has no verifiable primary repository field''
          else (case find (\<lambda>r. p_id r = token \<or> p_slug r = Some (casefold token)) (g_projects c) of
              None \<Rightarrow> Refused (''project '' @ py_repr_str token @ '' is not registered'')
            | Some r \<Rightarrow> Ok \<lparr>p_id = p_id r, p_slug = Some (casefold (py_strip (opt_text (p_slug r)))),
                p_primary = Some (py_strip (opt_text (p_primary r))),
                p_archived = (''archived'' \<in> set (g_columns c) \<and> p_archived r)\<rparr>))))"

definition git_output :: "binding_env \<Rightarrow> path \<Rightarrow> string list \<Rightarrow> string guarded" where
  "git_output env anchor args = (case git_command env anchor args of
      GitFailed e \<Rightarrow> Refused (''repository anchor could not be verified: '' @ e)
    | GitExited status out \<Rightarrow> if status \<noteq> 0 then Refused ''project primary path is not a readable git repository''
        else Ok (py_strip out))"

text \<open>The shape of the request: a worktree, nothing that names its place, a key and a project.\<close>

definition requested_project :: "dict \<Rightarrow> string guarded" where
  "requested_project raw =
     gbind (require (case dget_py raw ''workspace_kind'' of JStr s \<Rightarrow> py_strip s = ''worktree'' | _ \<Rightarrow> False)
       (''workspace_kind must be explicitly '' @ single_quote # ''worktree'' @ [single_quote])) (\<lambda>_.
     gbind (require (\<not> dhas raw ''workspace_path'' \<or> dget_py raw ''workspace_path'' = JNull)
       ''workspace_path must be omitted so the core materializer can derive <repo>/.worktrees/<task-id>'') (\<lambda>_.
     gbind (require (\<not> dhas raw ''workspace_path'') ''null workspace_path is not a canonical creation binding'') (\<lambda>_.
     gbind (require (\<not> dhas raw ''branch'') ''branch cannot be supplied on the structured create path'') (\<lambda>_.
     gbind (require (\<not> dhas raw ''branch_name'') ''branch_name cannot be supplied on the structured create path'') (\<lambda>_.
     gbind (exact_idempotency_key (dget_py raw ''idempotency_key'')) (\<lambda>_.
       case (if dhas raw ''project'' then dget_py raw ''project'' else dget_py raw ''project_id'') of
         JStr s \<Rightarrow> if py_strip s = [] then Refused ''project is required to resolve a repository anchor''
           else gbind (require (\<not> (dhas raw ''project'' \<and> dhas raw ''project_id'' \<and>
               dget_py raw ''project_id'' \<notin> {JNull, JStr s})) ''project and project_id disagree'') (\<lambda>_. Ok (py_strip s))
       | _ \<Rightarrow> Refused ''project is required to resolve a repository anchor''))))))"

text \<open>The primary path is a directory and the root of its own repository.\<close>

definition anchor_root :: "binding_env \<Rightarrow> string \<Rightarrow> path guarded" where
  "anchor_root env primary =
     gbind (expanduser (base env) (parse_path primary)) (\<lambda>anchor.
     gbind (require (is_absolute anchor \<and> path_is_dir env anchor)
       ''project primary repository anchor is missing or not a directory'') (\<lambda>_.
     case path_resolve_strict env anchor of
       None \<Rightarrow> Refused ''project primary repository anchor is unverifiable''
     | Some resolved \<Rightarrow>
     gbind (git_output env resolved [''rev-parse'', ''--show-toplevel'']) (\<lambda>top.
     gbind (require (path_resolve env (parse_path top) = resolved)
       ''project primary path is not the repository anchor root'') (\<lambda>_.
     gbind (git_output env resolved [''rev-parse'', ''--git-dir'']) (\<lambda>git_dir.
     gbind (git_output env resolved [''rev-parse'', ''--git-common-dir'']) (\<lambda>common_dir.
     gbind (require (path_resolve env (path_join resolved git_dir) = path_resolve env (path_join resolved common_dir))
       ''project primary path is a linked worktree, not a repository anchor'') (\<lambda>_.
     let worktrees = path_join resolved ''.worktrees'' in
     gbind (require (\<not> (path_exists env worktrees \<and> path_is_symlink env worktrees))
       ''repository .worktrees path is a symlink and cannot be verified'') (\<lambda>_.
     gbind (require (\<not> (path_exists env worktrees \<and> \<not> path_is_dir env worktrees))
       ''repository .worktrees path is not a directory'') (\<lambda>_. Ok resolved)))))))))"

definition resolve_binding :: "binding_env \<Rightarrow> dict \<Rightarrow> repo_binding guarded" where
  "resolve_binding env raw =
     gbind (requested_project raw) (\<lambda>token.
     gbind (project_row env token) (\<lambda>p.
     gbind (require (\<not> p_archived p) ''project is archived and cannot anchor new work'') (\<lambda>_.
     gbind (require (opt_text (p_slug p) \<noteq> []) ''project has no canonical slug'') (\<lambda>_.
     gbind (require (opt_text (p_primary p) \<noteq> []) ''project has no primary repository anchor'') (\<lambda>_.
     gbind (anchor_root env (opt_text (p_primary p))) (\<lambda>anchor.
       Ok \<lparr>rb_project = p_id p, rb_slug = opt_text (p_slug p), rb_anchor = anchor\<rparr>))))))"

section \<open>The board as Hermes keeps it\<close>

text \<open>Rows of \<open>tasks\<close> as columns with their values; the columns \<open>tasks\<close> has.\<close>

record core_db =
  k_rows :: "dict list"
  k_links :: "(string \<times> string) list"
  k_events :: "(string \<times> string \<times> dict \<times> int) list"
  k_columns :: "string list"

definition column :: "dict \<Rightarrow> string \<Rightarrow> string" where
  "column row key = py_str (py_or (dget_py row key) (JStr []))"

definition created_at :: "dict \<Rightarrow> int" where
  "created_at row = (case dget_py row ''created_at'' of JInt i \<Rightarrow> i | _ \<Rightarrow> 0)"

definition read_row :: "core_db \<Rightarrow> string \<Rightarrow> dict option" where
  "read_row db task_id = find (\<lambda>r. dget_py r ''id'' = JStr task_id) (k_rows db)"

definition links_of :: "core_db \<Rightarrow> string \<Rightarrow> (string \<times> string) list" where
  "links_of db task_id = filter (\<lambda>l. snd l = task_id) (k_links db)"

text \<open>The ids and statuses of the rows with one of the ids; \<open>id\<close> is the key of the table.\<close>

definition parent_statuses :: "core_db \<Rightarrow> string list \<Rightarrow> (string \<times> string) list" where
  "parent_statuses db parents = map (\<lambda>r. (py_str (dget_py r ''id''), py_str (dget_py r ''status'')))
     (filter (\<lambda>r. dget_py r ''id'' \<in> JStr ` set parents) (k_rows db))"

definition live_same_key :: "string \<Rightarrow> dict \<Rightarrow> bool" where
  "live_same_key key row \<longleftrightarrow> dget_py row ''idempotency_key'' = JStr key \<and>
     dget_py row ''status'' \<notin> {JNull, JStr ''archived''}"

definition find_idempotent :: "core_db \<Rightarrow> string \<Rightarrow> string option guarded" where
  "find_idempotent db key = (case rev (sort_key created_at (filter (live_same_key key) (k_rows db))) of
      [] \<Rightarrow> Ok None
    | newest # rest \<Rightarrow>
        if list_ex (\<lambda>r. created_at r = created_at newest) rest
        then Refused ''same-key legacy rows have tied creation timestamps; replay is ambiguous''
        else Ok (Some (py_str (dget_py newest ''id''))))"

text \<open>\<open>UPDATE\<close> of an unclaimed card in \<open>todo\<close> or \<open>ready\<close>, and the event that says so.\<close>

definition claim_columns :: "string list" where
  "claim_columns = [''claim_lock'', ''claim_expires'', ''worker_pid'', ''current_run_id'']"

definition unclaimed :: "string list \<Rightarrow> string \<Rightarrow> dict \<Rightarrow> bool" where
  "unclaimed columns task_id row \<longleftrightarrow> dget_py row ''id'' = JStr task_id \<and>
     dget_py row ''status'' \<in> {JStr ''todo'', JStr ''ready''} \<and>
     list_all (\<lambda>c. c \<in> set columns \<longrightarrow> dget_py row c = JNull) claim_columns"

definition quarantined_row :: "string list \<Rightarrow> dict \<Rightarrow> dict" where
  "quarantined_row columns row = (let row = dset ''status'' (JStr ''blocked'') row in
     if ''block_kind'' \<in> set columns then dset ''block_kind'' (JStr ''capability'') row else row)"

definition quarantine :: "int \<Rightarrow> string \<Rightarrow> string \<Rightarrow> core_db \<Rightarrow> bool \<times> core_db" where
  "quarantine now task_id reason db =
     (let hit = unclaimed (k_columns db) task_id;
          db' = db\<lparr>k_rows := map (\<lambda>r. if hit r then quarantined_row (k_columns db) r else r) (k_rows db)\<rparr>
      in if length (filter hit (k_rows db)) \<noteq> 1 then (False, db')
         else (True, db'\<lparr>k_events := k_events db @ [(task_id, ''workspace_binding_quarantined'', [(''reason'', JStr reason)], now)]\<rparr>))"

section \<open>Creation and read-back\<close>

text \<open>The keyword arguments of \<open>create_task\<close>.\<close>

definition opt_env :: "guard_env \<Rightarrow> string \<Rightarrow> json" where
  "opt_env env name = (case environ env name of None \<Rightarrow> JNull | Some v \<Rightarrow> JStr v)"

definition created_by :: "guard_env \<Rightarrow> dict \<Rightarrow> json" where
  "created_by env raw = py_or (if truthy (dget_py raw ''created_by'') then JStr (py_str (dget_py raw ''created_by'')) else JNull)
     (py_or (opt_env env ''HERMES_PROFILE'') (JStr ''worker''))"

definition create_request :: "guard_env \<Rightarrow> dict \<Rightarrow> repo_binding \<Rightarrow> dict guarded" where
  "create_request env raw b =
     gbind (requested_parents raw) (\<lambda>parents.
     gbind (case dget raw ''title'' of None \<Rightarrow> Uncaught ''KeyError'' | Some v \<Rightarrow> Ok (py_strip (py_str v))) (\<lambda>title.
     gbind (as_optional_int (dget_py raw ''priority'') ''priority'') (\<lambda>priority.
     gbind (as_bool (dget_py raw ''triage'') ''triage'') (\<lambda>triage.
     gbind (exact_idempotency_key (dget_py raw ''idempotency_key'')) (\<lambda>key.
     gbind (as_optional_int (dget_py raw ''max_runtime_seconds'') ''max_runtime_seconds'') (\<lambda>runtime.
     gbind (as_optional_int (dget_py raw ''max_retries'') ''max_retries'') (\<lambda>retries.
     gbind (as_bool (dget_py raw ''goal_mode'') ''goal_mode'') (\<lambda>goal_mode.
     gbind (as_optional_int (dget_py raw ''goal_max_turns'') ''goal_max_turns'') (\<lambda>goal_turns.
       Ok [(''title'', JStr title), (''body'', dget_py raw ''body''), (''assignee'', JStr (py_str (dget_py raw ''assignee''))),
         (''created_by'', created_by env raw), (''workspace_kind'', JStr ''worktree''), (''workspace_path'', JNull),
         (''project_id'', JStr (rb_project b)), (''tenant'', py_or (dget_py raw ''tenant'') (opt_env env ''HERMES_TENANT'')),
         (''priority'', py_or (opt_int priority) (JInt 0)), (''parents'', JArr (map JStr parents)), (''triage'', JBool triage),
         (''idempotency_key'', JStr key), (''max_runtime_seconds'', opt_int runtime), (''skills'', dget_py raw ''skills''),
         (''max_retries'', opt_int retries), (''model_override'', dget_py raw ''model''),
         (''provider_override'', dget_py raw ''provider''), (''goal_mode'', JBool goal_mode), (''goal_max_turns'', opt_int goal_turns),
         (''initial_status'', JStr (py_str (py_or (dget_py raw ''initial_status'') (JStr ''running'')))),
         (''session_id'', py_or (dget_py raw ''session_id'') (opt_env env ''HERMES_SESSION_ID'')), (''board'', dget_py raw ''board''),
         (''creator_task_id'', py_or (opt_env env ''HERMES_KANBAN_TASK'') JNull),
         (''completion_contract'', dget_py raw ''completion_contract'')])))))))))"

definition task_id_re :: "string \<Rightarrow> bool" where
  "task_id_re s \<longleftrightarrow> starts_with s ''t_'' \<and> 2 < length s \<and>
     list_all (\<lambda>c. is_alnum c \<or> c = CHR ''_'' \<or> c = CHR ''-'') (drop 2 s)"

definition branch_safe :: "char \<Rightarrow> bool" where
  "branch_safe c \<longleftrightarrow> is_lower c \<or> is_digit c \<or> c \<in> set ''._-''"

text \<open>Every run of other characters becomes one dash.\<close>

fun dash_runs :: "bool \<Rightarrow> string \<Rightarrow> string" where
  "dash_runs in_run [] = []"
| "dash_runs in_run (c # s) = (if branch_safe c then c # dash_runs False s
     else if in_run then dash_runs True s else CHR ''-'' # dash_runs True s)"

definition strip_dashes :: "string \<Rightarrow> string" where
  "strip_dashes s = rev (dropWhile (\<lambda>c. c = CHR ''-'') (rev (dropWhile (\<lambda>c. c = CHR ''-'') s)))"

definition branch_name :: "repo_binding \<Rightarrow> string \<Rightarrow> string \<Rightarrow> string" where
  "branch_name b task_id title =
     (let title_slug = strip_dashes (take 40 (strip_dashes (dash_runs False (py_lower (py_strip title)))));
          stem = rb_slug b @ ''/'' @ task_id
      in if title_slug \<noteq> [] then stem @ ''-'' @ title_slug else stem)"

definition worktree_path :: "repo_binding \<Rightarrow> string \<Rightarrow> path" where
  "worktree_path b task_id = path_join (path_join (rb_anchor b) ''.worktrees'') task_id"

definition bound_row :: "binding_env \<Rightarrow> dict \<Rightarrow> repo_binding \<Rightarrow> string \<Rightarrow> dict \<Rightarrow> unit guarded" where
  "bound_row env raw b task_id row =
     (let title = py_strip (py_str (py_or (dget_py raw ''title'') (JStr []))) in
      gbind (require (py_strip (column row ''title'') = title) ''durable title read-back does not match the create request'') (\<lambda>_.
      gbind (require (specialist (dget_py row ''assignee'') = specialist (dget_py raw ''assignee''))
        ''durable assignee read-back does not match the create request'') (\<lambda>_.
      gbind (require (column row ''workspace_kind'' = ''worktree'') ''durable workspace_kind is not worktree'') (\<lambda>_.
      gbind (require (column row ''workspace_path'' \<noteq> []) ''durable workspace_path is not <repo>/.worktrees/<task-id>'') (\<lambda>_.
      gbind (expanduser (base env) (parse_path (column row ''workspace_path''))) (\<lambda>stored.
      gbind (require (path_resolve env stored = path_resolve env (worktree_path b task_id))
        ''durable workspace_path is not <repo>/.worktrees/<task-id>'') (\<lambda>_.
      gbind (require (column row ''branch_name'' \<noteq> [] \<and> column row ''branch_name'' = branch_name b task_id title)
        ''durable branch_name is not the dedicated project branch'') (\<lambda>_.
      gbind (require (column row ''project_id'' = rb_project b)
        ''durable project binding does not match the resolved project'') (\<lambda>_.
      gbind (exact_idempotency_key (dget_py raw ''idempotency_key'')) (\<lambda>key.
        require (column row ''idempotency_key'' = key) ''durable idempotency key read-back does not match''))))))))))"

definition readable_parents :: "core_db \<Rightarrow> string list \<Rightarrow> (string \<times> string) list guarded" where
  "readable_parents db parents = (let statuses = parent_statuses db parents in
     gbind (require (set (map fst statuses) = set parents) ''durable parent topology contains an unreadable parent'') (\<lambda>_.
       Ok statuses))"

definition verify_readback :: "binding_env \<Rightarrow> dict \<Rightarrow> repo_binding \<Rightarrow> string \<Rightarrow> core_db \<Rightarrow> unit guarded" where
  "verify_readback env raw b task_id db =
     gbind (require (task_id_re task_id) ''materializer returned an invalid task id'') (\<lambda>_.
     case read_row db task_id of
       None \<Rightarrow> Refused ''created task disappeared before durable read-back''
     | Some row \<Rightarrow>
     gbind (bound_row env raw b task_id row) (\<lambda>_.
     gbind (requested_parents raw) (\<lambda>parents.
     gbind (require (sort (links_of db task_id) = sort (map (\<lambda>parent. (parent, task_id)) parents))
       ''durable parent topology is not the requested parent-to-child graph'') (\<lambda>_.
     gbind (readable_parents db parents) (\<lambda>_. Ok ())))))"

definition expected_status :: "dict \<Rightarrow> (string \<times> string) list \<Rightarrow> string guarded" where
  "expected_status raw statuses =
     gbind (as_bool (dget_py raw ''triage'') ''triage'') (\<lambda>triage.
       if triage then Ok ''triage''
       else gbind (requested_parents raw) (\<lambda>parents.
         Ok (if list_ex (\<lambda>parent. dget statuses parent \<noteq> Some ''done'') parents then ''todo'' else ''ready'')))"

definition verify_initial_status :: "dict \<Rightarrow> string \<Rightarrow> core_db \<Rightarrow> unit guarded" where
  "verify_initial_status raw task_id db = (case read_row db task_id of
      None \<Rightarrow> Refused ''created task disappeared before initial status read-back''
    | Some row \<Rightarrow>
      gbind (requested_parents raw) (\<lambda>parents.
      gbind (readable_parents db parents) (\<lambda>statuses.
      gbind (expected_status raw statuses) (\<lambda>wanted.
        require (column row ''status'' = wanted) (''durable status read-back is not '' @ py_repr_str wanted)))))"

section \<open>Materialisation\<close>

text \<open>
  Hermes: the reason the creation lock of a board and key is not obtained, or the board not opened;
  \<open>create_task\<close> on the open transaction, which gives the id or the type of what it raises; the clock.
  The transaction is undone when its body raises.
\<close>

record hermes =
  lock_error :: "json \<Rightarrow> string \<Rightarrow> string option"
  create_task :: "dict \<Rightarrow> core_db \<Rightarrow> string guarded \<times> core_db"
  clock :: int

definition write_txn :: "(core_db \<Rightarrow> 'a guarded \<times> core_db) \<Rightarrow> core_db \<Rightarrow> 'a guarded \<times> core_db" where
  "write_txn body db = (case body db of (Ok x, db') \<Rightarrow> (Ok x, db') | (e, _) \<Rightarrow> (e, db))"

definition create :: "binding_env \<Rightarrow> hermes \<Rightarrow> dict \<Rightarrow> repo_binding \<Rightarrow> core_db \<Rightarrow> string guarded \<times> core_db" where
  "create env h raw b db = (case create_request (base env) raw b of
      Ok request \<Rightarrow> create_task h request db
    | e \<Rightarrow> (gbind e (\<lambda>_. Ok []), db))"

text \<open>
  The read-back. A new card that fails undoes the transaction; for one that was there the failure is
  remembered, and the card is quarantined if nobody has it.
\<close>

definition admit :: "binding_env \<Rightarrow> hermes \<Rightarrow> dict \<Rightarrow> repo_binding \<Rightarrow> string option \<Rightarrow> string \<Rightarrow> core_db \<Rightarrow>
  string option guarded \<times> core_db" where
  "admit env h raw b existing task_id db =
     (case gbind (verify_readback env raw b task_id db) (\<lambda>_.
         if existing = None then verify_initial_status raw task_id db else Ok ()) of
       Ok _ \<Rightarrow> (Ok None, db)
     | Refused e \<Rightarrow> if existing = None then (Refused e, db) else (Ok (Some e), snd (quarantine (clock h) task_id e db))
     | e \<Rightarrow> (gbind e (\<lambda>_. Ok None), db))"

definition materialize_body :: "binding_env \<Rightarrow> hermes \<Rightarrow> dict \<Rightarrow> repo_binding \<Rightarrow> string \<Rightarrow> core_db \<Rightarrow> string option guarded \<times> core_db" where
  "materialize_body env h raw b key db = (case find_idempotent db key of
      Ok existing \<Rightarrow> if existing = None \<or> existing = Some []
        then (case create env h raw b db of
            (Ok task_id, db') \<Rightarrow> admit env h raw b existing task_id db'
          | (e, db') \<Rightarrow> (gbind e (\<lambda>_. Ok None), db'))
        else admit env h raw b existing (the existing) db
    | e \<Rightarrow> (gbind e (\<lambda>_. Ok None), db))"

definition materialize_and_verify :: "binding_env \<Rightarrow> hermes \<Rightarrow> dict \<Rightarrow> repo_binding \<Rightarrow> core_db \<Rightarrow> unit guarded \<times> core_db" where
  "materialize_and_verify env h raw b db = (case exact_idempotency_key (dget_py raw ''idempotency_key'') of
      Ok key \<Rightarrow> (let slug = (case dget_py raw ''board'' of JStr s \<Rightarrow> JStr s | _ \<Rightarrow> JNull) in
        case lock_error h slug key of Some e \<Rightarrow> (Refused e, db)
        | None \<Rightarrow> (case write_txn (materialize_body env h raw b key) db of
            (r, db') \<Rightarrow> (gbind r (\<lambda>failed. case failed of None \<Rightarrow> Ok () | Some e \<Rightarrow> Refused e), db')))
    | e \<Rightarrow> (gbind e (\<lambda>_. Ok ()), db))"

section \<open>The structured call\<close>

definition prepare_structured :: "binding_env \<Rightarrow> dict \<Rightarrow> (dict \<times> repo_binding) option guarded" where
  "prepare_structured env payload = (case dget_py payload ''tool_input'' of
      JObj raw \<Rightarrow> if specialist (dget_py raw ''assignee'') = None \<or> is_blocked_quarantine raw then Ok None
        else gbind (resolve_binding env raw) (\<lambda>b. Ok (Some (raw, b)))
    | _ \<Rightarrow> Refused ''kanban_create tool_input must be an object'')"

definition binding_message :: "string \<Rightarrow> string" where
  "binding_message e = ''H4V3 workspace-binding preflight failed closed: '' @ e @ ''. No dispatchable task mutation was allowed.''"

text \<open>The message of a block, none when the call is allowed, or the type of an exception that is not caught.\<close>

definition settle :: "'a guarded \<Rightarrow> string + string option" where
  "settle r = (case r of Ok _ \<Rightarrow> Inr None | Refused e \<Rightarrow> Inr (Some (binding_message e))
     | OsError e \<Rightarrow> Inr (Some (binding_message e)) | Uncaught e \<Rightarrow> Inl e)"

definition evaluate_structured :: "binding_env \<Rightarrow> hermes \<Rightarrow> dict \<Rightarrow> core_db \<Rightarrow> (string + string option) \<times> core_db" where
  "evaluate_structured env h payload db = (case prepare_structured env payload of
      Ok (Some (raw, b)) \<Rightarrow> map_prod settle id (materialize_and_verify env h raw b db)
    | r \<Rightarrow> (settle r, db))"

end
