(* ===== verification/BindingGuarantees.thy ===== *)
theory BindingGuarantees
  imports WorkspaceBinding BlockKindGuarantees
begin

text \<open>
  What the workspace-binding preflight promises: a refused request adds no card and at most blocks a
  card that waits unclaimed; an admitted one has its card in the database, bound to the worktree, branch,
  project, key and parents of the request.
\<close>

section \<open>Refusals\<close>

lemma require_Ok [simp]: "require b m = Ok () \<longleftrightarrow> b" "require b m = Ok u \<longleftrightarrow> b"
  by (auto simp: require_def)

lemma lift_not_Ok: "(\<forall>x. e \<noteq> Ok x) \<Longrightarrow> gbind e k \<noteq> Ok y"
  by (cases e) auto

text \<open>At most waiting cards that nobody has claimed become blocked; everything else stays.\<close>

definition only_quarantined :: "core_db \<Rightarrow> core_db \<Rightarrow> bool" where
  "only_quarantined db db' \<longleftrightarrow> k_links db' = k_links db \<and>
     list_all2 (\<lambda>r r'. r' = r \<or> (dget_py r ''status'' \<in> {JStr ''todo'', JStr ''ready''} \<and>
        list_all (\<lambda>c. c \<in> set (k_columns db) \<longrightarrow> dget_py r c = JNull) claim_columns \<and>
        dget_py r' ''status'' = JStr ''blocked'')) (k_rows db) (k_rows db')"

lemma only_quarantined_refl: "only_quarantined db db"
  by (simp add: only_quarantined_def list.rel_refl)

lemma quarantined_status: "dget_py (quarantined_row columns row) ''status'' = JStr ''blocked''"
  by (simp add: quarantined_row_def dget_py_def dget_or_def Let_def)

lemma quarantine_only: "only_quarantined db (snd (quarantine now task_id reason db))"
  by (auto simp: only_quarantined_def quarantine_def Let_def list_all2_map2 unclaimed_def quarantined_status
      intro!: list_all2_refl)

lemma admit_refused:
  assumes "admit env h raw b (Some t) task_id db = (r, db')"
  shows "only_quarantined db db'"
  using assms
  by (auto simp: admit_def only_quarantined_refl quarantine_only split: guarded.split_asm)

lemma found_row:
  assumes "find_idempotent db key = Ok (Some t)"
  shows "\<exists>r \<in> set (k_rows db). t = py_str (dget_py r ''id'')"
proof -
  let ?rows = "rev (sort_key created_at (filter (live_same_key key) (k_rows db)))"
  obtain newest rest where rows: "?rows = newest # rest" and t: "t = py_str (dget_py newest ''id'')"
    using assms by (auto simp: find_idempotent_def split: list.split_asm if_split_asm)
  have "set ?rows \<subseteq> set (k_rows db)" by auto
  with rows t show ?thesis by auto
qed

lemma found_id:
  assumes "list_all (\<lambda>r. py_str (dget_py r ''id'') \<noteq> []) (k_rows db)"
  shows "find_idempotent db key \<noteq> Ok (Some [])"
proof
  assume "find_idempotent db key = Ok (Some [])"
  from found_row [OF this] assms show False by (auto simp only: list_all_iff)
qed

lemma write_txn_cases: "write_txn body db = (r, db') \<Longrightarrow>
   (db' = db \<and> (\<forall>x. r \<noteq> Ok x)) \<or> body db = (r, db')"
  by (cases "fst (body db)") (auto simp: write_txn_def split: prod.split_asm guarded.split_asm)

lemma materialize_parts:
  assumes "materialize_and_verify env h raw b db = (r, db')"
  shows "(db' = db \<and> r \<noteq> Ok ()) \<or> (\<exists>key failed. exact_idempotency_key (dget_py raw ''idempotency_key'') = Ok key \<and>
     materialize_body env h raw b key db = (Ok failed, db') \<and>
     r = (case failed of None \<Rightarrow> Ok () | Some e \<Rightarrow> Refused e))"
proof (cases "exact_idempotency_key (dget_py raw ''idempotency_key'')")
  case (Ok key)
  define slug where "slug = (case dget_py raw ''board'' of JStr s \<Rightarrow> JStr s | _ \<Rightarrow> JNull)"
  show ?thesis
  proof (cases "lock_error h slug key")
    case None
    obtain q dbq where t: "write_txn (materialize_body env h raw b key) db = (q, dbq)" by (rule prod.exhaust)
    have r: "r = gbind q (\<lambda>failed. case failed of None \<Rightarrow> Ok () | Some e \<Rightarrow> Refused e)" "db' = dbq"
      using assms Ok None t by (simp_all add: materialize_and_verify_def slug_def)
    show ?thesis
    proof (cases q)
      case (Ok failed)
      with write_txn_cases [OF t] r \<open>exact_idempotency_key _ = _\<close> show ?thesis by auto
    qed (use t r in \<open>auto simp: write_txn_def split: prod.split_asm guarded.split_asm\<close>)
  next
    case (Some e)
    with assms Ok show ?thesis by (auto simp: materialize_and_verify_def slug_def)
  qed
qed (use assms in \<open>auto simp: materialize_and_verify_def\<close>)

lemma new_card_all_or_nothing:
  assumes "materialize_body env h raw b key db = (Ok failed, db')" and "find_idempotent db key = Ok None"
  shows "failed = None"
  using assms by (auto simp: materialize_body_def admit_def gbind_def split: guarded.split_asm prod.split_asm if_split_asm)


section \<open>Admissions\<close>

lemma verified:
  assumes "verify_readback env raw b task_id db = Ok ()"
  shows "\<exists>row parents. read_row db task_id = Some row \<and> bound_row env raw b task_id row = Ok () \<and>
     requested_parents raw = Ok parents \<and> set (links_of db task_id) = (\<lambda>p. (p, task_id)) ` set parents \<and>
     length (links_of db task_id) = length parents"
proof -
  obtain row parents where row: "read_row db task_id = Some row" "bound_row env raw b task_id row = Ok ()"
      "requested_parents raw = Ok parents"
    and links: "sort (links_of db task_id) = sort (map (\<lambda>p. (p, task_id)) parents)"
    using assms by (auto simp: verify_readback_def gbind_Ok split: option.split_asm)
  from links have "set (links_of db task_id) = (\<lambda>p. (p, task_id)) ` set parents"
    by (metis set_map set_sort)
  moreover from links have "length (links_of db task_id) = length parents"
    by (metis length_map length_sort)
  ultimately show ?thesis using row by blast
qed

lemma bound_row_facts:
  assumes "bound_row env raw b task_id row = Ok ()"
  shows "column row ''workspace_kind'' = ''worktree''"
    and "column row ''branch_name'' = branch_name b task_id (py_strip (py_str (py_or (dget_py raw ''title'') (JStr []))))"
    and "column row ''project_id'' = rb_project b"
    and "exact_idempotency_key (dget_py raw ''idempotency_key'') = Ok (column row ''idempotency_key'')"
    and "specialist (dget_py row ''assignee'') = specialist (dget_py raw ''assignee'')"
  using assms by (auto simp: bound_row_def gbind_Ok Let_def)

text \<open>A parent is done when its row says so.\<close>

definition parent_done :: "core_db \<Rightarrow> string \<Rightarrow> bool" where
  "parent_done db parent \<longleftrightarrow> (case read_row db parent of None \<Rightarrow> False | Some r \<Rightarrow> py_str (dget_py r ''status'') = ''done'')"

lemma status_of_parent:
  assumes "p \<in> set parents"
  shows "dget (parent_statuses db parents) p = map_option (\<lambda>r. py_str (dget_py r ''status'')) (read_row db p)"
proof -
  have "dget (map (\<lambda>r. (py_str (dget_py r ''id''), py_str (dget_py r ''status'')))
      (filter (\<lambda>r. dget_py r ''id'' \<in> JStr ` set parents) rows)) p =
    map_option (\<lambda>r. py_str (dget_py r ''status'')) (find (\<lambda>r. dget_py r ''id'' = JStr p) rows)" for rows
  proof (induction rows)
    case (Cons r rows)
    show ?case
    proof (cases "dget_py r ''id'' \<in> JStr ` set parents")
      case True
      then obtain q where "dget_py r ''id'' = JStr q" by blast
      with True Cons show ?thesis by (simp add: py_str_def)
    next
      case False
      with assms have "dget_py r ''id'' \<noteq> JStr p" by blast
      with False Cons show ?thesis by simp
    qed
  qed simp
  then show ?thesis by (simp add: parent_statuses_def read_row_def)
qed

lemma initial_status_ready:
  assumes "verify_initial_status raw task_id db = Ok ()" and "as_bool (dget_py raw ''triage'') ''triage'' = Ok False"
    and "read_row db task_id = Some row" and "requested_parents raw = Ok parents"
  shows "column row ''status'' = (if \<forall>p \<in> set parents. parent_done db p then ''ready'' else ''todo'')"
proof -
  obtain statuses wanted where s: "statuses = parent_statuses db parents"
    and w: "expected_status raw statuses = Ok wanted" and c: "column row ''status'' = wanted"
    using assms by (auto simp: verify_initial_status_def gbind_Ok readable_parents_def Let_def)
  have "list_ex (\<lambda>p. dget statuses p \<noteq> Some ''done'') parents \<longleftrightarrow> \<not> (\<forall>p \<in> set parents. parent_done db p)"
    by (auto simp: s list_ex_iff status_of_parent parent_done_def split: option.split)
  with w c assms(2,4) show ?thesis by (auto simp: expected_status_def)
qed

lemma admitted:
  assumes "admit env h raw b existing task_id db = (Ok None, db')"
  shows "db' = db" and "verify_readback env raw b task_id db = Ok ()"
    and "existing = None \<Longrightarrow> verify_initial_status raw task_id db = Ok ()"
  using assms by (auto simp: admit_def gbind_def split: guarded.split_asm if_split_asm)

lemma materialized:
  assumes "materialize_body env h raw b key db = (Ok None, db')"
  shows "\<exists>existing task_id. find_idempotent db key = Ok existing \<and> verify_readback env raw b task_id db' = Ok () \<and>
     (existing = None \<longrightarrow> verify_initial_status raw task_id db' = Ok ()) \<and>
     (existing \<notin> {None, Some []} \<longrightarrow> db' = db \<and> existing = Some task_id)"
proof -
  obtain existing where e: "find_idempotent db key = Ok existing"
    using assms by (auto simp: materialize_body_def gbind_def split: guarded.split_asm)
  show ?thesis
  proof (cases "existing = None \<or> existing = Some []")
    case True
    then obtain task_id dbc where "admit env h raw b existing task_id dbc = (Ok None, db')"
      using assms e by (auto simp: materialize_body_def gbind_def split: guarded.split_asm prod.split_asm)
    with admitted [OF this] e True show ?thesis by blast
  next
    case False
    with assms e have "admit env h raw b existing (the existing) db = (Ok None, db')" by (simp add: materialize_body_def)
    with admitted [OF this] e False show ?thesis by auto
  qed
qed


section \<open>Sample board\<close>

definition sample_binding_env :: binding_env where
  "sample_binding_env = \<lparr>base = sample_env, path_resolve = (\<lambda>p. p), path_resolve_strict = Some,
     path_is_dir = (\<lambda>_. True), path_exists = (\<lambda>_. False), path_is_symlink = (\<lambda>_. False),
     git_command = (\<lambda>_ args. GitExited 0 (if args = [''rev-parse'', ''--show-toplevel''] then ''/repo'' else ''.git'')),
     catalog_at = (\<lambda>_. \<lparr>g_error = None, g_columns = [''id'', ''slug'', ''primary_path''],
       g_projects = [\<lparr>p_id = ''p1'', p_slug = Some ''proj'', p_primary = Some ''/repo'', p_archived = False\<rparr>]\<rparr>)\<rparr>"

definition sample_request :: dict where
  "sample_request = [(''title'', JStr ''Fix it''), (''assignee'', JStr ''kanban-developer''),
     (''workspace_kind'', JStr ''worktree''), (''project'', JStr ''proj''), (''idempotency_key'', JStr ''k1''),
     (''parents'', JArr [JStr ''t_0''])]"

definition sample_binding :: repo_binding where
  "sample_binding = \<lparr>rb_project = ''p1'', rb_slug = ''proj'', rb_anchor = parse_path ''/repo''\<rparr>"

definition sample_row :: "string \<Rightarrow> string \<Rightarrow> string \<Rightarrow> dict" where
  "sample_row task_id key status = [(''id'', JStr task_id), (''title'', JStr ''Fix it''), (''assignee'', JStr ''kanban-developer''),
     (''status'', JStr status), (''workspace_kind'', JStr ''worktree''), (''workspace_path'', JStr (''/repo/.worktrees/'' @ task_id)),
     (''branch_name'', JStr (''proj/'' @ task_id @ ''-fix-it'')), (''project_id'', JStr ''p1''), (''idempotency_key'', JStr key),
     (''created_at'', JInt 7)]"

definition sample_core :: "dict list \<Rightarrow> core_db" where
  "sample_core rows = \<lparr>k_rows = sample_row ''t_0'' ''k0'' ''done'' # rows, k_links = [], k_events = [],
     k_columns = [''id'', ''status'', ''claim_lock'']\<rparr>"

text \<open>A \<open>create_task\<close> that writes one card with its links, in a given status.\<close>

definition sample_hermes :: "string \<Rightarrow> hermes" where
  "sample_hermes status = \<lparr>lock_error = (\<lambda>_ _. None),
     create_task = (\<lambda>request db. (Ok ''t_1'', db\<lparr>k_rows := k_rows db @ [sample_row ''t_1'' ''k1'' status],
       k_links := k_links db @ [(''t_0'', ''t_1'')]\<rparr>)), clock = 9\<rparr>"



end
