(* ===== verification/LifecycleGuard.thy ===== *)
theory LifecycleGuard
  imports WorkspaceBinding
begin

text \<open>
  The lifecycle hook (automation/hermes/scripts/kanban-block-kind-guard.py): the one approved command
  that hands a tool call to the block-kind gate, the specialist policy, the retry materialiser and the
  workspace-binding policy, and makes the retry and run-time limits of a created card canonical. An
  outcome is the exit status with the message of the directive on standard output.
\<close>

type_synonym outcome = "int \<times> string option"

definition TASK_RETRY_LIMIT :: int where
  "TASK_RETRY_LIMIT = 5"

definition STANDARD_RUNTIME_SECONDS :: int where
  "STANDARD_RUNTIME_SECONDS = 7200"

definition LARGE_RUNTIME_SECONDS :: int where
  "LARGE_RUNTIME_SECONDS = 10800"

definition SEARCH_SCHEMA :: string where
  "SEARCH_SCHEMA = ''h4v3-investigation-search-v1''"

definition hard_block :: "string \<Rightarrow> outcome" where
  "hard_block message = (2, Some (''H4V3 lifecycle guard failed closed: '' @ message @ ''. No task mutation was performed.''))"

definition or_text :: "string \<Rightarrow> string \<Rightarrow> string" where
  "or_text s missing = (if s = [] then missing else s)"

definition tool_name :: "dict \<Rightarrow> string" where
  "tool_name payload = py_str (py_or (dget_py payload ''tool_name'') (JStr []))"

section \<open>Canonical retry and run time\<close>

definition normalize_assignee :: "json \<Rightarrow> string" where
  "normalize_assignee v = (case v of JStr s \<Rightarrow> casefold (py_strip s) | _ \<Rightarrow> [])"

definition is_search_selector :: "dict \<Rightarrow> bool" where
  "is_search_selector raw \<longleftrightarrow> normalize_assignee (dget_py raw ''assignee'') = ''kanban-main'' \<and>
     (case dget_py raw ''investigation_search'' of
        JObj marker \<Rightarrow> dget_py marker ''schema_id'' = JStr SEARCH_SCHEMA \<and> dget_py marker ''phase'' = JStr ''selector''
      | _ \<Rightarrow> False)"

definition retry_compat_target :: "dict \<Rightarrow> bool" where
  "retry_compat_target raw \<longleftrightarrow>
     normalize_assignee (dget_py raw ''assignee'') \<in> set SPECIALIST_ASSIGNEES \<or> is_search_selector raw"

definition strip_char :: "char \<Rightarrow> string \<Rightarrow> string" where
  "strip_char x s = rev (dropWhile (\<lambda>c. c = x) (rev (dropWhile (\<lambda>c. c = x) s)))"

definition large_mark :: "string \<Rightarrow> bool" where
  "large_mark line = (let marker = py_strip line;
       marker = (if starts_with marker ''- '' then py_strip (drop 2 marker) else marker)
     in strip_char CHR 0x60 marker = ''runtime_class=large'')"

definition body_marks_large_runtime :: "dict \<Rightarrow> bool" where
  "body_marks_large_runtime raw = (case dget_py raw ''body'' of JStr body \<Rightarrow> list_ex large_mark (splitlines body) | _ \<Rightarrow> False)"

definition is_investigation_search :: "dict \<Rightarrow> bool" where
  "is_investigation_search raw = (case dget_py raw ''investigation_search'' of
      JObj marker \<Rightarrow> dget_py marker ''schema_id'' = JStr SEARCH_SCHEMA | _ \<Rightarrow> False)"

definition canonical_runtime_seconds :: "dict \<Rightarrow> int" where
  "canonical_runtime_seconds raw =
     (if is_investigation_search raw then STANDARD_RUNTIME_SECONDS
      else if normalize_assignee (dget_py raw ''assignee'') \<in> {''kanban-developer'', ''kanban-reviewer'', ''kanban-designer''} \<and>
        body_marks_large_runtime raw then LARGE_RUNTIME_SECONDS
      else STANDARD_RUNTIME_SECONDS)"

definition canonicalize_search_runtime_marker :: "dict \<Rightarrow> dict option" where
  "canonicalize_search_runtime_marker raw = (case dget_py raw ''investigation_search'' of
      JObj marker \<Rightarrow> Some (case dget_py marker ''budget'' of
          JObj budget \<Rightarrow> dset ''budget'' (JObj (dset ''max_runtime_seconds'' (JInt STANDARD_RUNTIME_SECONDS) budget)) marker
        | _ \<Rightarrow> marker)
    | _ \<Rightarrow> None)"

definition canonical_input :: "dict \<Rightarrow> dict" where
  "canonical_input raw =
     (let input = dset ''max_runtime_seconds'' (JInt (canonical_runtime_seconds raw))
            (dset ''max_retries'' (JInt TASK_RETRY_LIMIT) raw)
      in case canonicalize_search_runtime_marker raw of None \<Rightarrow> input
         | Some marker \<Rightarrow> dset ''investigation_search'' (JObj marker) input)"

text \<open>None is the \<open>ValueError\<close> that a request for other than five retries raises.\<close>

definition retries_refused :: "json \<Rightarrow> bool" where
  "retries_refused current \<longleftrightarrow> (case current of JNull \<Rightarrow> False | JBool _ \<Rightarrow> True
     | _ \<Rightarrow> \<not> py_equals_int current TASK_RETRY_LIMIT)"

definition canonicalize_structured_retry_payload :: "dict \<Rightarrow> dict option" where
  "canonicalize_structured_retry_payload payload =
     (if tool_name payload \<noteq> ''kanban_create'' then Some payload
      else case dget_py payload ''tool_input'' of
        JObj raw \<Rightarrow> if \<not> retry_compat_target raw then Some payload
          else if retries_refused (dget_py raw ''max_retries'') then None
          else Some (dset ''tool_input'' (JObj (canonical_input raw)) payload)
      | _ \<Rightarrow> Some payload)"

section \<open>The retry materialiser\<close>

definition required_columns :: "string list" where
  "required_columns = [''id'', ''assignee'', ''idempotency_key'', ''max_retries'', ''max_runtime_seconds'', ''created_at'', ''status'']"

text \<open>\<open>a != b\<close> on two values of which one may be a number.\<close>

definition py_same :: "json \<Rightarrow> json \<Rightarrow> bool" where
  "py_same a b \<longleftrightarrow> (case b of JInt i \<Rightarrow> py_equals_int a i | _ \<Rightarrow> a = b)"

text \<open>A refusal with the type of its exception; other errors carry their own text.\<close>

definition typed :: "string \<Rightarrow> 'a guarded \<Rightarrow> 'a guarded" where
  "typed name r = (case r of Refused e \<Rightarrow> Refused (name @ '': '' @ e) | _ \<Rightarrow> r)"

definition verify_retry_readback :: "dict \<Rightarrow> core_db \<Rightarrow> unit guarded" where
  "verify_retry_readback raw db =
     gbind (typed ''BindingError'' (exact_idempotency_key (dget_py raw ''idempotency_key''))) (\<lambda>key.
     typed ''RuntimeError'' (gbind (require (set required_columns \<subseteq> set (k_columns db))
       ''board DB tasks schema cannot prove durable retry/runtime policy'') (\<lambda>_.
     case rev (sort_key created_at (filter (live_same_key key) (k_rows db))) of
       [] \<Rightarrow> Refused ''materialized task disappeared before retry read-back''
     | row # rest \<Rightarrow>
     gbind (require (\<not> list_ex (\<lambda>r. created_at r = created_at row) rest)
       ''same-key rows have tied creation timestamps; retry read-back is ambiguous'') (\<lambda>_.
     gbind (require (normalize_assignee (dget_py row ''assignee'') = normalize_assignee (dget_py raw ''assignee''))
       ''durable assignee does not match retry-compatible create'') (\<lambda>_.
     gbind (require (py_same (dget_py row ''max_retries'') (JInt TASK_RETRY_LIMIT)) ''durable max_retries is not exactly five'') (\<lambda>_.
       require (py_same (dget_py row ''max_runtime_seconds'') (dget_py raw ''max_runtime_seconds''))
         ''durable max_runtime_seconds does not match canonical H4V3 runtime''))))))"

text \<open>
  How a started process ends for its parent: it ran, it was not started (with the reason), or it was
  killed at the time limit, after its transaction or not.
\<close>

datatype launch = Ran | NotStarted string | Killed string bool

record lifecycle_env =
  binding :: binding_env
  core :: hermes
  core_launch :: "(int \<times> string) option"
  traceback :: "string \<Rightarrow> string"
  specialist_policy :: "dict \<Rightarrow> string + outcome"
  terminal_binding :: "dict \<Rightarrow> core_db \<Rightarrow> (string + string option) \<times> core_db"
  readback_error :: "string option"
  retry_launch :: launch
  binding_launch :: launch

definition evaluate_retry_materializer :: "lifecycle_env \<Rightarrow> dict \<Rightarrow> core_db \<Rightarrow> unit guarded \<times> core_db" where
  "evaluate_retry_materializer env payload db = (case dget_py payload ''tool_input'' of
      JObj raw \<Rightarrow> if tool_name payload \<noteq> ''kanban_create'' \<or> \<not> retry_compat_target raw then (Ok (), db)
        else if \<not> py_equals_int (dget_py raw ''max_retries'') TASK_RETRY_LIMIT
        then (Refused ''RuntimeError: canonicalized structured create must carry max_retries=5'', db)
        else if unhashable (dget_py raw ''max_runtime_seconds'') then (Uncaught ''TypeError'', db)
        else if \<not> (py_equals_int (dget_py raw ''max_runtime_seconds'') STANDARD_RUNTIME_SECONDS \<or>
          py_equals_int (dget_py raw ''max_runtime_seconds'') LARGE_RUNTIME_SECONDS)
        then (Refused ''RuntimeError: canonicalized structured create must carry a canonical H4V3 runtime'', db)
        else if is_blocked_quarantine raw then (Ok (), db)
        else (case resolve_binding (binding env) raw of
            Ok b \<Rightarrow> (case materialize_and_verify (binding env) (core env) raw b db of
                (Ok _, db') \<Rightarrow> (case readback_error env of Some e \<Rightarrow> Refused e | None \<Rightarrow> verify_retry_readback raw db', db')
              | (e, db') \<Rightarrow> (typed ''BindingError'' e, db'))
          | e \<Rightarrow> (typed ''BindingError'' (gbind e (\<lambda>_. Ok ())), db))
    | _ \<Rightarrow> (Ok (), db))"

definition failure_text :: "'a guarded \<Rightarrow> string option" where
  "failure_text r = (case r of Ok _ \<Rightarrow> None | Refused e \<Rightarrow> Some e | OsError e \<Rightarrow> Some e | Uncaught e \<Rightarrow> Some e)"

text \<open>Its process: any exception is a hard block, which the parent passes on.\<close>

definition run_retry_materializer :: "lifecycle_env \<Rightarrow> dict \<Rightarrow> core_db \<Rightarrow> outcome \<times> core_db" where
  "run_retry_materializer env payload db = (case retry_launch env of
      NotStarted e \<Rightarrow> (hard_block (''structured retry materializer: '' @ e), db)
    | Killed e finished \<Rightarrow> (hard_block (''structured retry materializer: '' @ e),
        if finished then snd (evaluate_retry_materializer env payload db) else db)
    | Ran \<Rightarrow> (case evaluate_retry_materializer env payload db of (r, db') \<Rightarrow>
        (case failure_text r of None \<Rightarrow> (0, None) | Some e \<Rightarrow> hard_block (''structured retry materializer: '' @ e), db')))"

section \<open>The policies\<close>

definition CORE_NAME :: string where
  "CORE_NAME = ''kanban-block-kind-guard-core.py''"

definition SPECIALIST_NAME :: string where
  "SPECIALIST_NAME = ''kanban-specialist-completion-guard.py''"

definition BINDING_NAME :: string where
  "BINDING_NAME = ''kanban-workspace-binding-guard.py''"

text \<open>The gate's exit status, directive and standard error.\<close>

definition run_block_kind :: "lifecycle_env \<Rightarrow> string + json \<Rightarrow> int \<times> string option \<times> string" where
  "run_block_kind env stdin = (case core_launch env of Some (status, e) \<Rightarrow> (status, None, e)
     | None \<Rightarrow> (case block_kind_hook (base (binding env)) stdin of
         Inr Allowed \<Rightarrow> (0, None, [])
       | Inr (Blocked message _ _) \<Rightarrow> (2, Some message, [])
       | Inl e \<Rightarrow> (1, None, traceback env e)))"

definition exited :: "string \<Rightarrow> int \<Rightarrow> string" where
  "exited name status = name @ '' exited '' @ int_str status"

definition delegate_block_kind :: "lifecycle_env \<Rightarrow> string + json \<Rightarrow> outcome" where
  "delegate_block_kind env stdin = (let (status, out, err) = run_block_kind env stdin in
     if status = 0 then (0, out)
     else if status = 2 then (case out of Some m \<Rightarrow> (2, Some m)
       | None \<Rightarrow> hard_block (or_text (py_strip err) (CORE_NAME @ '' blocked without a diagnostic'')))
     else hard_block (or_text (py_strip err) (exited CORE_NAME status)))"

definition run_specialist_policy :: "lifecycle_env \<Rightarrow> dict \<Rightarrow> outcome" where
  "run_specialist_policy env payload = (case specialist_policy env payload of
      Inl e \<Rightarrow> hard_block (SPECIALIST_NAME @ '': '' @ e) | Inr r \<Rightarrow> r)"

definition binding_verdict :: "lifecycle_env \<Rightarrow> dict \<Rightarrow> core_db \<Rightarrow> (string + string option) \<times> core_db" where
  "binding_verdict env payload db =
     (if tool_name payload = ''kanban_create'' then evaluate_structured (binding env) (core env) payload db
      else if tool_name payload = ''terminal'' then terminal_binding env payload db
      else (Inr None, db))"

definition run_workspace_binding_policy :: "lifecycle_env \<Rightarrow> dict \<Rightarrow> core_db \<Rightarrow> outcome \<times> core_db" where
  "run_workspace_binding_policy env payload db = (case binding_launch env of
      NotStarted e \<Rightarrow> (hard_block (BINDING_NAME @ '': '' @ e), db)
    | Killed e finished \<Rightarrow> (hard_block (BINDING_NAME @ '': '' @ e), if finished then snd (binding_verdict env payload db) else db)
    | Ran \<Rightarrow> (case binding_verdict env payload db of (r, db') \<Rightarrow>
        (case r of Inr None \<Rightarrow> (0, None) | Inr (Some m) \<Rightarrow> (2, Some m)
           | Inl e \<Rightarrow> hard_block (or_text (py_strip (traceback env e)) (exited BINDING_NAME 1)), db')))"

definition run_specialist_policies :: "lifecycle_env \<Rightarrow> dict \<Rightarrow> core_db \<Rightarrow> outcome \<times> core_db" where
  "run_specialist_policies env payload db = (case canonicalize_structured_retry_payload payload of
      None \<Rightarrow> (hard_block ''H4V3 execution task max_retries must be exactly five'', db)
    | Some prepared \<Rightarrow>
        (let decision = run_specialist_policy env prepared in
         if fst decision \<noteq> 0 then (decision, db)
         else if tool_name prepared = ''kanban_create'' then
           (case run_retry_materializer env prepared db of (decision, db') \<Rightarrow>
             if fst decision \<noteq> 0 then (decision, db') else run_workspace_binding_policy env prepared db')
         else run_workspace_binding_policy env prepared db))"

definition guard_terminal :: "lifecycle_env \<Rightarrow> string + json \<Rightarrow> dict \<Rightarrow> core_db \<Rightarrow> outcome \<times> core_db" where
  "guard_terminal env stdin payload db = (let (status, out, err) = run_block_kind env stdin in
     if status \<noteq> 0 then (case (status = 2, out) of (True, Some m) \<Rightarrow> ((2, Some m), db)
         | _ \<Rightarrow> (hard_block (or_text (py_strip err) (exited CORE_NAME status)), db))
     else (case out of Some m \<Rightarrow> ((2, Some m), db) | None \<Rightarrow> run_specialist_policies env payload db))"

definition lifecycle_hook :: "lifecycle_env \<Rightarrow> string + json \<Rightarrow> core_db \<Rightarrow> outcome \<times> core_db" where
  "lifecycle_hook env stdin db = (case stdin of
      Inl e \<Rightarrow> (hard_block (''malformed pre_tool_call payload: '' @ e), db)
    | Inr tree \<Rightarrow> (case json_plain tree of
        JObj payload \<Rightarrow>
          if tool_name payload = ''kanban_block'' then (delegate_block_kind env stdin, db)
          else if tool_name payload = ''kanban_create'' then run_specialist_policies env payload db
          else if tool_name payload = ''terminal'' then guard_terminal env stdin payload db
          else ((0, None), db)
      | _ \<Rightarrow> ((0, None), db)))"

end
