(* ===== verification/LifecycleGuarantees.thy ===== *)
theory LifecycleGuarantees
  imports LifecycleGuard BindingGuarantees
begin

text \<open>
  What the lifecycle hook promises: the limits of a created card are canonical and stay so, and a
  specialist card that is admitted is in the database with exactly those limits, after the specialist
  policy accepted it. The last section shows a block that leaves its card behind.
\<close>

section \<open>Canonical requests\<close>

lemma py_dset [simp]: "dget_py (dset k v d) k' = (if k' = k then v else dget_py d k')"
  by (simp add: dget_py_def dget_or_def)

lemma canonical_fields:
  "dget_py (canonical_input raw) ''max_retries'' = JInt TASK_RETRY_LIMIT"
  "dget_py (canonical_input raw) ''max_runtime_seconds'' = JInt (canonical_runtime_seconds raw)"
  "k \<notin> {''max_retries'', ''max_runtime_seconds'', ''investigation_search''} \<Longrightarrow>
     dget_py (canonical_input raw) k = dget_py raw k"
  by (simp_all add: canonical_input_def Let_def split: option.split)

lemma canonical_marker:
  "dget_py (canonical_input raw) ''investigation_search'' =
     (case canonicalize_search_runtime_marker raw of None \<Rightarrow> dget_py raw ''investigation_search'' | Some m \<Rightarrow> JObj m)"
  by (simp add: canonical_input_def Let_def split: option.split)

lemma search_same: "is_investigation_search (canonical_input raw) = is_investigation_search raw"
  "is_search_selector (canonical_input raw) = is_search_selector raw"
  by (cases "dget_py raw ''investigation_search''";
      simp add: is_investigation_search_def is_search_selector_def canonical_marker canonical_fields
        canonicalize_search_runtime_marker_def split: json.split)+

lemma runtime_same: "canonical_runtime_seconds (canonical_input raw) = canonical_runtime_seconds raw"
  by (simp add: canonical_runtime_seconds_def search_same body_marks_large_runtime_def canonical_fields)

lemma target_same: "retry_compat_target (canonical_input raw) = retry_compat_target raw"
  by (simp add: retry_compat_target_def search_same canonical_fields)

lemma dset_twice: "dset k v (dset k w d) = dset k v d"
  by (induction d) auto

lemma dset_stays: "dget_py d k = v \<Longrightarrow> v \<noteq> JNull \<Longrightarrow> dset k v d = d"
  by (auto simp: dget_py_def dget_or_def intro: dset_same split: option.split_asm)

lemma marker_same: "canonicalize_search_runtime_marker (canonical_input raw) = canonicalize_search_runtime_marker raw"
proof (cases "dget_py raw ''investigation_search''")
  case (JObj marker)
  then show ?thesis
    by (cases "dget_py marker ''budget''")
      (simp_all add: canonicalize_search_runtime_marker_def canonical_marker dset_twice)
qed (simp_all add: canonicalize_search_runtime_marker_def canonical_marker)

lemma canonical_twice: "canonical_input (canonical_input raw) = canonical_input raw"
proof -
  let ?c = "canonical_input raw"
  have "dset ''max_retries'' (JInt TASK_RETRY_LIMIT) ?c = ?c"
    "dset ''max_runtime_seconds'' (JInt (canonical_runtime_seconds raw)) ?c = ?c"
    by (rule dset_stays; simp add: canonical_fields)+
  then have "canonical_input ?c = (case canonicalize_search_runtime_marker raw of None \<Rightarrow> ?c
      | Some marker \<Rightarrow> dset ''investigation_search'' (JObj marker) ?c)"
    by (simp add: canonical_input_def [of ?c] runtime_same marker_same Let_def)
  also have "\<dots> = ?c"
    using canonical_marker [of raw] by (auto intro: dset_stays split: option.split)
  finally show ?thesis .
qed


section \<open>Admitted cards\<close>

definition ids_ok :: "core_db \<Rightarrow> bool" where
  "ids_ok db \<longleftrightarrow> list_all (\<lambda>row. py_str (dget_py row ''id'') \<noteq> []) (k_rows db)"

text \<open>Hermes gives every card an id.\<close>

definition gives_ids :: "hermes \<Rightarrow> bool" where
  "gives_ids h \<longleftrightarrow> (\<forall>request d t d'. create_task h request d = (Ok t, d') \<longrightarrow> ids_ok d \<longrightarrow> ids_ok d')"

lemma hard_block_status [simp]: "hard_block m \<noteq> (0, out)" "fst (hard_block m) = 2"
  by (simp_all add: hard_block_def)

text \<open>The newest card with the key, and it alone that new.\<close>

lemma newest_found:
  assumes "verify_retry_readback raw db = Ok ()" and "exact_idempotency_key (dget_py raw ''idempotency_key'') = Ok key"
  shows "\<exists>row. row \<in> set (k_rows db) \<and> live_same_key key row \<and>
     find_idempotent db key = Ok (Some (py_str (dget_py row ''id''))) \<and>
     normalize_assignee (dget_py row ''assignee'') = normalize_assignee (dget_py raw ''assignee'') \<and>
     py_equals_int (dget_py row ''max_retries'') 5 \<and>
     py_same (dget_py row ''max_runtime_seconds'') (dget_py raw ''max_runtime_seconds'')"
proof -
  let ?rows = "rev (sort_key created_at (filter (live_same_key key) (k_rows db)))"
  obtain row rest where rows: "?rows = row # rest"
    and facts: "\<not> list_ex (\<lambda>r. created_at r = created_at row) rest"
      "normalize_assignee (dget_py row ''assignee'') = normalize_assignee (dget_py raw ''assignee'')"
      "py_same (dget_py row ''max_retries'') (JInt TASK_RETRY_LIMIT)"
      "py_same (dget_py row ''max_runtime_seconds'') (dget_py raw ''max_runtime_seconds'')"
    using assms by (auto simp: verify_retry_readback_def typed_def gbind_Ok split: list.split_asm guarded.split_asm)
  have "row \<in> set ?rows" by (simp add: rows)
  then have "row \<in> set (k_rows db)" "live_same_key key row" by auto
  with rows facts show ?thesis
    by (auto simp: find_idempotent_def py_same_def TASK_RETRY_LIMIT_def)
qed

lemma materialize_keeps_ids:
  assumes "materialize_and_verify env h raw b db = (Ok (), db')" and "ids_ok db"
    and "gives_ids h"
  shows "ids_ok db'"
proof -
  obtain key where m: "materialize_body env h raw b key db = (Ok None, db')"
    using materialize_parts [OF assms(1)] by (auto split: option.split_asm)
  have c: "ids_ok d" if "create env h raw b db = (Ok t, d)" for t d
    using that assms(2,3)
    by (auto simp: gives_ids_def create_def gbind_def split: guarded.split_asm)
  obtain existing where e: "find_idempotent db key = Ok existing"
    using m by (auto simp: materialize_body_def gbind_def split: guarded.split_asm)
  show ?thesis
  proof (cases "existing = None \<or> existing = Some []")
    case True
    then obtain t d where "create env h raw b db = (Ok t, d)" "admit env h raw b existing t d = (Ok None, db')"
      using m e by (auto simp: materialize_body_def gbind_def split: guarded.split_asm prod.split_asm)
    with c admitted(1) show ?thesis by blast
  next
    case False
    with m e have "admit env h raw b existing (the existing) db = (Ok None, db')" by (simp add: materialize_body_def)
    with admitted(1) assms(2) show ?thesis by blast
  qed
qed

lemma replay_keeps:
  assumes "materialize_and_verify env h raw b db = (Ok (), db')"
    and "exact_idempotency_key (dget_py raw ''idempotency_key'') = Ok key"
    and "find_idempotent db key = Ok (Some t)" and "t \<noteq> []"
  shows "db' = db"
proof -
  have "materialize_body env h raw b key db = (Ok None, db')"
    using materialize_parts [OF assms(1)] assms(2) by (auto split: option.split_asm)
  from materialized [OF this] assms(3,4) show ?thesis by auto
qed

lemma retry_materialized:
  assumes "run_retry_materializer env payload db = ((0, out), db1)" and "tool_name payload = ''kanban_create''"
    and "dget_py payload ''tool_input'' = JObj raw" and "retry_compat_target raw" and "\<not> is_blocked_quarantine raw"
  shows "\<exists>b. materialize_and_verify (binding env) (core env) raw b db = (Ok (), db1) \<and> verify_retry_readback raw db1 = Ok ()"
proof -
  obtain r where "evaluate_retry_materializer env payload db = (r, db1)" "failure_text r = None"
    using assms(1) by (auto simp: run_retry_materializer_def split: launch.split_asm prod.split_asm option.split_asm)
  then have "evaluate_retry_materializer env payload db = (Ok (), db1)"
    by (auto simp: failure_text_def split: guarded.split_asm)
  then show ?thesis using assms(2-5)
    by (auto simp: evaluate_retry_materializer_def typed_def gbind_def
        split: if_split_asm guarded.split_asm prod.split_asm option.split_asm)
qed

lemma binding_keeps:
  assumes "run_workspace_binding_policy env payload db1 = ((0, out), db')" and "tool_name payload = ''kanban_create''"
    and "dget_py payload ''tool_input'' = JObj raw"
    and "exact_idempotency_key (dget_py raw ''idempotency_key'') = Ok key"
    and "find_idempotent db1 key = Ok (Some t)" and "t \<noteq> []"
  shows "db' = db1"
proof -
  have e: "evaluate_structured (binding env) (core env) payload db1 = (Inr None, db')"
    using assms(1,2) by (auto simp: run_workspace_binding_policy_def binding_verdict_def
        split: launch.split_asm prod.split_asm sum.split_asm option.split_asm)
  show ?thesis
  proof (cases "prepare_structured (binding env) payload")
    case (Ok prepared)
    show ?thesis
    proof (cases prepared)
      case (Some rb)
      obtain b where rb: "rb = (raw, b)"
        using Ok Some assms(3) by (auto simp: prepare_structured_def gbind_Ok split: if_split_asm)
      obtain r where "materialize_and_verify (binding env) (core env) raw b db1 = (r, db')" "settle r = Inr None"
        using e Ok Some rb by (auto simp: evaluate_structured_def map_prod_def split: prod.split_asm)
      then have "materialize_and_verify (binding env) (core env) raw b db1 = (Ok (), db')"
        by (auto simp: settle_def split: guarded.split_asm)
      from replay_keeps [OF this assms(4-6)] show ?thesis .
    qed (use e Ok in \<open>simp add: evaluate_structured_def\<close>)
  qed (use e in \<open>simp_all add: evaluate_structured_def settle_def\<close>)
qed


section \<open>Samples\<close>

definition limited_row :: "string \<Rightarrow> dict" where
  "limited_row status = sample_row ''t_1'' ''k1'' status @ [(''max_retries'', JInt 5), (''max_runtime_seconds'', JInt 7200)]"

definition limited_hermes :: hermes where
  "limited_hermes = \<lparr>lock_error = (\<lambda>_ _. None),
     create_task = (\<lambda>request db. (Ok ''t_1'', db\<lparr>k_rows := k_rows db @ [limited_row ''ready''],
       k_links := k_links db @ [(''t_0'', ''t_1'')]\<rparr>)), clock = 9\<rparr>"

definition limited_core :: core_db where
  "limited_core = (sample_core [])\<lparr>k_columns := required_columns\<rparr>"

definition sample_lifecycle :: "launch \<Rightarrow> lifecycle_env" where
  "sample_lifecycle ending = \<lparr>binding = sample_binding_env, core = limited_hermes, core_launch = None, traceback = (\<lambda>e. e),
     specialist_policy = (\<lambda>_. Inr (0, None)), terminal_binding = (\<lambda>_ db. (Inr None, db)), readback_error = None,
     retry_launch = Ran, binding_launch = ending\<rparr>"

definition create_payload :: dict where
  "create_payload = [(''tool_name'', JStr ''kanban_create''), (''tool_input'', JObj sample_request)]"

lemma limited_ids: "gives_ids (core (sample_lifecycle ending))"
proof -
  have "py_str (dget_py (limited_row ''ready'') ''id'') \<noteq> []" by code_simp
  then show ?thesis by (auto simp: gives_ids_def sample_lifecycle_def limited_hermes_def ids_ok_def)
qed



section \<open>A block that leaves its card\<close>

text \<open>
  The binding policy runs in a process of its own, after the materialiser's transaction. When it cannot be started,
  the call is blocked with the message that no task mutation was performed, and the card is in the database, ready.
\<close>

lemma blocked_after_materialized:
  defines "run \<equiv> lifecycle_hook (sample_lifecycle (NotStarted ''TimeoutExpired'')) (Inr (JObj create_payload)) limited_core"
  shows "fst run = hard_block (BINDING_NAME @ '': TimeoutExpired'')"
    and "map (\<lambda>r. dget_py r ''status'') (filter (live_same_key ''k1'') (k_rows (snd run))) = [JStr ''ready'']"
  unfolding run_def by code_simp+

end
