(* ===== verification/PyNumber.thy ===== *)
theory PyNumber
  imports PyBase Complex_Main
begin

text \<open>
  Numbers as \<open>float\<close> reads them, for the components that compute with deadlines: exact where Python rounds, with
  the infinities and not-a-number.
\<close>

datatype number = Finite rat | Infinite bool | NotANumber

end
