(* ===== verification/ResourcePolicy.thy ===== *)
theory ResourcePolicy
  imports PyNumber
begin

text \<open>
  The worker resources of the edge's admission (edge/kanban_resource_admission.py and
  edge/kanban_dynamic_resource_core.py): the patterns that name the profiles of a resource, the parser of its
  policy, the backend a profile runs on, and the choice of the resource a card's worker uses.
\<close>

section \<open>Shell patterns\<close>

text \<open>
  \<open>fnmatch.fnmatchcase\<close>, by the translation of the standard library. A bracket opens a class up to the next
  closing one, which may also be its first member; without one it stands for itself.
\<close>

definition bracket_end :: "string \<Rightarrow> string \<Rightarrow> (string \<times> string) option" where
  "bracket_end first p = (let body = takeWhile (\<lambda>c. c \<noteq> CHR '']'') p in
     if length body = length p then None else Some (first @ body, drop (length body + 1) p))"

definition class_of :: "string \<Rightarrow> (string \<times> string) option" where
  "class_of p =
     (let negated = takeWhile (\<lambda>c. c = CHR ''!'') (take 1 p);
          p = drop (length negated) p;
          first = takeWhile (\<lambda>c. c = CHR '']'') (take 1 p)
      in bracket_end (negated @ first) (drop (length first) p))"

text \<open>
  The hyphens that make ranges separate the chunks of a class; the first may stand at place \<open>k\<close>, the next
  two places after the end of a range.
\<close>

function split_chunks :: "nat \<Rightarrow> string \<Rightarrow> string list" where
  "split_chunks k s = (let pos = k + length (takeWhile (\<lambda>c. c \<noteq> CHR ''-'') (drop k s)) in
     if pos < length s then take pos s # split_chunks 2 (drop (pos + 1) s) else [s])"
  by pat_completeness auto
termination by (relation "measure (\<lambda>(k, s). length s)") (auto simp: Let_def)

declare split_chunks.simps [simp del]

definition close_chunks :: "string list \<Rightarrow> string list" where
  "close_chunks cs = (if last cs \<noteq> [] \<or> length cs < 2 then cs else butlast (butlast cs) @ [last (butlast cs) @ ''-''])"

text \<open>An empty range disappears with its ends.\<close>

definition merge_chunk :: "string \<Rightarrow> string list \<Rightarrow> string list" where
  "merge_chunk c ds = (case ds of [] \<Rightarrow> [c]
     | d # rest \<Rightarrow> if code (last c) > code (hd d) then (butlast c @ tl d) # rest else c # d # rest)"

definition class_chunks :: "string \<Rightarrow> string list" where
  "class_chunks stuff = (if CHR ''-'' \<notin> set stuff then [stuff]
     else foldr merge_chunk (close_chunks (split_chunks (if take 1 stuff = ''!'' then 2 else 1) stuff)) [])"

fun in_chunks :: "string list \<Rightarrow> char \<Rightarrow> bool" where
  "in_chunks [] x = False"
| "in_chunks [c] x = (x \<in> set c)"
| "in_chunks (c # d # rest) x = (x \<in> set c \<or>
     (if c = [] then x = CHR ''-'' else code (last c) \<le> code x \<and> code x \<le> code (hd d)) \<or> in_chunks (d # rest) x)"

definition in_class :: "string \<Rightarrow> char \<Rightarrow> bool" where
  "in_class stuff x = (case class_chunks stuff of [] \<Rightarrow> False
     | c # rest \<Rightarrow> if c = [] \<and> rest = [] then False
         else if c = ''!'' \<and> rest = [] then True
         else if take 1 c = ''!'' then \<not> in_chunks (tl c # rest) x
         else in_chunks (c # rest) x)"

lemma bracket_end_shorter: "bracket_end first p = Some (stuff, rest) \<Longrightarrow> length rest < length p"
  by (cases p) (auto simp: bracket_end_def Let_def split: if_splits)

lemma class_shorter: "class_of p = Some (stuff, rest) \<Longrightarrow> length rest < length p"
  unfolding class_of_def Let_def by (drule bracket_end_shorter) simp

function fnmatch :: "string \<Rightarrow> string \<Rightarrow> bool" where
  "fnmatch [] s = (s = [])"
| "fnmatch (c # p) s =
     (if c = CHR ''*'' then fnmatch p s \<or> (case s of [] \<Rightarrow> False | _ # t \<Rightarrow> fnmatch (c # p) t)
      else (case s of [] \<Rightarrow> False
        | x # t \<Rightarrow>
            if c = CHR ''?'' then fnmatch p t
            else if c = CHR ''['' then (case class_of p of
                None \<Rightarrow> x = CHR ''['' \<and> fnmatch p t
              | Some (stuff, rest) \<Rightarrow> in_class stuff x \<and> fnmatch rest t)
            else x = c \<and> fnmatch p t))"
  by pat_completeness auto
termination by (relation "measure (\<lambda>(p, s). length p + length s)") (auto dest: class_shorter)

section \<open>What a policy can raise\<close>

text \<open>The module's own error, one of the operating system, or another exception.\<close>

datatype refusal = AdmissionError string | OsError string | Raised exn

type_synonym 'a admission = "refusal + 'a"

fun then_admit :: "'a admission \<Rightarrow> ('a \<Rightarrow> 'b admission) \<Rightarrow> 'b admission" where
  "then_admit (Inl e) k = Inl e"
| "then_admit (Inr x) k = k x"

definition refuse :: "string \<Rightarrow> 'a admission" where
  "refuse m = Inl (AdmissionError m)"

fun admit_all :: "('a \<Rightarrow> 'b admission) \<Rightarrow> 'a list \<Rightarrow> 'b list admission" where
  "admit_all f [] = Inr []"
| "admit_all f (x # xs) = then_admit (f x) (\<lambda>y. then_admit (admit_all f xs) (\<lambda>ys. Inr (y # ys)))"

section \<open>The backend of a profile\<close>

text \<open>
  Outside the model: \<open>float\<close>, a profile's config.yaml as Hermes reads it (an error, no file, or its content),
  \<open>urlparse(url).hostname\<close>, and whether an IP address is loopback, private, link-local or unspecified (none
  when it is no address).
\<close>

record policy_env =
  float_of :: "json \<Rightarrow> exn + number"
  read_profile :: "string \<Rightarrow> exn + json option"
  url_host :: "string \<Rightarrow> exn + string option"
  ip_local :: "string \<Rightarrow> bool option"

definition LOCAL_PROVIDER_HINTS :: "string list" where
  "LOCAL_PROVIDER_HINTS = [''llamacpp'', ''llama-cpp'', ''llama.cpp'', ''ollama'', ''lmstudio'', ''vllm'', ''sglang'', ''local'', ''ornith'']"

definition LOCAL_HOST_ALIASES :: "string list" where
  "LOCAL_HOST_ALIASES = [''localhost'', ''0.0.0.0'', ''::1'', ''host.docker.internal'']"

definition py_rstrip_char :: "char \<Rightarrow> string \<Rightarrow> string" where
  "py_rstrip_char c s = rev (dropWhile (\<lambda>x. x = c) (rev s))"

definition or_empty :: "json \<Rightarrow> string" where
  "or_empty v = py_str (py_or v (JStr []))"

definition normalized_provider :: "json \<Rightarrow> string" where
  "normalized_provider v = py_lower (py_strip (or_empty v))"

definition normalized_url :: "json \<Rightarrow> string" where
  "normalized_url v = py_rstrip_char (CHR ''/'') (py_strip (or_empty v))"

definition provider_is_local :: "string \<Rightarrow> bool" where
  "provider_is_local provider = (let norm = normalized_provider (JStr provider) in
     norm \<noteq> [] \<and> (norm \<in> set LOCAL_PROVIDER_HINTS \<or>
       list_ex (\<lambda>token. contains token norm) [''local'', ''llamacpp'', ''llama-cpp'', ''llama.cpp'', ''ornith'', ''ollama'', ''vllm'', ''sglang'', ''lmstudio'']))"

definition normalized_host :: "string \<Rightarrow> string" where
  "normalized_host s = py_rstrip_char (CHR ''.'') (py_lower (py_strip s))"

definition host_from_url :: "policy_env \<Rightarrow> string \<Rightarrow> string res" where
  "host_from_url pe value = (let t = normalized_url (JStr value) in
     if t = [] then Inr []
     else map_sum id (\<lambda>host. normalized_host (case host of None \<Rightarrow> [] | Some h \<Rightarrow> h))
       (url_host pe (if contains ''://'' t then t else ''http://'' @ t)))"

definition host_ends_with :: "string \<Rightarrow> string \<Rightarrow> bool" where
  "host_ends_with s p \<longleftrightarrow> starts_with (rev s) (rev p)"

definition host_is_local :: "policy_env \<Rightarrow> string \<Rightarrow> bool" where
  "host_is_local pe host = (let host = normalized_host host in
     host \<noteq> [] \<and> (host \<in> set LOCAL_HOST_ALIASES \<or> host_ends_with host ''.localhost'' \<or>
       (case ip_local pe host of None \<Rightarrow> host_ends_with host ''.local'' | Some b \<Rightarrow> b)))"

definition base_url_is_local :: "policy_env \<Rightarrow> string \<Rightarrow> bool res" where
  "base_url_is_local pe url = map_sum id (host_is_local pe) (host_from_url pe url)"

text \<open>A nested default fills what the mapping leaves out.\<close>

definition nested_default :: "dict \<Rightarrow> dict" where
  "nested_default d = (case dget_py d ''default'' of
      JObj nested \<Rightarrow>
        (let fill = (\<lambda>key d. if \<not> truthy (dget_py d key) \<and> truthy (dget_py nested key) then dset key (dget_py nested key) d else d)
         in dset ''default'' (py_or (py_or (dget_py nested ''model'') (dget_py nested ''default'')) (JStr []))
              (fill ''model'' (fill ''provider'' d)))
    | _ \<Rightarrow> d)"

definition model_config_for_profile :: "policy_env \<Rightarrow> string \<Rightarrow> dict res" where
  "model_config_for_profile pe name = (case read_profile pe name of
      Inl e \<Rightarrow> Inl e
    | Inr None \<Rightarrow> Inl (PyError ''FileNotFoundError'')
    | Inr (Some (JObj cfg)) \<Rightarrow> Inr (case py_or (dget_py cfg ''model'') (JObj []) of
          JStr s \<Rightarrow> [(''default'', JStr s)]
        | JObj d \<Rightarrow> nested_default d
        | _ \<Rightarrow> [])
    | Inr (Some _) \<Rightarrow> Inl (PyError ''ValueError''))"

datatype backend_kind = Local | Cloud | Unknown

record profile_backend =
  b_profile :: string
  b_provider :: string
  b_model :: string
  b_base_url :: string
  b_kind :: backend_kind

text \<open>A configured URL decides before the provider's name; what cannot be read is unknown.\<close>

definition resolve_profile_backend :: "policy_env \<Rightarrow> string \<Rightarrow> profile_backend res" where
  "resolve_profile_backend pe name = (let profile = py_strip name in
     if profile = [] then Inr \<lparr>b_profile = [], b_provider = [], b_model = [], b_base_url = [], b_kind = Unknown\<rparr>
     else (case model_config_for_profile pe profile of
        Inl e \<Rightarrow> Inr \<lparr>b_profile = profile, b_provider = [], b_model = [], b_base_url = [], b_kind = Unknown\<rparr>
      | Inr cfg \<Rightarrow>
          (let provider = normalized_provider (dget_py cfg ''provider'');
               model = py_strip (or_empty (py_or (dget_py cfg ''default'') (dget_py cfg ''model'')));
               url = normalized_url (dget_py cfg ''base_url'');
               backend = (\<lambda>kind. \<lparr>b_profile = profile, b_provider = provider, b_model = model, b_base_url = url, b_kind = kind\<rparr>)
           in if url \<noteq> [] then map_sum id (\<lambda>l. backend (if l then Local else Cloud)) (base_url_is_local pe url)
              else Inr (backend (if provider_is_local provider then Local else if provider \<noteq> [] then Cloud else Unknown)))))"

section \<open>Policies\<close>

record worker_resource =
  w_name :: string
  w_capacity :: int
  w_assignees :: "string list"
  w_grace :: "rat option"
  w_backend :: string

definition RESOURCE_CONFIG_KEY :: string where
  "RESOURCE_CONFIG_KEY = ''worker_resources''"

definition DEFAULT_STALE_WORKER_GRACE_SECONDS :: json where
  "DEFAULT_STALE_WORKER_GRACE_SECONDS = JFloat ''5.0'' (Some 5)"

definition of_resource :: "string \<Rightarrow> string \<Rightarrow> string" where
  "of_resource name what = ''worker resource '' @ py_repr_str name @ '' '' @ what"

text \<open>\<open>int\<close> and \<open>float\<close> raise \<open>TypeError\<close> or \<open>ValueError\<close> for what is no number; those are turned into the module's error.\<close>

definition no_number :: "string \<Rightarrow> exn + 'a \<Rightarrow> 'a admission" where
  "no_number m r = (case r of Inr x \<Rightarrow> Inr x
     | Inl e \<Rightarrow> if e \<in> {PyError ''TypeError'', PyError ''ValueError''} then refuse m else Inl (Raised e))"

definition policy_capacity :: "string \<Rightarrow> dict \<Rightarrow> int admission" where
  "policy_capacity name spec =
     then_admit (no_number (of_resource name ''capacity must be a positive integer'') (py_int (dget_py spec ''capacity''))) (\<lambda>capacity.
       if capacity < 1 then refuse (of_resource name ''capacity must be >= 1'') else Inr capacity)"

definition policy_assignees :: "string \<Rightarrow> dict \<Rightarrow> string list admission" where
  "policy_assignees name spec =
     then_admit (case dget_or spec ''assignees'' (JArr []) of
         JStr s \<Rightarrow> Inr [JStr s]
       | JArr xs \<Rightarrow> Inr xs
       | _ \<Rightarrow> refuse (of_resource name ''assignees must be a string or list'')) (\<lambda>items.
       (let assignees = filter (\<lambda>s. s \<noteq> []) (map (\<lambda>v. py_strip (py_str v)) items) in
        if assignees = [] then refuse (of_resource name ''requires at least one assignee pattern'') else Inr assignees))"

text \<open>Not-a-number passes both comparisons.\<close>

definition policy_grace :: "policy_env \<Rightarrow> string \<Rightarrow> dict \<Rightarrow> rat option admission" where
  "policy_grace pe name spec =
     then_admit (no_number (of_resource name ''stale_worker_grace_seconds must be numeric'')
         (float_of pe (dget_or spec ''stale_worker_grace_seconds'' DEFAULT_STALE_WORKER_GRACE_SECONDS))) (\<lambda>grace.
       case grace of
         Finite x \<Rightarrow> if x < 0 \<or> 60 < x then refuse (of_resource name ''stale_worker_grace_seconds must be between 0 and 60'') else Inr (Some x)
       | Infinite _ \<Rightarrow> refuse (of_resource name ''stale_worker_grace_seconds must be between 0 and 60'')
       | NotANumber \<Rightarrow> Inr None)"

definition resource_policy :: "policy_env \<Rightarrow> string \<times> json \<Rightarrow> worker_resource option admission" where
  "resource_policy pe entry = (let (raw_name, raw_spec) = entry; name = py_strip raw_name in
     if name = [] then refuse ''worker resource name must be non-empty''
     else (case raw_spec of
         JObj spec \<Rightarrow>
           if dget_or spec ''enabled'' (JBool True) = JBool False then Inr None
           else then_admit (policy_capacity name spec) (\<lambda>capacity.
             then_admit (policy_assignees name spec) (\<lambda>assignees.
             then_admit (policy_grace pe name spec) (\<lambda>grace.
               Inr (Some \<lparr>w_name = name, w_capacity = capacity, w_assignees = assignees, w_grace = grace, w_backend = ''any''\<rparr>))))
       | _ \<Rightarrow> refuse (of_resource name ''must be a mapping'')))"

definition resource_policies :: "policy_env \<Rightarrow> dict \<Rightarrow> worker_resource list admission" where
  "resource_policies pe cfg = (case dget_py cfg RESOURCE_CONFIG_KEY of
      JNull \<Rightarrow> Inr []
    | JObj raw \<Rightarrow> then_admit (admit_all (resource_policy pe) raw) (\<lambda>ps. Inr (List.map_filter id ps))
    | _ \<Rightarrow> refuse (''kanban.'' @ RESOURCE_CONFIG_KEY @ '' must be a mapping''))"

text \<open>The selector is looked up under the stripped name.\<close>

definition policy_backend :: "dict \<Rightarrow> worker_resource \<Rightarrow> worker_resource admission" where
  "policy_backend raw policy =
     (let selector = (case dget_or raw (w_name policy) (JObj []) of
            JObj spec \<Rightarrow> py_lower (py_strip (py_str (py_or (dget_py spec ''backend'') (JStr ''any''))))
          | _ \<Rightarrow> ''any'');
          selector = (if selector = [] then ''any'' else selector) in
      if selector \<notin> {''any'', ''*'', ''local'', ''cloud''}
      then refuse (of_resource (w_name policy) (''backend must be 'any', 'local', or 'cloud'' @ [CHR 0x27]))
      else Inr (policy\<lparr>w_backend := selector\<rparr>))"

definition dynamic_policies :: "policy_env \<Rightarrow> dict \<Rightarrow> worker_resource list admission" where
  "dynamic_policies pe cfg = then_admit (resource_policies pe cfg)
     (admit_all (policy_backend (obj_of (dget_py cfg RESOURCE_CONFIG_KEY))))"

section \<open>The resource of an assignee\<close>

definition backend_matches :: "policy_env \<Rightarrow> string \<Rightarrow> string \<Rightarrow> bool admission" where
  "backend_matches pe selector assignee =
     (let selector = py_lower (py_strip (if selector = [] then ''any'' else selector));
          selector = (if selector = [] then ''any'' else selector) in
      if selector \<in> {''any'', ''*''} then Inr True
      else (case resolve_profile_backend pe assignee of
          Inl e \<Rightarrow> Inl (Raised e)
        | Inr backend \<Rightarrow>
            if selector = ''local'' then Inr (b_kind backend \<in> {Local, Unknown})
            else if selector = ''cloud'' then Inr (b_kind backend = Cloud)
            else Inl (Raised (PyError ''ValueError''))))"

definition resource_matches :: "policy_env \<Rightarrow> worker_resource \<Rightarrow> string \<Rightarrow> bool admission" where
  "resource_matches pe policy assignee = (let name = py_strip assignee in
     if name = [] \<or> \<not> list_ex (\<lambda>pattern. fnmatch pattern name) (w_assignees policy) then Inr False
     else backend_matches pe (w_backend policy) name)"

text \<open>The policies that match; one that raises ends the search.\<close>

definition matching_policies :: "policy_env \<Rightarrow> string \<Rightarrow> worker_resource list \<Rightarrow> worker_resource list admission" where
  "matching_policies pe name policies =
     then_admit (admit_all (\<lambda>policy. then_admit (resource_matches pe policy name) (\<lambda>b. Inr (policy, b))) policies) (\<lambda>judged.
       Inr (map fst (filter snd judged)))"

definition resource_for_assignee :: "policy_env \<Rightarrow> dict \<Rightarrow> string option \<Rightarrow> worker_resource option admission" where
  "resource_for_assignee pe cfg assignee = (let name = py_strip (case assignee of None \<Rightarrow> [] | Some s \<Rightarrow> s) in
     if name = [] then Inr None
     else then_admit (dynamic_policies pe cfg) (\<lambda>policies.
       then_admit (matching_policies pe name policies) (\<lambda>found. case found of
           [] \<Rightarrow> Inr None
         | [policy] \<Rightarrow> Inr (Some policy)
         | _ \<Rightarrow> refuse (''assignee '' @ py_repr_str name @ '' matches multiple worker resources: '' @
             join_with '', '' (sort (map w_name found))))))"

end
