(* ===== verification/ResourceSlots.thy ===== *)
theory ResourceSlots
  imports ResourcePolicy EdgeStore
begin

text \<open>
  The slots of a worker resource (edge/kanban_resource_admission.py, edge/kanban_dynamic_resource_core.py):
  which processes are workers, which slots of a resource are taken on the boards of the host, and how a
  worker whose run is over is stopped before its card is claimed again. Other processes change the host between
  any two looks at it.
\<close>

section \<open>The host\<close>

datatype kill_reply = Reached | NoSuchProcess | NotPermitted | OtherOsError string

datatype 'a os_read = Content 'a | Missing | Unreadable

datatype signal = SIGTERM | SIGKILL

text \<open>
  What can be seen: the databases by path (an error of sqlite, or the board), and for each pid the answer to
  signal 0, its status file and command line in /proc, and its process group. Held locks are those of the lock files.
\<close>

record host =
  h_db :: "string \<Rightarrow> string + board"
  h_kill0 :: "int \<Rightarrow> kill_reply"
  h_status :: "int \<Rightarrow> string os_read"
  h_cmdline :: "int \<Rightarrow> string os_read"
  h_group :: "int \<Rightarrow> int + kill_reply"
  h_locks :: "string list"

text \<open>The monotonic clock in seconds, the looks taken so far, signals sent and diagnostics kept.\<close>

record 'h admission_world =
  a_host :: 'h
  a_looks :: nat
  a_now :: rat
  a_signals :: "(signal \<times> int \<times> bool) list"
  a_outcomes :: "dict list"

text \<open>
  Outside the model: the profiles' configuration, what others do before each look and how many microseconds pass,
  the effect of a signal to a process or its group, the files of the boards.
\<close>

record board_files =
  f_db_path :: "string \<Rightarrow> exn + string"
  f_boards_root :: "exn + string"
  f_default_root :: "string \<Rightarrow> string"
  f_glob :: "string \<Rightarrow> exn + string list"
  f_is_file :: "string \<Rightarrow> bool"
  f_parent :: "string \<Rightarrow> string"
  f_size :: "string \<Rightarrow> nat option"
  f_resolve :: "string \<Rightarrow> string"

record admission_env =
  e_policy :: policy_env
  e_linux :: bool
  e_files :: board_files
  e_others :: "nat \<Rightarrow> host \<Rightarrow> host"
  e_passed :: "nat \<Rightarrow> nat"
  e_signal :: "signal \<Rightarrow> int \<Rightarrow> bool \<Rightarrow> host \<Rightarrow> kill_reply \<times> host"

type_synonym world = "host admission_world"

definition look :: "admission_env \<Rightarrow> world \<Rightarrow> world" where
  "look env w = w\<lparr>a_host := e_others env (a_looks w) (a_host w), a_looks := a_looks w + 1,
     a_now := a_now w + of_nat (e_passed env (a_looks w)) / 1000000\<rparr>"

section \<open>Processes\<close>

definition zombie_line :: "string \<Rightarrow> bool" where
  "zombie_line l \<longleftrightarrow> starts_with l ''State:'' \<and> CHR ''Z'' \<in> set (after_char CHR '':'' l)"

definition pid_alive :: "bool \<Rightarrow> host \<Rightarrow> int option \<Rightarrow> bool" where
  "pid_alive linux h pid = (case pid of None \<Rightarrow> False
     | Some v \<Rightarrow> 0 < v \<and> (case h_kill0 h v of
           NoSuchProcess \<Rightarrow> False
         | NotPermitted \<Rightarrow> True
         | OtherOsError _ \<Rightarrow> False
         | Reached \<Rightarrow> \<not> linux \<or> (case h_status h v of
               Missing \<Rightarrow> False
             | Unreadable \<Rightarrow> True
             | Content s \<Rightarrow> \<not> list_ex zombie_line (splitlines s))))"

text \<open>The command line names the card and Hermes; none when it cannot be read.\<close>

definition worker_identity :: "bool \<Rightarrow> host \<Rightarrow> int \<Rightarrow> string \<Rightarrow> bool option" where
  "worker_identity linux h pid task_id =
     (if \<not> linux then None
      else (case h_cmdline h pid of
          Missing \<Rightarrow> Some False
        | Unreadable \<Rightarrow> None
        | Content raw \<Rightarrow> (let command = map (\<lambda>c. if code c = 0 then CHR '' '' else c) raw in
            Some (contains task_id command \<and> contains ''hermes'' (casefold command)))))"

section \<open>Stopping a worker\<close>

definition probe :: "admission_env \<Rightarrow> int \<Rightarrow> world \<Rightarrow> bool \<times> world" where
  "probe env pid w = (let w = look env w in (pid_alive (e_linux env) (a_host w) (Some pid), w))"

text \<open>To the group only when the process leads it; a process that is gone is no error.\<close>

definition os_failure :: "kill_reply \<Rightarrow> unit admission" where
  "os_failure r = (case r of Reached \<Rightarrow> Inr () | NoSuchProcess \<Rightarrow> Inr ()
     | NotPermitted \<Rightarrow> Inl (OsError ''PermissionError'') | OtherOsError m \<Rightarrow> Inl (OsError m))"

definition send_signal :: "admission_env \<Rightarrow> signal \<Rightarrow> int \<Rightarrow> world \<Rightarrow> unit admission \<times> world" where
  "send_signal env sig pid w = (let w = look env w in case h_group (a_host w) pid of
      Inr failed \<Rightarrow> (os_failure failed, w)
    | Inl pgid \<Rightarrow> (let (reply, h) = e_signal env sig pid (pgid = pid) (a_host w) in
        (os_failure reply, w\<lparr>a_host := h, a_signals := a_signals w @ [(sig, pid, pgid = pid)]\<rparr>)))"

fun poll_seconds :: "signal \<Rightarrow> rat" where
  "poll_seconds SIGTERM = 1 / 10"
| "poll_seconds SIGKILL = 1 / 20"

definition sleep :: "rat \<Rightarrow> world \<Rightarrow> world" where
  "sleep seconds w = w\<lparr>a_now := a_now w + seconds\<rparr>"

lemma look_later: "a_now w \<le> a_now (look env w)"
  by (simp add: look_def)

lemma poll_positive: "1 / 20 \<le> poll_seconds sig"
  by (cases sig) auto

function wait_gone :: "admission_env \<Rightarrow> signal \<Rightarrow> rat \<Rightarrow> int \<Rightarrow> world \<Rightarrow> world" where
  "wait_gone env sig deadline pid w = (let (alive, w) = probe env pid w in
     if alive \<and> a_now w < deadline then wait_gone env sig deadline pid (sleep (poll_seconds sig) w) else w)"
  by pat_completeness auto

termination
proof (relation "measure (\<lambda>(env, sig, deadline, pid, w). nat \<lceil>(deadline - a_now w) * 20\<rceil>)", goal_cases)
  case (2 env sig deadline pid w x alive w')
  then have now: "a_now w \<le> a_now w'" "a_now w' < deadline"
    using look_later [of w env] by (auto simp: probe_def Let_def)
  have "(deadline - (a_now w' + poll_seconds sig)) * 20 \<le> (deadline - a_now w) * 20 - 1"
    using now(1) poll_positive [of sig] by simp
  then have "\<lceil>(deadline - (a_now w' + poll_seconds sig)) * 20\<rceil> \<le> \<lceil>(deadline - a_now w) * 20\<rceil> - 1"
    by (metis ceiling_diff_one ceiling_mono)
  moreover have "0 < \<lceil>(deadline - a_now w) * 20\<rceil>" using now by simp
  ultimately show ?case by (simp add: sleep_def)
qed simp

declare wait_gone.simps [simp del]

definition terminate_verified_worker :: "admission_env \<Rightarrow> int \<Rightarrow> rat option \<Rightarrow> world \<Rightarrow> bool admission \<times> world" where
  "terminate_verified_worker env pid grace w =
     (case send_signal env SIGTERM pid w of
        (Inl e, w) \<Rightarrow> (Inl e, w)
      | (Inr _, w) \<Rightarrow>
          (let seconds = (case grace of Some x \<Rightarrow> max 0 x | None \<Rightarrow> 0);
               w = look env w;
               w = wait_gone env SIGTERM (a_now w + seconds) pid w;
               (alive, w) = probe env pid w
           in if \<not> alive then (let (alive, w) = probe env pid w in (Inr (\<not> alive), w))
              else (case send_signal env SIGKILL pid w of
                  (Inl e, w) \<Rightarrow> (Inl e, w)
                | (Inr _, w) \<Rightarrow>
                    (let w = look env w;
                         w = wait_gone env SIGKILL (a_now w + 1) pid w;
                         (alive, w) = probe env pid w
                     in (Inr (\<not> alive), w)))))"

section \<open>The worker of an earlier run\<close>

definition latest_task_run :: "board \<Rightarrow> string \<Rightarrow> run option" where
  "latest_task_run b task_id = (case rev (sort_key run_id (filter (\<lambda>r. run_task r = task_id \<and> run_pid r \<noteq> None) (task_runs b))) of
      [] \<Rightarrow> None | r # _ \<Rightarrow> Some r)"

text \<open>No worker, a pid that is another's now, one that was stopped, or a reason to stop here.\<close>

datatype quiesced = Quiet | PidReused int int | Reaped int int "string option" | Stopped string int int

definition quiesce_superseded_worker ::
  "admission_env \<Rightarrow> string \<Rightarrow> string \<Rightarrow> rat option \<Rightarrow> world \<Rightarrow> quiesced admission \<times> world" where
  "quiesce_superseded_worker env path task_id grace w =
     (let w = look env w in case h_db (a_host w) path of
        Inl m \<Rightarrow> (refuse (''could not inspect prior run for '' @ task_id @ '': '' @ m), w)
      | Inr b \<Rightarrow> (case latest_task_run b task_id of
          None \<Rightarrow> (Inr Quiet, w)
        | Some r \<Rightarrow> (case run_pid r of
            None \<Rightarrow> (Inr Quiet, w)
          | Some pid \<Rightarrow>
              (let (alive, w) = probe env pid w in
               if \<not> alive then (Inr Quiet, w)
               else if run_ended r = None then (Inr (Stopped ''task_worker_active'' (run_id r) pid), w)
               else (let w = look env w in case worker_identity (e_linux env) (a_host w) pid task_id of
                   Some False \<Rightarrow> (Inr (PidReused (run_id r) pid), w)
                 | None \<Rightarrow> (Inr (Stopped ''superseded_worker_identity_unverified'' (run_id r) pid), w)
                 | Some True \<Rightarrow> (case terminate_verified_worker env pid grace w of
                     (Inl e, w) \<Rightarrow> (Inl e, w)
                   | (Inr False, w) \<Rightarrow> (Inr (Stopped ''superseded_worker_reap_failed'' (run_id r) pid), w)
                   | (Inr True, w) \<Rightarrow> (Inr (Reaped (run_id r) pid (run_outcome r)), w)))))))"

end
