(* ===== verification/ResourceAdmission.thy ===== *)
theory ResourceAdmission
  imports ResourceSlots RepoRegistry
begin

text \<open>
  Admission of a worker to its resource (edge/kanban_resource_admission.py,
  edge/kanban_dynamic_resource_core.py): the databases of all boards, the slots taken in them, the lock of the
  host, and the two gates, one around the core's claim of a card and one around the edge's dispatch of rework.
\<close>

section \<open>The databases of the boards\<close>

definition board_db_is_enumerable :: "board_files \<Rightarrow> string \<Rightarrow> bool" where
  "board_db_is_enumerable fs path \<longleftrightarrow> \<not> starts_with (f_parent fs path) ''_'' \<and>
     (case f_size fs path of None \<Rightarrow> False | Some n \<Rightarrow> n \<noteq> 0)"

definition board_candidates :: "board_files \<Rightarrow> string list \<Rightarrow> string list" where
  "board_candidates fs = filter (\<lambda>path. f_is_file fs path \<and> board_db_is_enumerable fs path)"

text \<open>Any error of the listing falls back to the directory of the default database.\<close>

definition listed_boards :: "board_files \<Rightarrow> string \<Rightarrow> string list admission" where
  "listed_boards fs default_db =
     (case (case f_boards_root fs of Inl e \<Rightarrow> Inl e | Inr dir \<Rightarrow> f_glob fs dir) of
        Inr paths \<Rightarrow> Inr (board_candidates fs paths)
      | Inl _ \<Rightarrow> (case f_glob fs (f_default_root fs default_db) of
          Inl e \<Rightarrow> Inl (Raised e)
        | Inr paths \<Rightarrow> Inr (board_candidates fs paths)))"

definition first_occurrences :: "'a list \<Rightarrow> 'a list" where
  "first_occurrences xs = rev (remdups (rev xs))"

definition all_board_db_paths :: "board_files \<Rightarrow> string \<Rightarrow> string list admission" where
  "all_board_db_paths fs board = (case f_db_path fs board of
      Inl e \<Rightarrow> Inl (Raised e)
    | Inr current \<Rightarrow>
        (let default_db = (case f_db_path fs ''default'' of Inr p \<Rightarrow> p | Inl _ \<Rightarrow> current) in
         then_admit (listed_boards fs default_db) (\<lambda>listed.
           Inr (first_occurrences (map (f_resolve fs) (filter (f_is_file fs) ([default_db] @ listed @ [current])))))))"

section \<open>Slots in use\<close>

record slot =
  s_db :: string
  s_task :: string
  s_run :: "int option"
  s_assignee :: string
  s_pid :: "int option"
  s_terminal :: bool
  s_verified :: bool

definition text_or :: "string option \<Rightarrow> string option \<Rightarrow> string option" where
  "text_or a b = (case a of None \<Rightarrow> b | Some s \<Rightarrow> if s = [] then b else a)"

definition assignee_matches :: "policy_env \<Rightarrow> worker_resource \<Rightarrow> string option \<Rightarrow> bool admission" where
  "assignee_matches pe resource v = (let name = py_strip (case v of None \<Rightarrow> [] | Some s \<Rightarrow> s) in
     if name = [] then Inr False else resource_matches pe resource name)"

text \<open>Every live worker of a run counts once, whether its run is over or not, unless its pid is another's.\<close>

definition run_slot :: "admission_env \<Rightarrow> worker_resource \<Rightarrow> string \<Rightarrow> host \<Rightarrow> board \<Rightarrow> run \<Rightarrow> int list \<Rightarrow> slot option admission" where
  "run_slot env resource path h b r seen_pids =
     (let assignee = text_or (run_profile r) (case task_row (run_task r) b of None \<Rightarrow> None | Some t \<Rightarrow> t_assignee t) in
      then_admit (assignee_matches (e_policy env) resource assignee) (\<lambda>ok.
        Inr (case run_pid r of
            None \<Rightarrow> None
          | Some pid \<Rightarrow>
              if \<not> ok \<or> pid \<in> set seen_pids \<or> \<not> pid_alive (e_linux env) h (Some pid) \<or>
                worker_identity (e_linux env) h pid (run_task r) = Some False
              then None
              else Some \<lparr>s_db = path, s_task = run_task r, s_run = Some (run_id r),
                s_assignee = (case assignee of None \<Rightarrow> ''None'' | Some s \<Rightarrow> s), s_pid = Some pid,
                s_terminal = (run_ended r \<noteq> None),
                s_verified = (worker_identity (e_linux env) h pid (run_task r) = Some True)\<rparr>)))"

text \<open>A running card without a pid is a reservation; one with a pid counts unless the pid was counted.\<close>

definition task_slot :: "admission_env \<Rightarrow> worker_resource \<Rightarrow> string \<Rightarrow> host \<Rightarrow> task \<Rightarrow> int list \<Rightarrow> slot option admission" where
  "task_slot env resource path h t seen_pids =
     then_admit (assignee_matches (e_policy env) resource (t_assignee t)) (\<lambda>ok.
       Inr (if \<not> ok then None
         else (let entry = \<lparr>s_db = path, s_task = t_id t, s_run = t_current_run t,
               s_assignee = (case t_assignee t of None \<Rightarrow> ''None'' | Some s \<Rightarrow> s), s_pid = t_worker_pid t, s_terminal = False,
               s_verified = (case t_worker_pid t of None \<Rightarrow> False
                 | Some pid \<Rightarrow> worker_identity (e_linux env) h pid (t_id t) = Some True)\<rparr>
           in case t_worker_pid t of
             None \<Rightarrow> Some entry
           | Some pid \<Rightarrow> if pid \<in> set seen_pids \<or> \<not> pid_alive (e_linux env) h (Some pid) then None else Some entry)))"

definition pids_of :: "slot list \<Rightarrow> int list" where
  "pids_of slots = List.map_filter s_pid slots"

text \<open>The rows in order, each with the slots counted so far.\<close>

fun add_slots :: "('a \<Rightarrow> int list \<Rightarrow> slot option admission) \<Rightarrow> 'a list \<Rightarrow> slot list \<Rightarrow> slot list admission" where
  "add_slots f [] slots = Inr slots"
| "add_slots f (x # xs) slots = then_admit (f x (pids_of slots)) (\<lambda>found.
     add_slots f xs (case found of None \<Rightarrow> slots | Some s \<Rightarrow> slots @ [s]))"

definition worker_runs :: "board \<Rightarrow> run list" where
  "worker_runs b = rev (sort_key run_id (filter (\<lambda>r. run_pid r \<noteq> None) (task_runs b)))"

definition running_tasks :: "board \<Rightarrow> task list" where
  "running_tasks b = filter (\<lambda>t. t_status t = ''running'') (tasks b)"

definition uninspected :: "worker_resource \<Rightarrow> string \<Rightarrow> string \<Rightarrow> 'a admission" where
  "uninspected resource path m =
     refuse (''could not inspect worker resource '' @ py_repr_str (w_name resource) @ '' in '' @ path @ '': '' @ m)"

text \<open>One database, its runs and then its running cards, as one look sees it.\<close>

definition slots_in :: "admission_env \<Rightarrow> worker_resource \<Rightarrow> string \<Rightarrow> host \<Rightarrow> slot list \<Rightarrow> slot list admission" where
  "slots_in env resource path h slots = (case h_db h path of
      Inl m \<Rightarrow> uninspected resource path m
    | Inr b \<Rightarrow> then_admit (add_slots (run_slot env resource path h b) (worker_runs b) slots)
        (add_slots (task_slot env resource path h) (running_tasks b)))"

definition board_slots :: "admission_env \<Rightarrow> worker_resource \<Rightarrow> string \<Rightarrow> slot list \<Rightarrow> world \<Rightarrow> slot list admission \<times> world" where
  "board_slots env resource path slots w = (let w = look env w in (slots_in env resource path (a_host w) slots, w))"

fun scan_boards :: "admission_env \<Rightarrow> worker_resource \<Rightarrow> string list \<Rightarrow> slot list \<Rightarrow> world \<Rightarrow> slot list admission \<times> world" where
  "scan_boards env resource [] slots w = (Inr slots, w)"
| "scan_boards env resource (path # paths) slots w = (case board_slots env resource path slots w of
      (Inl e, w) \<Rightarrow> (Inl e, w)
    | (Inr slots, w) \<Rightarrow> scan_boards env resource paths slots w)"

definition active_resource_workers :: "admission_env \<Rightarrow> string \<Rightarrow> worker_resource \<Rightarrow> world \<Rightarrow> slot list admission \<times> world" where
  "active_resource_workers env board resource w = (case all_board_db_paths (e_files env) board of
      Inl e \<Rightarrow> (Inl e, w)
    | Inr paths \<Rightarrow> scan_boards env resource paths [] w)"

section \<open>Diagnostics\<close>

definition RESOURCE_OUTCOME_LIMIT :: int where
  "RESOURCE_OUTCOME_LIMIT = 128"

definition record_resource_admission_outcome ::
  "string option \<Rightarrow> string option \<Rightarrow> string option \<Rightarrow> string \<Rightarrow> string \<Rightarrow> nat option \<Rightarrow> int option \<Rightarrow> world \<Rightarrow> world" where
  "record_resource_admission_outcome task_id board pool reason lane active capacity w =
     w\<lparr>a_outcomes := last_n RESOURCE_OUTCOME_LIMIT (a_outcomes w @ [
       [(''task_id'', opt_str task_id), (''board'', opt_str board), (''resource_group'', opt_str pool), (''reason'', JStr reason)] @
       (if lane = [] then [] else [(''lane'', JStr lane)]) @
       (case active of None \<Rightarrow> [] | Some n \<Rightarrow> [(''resource_active'', JInt (int n))]) @
       (case capacity of None \<Rightarrow> [] | Some c \<Rightarrow> [(''resource_capacity'', JInt c)])])\<rparr>"

end
