(* ===== verification/ResourceGates.thy ===== *)
theory ResourceGates
  imports ResourceAdmission
begin

text \<open>
  The gates of resource admission: around the core's claim of a ready or review card
  (edge/kanban_dynamic_resource_core.py), and around the edge's dispatch of a reworked card
  (edge/kanban_resource_admission.py). The claim and the dispatch themselves are parameters.
\<close>

section \<open>The lock of the host\<close>

text \<open>Outside the model: Hermes' home directory, its configuration, its list of boards, the lock files.\<close>

record gate_env = admission_env +
  g_home :: "exn + string"
  g_config :: "exn + json"
  g_lock_file :: "string \<Rightarrow> string"
  g_lock_error :: "string \<Rightarrow> refusal option"
  g_current_board :: "exn + string"
  g_boards :: "exn + json list"
  g_name :: "string \<Rightarrow> string"
  g_grandparent :: "string \<Rightarrow> string"

definition plain_env :: "gate_env \<Rightarrow> admission_env" where
  "plain_env g = admission_env.truncate g"

text \<open>Whether there is a place for the lock file.\<close>

definition lock_place :: "gate_env \<Rightarrow> string \<Rightarrow> bool admission" where
  "lock_place g board = (case g_home g of
      Inr _ \<Rightarrow> Inr True
    | Inl _ \<Rightarrow> then_admit (all_board_db_paths (e_files g) board) (\<lambda>paths. Inr (paths \<noteq> [])))"

text \<open>The body runs with or without the lock; the lock is given back however the body ends.\<close>

definition with_resource_lock ::
  "gate_env \<Rightarrow> string \<Rightarrow> string \<Rightarrow> (bool \<Rightarrow> world \<Rightarrow> 'a admission \<times> world) \<Rightarrow> world \<Rightarrow> 'a admission \<times> world" where
  "with_resource_lock g board name body w = (case lock_place g board of
      Inl e \<Rightarrow> (Inl e, w)
    | Inr False \<Rightarrow> body False w
    | Inr True \<Rightarrow> (case g_lock_error g name of
        Some e \<Rightarrow> (Inl e, w)
      | None \<Rightarrow>
          (let w = look (plain_env g) w; key = g_lock_file g name in
           if key \<in> set (h_locks (a_host w)) then body False w
           else (let (r, w) = body True (w\<lparr>a_host := (a_host w)\<lparr>h_locks := key # h_locks (a_host w)\<rparr>\<rparr>)
             in (r, w\<lparr>a_host := (a_host w)\<lparr>h_locks := remove1 key (h_locks (a_host w))\<rparr>\<rparr>)))))"

section \<open>What a claim is about\<close>

definition load_kanban_cfg :: "gate_env \<Rightarrow> dict res" where
  "load_kanban_cfg g = (case g_config g of
      Inl e \<Rightarrow> Inl e
    | Inr v \<Rightarrow> Inr (case py_or v (JObj []) of
          JObj cfg \<Rightarrow> obj_of (py_or (dget_py cfg ''kanban'') (JObj []))
        | _ \<Rightarrow> []))"

text \<open>The connection: the database it reads, and the file it names when asked.\<close>

record connection =
  c_path :: string
  c_file :: "string option"

definition row_assignee :: "gate_env \<Rightarrow> connection \<Rightarrow> string \<Rightarrow> dict \<Rightarrow> world \<Rightarrow> string option \<times> world" where
  "row_assignee g conn task_id cfg w = (let w = look (plain_env g) w in
     (case h_db (a_host w) (c_path conn) of
        Inl _ \<Rightarrow> None
      | Inr b \<Rightarrow> (case task_row task_id b of
          None \<Rightarrow> None
        | Some t \<Rightarrow> (let assignee = py_strip (case t_assignee t of None \<Rightarrow> [] | Some s \<Rightarrow> s);
              fallback = py_strip (or_empty (dget_py cfg ''default_assignee''))
            in if assignee \<noteq> [] then Some assignee else if fallback \<noteq> [] then Some fallback else None)), w))"

text \<open>The board whose database the connection has; a listing that raises leaves it to the layout.\<close>

fun board_with_path :: "board_files \<Rightarrow> string \<Rightarrow> json list \<Rightarrow> string option" where
  "board_with_path fs current [] = None"
| "board_with_path fs current (JObj d # rest) =
     (let slug = py_strip (or_empty (dget_py d ''slug'')) in
      if slug = [] then board_with_path fs current rest
      else if f_db_path fs slug = Inr current then Some slug
      else board_with_path fs current rest)"
| "board_with_path fs current (v # rest) = None"

definition board_for_connection :: "gate_env \<Rightarrow> connection \<Rightarrow> string" where
  "board_for_connection g conn = (case c_file conn of
      None \<Rightarrow> (case g_current_board g of Inr b \<Rightarrow> b | Inl _ \<Rightarrow> ''default'')
    | Some current \<Rightarrow>
        if f_db_path (e_files g) ''default'' = Inr current then ''default''
        else (case (case g_boards g of Inl _ \<Rightarrow> None | Inr metas \<Rightarrow> board_with_path (e_files g) current metas) of
            Some slug \<Rightarrow> slug
          | None \<Rightarrow> if g_name g current = ''kanban.db'' \<and> g_grandparent g current = ''boards''
              then f_parent (e_files g) current else ''default''))"

section \<open>The gate of a claim\<close>

definition note_claim :: "string option \<Rightarrow> string \<Rightarrow> string \<Rightarrow> worker_resource option \<Rightarrow> string \<Rightarrow> nat option \<Rightarrow> world \<Rightarrow> world" where
  "note_claim board lane task_id resource reason active =
     record_resource_admission_outcome (Some task_id) board (map_option w_name resource) reason lane active (map_option w_capacity resource)"

type_synonym 'c claim_call = "host \<Rightarrow> 'c option admission \<times> host"

definition gate_claim :: "gate_env \<Rightarrow> 'c claim_call \<Rightarrow> world \<Rightarrow> 'c option admission \<times> world" where
  "gate_claim g claim w = (let w = look (plain_env g) w; (r, h) = claim (a_host w) in (r, w\<lparr>a_host := h\<rparr>))"

text \<open>The count of the slots and the claim, in the lock.\<close>

definition claim_if_free ::
  "gate_env \<Rightarrow> string \<Rightarrow> string \<Rightarrow> string \<Rightarrow> worker_resource \<Rightarrow> 'c claim_call \<Rightarrow> world \<Rightarrow> 'c option admission \<times> world" where
  "claim_if_free g board lane task_id resource claim w =
     (case active_resource_workers (plain_env g) board resource w of
        (Inl e, w) \<Rightarrow> (Inl e, w)
      | (Inr active, w) \<Rightarrow>
          if w_capacity resource \<le> int (length active)
          then (Inr None, note_claim (Some board) lane task_id (Some resource) ''resource_busy'' (Some (length active)) w)
          else (case gate_claim g claim w of
              (Inr (Some c), w) \<Rightarrow> (Inr (Some c), note_claim (Some board) lane task_id (Some resource) ''resource_admitted'' None w)
            | r \<Rightarrow> r))"

definition claim_under_lock ::
  "gate_env \<Rightarrow> connection \<Rightarrow> string \<Rightarrow> string \<Rightarrow> string \<Rightarrow> worker_resource \<Rightarrow> 'c claim_call \<Rightarrow> bool \<Rightarrow> world \<Rightarrow> 'c option admission \<times> world" where
  "claim_under_lock g conn board lane task_id resource claim held w =
     (let note = note_claim (Some board) lane task_id (Some resource) in
      if \<not> held then (Inr None, note ''resource_locked'' None w)
      else (case quiesce_superseded_worker (plain_env g) (c_path conn) task_id (w_grace resource) w of
          (Inl e, w) \<Rightarrow> (Inl e, w)
        | (Inr (Stopped reason _ _), w) \<Rightarrow> (Inr None, note reason None w)
        | (Inr (Reaped _ _ _), w) \<Rightarrow>
            claim_if_free g board lane task_id resource claim (note ''superseded_worker_reaped'' None w)
        | (Inr _, w) \<Rightarrow> claim_if_free g board lane task_id resource claim w))"

definition guarded_claim ::
  "gate_env \<Rightarrow> connection \<Rightarrow> string \<Rightarrow> string \<Rightarrow> 'c claim_call \<Rightarrow> world \<Rightarrow> 'c option admission \<times> world" where
  "guarded_claim g conn lane task_id claim w =
     (case load_kanban_cfg g of
        Inl _ \<Rightarrow> (Inr None, note_claim None lane task_id None ''resource_config_invalid'' None w)
      | Inr cfg \<Rightarrow>
          (let (assignee, w) = row_assignee g conn task_id cfg w in
           case resource_for_assignee (e_policy g) cfg assignee of
             Inl _ \<Rightarrow> (Inr None, note_claim None lane task_id None ''resource_config_invalid'' None w)
           | Inr None \<Rightarrow> gate_claim g claim w
           | Inr (Some resource) \<Rightarrow>
               (let board = board_for_connection g conn in
                case with_resource_lock g board (w_name resource)
                    (claim_under_lock g conn board lane task_id resource claim) w of
                  (Inl _, w) \<Rightarrow> (Inr None, note_claim (Some board) lane task_id (Some resource) ''resource_admission_failed'' None w)
                | r \<Rightarrow> r)))"

section \<open>The gate of a rework dispatch\<close>

definition slot_json :: "slot \<Rightarrow> json" where
  "slot_json s = JObj ([(''board_db'', JStr (s_db s)), (''task_id'', JStr (s_task s)),
     (''run_id'', case s_run s of None \<Rightarrow> JNull | Some i \<Rightarrow> JInt i), (''assignee'', JStr (s_assignee s)),
     (''pid'', case s_pid s of None \<Rightarrow> JNull | Some i \<Rightarrow> JInt i), (''terminal'', JBool (s_terminal s)),
     (''identity_verified'', JBool (s_verified s))] @
     (if s_pid s = None then [(''reservation'', JBool True)] else []))"

definition admission_entry ::
  "string \<Rightarrow> string \<Rightarrow> worker_resource \<Rightarrow> string \<Rightarrow> nat option \<Rightarrow> dict \<Rightarrow> world \<Rightarrow> json list \<times> world" where
  "admission_entry task_id reason resource board active extra w =
     ([JObj ([(''task_id'', JStr task_id), (''status'', if task_id = [] then JNull else JStr ''ready''), (''changed'', JBool False),
        (''reason'', JStr reason), (''board'', JStr board), (''resource_group'', JStr (w_name resource)),
        (''resource_capacity'', JInt (w_capacity resource))] @ extra)],
      record_resource_admission_outcome (Some task_id) (Some board) (Some (w_name resource)) reason ''rework'' active
        (Some (w_capacity resource)) w)"

text \<open>The original dispatch, for all pending cards or for one; what it replies names the resource.\<close>

type_synonym dispatch = "string option \<Rightarrow> host \<Rightarrow> json list admission \<times> host"

definition core_dispatch :: "gate_env \<Rightarrow> dispatch \<Rightarrow> string option \<Rightarrow> world \<Rightarrow> json list admission \<times> world" where
  "core_dispatch g original only w = (let w = look (plain_env g) w; (r, h) = original only (a_host w) in (r, w\<lparr>a_host := h\<rparr>))"

definition setdefault :: "string \<Rightarrow> json \<Rightarrow> dict \<Rightarrow> dict" where
  "setdefault key v d = (case dget d key of None \<Rightarrow> d @ [(key, v)] | Some _ \<Rightarrow> d)"

definition name_resource :: "worker_resource \<Rightarrow> quiesced \<Rightarrow> json \<Rightarrow> json" where
  "name_resource resource reap item = (case item of
      JObj d \<Rightarrow> (let d = setdefault ''resource_capacity'' (JInt (w_capacity resource)) (setdefault ''resource_group'' (JStr (w_name resource)) d) in
        JObj (case reap of
          Reaped run_no pid outcome \<Rightarrow> setdefault ''superseded_run_reaped''
            (JObj [(''run_id'', JInt run_no), (''pid'', JInt pid), (''outcome'', opt_str outcome)]) d
        | _ \<Rightarrow> d))
    | _ \<Rightarrow> item)"

definition dispatch_if_free ::
  "gate_env \<Rightarrow> string \<Rightarrow> string \<Rightarrow> worker_resource \<Rightarrow> dispatch \<Rightarrow> quiesced \<Rightarrow> world \<Rightarrow> json list admission \<times> world" where
  "dispatch_if_free g board task_id resource original reap w =
     (case active_resource_workers (plain_env g) board resource w of
        (Inl e, w) \<Rightarrow> (Inl e, w)
      | (Inr active, w) \<Rightarrow>
          if w_capacity resource \<le> int (length active)
          then (let (r, w) = admission_entry task_id ''resource_busy'' resource board (Some (length active))
              [(''resource_active'', JInt (int (length active))), (''active_workers'', JArr (map slot_json active))] w in (Inr r, w))
          else (case core_dispatch g original (Some task_id) w of
              (Inl e, w) \<Rightarrow> (Inl e, w)
            | (Inr items, w) \<Rightarrow> (Inr (map (name_resource resource reap) items), w)))"

definition dispatch_under_lock ::
  "gate_env \<Rightarrow> connection \<Rightarrow> string \<Rightarrow> bool \<Rightarrow> string \<Rightarrow> worker_resource \<Rightarrow> dispatch \<Rightarrow> bool \<Rightarrow> world \<Rightarrow> json list admission \<times> world" where
  "dispatch_under_lock g conn board dry_run task_id resource original held w =
     (if \<not> held then (let (r, w) = admission_entry task_id ''resource_locked'' resource board None [] w in (Inr r, w))
      else if dry_run then dispatch_if_free g board task_id resource original Quiet w
      else (case quiesce_superseded_worker (plain_env g) (c_path conn) task_id (w_grace resource) w of
          (Inl e, w) \<Rightarrow> (Inl e, w)
        | (Inr (Stopped reason run_no pid), w) \<Rightarrow>
            (let (r, w) = admission_entry task_id reason resource board None [(''run_id'', JInt run_no), (''pid'', JInt pid)] w in (Inr r, w))
        | (Inr reap, w) \<Rightarrow> dispatch_if_free g board task_id resource original reap w))"

fun refusal_text :: "refusal \<Rightarrow> string" where
  "refusal_text (AdmissionError m) = ''ResourceAdmissionError: '' @ m"
| "refusal_text (OsError m) = m"
| "refusal_text (Raised e) = []"

text \<open>Only the first pending card is looked at; what cannot be found out is left to the original dispatch.\<close>

definition guarded_dispatch ::
  "gate_env \<Rightarrow> connection \<Rightarrow> string \<Rightarrow> dict \<Rightarrow> bool \<Rightarrow> (host \<Rightarrow> exn + (string \<times> string option) list) \<Rightarrow> dispatch \<Rightarrow> world \<Rightarrow> json list admission \<times> world" where
  "guarded_dispatch g conn board cfg dry_run pending original w =
     (let w = look (plain_env g) w in case pending (a_host w) of
        Inl _ \<Rightarrow> core_dispatch g original None w
      | Inr [] \<Rightarrow> core_dispatch g original None w
      | Inr ((task_id, assigned) # _) \<Rightarrow>
          (let assignee = py_strip (case assigned of None \<Rightarrow> [] | Some s \<Rightarrow> s);
               assignee = (if assignee = [] then py_strip (or_empty (dget_py cfg ''default_assignee'')) else assignee)
           in case resource_for_assignee (e_policy g) cfg (Some assignee) of
             Inl (AdmissionError m) \<Rightarrow> (Inr [JObj [(''task_id'', JStr task_id), (''status'', JStr ''ready''), (''changed'', JBool False),
               (''reason'', JStr ''resource_config_invalid''), (''board'', JStr board), (''error'', JStr m)]], w)
           | Inl e \<Rightarrow> (Inl e, w)
           | Inr None \<Rightarrow> core_dispatch g original None w
           | Inr (Some resource) \<Rightarrow>
               (case with_resource_lock g board (w_name resource)
                   (dispatch_under_lock g conn board dry_run task_id resource original) w of
                  (Inl (Raised e), w) \<Rightarrow> (Inl (Raised e), w)
                | (Inl e, w) \<Rightarrow>
                    (let (r, w) = admission_entry task_id ''resource_admission_failed'' resource board None [(''error'', JStr (refusal_text e))] w
                     in (Inr r, w))
                | (Inr r, w) \<Rightarrow> (Inr r, w))))"

end
