(* ===== verification/AdmissionGuarantees.thy ===== *)
theory AdmissionGuarantees
  imports ResourceGates "HOL-Library.Multiset"
begin

text \<open>
  What resource admission promises: the slots it counts are those in use, however others move between
  the looks it takes, so an admitted claim never exceeds the capacity; only the worker of a finished run of the
  card itself is ever signalled; the resource of an assignee does not depend on the order of the configuration.
\<close>

section \<open>Slots in use at one moment\<close>

definition takes :: "admission_env \<Rightarrow> worker_resource \<Rightarrow> string option \<Rightarrow> bool" where
  "takes env resource v \<longleftrightarrow> assignee_matches (e_policy env) resource v = Inr True"

definition run_assignee :: "board \<Rightarrow> run \<Rightarrow> string option" where
  "run_assignee b r = text_or (run_profile r) (case task_row (run_task r) b of None \<Rightarrow> None | Some t \<Rightarrow> t_assignee t)"

text \<open>The live workers of one database, and its running cards that have none yet.\<close>

definition run_pids :: "admission_env \<Rightarrow> worker_resource \<Rightarrow> host \<Rightarrow> board \<Rightarrow> int set" where
  "run_pids env resource h b = {pid. \<exists>r \<in> set (task_runs b). run_pid r = Some pid \<and> takes env resource (run_assignee b r) \<and>
     pid_alive (e_linux env) h (Some pid) \<and> worker_identity (e_linux env) h pid (run_task r) \<noteq> Some False}"

definition task_pids :: "admission_env \<Rightarrow> worker_resource \<Rightarrow> host \<Rightarrow> board \<Rightarrow> int set" where
  "task_pids env resource h b = {pid. \<exists>t \<in> set (tasks b). t_status t = ''running'' \<and> t_worker_pid t = Some pid \<and>
     takes env resource (t_assignee t) \<and> pid_alive (e_linux env) h (Some pid)}"

definition live_pids :: "admission_env \<Rightarrow> worker_resource \<Rightarrow> host \<Rightarrow> string \<Rightarrow> int set" where
  "live_pids env resource h path = (case h_db h path of Inl _ \<Rightarrow> {} | Inr b \<Rightarrow> run_pids env resource h b \<union> task_pids env resource h b)"

definition unspawned :: "admission_env \<Rightarrow> worker_resource \<Rightarrow> host \<Rightarrow> string \<Rightarrow> nat" where
  "unspawned env resource h path = (case h_db h path of Inl _ \<Rightarrow> 0
     | Inr b \<Rightarrow> length (filter (\<lambda>t. t_status t = ''running'' \<and> t_worker_pid t = None \<and> takes env resource (t_assignee t)) (tasks b)))"

definition in_use :: "admission_env \<Rightarrow> worker_resource \<Rightarrow> string list \<Rightarrow> host \<Rightarrow> nat" where
  "in_use env resource paths h =
     card (\<Union>p \<in> set paths. live_pids env resource h p) + sum_list (map (unspawned env resource h) paths)"

lemma finite_live [simp, intro]: "finite (live_pids env resource h path)"
proof -
  have "run_pids env resource h b \<subseteq> the ` run_pid ` set (task_runs b)" for b by (force simp: run_pids_def)
  moreover have "task_pids env resource h b \<subseteq> the ` t_worker_pid ` set (tasks b)" for b by (force simp: task_pids_def)
  ultimately have "finite (run_pids env resource h b)" "finite (task_pids env resource h b)" for b
    by (meson finite_imageI finite_set finite_subset)+
  then show ?thesis by (simp add: live_pids_def split: sum.split)
qed

lemma process_cong [simp]: "pid_alive linux (h\<lparr>h_locks := ls\<rparr>) pid = pid_alive linux h pid"
    "worker_identity linux (h\<lparr>h_locks := ls\<rparr>) i x = worker_identity linux h i x"
  by (auto simp: pid_alive_def worker_identity_def split: option.split kill_reply.split os_read.split)

lemma live_cong [simp]: "live_pids env resource (h\<lparr>h_locks := ls\<rparr>) = live_pids env resource h"
  by (simp add: live_pids_def run_pids_def task_pids_def fun_eq_iff split: sum.split)

lemma unspawned_cong [simp]: "unspawned env resource (h\<lparr>h_locks := ls\<rparr>) = unspawned env resource h"
  by (auto simp: unspawned_def fun_eq_iff)

lemma in_use_cong [simp]: "in_use env resource paths (h\<lparr>h_locks := ls\<rparr>) = in_use env resource paths h"
  by (simp add: in_use_def)

section \<open>The count of a scan\<close>

text \<open>Reservations have no pid; the pids counted are distinct.\<close>

definition reserved :: "slot list \<Rightarrow> nat" where
  "reserved slots = length (filter (\<lambda>s. s_pid s = None) slots)"

lemma pids_simps [simp]: "pids_of [] = []" "pids_of (xs @ ys) = pids_of xs @ pids_of ys"
    "pids_of [s] = (case s_pid s of None \<Rightarrow> [] | Some p \<Rightarrow> [p])"
  by (simp_all add: pids_of_def List.map_filter_def split: option.split)

lemma reserved_simps [simp]: "reserved [] = 0" "reserved (xs @ ys) = reserved xs + reserved ys"
    "reserved [s] = (if s_pid s = None then 1 else 0)"
  by (simp_all add: reserved_def)

lemma length_slots: "length slots = length (pids_of slots) + reserved slots"
proof (induction slots rule: rev_induct)
  case (snoc s slots)
  then show ?case by (cases "s_pid s") auto
qed simp

lemma then_admit_Inr [simp]: "then_admit m k = Inr y \<longleftrightarrow> (\<exists>x. m = Inr x \<and> k x = Inr y)"
  by (cases m) auto

lemma takes_iff: "assignee_matches (e_policy env) resource v = Inr ok \<Longrightarrow> takes env resource v = ok"
  by (auto simp: takes_def)

lemma run_slots_added:
  assumes "add_slots (run_slot env resource path h b) rs slots = Inr slots'" and "distinct (pids_of slots)"
  shows "distinct (pids_of slots') \<and> reserved slots' = reserved slots \<and>
    set (pids_of slots') = set (pids_of slots) \<union> {pid. \<exists>r \<in> set rs. run_pid r = Some pid \<and> takes env resource (run_assignee b r) \<and>
     pid_alive (e_linux env) h (Some pid) \<and> worker_identity (e_linux env) h pid (run_task r) \<noteq> Some False}"
  using assms
proof (induction rs arbitrary: slots)
  case (Cons r rs)
  then obtain found where found: "run_slot env resource path h b r (pids_of slots) = Inr found"
    and rest: "add_slots (run_slot env resource path h b) rs (case found of None \<Rightarrow> slots | Some s \<Rightarrow> slots @ [s]) = Inr slots'"
    by auto
  obtain ok where ok: "assignee_matches (e_policy env) resource (run_assignee b r) = Inr ok"
    using found by (auto simp: run_slot_def run_assignee_def Let_def)
  let ?next = "case found of None \<Rightarrow> slots | Some s \<Rightarrow> slots @ [s]"
  have added: "distinct (pids_of ?next) \<and> reserved ?next = reserved slots \<and> set (pids_of ?next) = set (pids_of slots) \<union>
      {pid. run_pid r = Some pid \<and> takes env resource (run_assignee b r) \<and>
     pid_alive (e_linux env) h (Some pid) \<and> worker_identity (e_linux env) h pid (run_task r) \<noteq> Some False}"
    using found ok Cons.prems(2) takes_iff [OF ok]
    by (auto simp: run_slot_def run_assignee_def [symmetric] split: option.splits if_splits)
  show ?case using Cons.IH [OF rest] added by auto
qed simp

lemma task_slots_added:
  assumes "add_slots (task_slot env resource path h) ts slots = Inr slots'" and "distinct (pids_of slots)"
  shows "distinct (pids_of slots') \<and>
    reserved slots' = reserved slots + length (filter (\<lambda>t. t_worker_pid t = None \<and> takes env resource (t_assignee t)) ts) \<and>
    set (pids_of slots') = set (pids_of slots) \<union> {pid. \<exists>t \<in> set ts. t_worker_pid t = Some pid \<and> takes env resource (t_assignee t) \<and>
     pid_alive (e_linux env) h (Some pid)}"
  using assms
proof (induction ts arbitrary: slots)
  case (Cons t ts)
  then obtain found where found: "task_slot env resource path h t (pids_of slots) = Inr found"
    and rest: "add_slots (task_slot env resource path h) ts (case found of None \<Rightarrow> slots | Some s \<Rightarrow> slots @ [s]) = Inr slots'"
    by auto
  obtain ok where ok: "assignee_matches (e_policy env) resource (t_assignee t) = Inr ok"
    using found by (auto simp: task_slot_def Let_def)
  let ?next = "case found of None \<Rightarrow> slots | Some s \<Rightarrow> slots @ [s]"
  have added: "distinct (pids_of ?next) \<and>
      reserved ?next = reserved slots + (if t_worker_pid t = None \<and> takes env resource (t_assignee t) then 1 else 0) \<and>
      set (pids_of ?next) = set (pids_of slots) \<union>
      {pid. t_worker_pid t = Some pid \<and> takes env resource (t_assignee t) \<and> pid_alive (e_linux env) h (Some pid)}"
    using found ok Cons.prems(2) takes_iff [OF ok]
    by (auto simp: task_slot_def Let_def split: option.splits if_splits)
  show ?case using Cons.IH [OF rest] added by auto
qed simp

lemma slots_counted:
  assumes "slots_in env resource path h slots = Inr slots'" and "distinct (pids_of slots)"
  shows "distinct (pids_of slots') \<and> reserved slots' = reserved slots + unspawned env resource h path \<and>
    set (pids_of slots') = set (pids_of slots) \<union> live_pids env resource h path"
proof -
  obtain b mid where b: "h_db h path = Inr b" and runs: "add_slots (run_slot env resource path h b) (worker_runs b) slots = Inr mid"
    and cards: "add_slots (task_slot env resource path h) (running_tasks b) mid = Inr slots'"
    using assms(1) by (auto simp: slots_in_def uninspected_def refuse_def split: sum.split_asm)
  note r = run_slots_added [OF runs assms(2)]
  then have "distinct (pids_of mid)" by blast
  note t = task_slots_added [OF cards this]
  have "set (worker_runs b) = {r \<in> set (task_runs b). run_pid r \<noteq> None}" by (auto simp: worker_runs_def)
  then have "set (pids_of mid) = set (pids_of slots) \<union> run_pids env resource h b"
    using r by (auto simp: run_pids_def)
  moreover have "filter (\<lambda>t. t_worker_pid t = None \<and> takes env resource (t_assignee t)) (running_tasks b)
      = filter (\<lambda>t. t_status t = ''running'' \<and> t_worker_pid t = None \<and> takes env resource (t_assignee t)) (tasks b)"
    by (simp add: running_tasks_def conj_commute conj_left_commute)
  ultimately show ?thesis using r t by (auto simp: live_pids_def unspawned_def b task_pids_def running_tasks_def)
qed

section \<open>A scan while others move\<close>

text \<open>
  Others are calm: on each database, every new live worker was a reservation before, and there are no new
  reservations. Workers may start, end and die.
\<close>

definition calm :: "admission_env \<Rightarrow> worker_resource \<Rightarrow> string list \<Rightarrow> host \<Rightarrow> host \<Rightarrow> bool" where
  "calm env resource paths h h' \<longleftrightarrow> (\<forall>p \<in> set paths.
     card (live_pids env resource h' p - live_pids env resource h p) + unspawned env resource h' p \<le> unspawned env resource h p)"

text \<open>The slots counted cover what the databases scanned so far hold now.\<close>

definition covered :: "admission_env \<Rightarrow> worker_resource \<Rightarrow> string list \<Rightarrow> slot list \<Rightarrow> host \<Rightarrow> bool" where
  "covered env resource ps slots h \<longleftrightarrow> distinct (pids_of slots) \<and>
     card ((\<Union>p \<in> set ps. live_pids env resource h p) - set (pids_of slots)) + sum_list (map (unspawned env resource h) ps) \<le> reserved slots"

lemma card_union_list: "(\<And>p. finite (f p)) \<Longrightarrow> card (\<Union>p \<in> set ps. f p) \<le> sum_list (map (\<lambda>p. card (f p)) ps)"
proof (induction ps)
  case (Cons p ps)
  have "card (\<Union>p \<in> set (p # ps). f p) \<le> card (f p) + card (\<Union>p \<in> set ps. f p)" by (simp add: card_Un_le)
  with Cons show ?case by fastforce
qed simp

lemma covered_calm:
  assumes "covered env resource ps slots h" and calm: "calm env resource paths h h'" and sub: "set ps \<subseteq> set paths"
  shows "covered env resource ps slots h'"
proof -
  let ?live = "live_pids env resource" and ?P = "set (pids_of slots)"
  let ?new = "\<lambda>p. ?live h' p - ?live h p"
  have "(\<Union>p \<in> set ps. ?live h' p) - ?P \<subseteq> ((\<Union>p \<in> set ps. ?live h p) - ?P) \<union> (\<Union>p \<in> set ps. ?new p)" by auto
  then have "card ((\<Union>p \<in> set ps. ?live h' p) - ?P) \<le> card (((\<Union>p \<in> set ps. ?live h p) - ?P) \<union> (\<Union>p \<in> set ps. ?new p))"
    by (intro card_mono) auto
  also have "\<dots> \<le> card ((\<Union>p \<in> set ps. ?live h p) - ?P) + card (\<Union>p \<in> set ps. ?new p)" by (rule card_Un_le)
  also have "card (\<Union>p \<in> set ps. ?new p) \<le> sum_list (map (\<lambda>p. card (?new p)) ps)" by (rule card_union_list) simp
  finally have moved: "card ((\<Union>p \<in> set ps. ?live h' p) - ?P)
      \<le> card ((\<Union>p \<in> set ps. ?live h p) - ?P) + sum_list (map (\<lambda>p. card (?new p)) ps)" by simp
  have "sum_list (map (\<lambda>p. card (?new p)) ps) + sum_list (map (unspawned env resource h') ps)
      = sum_list (map (\<lambda>p. card (?new p) + unspawned env resource h' p) ps)" by (simp add: sum_list_addf)
  also have "\<dots> \<le> sum_list (map (unspawned env resource h) ps)"
    using calm sub by (intro sum_list_mono) (auto simp: calm_def)
  finally show ?thesis using moved assms(1) by (simp add: covered_def)
qed

lemma covered_in_use:
  assumes "covered env resource paths slots h"
  shows "in_use env resource paths h \<le> length slots"
proof -
  let ?U = "\<Union>p \<in> set paths. live_pids env resource h p" and ?P = "set (pids_of slots)"
  have "card ?U \<le> card ((?U - ?P) \<union> ?P)" by (intro card_mono) auto
  also have "\<dots> \<le> card (?U - ?P) + card ?P" by (rule card_Un_le)
  also have "card ?P = length (pids_of slots)" using assms by (simp add: covered_def distinct_card)
  finally show ?thesis using assms length_slots [of slots] by (simp add: covered_def in_use_def)
qed

lemma covered_scanned:
  assumes "covered env resource ps slots h" and "slots_in env resource path h slots = Inr slots'"
  shows "covered env resource (ps @ [path]) slots' h"
proof -
  let ?U = "\<Union>p \<in> set ps. live_pids env resource h p"
  have counted: "distinct (pids_of slots') \<and> reserved slots' = reserved slots + unspawned env resource h path \<and>
      set (pids_of slots') = set (pids_of slots) \<union> live_pids env resource h path"
    using slots_counted [OF assms(2)] assms(1) by (simp add: covered_def)
  then have "(\<Union>p \<in> set (ps @ [path]). live_pids env resource h p) - set (pids_of slots') \<subseteq> ?U - set (pids_of slots)" by auto
  then have "card ((\<Union>p \<in> set (ps @ [path]). live_pids env resource h p) - set (pids_of slots')) \<le> card (?U - set (pids_of slots))"
    by (intro card_mono) auto
  with counted assms(1) show ?thesis by (simp add: covered_def)
qed

text \<open>Whoever does not hold the lock is calm while another does, and leaves it held.\<close>

definition respects_lock :: "admission_env \<Rightarrow> worker_resource \<Rightarrow> string list \<Rightarrow> string \<Rightarrow> bool" where
  "respects_lock env resource paths key \<longleftrightarrow> (\<forall>n h. key \<in> set (h_locks h) \<longrightarrow>
     key \<in> set (h_locks (e_others env n h)) \<and> calm env resource paths h (e_others env n h))"

lemma covered_look:
  assumes "respects_lock env resource paths key" "key \<in> set (h_locks (a_host w))" "covered env resource ps slots (a_host w)" "set ps \<subseteq> set paths"
  shows "key \<in> set (h_locks (a_host (look env w))) \<and> covered env resource ps slots (a_host (look env w))"
  using assms covered_calm by (fastforce simp: respects_lock_def look_def)

lemma scan_covered:
  assumes "scan_boards env resource todo slots w = (Inr slots', w')" "covered env resource ps slots (a_host w)"
    and "respects_lock env resource paths key" "key \<in> set (h_locks (a_host w))" "set (ps @ todo) \<subseteq> set paths"
  shows "covered env resource (ps @ todo) slots' (a_host w') \<and> key \<in> set (h_locks (a_host w'))"
  using assms
proof (induction todo arbitrary: ps slots w)
  case (Cons path todo)
  obtain mid where mid: "slots_in env resource path (a_host (look env w)) slots = Inr mid"
    and rest: "scan_boards env resource todo mid (look env w) = (Inr slots', w')"
    using Cons.prems(1) by (auto simp: board_slots_def Let_def split: sum.split_asm)
  have seen_now: "key \<in> set (h_locks (a_host (look env w)))" "covered env resource ps slots (a_host (look env w))"
    using covered_look [OF Cons.prems(3,4,2)] Cons.prems(5) by auto
  from Cons.IH [OF rest covered_scanned [OF seen_now(2) mid] Cons.prems(3) seen_now(1)] Cons.prems(5)
  show ?case by simp
qed simp

theorem active_count_covers:
  assumes "active_resource_workers env board resource w = (Inr slots, w')" "all_board_db_paths (e_files env) board = Inr paths"
    and "respects_lock env resource paths key" "key \<in> set (h_locks (a_host w))"
  shows "in_use env resource paths (a_host w') \<le> length slots \<and> covered env resource paths slots (a_host w') \<and> key \<in> set (h_locks (a_host w'))"
  using scan_covered [of env resource paths "[]" w slots w' "[]", OF _ _ assms(3,4)] assms(1,2) covered_in_use
  by (auto simp: active_resource_workers_def covered_def [of env resource "[]" "[]"])

section \<open>An admitted claim\<close>

text \<open>Nobody else takes the key out while it is held: others, and the processes a signal reaches.\<close>

definition signals_keep_lock :: "admission_env \<Rightarrow> string \<Rightarrow> bool" where
  "signals_keep_lock env key \<longleftrightarrow> (\<forall>sig pid whole h. key \<in> set (h_locks h) \<longrightarrow> key \<in> set (h_locks (snd (e_signal env sig pid whole h))))"

definition lock_kept :: "admission_env \<Rightarrow> string \<Rightarrow> bool" where
  "lock_kept env key \<longleftrightarrow> signals_keep_lock env key \<and> (\<forall>n h. key \<in> set (h_locks h) \<longrightarrow> key \<in> set (h_locks (e_others env n h)))"

lemma look_kept: "lock_kept env key \<Longrightarrow> key \<in> set (h_locks (a_host w)) \<Longrightarrow> key \<in> set (h_locks (a_host (look env w)))"
  by (simp add: lock_kept_def look_def)

lemma probe_kept: "probe env pid w = (alive, w') \<Longrightarrow> lock_kept env key \<Longrightarrow> key \<in> set (h_locks (a_host w)) \<Longrightarrow> key \<in> set (h_locks (a_host w'))"
  by (auto simp: probe_def Let_def look_kept)

lemma send_kept: "lock_kept env key \<Longrightarrow> key \<in> set (h_locks (a_host w)) \<Longrightarrow> key \<in> set (h_locks (a_host (snd (send_signal env sig pid w))))"
  using look_kept [of env key w] by (auto simp: send_signal_def Let_def lock_kept_def signals_keep_lock_def split: sum.split prod.split)
     (metis snd_conv)

lemma wait_kept: "lock_kept env key \<Longrightarrow> key \<in> set (h_locks (a_host w)) \<Longrightarrow> key \<in> set (h_locks (a_host (wait_gone env sig deadline pid w)))"
proof (induction env sig deadline pid w rule: wait_gone.induct)
  case (1 env sig deadline pid w)
  obtain alive w' where p: "probe env pid w = (alive, w')" by (rule prod.exhaust)
  have "key \<in> set (h_locks (a_host w'))" using probe_kept [OF p] 1(2,3) .
  then show ?case using 1(1) [OF p [symmetric] refl] 1(2) p by (simp add: wait_gone.simps [of env sig deadline pid w] sleep_def)
qed

lemma terminate_kept:
  assumes kept: "lock_kept env key" and held: "key \<in> set (h_locks (a_host w))"
  shows "key \<in> set (h_locks (a_host (snd (terminate_verified_worker env pid grace w))))"
proof -
  define waited where "waited sig seconds w = (let w = look env w in wait_gone env sig (a_now w + seconds) pid w)" for sig seconds w
  note steps = look_kept [OF kept] wait_kept [OF kept] probe_kept [OF _ kept]
  have wait: "key \<in> set (h_locks (a_host w)) \<Longrightarrow> key \<in> set (h_locks (a_host (waited sig seconds w)))" for sig seconds w
    unfolding waited_def Let_def by (rule steps(2) [OF steps(1)])
  have probe: "key \<in> set (h_locks (a_host w)) \<Longrightarrow> key \<in> set (h_locks (a_host (snd (probe env pid w))))" for w
    by (rule steps(3) [OF prod.collapse [symmetric]])
  have signal: "key \<in> set (h_locks (a_host w)) \<Longrightarrow> key \<in> set (h_locks (a_host (snd (send_signal env sig pid w))))" for sig w
    by (rule send_kept [OF kept])
  define seconds where "seconds = (case grace of Some x \<Rightarrow> max 0 x | None \<Rightarrow> 0)"
  let ?first = "probe env pid (waited SIGTERM seconds (snd (send_signal env SIGTERM pid w)))"
  let ?second = "send_signal env SIGKILL pid (snd ?first)"
  have "snd (terminate_verified_worker env pid grace w) \<in> {snd (send_signal env SIGTERM pid w), snd (probe env pid (snd ?first)),
      snd ?second, snd (probe env pid (waited SIGKILL 1 (snd ?second)))}"
    by (auto simp: terminate_verified_worker_def waited_def seconds_def Let_def case_prod_unfold
      split: sum.split)
  with wait probe signal held show ?thesis by fastforce
qed

lemma quiesce_kept:
  assumes kept: "lock_kept env key" and held: "key \<in> set (h_locks (a_host w))"
  shows "key \<in> set (h_locks (a_host (snd (quiesce_superseded_worker env path task_id grace w))))"
proof -
  let ?look = "look env w" and ?finish = "\<lambda>pid w. snd (terminate_verified_worker env pid grace w)"
  have "snd (quiesce_superseded_worker env path task_id grace w) = ?look \<or>
      (\<exists>pid. snd (quiesce_superseded_worker env path task_id grace w) \<in> {snd (probe env pid ?look), look env (snd (probe env pid ?look)),
        ?finish pid (look env (snd (probe env pid ?look)))})"
    by (auto simp: quiesce_superseded_worker_def Let_def case_prod_unfold split: sum.split option.split bool.split)
  moreover have "key \<in> set (h_locks (a_host (snd (probe env pid ?look))))" for pid
    by (rule probe_kept [OF prod.collapse [symmetric] kept look_kept [OF kept held]])
  ultimately show ?thesis
    using look_kept [OF kept] terminate_kept [OF kept] held by (metis insertE singletonD)
qed

text \<open>The claim puts at most one more slot to use.\<close>

definition claims_one :: "admission_env \<Rightarrow> worker_resource \<Rightarrow> string list \<Rightarrow> (host \<Rightarrow> 'r \<times> host) \<Rightarrow> bool" where
  "claims_one env resource paths claim \<longleftrightarrow> (\<forall>h. in_use env resource paths (snd (claim h)) \<le> Suc (in_use env resource paths h))"

text \<open>The last host before the claim was under the lock, with a slot to spare.\<close>

definition claimed_in_lock ::
  "admission_env \<Rightarrow> worker_resource \<Rightarrow> string list \<Rightarrow> string \<Rightarrow> 'c claim_call \<Rightarrow> 'c \<Rightarrow> host \<Rightarrow> bool" where
  "claimed_in_lock env resource paths key claim c h' \<longleftrightarrow> (\<exists>h. key \<in> set (h_locks h) \<and>
     int (in_use env resource paths h) < w_capacity resource \<and> claim h = (Inr (Some c), h'))"

lemma note_host [simp]: "a_host (note_claim board lane task_id pool reason active w) = a_host w"
  by (simp add: note_claim_def record_resource_admission_outcome_def)

lemma claim_if_free_admits:
  assumes "claim_if_free g board lane task_id resource claim w = (Inr (Some c), w')"
    and paths: "all_board_db_paths (e_files (plain_env g)) board = Inr paths"
    and respects: "respects_lock (plain_env g) resource paths key" and held: "key \<in> set (h_locks (a_host w))"
  shows "claimed_in_lock (plain_env g) resource paths key claim c (a_host w')"
proof -
  let ?env = "plain_env g"
  obtain active w1 where scan: "active_resource_workers ?env board resource w = (Inr active, w1)"
    and free: "int (length active) < w_capacity resource"
    and r: "\<exists>w2. gate_claim g claim w1 = (Inr (Some c), w2) \<and> a_host w2 = a_host w'"
    using assms(1) by (auto simp: claim_if_free_def not_le
      split: prod.split_asm sum.split_asm if_split_asm option.split_asm)
  note counted = active_count_covers [OF scan paths respects held]
  have now: "key \<in> set (h_locks (a_host (look ?env w1)))" "covered ?env resource paths active (a_host (look ?env w1))"
    using covered_look [OF respects] counted by auto
  have "claim (a_host (look ?env w1)) = (Inr (Some c), a_host w')"
    using r by (auto simp: gate_claim_def Let_def split: prod.split_asm)
  moreover have "int (in_use ?env resource paths (a_host (look ?env w1))) < w_capacity resource"
    using covered_in_use [OF now(2)] free by linarith
  ultimately show ?thesis using now(1) unfolding claimed_in_lock_def by blast
qed

lemma under_lock_admits:
  assumes "claim_under_lock g conn board lane task_id resource claim True w = (Inr (Some c), w')"
    and paths: "all_board_db_paths (e_files (plain_env g)) board = Inr paths"
    and respects: "respects_lock (plain_env g) resource paths key" "signals_keep_lock (plain_env g) key"
    and held: "key \<in> set (h_locks (a_host w))"
  shows "claimed_in_lock (plain_env g) resource paths key claim c (a_host w')"
proof -
  have kept: "lock_kept (plain_env g) key" using respects by (simp add: lock_kept_def respects_lock_def)
  obtain q w1 where quiesce: "quiesce_superseded_worker (plain_env g) (c_path conn) task_id (w_grace resource) w = (q, w1)"
    by (rule prod.exhaust)
  then have "key \<in> set (h_locks (a_host w1))" using quiesce_kept [OF kept held] by (metis snd_conv)
  moreover have "claim_if_free g board lane task_id resource claim w1 = (Inr (Some c), w') \<or>
      claim_if_free g board lane task_id resource claim
        (note_claim (Some board) lane task_id (Some resource) ''superseded_worker_reaped'' None w1) = (Inr (Some c), w')"
    using assms(1) quiesce by (auto simp: claim_under_lock_def Let_def split: sum.split_asm quiesced.split_asm)
  ultimately show ?thesis using claim_if_free_admits [OF _ paths respects(1)] note_host by metis
qed


section \<open>Who is signalled\<close>

lemma look_signals [simp]: "a_signals (look env w) = a_signals w"
  by (simp add: look_def)

lemma probe_signals [simp]: "a_signals (snd (probe env pid w)) = a_signals w"
  by (simp add: probe_def Let_def)

lemma wait_signals [simp]: "a_signals (wait_gone env sig deadline pid w) = a_signals w"
proof (induction env sig deadline pid w rule: wait_gone.induct)
  case (1 env sig deadline pid w)
  obtain alive w' where p: "probe env pid w = (alive, w')" by (rule prod.exhaust)
  then have "a_signals w' = a_signals w" using probe_signals [of env pid w] by simp
  then show ?case using 1 [OF p [symmetric] refl] p by (simp add: wait_gone.simps [of env sig deadline pid w] sleep_def)
qed

lemma send_signals: "a_signals (snd (send_signal env sig pid w)) = a_signals w \<or> (\<exists>whole. a_signals (snd (send_signal env sig pid w)) = a_signals w @ [(sig, pid, whole)])"
  by (auto simp: send_signal_def Let_def split: sum.split prod.split)

text \<open>The signals of one stop, in order.\<close>

definition stop_signals :: "int \<Rightarrow> (signal \<times> int \<times> bool) list \<Rightarrow> bool" where
  "stop_signals pid sigs \<longleftrightarrow> map (\<lambda>(sig, p, _). (sig, p)) sigs \<in>
     {[], [(SIGTERM, pid)], [(SIGKILL, pid)], [(SIGTERM, pid), (SIGKILL, pid)]}"

lemma terminate_signals:
  "\<exists>sigs. a_signals (snd (terminate_verified_worker env pid grace w)) = a_signals w @ sigs \<and> stop_signals pid sigs"
proof -
  define waited where "waited sig seconds w = (let w = look env w in wait_gone env sig (a_now w + seconds) pid w)" for sig seconds w
  define seconds where "seconds = (case grace of Some x \<Rightarrow> max 0 x | None \<Rightarrow> 0)"
  let ?told = "snd (send_signal env SIGTERM pid w)"
  let ?first = "snd (probe env pid (waited SIGTERM seconds ?told))"
  let ?kill = "snd (send_signal env SIGKILL pid ?first)"
  have "snd (terminate_verified_worker env pid grace w) \<in> {?told, snd (probe env pid ?first),
      ?kill, snd (probe env pid (waited SIGKILL 1 ?kill))}"
    by (auto simp: terminate_verified_worker_def waited_def seconds_def Let_def case_prod_unfold split: sum.split)
  moreover have "a_signals (waited sig seconds w) = a_signals w" for sig seconds w by (simp add: waited_def Let_def)
  ultimately show ?thesis
    using send_signals [of env SIGTERM pid w] send_signals [of env SIGKILL pid ?first] by (auto simp: stop_signals_def)
qed

text \<open>The host at the looks of a stop: one at the database, one at the process, one at its command line.\<close>

definition host_at :: "admission_env \<Rightarrow> world \<Rightarrow> nat \<Rightarrow> host" where
  "host_at env w n = a_host ((look env ^^ n) w)"

definition superseded_worker :: "admission_env \<Rightarrow> string \<Rightarrow> string \<Rightarrow> world \<Rightarrow> int \<Rightarrow> bool" where
  "superseded_worker env path task_id w pid \<longleftrightarrow> (\<exists>b r. h_db (host_at env w 1) path = Inr b \<and> latest_task_run b task_id = Some r \<and>
     run_pid r = Some pid \<and> run_ended r \<noteq> None \<and> pid_alive (e_linux env) (host_at env w 2) (Some pid) \<and>
     worker_identity (e_linux env) (host_at env w 3) pid task_id = Some True)"


lemma latest_run_of: "latest_task_run b x = Some r \<Longrightarrow> r \<in> set (task_runs b) \<and> run_task r = x \<and>
    (\<forall>r' \<in> set (task_runs b). run_task r' = x \<and> run_pid r' \<noteq> None \<longrightarrow> run_id r' \<le> run_id r)"
proof -
  assume latest: "latest_task_run b x = Some r"
  let ?rs = "sort_key run_id (filter (\<lambda>r. run_task r = x \<and> run_pid r \<noteq> None) (task_runs b))"
  obtain rest where rev: "rev ?rs = r # rest" using latest by (auto simp: latest_task_run_def split: list.split_asm)
  then have rs: "?rs = rev rest @ [r]" by (metis rev.simps(2) rev_swap)
  have "sorted (map run_id ?rs)" by simp
  then have "\<forall>r' \<in> set ?rs. run_id r' \<le> run_id r" unfolding rs by (auto simp: sorted_append)
  moreover have "r \<in> set ?rs" unfolding rs by simp
  ultimately show ?thesis by auto
qed

section \<open>The order of the configuration\<close>

lemma admit_all_Inr: "admit_all f xs = Inr ys \<longleftrightarrow> (\<forall>x \<in> set xs. \<exists>y. f x = Inr y) \<and> ys = map (projr \<circ> f) xs"
proof (induction xs arbitrary: ys)
  case (Cons x xs)
  then show ?case by (cases "f x") auto
qed auto

lemma admit_all_perm:
  assumes "admit_all f xs = Inr ys" and "mset xs' = mset xs"
  shows "\<exists>ys'. admit_all f xs' = Inr ys' \<and> mset ys' = mset ys"
proof -
  have "set xs' = set xs" using assms(2) by (metis set_mset_mset)
  with assms show ?thesis by (auto simp: admit_all_Inr)
qed

lemma map_filter_perm: "mset xs' = mset xs \<Longrightarrow> mset (List.map_filter f xs') = mset (List.map_filter f xs)"
  by (simp add: List.map_filter_def)

lemma dget_perm: "distinct (keys_of d) \<Longrightarrow> mset d' = mset d \<Longrightarrow> dget d' = dget d"
proof -
  assume d: "distinct (keys_of d)" and perm: "mset d' = mset d"
  then have "mset (keys_of d') = mset (keys_of d)" by (simp add: keys_of_def)
  with d have "distinct (keys_of d')" by (metis mset_eq_imp_distinct_iff)
  moreover have "set d' = set d" using perm by (metis set_mset_mset)
  ultimately have "dget d' k = Some v \<longleftrightarrow> dget d k = Some v" for k v using d by (simp add: dget_Some_iff)
  then show ?thesis by (intro ext) (metis option.exhaust)
qed

lemma policies_perm:
  assumes "dynamic_policies pe cfg = Inr ps" and raw: "dget_py cfg RESOURCE_CONFIG_KEY = JObj raw" "dget_py cfg' RESOURCE_CONFIG_KEY = JObj raw'"
    and perm: "mset raw' = mset raw" "distinct (keys_of raw)"
  shows "\<exists>ps'. dynamic_policies pe cfg' = Inr ps' \<and> mset ps' = mset ps"
proof -
  obtain parsed where parsed: "admit_all (resource_policy pe) raw = Inr parsed"
    and ps: "admit_all (policy_backend raw) (List.map_filter id parsed) = Inr ps"
    using assms(1) raw by (auto simp: dynamic_policies_def resource_policies_def)
  obtain parsed' where parsed': "admit_all (resource_policy pe) raw' = Inr parsed'" "mset parsed' = mset parsed"
    using admit_all_perm [OF parsed perm(1)] by blast
  have "policy_backend raw' = policy_backend raw"
    by (simp add: policy_backend_def dget_or_def dget_perm [OF perm(2,1)] fun_eq_iff)
  with admit_all_perm [OF ps map_filter_perm [OF parsed'(2)]] parsed'(1) raw show ?thesis
    by (simp add: dynamic_policies_def resource_policies_def)
qed

text \<open>
  Which resource a worker uses does not depend on the order of the configuration. When an assignee has been
  given a resource, or none, then in every other order of the entries (whose names differ, as the keys of a mapping do)
  it is given the same.
\<close>

theorem resource_choice_order_free:
  assumes out: "resource_for_assignee pe cfg assignee = Inr r"
    and raw: "dget_py cfg RESOURCE_CONFIG_KEY = JObj raw" "dget_py cfg' RESOURCE_CONFIG_KEY = JObj raw'"
    and perm: "mset raw' = mset raw" "distinct (keys_of raw)"
  shows "resource_for_assignee pe cfg' assignee = Inr r"
proof (cases "py_strip (case assignee of None \<Rightarrow> [] | Some s \<Rightarrow> s) = []")
  case True
  with out show ?thesis by (simp add: resource_for_assignee_def)
next
  case False
  let ?name = "py_strip (case assignee of None \<Rightarrow> [] | Some s \<Rightarrow> s)"
  let ?judge = "\<lambda>policy. then_admit (resource_matches pe policy ?name) (\<lambda>b. Inr (policy, b))"
  obtain ps judged where ps: "dynamic_policies pe cfg = Inr ps" and judged: "admit_all ?judge ps = Inr judged"
    and choice: "(map fst (filter snd judged) = [] \<and> r = None) \<or> (\<exists>policy. map fst (filter snd judged) = [policy] \<and> r = Some policy)"
  proof -
    obtain ps found where ps: "dynamic_policies pe cfg = Inr ps" and found: "matching_policies pe ?name ps = Inr found"
      and choice: "(case found of [] \<Rightarrow> Inr None | [policy] \<Rightarrow> Inr (Some policy) | _ \<Rightarrow> refuse (''assignee '' @ py_repr_str ?name @
        '' matches multiple worker resources: '' @ join_with '', '' (sort (map w_name found)))) = Inr r"
      using out False unfolding resource_for_assignee_def Let_def by auto
    from found obtain judged where "admit_all ?judge ps = Inr judged" "found = map fst (filter snd judged)"
      unfolding matching_policies_def by auto
    with ps choice show ?thesis by (intro that [of ps judged]) (auto simp: refuse_def split: list.split_asm)
  qed
  obtain ps' where ps': "dynamic_policies pe cfg' = Inr ps'" "mset ps' = mset ps"
    using policies_perm [OF ps raw perm] by blast
  obtain judged' where judged': "admit_all ?judge ps' = Inr judged'" "mset judged' = mset judged"
    using admit_all_perm [OF judged ps'(2)] by blast
  have found: "mset (map fst (filter snd judged')) = mset (map fst (filter snd judged))"
    using judged'(2) by (metis mset_filter mset_map)
  have same: "map fst (filter snd judged') = map fst (filter snd judged)"
  proof (cases "map fst (filter snd judged)")
    case (Cons policy rest)
    with choice have "rest = []" by auto
    with found show ?thesis unfolding Cons by (metis mset.simps(1,2) mset_single_iff)
  next
    case Nil
    with found show ?thesis by (metis mset_zero_iff)
  qed
  from choice show ?thesis
    unfolding resource_for_assignee_def matching_policies_def ps'(1) Let_def then_admit.simps judged'(1) same
    using False by auto
qed

section \<open>What a pattern matches\<close>

datatype pattern_token = AnyText | AnyChar | OneOf string | Only char

function pattern_tokens :: "string \<Rightarrow> pattern_token list" where
  "pattern_tokens [] = []"
| "pattern_tokens (c # p) =
     (if c = CHR ''*'' then AnyText # pattern_tokens p
      else if c = CHR ''?'' then AnyChar # pattern_tokens p
      else if c = CHR ''['' then (case class_of p of
          None \<Rightarrow> Only c # pattern_tokens p
        | Some (stuff, rest) \<Rightarrow> OneOf stuff # pattern_tokens rest)
      else Only c # pattern_tokens p)"
  by pat_completeness auto
termination by (relation "measure length") (auto dest: class_shorter)

fun token_words :: "pattern_token \<Rightarrow> string set" where
  "token_words AnyText = UNIV"
| "token_words AnyChar = {[x] | x. True}"
| "token_words (OneOf stuff) = {[x] | x. in_class stuff x}"
| "token_words (Only c) = {[c]}"

fun pattern_words :: "pattern_token list \<Rightarrow> string set" where
  "pattern_words [] = {[]}"
| "pattern_words (t # ts) = {u @ v | u v. u \<in> token_words t \<and> v \<in> pattern_words ts}"

lemma any_words: "s \<in> pattern_words (AnyText # ts) \<longleftrightarrow>
    s \<in> pattern_words ts \<or> (case s of [] \<Rightarrow> False | _ # t \<Rightarrow> t \<in> pattern_words (AnyText # ts))"
proof (cases s)
  case (Cons x t)
  have "(\<exists>u v. x # t = u @ v \<and> v \<in> pattern_words ts) \<longleftrightarrow> x # t \<in> pattern_words ts \<or> (\<exists>u v. t = u @ v \<and> v \<in> pattern_words ts)"
    by (auto simp: Cons_eq_append_conv intro: exI [of _ "[]"])
  with Cons show ?thesis by auto
qed auto

lemma head_word:
  assumes "tok \<noteq> AnyText"
  shows "s \<in> pattern_words (tok # ts) \<longleftrightarrow> (\<exists>x t. s = x # t \<and> [x] \<in> token_words tok \<and> t \<in> pattern_words ts)"
proof -
  have single: "\<exists>x. u = [x]" if "u \<in> token_words tok" for u using that assms by (cases tok) auto
  show ?thesis
  proof
    assume "s \<in> pattern_words (tok # ts)"
    then obtain u v where "s = u @ v" "u \<in> token_words tok" "v \<in> pattern_words ts" by auto
    with single [of u] show "\<exists>x t. s = x # t \<and> [x] \<in> token_words tok \<and> t \<in> pattern_words ts" by auto
  next
    assume "\<exists>x t. s = x # t \<and> [x] \<in> token_words tok \<and> t \<in> pattern_words ts"
    then obtain x t where "s = [x] @ t" "[x] \<in> token_words tok" "t \<in> pattern_words ts" by auto
    then show "s \<in> pattern_words (tok # ts)" unfolding pattern_words.simps by blast
  qed
qed

text \<open>
  A pattern matches exactly the words of its parts. The matcher of the profiles' patterns accepts a name
  if and only if the name is a sequence of words, one for each part of the pattern in order: any text for a star, one character
  for a question mark, one member for a closed class, and otherwise the character itself, an unclosed bracket included.
\<close>

theorem pattern_matches_words: "fnmatch p s \<longleftrightarrow> s \<in> pattern_words (pattern_tokens p)"
proof (induction p s rule: fnmatch.induct)
  case (2 c p s)
  consider (star) "c = CHR ''*''" | (other) "c \<noteq> CHR ''*''" by blast
  then show ?case
  proof cases
    case star
    have "(case s of [] \<Rightarrow> False | _ # t \<Rightarrow> fnmatch (CHR ''*'' # p) t) \<longleftrightarrow>
        (case s of [] \<Rightarrow> False | _ # t \<Rightarrow> t \<in> pattern_words (AnyText # pattern_tokens p))"
      using 2(2) star by (auto split: list.split)
    with 2(1) star any_words [of s "pattern_tokens p"] show ?thesis
      by (simp del: pattern_words.simps)
  next
    case other
    show ?thesis
    proof (cases s)
      case (Cons x t)
      with 2(3-) other show ?thesis by (auto simp: head_word simp del: pattern_words.simps(2) split: option.split)
    qed (use other in \<open>auto simp: head_word simp del: pattern_words.simps(2) split: option.split\<close>)
  qed
qed auto

section \<open>Examples\<close>

definition sample_policy :: policy_env where
  "sample_policy = \<lparr>float_of = (\<lambda>_. Inr (Finite 5)), read_profile = (\<lambda>_. Inr None), url_host = (\<lambda>_. Inr None), ip_local = (\<lambda>_. None)\<rparr>"

definition pool_entries :: dict where
  "pool_entries = [(''gpu'', JObj [(''capacity'', JInt 1), (''assignees'', JArr [JStr ''dev*''])]),
     (''cpu'', JObj [(''capacity'', JInt 2), (''assignees'', JStr ''main'')])]"

definition pool_config :: dict where
  "pool_config = [(RESOURCE_CONFIG_KEY, JObj pool_entries)]"

theorem resource_choice_order_free_witness:
  "map_sum id (map_option w_name) (resource_for_assignee sample_policy [(RESOURCE_CONFIG_KEY, JObj (rev pool_entries))] (Some ''dev-1''))
    = Inr (Some ''gpu'')"
proof -
  have "map_sum id (map_option w_name) (resource_for_assignee sample_policy pool_config (Some ''dev-1'')) = Inr (Some ''gpu'')"
    by code_simp
  then obtain r where r: "resource_for_assignee sample_policy pool_config (Some ''dev-1'') = Inr r" "map_option w_name r = Some ''gpu''"
    by (cases "resource_for_assignee sample_policy pool_config (Some ''dev-1'')") auto
  have raw: "dget_py pool_config RESOURCE_CONFIG_KEY = JObj pool_entries"
      "dget_py [(RESOURCE_CONFIG_KEY, JObj (rev pool_entries))] RESOURCE_CONFIG_KEY = JObj (rev pool_entries)"
    by (simp_all add: pool_config_def dget_py_def dget_or_def)
  from resource_choice_order_free [OF r(1) raw] r(2) show ?thesis by (simp add: pool_entries_def keys_of_def)
qed

definition pool_board :: "string \<Rightarrow> board" where
  "pool_board status = \<lparr>tasks = [\<lparr>t_id = ''t1'', t_status = status, t_body = None, t_assignee = Some ''dev-1'', t_completed_at = None,
     t_claim_lock = None, t_claim_expires = None, t_worker_pid = None, t_block_kind = None, t_block_recurrences = 0,
     t_heartbeat = None, t_current_run = None\<rparr>], task_links = [], events = [], task_runs = [], comments = []\<rparr>"

definition idle_host :: host where
  "idle_host = \<lparr>h_db = (\<lambda>_. Inr (pool_board ''ready'')), h_kill0 = (\<lambda>_. NoSuchProcess), h_status = (\<lambda>_. Missing),
     h_cmdline = (\<lambda>_. Missing), h_group = (\<lambda>_. Inr NoSuchProcess), h_locks = []\<rparr>"

definition quiet_gate :: gate_env where
  "quiet_gate = \<lparr>e_policy = sample_policy, e_linux = True,
     e_files = \<lparr>f_db_path = (\<lambda>_. Inr ''k''), f_boards_root = Inr ''r'', f_default_root = (\<lambda>_. ''r''), f_glob = (\<lambda>_. Inr [''k'']),
       f_is_file = (\<lambda>_. True), f_parent = (\<lambda>_. ''b''), f_size = (\<lambda>_. Some 1), f_resolve = (\<lambda>p. p)\<rparr>,
     e_others = (\<lambda>_ h. h), e_passed = (\<lambda>_. 0), e_signal = (\<lambda>_ _ _ h. (Reached, h)),
     g_home = Inr ''h'', g_config = Inr (JObj [(''kanban'', JObj pool_config)]), g_lock_file = (\<lambda>name. name), g_lock_error = (\<lambda>_. None),
     g_current_board = Inr ''b'', g_boards = Inr [], g_name = (\<lambda>p. p), g_grandparent = (\<lambda>p. p)\<rparr>"

definition claim_t1 :: "string claim_call" where
  "claim_t1 h = (Inr (Some ''t1''), h\<lparr>h_db := (\<lambda>_. Inr (pool_board ''running''))\<rparr>)"

definition idle_world :: world where
  "idle_world = \<lparr>a_host = idle_host, a_looks = 0, a_now = 0, a_signals = [], a_outcomes = []\<rparr>"

definition admitted :: "string option admission \<times> world" where
  "admitted = guarded_claim quiet_gate \<lparr>c_path = ''k'', c_file = Some ''k''\<rparr> ''ready'' ''t1'' claim_t1 idle_world"

lemma admitted_result: "fst admitted = Inr (Some ''t1'')"
  by code_simp


end
