(* ===== verification/RespawnGuard.thy ===== *)
theory RespawnGuard
  imports EdgeDelivery "HOL-Library.Sublist"
begin

text \<open>
  The waiver of the dispatcher's guards against duplicate work (edge/kanban_dynamic_resource_core.py): a card that
  was completed may run again when the newest rework event after its completion is canonical evidence.
\<close>

section \<open>Evidence of a rework\<close>

definition last_completion :: "board \<Rightarrow> string \<Rightarrow> int option" where
  "last_completion b task_id = (case sort (List.map_filter run_ended (filter (\<lambda>r. run_task r = task_id \<and> run_outcome r = Some ''completed'') (task_runs b))) of
      [] \<Rightarrow> None | ts \<Rightarrow> Some (last ts))"

definition repository_shape :: "json \<Rightarrow> bool" where
  "repository_shape v \<longleftrightarrow> (case v of
      JStr s \<Rightarrow> CHR ''/'' \<in> set s \<and> hd s \<noteq> CHR ''/'' \<and> last s \<noteq> CHR ''/'' | _ \<Rightarrow> False)"

definition canonical_requeue :: "dict \<Rightarrow> bool" where
  "canonical_requeue p \<longleftrightarrow> (let request = dget_py p ''request_comment_id''; retry = dget_py p ''retry_comment_id'' in
     repository_shape (dget_py p ''repository'') \<and>
     positive_rework_int (dget_py p ''issue_number'') \<and> positive_rework_int (dget_py p ''pr_number'') \<and>
     positive_rework_int (dget_py p ''rework_round'') \<and>
     (case dget_py p ''head_sha'' of JStr s \<Rightarrow> lower_sha s | _ \<Rightarrow> False) \<and>
     (request = JNull \<or> positive_rework_int request) \<and>
     (retry = JNull \<or> positive_rework_int retry \<and> request = retry) \<and>
     (dget_py p ''trigger'' \<noteq> JStr ''maintainer_retry'' \<or> retry \<noteq> JNull))"

definition valid_rework_requeue_after_completed :: "board \<Rightarrow> string \<Rightarrow> bool" where
  "valid_rework_requeue_after_completed b task_id = (case last_completion b task_id of
      None \<Rightarrow> False
    | Some at \<Rightarrow> (case newest_event (\<lambda>e. rework_kind task_id e \<and> at \<le> e_at e) b of
        None \<Rightarrow> False
      | Some e \<Rightarrow> (case event_dict e of None \<Rightarrow> False | Some p \<Rightarrow> canonical_requeue p)))"

section \<open>The guard\<close>

text \<open>\<open>(rework|...|bounded\s+(developer\s+)?rework|DEV\s+Round|round[-_ ]?\d+)\<close>, in any case.\<close>

definition rework_in_korean :: string where
  "rework_in_korean = map char_of [236 :: nat, 158, 172, 236, 158, 145, 236, 151, 133]"

definition dev_round_at :: "string \<Rightarrow> bool" where
  "dev_round_at t \<longleftrightarrow> starts_with t ''dev'' \<and>
     (let u = drop 3 t; v = dropWhile is_space u in length v < length u \<and> starts_with v ''round'')"

definition round_number_at :: "string \<Rightarrow> bool" where
  "round_number_at t \<longleftrightarrow> starts_with t ''round'' \<and>
     (let u = drop 5 t; v = (case u of [] \<Rightarrow> [] | c # r \<Rightarrow> if c \<in> {CHR ''-'', CHR ''_'', CHR '' ''} then r else u)
      in v \<noteq> [] \<and> is_digit (hd v))"

definition rework_marker :: "string \<Rightarrow> bool" where
  "rework_marker s \<longleftrightarrow> (let low = py_lower s in contains ''rework'' low \<or> contains rework_in_korean s \<or>
     list_ex dev_round_at (suffixes low) \<or> list_ex round_number_at (suffixes low))"

definition intake_marker :: "string \<Rightarrow> bool" where
  "intake_marker s \<longleftrightarrow> contains ''github issue intake'' (py_lower s)"

text \<open>
  The verdict of the core's guard, and the board at each of the two looks (none when reading it fails). A card that
  is not an intake card is let through an open pull request when it is rework or never ran; its title is a column the board of the edge sync does not use.
\<close>

definition check_respawn_guard :: "string option \<Rightarrow> (string \<Rightarrow> string) \<Rightarrow> board option \<Rightarrow> board option \<Rightarrow> string \<Rightarrow> string option" where
  "check_respawn_guard reason title first second task_id =
     (if reason \<in> {Some ''recent_success'', Some ''active_pr''} \<and>
         (case first of None \<Rightarrow> False | Some b \<Rightarrow> valid_rework_requeue_after_completed b task_id) then None
      else if reason = Some ''active_pr'' \<and> (case second of None \<Rightarrow> False | Some b \<Rightarrow> (case task_row task_id b of
          None \<Rightarrow> False
        | Some t \<Rightarrow> \<not> intake_marker (title task_id) \<and> (rework_marker (title task_id @ newline # body_text t) \<or>
            filter (\<lambda>r. run_task r = task_id) (task_runs b) = []))) then None
      else reason)"

section \<open>A finished round\<close>

lemma newest_event_wanted: "newest_event wanted b = Some e \<Longrightarrow> wanted e \<and> e \<in> set (events b)"
proof -
  have "foldl (\<lambda>best e. if \<not> wanted e then best
     else (case best of None \<Rightarrow> Some e | Some x \<Rightarrow> if e_at x \<le> e_at e then Some e else best)) best es = Some e \<Longrightarrow>
    best = Some e \<or> wanted e \<and> e \<in> set es" for best es
    by (induction es arbitrary: best) (fastforce split: if_splits option.splits)+
  then show "newest_event wanted b = Some e \<Longrightarrow> ?thesis" unfolding newest_event_def by blast
qed

text \<open>A run completed after every rework event of its card closes the waiver: the guard's verdict stands.\<close>

lemma completed_round_keeps_guard:
  assumes run: "r \<in> set (task_runs b)" "run_task r = task_id" "run_outcome r = Some ''completed''" "run_ended r = Some t"
    and later: "\<forall>e \<in> set (events b). rework_kind task_id e \<longrightarrow> e_at e < t"
  shows "check_respawn_guard (Some ''recent_success'') title (Some b) second task_id = Some ''recent_success''"
proof -
  let ?ts = "sort (List.map_filter run_ended (filter (\<lambda>r. run_task r = task_id \<and> run_outcome r = Some ''completed'') (task_runs b)))"
  have mem: "t \<in> set ?ts" using run by (force simp: List.map_filter_def)
  then have some: "?ts \<noteq> []" by (metis empty_iff list.set(1))
  define at where "at = last ?ts"
  with some have at: "last_completion b task_id = Some at" by (cases ?ts) (simp_all add: last_completion_def)
  have "sorted (butlast ?ts @ [at])" using some by (simp add: at_def)
  moreover have "t \<in> set (butlast ?ts @ [at])" using mem some by (simp add: at_def del: set_append)
  ultimately have "t \<le> at" by (auto simp: sorted_append)
  then have "\<not> rework_kind task_id e \<or> \<not> at \<le> e_at e" if "e \<in> set (events b)" for e using later that by fastforce
  then have "newest_event (\<lambda>e. rework_kind task_id e \<and> at \<le> e_at e) b = None"
    using newest_event_wanted [of "\<lambda>e. rework_kind task_id e \<and> at \<le> e_at e" b] by (metis not_None_eq)
  then show ?thesis by (simp add: check_respawn_guard_def valid_rework_requeue_after_completed_def at)
qed

end
