(* ===== verification/ActuatorRuns.thy ===== *)
theory ActuatorRuns
  imports PyNumber RouterLiveness RepoRegistry
begin

text \<open>
  The children of the intake actuator (automation/hermes/actuator/github_intake_actuator.py and
  automation/hermes/edge_sync_timeout.py): its token and the one it hands on, the board of a repository, the run of the
  intake, and the run of the edge sync with its deadline, its bound on the output and what it logs of a failure.
\<close>

section \<open>What the actuator is given\<close>

text \<open>
  Outside the model: the token file's attributes and text, environment variables, text files, executability,
  \<open>float\<close>, \<open>json.loads\<close> of a text, UTF-8 decoding with replacement, the resolution of symbolic links (none for an
  error), whether the registry's script loads; and the file system of the boards.
\<close>

datatype token_file = NoTokenFile | TokenFile bool nat int secret_file

record actuator_env =
  ac_token_file :: token_file
  ac_environ :: "(string \<times> string) list"
  ac_read_text :: "string \<Rightarrow> exn + string"
  ac_is_file :: "string \<Rightarrow> bool"
  ac_executable :: "string \<Rightarrow> bool"
  ac_float :: "string \<Rightarrow> exn + number"
  ac_loads :: "string \<Rightarrow> exn + json"
  ac_decode :: "string \<Rightarrow> string"
  ac_resolve :: "path \<Rightarrow> path option"
  ac_registry_loads :: bool
  ac_fs :: fs

definition os_errors :: "exn set" where
  "os_errors = PyError ` {''OSError'', ''FileNotFoundError'', ''PermissionError'', ''SubprocessError''}"

definition value_errors :: "exn set" where
  "value_errors = PyError ` {''ValueError'', ''UnicodeDecodeError'', ''JSONDecodeError''}"

definition TIMEOUT :: exn where
  "TIMEOUT = PyError ''TimeoutExpired''"

definition PYTHON_BIN :: string where
  "PYTHON_BIN = ''/ws/hermes-agent/venv/bin/python3''"

definition INTAKE_SCRIPT :: string where
  "INTAKE_SCRIPT = ''/home/hermes/.hermes/scripts/github-agent-ready-kanban-intake.py''"

definition EDGE_SYNC_SCRIPT :: string where
  "EDGE_SYNC_SCRIPT = ''/home/hermes/.hermes/scripts/kanban-github-sync.py''"

definition REGISTRY_SCRIPT :: string where
  "REGISTRY_SCRIPT = ''/home/hermes/.hermes/scripts/repository_registry.py''"

definition environ_or :: "actuator_env \<Rightarrow> string \<Rightarrow> string \<Rightarrow> string" where
  "environ_or env key d = (case dget (ac_environ env) key of None \<Rightarrow> d | Some v \<Rightarrow> v)"

definition TOKEN_FILE :: "actuator_env \<Rightarrow> string" where
  "TOKEN_FILE env = environ_or env ''HERMES_INTAKE_ACTUATOR_TOKEN_FILE'' ''/home/hermes/.hermes/.control-plane/github-intake-control-token''"

definition KANBAN_BOARDS_ROOT :: "actuator_env \<Rightarrow> path" where
  "KANBAN_BOARDS_ROOT env = parse_path (environ_or env ''HERMES_KANBAN_BOARDS_ROOT'' ''/home/hermes/.hermes/kanban/boards'')"

definition HERMES_AGENT_SOURCE_ROOT :: "actuator_env \<Rightarrow> string" where
  "HERMES_AGENT_SOURCE_ROOT env = (let v = py_strip (environ_or env ''HERMES_AGENT_SOURCE_ROOT'' []) in
     if v = [] then ''/ws/hermes-agent'' else v)"

section \<open>The caller's token\<close>

definition url_safe :: "char \<Rightarrow> bool" where
  "url_safe c \<longleftrightarrow> is_alnum c \<or> c = CHR ''_'' \<or> c = CHR ''-''"

definition token_re :: "string \<Rightarrow> bool" where
  "token_re s \<longleftrightarrow> length s = 43 \<and> list_all url_safe s \<or>
     length s = 64 \<and> list_all (\<lambda>c. is_digit c \<or> (97 \<le> code c \<and> code c \<le> 102)) s"

text \<open>Regular, for the owner only (no bit of 0o077), and not larger than a token.\<close>

definition read_actuator_token :: "token_file \<Rightarrow> string res" where
  "read_actuator_token file = (case file of
      NoTokenFile \<Rightarrow> Inl (PyError ''OSError'')
    | TokenFile regular mode bytes text \<Rightarrow>
        if \<not> regular then Inl (PyError ''ValueError'')
        else if mode mod 64 \<noteq> 0 then Inl (PyError ''ValueError'')
        else if bytes \<le> 0 \<or> 256 < bytes then Inl (PyError ''ValueError'')
        else (case text of
            SecretMissing \<Rightarrow> Inl (PyError ''OSError'')
          | SecretNotUtf8 \<Rightarrow> Inl (PyError ''UnicodeDecodeError'')
          | SecretText s \<Rightarrow> (let token = py_strip s in if token_re token then Inr token else Inl (PyError ''ValueError''))))"

definition actuator_authorized :: "actuator_env \<Rightarrow> string \<Rightarrow> bool" where
  "actuator_authorized env header =
     (if \<not> starts_with header ''Bearer '' then False
      else (let supplied = py_strip (drop 7 header) in
        if \<not> token_re supplied then False
        else (case read_actuator_token (ac_token_file env) of Inl _ \<Rightarrow> False | Inr expected \<Rightarrow> supplied = expected)))"

definition runtime_ready :: "actuator_env \<Rightarrow> bool" where
  "runtime_ready env \<longleftrightarrow> ac_is_file env PYTHON_BIN \<and> ac_executable env PYTHON_BIN \<and> ac_is_file env INTAKE_SCRIPT"

definition edge_runtime_ready :: "actuator_env \<Rightarrow> bool" where
  "edge_runtime_ready env \<longleftrightarrow> ac_is_file env PYTHON_BIN \<and> ac_executable env PYTHON_BIN \<and>
     ac_is_file env EDGE_SYNC_SCRIPT \<and> ac_is_file env REGISTRY_SCRIPT"

section \<open>The GitHub token of a child\<close>

definition unquote :: "string \<Rightarrow> string" where
  "unquote v = (if 2 \<le> length v \<and> hd v = last v \<and> hd v \<in> {CHR 0x27, CHR ''\"''} then butlast (tl v) else v)"

fun env_line_value :: "string \<Rightarrow> string list \<Rightarrow> string" where
  "env_line_value key [] = []"
| "env_line_value key (line # rest) = (let v = py_strip line in
     if v = [] \<or> starts_with v ''#'' \<or> \<not> starts_with v (key @ ''='') then env_line_value key rest
     else py_strip (unquote (py_strip (before_char CHR ''#'' (py_strip (drop (length key + 1) v))))))"

definition env_file_value :: "actuator_env \<Rightarrow> string \<Rightarrow> string \<Rightarrow> string res" where
  "env_file_value env file key = (case ac_read_text env file of
      Inl e \<Rightarrow> if e \<in> os_errors then Inr [] else Inl e
    | Inr text \<Rightarrow> Inr (env_line_value key (py_splitlines text)))"

fun first_environ :: "actuator_env \<Rightarrow> string list \<Rightarrow> string option" where
  "first_environ env [] = None"
| "first_environ env (key # keys) = (let v = py_strip (environ_or env key []) in
     if v \<noteq> [] then Some v else first_environ env keys)"

fun first_env_file :: "actuator_env \<Rightarrow> string list \<Rightarrow> string res" where
  "first_env_file env [] = Inl (RuntimeError ''github_token_unavailable'')"
| "first_env_file env (file # files) = (case env_file_value env file ''GITHUB_TOKEN'' of
     Inl e \<Rightarrow> Inl e
   | Inr v \<Rightarrow> if v \<noteq> [] then Inr v else first_env_file env files)"

definition github_token :: "actuator_env \<Rightarrow> string res" where
  "github_token env = (case first_environ env [''GITHUB_TOKEN'', ''GH_TOKEN'', ''HERMES_GITHUB_TOKEN''] of
      Some v \<Rightarrow> Inr v
    | None \<Rightarrow> first_env_file env [path_str (path_join (parse_path (environ_or env ''HERMES_HOME'' ''/home/hermes/.hermes'')) ''.env''),
        ''/home/hermes/.hermes/.env''])"

section \<open>The board of a repository\<close>

definition actuator_repository_re :: "string \<Rightarrow> bool" where
  "actuator_repository_re s \<longleftrightarrow> (let part = (\<lambda>p. p \<noteq> [] \<and> list_all (\<lambda>c. is_alnum c \<or> c \<in> {CHR ''_'', CHR ''.'', CHR ''-''}) p) in
     CHR ''/'' \<in> set s \<and> part (before_char CHR ''/'' s) \<and> part (after_char CHR ''/'' s))"

definition actuator_board_re :: "string \<Rightarrow> bool" where
  "actuator_board_re s \<longleftrightarrow> (case s of [] \<Rightarrow> False
     | c # rest \<Rightarrow> is_alnum c \<and> length rest \<le> 63 \<and>
         list_all (\<lambda>x. is_alnum x \<or> x \<in> {CHR ''_'', CHR ''.'', CHR ''-''}) rest)"

text \<open>The board cannot be used, for a reason the reply names, or it cannot be found out.\<close>

datatype board_error = BoardRefused string | BoardUnknown

definition registry_board :: "actuator_env \<Rightarrow> string \<Rightarrow> board_error + string option" where
  "registry_board env repository =
     (if \<not> ac_is_file env REGISTRY_SCRIPT \<or> \<not> ac_registry_loads env then Inl BoardUnknown
      else (case kanban_board_repository_evidence (ac_fs env) (KANBAN_BOARDS_ROOT env) of
          Inl _ \<Rightarrow> Inl BoardUnknown
        | Inr evidence \<Rightarrow> Inr (fst (resolve_board repository evidence))))"

definition board_in_root :: "actuator_env \<Rightarrow> string \<Rightarrow> board_error + string" where
  "board_in_root env board =
     (case (ac_resolve env (KANBAN_BOARDS_ROOT env), ac_resolve env (path_join (KANBAN_BOARDS_ROOT env) board)) of
        (Some base, Some board_dir) \<Rightarrow>
          if board_dir\<lparr>p_parts := butlast (p_parts board_dir)\<rparr> \<noteq> base \<or> \<not> fs_is_file (ac_fs env) (path_join board_dir ''kanban.db'')
          then Inl (BoardRefused ''board_unresolved'') else Inr board
      | _ \<Rightarrow> Inl BoardUnknown)"

definition actuator_board :: "actuator_env \<Rightarrow> string \<Rightarrow> board_error + string" where
  "actuator_board env repository =
     (if \<not> actuator_repository_re repository then Inl (BoardRefused ''repository_invalid'')
      else (case registry_board env repository of
          Inl e \<Rightarrow> Inl e
        | Inr None \<Rightarrow> Inl (BoardRefused ''board_unresolved'')
        | Inr (Some board) \<Rightarrow> if board = [] \<or> \<not> actuator_board_re board then Inl (BoardRefused ''board_unresolved'')
            else board_in_root env board))"

section \<open>The deadline of an edge sync\<close>

definition DEFAULT_EDGE_SYNC_TIMEOUT_SECONDS :: rat where
  "DEFAULT_EDGE_SYNC_TIMEOUT_SECONDS = 120"

definition MAX_EDGE_SYNC_TIMEOUT_SECONDS :: rat where
  "MAX_EDGE_SYNC_TIMEOUT_SECONDS = 3600"

definition EDGE_SYNC_OUTPUT_LIMIT_BYTES :: nat where
  "EDGE_SYNC_OUTPUT_LIMIT_BYTES = 64 * 1024"

text \<open>None is the configuration error.\<close>

definition parse_edge_sync_timeout :: "actuator_env \<Rightarrow> string \<Rightarrow> exn + rat option" where
  "parse_edge_sync_timeout env raw = (let value = py_strip raw in
     if value = [] then Inr (Some DEFAULT_EDGE_SYNC_TIMEOUT_SECONDS)
     else (case ac_float env value of
         Inl e \<Rightarrow> if e \<in> PyError ` {''TypeError'', ''ValueError'', ''OverflowError''} then Inr None else Inl e
       | Inr (Finite x) \<Rightarrow> Inr (if x \<le> 0 \<or> MAX_EDGE_SYNC_TIMEOUT_SECONDS < x then None else Some x)
       | Inr _ \<Rightarrow> Inr None))"

definition edge_sync_timeout_seconds :: "actuator_env \<Rightarrow> rat res" where
  "edge_sync_timeout_seconds env = (case parse_edge_sync_timeout env (environ_or env ''HERMES_EDGE_SYNC_TIMEOUT_SECONDS'' []) of
      Inl e \<Rightarrow> Inl e
    | Inr None \<Rightarrow> Inl (RuntimeError ''edge_timeout_invalid'')
    | Inr (Some x) \<Rightarrow> Inr x)"

section \<open>Children\<close>

definition child_environ :: "actuator_env \<Rightarrow> (string \<times> string) list \<Rightarrow> (string \<times> string) list" where
  "child_environ env extra = foldl (\<lambda>d (k, v). dset k v d) (ac_environ env)
     ([(''HOME'', ''/home/hermes''), (''HERMES_HOME'', ''/home/hermes/.hermes''),
       (''PATH'', ''/opt/venv/bin:/home/hermes/.local/bin:/usr/local/bin:/usr/bin:/bin''),
       (''PYTHONPATH'', HERMES_AGENT_SOURCE_ROOT env), (''PYTHONDONTWRITEBYTECODE'', ''1'')] @ extra)"

record command =
  cmd_args :: "string list"
  cmd_environ :: "(string \<times> string) list"

datatype effect = Spawned command | KillSent | Logged string

definition intake_command :: "actuator_env \<Rightarrow> string \<Rightarrow> command" where
  "intake_command env token = \<lparr>cmd_args = [PYTHON_BIN, INTAKE_SCRIPT],
     cmd_environ = child_environ env [(''GITHUB_TOKEN'', token), (''HERMES_INTAKE_SCOPE_TOKEN_FILE'', TOKEN_FILE env)]\<rparr>"

definition edge_command :: "actuator_env \<Rightarrow> string \<Rightarrow> string \<Rightarrow> command" where
  "edge_command env token board = \<lparr>cmd_args = [PYTHON_BIN, EDGE_SYNC_SCRIPT, ''--board'', board, ''--json''],
     cmd_environ = child_environ env [(''GITHUB_TOKEN'', token), (''HERMES_KANBAN_REWORK_DISPATCH'', ''1'')]\<rparr>"

text \<open>
  A child, as the operating system shows it: the error of starting it, what each \<open>select\<close> reports and the
  microseconds it takes (the bytes read from a stream, or none when reading fails), the answer of
  waiting for it (its exit code), and whether it has ended at each poll. \<open>subprocess.run\<close> is one answer.
\<close>

datatype stream = Stdout | Stderr

record child =
  ch_spawn :: "exn option"
  ch_select :: "nat \<Rightarrow> exn + (stream \<times> string option) list"
  ch_passed :: "nat \<Rightarrow> nat"
  ch_exit :: "exn + int"
  ch_ended :: "nat \<Rightarrow> bool"
  ch_run :: "exn + int"

record child_world =
  k_now :: rat
  k_selects :: nat
  k_polls :: nat
  k_effects :: "effect list"

definition effect :: "effect \<Rightarrow> child_world \<Rightarrow> child_world" where
  "effect e k = k\<lparr>k_effects := k_effects k @ [e]\<rparr>"

definition run_intake :: "actuator_env \<Rightarrow> child \<Rightarrow> child_world \<Rightarrow> int res \<times> child_world" where
  "run_intake env ch k =
     (if \<not> runtime_ready env then (Inl (RuntimeError ''intake_runtime_unavailable''), k)
      else (case github_token env of
          Inl e \<Rightarrow> (Inl e, k)
        | Inr token \<Rightarrow> (ch_run ch, effect (Spawned (intake_command env token)) k)))"

section \<open>Reading an edge sync\<close>

definition stop_edge_process :: "child \<Rightarrow> child_world \<Rightarrow> child_world" where
  "stop_edge_process ch k = (let ended = ch_ended ch (k_polls k); k = k\<lparr>k_polls := k_polls k + 1\<rparr> in
     if ended then k else effect KillSent k)"

record drain =
  d_out :: string
  d_err :: string
  d_bytes :: nat
  d_open :: "stream list"

definition output_limit :: exn where
  "output_limit = RuntimeError ''edge_sync_output_limit''"

fun drain_events :: "(stream \<times> string option) list \<Rightarrow> drain \<Rightarrow> drain res" where
  "drain_events [] d = Inr d"
| "drain_events ((s, got) # rest) d =
     (if s \<notin> set (d_open d) then drain_events rest d
      else (case got of
          None \<Rightarrow> Inl (PyError ''OSError'')
        | Some data \<Rightarrow>
            if data = [] then drain_events rest (d\<lparr>d_open := removeAll s (d_open d)\<rparr>)
            else if EDGE_SYNC_OUTPUT_LIMIT_BYTES < d_bytes d + length data then Inl output_limit
            else drain_events rest (case s of
                Stdout \<Rightarrow> d\<lparr>d_out := d_out d @ data, d_bytes := d_bytes d + length data\<rparr>
              | Stderr \<Rightarrow> d\<lparr>d_err := d_err d @ data, d_bytes := d_bytes d + length data\<rparr>)))"

text \<open>Only registered streams are reported; each report closes one or takes from what the limit leaves.\<close>

definition selected :: "child \<Rightarrow> drain \<Rightarrow> child_world \<Rightarrow> exn + (stream \<times> string option) list" where
  "selected ch d k = map_sum id (filter (\<lambda>(s, _). s \<in> set (d_open d))) (ch_select ch (k_selects k))"

definition tick :: "child \<Rightarrow> child_world \<Rightarrow> child_world" where
  "tick ch k = k\<lparr>k_now := k_now k + of_nat (ch_passed ch (k_selects k)) / 1000000, k_selects := k_selects k + 1\<rparr>"

definition room :: "drain \<Rightarrow> nat" where
  "room d = (EDGE_SYNC_OUTPUT_LIMIT_BYTES - d_bytes d) + length (d_open d)"

lemma drain_events_room: "drain_events evs d = Inr d' \<Longrightarrow> room d' \<le> room d"
proof (induction evs d rule: drain_events.induct)
  case (2 s got rest d)
  have closed: "room (d\<lparr>d_open := removeAll s (d_open d)\<rparr>) \<le> room d" by (simp add: room_def length_removeAll_less_eq)
  have read: "room (d\<lparr>d_out := x, d_bytes := d_bytes d + n\<rparr>) \<le> room d" "room (d\<lparr>d_err := x, d_bytes := d_bytes d + n\<rparr>) \<le> room d" for x n
    by (simp_all add: room_def)
  show ?case using 2 by (auto split: if_splits option.splits stream.splits intro: order_trans [OF _ closed] order_trans [OF _ read(1)] order_trans [OF _ read(2)])
qed simp

lemma drain_events_progress:
  assumes "drain_events ((s, got) # rest) d = Inr d'" and s: "s \<in> set (d_open d)"
  shows "room d' < room d"
proof (cases got)
  case (Some data)
  have shorter: "length (removeAll s (d_open d)) < length (d_open d)" using s by (simp add: length_removeAll_less)
  show ?thesis
  proof (cases "data = []")
    case True
    with assms Some have "drain_events rest (d\<lparr>d_open := removeAll s (d_open d)\<rparr>) = Inr d'" by simp
    from drain_events_room [OF this] shorter show ?thesis by (simp add: room_def)
  next
    case False
    let ?d = "case s of Stdout \<Rightarrow> d\<lparr>d_out := d_out d @ data, d_bytes := d_bytes d + length data\<rparr>
      | Stderr \<Rightarrow> d\<lparr>d_err := d_err d @ data, d_bytes := d_bytes d + length data\<rparr>"
    from False assms Some have fits: "d_bytes d + length data \<le> EDGE_SYNC_OUTPUT_LIMIT_BYTES" and rest: "drain_events rest ?d = Inr d'"
      by (auto split: if_splits)
    obtain n where "length data = Suc n" using False by (cases data) auto
    with fits have "room ?d < room d" by (cases s) (auto simp: room_def)
    with drain_events_room [OF rest] show ?thesis by simp
  qed
qed (use assms in simp)

function drain_loop :: "child \<Rightarrow> rat \<Rightarrow> drain \<Rightarrow> child_world \<Rightarrow> drain res \<times> child_world" where
  "drain_loop ch deadline d k =
     (if d_open d = [] then (Inr d, k)
      else if deadline \<le> k_now k then (Inl TIMEOUT, stop_edge_process ch k)
      else (case selected ch d k of
          Inl e \<Rightarrow> (Inl e, tick ch k)
        | Inr [] \<Rightarrow> (Inl TIMEOUT, stop_edge_process ch (tick ch k))
        | Inr (ev # evs) \<Rightarrow> (case drain_events (ev # evs) d of
            Inl e \<Rightarrow> (Inl e, if e = output_limit then stop_edge_process ch (tick ch k) else tick ch k)
          | Inr d \<Rightarrow> drain_loop ch deadline d (tick ch k))))"
  by pat_completeness auto
termination
proof (relation "measure (\<lambda>(ch, deadline, d, k). room d)", goal_cases)
  case (2 ch deadline d k evs' ev evs d')
  obtain s got where ev: "ev = (s, got)" by force
  obtain reported where "filter (\<lambda>(s, _). s \<in> set (d_open d)) reported = (s, got) # evs"
    using 2(3) 2(4) ev by (cases "ch_select ch (k_selects k)") (auto simp: selected_def)
  then have "(s, got) \<in> set (filter (\<lambda>(s, _). s \<in> set (d_open d)) reported)" by simp
  then have "s \<in> set (d_open d)" by simp
  with 2 ev drain_events_progress [of s got evs d d'] show ?case by simp
qed simp

declare drain_loop.simps [simp del]

section \<open>The run of an edge sync\<close>

text \<open>An error of the operating system or the deadline stops the child once more.\<close>

definition stop_on :: "child \<Rightarrow> exn \<Rightarrow> child_world \<Rightarrow> child_world" where
  "stop_on ch e k = (if e \<in> insert TIMEOUT (PyError ` {''OSError'', ''FileNotFoundError'', ''PermissionError''}) then stop_edge_process ch k else k)"

definition await_child :: "child \<Rightarrow> rat \<Rightarrow> drain \<Rightarrow> child_world \<Rightarrow> (drain \<times> int) res \<times> child_world" where
  "await_child ch deadline d k =
     (case drain_loop ch deadline d k of
        (Inl e, k) \<Rightarrow> (Inl e, stop_on ch e k)
      | (Inr d, k) \<Rightarrow>
          if deadline \<le> k_now k then (Inl TIMEOUT, stop_on ch TIMEOUT (stop_edge_process ch k))
          else (case ch_exit ch of
              Inl e \<Rightarrow> (Inl e, stop_on ch e k)
            | Inr status \<Rightarrow> (Inr (d, status), k)))"

definition MAX_EDGE_SYNC_DIAGNOSTIC_BYTES :: nat where
  "MAX_EDGE_SYNC_DIAGNOSTIC_BYTES = 4096"

text \<open>\<open>str.replace\<close>, for a pattern that is not empty.\<close>

function py_replace :: "string \<Rightarrow> string \<Rightarrow> string \<Rightarrow> string" where
  "py_replace old new s = (if old \<noteq> [] \<and> starts_with s old then new @ py_replace old new (drop (length old) s)
     else (case s of [] \<Rightarrow> [] | c # t \<Rightarrow> c # py_replace old new t))"
  by pat_completeness auto
termination
proof (relation "measure (\<lambda>(old, new, s). length s)", goal_cases)
  case (2 old new s)
  then show ?case by (cases s; cases old) (auto simp: starts_with_def)
qed simp_all

declare py_replace.simps [simp del]

definition REDACTED :: string where
  "REDACTED = ''[REDACTED_GITHUB_TOKEN]''"

definition edge_sync_failure_diagnostic :: "actuator_env \<Rightarrow> string \<Rightarrow> string \<Rightarrow> string" where
  "edge_sync_failure_diagnostic env raw_stderr token =
     (if raw_stderr = [] then []
      else (let text = py_strip (ac_decode env (last_n (int MAX_EDGE_SYNC_DIAGNOSTIC_BYTES) raw_stderr)) in
        if token \<noteq> [] then py_replace token REDACTED text else text))"

definition failure_line :: "string \<Rightarrow> int \<Rightarrow> string \<Rightarrow> string" where
  "failure_line board status diagnostic = ''[github-intake-actuator] edge-sync child failed board='' @ board @
     '' returncode='' @ int_str status @ ''; stderr_tail='' @ diagnostic"

definition edge_results :: "actuator_env \<Rightarrow> string \<Rightarrow> json list res" where
  "edge_results env raw_output = (case ac_loads env raw_output of
      Inl e \<Rightarrow> Inl (if e \<in> PyError ` {''JSONDecodeError'', ''UnicodeDecodeError''} then RuntimeError ''edge_sync_output_invalid'' else e)
    | Inr (JArr items) \<Rightarrow> if list_all is_obj items then Inr items else Inl (RuntimeError ''edge_sync_output_invalid'')
    | Inr _ \<Rightarrow> Inl (RuntimeError ''edge_sync_output_invalid''))"

definition judge_child :: "actuator_env \<Rightarrow> string \<Rightarrow> string \<Rightarrow> drain \<times> int \<Rightarrow> child_world \<Rightarrow> json list res \<times> child_world" where
  "judge_child env token board outcome k = (case outcome of (d, status) \<Rightarrow>
     if status \<noteq> 0 then
       (let diagnostic = edge_sync_failure_diagnostic env (d_err d) token in
        (Inl (RuntimeError ''edge_sync_command_failed''),
         if diagnostic \<noteq> [] then effect (Logged (failure_line board status diagnostic)) k else k))
     else (edge_results env (d_out d), k))"

definition run_edge_sync :: "actuator_env \<Rightarrow> child \<Rightarrow> string \<Rightarrow> child_world \<Rightarrow> json list res \<times> child_world" where
  "run_edge_sync env ch board k =
     (case edge_sync_timeout_seconds env of
        Inl e \<Rightarrow> (Inl e, k)
      | Inr seconds \<Rightarrow>
          if \<not> edge_runtime_ready env then (Inl (RuntimeError ''edge_sync_runtime_unavailable''), k)
          else (case github_token env of
              Inl e \<Rightarrow> (Inl e, k)
            | Inr token \<Rightarrow> (case ch_spawn ch of
                Some e \<Rightarrow> (Inl (if e \<in> os_errors \<union> value_errors then RuntimeError ''edge_sync_spawn_failed'' else e), k)
              | None \<Rightarrow>
                  (let k = effect (Spawned (edge_command env token board)) k;
                       d = \<lparr>d_out = [], d_err = [], d_bytes = 0, d_open = [Stdout, Stderr]\<rparr>
                   in case await_child ch (k_now k + seconds) d k of
                        (Inl e, k) \<Rightarrow> (Inl e, k)
                      | (Inr outcome, k) \<Rightarrow> judge_child env token board outcome k))))"

end
