(* ===== verification/ActuatorHandler.thy ===== *)
theory ActuatorHandler
  imports ActuatorRuns RouterHandler
begin

text \<open>
  The requests of the intake actuator (automation/hermes/actuator/github_intake_actuator.py): what a request asks for and
  who may ask, the lock that lets one child run at a time, and the replies. A request is two steps, up to the lock and
  after its child, so requests interleave.
\<close>

section \<open>Up to the lock\<close>

datatype work = IntakeRun | EdgeRun string

text \<open>A reply is sent at once, or there is work to do.\<close>

type_synonym asked = "reply + work"

definition content_length :: "request \<Rightarrow> int" where
  "content_length req = (case parse_int (header_or (r_content_length req) ''0'') of None \<Rightarrow> -1 | Some n \<Rightarrow> n)"

definition MAX_EDGE_SYNC_BODY_BYTES :: int where
  "MAX_EDGE_SYNC_BODY_BYTES = 16 * 1024"

definition intake_asked :: "request \<Rightarrow> asked" where
  "intake_asked req = (if content_length req \<noteq> 0 then Inl (error_reply 400 ''request_body_not_allowed'') else Inr IntakeRun)"

definition edge_payload_keys :: "string list" where
  "edge_payload_keys = [''repository'', ''event'', ''action'', ''merged'', ''label'', ''delivery'']"

text \<open>The checked fields of a payload: its repository, action, merge flag and label.\<close>

definition edge_fields :: "dict \<Rightarrow> (string \<times> string \<times> bool \<times> string) option" where
  "edge_fields payload =
     (if set (keys_of payload) \<noteq> set edge_payload_keys then None
      else (case (dget_py payload ''repository'', dget_py payload ''action'', dget_py payload ''merged'',
          dget_py payload ''label'', dget_py payload ''delivery'') of
          (JStr repository, JStr action, JBool merged, JStr label, JStr delivery) \<Rightarrow>
            if actuator_repository_re repository \<and> dget_py payload ''event'' = JStr ''pull_request'' \<and> action_re action \<and>
              length label \<le> 128 \<and> delivery_id_re delivery
            then Some (repository, action, merged, label) else None
        | _ \<Rightarrow> None))"

definition edge_allowed :: "string \<Rightarrow> bool \<Rightarrow> string \<Rightarrow> bool" where
  "edge_allowed action merged label \<longleftrightarrow> action = ''closed'' \<and> merged \<or> action = ''labeled'' \<and> label = ''agent-rework''"

definition edge_ignored :: reply where
  "edge_ignored = Reply 202 [(''ok'', JBool True), (''ignored'', JBool True), (''reason'', JStr ''unsupported_pull_request_action'')]"

definition edge_payload_asked :: "actuator_env \<Rightarrow> dict \<Rightarrow> asked" where
  "edge_payload_asked env payload = (case edge_fields payload of
      None \<Rightarrow> Inl (error_reply 400 ''request_schema_invalid'')
    | Some (repository, action, merged, label) \<Rightarrow>
        if \<not> edge_allowed action merged label then Inl edge_ignored
        else (case actuator_board env repository of
            Inl (BoardRefused m) \<Rightarrow> Inl (error_reply 409 m)
          | Inl BoardUnknown \<Rightarrow> Inl (error_reply 502 ''board_resolution_failed'')
          | Inr board \<Rightarrow> Inr (EdgeRun board)))"

definition edge_sync_asked :: "actuator_env \<Rightarrow> request \<Rightarrow> asked res" where
  "edge_sync_asked env req = (let n = content_length req in
     if n \<le> 0 \<or> MAX_EDGE_SYNC_BODY_BYTES < n then Inr (Inl (error_reply 400 ''invalid_request_body''))
     else (case ac_loads env (take (nat n) (r_body req)) of
         Inl e \<Rightarrow> if e \<in> PyError ` {''JSONDecodeError'', ''UnicodeDecodeError''} then Inr (Inl (error_reply 400 ''invalid_json'')) else Inl e
       | Inr (JObj payload) \<Rightarrow> Inr (edge_payload_asked env payload)
       | Inr _ \<Rightarrow> Inr (Inl (error_reply 400 ''request_must_be_object''))))"

definition post_asked :: "actuator_env \<Rightarrow> request \<Rightarrow> asked res" where
  "post_asked env req =
     (if r_path req \<notin> {''/v1/intake'', ''/v1/edge-sync''} then Inr (Inl (error_reply 404 ''not_found''))
      else if \<not> actuator_authorized env (py_strip (header_or (r_authorization req) [])) then Inr (Inl (error_reply 401 ''unauthorized''))
      else if r_path req = ''/v1/intake'' then Inr (intake_asked req)
      else edge_sync_asked env req)"

section \<open>After the lock\<close>

fun busy_reply :: "work \<Rightarrow> reply" where
  "busy_reply IntakeRun = error_reply 409 ''intake_busy''"
| "busy_reply (EdgeRun _) = error_reply 409 ''edge_sync_busy''"

fun is_runtime :: "exn \<Rightarrow> bool" where
  "is_runtime (RuntimeError _) = True"
| "is_runtime (PyError name) = (name = ''RecursionError'')"
| "is_runtime _ = False"

definition intake_reply :: "int res \<Rightarrow> reply res" where
  "intake_reply r = (case r of
      Inl e \<Rightarrow>
        if e = TIMEOUT then Inr (error_reply 504 ''intake_timeout'')
        else if is_runtime e \<or> e \<in> os_errors then Inr (error_reply 502 ''intake_execution_failed'')
        else Inl e
    | Inr status \<Rightarrow>
        if status \<noteq> 0 then Inr (Reply 502 [(''ok'', JBool False), (''error'', JStr ''intake_failed''), (''returncode'', JInt status)])
        else Inr (Reply 200 [(''ok'', JBool True), (''returncode'', JInt 0)]))"

definition edge_sync_error_code :: "exn \<Rightarrow> string" where
  "edge_sync_error_code e = (case e of
      RuntimeError m \<Rightarrow> if m \<in> {''edge_sync_output_limit'', ''edge_timeout_invalid''} then m else ''edge_sync_execution_failed''
    | _ \<Rightarrow> ''edge_sync_execution_failed'')"

definition edge_reply :: "string \<Rightarrow> json list res \<Rightarrow> reply res" where
  "edge_reply board r = (case r of
      Inl e \<Rightarrow>
        if e = TIMEOUT then Inr (error_reply 504 ''edge_sync_timeout'')
        else if is_runtime e then Inr (error_reply 502 (edge_sync_error_code e))
        else if e \<in> os_errors then Inr (error_reply 502 ''edge_sync_execution_failed'')
        else Inl e
    | Inr results \<Rightarrow> Inr (Reply 200 [(''ok'', JBool True), (''board'', JStr board), (''returncode'', JInt 0), (''results'', JArr results)]))"

definition perform :: "actuator_env \<Rightarrow> child \<Rightarrow> work \<Rightarrow> child_world \<Rightarrow> reply res \<times> child_world" where
  "perform env ch job k = (case job of
      IntakeRun \<Rightarrow> (case run_intake env ch k of (r, k) \<Rightarrow> (intake_reply r, k))
    | EdgeRun board \<Rightarrow> (case run_edge_sync env ch board k of (r, k) \<Rightarrow> (edge_reply board r, k)))"

section \<open>Interleaved requests\<close>

text \<open>The lock, the work in progress, and what was done so far: replies, escaped errors, and the effects of children.\<close>

datatype event = Answered reply | Raised_out exn | Entered actuator_env request work | Ended work "effect list" "reply res"

record actuator =
  a_locked :: bool
  a_working :: "work list"
  a_events :: "event list"

definition log :: "event \<Rightarrow> actuator \<Rightarrow> actuator" where
  "log e s = s\<lparr>a_events := a_events s @ [e]\<rparr>"

text \<open>\<open>do_POST\<close> up to the lock, which is taken at once or not at all.\<close>

definition arrive :: "actuator_env \<Rightarrow> request \<Rightarrow> actuator \<Rightarrow> actuator" where
  "arrive env req s = (case post_asked env req of
      Inl e \<Rightarrow> log (Raised_out e) s
    | Inr (Inl reply) \<Rightarrow> log (Answered reply) s
    | Inr (Inr job) \<Rightarrow>
        if a_locked s then log (Answered (busy_reply job)) s
        else log (Entered env req job) (s\<lparr>a_locked := True, a_working := job # a_working s\<rparr>))"

text \<open>The rest of the request; the lock is released however the child's run ends.\<close>

definition depart :: "actuator_env \<Rightarrow> child \<Rightarrow> rat \<Rightarrow> work \<Rightarrow> actuator \<Rightarrow> actuator" where
  "depart env ch now job s =
     (case perform env ch job \<lparr>k_now = now, k_selects = 0, k_polls = 0, k_effects = []\<rparr> of (r, k) \<Rightarrow>
        log (Ended job (k_effects k) r) (s\<lparr>a_locked := False, a_working := remove1 job (a_working s)\<rparr>))"

inductive act_step :: "actuator \<Rightarrow> actuator \<Rightarrow> bool" where
  arrives: "act_step s (arrive env req s)"
| departs: "job \<in> set (a_working s) \<Longrightarrow> act_step s (depart env ch now job s)"

inductive_cases act_stepE: "act_step s s'"

definition idle_actuator :: actuator where
  "idle_actuator = \<lparr>a_locked = False, a_working = [], a_events = []\<rparr>"

definition act_reachable :: "actuator \<Rightarrow> bool" where
  "act_reachable s \<longleftrightarrow> act_step\<^sup>*\<^sup>* idle_actuator s"

section \<open>Health\<close>

definition actuator_GET :: "actuator_env \<Rightarrow> request \<Rightarrow> bool \<Rightarrow> reply" where
  "actuator_GET env req busy =
     (if r_path req \<noteq> ''/healthz'' then error_reply 404 ''not_found''
      else Reply 200 [(''ok'', JBool True), (''service'', JStr ''hermes-github-intake-actuator''),
        (''token_ready'', JBool (case read_actuator_token (ac_token_file env) of Inl _ \<Rightarrow> False | Inr t \<Rightarrow> t \<noteq> [])),
        (''runtime_ready'', JBool (runtime_ready env)), (''edge_sync_runtime_ready'', JBool (edge_runtime_ready env)),
        (''busy'', JBool busy)])"

text \<open>\<open>main\<close> refuses to start without a token and the intake's runtime.\<close>

definition actuator_main :: "actuator_env \<Rightarrow> actuator res" where
  "actuator_main env = (case read_actuator_token (ac_token_file env) of
      Inl e \<Rightarrow> Inl e
    | Inr _ \<Rightarrow> if \<not> runtime_ready env then Inl (PyError ''SystemExit'') else Inr idle_actuator)"

end
