(* ===== verification/ActuatorGuarantees.thy ===== *)
theory ActuatorGuarantees
  imports ActuatorHandler
begin

text \<open>
  What the intake actuator promises: one child at a time, only for who may ask and for a board the registry resolved;
  every event the router sends is understood; a child of the edge sync is read within bounds and never left behind;
  its failure is logged without the GitHub token.
\<close>

section \<open>One child at a time\<close>

text \<open>The work under way after a sequence of events, none at the end of a sequence that does not alternate.\<close>

fun serial :: "work option \<Rightarrow> event list \<Rightarrow> work option option" where
  "serial cur [] = Some cur"
| "serial cur (Entered env req job # es) = (if cur = None then serial (Some job) es else None)"
| "serial cur (Ended job effects r # es) = (if cur = Some job then serial None es else None)"
| "serial cur (Answered reply # es) = serial cur es"
| "serial cur (Raised_out e # es) = serial cur es"

lemma serial_append: "serial cur (es @ es') = (case serial cur es of None \<Rightarrow> None | Some cur' \<Rightarrow> serial cur' es')"
  by (induction cur es rule: serial.induct) auto

definition working :: "actuator \<Rightarrow> work option" where
  "working s = (case a_working s of [] \<Rightarrow> None | job # _ \<Rightarrow> Some job)"

text \<open>The token in the header is the one in the file.\<close>

definition knows_token :: "actuator_env \<Rightarrow> request \<Rightarrow> bool" where
  "knows_token env req \<longleftrightarrow> (\<exists>token. read_actuator_token (ac_token_file env) = Inr token \<and> token_re token \<and>
     starts_with (py_strip (header_or (r_authorization req) [])) ''Bearer '' \<and>
     py_strip (drop 7 (py_strip (header_or (r_authorization req) []))) = token)"

definition may_start :: "actuator_env \<Rightarrow> request \<Rightarrow> work \<Rightarrow> bool" where
  "may_start env req job \<longleftrightarrow> knows_token env req \<and> (case job of
      IntakeRun \<Rightarrow> r_path req = ''/v1/intake'' \<and> content_length req = 0
    | EdgeRun board \<Rightarrow> r_path req = ''/v1/edge-sync'' \<and> actuator_board_re board \<and>
        (\<exists>payload repository action merged label. ac_loads env (take (nat (content_length req)) (r_body req)) = Inr (JObj payload) \<and>
          edge_fields payload = Some (repository, action, merged, label) \<and> edge_allowed action merged label \<and>
          actuator_board env repository = Inr board))"

lemma authorized_knows: "actuator_authorized env (py_strip (header_or (r_authorization req) [])) \<Longrightarrow> knows_token env req"
  by (auto simp: actuator_authorized_def knows_token_def Let_def split: if_splits sum.splits)

lemma board_checked: "actuator_board env repository = Inr board \<Longrightarrow> actuator_board_re board"
  by (auto simp: actuator_board_def board_in_root_def split: if_splits sum.splits option.splits)

lemma asked_may_start: "post_asked env req = Inr (Inr job) \<Longrightarrow> may_start env req job"
  by (auto simp: post_asked_def may_start_def intake_asked_def edge_sync_asked_def edge_payload_asked_def Let_def
      dest!: authorized_knows split: if_splits sum.splits json.splits option.splits board_error.splits)
    (erule board_checked)

text \<open>The one command a piece of work may start.\<close>

definition child_of :: "work \<Rightarrow> effect list \<Rightarrow> bool" where
  "child_of job effects \<longleftrightarrow> (\<forall>c. Spawned c \<in> set effects \<longrightarrow> (\<exists>env token. c = (case job of
     IntakeRun \<Rightarrow> intake_command env token | EdgeRun board \<Rightarrow> edge_command env token board))) \<and>
     length (filter (\<lambda>e. case e of Spawned _ \<Rightarrow> True | _ \<Rightarrow> False) effects) \<le> 1"

definition orderly :: "actuator \<Rightarrow> bool" where
  "orderly s \<longleftrightarrow> length (a_working s) \<le> 1 \<and> (a_locked s \<longleftrightarrow> a_working s \<noteq> []) \<and> serial None (a_events s) = Some (working s) \<and>
     (\<forall>e \<in> set (a_events s). case e of
        Entered env req job \<Rightarrow> may_start env req job
      | Ended job effects r \<Rightarrow> child_of job effects
      | _ \<Rightarrow> True)"

lemma arrive_orderly: "orderly s \<Longrightarrow> orderly (arrive env req s)"
  using asked_may_start [of env req]
  by (auto simp: arrive_def orderly_def log_def working_def serial_append split: sum.split list.split_asm)

section \<open>What a child leaves\<close>

text \<open>The effects after those there were.\<close>

definition adds :: "child_world \<Rightarrow> child_world \<Rightarrow> effect list \<Rightarrow> bool" where
  "adds k k' es \<longleftrightarrow> k_effects k' = k_effects k @ es"

definition unspawned :: "effect list \<Rightarrow> bool" where
  "unspawned es \<longleftrightarrow> (\<forall>e \<in> set es. case e of Spawned _ \<Rightarrow> False | _ \<Rightarrow> True)"

definition quiet :: "child_world \<Rightarrow> child_world \<Rightarrow> bool" where
  "quiet k k' \<longleftrightarrow> (\<exists>es. adds k k' es \<and> unspawned es)"

lemma quiet_refl [simp]: "quiet k k" by (auto simp: quiet_def adds_def unspawned_def)

lemma quiet_trans: "quiet k k' \<Longrightarrow> quiet k' k'' \<Longrightarrow> quiet k k''"
  by (fastforce simp: quiet_def adds_def unspawned_def)

lemma quiet_tick [simp]: "quiet k (tick ch k)" by (auto simp: quiet_def adds_def unspawned_def tick_def)

lemma quiet_stop [simp]: "quiet k (stop_edge_process ch k)"
  by (auto simp: quiet_def adds_def unspawned_def stop_edge_process_def effect_def Let_def)

lemma quiet_stop_on [simp]: "quiet k (stop_on ch e k)" by (simp add: stop_on_def)

lemma quiet_tick_stop [simp]: "quiet k (stop_edge_process ch (tick ch k))" "quiet k (stop_on ch e (stop_edge_process ch k))"
  by (rule quiet_trans [OF quiet_tick quiet_stop]) (rule quiet_trans [OF quiet_stop quiet_stop_on])

lemma quiet_drain: "quiet k (snd (drain_loop ch deadline d k))"
proof (induction ch deadline d k rule: drain_loop.induct)
  case (1 ch deadline d k)
  have "quiet k (snd (drain_loop ch deadline d' (tick ch k)))"
    if "selected ch d k = Inr (ev # evs)" "drain_events (ev # evs) d = Inr d'" "d_open d \<noteq> []" "\<not> deadline \<le> k_now k" for ev evs d'
    using 1 that quiet_trans [OF quiet_tick] by blast
  then show ?case
    by (subst drain_loop.simps) (auto split: sum.split list.split simp del: drain_events.simps)
qed

lemma quiet_await: "quiet k (snd (await_child ch deadline d k))"
proof -
  obtain r k' where r: "drain_loop ch deadline d k = (r, k')" by (rule prod.exhaust)
  then have "quiet k k'" using quiet_drain [of k ch deadline d] by simp
  moreover have "quiet k' (stop_on ch TIMEOUT (stop_edge_process ch k'))" by simp
  ultimately show ?thesis by (auto simp: await_child_def r split: sum.split intro: quiet_trans)
qed

lemma quiet_judge: "quiet k (snd (judge_child env token board outcome k))"
  by (auto simp: judge_child_def Let_def effect_def quiet_def adds_def unspawned_def split: prod.split)

text \<open>Nothing was started, or the one command, and what followed it is the run of the child.\<close>

definition fresh_drain :: drain where
  "fresh_drain = \<lparr>d_out = [], d_err = [], d_bytes = 0, d_open = [Stdout, Stderr]\<rparr>"

definition started_run :: "actuator_env \<Rightarrow> child \<Rightarrow> string \<Rightarrow> string \<Rightarrow> rat \<Rightarrow> child_world \<Rightarrow> json list res \<times> child_world" where
  "started_run env ch board token seconds k = (let k = effect (Spawned (edge_command env token board)) k in
     case await_child ch (k_now k + seconds) fresh_drain k of
       (Inl e, k) \<Rightarrow> (Inl e, k)
     | (Inr outcome, k) \<Rightarrow> judge_child env token board outcome k)"

lemma run_edge_sync_cases:
  "(\<exists>e. run_edge_sync env ch board k = (Inl e, k)) \<or>
   (\<exists>token seconds. run_edge_sync env ch board k = started_run env ch board token seconds k)"
  by (auto simp: run_edge_sync_def started_run_def fresh_drain_def Let_def split: sum.split option.split)

lemma started_quiet: "quiet (effect (Spawned (edge_command env token board)) k) (snd (started_run env ch board token seconds k))"
proof -
  let ?k = "effect (Spawned (edge_command env token board)) k"
  obtain r k' where r: "await_child ch (k_now ?k + seconds) fresh_drain ?k = (r, k')" by (rule prod.exhaust)
  then have "quiet ?k k'" by (metis quiet_await snd_conv)
  with r show ?thesis by (auto simp: started_run_def Let_def split: sum.split intro: quiet_trans quiet_judge)
qed

lemma child_of_simps [simp]: "child_of job []"
    "unspawned es \<Longrightarrow> child_of (EdgeRun board) (Spawned (edge_command env token board) # es)"
    "child_of IntakeRun [Spawned (intake_command env token)]"
proof -
  have "filter (\<lambda>e. case e of Spawned _ \<Rightarrow> True | _ \<Rightarrow> False) es = []" if "unspawned es"
    using that by (force simp: unspawned_def filter_empty_conv split: effect.splits)
  then show "unspawned es \<Longrightarrow> child_of (EdgeRun board) (Spawned (edge_command env token board) # es)"
    by (auto simp: child_of_def unspawned_def)
qed (auto simp: child_of_def)

lemma perform_child:
  assumes "perform env ch job \<lparr>k_now = now, k_selects = 0, k_polls = 0, k_effects = []\<rparr> = (r, k)"
  shows "child_of job (k_effects k)"
proof (cases job)
  case IntakeRun
  with assms show ?thesis
    by (auto simp: perform_def run_intake_def effect_def split: prod.splits if_splits sum.splits)
next
  case (EdgeRun board)
  let ?k = "\<lparr>k_now = now, k_selects = 0, k_polls = 0, k_effects = []\<rparr>"
  have "k = snd (run_edge_sync env ch board ?k)" using assms EdgeRun by (auto simp: perform_def split: prod.splits)
  with run_edge_sync_cases [of env ch board ?k] consider "k = ?k"
    | token seconds where "k = snd (started_run env ch board token seconds ?k)" by auto
  then show ?thesis
  proof cases
    case 2
    with started_quiet [of env token board ?k ch seconds] EdgeRun show ?thesis by (auto simp: quiet_def adds_def effect_def)
  qed (use EdgeRun in simp)
qed

lemma depart_orderly:
  assumes "orderly s" and "job \<in> set (a_working s)"
  shows "orderly (depart env ch now job s)"
proof -
  have one: "a_working s = [job]" using assms by (cases "a_working s") (auto simp: orderly_def)
  obtain r k where r: "perform env ch job \<lparr>k_now = now, k_selects = 0, k_polls = 0, k_effects = []\<rparr> = (r, k)" by (rule prod.exhaust)
  from assms(1) perform_child [OF r] show ?thesis
    by (simp add: depart_def r log_def orderly_def one working_def serial_append)
qed

lemma reachable_orderly: "act_reachable s \<Longrightarrow> orderly s"
  unfolding act_reachable_def
proof (induction rule: rtranclp_induct)
  case base
  show ?case by (simp add: orderly_def idle_actuator_def working_def)
next
  case (step s s')
  from step(2,3) show ?case by (cases rule: act_step.cases) (auto intro: arrive_orderly depart_orderly)
qed

text \<open>
  C17: The actuator runs one child at a time, and only for who may ask. In every interleaving of requests the lock is
  held exactly while a request is at work, no two are; beginnings and ends of work alternate; every
  piece of work that began was asked for with the token of the file, on the path of its kind, the intake with an empty body and the
  edge sync with a merged or rework event whose repository the registry resolves to that board; and work starts at most
  one process, the fixed command for it.
\<close>

theorem one_authorised_child:
  assumes "act_reachable s"
  shows "length (a_working s) \<le> 1 \<and> (a_locked s \<longleftrightarrow> a_working s \<noteq> []) \<and> serial None (a_events s) = Some (working s) \<and>
     (\<forall>env req job. Entered env req job \<in> set (a_events s) \<longrightarrow> may_start env req job) \<and>
     (\<forall>job effects r. Ended job effects r \<in> set (a_events s) \<longrightarrow> child_of job effects)"
  using reachable_orderly [OF assms] by (fastforce simp: orderly_def)

section \<open>The end of a child\<close>

definition ordinary_errors :: "exn set" where
  "ordinary_errors = PyError ` {''OSError'', ''FileNotFoundError'', ''PermissionError''}"

text \<open>Reading from the child and waiting for it fail only as the operating system fails.\<close>

definition ordinary :: "child \<Rightarrow> bool" where
  "ordinary ch \<longleftrightarrow> (\<forall>n e. ch_select ch n = Inl e \<longrightarrow> e \<in> ordinary_errors) \<and>
     (\<forall>e. ch_exit ch = Inl e \<longrightarrow> e \<in> insert TIMEOUT ordinary_errors)"

text \<open>The child was killed, or a poll found that it had ended.\<close>

definition put_down :: "child \<Rightarrow> child_world \<Rightarrow> child_world \<Rightarrow> bool" where
  "put_down ch k k' \<longleftrightarrow> KillSent \<in> set (drop (length (k_effects k)) (k_effects k')) \<or>
     (\<exists>i. k_polls k \<le> i \<and> i < k_polls k' \<and> ch_ended ch i)"

lemma put_down_stop: "put_down ch k (stop_edge_process ch k)"
  by (auto simp: put_down_def stop_edge_process_def effect_def Let_def)

text \<open>The polls and effects only grow, so a child put down stays so.\<close>

definition later :: "child_world \<Rightarrow> child_world \<Rightarrow> bool" where
  "later k k' \<longleftrightarrow> (\<exists>es. k_effects k' = k_effects k @ es) \<and> k_polls k \<le> k_polls k'"

lemma later_refl [simp]: "later k k" by (simp add: later_def)

lemma later_trans [trans]: "later k k' \<Longrightarrow> later k' k'' \<Longrightarrow> later k k''" by (auto simp: later_def)

lemma later_steps [simp]: "later k (tick ch k)" "later k (stop_edge_process ch k)" "later k (stop_on ch e k)"
  by (simp_all add: later_def tick_def stop_edge_process_def stop_on_def effect_def Let_def)

lemma put_down_later: "put_down ch k k' \<Longrightarrow> later k k' \<Longrightarrow> later k' k'' \<Longrightarrow> put_down ch k k''"
  by (fastforce simp: put_down_def later_def)

lemma put_down_earlier: "put_down ch k' k'' \<Longrightarrow> later k k' \<Longrightarrow> later k' k'' \<Longrightarrow> put_down ch k k''"
  by (fastforce simp: put_down_def later_def)

text \<open>
  A loop that ends in error has put the child down, or failed as the operating system fails; each select takes from
  the room that is left.
\<close>

definition loop_ended :: "child \<Rightarrow> drain \<Rightarrow> child_world \<Rightarrow> drain res \<times> child_world \<Rightarrow> bool" where
  "loop_ended ch d k out \<longleftrightarrow> (case out of (r, k') \<Rightarrow> later k k' \<and> k_selects k' \<le> k_selects k + room d \<and>
     (\<forall>e. r = Inl e \<longrightarrow> e \<in> ordinary_errors \<or> put_down ch k k'))"

lemma drain_events_error: "drain_events evs d = Inl e \<Longrightarrow> e = PyError ''OSError'' \<or> e = output_limit"
  by (induction evs d rule: drain_events.induct) (auto split: if_splits option.splits)

lemma drain_loop_ends: "ordinary ch \<Longrightarrow> loop_ended ch d k (drain_loop ch deadline d k)"
proof (induction ch deadline d k rule: drain_loop.induct)
  case (1 ch deadline d k)
  let ?tick = "tick ch k"
  have stopped: "put_down ch k (stop_edge_process ch k')" if "later k k'" for k'
    using put_down_earlier [OF put_down_stop that] by simp
  have select: "k_selects ?tick = k_selects k + 1" "k_selects (stop_edge_process ch k') = k_selects k'" for k'
    by (simp_all add: tick_def stop_edge_process_def effect_def Let_def)
  have room: "0 < room d" if "d_open d \<noteq> []" using that by (simp add: room_def)
  have os: "e \<in> ordinary_errors" if "selected ch d k = Inl e" for e
    using that 1(2) by (cases "ch_select ch (k_selects k)") (auto simp: selected_def ordinary_def)
  have more: "loop_ended ch d k (drain_loop ch deadline d' ?tick)"
    if sel: "selected ch d k = Inr (ev # evs)" and drained: "drain_events (ev # evs) d = Inr d'" and "d_open d \<noteq> []" "\<not> deadline \<le> k_now k"
    for ev evs d'
  proof -
    have IH: "loop_ended ch d' ?tick (drain_loop ch deadline d' ?tick)" using 1 that by blast
    obtain reported where "filter (\<lambda>(s, _). s \<in> set (d_open d)) reported = ev # evs"
      using sel by (cases "ch_select ch (k_selects k)") (auto simp: selected_def)
    then have "ev \<in> set (filter (\<lambda>(s, _). s \<in> set (d_open d)) reported)" by simp
    then have "fst ev \<in> set (d_open d)" by (auto simp: case_prod_beta)
    with drained have "room d' < room d" by (metis drain_events_progress prod.collapse)
    moreover have "later k ?tick" by simp
    moreover obtain r k' where out: "drain_loop ch deadline d' ?tick = (r, k')" by (rule prod.exhaust)
    ultimately have "later ?tick k'" "k_selects k' \<le> k_selects k + room d"
        "\<forall>e. r = Inl e \<longrightarrow> e \<in> ordinary_errors \<or> put_down ch ?tick k'"
      using IH select(1) by (auto simp: loop_ended_def)
    then show ?thesis unfolding out loop_ended_def prod.case
      using later_trans [OF \<open>later k ?tick\<close>] put_down_earlier [OF _ \<open>later k ?tick\<close>] by blast
  qed
  note stop_tick = stopped [OF later_steps(1)] later_trans [OF later_steps(1) later_steps(2)]
  show ?case
  proof (cases "d_open d = [] \<or> deadline \<le> k_now k")
    case True
    with stopped [of k] select show ?thesis by (subst drain_loop.simps) (auto simp: loop_ended_def)
  next
    case run: False
    show ?thesis
    proof (cases "selected ch d k")
      case (Inl e)
      with run select os room show ?thesis by (subst drain_loop.simps) (simp add: loop_ended_def)
    next
      case sel: (Inr reported)
      show ?thesis
      proof (cases reported)
        case Nil
        with run sel stop_tick select room show ?thesis by (subst drain_loop.simps) (simp add: loop_ended_def)
      next
        case (Cons ev evs)
        show ?thesis
        proof (cases "drain_events (ev # evs) d")
          case (Inl e)
          with run sel Cons stop_tick select room drain_events_error [OF Inl] show ?thesis
            by (subst drain_loop.simps) (auto simp: loop_ended_def ordinary_errors_def simp del: drain_events.simps)
        next
          case (Inr d')
          with run sel Cons more show ?thesis by (subst drain_loop.simps) (simp del: drain_events.simps)
        qed
      qed
    qed
  qed
qed

lemma await_ends:
  assumes ordinary: "ordinary ch" and out: "await_child ch deadline d k = (r, k')"
  shows "later k k' \<and> k_selects k' \<le> k_selects k + room d \<and>
    (case r of Inl e \<Rightarrow> put_down ch k k' | Inr (d, status) \<Rightarrow> ch_exit ch = Inr status)"
proof -
  obtain r1 k1 where loop: "drain_loop ch deadline d k = (r1, k1)" by (rule prod.exhaust)
  have ended: "later k k1" "k_selects k1 \<le> k_selects k + room d" "\<And>e. r1 = Inl e \<Longrightarrow> e \<in> ordinary_errors \<or> put_down ch k k1"
    using drain_loop_ends [OF ordinary, of d k deadline] by (auto simp: loop_ended_def loop)
  have selects: "k_selects (stop_edge_process ch k) = k_selects k" "k_selects (stop_on ch e k) = k_selects k" for e k
    by (simp_all add: stop_on_def stop_edge_process_def effect_def Let_def)
  have stop: "stop_on ch e k1 = stop_edge_process ch k1" if "e \<in> insert TIMEOUT ordinary_errors" for e
    using that by (simp add: stop_on_def ordinary_errors_def)
  have put: "put_down ch k (stop_edge_process ch k1)" by (rule put_down_earlier [OF put_down_stop ended(1)]) simp
  have put2: "put_down ch k (stop_on ch e (stop_edge_process ch k1))" for e
    by (rule put_down_later [OF put later_trans [OF ended(1)]]) simp_all
  have stopped: "later k (stop_edge_process ch k1)" by (rule later_trans [OF ended(1)]) simp
  then have onward: "later k (stop_on ch e k1)" "later k (stop_on ch e (stop_edge_process ch k1))" for e
    using later_trans [OF ended(1) later_steps(3)] later_trans [OF _ later_steps(3)] by blast+
  show ?thesis
  proof (cases r1)
    case (Inl e)
    then have "put_down ch k (stop_on ch e k1)"
      using ended(1,3) stop [of e] put put_down_later [of ch k k1 "stop_on ch e k1"] by auto
    with out loop Inl ended onward selects show ?thesis by (auto simp: await_child_def)
  next
    case (Inr d')
    show ?thesis
    proof (cases "deadline \<le> k_now k1")
      case True
      with out loop Inr ended onward selects put2 show ?thesis by (auto simp: await_child_def)
    next
      case False
      have "e \<in> insert TIMEOUT ordinary_errors" if "ch_exit ch = Inl e" for e using ordinary that by (simp add: ordinary_def)
      with out loop Inr False ended stopped onward selects stop put show ?thesis
        by (cases "ch_exit ch") (auto simp: await_child_def)
    qed
  qed
qed

text \<open>
  C38: A child of the edge sync ends and is read within bounds. Whatever the child writes and however it behaves, a run
  either starts nothing and fails, or starts the one command and returns after at most one look per byte of the
  output limit and two more; then the child has exited by itself, with code 0 when there are results, or it was
  killed, or a poll found that it was gone. So no child outlives its request unless killing it has no effect.
\<close>

theorem edge_child_ends:
  assumes ordinary: "ordinary ch" and out: "run_edge_sync env ch board k = (r, k')"
  shows "(k' = k \<and> (\<exists>e. r = Inl e)) \<or>
    (\<exists>token es. k_effects k' = k_effects k @ Spawned (edge_command env token board) # es \<and> unspawned es \<and>
      k_selects k' \<le> k_selects k + EDGE_SYNC_OUTPUT_LIMIT_BYTES + 2 \<and>
      (put_down ch k k' \<or> (\<exists>status. ch_exit ch = Inr status \<and> ((\<exists>results. r = Inr results) \<longrightarrow> status = 0))))"
  using run_edge_sync_cases [of env ch board k]
proof (elim disjE exE)
  fix token seconds
  assume run: "run_edge_sync env ch board k = started_run env ch board token seconds k"
  let ?k = "effect (Spawned (edge_command env token board)) k"
  obtain r1 k1 where await: "await_child ch (k_now ?k + seconds) fresh_drain ?k = (r1, k1)" by (rule prod.exhaust)
  note ends = await_ends [OF ordinary await]
  have start: "later k ?k" "k_selects ?k = k_selects k" "room fresh_drain = EDGE_SYNC_OUTPUT_LIMIT_BYTES + 2"
    by (simp_all add: later_def effect_def room_def fresh_drain_def)
  have judged: "k_selects (snd (judge_child env token board outcome k1)) = k_selects k1" for outcome
    by (simp add: judge_child_def effect_def Let_def split: prod.split)
  have "quiet ?k k'" using started_quiet [of env token board k ch seconds] run out by (metis snd_conv)
  then obtain es where es: "k_effects k' = k_effects k @ Spawned (edge_command env token board) # es" "unspawned es"
    by (auto simp: quiet_def adds_def effect_def)
  moreover have "k_selects k' \<le> k_selects k + EDGE_SYNC_OUTPUT_LIMIT_BYTES + 2 \<and>
      (put_down ch k k' \<or> (\<exists>status. ch_exit ch = Inr status \<and> ((\<exists>results. r = Inr results) \<longrightarrow> status = 0)))"
  proof (cases r1)
    case (Inl e)
    with await run out have "k' = k1" by (simp add: started_run_def Let_def)
    with ends Inl start put_down_earlier [OF _ start(1)] show ?thesis by auto
  next
    case (Inr outcome)
    obtain d status where outcome: "outcome = (d, status)" by force
    have judge: "judge_child env token board outcome k1 = (r, k')" using await run out Inr by (simp add: started_run_def Let_def)
    then have "k_selects k' = k_selects k1" using judged [of outcome] by simp
    moreover have "(\<exists>results. r = Inr results) \<longrightarrow> status = 0" using judge by (auto simp: judge_child_def outcome Let_def split: if_splits)
    ultimately show ?thesis using ends Inr start outcome by auto
  qed
  ultimately show ?thesis by blast
qed (use out in auto)

section \<open>What the router sends\<close>

lemma repository_stricter: "repository_re s \<Longrightarrow> actuator_repository_re s"
  by (auto simp: repository_re_def actuator_repository_re_def Let_def list_all_iff split: list.splits)

lemma board_in_root_cases: "board_in_root env board \<in> {Inl (BoardRefused ''board_unresolved''), Inl BoardUnknown, Inr board}"
  by (auto simp: board_in_root_def split: option.split)

lemma actuator_board_eq:
  "actuator_repository_re repository \<Longrightarrow> actuator_board env repository = (case registry_board env repository of
     Inl _ \<Rightarrow> Inl BoardUnknown
   | Inr None \<Rightarrow> Inl (BoardRefused ''board_unresolved'')
   | Inr (Some board) \<Rightarrow> if \<not> actuator_board_re board then Inl (BoardRefused ''board_unresolved'') else board_in_root env board)"
  by (auto simp: actuator_board_def registry_board_def actuator_board_re_def split: sum.split option.split)

lemma router_fields:
  assumes valid: "repository_re repository" "delivery_id_re delivery"
    and event: "normalise_pull_request_event payload repository delivery = Inr event \<or> event = completion_event repository delivery"
  shows "\<exists>action merged label. edge_fields event = Some (repository, action, merged, label) \<and>
    (edge_allowed action merged label \<longleftrightarrow> supported_direct_edge_event event)"
  using event
proof
  assume "normalise_pull_request_event payload repository delivery = Inr event"
  then obtain action merged label where shape: "action_re action" "length label \<le> 128"
      "event = [(''repository'', JStr repository), (''event'', JStr ''pull_request''), (''action'', JStr action),
        (''merged'', JBool merged), (''label'', JStr label), (''delivery'', JStr delivery)]"
    by (auto simp: normalise_pull_request_event_def pull_request_label_def Let_def split: json.splits if_splits option.splits)
  with valid repository_stricter show ?thesis
    by (auto simp: edge_fields_def edge_payload_keys_def keys_of_def dget_py_def dget_or_def supported_direct_edge_event_def edge_allowed_def)
next
  assume "event = completion_event repository delivery"
  with valid repository_stricter show ?thesis
    by (auto simp: completion_event_def edge_fields_def edge_payload_keys_def keys_of_def dget_py_def dget_or_def
        supported_direct_edge_event_def edge_allowed_def action_re_def fixed_length_def is_alnum_def is_lower_def code_def is_digit_def is_upper_def)
qed


section \<open>What is logged\<close>

lemma contains_iff: "contains p s \<longleftrightarrow> (\<exists>u v. s = u @ p @ v)"
proof (induction p s rule: contains.induct)
  case (2 p c s)
  have "starts_with (c # s) p \<longleftrightarrow> (\<exists>v. c # s = p @ v)" by (metis append_eq_conv_conj append_take_drop_id starts_with_def)
  with 2 show ?case by (metis append_Cons append_Nil contains.simps(2) list.exhaust list.inject)
qed auto

text \<open>An occurrence without a character \<open>c\<close> lies on one side of it.\<close>

lemma contains_split:
  assumes "contains p (a @ c # b)" and "c \<notin> set p"
  shows "contains p a \<or> contains p b"
proof -
  obtain u v where eq: "u @ p @ v = a @ c # b" using assms(1) by (metis contains_iff)
  then consider w where "u = a @ w" "w @ p @ v = c # b" | w where "a = u @ w" "p @ v = w @ c # b"
    by (auto simp: append_eq_append_conv2)
  then show ?thesis
  proof cases
    case 1
    then show ?thesis
    proof (cases w)
      case Nil
      with 1 assms(2) show ?thesis by (cases p) (auto simp: contains_iff)
    next
      case (Cons x w')
      with 1 have "b = w' @ p @ v" by simp
      then show ?thesis by (auto simp: contains_iff)
    qed
  next
    case 2
    from 2(2) obtain us where "w = p @ us \<or> p = w @ us \<and> us @ v = c # b" by (auto simp: append_eq_append_conv2)
    with assms(2) obtain w' where "w = p @ w'" by (cases us) auto
    with 2 show ?thesis by (auto simp: contains_iff)
  qed
qed

lemma starts_with_iff: "starts_with s p \<longleftrightarrow> (\<exists>v. s = p @ v)"
  by (metis append_eq_conv_conj append_take_drop_id starts_with_def)

lemma replace_open:
  assumes "new = b # suf"
  shows "\<exists>v. s = takeWhile (\<lambda>c. c \<noteq> b) (py_replace old new s) @ v"
proof (induction s rule: length_induct)
  case (1 s)
  show ?case
  proof (cases "old \<noteq> [] \<and> starts_with s old")
    case True
    with assms show ?thesis by (subst py_replace.simps) auto
  next
    case False
    with 1 show ?thesis by (subst py_replace.simps) (auto split: list.split)
  qed
qed

lemma replaced_away:
  assumes old: "old \<noteq> []" "b \<notin> set old" "e \<notin> set old" "\<not> contains old inner" and new: "new = b # inner @ [e]"
  shows "\<not> contains old (py_replace old new s)"
proof (induction s rule: length_induct)
  case (1 s)
  show ?case
  proof (cases "starts_with s old")
    case True
    then have "length (drop (length old) s) < length s" using old(1) by (cases s; cases old) (auto simp: starts_with_def)
    with 1 have rest: "\<not> contains old (py_replace old new (drop (length old) s))" by blast
    have "\<not> contains old (b # inner @ e # py_replace old new (drop (length old) s))"
    proof
      assume "contains old (b # inner @ e # py_replace old new (drop (length old) s))"
      then have "contains old (inner @ e # py_replace old new (drop (length old) s))"
        using contains_split [of old "[]" b] old by auto
      with contains_split [of old inner e] old rest show False by blast
    qed
    with True old(1) new show ?thesis by (subst py_replace.simps) simp
  next
    case False
    show ?thesis
    proof (cases s)
      case (Cons c t)
      have tail: "\<not> contains old (py_replace old new t)" using 1 Cons by simp
      have here: "py_replace old new s = c # py_replace old new t" using False Cons by (subst py_replace.simps) simp
      have "\<not> starts_with (c # py_replace old new t) old"
      proof
        assume "starts_with (c # py_replace old new t) old"
        then obtain v where "py_replace old new s = old @ v" by (auto simp: starts_with_iff here)
        moreover have "takeWhile (\<lambda>c. c \<noteq> b) (old @ v) = old @ takeWhile (\<lambda>c. c \<noteq> b) v"
          using old(2) by (intro takeWhile_append2) auto
        ultimately have "takeWhile (\<lambda>c. c \<noteq> b) (py_replace old new s) = old @ takeWhile (\<lambda>c. c \<noteq> b) v" by simp
        moreover obtain w where "s = takeWhile (\<lambda>c. c \<noteq> b) (py_replace old new s) @ w" using replace_open [OF new] by blast
        ultimately show False using False by (auto simp: starts_with_iff)
      qed
      with tail here show ?thesis by simp
    qed (use old(1) in \<open>subst py_replace.simps, simp add: starts_with_def\<close>)
  qed
qed

text \<open>
  C39: What is logged of a failed edge sync does not show the GitHub token. For a token without brackets that is no part of the
  words it is replaced by, the diagnostic never contains the token, whatever the child wrote.
\<close>

theorem diagnostic_hides_token:
  assumes "token \<noteq> []" "CHR ''['' \<notin> set token" "CHR '']'' \<notin> set token" "\<not> contains token ''REDACTED_GITHUB_TOKEN''"
  shows "\<not> contains token (edge_sync_failure_diagnostic env raw_stderr token)"
proof -
  have "REDACTED = CHR ''['' # ''REDACTED_GITHUB_TOKEN'' @ [CHR '']'']" by (simp add: REDACTED_def)
  from replaced_away [OF assms this] assms(1) show ?thesis
    by (simp add: edge_sync_failure_diagnostic_def Let_def)
qed

text \<open>
  The tail is cut before the token is looked for: a token that straddles the cut leaves all but its first characters in
  the log.
\<close>

lemma cut_token_leaks:
  assumes token: "length token = n + m" "0 < n" and raw: "raw_stderr = token @ after" "m + length after = 4096"
    and plain: "\<And>s. ac_decode env s = s" "py_strip (drop n token @ after) = drop n token @ after"
    and cut: "\<not> contains token (drop n token @ after)"
  shows "edge_sync_failure_diagnostic env raw_stderr token = drop n token @ after"
proof -
  have same: "py_replace token new s = s" if "\<not> contains token s" for new s
    using that
  proof (induction s)
    case (Cons c s)
    then have "\<not> starts_with (c # s) token" "\<not> contains token s" by auto
    with Cons show ?case by (subst py_replace.simps) simp
  qed (subst py_replace.simps, simp add: starts_with_def)
  have "n + m + length after - 4096 = n" using raw(2) by simp
  then have "last_n 4096 raw_stderr = drop n token @ after" using token raw by (simp add: last_n_def)
  moreover have "raw_stderr \<noteq> []" using token raw(1) by auto
  ultimately show ?thesis using same [OF cut] plain
    by (simp add: edge_sync_failure_diagnostic_def MAX_EDGE_SYNC_DIAGNOSTIC_BYTES_def Let_def)
qed

section \<open>Examples\<close>

definition sample_token :: string where
  "sample_token = replicate 43 (CHR ''t'')"

definition sample_board_fs :: fs where
  "sample_board_fs = \<lparr>fs_exists = (\<lambda>_. True), fs_lexists = (\<lambda>_. True), fs_is_symlink = (\<lambda>_. False), fs_is_dir = (\<lambda>_. True),
     fs_is_file = (\<lambda>_. True), fs_boards = (\<lambda>_. [''tools'']), fs_keys = (\<lambda>_. Inr [JStr ''github:acme/tools:issue:7'']),
     fs_json = (\<lambda>_. JTree (JObj [])), fs_environ = [], fs_git_origin = (\<lambda>_ _. GitNotRun)\<rparr>"

definition sample_rework_event :: dict where
  "sample_rework_event = completion_event ''acme/tools'' ''d-1''"

definition sample_actuator :: actuator_env where
  "sample_actuator = \<lparr>ac_token_file = TokenFile True 256 43 (SecretText sample_token), ac_environ = [(''GITHUB_TOKEN'', ''ghp_1'')],
     ac_read_text = (\<lambda>_. Inl (PyError ''OSError'')), ac_is_file = (\<lambda>_. True), ac_executable = (\<lambda>_. True),
     ac_float = (\<lambda>_. Inr (Finite 5)), ac_loads = (\<lambda>s. if s = ''[]'' then Inr (JArr []) else Inr (JObj sample_rework_event)),
     ac_decode = (\<lambda>s. s), ac_resolve = Some, ac_registry_loads = True, ac_fs = sample_board_fs\<rparr>"

definition rework_request :: request where
  "rework_request = \<lparr>r_path = ''/v1/edge-sync'', r_content_length = Some ''2'', r_authorization = Some (''Bearer '' @ sample_token),
     r_signature = None, r_delivery = None, r_event = None, r_body = ''{}''\<rparr>"

definition tidy_child :: child where
  "tidy_child = \<lparr>ch_spawn = None, ch_select = (\<lambda>n. Inr (if n = 0 then [(Stdout, Some ''[]'')] else [(Stdout, Some []), (Stderr, Some [])])),
     ch_passed = (\<lambda>_. 1000), ch_exit = Inr 0, ch_ended = (\<lambda>_. True), ch_run = Inr 0\<rparr>"

definition asked_once :: actuator where
  "asked_once = arrive sample_actuator rework_request idle_actuator"

lemma asked_once_working: "a_working asked_once = [EdgeRun ''tools''] \<and> a_locked asked_once"
  by code_simp

theorem one_authorised_child_witness:
  "a_working asked_once = [EdgeRun ''tools''] \<and> may_start sample_actuator rework_request (EdgeRun ''tools'')"
proof -
  have "act_reachable asked_once" unfolding act_reachable_def asked_once_def by (intro r_into_rtranclp act_step.arrives)
  note orderly = one_authorised_child [OF this]
  have "post_asked sample_actuator rework_request = Inr (Inr (EdgeRun ''tools''))" by code_simp
  then have "Entered sample_actuator rework_request (EdgeRun ''tools'') \<in> set (a_events asked_once)"
    by (simp add: asked_once_def arrive_def idle_actuator_def log_def)
  with orderly asked_once_working show ?thesis by blast
qed

definition start_world :: child_world where
  "start_world = \<lparr>k_now = 0, k_selects = 0, k_polls = 0, k_effects = []\<rparr>"

definition tidy_run :: "json list res \<times> child_world" where
  "tidy_run = run_edge_sync sample_actuator tidy_child ''tools'' start_world"

lemma tidy_run_result: "fst tidy_run = Inr []"
proof -
  have ready: "edge_sync_timeout_seconds sample_actuator = Inr 120" "edge_runtime_ready sample_actuator"
      "github_token sample_actuator = Inr ''ghp_1''" by code_simp+
  have "ac_loads sample_actuator ''[]'' = Inr (JArr [])" by (simp add: sample_actuator_def)
  with ready show ?thesis
    by (simp add: tidy_run_def run_edge_sync_def tidy_child_def await_child_def drain_loop.simps selected_def tick_def
        start_world_def effect_def Let_def judge_child_def edge_results_def EDGE_SYNC_OUTPUT_LIMIT_BYTES_def)
qed

theorem edge_child_ends_witness:
  "\<exists>token es. k_effects (snd tidy_run) = Spawned (edge_command sample_actuator token ''tools'') # es \<and> unspawned es"
proof -
  have ordinary: "ordinary tidy_child" by (simp add: ordinary_def tidy_child_def)
  have run: "run_edge_sync sample_actuator tidy_child ''tools'' start_world = (fst tidy_run, snd tidy_run)" by (simp add: tidy_run_def)
  have "fst tidy_run \<noteq> Inl e" for e using tidy_run_result by simp
  then show ?thesis using edge_child_ends [OF ordinary run] by (auto simp: start_world_def)
qed


theorem diagnostic_hides_token_witness:
  "edge_sync_failure_diagnostic sample_actuator ''401 for ghp_1'' ''ghp_1'' = ''401 for [REDACTED_GITHUB_TOKEN]'' \<and>
   \<not> contains ''ghp_1'' (edge_sync_failure_diagnostic sample_actuator ''401 for ghp_1'' ''ghp_1'')"
proof
  show "edge_sync_failure_diagnostic sample_actuator ''401 for ghp_1'' ''ghp_1'' = ''401 for [REDACTED_GITHUB_TOKEN]''" by code_simp
  show "\<not> contains ''ghp_1'' (edge_sync_failure_diagnostic sample_actuator ''401 for ghp_1'' ''ghp_1'')"
    by (rule diagnostic_hides_token) (simp_all add: starts_with_def)
qed

end
