(* ===== verification/EdgeDispatch.thy ===== *)
theory EdgeDispatch
  imports EdgeDelivery "HOL-Library.Product_Lexorder"
begin

text \<open>
  The dispatch of a rework round in the edge sync (edge/kanban-github-sync.py): the context of a round, the labels of
  its pull request, the choice of the one card to dispatch, its claim, and the start of its worker, with what is given
  back when a step fails. The functions of Hermes it calls (claim, reclaim, record of a failure, workspace, start of a
  worker, the dispatch lock) are parameters.
\<close>

section \<open>The labels of a round\<close>

definition WORKING_LABEL :: string where
  "WORKING_LABEL = ''agent-working''"

definition REVIEW_READY_LABEL :: string where
  "REVIEW_READY_LABEL = ''agent-review-ready''"

definition label_set :: "string list \<Rightarrow> string list" where
  "label_set ls = sort (remdups ls)"

text \<open>A \<open>GithubCompletionError\<close> with what it knows of the labels, or another exception.\<close>

record label_failure =
  lf_error :: exn
  lf_class :: "string option"
  lf_status :: "int option"
  lf_before :: "string list option"
  lf_desired :: "string list option"
  lf_observed :: "string list option"

definition plain_failure :: "exn \<Rightarrow> label_failure" where
  "plain_failure e = \<lparr>lf_error = e, lf_class = None, lf_status = (case e of CompletionError _ s \<Rightarrow> s | _ \<Rightarrow> None),
     lf_before = None, lf_desired = None, lf_observed = None\<rparr>"

definition label_list :: "string list \<Rightarrow> json" where
  "label_list ls = JArr (map JStr ls)"

text \<open>Labels are read, written as a whole, and read back.\<close>

definition project_pr_lifecycle_labels ::
  "edge_net \<Rightarrow> string \<Rightarrow> int \<Rightarrow> string list \<Rightarrow> string list \<Rightarrow> edge_call list \<Rightarrow> (label_failure + string \<times> dict) \<times> edge_call list" where
  "project_pr_lifecycle_labels n repository pr_no added removed calls =
     (case pr_labels n repository pr_no False calls of
        (Inl e, calls) \<Rightarrow> (Inl (plain_failure e), calls)
      | (Inr names, calls) \<Rightarrow>
          (let current = label_set names; desired = label_set (filter (\<lambda>l. l \<notin> set removed) current @ added) in
           if desired = current then (Inr (''labels_unchanged'', [(''labels'', label_list current)]), calls)
           else (case write_json n ''PATCH'' (''/repos/'' @ repository @ ''/issues/'' @ int_str pr_no) [(''labels'', label_list desired)] calls of
               (Inl e, calls) \<Rightarrow> (Inl (plain_failure e), calls)
             | (Inr (status, _), calls) \<Rightarrow>
                 if \<not> ok_status status then
                   (Inl \<lparr>lf_error = CompletionError (''could not reconcile lifecycle labels (HTTP '' @ int_str status @ '')'') (Some status),
                      lf_class = Some ''patch_non_2xx'', lf_status = Some status, lf_before = Some current, lf_desired = Some desired,
                      lf_observed = None\<rparr>, calls)
                 else (case pr_labels n repository pr_no False calls of
                     (Inl e, calls) \<Rightarrow> (Inl (plain_failure e), calls)
                   | (Inr seen_names, calls) \<Rightarrow>
                       (let observed = label_set seen_names in
                        if observed \<noteq> desired then
                          (Inl \<lparr>lf_error = CompletionError ''lifecycle label read-back mismatch'' None, lf_class = Some ''read_back_mismatch'',
                             lf_status = None, lf_before = Some current, lf_desired = Some desired, lf_observed = Some observed\<rparr>, calls)
                        else (Inr (''labels_updated'', [(''before'', label_list current), (''after'', label_list observed)]), calls))))))"

section \<open>The context of a round\<close>

record rework_ctx =
  cx_repository :: string
  cx_issue :: int
  cx_pr :: pull
  cx_labels :: "string list"
  cx_event :: rework_event
  cx_implicit :: bool
  cx_open :: nat

text \<open>A context, or an error with the event when the event is what is wrong.\<close>

datatype context_of_round = BadContext string "rework_event option" | Context rework_ctx

definition same_number :: "json \<Rightarrow> int option res" where
  "same_number v = (if v = JNull then Inr None
     else (case py_int v of Inr i \<Rightarrow> Inr (Some i)
       | Inl e \<Rightarrow> if e \<in> {PyError ''TypeError'', PyError ''ValueError''} then Inr None else Inl e))"

definition rework_context ::
  "edge_net \<Rightarrow> task_ref \<Rightarrow> decision \<Rightarrow> rework_event option \<Rightarrow> edge_call list \<Rightarrow> context_of_round option edge_result" where
  "rework_context n ref d event calls = (case event of
      None \<Rightarrow> (Inr None, calls)
    | Some e \<Rightarrow> (case validate_rework_event (Some ref) None None e of
        Some m \<Rightarrow> (Inr (Some (BadContext m (Some e))), calls)
      | None \<Rightarrow> (case same_number (dget_py (fst e) ''pr_number'') of
          Inl x \<Rightarrow> (Inl x, calls)
        | Inr wanted \<Rightarrow> (case filter (\<lambda>pr. wanted = None \<or> Some (pr_number pr) = wanted) (d_pulls d) of
            [pr] \<Rightarrow> and_then (pr_labels n (r_repository ref) (pr_number pr) True calls) (\<lambda>labels calls.
              (Inr (Some (Context \<lparr>cx_repository = r_repository ref, cx_issue = r_issue ref, cx_pr = pr, cx_labels = labels,
                 cx_event = e, cx_implicit = (dget_py (fst e) ''trigger'' = JStr ''changes_requested''),
                 cx_open = length (filter (\<lambda>p. pr_state p = ''open'') (d_pulls d))\<rparr>)), calls))
          | _ \<Rightarrow> (Inr None, calls)))))"

definition fresh_rework_context ::
  "edge_net \<Rightarrow> board \<Rightarrow> task_ref \<Rightarrow> decision \<Rightarrow> string \<Rightarrow> edge_call list \<Rightarrow> context_of_round option edge_result" where
  "fresh_rework_context n b ref d task_id calls = (case latest_rework_event task_id b of
      None \<Rightarrow> (Inr None, calls)
    | Some e \<Rightarrow> (case rework_context n ref d (Some e) calls of
        (Inl (CompletionError m _), calls) \<Rightarrow> (Inr (Some (BadContext m None)), calls)
      | r \<Rightarrow> r))"

section \<open>The lane\<close>

text \<open>A card as Hermes hands it out on a claim.\<close>

record claimed =
  cl_id :: string
  cl_run :: "int option"
  cl_lock :: "string option"
  cl_assignee :: "string option"
  cl_worktree :: bool
  cl_branch :: "string option"

text \<open>The columns of a card that the check of its workspace reads.\<close>

record card_columns =
  cc_title :: "string option"
  cc_body :: "string option"
  cc_kind :: "string option"

datatype lane_event =
    ClaimTaken string claimed
  | ProvenanceWritten string
  | LabelsClaimed
  | ClaimReturned
  | FailureRecorded string
  | BindingSeen claimed "card_columns option"
  | WorkerStarted claimed string "int option"
  | LabelsCleared string

record lane =
  l_board :: board
  l_step :: nat
  l_calls :: "edge_call list"
  l_trace :: "lane_event list"
  l_refused :: "dict option"

text \<open>
  Statements are numbered; before each, others change the board, and it may fail. Outside a transaction each
  statement is committed by itself. The functions of Hermes take the board and may raise.
\<close>

datatype dispatch_lock = LockUnresolved string | NoLockApi | LockTaken | LockFree

record lane_env =
  l_net :: edge_net
  l_others :: "nat \<Rightarrow> board \<Rightarrow> board"
  l_error :: "nat \<Rightarrow> string option"
  l_now :: "nat \<Rightarrow> int"
  l_created :: "string \<Rightarrow> int"
  l_config :: dict
  l_lock :: dispatch_lock
  l_profile :: "string \<Rightarrow> bool"
  l_claim :: "string \<Rightarrow> string \<Rightarrow> board \<Rightarrow> claimed option res \<times> board"
  l_reclaim :: "string \<Rightarrow> string \<Rightarrow> board \<Rightarrow> unit res \<times> board"
  l_failure :: "claimed \<Rightarrow> string \<Rightarrow> int option \<Rightarrow> board \<Rightarrow> bool res \<times> board"
  l_workspace :: "claimed \<Rightarrow> string + string \<times> string option"
  l_set_workspace :: "string \<Rightarrow> string \<Rightarrow> board \<Rightarrow> unit res \<times> board"
  l_set_branch :: "string \<Rightarrow> string \<Rightarrow> board \<Rightarrow> unit res \<times> board"
  l_start :: "claimed \<Rightarrow> string \<Rightarrow> int option res"
  l_set_pid :: "string \<Rightarrow> int \<Rightarrow> board \<Rightarrow> unit res \<times> board"

type_synonym 'a laned = "'a res \<times> lane"

text \<open>
  What starts a worker may be given to the dispatch. It may refuse with an exception that only its own wrapper
  catches, no handler of the dispatch, and that carries the answer to give (\<open>l_refused\<close>).
\<close>

type_synonym spawner = "claimed \<Rightarrow> string \<Rightarrow> lane \<Rightarrow> int option laned"

definition spawn_blocked :: exn where
  "spawn_blocked = PyError ''_SpawnBlockedWithResult''"

definition lane_statement :: "lane_env \<Rightarrow> (board \<Rightarrow> 'a res \<times> board) \<Rightarrow> lane \<Rightarrow> 'a laned" where
  "lane_statement env f w = (let b = l_others env (l_step w) (l_board w) in
     case l_error env (l_step w) of
       Some m \<Rightarrow> (Inl (DbError m), w\<lparr>l_board := b, l_step := l_step w + 1\<rparr>)
     | None \<Rightarrow> (case f b of (r, b) \<Rightarrow> (r, w\<lparr>l_board := b, l_step := l_step w + 1\<rparr>)))"

definition query :: "lane_env \<Rightarrow> (board \<Rightarrow> 'a) \<Rightarrow> lane \<Rightarrow> 'a laned" where
  "query env f = lane_statement env (\<lambda>b. (Inr (f b), b))"

definition traced :: "lane_event \<Rightarrow> lane \<Rightarrow> lane" where
  "traced e w = w\<lparr>l_trace := l_trace w @ [e]\<rparr>"

fun failure_message :: "exn \<Rightarrow> string" where
  "failure_message (CompletionError m _) = m"
| "failure_message (RouterError m) = m"
| "failure_message (RegistryError m) = m"
| "failure_message (RuntimeError m) = m"
| "failure_message (SyncError m) = m"
| "failure_message (DbError m) = m"
| "failure_message (PyError m) = m"

fun failure_name :: "exn \<Rightarrow> string" where
  "failure_name (CompletionError m _) = ''GithubCompletionError: '' @ m"
| "failure_name (RouterError m) = ''RouterError: '' @ m"
| "failure_name (RegistryError m) = ''RegistryError: '' @ m"
| "failure_name (RuntimeError m) = ''RuntimeError: '' @ m"
| "failure_name (SyncError m) = ''SyncError: '' @ m"
| "failure_name (DbError m) = m"
| "failure_name (PyError m) = m"

section \<open>The card to dispatch\<close>

definition governing_event_kind :: "board \<Rightarrow> string \<Rightarrow> string option" where
  "governing_event_kind b task_id =
     map_option e_kind (newest_event (\<lambda>e. e_task e = task_id \<and> e_kind e \<in> set REWORK_GOVERNING_KINDS) b)"

definition claim_projection_failure_is_retryable :: "board \<Rightarrow> string \<Rightarrow> bool" where
  "claim_projection_failure_is_retryable b task_id =
     (case newest_event (\<lambda>e. e_task e = task_id \<and> e_kind e = ''github_pr_rework_projection_failure'') b of
        None \<Rightarrow> False
      | Some e \<Rightarrow> (case event_dict e of None \<Rightarrow> False | Some p \<Rightarrow> dget_py p ''retryable'' = JBool True))"

definition rework_pending :: "board \<Rightarrow> string list \<Rightarrow> string \<Rightarrow> bool" where
  "rework_pending b normalized task_id = (case governing_event_kind b task_id of
      None \<Rightarrow> False
    | Some kind \<Rightarrow>
        if kind = ''github_pr_rework_projection_failure'' then claim_projection_failure_is_retryable b task_id
        else kind = ''github_pr_rework'' \<or> kind = ''changes_requested'' \<and> task_id \<in> set normalized)"

definition pending_rework_tasks :: "lane_env \<Rightarrow> string list option \<Rightarrow> string list \<Rightarrow> board \<Rightarrow> task list" where
  "pending_rework_tasks env task_ids normalized b =
     filter (\<lambda>t. (case task_ids of None \<Rightarrow> True | Some ids \<Rightarrow> t_id t \<in> set ids) \<and> rework_pending b normalized (t_id t))
       (sort_key (\<lambda>t. (l_created env (t_id t), t_id t))
         (filter (\<lambda>t. t_status t = ''ready'' \<and> t_claim_lock t = None) (tasks b)))"

text \<open>Numbers of the configuration; what is no number counts as not set.\<close>

definition config_int :: "json \<Rightarrow> int option res" where
  "config_int v = (case py_int v of Inr i \<Rightarrow> Inr (Some i)
     | Inl e \<Rightarrow> if e \<in> {PyError ''TypeError'', PyError ''ValueError''} then Inr None else Inl e)"

definition max_in_progress :: "dict \<Rightarrow> int res" where
  "max_in_progress cfg = map_sum id (\<lambda>i. case i of None \<Rightarrow> 1 | Some i \<Rightarrow> max 1 i)
     (config_int (py_or (dget_py cfg ''max_in_progress'') (JInt 1)))"

definition failure_limit :: "dict \<Rightarrow> int option res" where
  "failure_limit cfg = (let v = dget_py cfg ''failure_limit'' in
     if v = JNull then Inr None
     else map_sum id (\<lambda>i. case i of None \<Rightarrow> None | Some i \<Rightarrow> if i < 1 then None else Some i) (config_int v))"

definition default_assignee :: "dict \<Rightarrow> string option" where
  "default_assignee cfg = (let s = py_strip (py_str (py_or (dget_py cfg ''default_assignee'') (JStr []))) in
     if s = [] then None else Some s)"

section \<open>What must hold before a claim\<close>

text \<open>A reply is given at once, or there is something to go on with.\<close>

definition waiting :: "string \<Rightarrow> string \<Rightarrow> dict \<Rightarrow> dict list" where
  "waiting task_id reason more_items = [unchanged task_id ''ready'' reason more_items]"

definition no_task :: "string \<Rightarrow> dict \<Rightarrow> dict list" where
  "no_task reason more_items = [[(''task_id'', JNull), (''status'', JNull), (''changed'', JBool False), (''reason'', JStr reason)] @ more_items]"

type_synonym contexts = "string \<Rightarrow> context_of_round option"

text \<open>The event the claim is for. A dry run of a normalised card takes that of its context.\<close>

definition governing_claim_event :: "contexts \<Rightarrow> bool \<Rightarrow> string \<Rightarrow> rework_event option \<Rightarrow> dict list + rework_event option" where
  "governing_claim_event ctxs normalized_dry_run task_id latest =
     (if normalized_dry_run then
        Inr (case ctxs task_id of
            Some (Context c) \<Rightarrow> Some (cx_event c)
          | Some (BadContext _ (Some e)) \<Rightarrow> Some e
          | _ \<Rightarrow> latest)
      else (case ctxs task_id of
          Some (Context c) \<Rightarrow>
            if latest \<noteq> Some (cx_event c)
            then Inl (waiting task_id ''stale_rework_context''
              [(''rework_round'', case latest of None \<Rightarrow> JNull | Some e \<Rightarrow> dget_py (fst e) ''rework_round'')])
            else Inr latest
        | _ \<Rightarrow> Inl (waiting task_id ''rework_context_unavailable'' [])))"

definition plain_ref :: "string \<Rightarrow> int \<Rightarrow> task_ref" where
  "plain_ref repository issue = \<lparr>r_repository = repository, r_issue = issue, r_target = ''main'', r_title = []\<rparr>"

text \<open>The event is checked against the context, or against the body of the card when the context's numbers are not positive.\<close>

definition invalid_event :: "contexts \<Rightarrow> board \<Rightarrow> string \<Rightarrow> rework_event option \<Rightarrow> string option" where
  "invalid_event ctxs b task_id event = (case event of
      None \<Rightarrow> Some ''rework_event_invalid_shape''
    | Some e \<Rightarrow> (case ctxs task_id of
        Some (Context c) \<Rightarrow>
          if 0 < cx_issue c \<and> 0 < pr_number (cx_pr c)
          then validate_rework_event (Some (plain_ref (cx_repository c) (cx_issue c))) (Some (pr_number (cx_pr c))) None e
          else validate_rework_event (case task_row task_id b of None \<Rightarrow> None | Some t \<Rightarrow> parse_task_ref (body_text t)) None None e
      | _ \<Rightarrow> validate_rework_event (case task_row task_id b of None \<Rightarrow> None | Some t \<Rightarrow> parse_task_ref (body_text t)) None None e))"

definition REWORK_DISPATCH_CLAIM_PREFIX :: string where
  "REWORK_DISPATCH_CLAIM_PREFIX = ''github-edge-rework:''"

definition rework_dispatch_claim_lock :: "string \<Rightarrow> rework_event option \<Rightarrow> string" where
  "rework_dispatch_claim_lock task_id event = REWORK_DISPATCH_CLAIM_PREFIX @ task_id @ '':'' @ (case event of
      None \<Rightarrow> ''unknown''
    | Some e \<Rightarrow> (case py_int (JStr (py_str (dget_py (fst e) ''rework_round''))) of Inr i \<Rightarrow> int_str i | Inl _ \<Rightarrow> ''unknown''))"

text \<open>No worker is working on the pull request: neither its label says so, nor a running card owns it.\<close>

definition ownership_refused :: "contexts \<Rightarrow> ((string \<times> int) \<times> string) list \<Rightarrow> string \<Rightarrow> dict list option" where
  "ownership_refused ctxs owners task_id = (case ctxs task_id of
      Some (Context c) \<Rightarrow>
        if WORKING_LABEL \<in> set (cx_labels c)
        then Some (waiting task_id ''working_label_present'' [(''lifecycle'', JObj [(''labels'', label_list (label_set (cx_labels c)))])])
        else (case find (\<lambda>(key, owner). key = (cx_repository c, pr_number (cx_pr c)) \<and> owner \<noteq> task_id) owners of
            None \<Rightarrow> None
          | Some (_, owner) \<Rightarrow> Some (waiting task_id ''pr_worker_active'' [(''owner_task'', JStr owner),
              (''repository'', JStr (cx_repository c)), (''pr_number'', JInt (pr_number (cx_pr c)))]))
    | _ \<Rightarrow> None)"

section \<open>The assignee\<close>

definition usable_assignee :: "string option \<Rightarrow> string option" where
  "usable_assignee v = (let s = py_strip (case v of None \<Rightarrow> [] | Some s \<Rightarrow> s) in
     if s = [] \<or> s = REWORK_RESERVED_ASSIGNEE then None else Some s)"

definition previous_assignee :: "rework_event option \<Rightarrow> string option" where
  "previous_assignee event = (case event of None \<Rightarrow> None
     | Some e \<Rightarrow> (case dget_py (fst e) ''previous_assignee'' of JStr s \<Rightarrow> usable_assignee (Some s) | _ \<Rightarrow> None))"

definition assign_reserved :: "string \<Rightarrow> string \<Rightarrow> board \<Rightarrow> nat \<times> board" where
  "assign_reserved task_id assignee b =
     (let wanted = (\<lambda>t. t_id t = task_id \<and> (t_assignee t = None \<or> t_assignee t = Some [] \<or> t_assignee t = Some REWORK_RESERVED_ASSIGNEE))
      in (length (filter wanted (tasks b)),
          b\<lparr>tasks := map (\<lambda>t. if wanted t then t\<lparr>t_assignee := Some assignee\<rparr> else t) (tasks b)\<rparr>))"

definition add_event :: "lane_env \<Rightarrow> string \<Rightarrow> int option \<Rightarrow> string \<Rightarrow> dict \<Rightarrow> lane \<Rightarrow> unit laned" where
  "add_event env task_id run_no kind payload w = lane_statement env (\<lambda>b. (Inr (),
     b\<lparr>events := events b @ [\<lparr>e_task = task_id, e_run = run_no, e_kind = kind, e_payload = JsonText (JObj payload),
       e_at = l_now env (l_step w)\<rparr>]\<rparr>)) w"

text \<open>None is a card nobody can be assigned to.\<close>

definition resolve_rework_assignee :: "lane_env \<Rightarrow> task \<Rightarrow> string option \<Rightarrow> bool \<Rightarrow> lane \<Rightarrow> string option laned" where
  "resolve_rework_assignee env row preferred dry_run w =
     (case usable_assignee (t_assignee row) of
        Some a \<Rightarrow> (Inr (Some a), w)
      | None \<Rightarrow>
          and_then (case preferred of Some a \<Rightarrow> (Inr (Some a), w)
             | None \<Rightarrow> query env (\<lambda>b. previous_assignee (latest_rework_event (t_id row) b)) w) (\<lambda>assignee w.
           case assignee of
             None \<Rightarrow> (Inr None, w)
           | Some a \<Rightarrow>
               if dry_run then (Inr (Some a), w)
               else and_then (lane_statement env (\<lambda>b. case assign_reserved (t_id row) a b of (k, b) \<Rightarrow> (Inr k, b)) w) (\<lambda>rowcount w.
                 if rowcount \<noteq> 1 then (Inr (Some a), w)
                 else and_then (add_event env (t_id row) None ''assigned''
                     [(''assignee'', JStr a), (''source'', JStr ''edge_rework_dispatch'')] w) (\<lambda>_ w. (Inr (Some a), w)))))"

definition reserve_rework_task :: "lane_env \<Rightarrow> string \<Rightarrow> lane \<Rightarrow> unit laned" where
  "reserve_rework_task env task_id = lane_statement env (\<lambda>b. (Inr (),
     b\<lparr>tasks := map (\<lambda>t. if t_id t = task_id \<and> t_status t = ''ready'' \<and> t_claim_lock t = None
        then t\<lparr>t_assignee := Some REWORK_RESERVED_ASSIGNEE\<rparr> else t) (tasks b)\<rparr>))"

section \<open>What a claim leaves on record\<close>

definition context_event :: "contexts \<Rightarrow> string \<Rightarrow> rework_event option" where
  "context_event ctxs task_id = (case ctxs task_id of
      Some (Context c) \<Rightarrow> Some (cx_event c) | Some (BadContext _ e) \<Rightarrow> e | None \<Rightarrow> None)"

definition dispatch_payload :: "claimed \<Rightarrow> int \<Rightarrow> rework_event \<Rightarrow> string \<Rightarrow> int option \<Rightarrow> dict" where
  "dispatch_payload c run_no event phase pid = (case event of (p, at, _) \<Rightarrow>
     [(''source'', JStr REWORK_DISPATCH_PROVENANCE_SOURCE), (''phase'', JStr phase), (''task_id'', JStr (cl_id c)),
      (''run_id'', JInt run_no), (''rework_event_at'', JInt at), (''rework_round'', dget_py p ''rework_round''),
      (''request_comment_id'', dget_py p ''request_comment_id''), (''head_sha'', dget_py p ''head_sha''),
      (''claim_lock'', opt_str (cl_lock c))] @ (case pid of None \<Rightarrow> [] | Some i \<Rightarrow> [(''pid'', JInt i)]))"

definition append_rework_dispatch_provenance ::
  "lane_env \<Rightarrow> contexts \<Rightarrow> claimed \<Rightarrow> string \<Rightarrow> int option \<Rightarrow> lane \<Rightarrow> unit laned" where
  "append_rework_dispatch_provenance env ctxs c phase pid w = (case cl_run c of
      None \<Rightarrow> (Inl (RuntimeError (''edge rework claim has no run id: '' @ cl_id c)), w)
    | Some run_no \<Rightarrow>
        and_then (case context_event ctxs (cl_id c) of Some e \<Rightarrow> (Inr (Some e), w)
           | None \<Rightarrow> query env (latest_rework_event (cl_id c)) w) (\<lambda>event w.
         case event of
           None \<Rightarrow> (Inl (RuntimeError (''edge rework claim has no governing event: '' @ cl_id c)), w)
         | Some e \<Rightarrow> and_then (add_event env (cl_id c) (Some run_no) REWORK_DISPATCH_PROVENANCE_KIND
               (dispatch_payload c run_no e phase pid) w) (\<lambda>_ w. (Inr (), traced (ProvenanceWritten phase) w))))"

section \<open>The hooks of a board pass\<close>

definition opt_labels :: "string list option \<Rightarrow> json" where
  "opt_labels v = (case v of None \<Rightarrow> JNull | Some ls \<Rightarrow> label_list ls)"

definition failed_projection :: "label_failure \<Rightarrow> dict" where
  "failed_projection f = [(''ok'', JBool False), (''error'', JStr (failure_message (lf_error f)))] @
     (case lf_error f of CompletionError _ _ \<Rightarrow> [(''failure_class'', opt_str (lf_class f)), (''http_status'', opt_int (lf_status f)),
       (''before_labels'', opt_labels (lf_before f)), (''desired_labels'', opt_labels (lf_desired f)),
       (''observed_labels'', opt_labels (lf_observed f))] | _ \<Rightarrow> [])"

text \<open>\<open>_claim_projection\<close>: none when the labels are as they should be, else what is known of the failure.\<close>

definition claim_projection :: "lane_env \<Rightarrow> contexts \<Rightarrow> claimed \<Rightarrow> lane \<Rightarrow> dict option \<times> lane" where
  "claim_projection env ctxs c w = (case ctxs (cl_id c) of
      Some (Context x) \<Rightarrow>
        (case project_pr_lifecycle_labels (l_net env) (cx_repository x) (pr_number (cx_pr x)) [WORKING_LABEL]
            [REWORK_LABEL, REVIEW_READY_LABEL] (l_calls w) of
           (Inl f, calls) \<Rightarrow> (Some (failed_projection f), w\<lparr>l_calls := calls\<rparr>)
         | (Inr _, calls) \<Rightarrow> (None, traced LabelsClaimed (w\<lparr>l_calls := calls\<rparr>)))
    | _ \<Rightarrow> (Some [(''ok'', JBool False), (''error'', JStr ''rework context unavailable'')], w))"

definition clear_rework_execution_labels :: "edge_net \<Rightarrow> rework_ctx \<Rightarrow> edge_call list \<Rightarrow> (label_failure + string \<times> dict) \<times> edge_call list" where
  "clear_rework_execution_labels n x = project_pr_lifecycle_labels n (cx_repository x) (pr_number (cx_pr x)) []
     [REWORK_LABEL, WORKING_LABEL, REVIEW_READY_LABEL]"

text \<open>\<open>_failure_projection\<close>; what it raises is printed by the caller.\<close>

definition failure_projection :: "lane_env \<Rightarrow> contexts \<Rightarrow> claimed \<Rightarrow> string \<Rightarrow> lane \<Rightarrow> lane" where
  "failure_projection env ctxs c stage w = (case ctxs (cl_id c) of
      Some (Context x) \<Rightarrow> (case clear_rework_execution_labels (l_net env) x (l_calls w) of
          (Inl _, calls) \<Rightarrow> w\<lparr>l_calls := calls\<rparr>
        | (Inr _, calls) \<Rightarrow> traced (LabelsCleared stage) (w\<lparr>l_calls := calls\<rparr>))
    | _ \<Rightarrow> w)"

text \<open>Evidence of a failure whose labels are known, in a transaction of its own.\<close>

definition projection_failure_payload :: "string \<Rightarrow> rework_ctx \<Rightarrow> dict \<Rightarrow> dict" where
  "projection_failure_payload task_id x p =
     [(''task_id'', JStr task_id), (''repository'', JStr (cx_repository x)), (''issue_number'', JInt (cx_issue x)),
      (''pr_number'', JInt (pr_number (cx_pr x))), (''stage'', JStr ''claim''), (''operation'', JStr ''lifecycle_label_projection''),
      (''failure_class'', dget_py p ''failure_class''), (''http_status'', dget_py p ''http_status''),
      (''before_labels'', dget_py p ''before_labels''), (''desired_labels'', dget_py p ''desired_labels''),
      (''observed_labels'', dget_py p ''observed_labels''), (''retryable'', JBool True), (''source'', JStr ''github_edge_rework_dispatch'')]"

definition append_claim_projection_failure_event :: "lane_env \<Rightarrow> string \<Rightarrow> contexts \<Rightarrow> dict \<Rightarrow> lane \<Rightarrow> lane" where
  "append_claim_projection_failure_event env task_id ctxs p w = (case ctxs task_id of
      Some (Context x) \<Rightarrow>
        if dget_py p ''failure_class'' \<notin> {JStr ''patch_non_2xx'', JStr ''read_back_mismatch''} then w
        else snd (add_event env task_id None ''github_pr_rework_projection_failure'' (projection_failure_payload task_id x p) w)
    | _ \<Rightarrow> w)"

section \<open>A claim, and giving it back\<close>

definition reclaim_task :: "lane_env \<Rightarrow> string \<Rightarrow> string \<Rightarrow> lane \<Rightarrow> unit laned" where
  "reclaim_task env task_id reason w =
     and_then (lane_statement env (l_reclaim env task_id reason) w) (\<lambda>_ w. (Inr (), traced ClaimReturned w))"

definition reclaim_failed :: "string \<Rightarrow> string \<Rightarrow> dict list" where
  "reclaim_failed task_id m = [[(''task_id'', JStr task_id), (''status'', JStr ''running''), (''changed'', JBool True),
     (''reason'', JStr ''claim_projection_reclaim_failed''), (''error'', JStr m)]]"

text \<open>The claim goes back, the card is reserved again, and the labels are cleared.\<close>

definition return_claim ::
  "lane_env \<Rightarrow> contexts \<Rightarrow> claimed \<Rightarrow> string \<Rightarrow> string \<Rightarrow> string \<Rightarrow> (lane \<Rightarrow> dict list laned) \<Rightarrow> lane \<Rightarrow> dict list laned" where
  "return_claim env ctxs c reason shown stage k w = (case reclaim_task env (cl_id c) reason w of
      (Inl e, w) \<Rightarrow> (Inr (reclaim_failed (cl_id c) (shown @ ''; '' @ failure_name e)), w)
    | (Inr _, w) \<Rightarrow> and_then (reserve_rework_task env (cl_id c) w) (\<lambda>_ w. k (failure_projection env ctxs c stage w)))"

text \<open>A failure that ends the run is phase_recorded by Hermes, which releases the claim and may block the card.\<close>

definition record_failure ::
  "lane_env \<Rightarrow> contexts \<Rightarrow> claimed \<Rightarrow> int option \<Rightarrow> string \<Rightarrow> string \<Rightarrow> string \<Rightarrow> lane \<Rightarrow> dict list laned" where
  "record_failure env ctxs c limit what m reason w =
     and_then (lane_statement env (l_failure env c (what @ m) limit) w) (\<lambda>blocked w.
     and_then (reserve_rework_task env (cl_id c) (traced (FailureRecorded reason) w)) (\<lambda>_ w.
       (Inr [[(''task_id'', JStr (cl_id c)), (''status'', JStr (if blocked then ''blocked'' else ''ready'')), (''changed'', JBool False),
          (''reason'', JStr reason), (''error'', JStr m), (''auto_blocked'', JBool blocked)]],
        failure_projection env ctxs c reason w)))"

definition worktree_branch :: "claimed \<Rightarrow> string option \<Rightarrow> string" where
  "worktree_branch c resolved = (let own = py_strip (case cl_branch c of None \<Rightarrow> [] | Some s \<Rightarrow> s) in
     case resolved of
       Some (x # xs) \<Rightarrow> x # xs
     | _ \<Rightarrow> if own = [] then ''wt/'' @ cl_id c else own)"

definition default_spawn :: "lane_env \<Rightarrow> spawner" where
  "default_spawn env c workspace w = (case l_start env c workspace of
      Inl e \<Rightarrow> (Inl e, w)
    | Inr started \<Rightarrow> (Inr started, traced (WorkerStarted c workspace started) w))"

text \<open>The worker, its pid and the record of it; the first that fails ends the run.\<close>

definition start_worker :: "lane_env \<Rightarrow> spawner \<Rightarrow> contexts \<Rightarrow> claimed \<Rightarrow> string \<Rightarrow> lane \<Rightarrow> int option laned" where
  "start_worker env spawn ctxs c workspace w =
     and_then (spawn c workspace w) (\<lambda>started w. let pid = (if started = Some 0 then None else started) in
       and_then (case pid of None \<Rightarrow> (Inr (), w) | Some i \<Rightarrow> lane_statement env (l_set_pid env (cl_id c) i) w) (\<lambda>_ w.
       and_then (append_rework_dispatch_provenance env ctxs c ''spawned'' pid w) (\<lambda>_ w. (Inr pid, w))))"

definition spawned_reply :: "string \<Rightarrow> claimed \<Rightarrow> int option \<Rightarrow> dict list" where
  "spawned_reply board_name c pid = [[(''task_id'', JStr (cl_id c)), (''status'', JStr ''running''), (''changed'', JBool True),
     (''reason'', JStr ''rework_worker_spawned''), (''pid'', opt_int pid), (''run_id'', opt_int (cl_run c)),
     (''assignee'', opt_str (cl_assignee c)), (''board'', JStr board_name)]]"

text \<open>The workspace is set outside any handler: what raises there leaves the dispatch.\<close>

definition start_claimed :: "lane_env \<Rightarrow> spawner \<Rightarrow> contexts \<Rightarrow> string \<Rightarrow> int option \<Rightarrow> claimed \<Rightarrow> lane \<Rightarrow> dict list laned" where
  "start_claimed env spawn ctxs board_name limit c w = (case l_workspace env c of
      Inl m \<Rightarrow> record_failure env ctxs c limit ''workspace: '' m ''workspace_resolve_failed'' w
    | Inr (workspace, resolved) \<Rightarrow>
        and_then (lane_statement env (l_set_workspace env (cl_id c) workspace) w) (\<lambda>_ w.
        and_then (if cl_worktree c then lane_statement env (l_set_branch env (cl_id c) (worktree_branch c resolved)) w else (Inr (), w)) (\<lambda>_ w.
        case start_worker env spawn ctxs c workspace w of
          (Inl e, w) \<Rightarrow> if e = spawn_blocked then (Inl e, w)
            else record_failure env ctxs c limit [] (failure_message e) ''spawn_failed'' w
        | (Inr pid, w) \<Rightarrow> (Inr (spawned_reply board_name c pid), w))))"

definition error_text :: "dict \<Rightarrow> string" where
  "error_text p = (let v = dget_py p ''error'' in if truthy v then py_str v else ''unknown'')"

text \<open>The claimed card: its record, the labels, the start.\<close>

definition run_claimed :: "lane_env \<Rightarrow> spawner \<Rightarrow> contexts \<Rightarrow> string \<Rightarrow> int option \<Rightarrow> claimed \<Rightarrow> lane \<Rightarrow> dict list laned" where
  "run_claimed env spawn ctxs board_name limit c w =
     (case append_rework_dispatch_provenance env ctxs c ''claimed'' None w of
        (Inl e, w) \<Rightarrow> return_claim env ctxs c ''edge rework claim provenance write failed'' (failure_name e) ''claim_provenance_failed''
          (\<lambda>w. (Inr (waiting (cl_id c) ''rework_claim_provenance_failed'' [(''error'', JStr (failure_name e))]), w)) w
      | (Inr _, w) \<Rightarrow>
          (case claim_projection env ctxs c w of
             (Some p, w) \<Rightarrow> return_claim env ctxs c ''rework working-label projection failed'' (py_repr (JObj p)) ''claim''
               (\<lambda>w. (Inr (waiting (cl_id c) ''working_label_projection_failed'' [(''error'', JStr (error_text p)), (''lifecycle'', JObj p)]),
                  append_claim_projection_failure_event env (cl_id c) ctxs p w)) w
           | (None, w) \<Rightarrow> start_claimed env spawn ctxs board_name limit c w))"

text \<open>Hermes hands out the card it was asked for.\<close>

definition claim_and_run ::
  "lane_env \<Rightarrow> spawner \<Rightarrow> contexts \<Rightarrow> string \<Rightarrow> int option \<Rightarrow> string \<Rightarrow> string \<Rightarrow> lane \<Rightarrow> dict list laned" where
  "claim_and_run env spawn ctxs board_name limit task_id claim_lock w =
     and_then (lane_statement env (l_claim env task_id claim_lock) w) (\<lambda>got w. case got of
         None \<Rightarrow> (Inr (waiting task_id ''claim_failed'' []), w)
       | Some c \<Rightarrow> (let c = c\<lparr>cl_id := task_id\<rparr> in
           run_claimed env spawn ctxs board_name limit c (traced (ClaimTaken claim_lock c) w)))"

section \<open>One dispatch\<close>

text \<open>The call of a board pass: its contexts and hooks, the configuration's limits; Hermes' own start of a worker unless one is given.\<close>

record dispatch_call =
  dc_board :: string
  dc_dry_run :: bool
  dc_tasks :: "string list option"
  dc_normalized :: "string list"
  dc_contexts :: contexts
  dc_owners :: "((string \<times> int) \<times> string) list"
  dc_spawn :: "spawner option"

definition spawn_of :: "lane_env \<Rightarrow> dispatch_call \<Rightarrow> spawner" where
  "spawn_of env call = (case dc_spawn call of None \<Rightarrow> default_spawn env | Some spawn \<Rightarrow> spawn)"

definition with_assignee :: "lane_env \<Rightarrow> dispatch_call \<Rightarrow> int option \<Rightarrow> string \<Rightarrow> string \<Rightarrow> string option \<Rightarrow> lane \<Rightarrow> dict list laned" where
  "with_assignee env call limit task_id claim_lock assignee w = (case assignee of
      None \<Rightarrow> (Inr (waiting task_id ''unassigned'' []), w)
    | Some a \<Rightarrow>
        if dc_dry_run call then (Inr (waiting task_id ''rework_spawn_predicted'' [(''assignee'', JStr a), (''board'', JStr (dc_board call))]), w)
        else if \<not> l_profile env a then (Inr (waiting task_id ''assignee_profile_missing'' [(''assignee'', JStr a)]), w)
        else claim_and_run env (spawn_of env call) (dc_contexts call) (dc_board call) limit task_id claim_lock w)"

definition dispatch_card :: "lane_env \<Rightarrow> dispatch_call \<Rightarrow> int option \<Rightarrow> task \<Rightarrow> lane \<Rightarrow> dict list laned" where
  "dispatch_card env call limit row w =
     (let task_id = t_id row; ctxs = dc_contexts call;
          normalized_dry_run = dc_dry_run call \<and> task_id \<in> set (dc_normalized call) in
      and_then (query env (latest_rework_event task_id) w) (\<lambda>latest w.
      case governing_claim_event ctxs normalized_dry_run task_id latest of
        Inl replies \<Rightarrow> (Inr replies, w)
      | Inr event \<Rightarrow>
          and_then (if normalized_dry_run then (Inr None, w) else query env (\<lambda>b. invalid_event ctxs b task_id event) w) (\<lambda>problem w.
          case problem of
            Some m \<Rightarrow> (Inr (waiting task_id ''rework_context_unavailable'' [(''diagnostic'', JStr m)]), w)
          | None \<Rightarrow> (case ownership_refused ctxs (dc_owners call) task_id of
              Some replies \<Rightarrow> (Inr replies, w)
            | None \<Rightarrow>
                and_then (resolve_rework_assignee env row (default_assignee (l_config env)) (dc_dry_run call) w) (\<lambda>assignee w.
                  with_assignee env call limit task_id (rework_dispatch_claim_lock task_id event) assignee w)))))"

definition running_count :: "board \<Rightarrow> int" where
  "running_count b = int (length (filter (\<lambda>t. t_status t = ''running'') (tasks b)))"

definition dispatch_pending_rework_locked :: "lane_env \<Rightarrow> dispatch_call \<Rightarrow> lane \<Rightarrow> dict list laned" where
  "dispatch_pending_rework_locked env call w =
     (case (max_in_progress (l_config env), failure_limit (l_config env)) of
        (Inl e, _) \<Rightarrow> (Inl e, w)
      | (_, Inl e) \<Rightarrow> (Inl e, w)
      | (Inr most, Inr limit) \<Rightarrow>
          and_then (query env running_count w) (\<lambda>running w.
            if most \<le> running then (Inr (no_task ''board_busy'' [(''running'', JInt running), (''max_in_progress'', JInt most)]), w)
            else and_then (query env (pending_rework_tasks env (dc_tasks call) (dc_normalized call)) w) (\<lambda>pending w.
              case pending of
                [] \<Rightarrow> (Inr [], w)
              | row # _ \<Rightarrow> dispatch_card env call limit row w)))"

definition dispatch_pending_rework :: "lane_env \<Rightarrow> dispatch_call \<Rightarrow> lane \<Rightarrow> dict list laned" where
  "dispatch_pending_rework env call w = (let here = (''board'', JStr (dc_board call)) in case l_lock env of
      LockUnresolved m \<Rightarrow> (Inr (no_task ''dispatch_lock_failed'' [(''error'', JStr m), here]), w)
    | NoLockApi \<Rightarrow> (Inr (no_task ''dispatch_lock_unavailable'' [here]), w)
    | LockTaken \<Rightarrow> (Inr (no_task ''dispatch_locked'' [here]), w)
    | LockFree \<Rightarrow> dispatch_pending_rework_locked env call w)"

section \<open>The lane of a board pass\<close>

definition REWORK_DISPATCH_ENV :: string where
  "REWORK_DISPATCH_ENV = ''HERMES_KANBAN_REWORK_DISPATCH''"

text \<open>The running cards of the pass own the pull requests of their contexts; the last of equal keys stays.\<close>

definition active_pr_owners :: "(string \<times> string) list \<Rightarrow> contexts \<Rightarrow> ((string \<times> int) \<times> string) list" where
  "active_pr_owners rows ctxs = foldl (\<lambda>owners (task_id, status).
      if status \<noteq> ''running'' then owners
      else (case ctxs task_id of
          Some (Context c) \<Rightarrow> dset (cx_repository c, pr_number (cx_pr c)) task_id owners
        | _ \<Rightarrow> owners)) [] rows"

text \<open>Nothing that the lane raises leaves the pass.\<close>

definition rework_lane ::
  "lane_env \<Rightarrow> string option \<Rightarrow> string \<Rightarrow> bool \<Rightarrow> string list option \<Rightarrow> string list \<Rightarrow> contexts \<Rightarrow> (string \<times> string) list \<Rightarrow> lane \<Rightarrow> dict list \<times> lane" where
  "rework_lane env flag board_name dry_run requested normalized ctxs rows w =
     (if py_strip (case flag of None \<Rightarrow> [] | Some s \<Rightarrow> s) \<noteq> ''1'' then ([], w)
      else (case dispatch_pending_rework env \<lparr>dc_board = board_name, dc_dry_run = dry_run, dc_tasks = requested,
          dc_normalized = normalized, dc_contexts = ctxs, dc_owners = active_pr_owners rows ctxs, dc_spawn = None\<rparr> w of
          (Inl e, w) \<Rightarrow> (no_task ''rework_dispatch_failed'' [(''error'', JStr (failure_name e)), (''board'', JStr board_name)], w)
        | (Inr replies, w) \<Rightarrow> (replies, w)))"

end
