(* ===== verification/DispatchGuarantees.thy ===== *)
theory DispatchGuarantees
  imports EdgeDispatch ReworkGuarantees
begin

text \<open>
  What the dispatch of a rework round promises: a worker is started only for a card it claimed, whose round still stands
  and whose pull request nobody works on, after its labels say so; a claim is never forgotten; the run it starts is
  the one the check of the delivery later takes for the round's; a dry run changes nothing.
\<close>

section \<open>Steps of the lane\<close>

lemma lane_statement_trace [simp]: "l_trace (snd (lane_statement env f w)) = l_trace w"
  by (simp add: lane_statement_def Let_def split: option.split prod.split)

lemma lane_statement_calls [simp]: "l_calls (snd (lane_statement env f w)) = l_calls w"
  by (simp add: lane_statement_def Let_def split: option.split prod.split)

lemma query_trace [simp]: "l_trace (snd (query env f w)) = l_trace w" "l_calls (snd (query env f w)) = l_calls w"
  by (simp_all add: query_def)

lemma lane_statement_traceD: "lane_statement env f w = (r, w') \<Longrightarrow> l_trace w' = l_trace w"
  by (metis snd_conv lane_statement_trace)

lemma query_traceD: "query env f w = (r, w') \<Longrightarrow> l_trace w' = l_trace w"
  by (metis snd_conv query_trace(1))

lemma traced_simps [simp]: "l_trace (traced e w) = l_trace w @ [e]" "l_board (traced e w) = l_board w" "l_calls (traced e w) = l_calls w"
    "l_step (traced e w) = l_step w"
  by (simp_all add: traced_def)

lemma lane_then_simps [simp]: "and_then (Inl e, w) k = (Inl e, w)" "and_then (Inr x, w) k = k x w"
  by (simp_all add: and_then_def)

lemma and_then_eq:
  "and_then m k = (r, w') \<longleftrightarrow> (\<exists>e. m = (Inl e, w') \<and> r = Inl e) \<or> (\<exists>x w1. m = (Inr x, w1) \<and> k x w1 = (r, w'))"
  by (cases m; cases "fst m") (auto simp: and_then_def)

text \<open>The board at the first looks, before anything is written.\<close>

primrec seen_board :: "lane_env \<Rightarrow> lane \<Rightarrow> nat \<Rightarrow> board" where
  "seen_board env w 0 = l_others env (l_step w) (l_board w)"
| "seen_board env w (Suc k) = l_others env (l_step w + Suc k) (seen_board env w k)"

text \<open>After \<open>k\<close> looks nothing but the board and the count of the looks has changed.\<close>

definition looked :: "lane_env \<Rightarrow> lane \<Rightarrow> nat \<Rightarrow> lane \<Rightarrow> bool" where
  "looked env w k w' \<longleftrightarrow> l_trace w' = l_trace w \<and> l_calls w' = l_calls w \<and> l_step w' = l_step w + k \<and>
     l_board w' = (case k of 0 \<Rightarrow> l_board w | Suc j \<Rightarrow> seen_board env w j)"

lemma looked_0 [simp]: "looked env w 0 w" by (simp add: looked_def)

lemma query_looked:
  assumes "looked env w k w1" and "query env f w1 = (r, w2)"
  shows "looked env w (Suc k) w2 \<and> (\<forall>x. r = Inr x \<longrightarrow> x = f (seen_board env w k))"
  using assms by (cases k) (auto simp: query_def lane_statement_def looked_def Let_def split: option.split_asm)

section \<open>Before the claim\<close>

text \<open>What the lane established about a card, on the boards it saw.\<close>

definition chosen :: "lane_env \<Rightarrow> dispatch_call \<Rightarrow> lane \<Rightarrow> string \<Rightarrow> string \<Rightarrow> bool" where
  "chosen env call w task_id claim_lock \<longleftrightarrow> l_lock env = LockFree \<and> \<not> dc_dry_run call \<and>
     (\<exists>most. max_in_progress (l_config env) = Inr most \<and> running_count (seen_board env w 0) < most) \<and>
     (\<exists>row \<in> set (tasks (seen_board env w 1)). t_id row = task_id \<and> t_status row = ''ready'' \<and> t_claim_lock row = None \<and>
        rework_pending (seen_board env w 1) (dc_normalized call) task_id) \<and>
     (\<exists>x. dc_contexts call task_id = Some (Context x) \<and> latest_rework_event task_id (seen_board env w 2) = Some (cx_event x) \<and>
        invalid_event (dc_contexts call) (seen_board env w 3) task_id (Some (cx_event x)) = None \<and>
        WORKING_LABEL \<notin> set (cx_labels x) \<and>
        (\<forall>owner. ((cx_repository x, pr_number (cx_pr x)), owner) \<in> set (dc_owners call) \<longrightarrow> owner = task_id) \<and>
        claim_lock = rework_dispatch_claim_lock task_id (Some (cx_event x)))"

lemma resolve_quiet:
  assumes "resolve_rework_assignee env row preferred dry_run w = (r, w')"
  shows "l_trace w' = l_trace w"
  using assms
  by (auto simp: resolve_rework_assignee_def add_event_def and_then_eq split: option.split_asm if_splits
      dest!: lane_statement_traceD query_traceD)

text \<open>A dispatch answers without a claim, or claims the chosen card and runs it.\<close>

lemma dispatch_card_cases:
  assumes looked: "looked env w 2 w1" and out: "dispatch_card env call limit row w1 = (r, w')"
    and dry: "\<not> dc_dry_run call"
  shows "l_trace w' = l_trace w \<or>
    (\<exists>w2 x. l_trace w2 = l_trace w \<and> dc_contexts call (t_id row) = Some (Context x) \<and>
       latest_rework_event (t_id row) (seen_board env w 2) = Some (cx_event x) \<and>
       invalid_event (dc_contexts call) (seen_board env w 3) (t_id row) (Some (cx_event x)) = None \<and>
       ownership_refused (dc_contexts call) (dc_owners call) (t_id row) = None \<and>
       claim_and_run env (spawn_of env call) (dc_contexts call) (dc_board call) limit (t_id row) (rework_dispatch_claim_lock (t_id row) (Some (cx_event x))) w2 = (r, w'))"
proof -
  let ?id = "t_id row" and ?ctxs = "dc_contexts call"
  obtain r1 w2 where q1: "query env (latest_rework_event ?id) w1 = (r1, w2)" by (rule prod.exhaust)
  note l1 = query_looked [OF looked q1]
  show ?thesis
  proof (cases r1)
    case (Inl e)
    with out q1 l1 dry show ?thesis by (simp add: dispatch_card_def Let_def looked_def)
  next
    case latest: (Inr latest)
    show ?thesis
    proof (cases "governing_claim_event ?ctxs False ?id latest")
      case (Inl replies)
      with out q1 l1 latest dry show ?thesis by (simp add: dispatch_card_def Let_def looked_def)
    next
      case event: (Inr event)
      then obtain x where x: "?ctxs ?id = Some (Context x)" "event = Some (cx_event x)" "latest = Some (cx_event x)"
        by (auto simp: governing_claim_event_def split: option.split_asm context_of_round.split_asm if_splits)
      obtain r2 w3 where q2: "query env (\<lambda>b. invalid_event ?ctxs b ?id event) w2 = (r2, w3)" by (rule prod.exhaust)
      have l2: "looked env w (Suc (Suc 2)) w3" "\<And>y. r2 = Inr y \<Longrightarrow> y = invalid_event ?ctxs (seen_board env w 3) ?id event"
        using query_looked [OF _ q2, of w 3] l1 by (auto simp: eval_nat_numeral)
      show ?thesis
      proof (cases "r2 = Inr None \<and> ownership_refused ?ctxs (dc_owners call) ?id = None")
        case False
        with out q1 l1 latest dry event q2 l2 show ?thesis
          by (cases r2) (auto simp: dispatch_card_def Let_def looked_def split: option.split_asm)
      next
        case go: True
        obtain r3 w4 where res: "resolve_rework_assignee env row (default_assignee (l_config env)) False w3 = (r3, w4)" by (rule prod.exhaust)
        have quiet: "l_trace w4 = l_trace w" using resolve_quiet [OF res] l2 by (simp add: looked_def)
        have "r = Inl e \<and> w' = w4" if "r3 = Inl e" for e
          using out q1 latest dry event q2 go res that by (simp add: dispatch_card_def Let_def)
        moreover have "with_assignee env call limit ?id (rework_dispatch_claim_lock ?id event) assignee w4 = (r, w')" if "r3 = Inr assignee" for assignee
          using out q1 latest dry event q2 go res that by (simp add: dispatch_card_def Let_def)
        ultimately show ?thesis using quiet x l1 l2 go latest dry
          by (cases r3) (auto simp: with_assignee_def split: option.split_asm if_splits)
      qed
    qed
  qed
qed

section \<open>After the claim\<close>

text \<open>Neither a claim nor a start.\<close>

definition cleanup :: "lane_event list \<Rightarrow> bool" where
  "cleanup es \<longleftrightarrow> (\<forall>e \<in> set es. case e of ClaimTaken _ _ \<Rightarrow> False | WorkerStarted _ _ _ \<Rightarrow> False | _ \<Rightarrow> True)"

lemma cleanup_simps [simp]: "cleanup []" "cleanup (es @ es') \<longleftrightarrow> cleanup es \<and> cleanup es'"
    "cleanup (e # es) \<longleftrightarrow> (case e of ClaimTaken _ _ \<Rightarrow> False | WorkerStarted _ _ _ \<Rightarrow> False | _ \<Rightarrow> True) \<and> cleanup es"
  by (auto simp: cleanup_def)

definition released :: "lane_event list \<Rightarrow> bool" where
  "released es \<longleftrightarrow> ClaimReturned \<in> set es \<or> (\<exists>why. FailureRecorded why \<in> set es)"

lemma released_simps [simp]: "\<not> released []" "released (es @ es') \<longleftrightarrow> released es \<or> released es'"
    "released (e # es) \<longleftrightarrow> e = ClaimReturned \<or> (\<exists>why. e = FailureRecorded why) \<or> released es"
  by (auto simp: released_def)

lemma failure_projection_trace: "\<exists>es. l_trace (failure_projection env ctxs c stage w) = l_trace w @ es \<and> cleanup es"
  by (auto simp: failure_projection_def split: option.split context_of_round.split prod.split sum.split)

lemma provenance_trace:
  assumes "append_rework_dispatch_provenance env ctxs c phase pid w = (r, w')"
  shows "l_trace w' = l_trace w @ (case r of Inl _ \<Rightarrow> [] | Inr _ \<Rightarrow> [ProvenanceWritten phase])"
  using assms
  by (auto simp: append_rework_dispatch_provenance_def add_event_def and_then_eq split: option.split_asm
      dest!: lane_statement_traceD query_traceD)

lemma failure_event_trace [simp]: "l_trace (append_claim_projection_failure_event env task_id ctxs p w) = l_trace w"
  by (simp add: append_claim_projection_failure_event_def add_event_def split: option.split context_of_round.split)

text \<open>The last event of the board is the record of this claim's phase.\<close>

definition phase_recorded :: "contexts \<Rightarrow> claimed \<Rightarrow> string \<Rightarrow> board \<Rightarrow> bool" where
  "phase_recorded ctxs c phase b \<longleftrightarrow> (\<forall>e. context_event ctxs (cl_id c) = Some e \<longrightarrow> (\<exists>es run_no pid at. cl_run c = Some run_no \<and>
     events b = es @ [\<lparr>e_task = cl_id c, e_run = Some run_no, e_kind = REWORK_DISPATCH_PROVENANCE_KIND,
       e_payload = JsonText (JObj (dispatch_payload c run_no e phase pid)), e_at = at\<rparr>]))"

lemma add_event_board:
  assumes "add_event env task_id run_no kind payload w = (Inr u, w')"
  shows "\<exists>es at. events (l_board w') = es @ [\<lparr>e_task = task_id, e_run = run_no, e_kind = kind, e_payload = JsonText (JObj payload), e_at = at\<rparr>]"
  using assms by (auto simp: add_event_def lane_statement_def Let_def split: option.split_asm)

lemma provenance_recorded:
  assumes "append_rework_dispatch_provenance env ctxs c phase pid w = (Inr u, w')"
  shows "phase_recorded ctxs c phase (l_board w')"
  using assms
  by (fastforce simp: append_rework_dispatch_provenance_def phase_recorded_def and_then_eq split: option.split_asm dest!: add_event_board)

lemma record_failure_trace:
  assumes "record_failure env ctxs c limit what m reason w = (r, w')"
  shows "\<exists>es. l_trace w' = l_trace w @ es \<and> cleanup es \<and> ((\<exists>replies. r = Inr replies) \<longrightarrow> released es)"
proof -
  obtain r1 w1 where one: "lane_statement env (l_failure env c (what @ m) limit) w = (r1, w1)" by (rule prod.exhaust)
  note t1 = lane_statement_traceD [OF one]
  show ?thesis
  proof (cases r1)
    case (Inl e)
    with assms one t1 show ?thesis by (auto simp: record_failure_def)
  next
    case (Inr blocked)
    obtain r2 w2 where two: "reserve_rework_task env (cl_id c) (traced (FailureRecorded reason) w1) = (r2, w2)" by (rule prod.exhaust)
    have t2: "l_trace w2 = l_trace w @ [FailureRecorded reason]"
      using lane_statement_traceD [OF two [unfolded reserve_rework_task_def]] t1 by simp
    show ?thesis
    proof (cases r2)
      case (Inl e)
      with assms one Inr two t2 show ?thesis by (auto simp: record_failure_def)
    next
      case Inr': (Inr u)
      obtain es where "l_trace (failure_projection env ctxs c reason w2) = l_trace w2 @ es" "cleanup es"
        using failure_projection_trace by blast
      with assms one Inr two Inr' t2 show ?thesis by (auto simp: record_failure_def)
    qed
  qed
qed

lemma return_claim_trace:
  assumes "return_claim env ctxs c reason shown stage k w = (r, w')"
    and quiet: "\<And>w1 r1 w2. k w1 = (r1, w2) \<Longrightarrow> l_trace w2 = l_trace w1"
  shows "\<exists>es. l_trace w' = l_trace w @ es \<and> cleanup es \<and>
    (\<forall>replies. r = Inr replies \<longrightarrow> released es \<or> (\<exists>m. replies = reclaim_failed (cl_id c) m))"
proof -
  obtain r1 w1 where one: "lane_statement env (l_reclaim env (cl_id c) reason) w = (r1, w1)" by (rule prod.exhaust)
  note t1 = lane_statement_traceD [OF one]
  show ?thesis
  proof (cases r1)
    case (Inl e)
    with assms(1) one t1 show ?thesis by (auto simp: return_claim_def reclaim_task_def)
  next
    case (Inr u)
    obtain r2 w2 where two: "reserve_rework_task env (cl_id c) (traced ClaimReturned w1) = (r2, w2)" by (rule prod.exhaust)
    have t2: "l_trace w2 = l_trace w @ [ClaimReturned]"
      using lane_statement_traceD [OF two [unfolded reserve_rework_task_def]] t1 by simp
    show ?thesis
    proof (cases r2)
      case (Inl e)
      with assms(1) one Inr two t2 show ?thesis by (auto simp: return_claim_def reclaim_task_def)
    next
      case Inr': (Inr u')
      obtain es where es: "l_trace (failure_projection env ctxs c stage w2) = l_trace w2 @ es" "cleanup es"
        using failure_projection_trace by blast
      have "k (failure_projection env ctxs c stage w2) = (r, w')"
        using assms(1) one Inr two Inr' by (simp add: return_claim_def reclaim_task_def)
      from quiet [OF this] es t2 show ?thesis by auto
    qed
  qed
qed

text \<open>
  What is given to start a worker starts one or raises, after steps (\<open>steps\<close>) that neither claim nor start; when it refuses, it
  may give the claim back.
\<close>

definition starter :: "(claimed \<Rightarrow> string \<Rightarrow> lane_event list \<Rightarrow> bool) \<Rightarrow> spawner \<Rightarrow> bool" where
  "starter steps spawn \<longleftrightarrow> (\<forall>c workspace w r w'. spawn c workspace w = (r, w') \<longrightarrow> (case r of
      Inr started \<Rightarrow> \<exists>pre. l_trace w' = l_trace w @ pre @ [WorkerStarted c workspace started] \<and> steps c workspace pre \<and> cleanup pre
    | Inl e \<Rightarrow> \<exists>es. l_trace w' = l_trace w @ es \<and> cleanup es))"

lemma starterD:
  assumes "starter steps spawn" and "spawn c workspace w = (r, w')"
  shows "r = Inr started \<Longrightarrow> \<exists>pre. l_trace w' = l_trace w @ pre @ [WorkerStarted c workspace started] \<and> steps c workspace pre \<and> cleanup pre"
    and "r = Inl e \<Longrightarrow> \<exists>es. l_trace w' = l_trace w @ es \<and> cleanup es"
  using assms unfolding starter_def by force+

lemma default_starter: "starter (\<lambda>_ _ pre. pre = []) (default_spawn env)"
  by (auto simp: starter_def default_spawn_def split: sum.split)

lemma start_worker_trace:
  assumes starter: "starter steps spawn" and "start_worker env spawn ctxs c workspace w = (r, w')"
  shows "(\<exists>es. l_trace w' = l_trace w @ es \<and> cleanup es \<and> (\<exists>e. r = Inl e)) \<or>
    (\<exists>started pre. l_trace w' = l_trace w @ pre @ [WorkerStarted c workspace started] @ (case r of Inl _ \<Rightarrow> [] | Inr _ \<Rightarrow> [ProvenanceWritten ''spawned'']) \<and>
      steps c workspace pre \<and> cleanup pre \<and> ((\<exists>pid. r = Inr pid) \<longrightarrow> phase_recorded ctxs c ''spawned'' (l_board w')))"
proof -
  obtain r1 w1 where spawn: "spawn c workspace w = (r1, w1)" by (rule prod.exhaust)
  note s = starterD [OF starter spawn]
  show ?thesis
  proof (cases r1)
    case (Inl e)
    with assms(2) spawn have "r = Inl e" and "w' = w1" by (simp_all add: start_worker_def)
    with s(2) [OF Inl] show ?thesis by blast
  next
    case (Inr started)
    from s(1) [OF Inr] obtain pre where pre: "l_trace w1 = l_trace w @ pre @ [WorkerStarted c workspace started]" "steps c workspace pre" "cleanup pre"
      by blast
    from Inr assms(2) spawn have "r = Inr pid \<Longrightarrow> phase_recorded ctxs c ''spawned'' (l_board w')" for pid
      by (auto simp: start_worker_def Let_def and_then_eq intro: provenance_recorded)
    moreover from Inr assms(2) spawn have "l_trace w' = l_trace w1 @ (case r of Inl _ \<Rightarrow> [] | Inr _ \<Rightarrow> [ProvenanceWritten ''spawned''])"
      by (auto simp: start_worker_def Let_def and_then_eq split: option.split_asm if_splits
          dest!: lane_statement_traceD provenance_trace)
    ultimately show ?thesis using pre by auto
  qed
qed

text \<open>What one claimed card leaves: no start, or one start after the record of the claim and the labels.\<close>

definition settled_claim ::
  "(claimed \<Rightarrow> string \<Rightarrow> lane_event list \<Rightarrow> bool) \<Rightarrow> contexts \<Rightarrow> string \<Rightarrow> claimed \<Rightarrow> board \<Rightarrow> lane_event list \<Rightarrow> dict list res \<Rightarrow> bool" where
  "settled_claim steps ctxs board_name c b es r \<longleftrightarrow>
     (cleanup es \<and> (\<forall>replies. r = Inr replies \<longrightarrow> released es \<or> (\<exists>m. replies = reclaim_failed (cl_id c) m))) \<or>
     (\<exists>workspace started pre rest. es = [ProvenanceWritten ''claimed'', LabelsClaimed] @ pre @ WorkerStarted c workspace started # rest \<and>
        steps c workspace pre \<and> cleanup pre \<and> cleanup rest \<and>
        (\<forall>replies. r = Inr replies \<longrightarrow> released rest \<or>
           rest = [ProvenanceWritten ''spawned''] \<and> phase_recorded ctxs c ''spawned'' b \<and> (\<exists>pid. replies = spawned_reply board_name c pid)))"

lemma start_claimed_trace:
  assumes starter: "starter steps spawn" and out: "start_claimed env spawn ctxs board_name limit c w = (r, w')"
  shows "\<exists>es. l_trace w' = l_trace w @ es \<and>
     (cleanup es \<and> ((\<exists>replies. r = Inr replies) \<longrightarrow> released es) \<or>
      (\<exists>workspace started pre rest. es = pre @ WorkerStarted c workspace started # rest \<and> steps c workspace pre \<and> cleanup pre \<and> cleanup rest \<and>
        (\<forall>replies. r = Inr replies \<longrightarrow> released rest \<or>
           rest = [ProvenanceWritten ''spawned''] \<and> phase_recorded ctxs c ''spawned'' (l_board w') \<and>
           (\<exists>pid. replies = spawned_reply board_name c pid))))"
proof (cases "l_workspace env c")
  case (Inl m)
  with out record_failure_trace [of env ctxs c limit _ m _ w r w'] show ?thesis by (fastforce simp: start_claimed_def)
next
  case (Inr placed)
  obtain workspace resolved where placed: "placed = (workspace, resolved)" by force
  let ?branch = "\<lambda>w1. if cl_worktree c then lane_statement env (l_set_branch env (cl_id c) (worktree_branch c resolved)) w1 else (Inr (), w1)"
  obtain r1 w1 where one: "lane_statement env (l_set_workspace env (cl_id c) workspace) w = (r1, w1)" by (rule prod.exhaust)
  obtain r2 w2 where two: "?branch w1 = (r2, w2)" by (rule prod.exhaust)
  have t: "l_trace w1 = l_trace w" "l_trace w2 = l_trace w"
    using lane_statement_traceD [OF one] two by (auto split: if_splits dest: lane_statement_traceD)
  show ?thesis
  proof (cases "\<exists>u1 u2. r1 = Inr u1 \<and> r2 = Inr u2")
    case False
    with out Inr placed one two t show ?thesis by (cases r1; cases r2) (auto simp: start_claimed_def)
  next
    case True
    then obtain u1 u2 where r: "r1 = Inr u1" "r2 = Inr u2" by blast
    obtain r3 w3 where three: "start_worker env spawn ctxs c workspace w2 = (r3, w3)" by (rule prod.exhaust)
    note t3 = start_worker_trace [OF starter three]
    have ended: "(if e = spawn_blocked then (Inl e, w3) else record_failure env ctxs c limit [] (failure_message e) ''spawn_failed'' w3) = (r, w')"
      if "r3 = Inl e" for e
      using out Inr placed one two three that r by (simp add: start_claimed_def)
    have after: "\<exists>es. l_trace w' = l_trace w3 @ es \<and> cleanup es \<and> ((\<exists>replies. r = Inr replies) \<longrightarrow> released es)" if "r3 = Inl e" for e
      using ended [OF that] record_failure_trace [of env ctxs c limit "[]" "failure_message e" "''spawn_failed''" w3 r w']
      by (auto split: if_splits)
    have went: "r = Inr (spawned_reply board_name c pid) \<and> w' = w3" if "r3 = Inr pid" for pid
      using out \<open>l_workspace env c = Inr placed\<close> placed one two three that r by (simp add: start_claimed_def)
    from t3 show ?thesis
    proof (elim disjE exE conjE)
      fix es e assume quiet: "l_trace w3 = l_trace w2 @ es" "cleanup es" and e: "r3 = Inl e"
      from after [OF e] obtain es' where "l_trace w' = l_trace w3 @ es'" "cleanup es'" "(\<exists>replies. r = Inr replies) \<longrightarrow> released es'" by blast
      with quiet t show ?thesis by (intro exI [of _ "es @ es'"]) auto
    next
      fix started pre
      assume ran: "l_trace w3 = l_trace w2 @ pre @ [WorkerStarted c workspace started] @ (case r3 of Inl _ \<Rightarrow> [] | Inr _ \<Rightarrow> [ProvenanceWritten ''spawned''])"
        "steps c workspace pre" "cleanup pre" and noted: "(\<exists>pid. r3 = Inr pid) \<longrightarrow> phase_recorded ctxs c ''spawned'' (l_board w3)"
      show ?thesis
      proof (cases r3)
        case (Inl e)
        from after [OF Inl] obtain es' where "l_trace w' = l_trace w3 @ es'" "cleanup es'" "(\<exists>replies. r = Inr replies) \<longrightarrow> released es'" by blast
        with ran t Inl have "l_trace w' = l_trace w @ pre @ WorkerStarted c workspace started # es'" by simp
        with ran(2,3) \<open>cleanup es'\<close> \<open>(\<exists>replies. r = Inr replies) \<longrightarrow> released es'\<close> show ?thesis by blast
      next
        case (Inr pid)
        with went [OF Inr] ran t have "l_trace w' = l_trace w @ pre @ WorkerStarted c workspace started # [ProvenanceWritten ''spawned'']" by simp
        moreover have "cleanup [ProvenanceWritten ''spawned'']" by simp
        moreover have "phase_recorded ctxs c ''spawned'' (l_board w')" "r = Inr (spawned_reply board_name c pid)"
          using went [OF Inr] noted Inr by simp_all
        ultimately show ?thesis using ran(2,3) by blast
      qed
    qed
  qed
qed

lemma run_claimed_trace:
  assumes starter: "starter steps spawn" and out: "run_claimed env spawn ctxs board_name limit c w = (r, w')"
  shows "\<exists>es. l_trace w' = l_trace w @ es \<and> settled_claim steps ctxs board_name c (l_board w') es r"
proof -
  obtain r1 w1 where one: "append_rework_dispatch_provenance env ctxs c ''claimed'' None w = (r1, w1)" by (rule prod.exhaust)
  note t1 = provenance_trace [OF one]
  show ?thesis
  proof (cases r1)
    case (Inl e)
    with out one t1 return_claim_trace [of env ctxs c _ _ _ _ w1 r w'] show ?thesis
      by (fastforce simp: run_claimed_def settled_claim_def)
  next
    case (Inr u)
    obtain p w2 where two: "claim_projection env ctxs c w1 = (p, w2)" by (rule prod.exhaust)
    have t2: "l_trace w2 = l_trace w1 @ (if p = None then [LabelsClaimed] else [])"
      using two by (auto simp: claim_projection_def split: option.split_asm context_of_round.split_asm prod.split_asm sum.split_asm)
    show ?thesis
    proof (cases p)
      case (Some d)
      have "return_claim env ctxs c ''rework working-label projection failed'' (py_repr (JObj d)) ''claim''
          (\<lambda>w. (Inr (waiting (cl_id c) ''working_label_projection_failed'' [(''error'', JStr (error_text d)), (''lifecycle'', JObj d)]),
             append_claim_projection_failure_event env (cl_id c) ctxs d w)) w2 = (r, w')"
        using out one Inr two Some by (simp add: run_claimed_def)
      then obtain es where "l_trace w' = l_trace w2 @ es" "cleanup es"
          "\<forall>replies. r = Inr replies \<longrightarrow> released es \<or> (\<exists>m. replies = reclaim_failed (cl_id c) m)"
        using return_claim_trace [of env ctxs c _ _ _ _ w2 r w'] by fastforce
      with t1 t2 Inr Some show ?thesis by (auto simp: settled_claim_def)
    next
      case None
      have "start_claimed env spawn ctxs board_name limit c w2 = (r, w')"
        using out one Inr two None by (simp add: run_claimed_def)
      from start_claimed_trace [OF starter this] show ?thesis
      proof (elim exE conjE disjE)
        fix es assume "l_trace w' = l_trace w2 @ es" "cleanup es" "(\<exists>replies. r = Inr replies) \<longrightarrow> released es"
        with t1 t2 Inr None show ?thesis
          by (intro exI [of _ "[ProvenanceWritten ''claimed'', LabelsClaimed] @ es"]) (auto simp: settled_claim_def)
      next
        fix es workspace started pre rest
        assume "l_trace w' = l_trace w2 @ es" "es = pre @ WorkerStarted c workspace started # rest" "steps c workspace pre" "cleanup pre" "cleanup rest"
          "\<forall>replies. r = Inr replies \<longrightarrow> released rest \<or> rest = [ProvenanceWritten ''spawned''] \<and>
             phase_recorded ctxs c ''spawned'' (l_board w') \<and> (\<exists>pid. replies = spawned_reply board_name c pid)"
        with t1 t2 Inr None have "l_trace w' = l_trace w @ [ProvenanceWritten ''claimed'', LabelsClaimed] @ pre @ WorkerStarted c workspace started # rest"
          by simp
        with \<open>steps c workspace pre\<close> \<open>cleanup pre\<close> \<open>cleanup rest\<close> \<open>\<forall>replies. r = Inr replies \<longrightarrow> _\<close> show ?thesis
          unfolding settled_claim_def by blast
      qed
    qed
  qed
qed

section \<open>The dispatch as a whole\<close>

lemma ownership_free:
  assumes "ownership_refused ctxs owners task_id = None" and "ctxs task_id = Some (Context x)"
  shows "WORKING_LABEL \<notin> set (cx_labels x)"
    and "((cx_repository x, pr_number (cx_pr x)), owner) \<in> set owners \<Longrightarrow> owner = task_id"
  using assms by (auto simp: ownership_refused_def find_None_iff split: if_splits option.split_asm)

lemma claim_and_run_trace:
  assumes starter: "starter steps spawn" and out: "claim_and_run env spawn ctxs board_name limit task_id claim_lock w = (r, w')"
  shows "l_trace w' = l_trace w \<or>
    (\<exists>c es. cl_id c = task_id \<and> l_trace w' = l_trace w @ ClaimTaken claim_lock c # es \<and> settled_claim steps ctxs board_name c (l_board w') es r)"
proof -
  obtain got w1 where claim: "lane_statement env (l_claim env task_id claim_lock) w = (got, w1)" by (rule prod.exhaust)
  note t = lane_statement_traceD [OF claim]
  show ?thesis
  proof (cases "\<exists>c. got = Inr (Some c)")
    case False
    with out claim t show ?thesis by (cases got) (auto simp: claim_and_run_def split: option.split_asm)
  next
    case True
    then obtain c where "got = Inr (Some c)" by blast
    with out claim have "run_claimed env spawn ctxs board_name limit (c\<lparr>cl_id := task_id\<rparr>)
        (traced (ClaimTaken claim_lock (c\<lparr>cl_id := task_id\<rparr>)) w1) = (r, w')"
      by (simp add: claim_and_run_def Let_def)
    from run_claimed_trace [OF starter this] t show ?thesis by (intro disjI2 exI [of _ "c\<lparr>cl_id := task_id\<rparr>"]) auto
  qed
qed

text \<open>Every dispatch leaves the trace as it is, or claims the chosen card and settles the claim.\<close>

lemma dispatch_trace:
  assumes starter: "starter steps (spawn_of env call)" and out: "dispatch_pending_rework env call w = (r, w')" and dry: "\<not> dc_dry_run call"
  shows "l_trace w' = l_trace w \<or>
    (\<exists>task_id claim_lock c es. chosen env call w task_id claim_lock \<and> cl_id c = task_id \<and> l_trace w' = l_trace w @ ClaimTaken claim_lock c # es \<and>
       settled_claim steps (dc_contexts call) (dc_board call) c (l_board w') es r)"
proof (cases "\<exists>most limit. l_lock env = LockFree \<and> max_in_progress (l_config env) = Inr most \<and> failure_limit (l_config env) = Inr limit")
  case False
  with out show ?thesis
    by (cases "max_in_progress (l_config env)"; cases "failure_limit (l_config env)"; cases "l_lock env")
      (auto simp: dispatch_pending_rework_def dispatch_pending_rework_locked_def)
next
  case True
  then obtain most limit where free: "l_lock env = LockFree" and most: "max_in_progress (l_config env) = Inr most"
    and limit: "failure_limit (l_config env) = Inr limit" by blast
  obtain r1 w1 where q1: "query env running_count w = (r1, w1)" by (rule prod.exhaust)
  note l1 = query_looked [OF looked_0 q1]
  show ?thesis
  proof (cases "\<exists>running. r1 = Inr running \<and> running < most")
    case False
    with out free most limit q1 l1 show ?thesis
      by (cases r1) (auto simp: dispatch_pending_rework_def dispatch_pending_rework_locked_def looked_def split: if_splits)
  next
    case True
    then obtain running where running: "r1 = Inr running" "running < most" by blast
    obtain r2 w2 where q2: "query env (pending_rework_tasks env (dc_tasks call) (dc_normalized call)) w1 = (r2, w2)" by (rule prod.exhaust)
    note l2 = query_looked [OF conjunct1 [OF l1] q2]
    show ?thesis
    proof (cases "\<exists>row rows. r2 = Inr (row # rows)")
      case False
      with out free most limit q1 running q2 l2 show ?thesis
        by (cases r2) (auto simp: dispatch_pending_rework_def dispatch_pending_rework_locked_def looked_def split: list.split_asm)
    next
      case True
      then obtain row rows where rows: "r2 = Inr (row # rows)" by blast
      have card: "dispatch_card env call limit row w2 = (r, w')"
        using out free most limit q1 running q2 rows by (simp add: dispatch_pending_rework_def dispatch_pending_rework_locked_def)
      have "row \<in> set (pending_rework_tasks env (dc_tasks call) (dc_normalized call) (seen_board env w 1))"
        using l2 rows by (metis One_nat_def list.set_intros(1))
      then have row: "row \<in> set (tasks (seen_board env w 1)) \<and> t_status row = ''ready'' \<and> t_claim_lock row = None \<and>
          rework_pending (seen_board env w 1) (dc_normalized call) (t_id row)"
        by (auto simp: pending_rework_tasks_def)
      have below: "running_count (seen_board env w 0) < most" using l1 running by simp
      have "looked env w 2 w2" using l2 by (simp add: numeral_2_eq_2)
      from dispatch_card_cases [OF this card dry]
      show ?thesis
      proof (elim disjE exE conjE)
        fix w3 x
        assume quiet: "l_trace w3 = l_trace w" and x: "dc_contexts call (t_id row) = Some (Context x)"
          "latest_rework_event (t_id row) (seen_board env w 2) = Some (cx_event x)"
          "invalid_event (dc_contexts call) (seen_board env w 3) (t_id row) (Some (cx_event x)) = None"
          and own: "ownership_refused (dc_contexts call) (dc_owners call) (t_id row) = None"
          and run: "claim_and_run env (spawn_of env call) (dc_contexts call) (dc_board call) limit (t_id row)
            (rework_dispatch_claim_lock (t_id row) (Some (cx_event x))) w3 = (r, w')"
        have "chosen env call w (t_id row) (rework_dispatch_claim_lock (t_id row) (Some (cx_event x)))"
          unfolding chosen_def using free dry most below row x ownership_free [OF own x(1)] by fast
        with claim_and_run_trace [OF starter run] quiet show ?thesis by metis
      qed simp
    qed
  qed
qed

section \<open>A dry run\<close>

definition only_looked :: "lane_env \<Rightarrow> lane \<Rightarrow> lane \<Rightarrow> bool" where
  "only_looked env w w' \<longleftrightarrow> (\<exists>k. looked env w k w')"

lemma only_looked_refl [intro]: "only_looked env w w"
  using looked_0 only_looked_def by blast

lemma only_looked_query: "only_looked env w w1 \<Longrightarrow> only_looked env w (snd (query env f w1))"
  using query_looked by (metis only_looked_def prod.collapse)

lemma only_looked_then:
  assumes "only_looked env w (snd m)" and "\<And>x w1. only_looked env w w1 \<Longrightarrow> only_looked env w (snd (k x w1))"
  shows "only_looked env w (snd (and_then m k))"
  using assms by (cases m; cases "fst m") auto

lemmas looking = only_looked_query only_looked_then

lemma only_looked_resolve:
  "only_looked env w w1 \<Longrightarrow> only_looked env w (snd (resolve_rework_assignee env row preferred True w1))"
  by (auto simp: resolve_rework_assignee_def split: option.split intro!: looking)

lemma only_looked_card:
  "only_looked env w w1 \<Longrightarrow> dc_dry_run call \<Longrightarrow> only_looked env w (snd (dispatch_card env call limit row w1))"
  by (auto simp: dispatch_card_def Let_def with_assignee_def split: option.split sum.split intro!: looking only_looked_resolve)

lemma dry_dispatch_looks:
  assumes "dispatch_pending_rework env call w = (r, w')" and "dc_dry_run call"
  shows "only_looked env w w'"
proof -
  from assms(2) have "only_looked env w (snd (dispatch_pending_rework env call w))"
    by (auto simp: dispatch_pending_rework_def dispatch_pending_rework_locked_def Let_def
        split: dispatch_lock.split sum.split list.split intro!: looking only_looked_card)
  with assms(1) show ?thesis by simp
qed

lemma dispatch_trace_any:
  assumes starter: "starter steps (spawn_of env call)" and out: "dispatch_pending_rework env call w = (r, w')"
  shows "l_trace w' = l_trace w \<or>
    (\<exists>task_id claim_lock c es. chosen env call w task_id claim_lock \<and> cl_id c = task_id \<and> l_trace w' = l_trace w @ ClaimTaken claim_lock c # es \<and>
       settled_claim steps (dc_contexts call) (dc_board call) c (l_board w') es r)"
  using dispatch_trace [OF assms] dry_dispatch_looks [OF out] by (auto simp: only_looked_def looked_def)

lemma cleanup_no_claim: "cleanup es \<Longrightarrow> ClaimTaken claim_lock c \<notin> set es"
  by (auto simp: cleanup_def)

lemma cleanup_start: "cleanup es \<Longrightarrow> WorkerStarted c workspace pid \<notin> set es"
  by (auto simp: cleanup_def)

lemma settled_claimE:
  assumes "settled_claim steps ctxs board_name c b es r"
  obtains (idle) "cleanup es" "\<And>replies. r = Inr replies \<Longrightarrow> released es \<or> (\<exists>m. replies = reclaim_failed (cl_id c) m)"
  | (started) workspace started pre rest where
      "es = [ProvenanceWritten ''claimed'', LabelsClaimed] @ pre @ WorkerStarted c workspace started # rest"
      "steps c workspace pre" "cleanup pre" "cleanup rest"
      "\<And>replies. r = Inr replies \<Longrightarrow> released rest \<or> rest = [ProvenanceWritten ''spawned''] \<and>
         phase_recorded ctxs c ''spawned'' b \<and> (\<exists>pid. replies = spawned_reply board_name c pid)"
  using assms unfolding settled_claim_def by blast

lemma started_under_claim:
  assumes "starter steps (spawn_of env call)" and "dispatch_pending_rework env call w = (r, w')"
    and "WorkerStarted c workspace pid \<in> set (drop (length (l_trace w)) (l_trace w'))"
  shows "\<exists>claim_lock pre rest. chosen env call w (cl_id c) claim_lock \<and>
    l_trace w' = l_trace w @ [ClaimTaken claim_lock c, ProvenanceWritten ''claimed'', LabelsClaimed] @ pre @ WorkerStarted c workspace pid # rest \<and>
    steps c workspace pre \<and> cleanup pre \<and> cleanup rest"
proof -
  from assms(3) dispatch_trace_any [OF assms(1,2)] obtain claim_lock c1 es where
    chosen: "chosen env call w (cl_id c1) claim_lock" and t: "l_trace w' = l_trace w @ ClaimTaken claim_lock c1 # es" and
    s: "settled_claim steps (dc_contexts call) (dc_board call) c1 (l_board w') es r" by auto
  from assms(3) t have start: "WorkerStarted c workspace pid \<in> set es" by simp
  from s show ?thesis
  proof (cases rule: settled_claimE)
    case idle
    with start cleanup_start show ?thesis by blast
  next
    case (started ws p pre rest)
    with start cleanup_start have "c1 = c" "ws = workspace" "p = pid" by auto
    with started chosen t show ?thesis by auto
  qed
qed

lemma no_spawner: "dc_spawn call = None \<Longrightarrow> starter (\<lambda>_ _ pre. pre = []) (spawn_of env call)"
  using default_starter by (simp add: spawn_of_def)

section \<open>The promises\<close>



lemma nat_digits_length: "n < 10 ^ k \<Longrightarrow> length (nat_digits n) \<le> Suc k"
proof (induction k arbitrary: n)
  case 0
  then show ?case by (simp add: nat_digits.simps)
next
  case (Suc k)
  then have "n div 10 < 10 ^ k" by (simp add: div_less_iff_less_mult mult.commute)
  from Suc.IH [OF this] show ?case by (subst nat_digits.simps) simp
qed

text \<open>Numbers of a database column are read back from their text.\<close>

lemma written_int_self:
  assumes "0 \<le> i" and "i < 10 ^ 19"
  shows "written_int (JInt i) i"
proof -
  have "nat i < 10 ^ 19" using assms(2) by (simp add: nat_less_iff)
  then have "length (nat_digits (nat i)) \<le> 4300" using nat_digits_length [of "nat i" 19] by simp
  from parse_int_nat_digits [OF this] assms(1) show ?thesis
    by (simp add: written_int_def py_int_def py_str_def int_str_def)
qed

lemma dispatch_provenance_trusted:
  assumes "0 \<le> at" "at < 10 ^ 19" "0 < round_no" "round_no < 10 ^ 19" and "dget_py p ''rework_round'' = JInt round_no"
    and "phase \<in> {''claimed'', ''spawned''}"
  shows "round_provenance (cl_id c) at round_no (dispatch_payload c run_no (p, at, kind) phase pid) = Inr True"
  using assms written_int_self [of at] written_int_self [of round_no]
  by (auto simp: round_provenance_def dispatch_payload_def dget_py_def dget_or_def unhashable_def)


text \<open>
  A dry run of the dispatch changes nothing: it asks nothing of GitHub, takes no claim, and the board is what
  others made of it between its looks.
\<close>
theorem dry_dispatch_writes_nothing:
  assumes "dispatch_pending_rework env call w = (r, w')" and "dc_dry_run call"
  shows "l_calls w' = l_calls w \<and> l_trace w' = l_trace w \<and>
    (\<exists>k. l_board w' = (case k of 0 \<Rightarrow> l_board w | Suc j \<Rightarrow> seen_board env w j))"
  using dry_dispatch_looks [OF assms] by (auto simp: only_looked_def looked_def)

section \<open>Example\<close>

text \<open>One ready card with a round, one claim, one start; the labels of the pull request are as they should be.\<close>

definition pending_payload :: dict where
  "pending_payload = [(''repository'', JStr ''octo/app''), (''issue_number'', JInt 42), (''pr_number'', JInt 7),
     (''rework_round'', JInt 1), (''head_sha'', JStr (replicate 40 CHR ''a''))]"

definition pending_card :: task where
  "pending_card = (sample_task ''t1'' ''ready'')\<lparr>t_claim_lock := None, t_assignee := Some ''dev''\<rparr>"

definition pending_board :: board where
  "pending_board = \<lparr>tasks = [pending_card], task_links = [],
     events = [\<lparr>e_task = ''t1'', e_run = None, e_kind = ''github_pr_rework'', e_payload = JsonText (JObj pending_payload), e_at = 10\<rparr>],
     task_runs = [], comments = []\<rparr>"

definition started_run :: run where
  "started_run = \<lparr>run_id = 5, run_task = ''t1'', run_outcome = None, run_summary = None, run_status = None,
     run_error = None, run_metadata = NoText, run_started = 20, run_ended = None, run_profile = None, run_pid = None\<rparr>"

definition taken_card :: claimed where
  "taken_card = \<lparr>cl_id = ''t1'', cl_run = Some 5, cl_lock = Some ''github-edge-rework:t1:1'', cl_assignee = Some ''dev'',
     cl_worktree = True, cl_branch = None\<rparr>"

definition labels_net :: edge_net where
  "labels_net = \<lparr>reply_to = (\<lambda>_ _. Answered 200 ''l'' []),
     read_json = (\<lambda>_. Inr (JArr [JObj [(''name'', JStr ''agent-working'')]])), local_time = (\<lambda>_. None)\<rparr>"

definition sample_lane_env :: lane_env where
  "sample_lane_env = \<lparr>l_net = labels_net, l_others = (\<lambda>_ b. b), l_error = (\<lambda>_. None), l_now = int, l_created = (\<lambda>_. 1),
     l_config = [], l_lock = LockFree, l_profile = (\<lambda>_. True),
     l_claim = (\<lambda>_ _ b. (Inr (Some taken_card), b\<lparr>task_runs := [started_run]\<rparr>)),
     l_reclaim = (\<lambda>_ _ b. (Inr (), b)), l_failure = (\<lambda>_ _ _ b. (Inr False, b)), l_workspace = (\<lambda>_. Inr (''/w'', None)),
     l_set_workspace = (\<lambda>_ _ b. (Inr (), b)), l_set_branch = (\<lambda>_ _ b. (Inr (), b)), l_start = (\<lambda>_ _. Inr (Some 77)),
     l_set_pid = (\<lambda>_ _ b. (Inr (), b))\<rparr>"

definition sample_dispatch :: "bool \<Rightarrow> dispatch_call" where
  "sample_dispatch dry_run = \<lparr>dc_board = ''app'', dc_dry_run = dry_run, dc_tasks = None, dc_normalized = [],
     dc_contexts = (\<lambda>task_id. if task_id = ''t1'' then Some (Context \<lparr>cx_repository = ''octo/app'', cx_issue = 42, cx_pr = open_pull,
       cx_labels = [], cx_event = (pending_payload, 10, ''github_pr_rework''), cx_implicit = False, cx_open = 1\<rparr>) else None),
     dc_owners = [], dc_spawn = None\<rparr>"

definition sample_lane :: lane where
  "sample_lane = \<lparr>l_board = pending_board, l_step = 0, l_calls = [], l_trace = [], l_refused = None\<rparr>"

definition dispatched :: "bool \<Rightarrow> dict list laned" where
  "dispatched dry_run = dispatch_pending_rework sample_lane_env (sample_dispatch dry_run) sample_lane"

lemma sample_statement:
  "lane_statement sample_lane_env f w = (case f (l_board w) of (r, b) \<Rightarrow> (r, w\<lparr>l_board := b, l_step := l_step w + 1\<rparr>))"
  by (simp add: lane_statement_def sample_lane_env_def split: prod.split)

lemma sample_query: "query sample_lane_env f w = (Inr (f (l_board w)), w\<lparr>l_step := l_step w + 1\<rparr>)"
  by (simp add: query_def sample_statement)

lemma sample_fields:
  "t_id pending_card = ''t1''" "t_assignee pending_card = Some ''dev''" "l_board sample_lane = pending_board" "l_step sample_lane = 0"
  "l_trace sample_lane = []" "l_calls sample_lane = []" "l_lock sample_lane_env = LockFree" "l_profile sample_lane_env = (\<lambda>_. True)"
  "dc_normalized (sample_dispatch d) = []" "dc_dry_run (sample_dispatch d) = d" "dc_tasks (sample_dispatch d) = None"
  "dc_owners (sample_dispatch d) = []" "dc_spawn (sample_dispatch d) = None" "dc_board (sample_dispatch d) = ''app''"
  "l_claim sample_lane_env = (\<lambda>_ _ b. (Inr (Some taken_card), b\<lparr>task_runs := [started_run]\<rparr>))"
  by (simp_all add: pending_card_def sample_lane_def sample_task_def sample_lane_env_def sample_dispatch_def)

lemma sample_checks:
  "max_in_progress (l_config sample_lane_env) = Inr 1" "failure_limit (l_config sample_lane_env) = Inr None"
  "running_count pending_board = 0" "pending_rework_tasks sample_lane_env None [] pending_board = [pending_card]"
  "latest_rework_event ''t1'' pending_board = Some (pending_payload, 10, ''github_pr_rework'')"
  "governing_claim_event (dc_contexts (sample_dispatch False)) False ''t1'' (Some (pending_payload, 10, ''github_pr_rework'')) =
     Inr (Some (pending_payload, 10, ''github_pr_rework''))"
  "invalid_event (dc_contexts (sample_dispatch False)) pending_board ''t1'' (Some (pending_payload, 10, ''github_pr_rework'')) = None"
  "rework_dispatch_claim_lock ''t1'' (Some (pending_payload, 10, ''github_pr_rework'')) = ''github-edge-rework:t1:1''"
  "ownership_refused (dc_contexts (sample_dispatch False)) [] ''t1'' = None" "usable_assignee (Some ''dev'') = Some ''dev''"
  by code_simp+

lemma sample_contexts: "dc_contexts (sample_dispatch d) = dc_contexts (sample_dispatch False)"
  by (simp add: sample_dispatch_def)

lemmas sample_steps = dispatched_def dispatch_pending_rework_def dispatch_pending_rework_locked_def dispatch_card_def Let_def
  resolve_rework_assignee_def with_assignee_def sample_query sample_checks sample_fields

definition claimed_lane :: lane where
  "claimed_lane = sample_lane\<lparr>l_board := pending_board\<lparr>task_runs := [started_run]\<rparr>, l_step := Suc (Suc (Suc (Suc (Suc 0)))),
     l_trace := [ClaimTaken ''github-edge-rework:t1:1'' taken_card]\<rparr>"

lemma dispatched_claim:
  "dispatched False = run_claimed sample_lane_env (default_spawn sample_lane_env) (dc_contexts (sample_dispatch False)) ''app'' None taken_card claimed_lane"
  by (simp add: sample_steps claim_and_run_def sample_statement spawn_of_def claimed_lane_def traced_def taken_card_def)

lemma dispatched_trace: "l_trace (snd (dispatched False)) = [ClaimTaken ''github-edge-rework:t1:1'' taken_card,
    ProvenanceWritten ''claimed'', LabelsClaimed, WorkerStarted taken_card ''/w'' (Some 77), ProvenanceWritten ''spawned'']"
  unfolding dispatched_claim by code_simp

lemma dispatched_reply: "fst (dispatched False) = Inr (spawned_reply ''app'' taken_card (Some 77))"
  unfolding dispatched_claim by code_simp

lemma dispatched_runs: "runs_since (l_board (snd (dispatched False))) ''t1'' 9 = [started_run]"
  unfolding dispatched_claim by code_simp

lemma dispatched_graph: "specialist_graph_delivery_run (l_board (snd (dispatched False))) ''t1'' 10 1 = None"
  unfolding dispatched_claim by code_simp

lemma sample_lane_trace [simp]: "l_trace sample_lane = []" "l_calls sample_lane = []"
  by (simp_all add: sample_lane_def)




theorem dry_dispatch_writes_nothing_witness:
  "l_calls (snd (dispatched True)) = [] \<and> l_trace (snd (dispatched True)) = [] \<and>
   fst (dispatched True) = Inr (waiting ''t1'' ''rework_spawn_predicted'' [(''assignee'', JStr ''dev''), (''board'', JStr ''app'')])"
proof -
  have "dispatch_pending_rework sample_lane_env (sample_dispatch True) sample_lane = (fst (dispatched True), snd (dispatched True))"
    by (simp add: dispatched_def)
  moreover have "dc_dry_run (sample_dispatch True)" by (simp add: sample_dispatch_def)
  moreover have "fst (dispatched True) = Inr (waiting ''t1'' ''rework_spawn_predicted'' [(''assignee'', JStr ''dev''), (''board'', JStr ''app'')])"
    by (simp add: sample_steps sample_contexts [of True])
  ultimately show ?thesis using dry_dispatch_writes_nothing by (metis sample_lane_trace)
qed

section \<open>Where a claim can be lost\<close>

text \<open>What setting the workspace raises leaves the dispatch at once: nothing of the claim is given back or recorded.\<close>

lemma unset_workspace_keeps_claim:
  assumes "l_workspace env c = Inr placed" and "lane_statement env (l_set_workspace env (cl_id c) (fst placed)) w = (Inl e, w1)"
  shows "fst (start_claimed env spawn ctxs board_name limit c w) = Inl e \<and> l_trace (snd (start_claimed env spawn ctxs board_name limit c w)) = l_trace w"
  using assms lane_statement_traceD [OF assms(2)] by (cases placed) (simp add: start_claimed_def)

text \<open>When the second record fails, the claim is released while its worker runs.\<close>

lemma lost_record_frees_running_worker:
  "l_trace (snd (run_claimed (sample_lane_env\<lparr>l_error := (\<lambda>k. if k = 4 then Some ''OperationalError'' else None)\<rparr>)
      (default_spawn sample_lane_env) (dc_contexts (sample_dispatch False)) ''app'' None taken_card sample_lane)) =
   [ProvenanceWritten ''claimed'', LabelsClaimed, WorkerStarted taken_card ''/w'' (Some 77), FailureRecorded ''spawn_failed'']"
  by code_simp

end
