(* ===== verification/Spec2Isabelle.thy ===== *)
theory Spec2Isabelle
  imports RouterGuarantees RouterWakes LeaseGuarantees RegistryGuarantees CompletionGuarantees CardGuarantees
    ContextGuarantees TransitionGuarantees ReworkGuarantees BlockedGuarantees TerminalGuarantees DeliveryGuarantees
    BlockKindGuarantees BindingGuarantees LifecycleGuarantees AdmissionGuarantees RespawnGuard
    ActuatorGuarantees DispatchGuarantees
begin

text \<open>
  A verification development for the control plane that turns GitHub events and n8n schedules into
  work for agents on a Kanban board, and the state of that work back into GitHub.

  How the parts interact. GitHub's webhooks reach the router, which records deliveries and queues scopes
  of repositories; an agent claims a scope through it and works. The lease controller starts and pauses the
  agent through the actuator. The registry binds repositories to boards and checkouts. The intake writes
  an Issue as a card. The edge sync reads the cards of a board and GitHub and moves cards between their
  states. Agents act through tools; hooks judge each call before it runs.

  Foundations (PyBase, PyNumber): JSON values and dictionaries in insertion order, Python's truth, equality, text and
  number conversions, exceptions as values, and the interfaces dictionary, codec and durable store as
  locales, interpreted on the model's own dictionaries, scopes and files.

  The router (automation/n8n/github-router/router.py). RouterState and RouterScope are the durable scope
  queue: state file, normaliser, recovery, enqueue, claim, acknowledge, requeue, status. RouterDelivery
  is the bounded map of deliveries. GitHubHttp and RouterWeb are the HTTP clients with their retry
  loops, secrets and URL checks, RouterWebhooks the webhook reconciliation, RouterEvents and RouterHandler the
  parsing and handling of deliveries and control requests. RouterLiveness is router_entrypoint.py: delayed
  wakes, their timers, the periodic intake. RouterOps, RouterProtocol and RouterGuarantees take
  the queue operations as steps of one machine that refines an abstract protocol, with the guarantees over all
  interleavings (exclusive leases, final acknowledgements, bounded retries). RouterRecovery,
  RouterInvariant and RouterSafety show what recovery does to arbitrary files and to files the router wrote;
  RouterIngress and RouterWakes hold the guarantees of the handlers and of the overlay.

  The lease controller (automation/n8n/lease-controller/controller.py): LeaseController is its state file, the
  serialised actuator call with its retries and the threads as a step machine; LeaseGuarantees shows which
  lease owns the state. The registry (automation/n8n/scripts/repository_registry.py): RepoRegistry and
  RegistryGuarantees.

  The edge sync (edge/kanban-github-sync.py). EdgeClient is its GitHub client, IntakeCard the card as the
  intake (automation/hermes/scripts/github-agent-ready-kanban-intake.py) writes it and the edge reads
  it, EdgeCompletion the decision whether an Issue is done, EdgeContext the region of a card with review
  feedback, EdgeStore the board database, EdgeTransitions the transactions that move one card,
  EdgeRework the decision whether a label opens a rework round, EdgeBlocked and EdgeReconcile the
  reconciliation of a blocked card. EdgeRuns finds the run that delivered a rework round, EdgeDelivery its
  completion marker and the contract the delivery must meet, EdgeDispatch chooses the one card whose round a worker
  is started for, claims it, and gives the claim back when a step fails. TerminalGraph, TerminalProvenance and
  TerminalConvergence close a whole stale graph of cards. The theories named Guarantees hold their properties; TransitionGuarantees also holds the
  frame every transaction is proved in (what others wrote, or this change and one event).

  Resource admission (edge/kanban_resource_admission.py, edge/kanban_dynamic_resource_core.py). ResourcePolicy is
  the configuration, the patterns and the backend of a profile, ResourceSlots a worker process and how it is stopped,
  ResourceAdmission the scan of all boards, ResourceGates the gates around the core's claim and the rework
  dispatch, RespawnGuard the waiver of the guard against duplicate work. AdmissionGuarantees shows that the
  count covers what is in use while others move, hence the capacity, and whose worker may be signalled.

  The intake actuator (automation/hermes/actuator/github_intake_actuator.py, edge_sync_timeout.py). ActuatorRuns is a
  child process with its time and output limits, the diagnostics that hide tokens, and the edge's and the intake's run,
  ActuatorHandler the requests, each two steps around the lock, and ActuatorGuarantees that children
  run one at a time, are authorised and end, and that the router's events are understood.

  The hooks (automation/hermes/scripts). GuardShell and BlockKindGuard are kanban-block-kind-guard-core.py, which
  asks a kind of every block call, hidden in a shell command or not. WorkspaceBinding is the structured path of
  kanban-workspace-binding-guard.py, which creates a specialist card and reads its binding back.
  LifecycleGuard is kanban-block-kind-guard.py, the command that runs them all in order.
\<close>

text \<open>
  Conventions. A string is a list of code points below 256; wider literals of the source are their UTF-8
  bytes. A text column that holds JSON is what \<open>json.loads\<close> gives for it. The id of an event is its place in
  the table. Exceptions are values; what a handler does not catch ends the operation with that value.
  A thread lock makes an operation one step. A database transaction is a sequence of numbered statements:
  before each statement up to the first that locks, other processes write what they like (\<open>others\<close>), and
  any statement and the commit may fail (\<open>sql_error\<close>). One walk over a graph of cards sees one state. Resource
  admission looks at the host (databases, processes, locks) in numbered looks, before each of which others move; one look
  sees one database and the processes it names.

  Parameters, for what is not the repository's code: clocks, random tokens, the environment and home
  directories, the JSON reader and writer of a request, HMAC, urlparse, the answers of the network as functions
  of the calls made so far, the file system, git, sqlite rows as records, starting a process,
  the specialist policy's verdict, and Hermes' \<open>create_task\<close>, its transactions and locks. What is assumed of
  one stands as a hypothesis of the theorem that needs it.

  Bounds. No definition runs on fuel. The loops of the source that count (ten pages of a listing, seven
  actuator calls, eight unwrapped shells, three attempts of a scope) count in the model; the others recurse
  over their data, or over a measure: the two walks over parent links over the cards not yet seen and the rows
  or cards that still wait, the wait for a process over the time left, of which each poll sleeps a part, the drain of
  a child's output over the room left in its limit and the streams still open.

  Not modelled: what follows the delivery of a rework round, operator attention, the board pass that strings the
  reconciliations together and its process lock, the edge's entrypoint, the reports of resource admission, the admission of
  worktrees, the intake's choice of Issues, the specialist completion guard, the terminal path
  of the workspace binding, the Hermes plugins, reports, migrations, deployment and shell scripts. Log lines and
  metrics are left out.
\<close>

end
